(* ===== verification/Prelude.thy ===== *)
theory Prelude
  imports Complex_Main "HOL-Library.AList"
begin

text \<open>
  The prelude of the development: the error sum every fallible function of the program
  returns, the loops over lists that stop at the first exception, Python dictionaries as
  association lists in insertion order, and the generic facts about lists and dictionaries
  that the component theories share.

  A Python function that may raise is a HOL function into \<open>'a res\<close>: \<open>Inl e\<close> is the raised
  exception, \<open>Inr x\<close> the returned value. A method that mutates its object takes the object
  and returns the new one.
\<close>

named_theorems res_simps \<open>evaluation of the result type\<close>
named_theorems dict_simps \<open>lookup after update and delete in a dictionary\<close>

section \<open>Exceptions\<close>

text \<open>The exception classes that the modelled code raises or catches.\<close>

datatype exc_class =
    ValueError | TypeError | OverflowError | KeyError | IndexError | AttributeError
  | RuntimeErr | OSErr | ZeroDivisionError
  | AlertEventCapacityError | ConfigSecurityError
  | ConfigLoadError | ConfigConflictError | ConfigCommitError
  | ActivityHistoryIncompleteError
  | MarketAdapterError | MarketConfigurationError | MarketHTTPError | UnsupportedFeatureError
  | RequestCancelled | RequestDeadlineExceeded
  | IdempotencyConflictError | MarketConfigConflictError
  | WorkerStateError | WorkerBusyError | WorkerInterrupted
  | PolymarketResponseError | HttpResponseTooLargeError | TransportTimeout

datatype exc = Exc (exc_kind: exc_class) (exc_text: string)

type_synonym 'a res = "exc + 'a"

text \<open>The direct superclass among the modelled classes, as the class statements give it.\<close>

fun exc_parent :: "exc_class \<Rightarrow> exc_class option" where
  "exc_parent AlertEventCapacityError = Some ValueError"
| "exc_parent ConfigSecurityError = Some ValueError"
| "exc_parent ConfigLoadError = Some RuntimeErr"
| "exc_parent ConfigConflictError = Some RuntimeErr"
| "exc_parent ConfigCommitError = Some OSErr"
| "exc_parent ActivityHistoryIncompleteError = Some RuntimeErr"
| "exc_parent MarketAdapterError = Some RuntimeErr"
| "exc_parent MarketConfigurationError = Some MarketAdapterError"
| "exc_parent MarketHTTPError = Some MarketAdapterError"
| "exc_parent UnsupportedFeatureError = Some MarketAdapterError"
| "exc_parent IdempotencyConflictError = Some RuntimeErr"
| "exc_parent MarketConfigConflictError = Some RuntimeErr"
| "exc_parent WorkerStateError = Some RuntimeErr"
| "exc_parent WorkerBusyError = Some RuntimeErr"
| "exc_parent WorkerInterrupted = Some RuntimeErr"
| "exc_parent RequestDeadlineExceeded = Some TransportTimeout"
| "exc_parent _ = None"

text \<open>\<open>except c:\<close> catches \<open>c\<close> and its subclasses; the hierarchy is at most three deep.\<close>

definition exc_isa :: "exc_class \<Rightarrow> exc_class \<Rightarrow> bool" where
  "exc_isa c d \<longleftrightarrow> c = d \<or> exc_parent c = Some d
     \<or> (case exc_parent c of None \<Rightarrow> False | Some p \<Rightarrow> exc_parent p = Some d)"

abbreviation raise :: "exc_class \<Rightarrow> string \<Rightarrow> 'a res" where
  "raise c m \<equiv> Inl (Exc c m)"

abbreviation value_error :: "string \<Rightarrow> 'a res" where
  "value_error m \<equiv> Inl (Exc ValueError m)"

section \<open>Sequencing of fallible steps\<close>

definition rbind :: "'a res \<Rightarrow> ('a \<Rightarrow> 'b res) \<Rightarrow> 'b res" where
  "rbind m f = (case m of Inl e \<Rightarrow> Inl e | Inr x \<Rightarrow> f x)"

lemma rbind_Inl [simp, res_simps]: "rbind (Inl e) f = Inl e"
  by (simp add: rbind_def)

lemma rbind_Inr [simp, res_simps]: "rbind (Inr x) f = f x"
  by (simp add: rbind_def)

lemma rbind_eq_Inr: "rbind m f = Inr y \<longleftrightarrow> (\<exists>x. m = Inr x \<and> f x = Inr y)"
  by (cases m) auto

lemma rbind_eq_Inl: "rbind m f = Inl e \<longleftrightarrow> m = Inl e \<or> (\<exists>x. m = Inr x \<and> f x = Inl e)"
  by (cases m) auto

lemma rbind_InrE:
  assumes "rbind m f = Inr y"
  obtains x where "m = Inr x" "f x = Inr y"
  using assms by (auto simp: rbind_eq_Inr)

lemma rbind_pair_InrE:
  assumes "rbind m (case_prod f) = Inr z"
  obtains x y where "m = Inr (x, y)" "f x y = Inr z"
  using assms by (auto simp: rbind_eq_Inr)

lemma if_error_InrE:
  assumes "(if b then Inl e else x) = Inr y"
  obtains "\<not> b" "x = Inr y"
  using assms by (cases b) auto

lemma option_error_InrE:
  assumes "(case v of None \<Rightarrow> Inl e | Some w \<Rightarrow> f w) = Inr y"
  obtains w where "v = Some w" "f w = Inr y"
  using assms by (cases v) auto

lemma rbind_if_Inl: "rbind (if c then Inl e else Inr x) f = (if c then Inl e else f x)"
  by simp

lemma rbind_cong [fundef_cong]:
  "m = m' \<Longrightarrow> (\<And>x. m' = Inr x \<Longrightarrow> f x = g x) \<Longrightarrow> rbind m f = rbind m' g"
  by (cases m') auto

text \<open>\<open>require c e\<close>: the early exit \<open>if not c: raise e\<close>.\<close>

definition require :: "bool \<Rightarrow> exc \<Rightarrow> unit res" where
  "require c e = (if c then Inr () else Inl e)"

lemma require_eq_Inr [simp, res_simps]: "require c e = Inr u \<longleftrightarrow> c"
  by (auto simp: require_def)

lemma require_True [simp, res_simps]: "require True e = Inr ()"
  by (simp add: require_def)

lemma require_False [simp, res_simps]: "require False e = Inl e"
  by (simp add: require_def)

text \<open>A list comprehension whose element expression may raise.\<close>

fun rmap :: "('a \<Rightarrow> 'b res) \<Rightarrow> 'a list \<Rightarrow> 'b list res" where
  "rmap f [] = Inr []"
| "rmap f (x # xs) = rbind (f x) (\<lambda>y. rbind (rmap f xs) (\<lambda>ys. Inr (y # ys)))"

lemma rmap_cong [fundef_cong]:
  "xs = ys \<Longrightarrow> (\<And>x. x \<in> set ys \<Longrightarrow> f x = g x) \<Longrightarrow> rmap f xs = rmap g ys"
proof (induction ys arbitrary: xs)
  case (Cons y ys)
  then have "rmap f ys = rmap g ys" by simp
  with Cons.prems show ?case by simp
qed simp

lemma rmap_Inr_length: "rmap f xs = Inr ys \<Longrightarrow> length ys = length xs"
  by (induction xs arbitrary: ys) (auto simp: rbind_eq_Inr)

lemma rmap_Inr_iff: "rmap f xs = Inr ys \<longleftrightarrow> list_all2 (\<lambda>x y. f x = Inr y) xs ys"
proof (induction xs arbitrary: ys)
  case (Cons x xs)
  then show ?case by (cases ys) (auto simp: rbind_eq_Inr)
qed auto

lemma rmap_Inr_set: "rmap f xs = Inr ys \<Longrightarrow> y \<in> set ys \<Longrightarrow> \<exists>x \<in> set xs. f x = Inr y"
  by (induction xs arbitrary: ys) (auto simp: rbind_eq_Inr)

lemma rmap_map_Inr:
  "(\<And>x. x \<in> set xs \<Longrightarrow> f (g x) = Inr (h x)) \<Longrightarrow> rmap f (map g xs) = Inr (map h xs)"
  by (induction xs) auto

text \<open>A \<open>for\<close> loop whose body updates a state and may raise.\<close>

fun rfold :: "('a \<Rightarrow> 's \<Rightarrow> 's res) \<Rightarrow> 'a list \<Rightarrow> 's \<Rightarrow> 's res" where
  "rfold f [] s = Inr s"
| "rfold f (x # xs) s = rbind (f x s) (rfold f xs)"

lemma rfold_append: "rfold f (xs @ ys) s = rbind (rfold f xs s) (rfold f ys)"
proof (induction xs arbitrary: s)
  case (Cons x xs)
  then show ?case by (cases "f x s") auto
qed simp

lemma rfold_invariant:
  assumes "rfold f xs s = Inr t" and "P s"
    and "\<And>x s s'. x \<in> set xs \<Longrightarrow> P s \<Longrightarrow> f x s = Inr s' \<Longrightarrow> P s'"
  shows "P t"
  using assms
proof (induction xs arbitrary: s)
  case (Cons x xs)
  from Cons.prems(1) obtain s' where s': "f x s = Inr s'" "rfold f xs s' = Inr t"
    by (auto simp: rbind_eq_Inr)
  from Cons.prems(3)[OF _ Cons.prems(2) s'(1)] have "P s'" by simp
  then show ?case
    by (rule Cons.IH[OF s'(2)]) (use Cons.prems(3) in auto)
qed simp

section \<open>Dictionaries\<close>

text \<open>
  A Python \<open>dict\<close> is an association list in insertion order. Storing under a present key
  keeps its place; a new key goes to the end; this is \<open>AList.update\<close>.
\<close>

type_synonym ('k, 'v) dict = "('k \<times> 'v) list"

abbreviation dget :: "('k, 'v) dict \<Rightarrow> 'k \<Rightarrow> 'v option" where
  "dget \<equiv> map_of"

abbreviation dset :: "'k \<Rightarrow> 'v \<Rightarrow> ('k, 'v) dict \<Rightarrow> ('k, 'v) dict" where
  "dset \<equiv> AList.update"

abbreviation dpop :: "'k \<Rightarrow> ('k, 'v) dict \<Rightarrow> ('k, 'v) dict" where
  "dpop \<equiv> AList.delete"

abbreviation keys :: "('k, 'v) dict \<Rightarrow> 'k list" where
  "keys d \<equiv> map fst d"

definition dict_ok :: "('k, 'v) dict \<Rightarrow> bool" where
  "dict_ok d \<longleftrightarrow> distinct (keys d)"

definition has_key :: "('k, 'v) dict \<Rightarrow> 'k \<Rightarrow> bool" where
  "has_key d k \<longleftrightarrow> dget d k \<noteq> None"

text \<open>\<open>d.get(k, default)\<close>\<close>

definition dget_or :: "('k, 'v) dict \<Rightarrow> 'k \<Rightarrow> 'v \<Rightarrow> 'v" where
  "dget_or d k v = (case dget d k of None \<Rightarrow> v | Some x \<Rightarrow> x)"

text \<open>\<open>d.update(e)\<close>\<close>

fun dupdate :: "('k, 'v) dict \<Rightarrow> ('k, 'v) dict \<Rightarrow> ('k, 'v) dict" where
  "dupdate d [] = d"
| "dupdate d ((k, v) # e) = dupdate (dset k v d) e"

lemma dget_dset [simp, dict_simps]: "dget (dset k v d) k' = (if k' = k then Some v else dget d k')"
  by (simp add: update_conv')

lemma dget_dpop [simp, dict_simps]: "dget (dpop k d) k' = (if k' = k then None else dget d k')"
  by (simp add: delete_conv')

lemma dict_ok_Nil [simp]: "dict_ok []"
  by (simp add: dict_ok_def)

lemma dict_ok_dset [simp]: "dict_ok d \<Longrightarrow> dict_ok (dset k v d)"
  by (simp add: dict_ok_def distinct_update)

lemma dict_ok_dpop [simp]: "dict_ok d \<Longrightarrow> dict_ok (dpop k d)"
  by (simp add: dict_ok_def distinct_delete)

lemma dict_ok_dupdate [simp]: "dict_ok d \<Longrightarrow> dict_ok (dupdate d e)"
  by (induction d e rule: dupdate.induct) auto

lemma dict_ok_filter [simp]: "dict_ok d \<Longrightarrow> dict_ok (filter P d)"
  unfolding dict_ok_def by (rule distinct_map_filter)

lemma dget_in_keys: "dget d k = Some v \<Longrightarrow> k \<in> set (keys d)"
  by (metis map_of_SomeD fst_conv image_eqI list.set_map)

lemma has_key_iff: "has_key d k \<longleftrightarrow> k \<in> set (keys d)"
  by (simp add: has_key_def map_of_eq_None_iff)

lemma dict_ok_mem: "dict_ok d \<Longrightarrow> (k, v) \<in> set d \<longleftrightarrow> dget d k = Some v"
  by (simp add: dict_ok_def)

lemma keys_dset: "set (keys (dset k v d)) = insert k (set (keys d))"
  by (induction d) auto

lemma length_dset: "length (dset k v d) = (if has_key d k then length d else Suc (length d))"
  by (induction d) (auto simp: has_key_def)

lemma length_dpop_le: "length (dpop k d) \<le> length d"
  by (simp add: AList.delete_eq)

section \<open>Generic facts on lists\<close>

text \<open>\<open>list(dict.fromkeys(xs))\<close> and the \<open>if x not in out: out.append(x)\<close> loop keep first
  occurrences.\<close>

fun add_new :: "'a list \<Rightarrow> 'a list \<Rightarrow> 'a list" where
  "add_new acc [] = acc"
| "add_new acc (x # xs) = add_new (if x \<in> set acc then acc else acc @ [x]) xs"

abbreviation uniq :: "'a list \<Rightarrow> 'a list" where
  "uniq xs \<equiv> add_new [] xs"

lemma set_add_new [simp]: "set (add_new acc xs) = set acc \<union> set xs"
  by (induction acc xs rule: add_new.induct) auto

lemma distinct_add_new [simp]: "distinct acc \<Longrightarrow> distinct (add_new acc xs)"
  by (induction acc xs rule: add_new.induct) auto

lemma add_new_distinct: "distinct (acc @ xs) \<Longrightarrow> add_new acc xs = acc @ xs"
  by (induction acc xs rule: add_new.induct) auto

lemma uniq_distinct [simp]: "distinct xs \<Longrightarrow> uniq xs = xs"
  using add_new_distinct[of "[]" xs] by simp

lemma length_add_new: "length (add_new acc xs) \<le> length acc + length xs"
proof (induction acc xs rule: add_new.induct)
  case (2 acc x xs)
  then show ?case by (auto split: if_splits)
qed simp

text \<open>\<open>next((x for x in xs if p(x)), None)\<close> is \<open>List.find\<close>.\<close>

lemma find_SomeD: "List.find P xs = Some x \<Longrightarrow> P x \<and> x \<in> set xs"
  by (auto simp: find_Some_iff)

lemma find_NoneD: "List.find P xs = None \<Longrightarrow> x \<in> set xs \<Longrightarrow> \<not> P x"
  by (auto simp: find_None_iff)

text \<open>Replacing the first element that satisfies a test: the mutation of an object found in a
  list.\<close>

fun update_first :: "('a \<Rightarrow> bool) \<Rightarrow> ('a \<Rightarrow> 'a) \<Rightarrow> 'a list \<Rightarrow> 'a list" where
  "update_first P f [] = []"
| "update_first P f (x # xs) = (if P x then f x # xs else x # update_first P f xs)"

lemma length_update_first [simp]: "length (update_first P f xs) = length xs"
  by (induction xs) auto

lemma map_update_first: "(\<And>x. g (f x) = g x) \<Longrightarrow> map g (update_first P f xs) = map g xs"
  by (induction xs) auto

lemma set_update_first: "set (update_first P f xs) \<subseteq> set xs \<union> f ` {x \<in> set xs. P x}"
  by (induction xs) auto

lemma update_first_other: "x \<in> set xs \<Longrightarrow> \<not> P x \<Longrightarrow> x \<in> set (update_first P f xs)"
  by (induction xs) auto

lemma update_first_mem: "List.find P xs = Some x \<Longrightarrow> f x \<in> set (update_first P f xs)"
  by (induction xs) (auto split: if_splits)

lemma find_update_first:
  "(\<And>x. P x \<Longrightarrow> P (f x)) \<Longrightarrow> List.find P (update_first P f xs) = map_option f (List.find P xs)"
  by (induction xs) auto

lemma length_filter_notin_le:
  "length (filter (\<lambda>x. f x \<notin> A) xs) \<le> length xs"
  by (rule length_filter_le)

lemma sorted_map_filter: "sorted (map f xs) \<Longrightarrow> sorted (map f (filter P xs))"
  by (rule sorted_filter)

end
