(* ===== verification/PyFloat.thy ===== *)
theory PyFloat
  imports Prelude "HOL-Library.Log_Nat"
begin

text \<open>
  Python's \<open>float\<close>: IEEE 754 binary64 with round-to-nearest, ties to even. A finite float is
  the rational it stands for; every arithmetic result is the exact rational rounded by
  \<open>fl\<close>. The sign of zero is not modelled: \<open>-0.0 == 0.0\<close> in Python, the program never
  divides by a zero float without a guard and never reads the sign bit. NaN compares false
  with everything, as in Python.

  The facts the components use: rounding is monotone, leaves representable numbers alone, and
  keeps signs; comparisons with NaN are false.
\<close>

section \<open>Rounding\<close>

text \<open>The exponent of the leading bit: \<open>2 powi k \<le> q < 2 powi (k + 1)\<close> for positive \<open>q\<close>.\<close>

definition lead_exp :: "rat \<Rightarrow> int" where
  "lead_exp q =
     (if 1 \<le> q then bitlen \<lfloor>q\<rfloor> - 1 else - bitlen (\<lceil>1 / q\<rceil> - 1))"

text \<open>Nearest integer, ties to even.\<close>

definition round_even :: "rat \<Rightarrow> int" where
  "round_even x =
     (let f = \<lfloor>x\<rfloor>; r = x - of_int f in
      if r < 1 / 2 then f else if 1 / 2 < r then f + 1 else if even f then f else f + 1)"

text \<open>The exponent of the last place of the binade of \<open>q\<close>; \<open>-1074\<close> for subnormal numbers.\<close>

definition ulp_exp :: "rat \<Rightarrow> int" where
  "ulp_exp q = max (-1074) (lead_exp q - 52)"

definition fl_pos :: "rat \<Rightarrow> rat" where
  "fl_pos q = of_int (round_even (q / 2 powi (ulp_exp q))) * 2 powi (ulp_exp q)"

definition fl :: "rat \<Rightarrow> rat" where
  "fl q = (if q = 0 then 0 else if 0 < q then fl_pos q else - fl_pos (- q))"

lemma bitlen_pow:
  assumes "0 < n"
  shows "(2 :: rat) powi (bitlen n - 1) \<le> of_int n" and "of_int n < (2 :: rat) powi (bitlen n)"
proof -
  have b: "2 ^ nat (bitlen n - 1) \<le> n" "n < 2 ^ nat (bitlen n)" "0 < bitlen n"
    using bitlen_bounds[OF assms] bitlen_eq_zero_iff[of n] bitlen_nonneg[of n] assms by auto
  then have "(of_int (2 ^ nat (bitlen n - 1)) :: rat) \<le> of_int n" by (simp only: of_int_le_iff)
  then show "(2 :: rat) powi (bitlen n - 1) \<le> of_int n" using b(3) by (simp add: power_int_def)
  have "(of_int n :: rat) < of_int (2 ^ nat (bitlen n))" using b(2) by (simp only: of_int_less_iff)
  then show "of_int n < (2 :: rat) powi (bitlen n)" using b(3) by (simp add: power_int_def)
qed

lemma bitlen_pow_succ: "0 < n \<Longrightarrow> of_int n + 1 \<le> (2 :: rat) powi (bitlen n)"
proof -
  assume "0 < n"
  then have "n + 1 \<le> 2 ^ nat (bitlen n)" using bitlen_bounds[of n] by simp
  then have "(of_int (n + 1) :: rat) \<le> of_int (2 ^ nat (bitlen n))" by (simp only: of_int_le_iff)
  then show ?thesis using bitlen_nonneg[of n] by (simp add: power_int_def)
qed

lemma lead_exp_bounds:
  assumes "0 < q"
  shows "2 powi (lead_exp q) \<le> q" and "q < 2 powi (lead_exp q + 1)"
proof -
  have "2 powi (lead_exp q) \<le> q \<and> q < 2 powi (lead_exp q + 1)"
  proof (cases "1 \<le> q")
    case True
    have n: "0 < \<lfloor>q\<rfloor>" "of_int \<lfloor>q\<rfloor> \<le> q" "q < of_int \<lfloor>q\<rfloor> + 1" using True by linarith+
    have "2 powi (bitlen \<lfloor>q\<rfloor> - 1) \<le> q" using bitlen_pow(1)[OF n(1)] n(2) by (rule order_trans)
    moreover have "q < 2 powi (bitlen \<lfloor>q\<rfloor>)" using n(3) bitlen_pow_succ[OF n(1)] by linarith
    ultimately show ?thesis using True by (simp add: lead_exp_def)
  next
    case False
    define n where "n = \<lceil>1 / q\<rceil> - 1"
    have inv: "1 < 1 / q" using assms False by simp
    have n: "0 < n" "1 / q \<le> of_int n + 1" "of_int n < 1 / q"
      using inv unfolding n_def by linarith+
    have a: "1 / q \<le> 2 powi (bitlen n)" using n(2) bitlen_pow_succ[OF n(1)] by (rule order_trans)
    have b: "2 powi (bitlen n - 1) < 1 / q" using bitlen_pow(1)[OF n(1)] n(3) by (rule order.strict_trans1)
    have "inverse (2 powi (bitlen n)) \<le> q"
      using a assms by (simp add: field_simps)
    moreover have "q < inverse (2 powi (bitlen n - 1))"
      using b assms by (simp add: field_simps)
    moreover have L: "lead_exp q = - bitlen n" "lead_exp q + 1 = - (bitlen n - 1)"
      using False by (auto simp: lead_exp_def n_def)
    ultimately show ?thesis by (simp only: L power_int_minus)
  qed
  then show "2 powi (lead_exp q) \<le> q" "q < 2 powi (lead_exp q + 1)" by simp_all
qed

lemma powi2_pos [simp]: "0 < (2 :: rat) powi k"
  by simp

lemma powi2_le_iff: "(2 :: rat) powi i \<le> 2 powi j \<longleftrightarrow> i \<le> j"
  by (meson linorder_not_le one_less_numeral_iff power_int_increasing power_int_strict_increasing semiring_norm(76) less_imp_le)

lemma powi2_less_iff: "(2 :: rat) powi i < 2 powi j \<longleftrightarrow> i < j"
  by (meson linorder_not_le powi2_le_iff)

lemma lead_exp_unique:
  assumes "0 < q" "2 powi k \<le> q" "q < 2 powi (k + 1)"
  shows "lead_exp q = k"
proof -
  have "2 powi k < (2 :: rat) powi (lead_exp q + 1)"
    using assms lead_exp_bounds(2)[OF assms(1)] by linarith
  moreover have "(2 :: rat) powi (lead_exp q) < 2 powi (k + 1)"
    using assms lead_exp_bounds(1)[OF assms(1)] by linarith
  ultimately show ?thesis by (simp add: powi2_less_iff)
qed

lemma lead_exp_mono: "0 < p \<Longrightarrow> p \<le> q \<Longrightarrow> lead_exp p \<le> lead_exp q"
proof -
  assume *: "0 < p" "p \<le> q"
  have "(2 :: rat) powi (lead_exp p) < 2 powi (lead_exp q + 1)"
    using * lead_exp_bounds(1)[of p] lead_exp_bounds(2)[of q] by linarith
  then show ?thesis by (simp add: powi2_less_iff)
qed

lemma round_even_mono: "x \<le> y \<Longrightarrow> round_even x \<le> round_even y"
proof -
  assume xy: "x \<le> y"
  then have f: "\<lfloor>x\<rfloor> \<le> \<lfloor>y\<rfloor>" by (rule floor_mono)
  show ?thesis
  proof (cases "\<lfloor>x\<rfloor> = \<lfloor>y\<rfloor>")
    case True
    with xy show ?thesis by (auto simp: round_even_def Let_def)
  next
    case False
    with f have "\<lfloor>x\<rfloor> + 1 \<le> \<lfloor>y\<rfloor>" by simp
    moreover have "round_even x \<le> \<lfloor>x\<rfloor> + 1" "\<lfloor>y\<rfloor> \<le> round_even y"
      by (auto simp: round_even_def Let_def)
    ultimately show ?thesis by linarith
  qed
qed

lemma round_even_of_int [simp]: "round_even (of_int n) = n"
  by (simp add: round_even_def Let_def)

lemma round_even_ge: "of_int n \<le> x \<Longrightarrow> n \<le> round_even x"
  using round_even_mono[of "of_int n" x] by simp

lemma round_even_le: "x \<le> of_int n \<Longrightarrow> round_even x \<le> n"
  using round_even_mono[of x "of_int n"] by simp

lemma round_even_error: "\<bar>of_int (round_even x) - x\<bar> \<le> 1 / 2"
proof -
  have "of_int \<lfloor>x\<rfloor> \<le> x" "x < of_int \<lfloor>x\<rfloor> + 1" by linarith+
  then show ?thesis by (auto simp: round_even_def Let_def abs_le_iff)
qed

lemma powi2_split: "(2 :: rat) powi (i + j) = 2 powi i * 2 powi j"
  by (simp add: power_int_add)

lemma powi2_nat_of_int: "0 \<le> k \<Longrightarrow> (2 :: rat) powi k = of_int (2 ^ nat k)"
  by (simp add: power_int_def)

lemma fl_pos_le_pow:
  assumes "p \<le> 2 powi k" and "ulp_exp p \<le> k"
  shows "fl_pos p \<le> 2 powi k"
proof -
  define e where "e = ulp_exp p"
  have k: "(2 :: rat) powi k = of_int (2 ^ nat (k - e)) * 2 powi e"
    using powi2_split[of "k - e" e] powi2_nat_of_int[of "k - e"] assms(2) by (simp add: e_def)
  have "p / 2 powi e \<le> of_int (2 ^ nat (k - e))"
    using assms(1) by (simp add: k pos_divide_le_eq)
  then have "round_even (p / 2 powi e) \<le> 2 ^ nat (k - e)" by (rule round_even_le)
  then have "(of_int (round_even (p / 2 powi e)) :: rat) \<le> of_int (2 ^ nat (k - e))"
    by (simp only: of_int_le_iff)
  then have "of_int (round_even (p / 2 powi e)) * 2 powi e \<le> (of_int (2 ^ nat (k - e)) :: rat) * 2 powi e"
    by (rule mult_right_mono) simp
  then show ?thesis unfolding k fl_pos_def e_def .
qed

lemma fl_pos_ge_pow:
  assumes "2 powi k \<le> p" and "ulp_exp p \<le> k"
  shows "2 powi k \<le> fl_pos p"
proof -
  define e where "e = ulp_exp p"
  have k: "(2 :: rat) powi k = of_int (2 ^ nat (k - e)) * 2 powi e"
    using powi2_split[of "k - e" e] powi2_nat_of_int[of "k - e"] assms(2) by (simp add: e_def)
  have "of_int (2 ^ nat (k - e)) \<le> p / 2 powi e"
    using assms(1) by (simp add: k pos_le_divide_eq)
  then have "2 ^ nat (k - e) \<le> round_even (p / 2 powi e)" by (rule round_even_ge)
  then have "(of_int (2 ^ nat (k - e)) :: rat) \<le> of_int (round_even (p / 2 powi e))"
    by (simp only: of_int_le_iff)
  then have "(of_int (2 ^ nat (k - e)) :: rat) * 2 powi e \<le> of_int (round_even (p / 2 powi e)) * 2 powi e"
    by (rule mult_right_mono) simp
  then show ?thesis unfolding k fl_pos_def e_def .
qed

lemma fl_pos_nonneg: "0 < q \<Longrightarrow> 0 \<le> fl_pos q"
  using round_even_ge[of 0 "q / 2 powi ulp_exp q"] by (simp add: fl_pos_def)

lemma fl_pos_mono:
  assumes "0 < p" "p \<le> q"
  shows "fl_pos p \<le> fl_pos q"
proof (cases "ulp_exp p = ulp_exp q")
  case True
  have "round_even (p / 2 powi ulp_exp q) \<le> round_even (q / 2 powi ulp_exp q)"
    by (rule round_even_mono) (use assms in \<open>simp add: divide_right_mono\<close>)
  then show ?thesis by (simp add: fl_pos_def True mult_right_mono)
next
  case False
  have "lead_exp p \<le> lead_exp q" using assms by (rule lead_exp_mono)
  with False have less: "ulp_exp p < ulp_exp q" "lead_exp p + 1 \<le> lead_exp q"
    and q: "ulp_exp q = lead_exp q - 52" by (auto simp: ulp_exp_def max_def split: if_splits)
  have "0 < q" using assms by simp
  have "p \<le> 2 powi (lead_exp q)"
    using lead_exp_bounds(2)[OF assms(1)] less(2) powi2_le_iff[of "lead_exp p + 1" "lead_exp q"]
    by linarith
  then have "fl_pos p \<le> 2 powi (lead_exp q)"
    by (rule fl_pos_le_pow) (use less q in simp)
  also have "\<dots> \<le> fl_pos q"
    by (rule fl_pos_ge_pow[OF lead_exp_bounds(1)[OF \<open>0 < q\<close>]]) (simp add: q)
  finally show ?thesis .
qed

theorem fl_mono: "p \<le> q \<Longrightarrow> fl p \<le> fl q"
proof -
  assume pq: "p \<le> q"
  consider "0 < p" | "p = 0" | "p < 0" "q < 0" | "p < 0" "0 \<le> q" by linarith
  then show ?thesis
  proof cases
    case 1 with pq fl_pos_mono[of p q] show ?thesis by (simp add: fl_def)
  next
    case 2 with pq fl_pos_nonneg[of q] show ?thesis by (auto simp: fl_def)
  next
    case 3 with pq fl_pos_mono[of "- q" "- p"] show ?thesis by (simp add: fl_def)
  next
    case 4 with fl_pos_nonneg[of "- p"] fl_pos_nonneg[of q] show ?thesis by (auto simp: fl_def)
  qed
qed

lemma fl_0 [simp]: "fl 0 = 0"
  by (simp add: fl_def)

lemma fl_minus [simp]: "fl (- q) = - fl q"
  by (simp add: fl_def)

lemma fl_nonneg [simp]: "0 \<le> q \<Longrightarrow> 0 \<le> fl q"
  using fl_mono[of 0 q] by simp

lemma fl_nonpos [simp]: "q \<le> 0 \<Longrightarrow> fl q \<le> 0"
  using fl_mono[of q 0] by simp

lemma fl_abs: "fl \<bar>q\<bar> = \<bar>fl q\<bar>"
proof (cases "0 \<le> q")
  case False
  then have "fl q \<le> 0" by simp
  then have "\<bar>fl q\<bar> = - fl q" "\<bar>q\<bar> = - q" using False by linarith+
  then show ?thesis by (simp only: fl_minus)
qed simp

section \<open>Representable numbers\<close>

text \<open>A rational is a binary64 number when rounding leaves it alone.\<close>

definition f64 :: "rat \<Rightarrow> bool" where
  "f64 q \<longleftrightarrow> fl q = q"

lemma fl_pos_dyadic:
  assumes "0 < q" "q = of_int m * 2 powi e" "m \<le> 2 ^ 53" "-1074 \<le> e"
  shows "fl_pos q = q"
proof -
  define u where "u = ulp_exp q"
  have "\<exists>n. q / 2 powi u = of_int n"
  proof (cases "u \<le> e")
    case True
    then have "(2 :: rat) powi e = of_int (2 ^ nat (e - u)) * 2 powi u"
      using powi2_split[of "e - u" u] powi2_nat_of_int[of "e - u"] by simp
    then have "q / 2 powi u = of_int (m * 2 ^ nat (e - u))"
      using assms(2) by simp
    then show ?thesis ..
  next
    case False
    then have u: "u = lead_exp q - 52" using assms(4) by (simp add: u_def ulp_exp_def max_def split: if_splits)
    have "(of_int m :: rat) \<le> of_int (2 ^ 53)" using assms(3) by (simp only: of_int_le_iff)
    then have "q \<le> 2 powi 53 * 2 powi e"
      unfolding assms(2) by (intro mult_right_mono) (simp_all add: power_int_def)
    then have "(2 :: rat) powi (lead_exp q) \<le> 2 powi (53 + e)"
      using lead_exp_bounds(1)[OF assms(1)] powi2_split[of 53 e] by simp
    then have ue: "u = e + 1" and le: "lead_exp q = 53 + e"
      using False u by (simp_all add: powi2_le_iff)
    have "(2 :: rat) powi 53 * 2 powi e \<le> of_int m * 2 powi e"
      using lead_exp_bounds(1)[OF assms(1)] powi2_split[of 53 e] le assms(2) by simp
    then have "(2 :: rat) powi 53 \<le> of_int m"
      by (rule mult_right_le_imp_le) simp
    then have "(of_int (2 ^ 53) :: rat) \<le> of_int m" by (simp add: power_int_def)
    then have "m = 2 ^ 53" using assms(3) by (simp only: of_int_le_iff)
    then have "q / 2 powi u = of_int (2 ^ 52)"
      using assms(2) powi2_split[of e 1] by (simp add: ue)
    then show ?thesis ..
  qed
  then obtain n where "q / 2 powi u = of_int n" ..
  then have "of_int (round_even (q / 2 powi u)) = q / 2 powi u" by (simp only: round_even_of_int)
  then show ?thesis unfolding fl_pos_def u_def by (metis powi2_pos less_irrefl nonzero_eq_divide_eq)
qed

theorem f64_dyadic:
  assumes "q = of_int m * 2 powi e" "\<bar>m\<bar> \<le> 2 ^ 53" "-1074 \<le> e"
  shows "f64 q"
proof -
  consider "0 < q" | "q = 0" | "q < 0" by linarith
  then show ?thesis
  proof cases
    case 1 with assms fl_pos_dyadic[of q m e] show ?thesis by (simp add: f64_def fl_def)
  next
    case 2 then show ?thesis by (simp add: f64_def)
  next
    case 3 with assms fl_pos_dyadic[of "- q" "- m" e] show ?thesis by (simp add: f64_def fl_def)
  qed
qed

lemma f64_of_int: "\<bar>n\<bar> \<le> 2 ^ 53 \<Longrightarrow> f64 (of_int n)"
  by (rule f64_dyadic[of _ n 0]) auto

lemma fl_pos_dyadic_form:
  assumes "0 < q"
  shows "\<exists>m e. fl_pos q = of_int m * 2 powi e \<and> \<bar>m\<bar> \<le> 2 ^ 53 \<and> -1074 \<le> e"
proof (intro exI conjI)
  let ?e = "ulp_exp q" and ?m = "round_even (q / 2 powi ulp_exp q)"
  show "fl_pos q = of_int ?m * 2 powi ?e" by (simp add: fl_pos_def)
  show "-1074 \<le> ?e" by (simp add: ulp_exp_def)
  have "q < 2 powi (53 + ?e)"
    using lead_exp_bounds(2)[OF assms] powi2_le_iff[of "lead_exp q + 1" "53 + ?e"]
    by (simp add: ulp_exp_def max_def split: if_splits) 
  then have "q / 2 powi ?e \<le> of_int (2 ^ 53)"
    by (simp add: pos_divide_le_eq powi2_split)
  then have "?m \<le> 2 ^ 53" by (rule round_even_le)
  moreover have "0 \<le> ?m" by (rule round_even_ge) (use assms in simp)
  ultimately show "\<bar>?m\<bar> \<le> 2 ^ 53" by simp
qed

theorem f64_fl [simp]: "f64 (fl q)"
proof -
  consider "0 < q" | "q = 0" | "0 < - q" by linarith
  then show ?thesis
  proof cases
    case 1
    from fl_pos_dyadic_form[OF this] obtain m e
      where "fl_pos q = of_int m * 2 powi e" "\<bar>m\<bar> \<le> 2 ^ 53" "-1074 \<le> e" by blast
    with 1 show ?thesis by (simp add: fl_def f64_dyadic)
  next
    case 2 then show ?thesis by (simp add: f64_def)
  next
    case 3
    from fl_pos_dyadic_form[OF this] obtain m e
      where *: "fl_pos (- q) = of_int m * 2 powi e" "\<bar>m\<bar> \<le> 2 ^ 53" "-1074 \<le> e" by blast
    then have "f64 (- fl_pos (- q))" by (intro f64_dyadic[of _ "- m" e]) auto
    with 3 show ?thesis by (simp add: fl_def)
  qed
qed

lemma f64_minus [simp]: "f64 (- q) = f64 q"
  by (simp add: f64_def)

lemma f64_0 [simp]: "f64 0"
  by (simp add: f64_def)

text \<open>An upper bound that is itself a float survives rounding.\<close>

lemma fl_le: "q \<le> b \<Longrightarrow> f64 b \<Longrightarrow> fl q \<le> b"
  using fl_mono[of q b] by (simp add: f64_def)

lemma fl_ge: "b \<le> q \<Longrightarrow> f64 b \<Longrightarrow> b \<le> fl q"
  using fl_mono[of b q] by (simp add: f64_def)

lemma fl_numeral: "(numeral n :: int) \<le> 2 ^ 53 \<Longrightarrow> fl (numeral n) = numeral n"
  using f64_of_int[of "numeral n"] by (simp add: f64_def)

section \<open>The float values and their operations\<close>

datatype pyfloat = Fin rat | PInf | NInf | NaN

text \<open>Rounding an exact result; an overflow gives an infinity.\<close>

definition to_float :: "rat \<Rightarrow> pyfloat" where
  "to_float q = (let r = fl q in if 2 ^ 1024 \<le> r then PInf else if r \<le> - (2 ^ 1024) then NInf else Fin r)"

fun float_ok :: "pyfloat \<Rightarrow> bool" where
  "float_ok (Fin q) = (f64 q \<and> \<bar>q\<bar> < 2 ^ 1024)"
| "float_ok _ = True"

fun isfinite :: "pyfloat \<Rightarrow> bool" where
  "isfinite (Fin _) = True"
| "isfinite _ = False"

fun flt :: "pyfloat \<Rightarrow> pyfloat \<Rightarrow> bool" where
  "flt (Fin a) (Fin b) = (a < b)"
| "flt (Fin _) PInf = True"
| "flt NInf (Fin _) = True"
| "flt NInf PInf = True"
| "flt _ _ = False"

fun feq :: "pyfloat \<Rightarrow> pyfloat \<Rightarrow> bool" where
  "feq (Fin a) (Fin b) = (a = b)"
| "feq PInf PInf = True"
| "feq NInf NInf = True"
| "feq _ _ = False"

definition fle :: "pyfloat \<Rightarrow> pyfloat \<Rightarrow> bool" where
  "fle x y = (flt x y \<or> feq x y)"

fun fneg :: "pyfloat \<Rightarrow> pyfloat" where
  "fneg (Fin a) = Fin (- a)"
| "fneg PInf = NInf"
| "fneg NInf = PInf"
| "fneg NaN = NaN"

fun fabs :: "pyfloat \<Rightarrow> pyfloat" where
  "fabs (Fin a) = Fin \<bar>a\<bar>"
| "fabs PInf = PInf"
| "fabs NInf = PInf"
| "fabs NaN = NaN"

fun fadd :: "pyfloat \<Rightarrow> pyfloat \<Rightarrow> pyfloat" where
  "fadd (Fin a) (Fin b) = to_float (a + b)"
| "fadd NaN _ = NaN"
| "fadd _ NaN = NaN"
| "fadd PInf NInf = NaN"
| "fadd NInf PInf = NaN"
| "fadd PInf _ = PInf"
| "fadd _ PInf = PInf"
| "fadd NInf _ = NInf"
| "fadd _ NInf = NInf"

definition fsub :: "pyfloat \<Rightarrow> pyfloat \<Rightarrow> pyfloat" where
  "fsub x y = fadd x (fneg y)"

text \<open>An infinity with the sign of a non-zero finite factor; zero times infinity is NaN.\<close>

definition inf_times :: "rat \<Rightarrow> bool \<Rightarrow> pyfloat" where
  "inf_times a pos = (if a = 0 then NaN else if (0 < a) = pos then PInf else NInf)"

fun fmul :: "pyfloat \<Rightarrow> pyfloat \<Rightarrow> pyfloat" where
  "fmul (Fin a) (Fin b) = to_float (a * b)"
| "fmul NaN _ = NaN"
| "fmul _ NaN = NaN"
| "fmul (Fin a) PInf = inf_times a True"
| "fmul (Fin a) NInf = inf_times a False"
| "fmul PInf (Fin b) = inf_times b True"
| "fmul NInf (Fin b) = inf_times b False"
| "fmul PInf PInf = PInf"
| "fmul PInf NInf = NInf"
| "fmul NInf PInf = NInf"
| "fmul NInf NInf = PInf"

text \<open>Division by a zero float raises in Python.\<close>

fun fdiv :: "pyfloat \<Rightarrow> pyfloat \<Rightarrow> pyfloat res" where
  "fdiv x (Fin b) =
     (if b = 0 then raise ZeroDivisionError ''float division by zero''
      else Inr (case x of Fin a \<Rightarrow> to_float (a / b) | NaN \<Rightarrow> NaN
                | PInf \<Rightarrow> inf_times b True | NInf \<Rightarrow> inf_times b False))"
| "fdiv _ NaN = Inr NaN"
| "fdiv (Fin _) _ = Inr (Fin 0)"
| "fdiv _ _ = Inr NaN"

text \<open>\<open>max(a, b)\<close> and \<open>min(a, b)\<close>: Python keeps the first argument unless the second one is
  strictly better, so a NaN in first place is kept.\<close>

definition fmax :: "pyfloat \<Rightarrow> pyfloat \<Rightarrow> pyfloat" where
  "fmax a b = (if flt a b then b else a)"

definition fmin :: "pyfloat \<Rightarrow> pyfloat \<Rightarrow> pyfloat" where
  "fmin a b = (if flt b a then b else a)"

text \<open>\<open>float(n)\<close> of an integer, \<open>int(x)\<close> of a float, \<open>x.is_integer()\<close>, \<open>round(x, digits)\<close>.\<close>

definition float_of_int :: "int \<Rightarrow> pyfloat res" where
  "float_of_int n = (case to_float (of_int n) of Fin q \<Rightarrow> Inr (Fin q)
     | _ \<Rightarrow> raise OverflowError ''int too large to convert to float'')"

definition rat_trunc :: "rat \<Rightarrow> int" where
  "rat_trunc q = (if 0 \<le> q then \<lfloor>q\<rfloor> else \<lceil>q\<rceil>)"

fun int_of_float :: "pyfloat \<Rightarrow> int res" where
  "int_of_float (Fin q) = Inr (rat_trunc q)"
| "int_of_float NaN = value_error ''cannot convert float NaN to integer''"
| "int_of_float _ = raise OverflowError ''cannot convert float infinity to integer''"

fun is_integer :: "pyfloat \<Rightarrow> bool" where
  "is_integer (Fin q) = (of_int \<lfloor>q\<rfloor> = q)"
| "is_integer _ = False"

fun fround :: "pyfloat \<Rightarrow> nat \<Rightarrow> pyfloat" where
  "fround (Fin q) n = to_float (of_int (round_even (q * 10 ^ n)) / 10 ^ n)"
| "fround x _ = x"

text \<open>\<open>math.isclose(a, b, rel_tol=0, abs_tol=t)\<close>\<close>

definition isclose_abs :: "pyfloat \<Rightarrow> pyfloat \<Rightarrow> pyfloat \<Rightarrow> bool" where
  "isclose_abs a b t = (if feq a b then True else if a \<in> {PInf, NInf} \<or> b \<in> {PInf, NInf} then False
     else fle (fabs (fsub b a)) t)"

text \<open>A decimal literal of the source.\<close>

definition flit :: "rat \<Rightarrow> pyfloat" where
  "flit q = to_float q"

section \<open>Laws\<close>

lemma fle_Fin [simp]: "fle (Fin a) (Fin b) = (a \<le> b)"
  by (auto simp: fle_def)

lemma fle_NaN [simp]: "\<not> fle NaN x" "\<not> fle x NaN"
  by (cases x; simp add: fle_def)+

lemma flt_NaN [simp]: "\<not> flt NaN x" "\<not> flt x NaN"
  by (cases x; simp)+

lemma fle_infs [simp]: "fle (Fin a) PInf" "\<not> fle (Fin a) NInf" "\<not> fle PInf (Fin a)" "fle NInf (Fin a)"
  "fle PInf PInf" "fle NInf NInf" "fle NInf PInf" "\<not> fle PInf NInf"
  by (simp_all add: fle_def)

lemma isfinite_iff: "isfinite x \<longleftrightarrow> (\<exists>q. x = Fin q)"
  by (cases x) auto

lemma isfiniteE [elim]: "isfinite x \<Longrightarrow> (\<And>q. x = Fin q \<Longrightarrow> P) \<Longrightarrow> P"
  by (cases x) auto

lemma flt_irrefl [simp]: "\<not> flt x x"
  by (cases x) auto

lemma flt_asym: "flt x y \<Longrightarrow> \<not> flt y x"
  by (cases x; cases y) auto

lemma not_flt_iff: "isfinite x \<Longrightarrow> isfinite y \<Longrightarrow> \<not> flt x y \<longleftrightarrow> fle y x"
  by (auto simp: isfinite_iff)

lemma fle_trans: "fle x y \<Longrightarrow> fle y z \<Longrightarrow> fle x z"
  by (cases x; cases y; cases z) auto

lemma flt_fle_trans: "flt x y \<Longrightarrow> fle y z \<Longrightarrow> flt x z"
  by (cases x; cases y; cases z) auto

lemma feq_Fin_eq: "feq x (Fin a) \<longleftrightarrow> x = Fin a"
  by (cases x) auto

lemma float_ok_to_float [simp]: "float_ok (to_float q)"
  by (auto simp: to_float_def Let_def abs_less_iff)

lemma to_float_id: "f64 q \<Longrightarrow> \<bar>q\<bar> < 2 ^ 1024 \<Longrightarrow> to_float q = Fin q"
  by (auto simp: to_float_def Let_def f64_def abs_less_iff)

lemma to_float_float: "float_ok (Fin q) \<Longrightarrow> to_float q = Fin q"
  by (simp add: to_float_id)

lemma to_float_Fin: "to_float q = Fin r \<longleftrightarrow> r = fl q \<and> \<bar>fl q\<bar> < 2 ^ 1024"
  by (auto simp: to_float_def Let_def abs_less_iff)

lemma to_float_not_NaN [simp]: "to_float q \<noteq> NaN"
  by (simp add: to_float_def Let_def)

lemma to_float_mono: "p \<le> q \<Longrightarrow> fle (to_float p) (to_float q)"
  using fl_mono[of p q] by (auto simp: to_float_def Let_def)

lemma pow_1024_gt: "(2 :: rat) ^ 60 < 2 ^ 1024"
  by (rule power_strict_increasing) auto

lemma to_float_of_int: "\<bar>n\<bar> \<le> 2 ^ 53 \<Longrightarrow> to_float (of_int n) = Fin (of_int n)"
proof (rule to_float_id)
  assume n: "\<bar>n\<bar> \<le> 2 ^ 53"
  then show "f64 (of_int n)" by (rule f64_of_int)
  have "(of_int \<bar>n\<bar> :: rat) \<le> of_int (2 ^ 53)" using n by (simp only: of_int_le_iff)
  also have "(of_int (2 ^ 53) :: rat) < 2 ^ 60" by simp
  finally show "\<bar>of_int n\<bar> < (2 :: rat) ^ 1024" using pow_1024_gt by simp
qed

lemma to_float_numeral: "(numeral n :: int) \<le> 2 ^ 53 \<Longrightarrow> to_float (numeral n) = Fin (numeral n)"
  using to_float_of_int[of "numeral n"] by simp

lemma to_float_0 [simp]: "to_float 0 = Fin 0"
  using to_float_of_int[of 0] by simp

lemma to_float_1 [simp]: "to_float 1 = Fin 1"
  using to_float_of_int[of 1] by simp

lemma to_float_minus: "to_float (- q) = fneg (to_float q)"
proof -
  have "\<not> ((2 :: rat) ^ 1024 \<le> r \<and> r \<le> - (2 ^ 1024))" for r
    using zero_less_power[of "2 :: rat" 1024] by linarith
  then show ?thesis by (auto simp: to_float_def Let_def)
qed

text \<open>A dyadic number with a small significand is exact: the form in which witnesses evaluate.\<close>

lemma to_float_dyadic:
  assumes "q = of_int m / 2 ^ k" "\<bar>m\<bar> \<le> 2 ^ 53" "k \<le> 1000"
  shows "to_float q = Fin q"
proof (rule to_float_id)
  show "f64 q" by (rule f64_dyadic[of _ m "- int k"]) (use assms in \<open>simp_all add: power_int_minus divide_inverse\<close>)
  have m: "(of_int \<bar>m\<bar> :: rat) \<le> of_int (2 ^ 53)" using assms(2) by (simp only: of_int_le_iff)
  have "\<bar>q\<bar> = of_int \<bar>m\<bar> / 2 ^ k" using assms(1) by (simp add: abs_divide)
  also have "\<dots> \<le> of_int \<bar>m\<bar>" by (simp add: divide_le_eq mult_le_cancel_left1 not_less)
  also have "\<dots> < 2 ^ 1024" using m pow_1024_gt by simp
  finally show "\<bar>q\<bar> < 2 ^ 1024" .
qed

lemma fmax_ge: "isfinite a \<Longrightarrow> isfinite b \<Longrightarrow> fle a (fmax a b) \<and> fle b (fmax a b)"
  by (auto simp: fmax_def isfinite_iff)

lemma fmin_le: "isfinite a \<Longrightarrow> isfinite b \<Longrightarrow> fle (fmin a b) a \<and> fle (fmin a b) b"
  by (auto simp: fmin_def isfinite_iff)

lemma isfinite_fmax [simp]: "isfinite a \<Longrightarrow> isfinite b \<Longrightarrow> isfinite (fmax a b)"
  by (simp add: fmax_def)

lemma isfinite_fmin [simp]: "isfinite a \<Longrightarrow> isfinite b \<Longrightarrow> isfinite (fmin a b)"
  by (simp add: fmin_def)

lemma float_ok_fmax [simp]: "float_ok a \<Longrightarrow> float_ok b \<Longrightarrow> float_ok (fmax a b)"
  by (simp add: fmax_def)

lemma float_ok_fneg [simp]: "float_ok (fneg x) = float_ok x"
  by (cases x) auto

lemma float_ok_fabs [simp]: "float_ok x \<Longrightarrow> float_ok (fabs x)"
  by (cases x) (auto simp: abs_if)

lemma float_ok_fadd [simp]: "float_ok (fadd x y)"
  by (cases x; cases y) auto

lemma float_ok_fmul [simp]: "float_ok (fmul x y)"
  by (cases x; cases y) (auto simp: inf_times_def)

lemma float_of_int_ok: "float_of_int n = Inr x \<Longrightarrow> isfinite x \<and> float_ok x"
proof -
  assume *: "float_of_int n = Inr x"
  have "float_ok (to_float (of_int n))" by simp
  with * show ?thesis by (cases "to_float (of_int n)") (auto simp: float_of_int_def)
qed

lemma float_of_int_small: "\<bar>n\<bar> \<le> 2 ^ 53 \<Longrightarrow> float_of_int n = Inr (Fin (of_int n))"
  by (simp add: float_of_int_def to_float_of_int)

lemma rat_trunc_of_int [simp]: "rat_trunc (of_int n) = n"
  by (simp add: rat_trunc_def)

section \<open>Rounding errors\<close>

lemma lead_exp_le: "0 < q \<Longrightarrow> q \<le> 2 powi k \<Longrightarrow> lead_exp q \<le> k"
  using lead_exp_bounds(1)[of q] powi2_le_iff[of "lead_exp q" k] by linarith

lemma fl_pos_error:
  assumes "0 < q" "q \<le> 2 powi k" "-1022 \<le> k"
  shows "\<bar>fl_pos q - q\<bar> \<le> 2 powi (k - 53)"
proof -
  define u where "u = ulp_exp q"
  have "u \<le> k - 52" using lead_exp_le[OF assms(1,2)] assms(3) by (simp add: u_def ulp_exp_def)
  then have u: "(2 :: rat) powi u \<le> 2 powi (k - 52)" by (simp add: powi2_le_iff)
  have "fl_pos q - q = (of_int (round_even (q / 2 powi u)) - q / 2 powi u) * 2 powi u"
    by (simp add: fl_pos_def u_def left_diff_distrib)
  then have "\<bar>fl_pos q - q\<bar> = \<bar>of_int (round_even (q / 2 powi u)) - q / 2 powi u\<bar> * 2 powi u"
    by (simp add: abs_mult)
  also have "\<dots> \<le> 1 / 2 * 2 powi u"
    by (rule mult_right_mono[OF round_even_error]) simp
  also have "\<dots> \<le> 1 / 2 * 2 powi (k - 52)" using u by simp
  also have "\<dots> = 2 powi (k - 53)" using powi2_split[of "k - 53" 1] by simp
  finally show ?thesis .
qed

lemma fl_error:
  assumes "\<bar>q\<bar> \<le> 2 powi k" "-1022 \<le> k"
  shows "\<bar>fl q - q\<bar> \<le> 2 powi (k - 53)"
proof -
  consider "0 < q" | "q = 0" | "0 < - q" by linarith
  then show ?thesis
  proof cases
    case 1 with assms fl_pos_error[of q k] show ?thesis by (simp add: fl_def)
  next
    case 2 then show ?thesis by (simp add: less_imp_le)
  next
    case 3 with assms fl_pos_error[of "- q" k] show ?thesis by (simp add: fl_def abs_minus_commute)
  qed
qed

lemma fl_error_128: "\<bar>q\<bar> \<le> 128 \<Longrightarrow> \<bar>fl q - q\<bar> \<le> 1 / 2 ^ 46"
  using fl_error[of q 7] by (simp add: power_int_def field_simps)

lemma to_float_small: "\<bar>q\<bar> \<le> 2 ^ 53 \<Longrightarrow> to_float q = Fin (fl q)"
proof -
  assume q: "\<bar>q\<bar> \<le> 2 ^ 53"
  have b: "f64 (2 ^ 53)" using f64_of_int[of "2 ^ 53"] by simp
  have "\<bar>fl q\<bar> \<le> 2 ^ 53" 
    using fl_le[of q "2 ^ 53"] fl_ge[of "- (2 ^ 53)" q] b q by (simp add: abs_le_iff)
  also have "\<dots> < (2::rat) ^ 1024" using pow_1024_gt by simp
  finally show ?thesis by (auto simp: to_float_def Let_def abs_less_iff)
qed

end
