(* ===== verification/PyStr.thy ===== *)
theory PyStr
  imports PyFloat "HOL-Library.List_Lexorder" "HOL-Library.Char_ord"
begin

text \<open>
  Python's \<open>str\<close>. A string is a list of characters, each standing for the code point of its
  number, so the model covers strings over U+0000 to U+00FF. The operations are those the
  program calls: \<open>strip\<close>, \<open>lower\<close>, \<open>upper\<close>, \<open>replace\<close> and \<open>split\<close> on one character,
  \<open>startswith\<close>, \<open>endswith\<close>, \<open>isdecimal\<close>, decimal conversion in both directions, and the
  \<open>repr\<close> and \<open>:g\<close> formats of a float. \<open>upper\<close> leaves the three characters whose upper case
  lies outside the covered range alone.
\<close>

section \<open>Characters\<close>

abbreviation ord :: "char \<Rightarrow> nat" where
  "ord c \<equiv> of_char c"

definition is_space :: "char \<Rightarrow> bool" where
  "is_space c \<longleftrightarrow> (let n = ord c in (9 \<le> n \<and> n \<le> 13) \<or> (28 \<le> n \<and> n \<le> 32) \<or> n = 133 \<or> n = 160)"

definition is_digit :: "char \<Rightarrow> bool" where
  "is_digit c \<longleftrightarrow> 48 \<le> ord c \<and> ord c \<le> 57"

definition is_hex_lower :: "char \<Rightarrow> bool" where
  "is_hex_lower c \<longleftrightarrow> is_digit c \<or> (97 \<le> ord c \<and> ord c \<le> 102)"

definition is_control :: "char \<Rightarrow> bool" where
  "is_control c \<longleftrightarrow> ord c < 32"

definition lower_char :: "char \<Rightarrow> char" where
  "lower_char c = (let n = ord c in
     if (65 \<le> n \<and> n \<le> 90) \<or> (192 \<le> n \<and> n \<le> 222 \<and> n \<noteq> 215) then char_of (n + 32) else c)"

definition upper_char :: "char \<Rightarrow> string" where
  "upper_char c = (let n = ord c in
     if (97 \<le> n \<and> n \<le> 122) \<or> (224 \<le> n \<and> n \<le> 254 \<and> n \<noteq> 247) then [char_of (n - 32)]
     else if n = 223 then ''SS'' else [c])"

section \<open>String methods\<close>

definition strip :: "string \<Rightarrow> string" where
  "strip s = rev (dropWhile is_space (rev (dropWhile is_space s)))"

definition lower :: "string \<Rightarrow> string" where
  "lower s = map lower_char s"

definition upper :: "string \<Rightarrow> string" where
  "upper s = concat (map upper_char s)"

fun startswith :: "string \<Rightarrow> string \<Rightarrow> bool" where
  "startswith s [] = True"
| "startswith [] (p # ps) = False"
| "startswith (c # s) (p # ps) = (c = p \<and> startswith s ps)"

definition endswith :: "string \<Rightarrow> string \<Rightarrow> bool" where
  "endswith s p = startswith (rev s) (rev p)"

text \<open>\<open>p in s\<close>\<close>

fun contains :: "string \<Rightarrow> string \<Rightarrow> bool" where
  "contains [] p = (p = [])"
| "contains (c # s) p = (startswith (c # s) p \<or> contains s p)"

definition replace_char :: "char \<Rightarrow> char \<Rightarrow> string \<Rightarrow> string" where
  "replace_char a b s = map (\<lambda>c. if c = a then b else c) s"

text \<open>\<open>s.split(sep)\<close> for a one-character separator: always at least one piece.\<close>

fun split_on :: "char \<Rightarrow> string \<Rightarrow> string list" where
  "split_on sep [] = [[]]"
| "split_on sep (c # s) =
     (if c = sep then [] # split_on sep s
      else case split_on sep s of [] \<Rightarrow> [[c]] | p # ps \<Rightarrow> (c # p) # ps)"

fun join :: "string \<Rightarrow> string list \<Rightarrow> string" where
  "join sep [] = []"
| "join sep [s] = s"
| "join sep (s # t # r) = s @ sep @ join sep (t # r)"

definition isdecimal :: "string \<Rightarrow> bool" where
  "isdecimal s \<longleftrightarrow> s \<noteq> [] \<and> list_all is_digit s"

abbreviation newline :: char where
  "newline \<equiv> CHR 0x0A"

section \<open>Integers in decimal\<close>

definition digit_char :: "int \<Rightarrow> char" where
  "digit_char d = char_of (nat (48 + d))"

definition digit_val :: "char \<Rightarrow> int" where
  "digit_val c = int (ord c) - 48"

fun nat_str :: "int \<Rightarrow> string" where
  "nat_str n = (if n < 10 then [digit_char n] else nat_str (n div 10) @ [digit_char (n mod 10)])"

declare nat_str.simps [simp del]

definition int_str :: "int \<Rightarrow> string" where
  "int_str i = (if i < 0 then CHR ''-'' # nat_str (- i) else nat_str i)"

definition digits_val :: "string \<Rightarrow> int" where
  "digits_val s = foldl (\<lambda>n c. 10 * n + digit_val c) 0 s"

text \<open>Underscores are allowed between two digits.\<close>

fun drop_underscores :: "bool \<Rightarrow> string \<Rightarrow> string option" where
  "drop_underscores prev [] = Some []"
| "drop_underscores prev (c # s) =
     (if c = CHR ''_'' then
        (if prev \<and> (case s of [] \<Rightarrow> False | d # _ \<Rightarrow> is_digit d) then drop_underscores False s else None)
      else map_option ((#) c) (drop_underscores (is_digit c) s))"

definition split_sign :: "string \<Rightarrow> bool \<times> string" where
  "split_sign s = (case s of [] \<Rightarrow> (False, [])
     | c # r \<Rightarrow> if c = CHR ''-'' then (True, r) else if c = CHR ''+'' then (False, r) else (False, s))"

text \<open>\<open>int(s)\<close>; the interpreter refuses more than 4300 digits.\<close>

definition int_of_str :: "string \<Rightarrow> int res" where
  "int_of_str s =
     (case split_sign (strip s) of (neg, body) \<Rightarrow>
      case drop_underscores False body of
        Some ds \<Rightarrow>
          if isdecimal ds then
            if 4300 < length ds then value_error ''Exceeds the limit (4300 digits) for integer string conversion''
            else Inr (if neg then - digits_val ds else digits_val ds)
          else value_error ''invalid literal for int() with base 10''
      | None \<Rightarrow> value_error ''invalid literal for int() with base 10'')"

section \<open>Floats in decimal\<close>

definition bad_float :: "'a res" where
  "bad_float = value_error ''could not convert string to float''"

text \<open>Exponent part: empty, or \<open>e\<close> with an optional sign and at least one digit.\<close>

definition parse_exponent :: "string \<Rightarrow> int option" where
  "parse_exponent s = (case s of [] \<Rightarrow> Some 0
     | c # r \<Rightarrow> if c \<in> {CHR ''e'', CHR ''E''} then
         (case split_sign r of (neg, ds) \<Rightarrow>
           if isdecimal ds then Some (if neg then - digits_val ds else digits_val ds) else None)
       else None)"

definition pow10 :: "int \<Rightarrow> rat" where
  "pow10 e = 10 powi e"

text \<open>An unsigned decimal numeral: digits, an optional fraction, an optional exponent.\<close>

definition parse_decimal :: "string \<Rightarrow> rat option" where
  "parse_decimal s =
     (let ip = takeWhile is_digit s; r = dropWhile is_digit s;
          fp = (case r of [] \<Rightarrow> [] | c # t \<Rightarrow> if c = CHR ''.'' then takeWhile is_digit t else []);
          rest = (case r of [] \<Rightarrow> [] | c # t \<Rightarrow> if c = CHR ''.'' then dropWhile is_digit t else r)
      in if ip = [] \<and> fp = [] then None
         else case parse_exponent rest of None \<Rightarrow> None
              | Some e \<Rightarrow> Some (of_int (digits_val (ip @ fp)) * pow10 (e - int (length fp))))"

definition float_of_str :: "string \<Rightarrow> pyfloat res" where
  "float_of_str s =
     (case split_sign (strip s) of (neg, body) \<Rightarrow>
      if lower body \<in> {''inf'', ''infinity''} then Inr (if neg then NInf else PInf)
      else if lower body = ''nan'' then Inr NaN
      else case drop_underscores False body of None \<Rightarrow> bad_float
         | Some t \<Rightarrow> (case parse_decimal t of None \<Rightarrow> bad_float
             | Some q \<Rightarrow> Inr (to_float (if neg then - q else q))))"

text \<open>
  \<open>repr\<close>: the shortest decimal numeral that rounds back to the float, and the closest such.
  \<open>dec_exp\<close> is the \<open>k\<close> with \<open>10 powi (k - 1) \<le> q < 10 powi k\<close>; the search tries \<open>1, 2, \<dots>\<close>
  significant digits.
\<close>

fun dec_up :: "nat \<Rightarrow> rat \<Rightarrow> int \<Rightarrow> int" where
  "dec_up 0 q k = k"
| "dec_up (Suc f) q k = (if pow10 k \<le> q then dec_up f q (k + 1) else k)"

fun dec_down :: "nat \<Rightarrow> rat \<Rightarrow> int \<Rightarrow> int" where
  "dec_down 0 q k = k"
| "dec_down (Suc f) q k = (if q < pow10 (k - 1) then dec_down f q (k - 1) else k)"

definition dec_exp :: "rat \<Rightarrow> int" where
  "dec_exp q = (if 1 \<le> q then dec_up 400 q 1 else dec_down 400 q 0)"

text \<open>The candidates with \<open>n\<close> digits: the neighbours of \<open>q\<close>, the closer one first.\<close>

definition dec_candidates :: "rat \<Rightarrow> int \<Rightarrow> nat \<Rightarrow> int list" where
  "dec_candidates q k n =
     (let x = q / pow10 (k - int n); lo = \<lfloor>x\<rfloor>; near = round_even x
      in if near = lo then [lo, lo + 1] else [near, lo])"

fun shortest :: "nat \<Rightarrow> rat \<Rightarrow> int \<Rightarrow> nat \<Rightarrow> int \<times> nat" where
  "shortest 0 q k n = (round_even (q / pow10 (k - int n)), n)"
| "shortest (Suc f) q k n =
     (case List.find (\<lambda>d. 0 < d \<and> fl (of_int d * pow10 (k - int n)) = q) (dec_candidates q k n) of
        Some d \<Rightarrow> (d, n)
      | None \<Rightarrow> shortest f q k (Suc n))"

definition strip_zeros :: "string \<Rightarrow> string" where
  "strip_zeros s = rev (dropWhile (\<lambda>c. c = CHR ''0'') (rev s))"

definition exp_str :: "int \<Rightarrow> string" where
  "exp_str e = (if e < 0 then ''e-'' else ''e+'') @
     (let t = nat_str \<bar>e\<bar> in if length t < 2 then CHR ''0'' # t else t)"

text \<open>Significant digits \<open>ds\<close> with the decimal point after \<open>p\<close> of them. \<open>repr\<close> uses the
  exponent form when \<open>p \<le> -4\<close> or \<open>p > 16\<close>.\<close>

definition repr_digits :: "string \<Rightarrow> int \<Rightarrow> string" where
  "repr_digits ds p =
     (if p \<le> -4 \<or> 16 < p then
        take 1 ds @ (if 1 < length ds then CHR ''.'' # drop 1 ds else []) @ exp_str (p - 1)
      else if p \<le> 0 then ''0.'' @ replicate (nat (- p)) (CHR ''0'') @ ds
      else if int (length ds) \<le> p then ds @ replicate (nat p - length ds) (CHR ''0'') @ ''.0''
      else take (nat p) ds @ CHR ''.'' # drop (nat p) ds)"

definition repr_pos :: "rat \<Rightarrow> string" where
  "repr_pos q =
     (let k = dec_exp q; (d, n) = shortest 1400 q k 1; ds = nat_str d
      in repr_digits (strip_zeros ds) (k - int n + int (length ds)))"

fun float_repr :: "pyfloat \<Rightarrow> string" where
  "float_repr PInf = ''inf''"
| "float_repr NInf = ''-inf''"
| "float_repr NaN = ''nan''"
| "float_repr (Fin q) = (if q = 0 then ''0.0'' else if q < 0 then CHR ''-'' # repr_pos (- q) else repr_pos q)"

text \<open>The \<open>:g\<close> format: six significant digits, trailing zeros removed.\<close>

definition fmt_g_pos :: "rat \<Rightarrow> string" where
  "fmt_g_pos q =
     (let k0 = dec_exp q; d0 = round_even (q / pow10 (k0 - 6));
          k = (if d0 = 1000000 then k0 + 1 else k0);
          ds = strip_zeros (nat_str (if d0 = 1000000 then 100000 else d0))
      in if k - 1 < -4 \<or> 6 \<le> k - 1 then
           take 1 ds @ (if 1 < length ds then CHR ''.'' # drop 1 ds else []) @ exp_str (k - 1)
         else if k \<le> 0 then ''0.'' @ replicate (nat (- k)) (CHR ''0'') @ ds
         else if int (length ds) \<le> k then ds @ replicate (nat k - length ds) (CHR ''0'')
         else take (nat k) ds @ CHR ''.'' # drop (nat k) ds)"

fun fmt_g :: "pyfloat \<Rightarrow> string" where
  "fmt_g PInf = ''inf''"
| "fmt_g NInf = ''-inf''"
| "fmt_g NaN = ''nan''"
| "fmt_g (Fin q) = (if q = 0 then ''0'' else if q < 0 then CHR ''-'' # fmt_g_pos (- q) else fmt_g_pos q)"

section \<open>Laws\<close>

lemma strip_Nil [simp]: "strip [] = []"
  by (simp add: strip_def)

lemma strip_no_space_ends:
  "s \<noteq> [] \<Longrightarrow> \<not> is_space (hd s) \<Longrightarrow> \<not> is_space (last s) \<Longrightarrow> strip s = s"
proof -
  assume s: "s \<noteq> []" and h: "\<not> is_space (hd s)" and l: "\<not> is_space (last s)"
  have "dropWhile is_space s = s" using s h by (cases s) auto
  moreover have "dropWhile is_space (rev s) = rev s"
    using s l by (cases "rev s") (auto simp: last_rev hd_rev dest: arg_cong[of _ _ hd])
  ultimately show ?thesis by (simp add: strip_def)
qed

lemma dropWhile_idem [simp]: "dropWhile P (dropWhile P xs) = dropWhile P xs"
  by (induction xs) auto

lemma dropWhile_rev_keeps:
  assumes "xs = [] \<or> \<not> P (hd xs)"
  shows "rev (dropWhile P (rev xs)) = [] \<or> \<not> P (hd (rev (dropWhile P (rev xs))))"
proof (cases "rev (dropWhile P (rev xs))")
  case (Cons y ys)
  have "xs = rev (dropWhile P (rev xs)) @ rev (takeWhile P (rev xs))"
    by (metis rev_append rev_rev_ident takeWhile_dropWhile_id)
  with Cons have "xs = y # ys @ rev (takeWhile P (rev xs))" by simp
  with assms Cons show ?thesis by (metis list.distinct(1) list.sel(1))
qed simp

lemma strip_idem [simp]: "strip (strip s) = strip s"
proof -
  define t where "t = dropWhile is_space s"
  have "t = [] \<or> \<not> is_space (hd t)" unfolding t_def by (metis hd_dropWhile)
  from dropWhile_rev_keeps[of t is_space, OF this]
  have "dropWhile is_space (rev (dropWhile is_space (rev t))) = rev (dropWhile is_space (rev t))"
    by (metis dropWhile_eq_self_iff)
  then show ?thesis by (simp add: strip_def flip: t_def)
qed

lemma length_strip_le: "length (strip s) \<le> length s"
  unfolding strip_def by (metis length_dropWhile_le length_rev le_trans)

lemma lower_Nil [simp]: "lower [] = []"
  by (simp add: lower_def)

lemma upper_Nil [simp]: "upper [] = []"
  by (simp add: upper_def)

lemma length_lower [simp]: "length (lower s) = length s"
  by (simp add: lower_def)

lemma lower_append: "lower (s @ t) = lower s @ lower t"
  by (simp add: lower_def)

lemma lower_char_idem [simp]: "lower_char (lower_char c) = lower_char c"
  by (auto simp: lower_char_def Let_def)

lemma lower_idem [simp]: "lower (lower s) = lower s"
  by (simp add: lower_def)

lemma digit_char_val: "0 \<le> d \<Longrightarrow> d < 10 \<Longrightarrow> is_digit (digit_char d) \<and> digit_val (digit_char d) = d"
proof -
  assume "0 \<le> d" "d < 10"
  then have "d = 0 \<or> d = 1 \<or> d = 2 \<or> d = 3 \<or> d = 4 \<or> d = 5 \<or> d = 6 \<or> d = 7 \<or> d = 8 \<or> d = 9"
    by presburger
  then show ?thesis by (elim disjE) (simp_all add: digit_char_def digit_val_def is_digit_def)
qed

lemma nat_str_digits: "0 \<le> n \<Longrightarrow> list_all is_digit (nat_str n)"
proof (induction n rule: nat_str.induct)
  case (1 n)
  then show ?case by (subst nat_str.simps) (auto simp: digit_char_val)
qed

lemma nat_str_nonempty [simp]: "nat_str n \<noteq> []"
  by (subst nat_str.simps) simp

lemma isdecimal_nat_str [simp]: "0 \<le> n \<Longrightarrow> isdecimal (nat_str n)"
  by (simp add: isdecimal_def nat_str_digits)

lemma digits_val_append: "digits_val (s @ [c]) = 10 * digits_val s + digit_val c"
  by (simp add: digits_val_def)

lemma digits_val_nat_str [simp]: "0 \<le> n \<Longrightarrow> digits_val (nat_str n) = n"
proof (induction n rule: nat_str.induct)
  case (1 n)
  show ?case
  proof (cases "n < 10")
    case True
    with "1.prems" show ?thesis by (subst nat_str.simps) (simp add: digits_val_def digit_char_val)
  next
    case False
    then have "digits_val (nat_str n) = 10 * digits_val (nat_str (n div 10)) + digit_val (digit_char (n mod 10))"
      by (subst nat_str.simps) (simp add: digits_val_append)
    with "1.IH"[OF False] "1.prems" show ?thesis by (simp add: digit_char_val)
  qed
qed

lemma nat_str_inj: "0 \<le> m \<Longrightarrow> 0 \<le> n \<Longrightarrow> nat_str m = nat_str n \<Longrightarrow> m = n"
  by (metis digits_val_nat_str)

lemma startswith_append [simp]: "startswith (p @ s) p"
  by (induction p) auto

lemma startswith_iff: "startswith s p \<longleftrightarrow> (\<exists>t. s = p @ t)"
  by (induction s p rule: startswith.induct) auto

end
