(* ===== verification/PyVal.thy ===== *)
theory PyVal
  imports PyStr
begin

text \<open>
  The dynamic values of the program: what \<open>json.loads\<close> returns and what \<open>to_dict\<close> builds.
  A \<open>pyval\<close> is one of Python's \<open>None\<close>, \<open>bool\<close>, \<open>int\<close>, \<open>float\<close>, \<open>str\<close>, \<open>list\<close>, \<open>dict\<close>; the
  keys of a \<open>dict\<close> are strings, as in JSON, and its entries are in insertion order.

  The operations are the coercions the validators call (truth value, \<open>str\<close>, \<open>repr\<close>,
  \<open>float\<close>, \<open>int\<close>) with the exceptions they raise, and the type tests.
\<close>

datatype pyval =
    PNone
  | is_bool: PBool (the_bool: bool)
  | is_int: PInt (the_int: int)
  | is_float: PFloat (the_float: pyfloat)
  | is_str: PStr (the_str: string)
  | is_list: PList (the_list: "pyval list")
  | is_dict: PDict (the_dict: "(string \<times> pyval) list")

type_synonym obj = "(string, pyval) dict"

text \<open>Every dictionary inside a value has distinct keys, every float is a binary64 value.\<close>

fun pyval_ok :: "pyval \<Rightarrow> bool" where
  "pyval_ok (PFloat x) = float_ok x"
| "pyval_ok (PList xs) = list_all pyval_ok xs"
| "pyval_ok (PDict d) = (distinct (map fst d) \<and> list_all (\<lambda>(k, v). pyval_ok v) d)"
| "pyval_ok _ = True"

section \<open>Truth value\<close>

text \<open>\<open>bool(v)\<close>, which \<open>if v\<close>, \<open>v or w\<close> and \<open>not v\<close> apply.\<close>

fun truthy :: "pyval \<Rightarrow> bool" where
  "truthy PNone = False"
| "truthy (PBool b) = b"
| "truthy (PInt n) = (n \<noteq> 0)"
| "truthy (PFloat x) = (x \<noteq> Fin 0)"
| "truthy (PStr s) = (s \<noteq> [])"
| "truthy (PList xs) = (xs \<noteq> [])"
| "truthy (PDict d) = (d \<noteq> [])"

text \<open>\<open>v or w\<close>\<close>

definition py_or :: "pyval \<Rightarrow> pyval \<Rightarrow> pyval" where
  "py_or v w = (if truthy v then v else w)"

text \<open>\<open>d.get(k)\<close> and \<open>d.get(k, default)\<close>\<close>

definition oget :: "obj \<Rightarrow> string \<Rightarrow> pyval" where
  "oget d k = (case dget d k of None \<Rightarrow> PNone | Some v \<Rightarrow> v)"

definition oget_or :: "obj \<Rightarrow> string \<Rightarrow> pyval \<Rightarrow> pyval" where
  "oget_or d k v = (case dget d k of None \<Rightarrow> v | Some x \<Rightarrow> x)"

section \<open>Equality\<close>

text \<open>
  \<open>v == w\<close>: numbers compare by value across \<open>bool\<close>, \<open>int\<close> and \<open>float\<close>, NaN equals nothing, lists
  compare element by element, dictionaries without regard to order.
\<close>

fun num_of :: "pyval \<Rightarrow> pyfloat option" where
  "num_of (PBool b) = Some (Fin (if b then 1 else 0))"
| "num_of (PInt n) = Some (Fin (of_int n))"
| "num_of (PFloat x) = Some x"
| "num_of _ = None"

fun py_eq :: "pyval \<Rightarrow> pyval \<Rightarrow> bool" where
  "py_eq PNone w = (w = PNone)"
| "py_eq (PStr s) w = (w = PStr s)"
| "py_eq (PList xs) w = (case w of PList ys \<Rightarrow> list_all2 py_eq xs ys
     | _ \<Rightarrow> False)"
| "py_eq (PDict d) w = (case w of PDict e \<Rightarrow> length d = length e \<and>
       list_all (\<lambda>(k, v). case dget e k of None \<Rightarrow> False | Some u \<Rightarrow> py_eq v u) d
     | _ \<Rightarrow> False)"
| "py_eq v w = (case (num_of v, num_of w) of (Some x, Some y) \<Rightarrow> feq x y | _ \<Rightarrow> False)"

section \<open>Text\<close>

definition hex_char :: "nat \<Rightarrow> char" where
  "hex_char n = (if n < 10 then char_of (48 + n) else char_of (87 + n))"

definition hex2 :: "nat \<Rightarrow> string" where
  "hex2 n = [hex_char (n div 16 mod 16), hex_char (n mod 16)]"

text \<open>\<open>repr\<close> of a string: single quotes unless the text has a single and no double quote.\<close>

definition repr_char :: "char \<Rightarrow> char \<Rightarrow> string" where
  "repr_char q c = (let n = ord c in
     if c = q \<or> n = 92 then [CHR 0x5C, c]
     else if n = 10 then [CHR 0x5C, CHR ''n''] else if n = 13 then [CHR 0x5C, CHR ''r'']
     else if n = 9 then [CHR 0x5C, CHR ''t'']
     else if n < 32 \<or> (127 \<le> n \<and> n \<le> 160) \<or> n = 173 then [CHR 0x5C, CHR ''x''] @ hex2 n
     else [c])"

definition str_repr :: "string \<Rightarrow> string" where
  "str_repr s = (let q = (if CHR 0x27 \<in> set s \<and> CHR 0x22 \<notin> set s then CHR 0x22 else CHR 0x27)
     in q # concat (map (repr_char q) s) @ [q])"

fun py_repr :: "pyval \<Rightarrow> string" where
  "py_repr PNone = ''None''"
| "py_repr (PBool b) = (if b then ''True'' else ''False'')"
| "py_repr (PInt n) = int_str n"
| "py_repr (PFloat x) = float_repr x"
| "py_repr (PStr s) = str_repr s"
| "py_repr (PList xs) = ''['' @ join '', '' (map py_repr xs) @ '']''"
| "py_repr (PDict d) = ''{'' @ join '', '' (map (\<lambda>(k, v). str_repr k @ '': '' @ py_repr v) d) @ ''}''"

text \<open>\<open>str(v)\<close>\<close>

definition py_str :: "pyval \<Rightarrow> string" where
  "py_str v = (case v of PStr s \<Rightarrow> s | _ \<Rightarrow> py_repr v)"

section \<open>Numbers\<close>

text \<open>\<open>float(v)\<close>\<close>

fun py_float :: "pyval \<Rightarrow> pyfloat res" where
  "py_float (PBool b) = Inr (Fin (if b then 1 else 0))"
| "py_float (PInt n) = float_of_int n"
| "py_float (PFloat x) = Inr x"
| "py_float (PStr s) = float_of_str s"
| "py_float _ = raise TypeError ''float() argument must be a string or a real number''"

text \<open>\<open>int(v)\<close>\<close>

fun py_int :: "pyval \<Rightarrow> int res" where
  "py_int (PBool b) = Inr (if b then 1 else 0)"
| "py_int (PInt n) = Inr n"
| "py_int (PFloat x) = int_of_float x"
| "py_int (PStr s) = int_of_str s"
| "py_int _ = raise TypeError ''int() argument must be a string, a bytes-like object or a real number''"

section \<open>Laws\<close>

lemma oget_Nil [simp]: "oget [] k = PNone"
  by (simp add: oget_def)

lemma oget_Cons [simp, dict_simps]: "oget ((k, v) # d) k' = (if k' = k then v else oget d k')"
  by (simp add: oget_def)

lemma oget_or_Nil [simp]: "oget_or [] k v = v"
  by (simp add: oget_or_def)

lemma oget_or_Cons [simp, dict_simps]: "oget_or ((k, v) # d) k' w = (if k' = k then v else oget_or d k' w)"
  by (simp add: oget_or_def)

lemma oget_dset [simp, dict_simps]: "oget (dset k v d) k' = (if k' = k then v else oget d k')"
  by (simp add: oget_def)

lemma oget_or_dset [simp, dict_simps]: "oget_or (dset k v d) k' w = (if k' = k then v else oget_or d k' w)"
  by (simp add: oget_or_def)

lemma truthy_simps [simp]:
  "truthy (PStr s) \<longleftrightarrow> s \<noteq> []" "truthy (PInt n) \<longleftrightarrow> n \<noteq> 0" by auto

lemma py_or_str [simp]: "s \<noteq> [] \<Longrightarrow> py_or (PStr s) w = PStr s"
  by (simp add: py_or_def)

lemma py_or_None [simp]: "py_or PNone w = w"
  by (simp add: py_or_def)

lemma py_str_PStr [simp]: "py_str (PStr s) = s"
  by (simp add: py_str_def)

lemma float_of_str_ok: "float_of_str s = Inr x \<Longrightarrow> float_ok x"
  by (auto simp: float_of_str_def bad_float_def split: prod.splits if_splits option.splits)

lemma py_float_ok: "py_float v = Inr x \<Longrightarrow> pyval_ok v \<Longrightarrow> float_ok x"
proof (cases v)
  case (PBool b)
  then show "py_float v = Inr x \<Longrightarrow> ?thesis" using f64_of_int[of 0] f64_of_int[of 1] by auto
next
  case (PInt n)
  then show "py_float v = Inr x \<Longrightarrow> ?thesis" using float_of_int_ok by auto
qed (auto simp: float_of_str_ok)

lemma feq_refl: "x \<noteq> NaN \<Longrightarrow> feq x x"
  by (cases x) auto

end
