(* ===== verification/Config_Security.thy ===== *)
theory Config_Security
  imports PyVal
begin

text \<open>
  \<open>core/config_security.py\<close>: which keys name credentials, which values look like one, and the
  check every configuration passes before it is written and after it is read. The regular
  expressions of the module are written out as functions on strings; \<open>urlsplit\<close> is modelled as far
  as the module uses it, which is whether the authority of a URL carries user information.
\<close>

section \<open>Keys\<close>

definition SAFE_REFERENCE_KEYS :: "string list" where
  "SAFE_REFERENCE_KEYS = [''credential_env_vars'', ''required_credentials'']"

definition SENSITIVE_CONTAINER_KEYS :: "string list" where
  "SENSITIVE_CONTAINER_KEYS = [''auth_headers'', ''authorization_headers'', ''credentials'', ''credential_sources'',
     ''credential_values'', ''polymarket_l2_headers'']"

definition SENSITIVE_EXACT_KEYS :: "string list" where
  "SENSITIVE_EXACT_KEYS = [''api_key'', ''apikey'', ''api_secret'', ''api_token'', ''app_key'', ''access_key'', ''auth_token'',
     ''authorization'', ''bearer_token'', ''client_secret'', ''cookie'', ''id_token'', ''jwt'', ''mfa_code'',
     ''passphrase'', ''password'', ''private_key'', ''refresh_token'', ''secret'', ''secret_key'', ''session_cookie'',
     ''session_token'', ''signature'', ''signing_key'', ''access_token'']"

definition SENSITIVE_SUFFIXES :: "string list" where
  "SENSITIVE_SUFFIXES = map ((#) (CHR ''_'')) SENSITIVE_EXACT_KEYS"

definition SENSITIVE_CONTAINS :: "string list" where
  "SENSITIVE_CONTAINS = [''_api_key_'', ''_api_secret_'', ''_api_token_'', ''_app_key_'', ''_access_key_'', ''_secret_key_'',
     ''_private_key_'', ''_signing_key_'', ''_session_cookie_'', ''_session_token_'', ''_access_token_'',
     ''_auth_token_'', ''_bearer_token_'', ''_refresh_token_'', ''_client_secret_'']"

definition SENSITIVE_ADAPTER_KEYS :: "string list" where
  "SENSITIVE_ADAPTER_KEYS = [''limitless_token_id'', ''predict_fun_jwt'', ''betmgm_access_id'']"

definition is_lower_alnum :: "char \<Rightarrow> bool" where
  "is_lower_alnum c \<longleftrightarrow> (97 \<le> ord c \<and> ord c \<le> 122) \<or> is_digit c"

definition is_ascii_upper :: "char \<Rightarrow> bool" where
  "is_ascii_upper c \<longleftrightarrow> 65 \<le> ord c \<and> ord c \<le> 90"

text \<open>\<open>(?<=[a-z0-9])(?=[A-Z])\<close> replaced by an underscore.\<close>

fun camel_boundaries :: "string \<Rightarrow> string" where
  "camel_boundaries (c # d # s) =
     (if is_lower_alnum c \<and> is_ascii_upper d then c # CHR ''_'' # camel_boundaries (d # s)
      else c # camel_boundaries (d # s))"
| "camel_boundaries s = s"

text \<open>Every run of other characters replaced by one underscore; \<open>prev\<close> says that the run has
  been written.\<close>

fun squeeze_others :: "bool \<Rightarrow> string \<Rightarrow> string" where
  "squeeze_others prev [] = []"
| "squeeze_others prev (c # s) =
     (if is_lower_alnum c then c # squeeze_others False s
      else if prev then squeeze_others True s else CHR ''_'' # squeeze_others True s)"

definition strip_char :: "char \<Rightarrow> string \<Rightarrow> string" where
  "strip_char x s = rev (dropWhile (\<lambda>c. c = x) (rev (dropWhile (\<lambda>c. c = x) s)))"

definition normalize_config_key :: "string \<Rightarrow> string" where
  "normalize_config_key key = strip_char (CHR ''_'') (squeeze_others False (lower (camel_boundaries (strip key))))"

abbreviation ends_any :: "string \<Rightarrow> string list \<Rightarrow> bool" where
  "ends_any s ps \<equiv> list_ex (endswith s) ps"

definition is_reference_key :: "string \<Rightarrow> bool" where
  "is_reference_key n \<longleftrightarrow> n \<in> set SAFE_REFERENCE_KEYS \<or> ends_any n [''_env'', ''_env_var'', ''_env_vars'', ''_path'']"

definition is_sensitive_normalized_key :: "string \<Rightarrow> bool" where
  "is_sensitive_normalized_key n \<longleftrightarrow> n \<in> set SENSITIVE_ADAPTER_KEYS \<or> n \<in> set SENSITIVE_EXACT_KEYS
     \<or> ends_any n SENSITIVE_SUFFIXES
     \<or> list_ex (contains (CHR ''_'' # n @ [CHR ''_''])) SENSITIVE_CONTAINS"

definition is_sensitive_config_key :: "string \<Rightarrow> bool" where
  "is_sensitive_config_key key \<longleftrightarrow> (let n = normalize_config_key key in
     n \<noteq> [] \<and> \<not> is_reference_key n \<and> is_sensitive_normalized_key n)"

definition is_sensitive_display_key :: "string \<Rightarrow> bool" where
  "is_sensitive_display_key key \<longleftrightarrow> (let n = normalize_config_key key in
     if n = [] \<or> n \<in> set SAFE_REFERENCE_KEYS then False
     else if n \<in> set SENSITIVE_CONTAINER_KEYS then True
     else if ends_any n [''_env'', ''_env_var'', ''_env_vars''] then False
     else if endswith n ''_path'' \<and> list_ex (contains n) [''private_key'', ''signing_key'', ''certificate'', ''credential'']
     then True
     else is_sensitive_normalized_key n)"

section \<open>Values\<close>

text \<open>\<open>^[A-Z][A-Z0-9_]{1,127}$\<close>\<close>

definition is_environment_name :: "string \<Rightarrow> bool" where
  "is_environment_name s = (case s of [] \<Rightarrow> False
     | c # r \<Rightarrow> is_ascii_upper c \<and> 1 \<le> length r \<and> length r \<le> 127
         \<and> list_all (\<lambda>d. is_ascii_upper d \<or> is_digit d \<or> d = CHR ''_'') r)"

definition is_token_char :: "char \<Rightarrow> bool" where
  "is_token_char c \<longleftrightarrow> is_ascii_upper c \<or> is_lower_alnum c \<or> c = CHR ''_'' \<or> c = CHR ''-''"

text \<open>Three dot-separated groups of at least eight token characters.\<close>

definition is_jwt_value :: "string \<Rightarrow> bool" where
  "is_jwt_value s \<longleftrightarrow> (let ps = split_on (CHR ''.'') s in
     length ps = 3 \<and> list_all (\<lambda>p. 8 \<le> length p \<and> list_all is_token_char p) ps)"

subsection \<open>URLs\<close>

definition is_hex_char :: "char \<Rightarrow> bool" where
  "is_hex_char c \<longleftrightarrow> is_digit c \<or> (65 \<le> ord c \<and> ord c \<le> 70) \<or> (97 \<le> ord c \<and> ord c \<le> 102)"

definition is_ipv4 :: "string \<Rightarrow> bool" where
  "is_ipv4 s \<longleftrightarrow> (let ps = split_on (CHR ''.'') s in length ps = 4 \<and>
     list_all (\<lambda>p. isdecimal p \<and> length p \<le> 3 \<and> (p = ''0'' \<or> hd p \<noteq> CHR ''0'') \<and> digits_val p \<le> 255) ps)"

definition hextet_ok :: "string \<Rightarrow> bool" where
  "hextet_ok p \<longleftrightarrow> p \<noteq> [] \<and> length p \<le> 4 \<and> list_all is_hex_char p"

text \<open>\<open>ipaddress.IPv6Address\<close>: at most one empty inner part, which stands for the missing zeros;
  a trailing dotted quad counts as two parts.\<close>

definition ipv6_parts_ok :: "string list \<Rightarrow> bool" where
  "ipv6_parts_ok ps =
     (let n = length ps; inner = filter (\<lambda>i. ps ! i = []) [1..<n - 1] in
      3 \<le> n \<and> n \<le> 9 \<and> length inner \<le> 1 \<and>
      (case inner of
         i # _ \<Rightarrow>
           let hi = (if hd ps = [] then i - 1 else i); lo = (if last ps = [] then n - i - 2 else n - i - 1) in
           (hd ps = [] \<longrightarrow> hi = 0) \<and> (last ps = [] \<longrightarrow> lo = 0) \<and> hi + lo \<le> 7
           \<and> list_all (\<lambda>p. p = [] \<or> hextet_ok p) ps
       | [] \<Rightarrow> n = 8 \<and> list_all hextet_ok ps))"

definition is_ipv6 :: "string \<Rightarrow> bool" where
  "is_ipv6 s =
     (let addr = takeWhile (\<lambda>c. c \<noteq> CHR ''%'') s; scope = drop (Suc (length addr)) s;
          ps = split_on (CHR '':'') addr in
      (CHR ''%'' \<in> set s \<longrightarrow> scope \<noteq> [] \<and> CHR ''%'' \<notin> set scope) \<and> CHR ''/'' \<notin> set s \<and> 3 \<le> length ps
      \<and> (if CHR ''.'' \<in> set (last ps) then is_ipv4 (last ps) \<and> ipv6_parts_ok (butlast ps @ [''0'', ''0''])
         else ipv6_parts_ok ps))"

text \<open>\<open>v\<close> followed by hexadecimal digits, a dot and at least one character: a future IP literal.\<close>

definition is_ipvfuture :: "string \<Rightarrow> bool" where
  "is_ipvfuture s = (let ds = takeWhile is_hex_char (tl s); r = dropWhile is_hex_char (tl s) in
     ds \<noteq> [] \<and> 2 \<le> length r \<and> hd r = CHR ''.'' \<and> newline \<notin> set (tl r))"

definition before_char :: "char \<Rightarrow> string \<Rightarrow> string" where
  "before_char x s = takeWhile (\<lambda>c. c \<noteq> x) s"

definition after_char :: "char \<Rightarrow> string \<Rightarrow> string" where
  "after_char x s = drop (Suc (length (before_char x s))) s"

text \<open>\<open>s.rpartition("@")[2]\<close>\<close>

definition after_last :: "char \<Rightarrow> string \<Rightarrow> string" where
  "after_last x s = rev (before_char x (rev s))"

definition bracketed_ok :: "string \<Rightarrow> bool" where
  "bracketed_ok netloc =
     (let hostport = after_last (CHR ''@'') netloc in
      if CHR ''['' \<in> set hostport then
        let bracketed = after_char (CHR ''['') hostport; host = before_char (CHR '']'') bracketed;
            port = after_char (CHR '']'') bracketed in
        before_char (CHR ''['') hostport = [] \<and> (port = [] \<or> hd port = CHR '':'')
        \<and> (if startswith host ''v'' then is_ipvfuture host else is_ipv6 host)
      else let host = before_char (CHR '':'') hostport in
        if startswith host ''v'' then is_ipvfuture host else is_ipv6 host)"

definition is_scheme_char :: "char \<Rightarrow> bool" where
  "is_scheme_char c \<longleftrightarrow> is_ascii_upper c \<or> is_lower_alnum c \<or> c \<in> {CHR ''+'', CHR ''-'', CHR ''.''}"

text \<open>The network location \<open>urlsplit\<close> finds; \<open>None\<close> when it raises \<open>ValueError\<close>.\<close>

definition url_netloc :: "string \<Rightarrow> string option" where
  "url_netloc text =
     (let url = filter (\<lambda>c. ord c \<notin> {9, 10, 13}) (dropWhile (\<lambda>c. ord c \<le> 32) text);
          scheme = before_char (CHR '':'') url;
          rest = (if CHR '':'' \<in> set url \<and> scheme \<noteq> [] \<and> (is_ascii_upper (hd scheme) \<or> (is_lower_alnum (hd scheme) \<and> \<not> is_digit (hd scheme)))
                    \<and> list_all is_scheme_char scheme then after_char (CHR '':'') url else url)
      in if startswith rest ''//'' then
           let netloc = takeWhile (\<lambda>c. c \<notin> {CHR ''/'', CHR ''?'', CHR ''#''}) (drop 2 rest) in
           if (CHR ''['' \<in> set netloc) \<noteq> (CHR '']'' \<in> set netloc) then None
           else if CHR ''['' \<in> set netloc \<and> \<not> bracketed_ok netloc then None
           else Some netloc
         else Some [])"

definition looks_like_embedded_secret :: "pyval \<Rightarrow> bool" where
  "looks_like_embedded_secret v = (case v of
       PStr s \<Rightarrow>
         let text = strip s; up = upper text in
         (contains up ''-----BEGIN'' \<and> contains up ''PRIVATE KEY-----'') \<or> is_jwt_value text
         \<or> (contains text ''://'' \<and> (case url_netloc text of None \<Rightarrow> False | Some n \<Rightarrow> CHR ''@'' \<in> set n))
     | _ \<Rightarrow> False)"

definition environment_value :: "pyval \<Rightarrow> bool" where
  "environment_value v = (case v of PStr s \<Rightarrow> is_environment_name (strip s) | _ \<Rightarrow> False)"

definition path_value :: "pyval \<Rightarrow> bool" where
  "path_value v = (case v of
       PNone \<Rightarrow> True
     | PStr s \<Rightarrow> s = [] \<or>
         (let text = strip s in text \<noteq> [] \<and> list_all (\<lambda>c. ord c \<notin> {0, 10, 13}) text
            \<and> \<not> contains text ''-----BEGIN'' \<and> \<not> looks_like_embedded_secret (PStr text))
     | _ \<Rightarrow> False)"

definition is_safe_reference_value :: "string \<Rightarrow> pyval \<Rightarrow> bool" where
  "is_safe_reference_value n v =
     (if ends_any n [''_env'', ''_env_var''] then environment_value v
      else if n \<in> set SAFE_REFERENCE_KEYS \<or> endswith n ''_env_vars''
      then (case v of PList vs \<Rightarrow> list_all environment_value vs | _ \<Rightarrow> False)
      else if endswith n ''_path'' then path_value v
      else False)"

definition has_material_value :: "pyval \<Rightarrow> bool" where
  "has_material_value v = (case v of PNone \<Rightarrow> False | PStr s \<Rightarrow> strip s \<noteq> [] | PDict d \<Rightarrow> d \<noteq> []
     | PList vs \<Rightarrow> vs \<noteq> [] | _ \<Rightarrow> True)"

section \<open>The check\<close>

text \<open>The paths that would persist a credential. \<open>entry_verdict\<close> is the decision for one key of
  an object: report the key, accept it with everything below it, or look inside.\<close>

datatype verdict = Report | Accept | Descend

definition entry_verdict :: "string \<Rightarrow> pyval \<Rightarrow> verdict" where
  "entry_verdict key child =
     (let n = normalize_config_key key in
      if n \<in> set SENSITIVE_CONTAINER_KEYS \<and> has_material_value child then Report
      else if is_reference_key n then (if is_safe_reference_value n child then Accept else Report)
      else if is_sensitive_config_key key \<and> has_material_value child then Report
      else if looks_like_embedded_secret child then Report
      else Descend)"

fun persisted_secret_paths :: "pyval \<Rightarrow> string list \<Rightarrow> string list list"
  and item_secret_paths :: "nat \<Rightarrow> pyval list \<Rightarrow> string list \<Rightarrow> string list list" where
  "persisted_secret_paths (PDict d) path = concat (map (\<lambda>(key, child).
     case entry_verdict key child of
       Report \<Rightarrow> [path @ [key]]
     | Accept \<Rightarrow> []
     | Descend \<Rightarrow> persisted_secret_paths child (path @ [key])) d)"
| "persisted_secret_paths (PList vs) path = item_secret_paths 0 vs path"
| "persisted_secret_paths _ path = []"
| "item_secret_paths index [] path = []"
| "item_secret_paths index (child # vs) path =
     (if looks_like_embedded_secret child then [path @ [nat_str (int index)]]
      else persisted_secret_paths child (path @ [nat_str (int index)])) @ item_secret_paths (Suc index) vs path"

definition assert_no_persisted_secrets :: "pyval \<Rightarrow> unit res" where
  "assert_no_persisted_secrets v =
     (let paths = persisted_secret_paths v [] in
      if paths = [] then Inr ()
      else raise ConfigSecurityError (''Credential values must be supplied through environment variables and cannot be persisted in configuration: ''
        @ join '', '' (map (join ''.'') (take 8 paths))
        @ (if length paths \<le> 8 then [] else '' (and '' @ nat_str (int (length paths - 8)) @ '' more)'')))"

section \<open>Laws\<close>

lemma strip_char_Nil [simp]: "strip_char x [] = []"
  by (simp add: strip_char_def)

lemma dict_secret_paths_Nil:
  "persisted_secret_paths (PDict d) path = [] \<longleftrightarrow>
     (\<forall>(k, v) \<in> set d. entry_verdict k v = Accept
        \<or> (entry_verdict k v = Descend \<and> persisted_secret_paths v (path @ [k]) = []))"
  by (auto simp: split: verdict.splits)

lemma assert_no_persisted_secrets_Inr: "assert_no_persisted_secrets v = Inr u \<longleftrightarrow> persisted_secret_paths v [] = []"
  by (simp add: assert_no_persisted_secrets_def Let_def)

end
