(* ===== verification/Sha256.thy ===== *)
theory Sha256
  imports PyVal "HOL-Library.Word"
begin

text \<open>
  \<open>str.encode("utf-8")\<close> and \<open>hashlib.sha256(data).hexdigest()\<close>, the digest the program uses for
  idempotency keys, request identities, fill identities, receipts and configuration
  revisions. A byte is a number below 256. The round constants are computed from their definition.

  The components use two facts: a digest is 64 lower-case hexadecimal characters, and it is a
  function of the bytes.
\<close>

unbundle bit_operations_syntax

section \<open>UTF-8\<close>

definition utf8_char :: "char \<Rightarrow> nat list" where
  "utf8_char c = (let n = ord c in if n < 128 then [n] else [192 + n div 64, 128 + n mod 64])"

definition utf8 :: "string \<Rightarrow> nat list" where
  "utf8 s = concat (map utf8_char s)"

lemma utf8_append: "utf8 (s @ t) = utf8 s @ utf8 t"
  by (simp add: utf8_def)

section \<open>SHA-256\<close>

type_synonym w32 = "32 word"

text \<open>The constants of FIPS 180-4 by their definition: the first 32 bits of the fractional parts of
  the cube roots of the first 64 primes, and of the square roots of the first eight. The root
  is built bit by bit: \<open>iroot k n\<close> is the largest \<open>x\<close> below \<open>2 ^ 40\<close> with \<open>x ^ k \<le> n\<close>.\<close>

definition iroot :: "nat \<Rightarrow> int \<Rightarrow> int" where
  "iroot k n = foldl (\<lambda>x b. if (x + 2 ^ b) ^ k \<le> n then x + 2 ^ b else x) 0 (rev [0..<40])"

definition small_primes :: "int list" where
  "small_primes = filter (\<lambda>n. list_all (\<lambda>d. n mod d \<noteq> 0) [2..n - 1]) [2..311]"

definition root_bits :: "nat \<Rightarrow> int \<Rightarrow> w32" where
  "root_bits k p = of_int (iroot k (p * 2 ^ (32 * k)))"

definition sha_k :: "w32 list" where
  "sha_k = map (root_bits 3) small_primes"

text \<open>The eight working variables.\<close>

datatype sha_state = Sha w32 w32 w32 w32 w32 w32 w32 w32

definition sha_init :: sha_state where
  "sha_init = (case map (root_bits 2) (take 8 small_primes) of
     [a, b, c, d, e, f, g, h] \<Rightarrow> Sha a b c d e f g h | _ \<Rightarrow> Sha 0 0 0 0 0 0 0 0)"

definition rotr :: "nat \<Rightarrow> w32 \<Rightarrow> w32" where
  "rotr n w = word_rotr n w"

fun sha_round :: "w32 \<times> w32 \<Rightarrow> sha_state \<Rightarrow> sha_state" where
  "sha_round (k, w) (Sha a b c d e f g h) =
     (let s1 = rotr 6 e XOR rotr 11 e XOR rotr 25 e;
          ch = (e AND f) XOR (NOT e AND g);
          t1 = h + s1 + ch + k + w;
          s0 = rotr 2 a XOR rotr 13 a XOR rotr 22 a;
          maj = (a AND b) XOR (a AND c) XOR (b AND c)
      in Sha (t1 + s0 + maj) a b c (d + t1) e f g)"

fun sha_add :: "sha_state \<Rightarrow> sha_state \<Rightarrow> sha_state" where
  "sha_add (Sha a b c d e f g h) (Sha a' b' c' d' e' f' g' h') =
     Sha (a + a') (b + b') (c + c') (d + d') (e + e') (f + f') (g + g') (h + h')"

text \<open>The message schedule, the last sixteen words carried newest last.\<close>

fun sha_schedule :: "nat \<Rightarrow> w32 list \<Rightarrow> w32 list" where
  "sha_schedule 0 ws = ws"
| "sha_schedule (Suc n) ws =
     (case ws of [] \<Rightarrow> [] | w0 # rest \<Rightarrow>
       let w15 = ws ! 1; w2 = ws ! 14;
           s0 = rotr 7 w15 XOR rotr 18 w15 XOR drop_bit 3 w15;
           s1 = rotr 17 w2 XOR rotr 19 w2 XOR drop_bit 10 w2
       in w0 # sha_schedule n (rest @ [w0 + s0 + (ws ! 9) + s1]))"

definition sha_block :: "w32 list \<Rightarrow> sha_state \<Rightarrow> sha_state" where
  "sha_block ws s = sha_add s (fold sha_round (zip sha_k (sha_schedule 48 ws)) s)"

definition word_of_bytes :: "nat list \<Rightarrow> w32" where
  "word_of_bytes bs = of_nat (foldl (\<lambda>n b. 256 * n + b) 0 bs)"

fun chunks :: "nat \<Rightarrow> 'a list \<Rightarrow> 'a list list" where
  "chunks n xs = (if n = 0 \<or> xs = [] then [] else take n xs # chunks n (drop n xs))"

declare chunks.simps [simp del]

definition sha_pad :: "nat list \<Rightarrow> nat list" where
  "sha_pad bs = (let l = length bs in
     bs @ [128] @ replicate ((119 - l mod 64) mod 64) 0 @ map (\<lambda>i. (8 * l) div 256 ^ i mod 256) (rev [0..<8]))"

text \<open>Eight hexadecimal digits of a word, most significant first.\<close>

definition word_hex :: "w32 \<Rightarrow> string" where
  "word_hex w = map (\<lambda>i. hex_char (unat w div 16 ^ i mod 16)) (rev [0..<8])"

fun sha_hex :: "sha_state \<Rightarrow> string" where
  "sha_hex (Sha a b c d e f g h) = concat (map word_hex [a, b, c, d, e, f, g, h])"

definition sha256 :: "nat list \<Rightarrow> string" where
  "sha256 bs = sha_hex (fold (\<lambda>blk. sha_block (map word_of_bytes (chunks 4 blk))) (chunks 64 (sha_pad bs)) sha_init)"

definition sha256_text :: "string \<Rightarrow> string" where
  "sha256_text s = sha256 (utf8 s)"

section \<open>The shape of a digest\<close>

definition is_digest :: "string \<Rightarrow> bool" where
  "is_digest s \<longleftrightarrow> length s = 64 \<and> list_all is_hex_lower s"

lemma is_hex_lower_hex_char: "n < 16 \<Longrightarrow> is_hex_lower (hex_char n)"
  by (auto simp: is_hex_lower_def is_digit_def hex_char_def)

lemma word_hex_shape [simp]: "length (word_hex w) = 8" "list_all is_hex_lower (word_hex w)"
  by (simp_all add: word_hex_def list_all_iff is_hex_lower_hex_char)

lemma sha256_digest [simp]: "is_digest (sha256 bs)"
proof -
  have "is_digest (sha_hex s)" for s
    by (cases s) (simp add: is_digest_def)
  then show ?thesis by (simp add: sha256_def)
qed

lemma sha256_text_digest [simp]: "is_digest (sha256_text s)"
  by (simp add: sha256_text_def)

end
