(* ===== verification/PyJson.thy ===== *)
theory PyJson
  imports Sha256
begin

text \<open>
  The standard library's JSON codec as the program uses it: \<open>json.dumps\<close> with
  \<open>sort_keys=True\<close> in the compact and the indented layout, with and without \<open>ensure_ascii\<close>, and
  with \<open>allow_nan=False\<close>; and \<open>json.loads (json.dumps v)\<close>, which for a JSON value is the value
  with the keys of every object sorted.
\<close>

section \<open>Strings\<close>

definition json_escape :: "bool \<Rightarrow> char \<Rightarrow> string" where
  "json_escape ascii c = (let n = ord c in
     if n = 34 \<or> n = 92 then [CHR 0x5C, c]
     else if n = 8 then [CHR 0x5C, CHR ''b''] else if n = 12 then [CHR 0x5C, CHR ''f'']
     else if n = 10 then [CHR 0x5C, CHR ''n''] else if n = 13 then [CHR 0x5C, CHR ''r'']
     else if n = 9 then [CHR 0x5C, CHR ''t'']
     else if n < 32 \<or> (ascii \<and> 126 < n) then [CHR 0x5C, CHR ''u'', CHR ''0'', CHR ''0''] @ hex2 n
     else [c])"

definition json_string :: "bool \<Rightarrow> string \<Rightarrow> string" where
  "json_string ascii s = CHR 0x22 # concat (map (json_escape ascii) s) @ [CHR 0x22]"

section \<open>Values\<close>

text \<open>A value with the keys of every object in order: what a sorted dump is read back as.\<close>

fun json_norm :: "pyval \<Rightarrow> pyval" where
  "json_norm (PList xs) = PList (map json_norm xs)"
| "json_norm (PDict d) = PDict (sort_key fst (map (\<lambda>(k, v). (k, json_norm v)) d))"
| "json_norm v = v"

fun json_finite :: "pyval \<Rightarrow> bool" where
  "json_finite (PFloat x) = isfinite x"
| "json_finite (PList xs) = list_all json_finite xs"
| "json_finite (PDict d) = list_all (\<lambda>(k, v). json_finite v) d"
| "json_finite _ = True"

text \<open>\<open>separators=(",", ":")\<close>\<close>

fun json_text :: "bool \<Rightarrow> pyval \<Rightarrow> string" where
  "json_text a PNone = ''null''"
| "json_text a (PBool b) = (if b then ''true'' else ''false'')"
| "json_text a (PInt n) = int_str n"
| "json_text a (PFloat x) = (case x of PInf \<Rightarrow> ''Infinity'' | NInf \<Rightarrow> ''-Infinity'' | NaN \<Rightarrow> ''NaN''
     | _ \<Rightarrow> float_repr x)"
| "json_text a (PStr s) = json_string a s"
| "json_text a (PList xs) = ''['' @ join '','' (map (json_text a) xs) @ '']''"
| "json_text a (PDict d) = ''{'' @ join '',''
     (map snd (sort_key fst (map (\<lambda>(k, v). (k, json_string a k @ '':'' @ json_text a v)) d))) @ ''}''"

text \<open>\<open>indent=2\<close>: nested items on lines of their own; the argument is the current indentation.\<close>

definition indent_line :: "nat \<Rightarrow> string" where
  "indent_line n = newline # replicate n (CHR 0x20)"

fun json_indented :: "nat \<Rightarrow> pyval \<Rightarrow> string" where
  "json_indented n (PList xs) = (if xs = [] then ''[]'' else
     ''['' @ indent_line (n + 2) @ join ('','' @ indent_line (n + 2)) (map (json_indented (n + 2)) xs)
       @ indent_line n @ '']'')"
| "json_indented n (PDict d) = (if d = [] then ''{}'' else
     ''{'' @ indent_line (n + 2) @ join ('','' @ indent_line (n + 2))
       (map snd (sort_key fst (map (\<lambda>(k, v). (k, json_string True k @ '': '' @ json_indented (n + 2) v)) d)))
       @ indent_line n @ ''}'')"
| "json_indented n v = json_text True v"

text \<open>\<open>json.dumps(v, allow_nan=False, ensure_ascii=False, separators=(",", ":"), sort_keys=True)\<close>\<close>

definition json_dumps :: "pyval \<Rightarrow> string res" where
  "json_dumps v = (if json_finite v then Inr (json_text False v)
     else value_error ''Out of range float values are not JSON compliant'')"

section \<open>Laws\<close>

lemma sort_key_sorted [simp]: "sorted (map f xs) \<Longrightarrow> sort_key f xs = xs"
proof (induction xs)
  case (Cons x xs)
  then show ?case by (cases xs) auto
qed simp

lemma sort_key_idem [simp]: "sort_key f (sort_key f xs) = sort_key f xs"
  by simp

lemma insort_key_map: "(\<And>x. f (h x) = g x) \<Longrightarrow> insort_key f (h x) (map h ys) = map h (insort_key g x ys)"
  by (induction ys) auto

lemma sort_key_map: "(\<And>x. f (h x) = g x) \<Longrightarrow> sort_key f (map h xs) = map h (sort_key g xs)"
  by (induction xs) (simp_all add: insort_key_map)

lemma json_norm_dict: "json_norm (PDict d) = PDict (map (\<lambda>(k, v). (k, json_norm v)) (sort_key fst d))"
  by (simp add: sort_key_map[where g = fst] case_prod_unfold)

lemma json_norm_idem [simp]: "json_norm (json_norm v) = json_norm v"
proof (induction v)
  case (PDict d)
  have "map ((\<lambda>(k, v). (k, json_norm v)) \<circ> (\<lambda>(k, v). (k, json_norm v))) (sort_key fst d)
      = map (\<lambda>(k, v). (k, json_norm v)) (sort_key fst d)"
    using PDict by (auto simp: Basic_BNFs.snds.simps)
  then show ?case
    by (simp only: json_norm_dict sort_key_map[where g = fst] case_prod_unfold fst_conv sort_key_idem map_map)
qed auto

end
