(* ===== verification/Catalog.thy ===== *)
theory Catalog
  imports PyVal
begin

text \<open>
  The market catalogue (\<open>market_adapters/types.py\<close>, \<open>catalog.py\<close>, \<open>expanded_catalog.py\<close>): one
  entry per venue with the capability flags that decide which operations of the program the
  venue offers, live order submission among them. The prose \<open>description\<close> of an entry is shown
  to the user and read by no modelled operation; the record leaves it out.
\<close>

section \<open>Capabilities\<close>

record market_capabilities =
  cap_market_discovery :: bool
  cap_event_listing :: bool
  cap_price_reading :: bool
  cap_orderbook_reading :: bool
  cap_trade_history :: bool
  cap_candle_history :: bool
  cap_alerts :: bool
  cap_paper_trading :: bool
  cap_live_trading :: bool
  cap_copy_trading :: bool
  cap_api_required :: bool
  cap_credentials_required :: bool
  cap_kyc_required :: bool
  cap_region_limited :: bool

definition default_capabilities :: market_capabilities where
  "default_capabilities = \<lparr>
     cap_market_discovery = False,
     cap_event_listing = False,
     cap_price_reading = False,
     cap_orderbook_reading = False,
     cap_trade_history = False,
     cap_candle_history = False,
     cap_alerts = False,
     cap_paper_trading = False,
     cap_live_trading = False,
     cap_copy_trading = False,
     cap_api_required = False,
     cap_credentials_required = False,
     cap_kyc_required = False,
     cap_region_limited = False\<rparr>"

definition capabilities_to_dict :: "market_capabilities \<Rightarrow> (string, bool) dict" where
  "capabilities_to_dict c = [
     (''market_discovery'', cap_market_discovery c),
     (''event_listing'', cap_event_listing c),
     (''price_reading'', cap_price_reading c),
     (''orderbook_reading'', cap_orderbook_reading c),
     (''trade_history'', cap_trade_history c),
     (''candle_history'', cap_candle_history c),
     (''alerts'', cap_alerts c),
     (''paper_trading'', cap_paper_trading c),
     (''live_trading'', cap_live_trading c),
     (''copy_trading'', cap_copy_trading c),
     (''api_required'', cap_api_required c),
     (''credentials_required'', cap_credentials_required c),
     (''kyc_required'', cap_kyc_required c),
     (''region_limited'', cap_region_limited c)]"

record market_metadata =
  meta_id :: string
  meta_display_name :: string
  meta_default_enabled :: bool
  meta_homepage_url :: string
  meta_capabilities :: market_capabilities

section \<open>The expanded catalogue\<close>

definition XMARKET_CAPABILITIES :: market_capabilities where
  "XMARKET_CAPABILITIES = default_capabilities \<lparr> cap_market_discovery := True,
       cap_event_listing := True,
       cap_price_reading := True,
       cap_orderbook_reading := True,
       cap_trade_history := True,
       cap_candle_history := True,
       cap_alerts := True,
       cap_paper_trading := True,
       cap_live_trading := True,
       cap_copy_trading := True,
       cap_api_required := True,
       cap_credentials_required := True,
       cap_kyc_required := False,
       cap_region_limited := False \<rparr>"

definition PROBABLE_CAPABILITIES :: market_capabilities where
  "PROBABLE_CAPABILITIES = default_capabilities \<lparr> cap_market_discovery := True,
       cap_event_listing := True,
       cap_price_reading := True,
       cap_orderbook_reading := True,
       cap_trade_history := True,
       cap_candle_history := True,
       cap_alerts := True,
       cap_paper_trading := True,
       cap_live_trading := True,
       cap_copy_trading := True,
       cap_api_required := True,
       cap_credentials_required := True,
       cap_kyc_required := False,
       cap_region_limited := True \<rparr>"

definition FANDUEL_PREDICTS_CAPABILITIES :: market_capabilities where
  "FANDUEL_PREDICTS_CAPABILITIES = default_capabilities \<lparr> cap_market_discovery := True,
       cap_event_listing := True,
       cap_price_reading := True,
       cap_orderbook_reading := True,
       cap_alerts := True,
       cap_paper_trading := True,
       cap_live_trading := False,
       cap_copy_trading := False,
       cap_api_required := True,
       cap_credentials_required := False,
       cap_kyc_required := True,
       cap_region_limited := True \<rparr>"

definition METADAO_CAPABILITIES :: market_capabilities where
  "METADAO_CAPABILITIES = default_capabilities \<lparr> cap_market_discovery := True,
       cap_event_listing := True,
       cap_price_reading := True,
       cap_orderbook_reading := True,
       cap_trade_history := True,
       cap_candle_history := True,
       cap_alerts := True,
       cap_paper_trading := True,
       cap_live_trading := False,
       cap_copy_trading := True,
       cap_api_required := True,
       cap_credentials_required := False,
       cap_kyc_required := False,
       cap_region_limited := True \<rparr>"

definition SEER_CAPABILITIES :: market_capabilities where
  "SEER_CAPABILITIES = default_capabilities \<lparr> cap_market_discovery := True,
       cap_event_listing := True,
       cap_price_reading := True,
       cap_orderbook_reading := False,
       cap_candle_history := True,
       cap_alerts := True,
       cap_paper_trading := True,
       cap_live_trading := False,
       cap_copy_trading := False,
       cap_api_required := True,
       cap_credentials_required := False,
       cap_kyc_required := False,
       cap_region_limited := True \<rparr>"

definition TRUEO_CAPABILITIES :: market_capabilities where
  "TRUEO_CAPABILITIES = default_capabilities \<lparr> cap_market_discovery := True,
       cap_event_listing := True,
       cap_price_reading := True,
       cap_orderbook_reading := False,
       cap_trade_history := True,
       cap_candle_history := True,
       cap_alerts := True,
       cap_paper_trading := True,
       cap_live_trading := False,
       cap_copy_trading := False,
       cap_api_required := True,
       cap_credentials_required := False,
       cap_kyc_required := False,
       cap_region_limited := True \<rparr>"

definition ZEITGEIST_SDK_CAPABILITIES :: market_capabilities where
  "ZEITGEIST_SDK_CAPABILITIES = default_capabilities \<lparr> cap_market_discovery := True,
       cap_event_listing := True,
       cap_price_reading := True,
       cap_orderbook_reading := False,
       cap_alerts := True,
       cap_paper_trading := True,
       cap_live_trading := False,
       cap_copy_trading := False,
       cap_api_required := True,
       cap_credentials_required := False,
       cap_kyc_required := False,
       cap_region_limited := True \<rparr>"

definition GNOSIS_PREDICTION_CAPABILITIES :: market_capabilities where
  "GNOSIS_PREDICTION_CAPABILITIES = default_capabilities \<lparr> cap_market_discovery := True,
       cap_event_listing := True,
       cap_price_reading := True,
       cap_orderbook_reading := False,
       cap_trade_history := True,
       cap_candle_history := True,
       cap_alerts := True,
       cap_paper_trading := True,
       cap_live_trading := False,
       cap_copy_trading := True,
       cap_api_required := True,
       cap_credentials_required := True,
       cap_kyc_required := False,
       cap_region_limited := True \<rparr>"

definition ZEITGEIST_POOL_CAPABILITIES :: market_capabilities where
  "ZEITGEIST_POOL_CAPABILITIES = default_capabilities \<lparr> cap_market_discovery := True,
       cap_event_listing := True,
       cap_price_reading := True,
       cap_orderbook_reading := False,
       cap_alerts := True,
       cap_paper_trading := True,
       cap_live_trading := False,
       cap_copy_trading := False,
       cap_api_required := True,
       cap_credentials_required := False,
       cap_kyc_required := False,
       cap_region_limited := True \<rparr>"

definition REALITY_ETH_CAPABILITIES :: market_capabilities where
  "REALITY_ETH_CAPABILITIES = default_capabilities \<lparr> cap_market_discovery := True,
       cap_event_listing := True,
       cap_price_reading := False,
       cap_orderbook_reading := False,
       cap_alerts := False,
       cap_paper_trading := False,
       cap_live_trading := False,
       cap_copy_trading := False,
       cap_api_required := True,
       cap_credentials_required := True,
       cap_kyc_required := False,
       cap_region_limited := True \<rparr>"

definition MATCHBOOK_CAPABILITIES :: market_capabilities where
  "MATCHBOOK_CAPABILITIES = default_capabilities \<lparr> cap_market_discovery := True,
       cap_event_listing := True,
       cap_price_reading := True,
       cap_orderbook_reading := True,
       cap_trade_history := True,
       cap_candle_history := True,
       cap_alerts := True,
       cap_paper_trading := True,
       cap_live_trading := True,
       cap_copy_trading := True,
       cap_api_required := True,
       cap_credentials_required := True,
       cap_kyc_required := True,
       cap_region_limited := True \<rparr>"

definition SCICAST_CAPABILITIES :: market_capabilities where
  "SCICAST_CAPABILITIES = default_capabilities \<lparr> cap_market_discovery := True,
       cap_event_listing := True,
       cap_price_reading := True,
       cap_orderbook_reading := False,
       cap_trade_history := True,
       cap_candle_history := True,
       cap_alerts := True,
       cap_paper_trading := True,
       cap_live_trading := False,
       cap_copy_trading := False,
       cap_api_required := True,
       cap_credentials_required := True,
       cap_kyc_required := False,
       cap_region_limited := False \<rparr>"

definition PROPHET_EXCHANGE_CAPABILITIES :: market_capabilities where
  "PROPHET_EXCHANGE_CAPABILITIES = default_capabilities \<lparr> cap_market_discovery := True,
       cap_event_listing := True,
       cap_price_reading := True,
       cap_orderbook_reading := True,
       cap_trade_history := True,
       cap_candle_history := True,
       cap_alerts := True,
       cap_paper_trading := True,
       cap_live_trading := True,
       cap_copy_trading := True,
       cap_api_required := True,
       cap_credentials_required := True,
       cap_kyc_required := True,
       cap_region_limited := True \<rparr>"

definition DFLOW_CAPABILITIES :: market_capabilities where
  "DFLOW_CAPABILITIES = default_capabilities \<lparr> cap_market_discovery := True,
       cap_event_listing := True,
       cap_price_reading := True,
       cap_orderbook_reading := True,
       cap_trade_history := True,
       cap_candle_history := True,
       cap_alerts := True,
       cap_paper_trading := True,
       cap_live_trading := False,
       cap_copy_trading := True,
       cap_api_required := True,
       cap_credentials_required := True,
       cap_kyc_required := True,
       cap_region_limited := True \<rparr>"

definition SPACE_CAPABILITIES :: market_capabilities where
  "SPACE_CAPABILITIES = default_capabilities \<lparr> cap_market_discovery := True,
       cap_event_listing := True,
       cap_price_reading := True,
       cap_orderbook_reading := True,
       cap_trade_history := True,
       cap_candle_history := True,
       cap_alerts := True,
       cap_paper_trading := True,
       cap_live_trading := False,
       cap_copy_trading := False,
       cap_api_required := True,
       cap_credentials_required := True,
       cap_kyc_required := False,
       cap_region_limited := True \<rparr>"

definition BLINQ_CAPABILITIES :: market_capabilities where
  "BLINQ_CAPABILITIES = default_capabilities \<lparr> cap_market_discovery := True,
       cap_event_listing := True,
       cap_price_reading := True,
       cap_orderbook_reading := True,
       cap_trade_history := True,
       cap_candle_history := True,
       cap_alerts := True,
       cap_paper_trading := True,
       cap_live_trading := False,
       cap_copy_trading := False,
       cap_api_required := True,
       cap_credentials_required := False,
       cap_kyc_required := False,
       cap_region_limited := True \<rparr>"

definition COINBASE_PREDICTION_CAPABILITIES :: market_capabilities where
  "COINBASE_PREDICTION_CAPABILITIES = default_capabilities \<lparr> cap_market_discovery := True,
       cap_event_listing := True,
       cap_price_reading := True,
       cap_orderbook_reading := True,
       cap_trade_history := True,
       cap_candle_history := True,
       cap_alerts := True,
       cap_paper_trading := True,
       cap_live_trading := False,
       cap_copy_trading := False,
       cap_api_required := True,
       cap_credentials_required := False,
       cap_kyc_required := True,
       cap_region_limited := True \<rparr>"

definition ROBINHOOD_PREDICTION_CAPABILITIES :: market_capabilities where
  "ROBINHOOD_PREDICTION_CAPABILITIES = default_capabilities \<lparr> cap_market_discovery := True,
       cap_event_listing := True,
       cap_price_reading := True,
       cap_orderbook_reading := True,
       cap_trade_history := True,
       cap_candle_history := True,
       cap_alerts := True,
       cap_paper_trading := True,
       cap_live_trading := False,
       cap_copy_trading := False,
       cap_api_required := True,
       cap_credentials_required := False,
       cap_kyc_required := True,
       cap_region_limited := True \<rparr>"

definition KALSHI_VIA_ROBINHOOD_CAPABILITIES :: market_capabilities where
  "KALSHI_VIA_ROBINHOOD_CAPABILITIES = ROBINHOOD_PREDICTION_CAPABILITIES"

definition PRDT_FINANCE_CAPABILITIES :: market_capabilities where
  "PRDT_FINANCE_CAPABILITIES = default_capabilities \<lparr> cap_market_discovery := True,
       cap_event_listing := True,
       cap_price_reading := True,
       cap_orderbook_reading := False,
       cap_alerts := True,
       cap_paper_trading := True,
       cap_live_trading := False,
       cap_copy_trading := False,
       cap_api_required := True,
       cap_credentials_required := False,
       cap_kyc_required := False,
       cap_region_limited := True \<rparr>"

definition LAMAS_FINANCE_CAPABILITIES :: market_capabilities where
  "LAMAS_FINANCE_CAPABILITIES = default_capabilities \<lparr> cap_market_discovery := True,
       cap_event_listing := True,
       cap_price_reading := True,
       cap_orderbook_reading := False,
       cap_alerts := True,
       cap_paper_trading := True,
       cap_live_trading := False,
       cap_copy_trading := False,
       cap_api_required := True,
       cap_credentials_required := False,
       cap_kyc_required := False,
       cap_region_limited := True \<rparr>"

definition ZETARIUM_CAPABILITIES :: market_capabilities where
  "ZETARIUM_CAPABILITIES = default_capabilities \<lparr> cap_market_discovery := True,
       cap_event_listing := True,
       cap_price_reading := True,
       cap_orderbook_reading := False,
       cap_alerts := True,
       cap_paper_trading := True,
       cap_live_trading := True,
       cap_copy_trading := False,
       cap_api_required := True,
       cap_credentials_required := False,
       cap_kyc_required := False,
       cap_region_limited := True \<rparr>"

definition EXPANDED_MARKET_CATALOG :: "market_metadata list" where
  "EXPANDED_MARKET_CATALOG = [
     \<lparr> meta_id = ''coinbase_prediction_markets'', meta_display_name = ''Coinbase Prediction Markets'',
       meta_default_enabled = False, meta_homepage_url = ''https://help.coinbase.com/en/coinbase/trading-and-funding/prediction-markets/intro'',
       meta_capabilities = COINBASE_PREDICTION_CAPABILITIES \<rparr>,
     \<lparr> meta_id = ''probable'', meta_display_name = ''Probable'',
       meta_default_enabled = False, meta_homepage_url = ''https://developer.probable.markets/'',
       meta_capabilities = PROBABLE_CAPABILITIES \<rparr>,
     \<lparr> meta_id = ''kalshi_via_robinhood'', meta_display_name = ''Kalshi via Robinhood'',
       meta_default_enabled = False, meta_homepage_url = ''https://robinhood.com/us/en/prediction-markets'',
       meta_capabilities = KALSHI_VIA_ROBINHOOD_CAPABILITIES \<rparr>,
     \<lparr> meta_id = ''fanduel_predicts'', meta_display_name = ''FanDuel Predicts'',
       meta_default_enabled = False, meta_homepage_url = ''https://www.fanduel.com/predicts'',
       meta_capabilities = FANDUEL_PREDICTS_CAPABILITIES \<rparr>,
     \<lparr> meta_id = ''seer'', meta_display_name = ''Seer'',
       meta_default_enabled = False, meta_homepage_url = ''https://seer-3.gitbook.io/seer-documentation/developers/interact-with-seer'',
       meta_capabilities = SEER_CAPABILITIES \<rparr>,
     \<lparr> meta_id = ''dflow'', meta_display_name = ''DFlow'',
       meta_default_enabled = False, meta_homepage_url = ''https://pond.dflow.net/introduction'',
       meta_capabilities = DFLOW_CAPABILITIES \<rparr>,
     \<lparr> meta_id = ''space'', meta_display_name = ''Space'',
       meta_default_enabled = False, meta_homepage_url = ''https://docs.into.space/en/api/rest'',
       meta_capabilities = SPACE_CAPABILITIES \<rparr>,
     \<lparr> meta_id = ''xmarket'', meta_display_name = ''Xmarket'',
       meta_default_enabled = False, meta_homepage_url = ''https://docs.xmarket.app/developers/quick-start'',
       meta_capabilities = XMARKET_CAPABILITIES \<rparr>,
     \<lparr> meta_id = ''trueo'', meta_display_name = ''Trueo'',
       meta_default_enabled = False, meta_homepage_url = ''https://docs.trueo.com/trading'',
       meta_capabilities = TRUEO_CAPABILITIES \<rparr>,
     \<lparr> meta_id = ''prdt_finance'', meta_display_name = ''PRDT Finance'',
       meta_default_enabled = False, meta_homepage_url = ''https://prdt.finance/en'',
       meta_capabilities = PRDT_FINANCE_CAPABILITIES \<rparr>,
     \<lparr> meta_id = ''synstation'', meta_display_name = ''SynStation'',
       meta_default_enabled = False, meta_homepage_url = ''https://synstation.ai'',
       meta_capabilities = default_capabilities \<rparr>,
     \<lparr> meta_id = ''gnosis_prediction_markets'', meta_display_name = ''Gnosis Prediction Markets'',
       meta_default_enabled = False, meta_homepage_url = ''https://omen.eth.limo'',
       meta_capabilities = GNOSIS_PREDICTION_CAPABILITIES \<rparr>,
     \<lparr> meta_id = ''zeitgeist_sdk_markets'', meta_display_name = ''Zeitgeist SDK / Markets'',
       meta_default_enabled = False, meta_homepage_url = ''https://docs.zeitgeist.pm/docs/build/sdk/v2/fetch-markets'',
       meta_capabilities = ZEITGEIST_SDK_CAPABILITIES \<rparr>,
     \<lparr> meta_id = ''metadao'', meta_display_name = ''MetaDAO'',
       meta_default_enabled = False, meta_homepage_url = ''https://docs.metadao.fi/protocol/analytics'',
       meta_capabilities = METADAO_CAPABILITIES \<rparr>,
     \<lparr> meta_id = ''levr_bet'', meta_display_name = ''Levr Bet'',
       meta_default_enabled = False, meta_homepage_url = ''https://levr.bet'',
       meta_capabilities = default_capabilities \<rparr>,
     \<lparr> meta_id = ''dexsport'', meta_display_name = ''Dexsport'',
       meta_default_enabled = False, meta_homepage_url = ''https://dexsport.io/docs-home/'',
       meta_capabilities = default_capabilities \<rparr>,
     \<lparr> meta_id = ''lamas_finance'', meta_display_name = ''Lamas Finance'',
       meta_default_enabled = False, meta_homepage_url = ''https://docs.lamas.co/1.0'',
       meta_capabilities = LAMAS_FINANCE_CAPABILITIES \<rparr>,
     \<lparr> meta_id = ''zetarium_world'', meta_display_name = ''Zetarium World'',
       meta_default_enabled = False, meta_homepage_url = ''https://docs.zetarium.world/docs'',
       meta_capabilities = ZETARIUM_CAPABILITIES \<rparr>,
     \<lparr> meta_id = ''blinq'', meta_display_name = ''Blinq'',
       meta_default_enabled = False, meta_homepage_url = ''https://blinq.fi'',
       meta_capabilities = BLINQ_CAPABILITIES \<rparr>,
     \<lparr> meta_id = ''zeitgeist_prediction_pools'', meta_display_name = ''Zeitgeist Prediction Pools'',
       meta_default_enabled = False, meta_homepage_url = ''https://docs.zeitgeist.pm/docs/build/sdk/v2/fetch-markets'',
       meta_capabilities = ZEITGEIST_POOL_CAPABILITIES \<rparr>,
     \<lparr> meta_id = ''reality_eth_markets'', meta_display_name = ''Reality.eth Markets'',
       meta_default_enabled = False, meta_homepage_url = ''https://reality.eth.limo'',
       meta_capabilities = REALITY_ETH_CAPABILITIES \<rparr>,
     \<lparr> meta_id = ''sportstrade'', meta_display_name = ''SportsTrade'',
       meta_default_enabled = False, meta_homepage_url = ''https://sportstrade.com'',
       meta_capabilities = default_capabilities \<rparr>,
     \<lparr> meta_id = ''prophet_exchange'', meta_display_name = ''Prophet Exchange'',
       meta_default_enabled = False, meta_homepage_url = ''https://docs.prophetx.co/docs/integration'',
       meta_capabilities = PROPHET_EXCHANGE_CAPABILITIES \<rparr>,
     \<lparr> meta_id = ''sporttrade_products'', meta_display_name = ''Sporttrade Prediction / Exchange Products'',
       meta_default_enabled = False, meta_homepage_url = ''https://sporttrade.com'',
       meta_capabilities = default_capabilities \<rparr>,
     \<lparr> meta_id = ''matchbook'', meta_display_name = ''Matchbook'',
       meta_default_enabled = False, meta_homepage_url = ''https://developers.matchbook.com/'',
       meta_capabilities = MATCHBOOK_CAPABILITIES \<rparr>,
     \<lparr> meta_id = ''scicast'', meta_display_name = ''SciCast'',
       meta_default_enabled = False, meta_homepage_url = ''https://scicast.wordpress.com/wp-content/uploads/2014/10/scicast_datamart_guide_v1-21.pdf'',
       meta_capabilities = SCICAST_CAPABILITIES \<rparr>,
     \<lparr> meta_id = ''meta_arena'', meta_display_name = ''Meta Arena'',
       meta_default_enabled = False, meta_homepage_url = ''https://docs.metaarena.world/'',
       meta_capabilities = default_capabilities \<rparr>]"

section \<open>The catalogue\<close>

definition POLYMARKET_CAPABILITIES :: market_capabilities where
  "POLYMARKET_CAPABILITIES = default_capabilities \<lparr> cap_market_discovery := True,
       cap_event_listing := True,
       cap_price_reading := True,
       cap_orderbook_reading := True,
       cap_trade_history := True,
       cap_candle_history := True,
       cap_alerts := True,
       cap_paper_trading := True,
       cap_live_trading := False,
       cap_copy_trading := True,
       cap_api_required := True,
       cap_credentials_required := True,
       cap_kyc_required := True,
       cap_region_limited := True \<rparr>"

definition KALSHI_CAPABILITIES :: market_capabilities where
  "KALSHI_CAPABILITIES = default_capabilities \<lparr> cap_market_discovery := True,
       cap_event_listing := True,
       cap_price_reading := True,
       cap_orderbook_reading := True,
       cap_trade_history := True,
       cap_candle_history := True,
       cap_alerts := True,
       cap_paper_trading := True,
       cap_live_trading := True,
       cap_copy_trading := True,
       cap_api_required := True,
       cap_credentials_required := True,
       cap_kyc_required := True,
       cap_region_limited := True \<rparr>"

definition MANIFOLD_CAPABILITIES :: market_capabilities where
  "MANIFOLD_CAPABILITIES = default_capabilities \<lparr> cap_market_discovery := True,
       cap_event_listing := True,
       cap_price_reading := True,
       cap_orderbook_reading := False,
       cap_trade_history := True,
       cap_candle_history := True,
       cap_alerts := True,
       cap_paper_trading := True,
       cap_live_trading := True,
       cap_copy_trading := True,
       cap_api_required := True,
       cap_credentials_required := True,
       cap_kyc_required := False,
       cap_region_limited := False \<rparr>"

definition METACULUS_CAPABILITIES :: market_capabilities where
  "METACULUS_CAPABILITIES = default_capabilities \<lparr> cap_market_discovery := True,
       cap_event_listing := True,
       cap_price_reading := True,
       cap_orderbook_reading := False,
       cap_candle_history := True,
       cap_alerts := True,
       cap_paper_trading := True,
       cap_live_trading := True,
       cap_copy_trading := False,
       cap_api_required := True,
       cap_credentials_required := True,
       cap_kyc_required := False,
       cap_region_limited := False \<rparr>"

definition GOOD_JUDGMENT_OPEN_CAPABILITIES :: market_capabilities where
  "GOOD_JUDGMENT_OPEN_CAPABILITIES = default_capabilities \<lparr> cap_market_discovery := True,
       cap_event_listing := True,
       cap_price_reading := True,
       cap_orderbook_reading := False,
       cap_candle_history := True,
       cap_alerts := True,
       cap_paper_trading := True,
       cap_live_trading := True,
       cap_copy_trading := False,
       cap_api_required := True,
       cap_credentials_required := True,
       cap_kyc_required := False,
       cap_region_limited := True \<rparr>"

definition PREDICTIT_CAPABILITIES :: market_capabilities where
  "PREDICTIT_CAPABILITIES = default_capabilities \<lparr> cap_market_discovery := True,
       cap_event_listing := True,
       cap_price_reading := True,
       cap_orderbook_reading := True,
       cap_alerts := True,
       cap_paper_trading := True,
       cap_live_trading := False,
       cap_copy_trading := False,
       cap_api_required := True,
       cap_credentials_required := False,
       cap_kyc_required := True,
       cap_region_limited := True \<rparr>"

definition BETMGM_CAPABILITIES :: market_capabilities where
  "BETMGM_CAPABILITIES = default_capabilities \<lparr> cap_market_discovery := True,
       cap_event_listing := True,
       cap_price_reading := True,
       cap_orderbook_reading := False,
       cap_alerts := True,
       cap_paper_trading := True,
       cap_live_trading := False,
       cap_copy_trading := False,
       cap_api_required := True,
       cap_credentials_required := True,
       cap_kyc_required := True,
       cap_region_limited := True \<rparr>"

definition CRYPTO_COM_PREDICT_CAPABILITIES :: market_capabilities where
  "CRYPTO_COM_PREDICT_CAPABILITIES = default_capabilities \<lparr> cap_market_discovery := True,
       cap_event_listing := True,
       cap_price_reading := True,
       cap_orderbook_reading := True,
       cap_alerts := True,
       cap_paper_trading := True,
       cap_live_trading := False,
       cap_copy_trading := False,
       cap_api_required := True,
       cap_credentials_required := False,
       cap_kyc_required := False,
       cap_region_limited := False \<rparr>"

definition DRAFTKINGS_PREDICTIONS_CAPABILITIES :: market_capabilities where
  "DRAFTKINGS_PREDICTIONS_CAPABILITIES = default_capabilities \<lparr> cap_market_discovery := True,
       cap_event_listing := True,
       cap_price_reading := True,
       cap_orderbook_reading := True,
       cap_alerts := True,
       cap_paper_trading := True,
       cap_live_trading := False,
       cap_copy_trading := False,
       cap_api_required := True,
       cap_credentials_required := False,
       cap_kyc_required := True,
       cap_region_limited := True \<rparr>"

definition FANATICS_MARKETS_CAPABILITIES :: market_capabilities where
  "FANATICS_MARKETS_CAPABILITIES = default_capabilities \<lparr> cap_market_discovery := True,
       cap_event_listing := True,
       cap_price_reading := True,
       cap_orderbook_reading := True,
       cap_alerts := True,
       cap_paper_trading := True,
       cap_live_trading := False,
       cap_copy_trading := False,
       cap_api_required := True,
       cap_credentials_required := False,
       cap_kyc_required := True,
       cap_region_limited := True \<rparr>"

definition NADEX_CAPABILITIES :: market_capabilities where
  "NADEX_CAPABILITIES = default_capabilities \<lparr> cap_market_discovery := True,
       cap_event_listing := True,
       cap_price_reading := True,
       cap_orderbook_reading := True,
       cap_alerts := True,
       cap_paper_trading := True,
       cap_live_trading := False,
       cap_copy_trading := False,
       cap_api_required := True,
       cap_credentials_required := False,
       cap_kyc_required := True,
       cap_region_limited := True \<rparr>"

definition LIMITLESS_CAPABILITIES :: market_capabilities where
  "LIMITLESS_CAPABILITIES = default_capabilities \<lparr> cap_market_discovery := True,
       cap_event_listing := True,
       cap_price_reading := True,
       cap_orderbook_reading := True,
       cap_trade_history := True,
       cap_candle_history := True,
       cap_alerts := True,
       cap_paper_trading := True,
       cap_live_trading := True,
       cap_copy_trading := True,
       cap_api_required := True,
       cap_credentials_required := True,
       cap_kyc_required := False,
       cap_region_limited := True \<rparr>"

definition SX_BET_CAPABILITIES :: market_capabilities where
  "SX_BET_CAPABILITIES = default_capabilities \<lparr> cap_market_discovery := True,
       cap_event_listing := True,
       cap_price_reading := True,
       cap_orderbook_reading := True,
       cap_trade_history := True,
       cap_candle_history := True,
       cap_alerts := True,
       cap_paper_trading := True,
       cap_live_trading := True,
       cap_copy_trading := True,
       cap_api_required := True,
       cap_credentials_required := True,
       cap_kyc_required := False,
       cap_region_limited := True \<rparr>"

definition AZURO_CAPABILITIES :: market_capabilities where
  "AZURO_CAPABILITIES = default_capabilities \<lparr> cap_market_discovery := True,
       cap_event_listing := True,
       cap_price_reading := True,
       cap_orderbook_reading := False,
       cap_trade_history := True,
       cap_candle_history := True,
       cap_alerts := True,
       cap_paper_trading := True,
       cap_live_trading := False,
       cap_copy_trading := True,
       cap_api_required := True,
       cap_credentials_required := False,
       cap_kyc_required := False,
       cap_region_limited := True \<rparr>"

definition AUGUR_CAPABILITIES :: market_capabilities where
  "AUGUR_CAPABILITIES = default_capabilities \<lparr> cap_market_discovery := True,
       cap_event_listing := True,
       cap_price_reading := False,
       cap_orderbook_reading := False,
       cap_alerts := False,
       cap_paper_trading := False,
       cap_live_trading := False,
       cap_copy_trading := False,
       cap_api_required := True,
       cap_credentials_required := True,
       cap_kyc_required := False,
       cap_region_limited := True \<rparr>"

definition OMEN_CAPABILITIES :: market_capabilities where
  "OMEN_CAPABILITIES = default_capabilities \<lparr> cap_market_discovery := True,
       cap_event_listing := True,
       cap_price_reading := True,
       cap_orderbook_reading := False,
       cap_trade_history := True,
       cap_candle_history := True,
       cap_alerts := True,
       cap_paper_trading := True,
       cap_live_trading := False,
       cap_copy_trading := True,
       cap_api_required := True,
       cap_credentials_required := True,
       cap_kyc_required := False,
       cap_region_limited := True \<rparr>"

definition ZEITGEIST_CAPABILITIES :: market_capabilities where
  "ZEITGEIST_CAPABILITIES = default_capabilities \<lparr> cap_market_discovery := True,
       cap_event_listing := True,
       cap_price_reading := True,
       cap_orderbook_reading := False,
       cap_alerts := True,
       cap_paper_trading := True,
       cap_live_trading := False,
       cap_copy_trading := False,
       cap_api_required := True,
       cap_credentials_required := False,
       cap_kyc_required := False,
       cap_region_limited := True \<rparr>"

definition GEMINI_PREDICTION_CAPABILITIES :: market_capabilities where
  "GEMINI_PREDICTION_CAPABILITIES = default_capabilities \<lparr> cap_market_discovery := True,
       cap_event_listing := True,
       cap_price_reading := True,
       cap_orderbook_reading := True,
       cap_trade_history := True,
       cap_candle_history := True,
       cap_alerts := True,
       cap_paper_trading := True,
       cap_live_trading := True,
       cap_copy_trading := True,
       cap_api_required := True,
       cap_credentials_required := True,
       cap_kyc_required := True,
       cap_region_limited := True \<rparr>"

definition MYRIAD_CAPABILITIES :: market_capabilities where
  "MYRIAD_CAPABILITIES = default_capabilities \<lparr> cap_market_discovery := True,
       cap_event_listing := True,
       cap_price_reading := True,
       cap_orderbook_reading := True,
       cap_trade_history := True,
       cap_candle_history := True,
       cap_alerts := True,
       cap_paper_trading := True,
       cap_live_trading := True,
       cap_copy_trading := True,
       cap_api_required := True,
       cap_credentials_required := False,
       cap_kyc_required := False,
       cap_region_limited := True \<rparr>"

definition OPINION_CAPABILITIES :: market_capabilities where
  "OPINION_CAPABILITIES = default_capabilities \<lparr> cap_market_discovery := True,
       cap_event_listing := True,
       cap_price_reading := True,
       cap_orderbook_reading := True,
       cap_trade_history := True,
       cap_candle_history := True,
       cap_alerts := True,
       cap_paper_trading := True,
       cap_live_trading := True,
       cap_copy_trading := True,
       cap_api_required := True,
       cap_credentials_required := True,
       cap_kyc_required := False,
       cap_region_limited := True \<rparr>"

definition PREDICT_FUN_CAPABILITIES :: market_capabilities where
  "PREDICT_FUN_CAPABILITIES = default_capabilities \<lparr> cap_market_discovery := True,
       cap_event_listing := True,
       cap_price_reading := True,
       cap_orderbook_reading := True,
       cap_trade_history := True,
       cap_candle_history := True,
       cap_alerts := True,
       cap_paper_trading := True,
       cap_live_trading := True,
       cap_copy_trading := True,
       cap_api_required := True,
       cap_credentials_required := True,
       cap_kyc_required := False,
       cap_region_limited := True \<rparr>"

definition XO_MARKET_CAPABILITIES :: market_capabilities where
  "XO_MARKET_CAPABILITIES = default_capabilities \<lparr> cap_market_discovery := True,
       cap_event_listing := True,
       cap_price_reading := True,
       cap_orderbook_reading := True,
       cap_trade_history := True,
       cap_candle_history := True,
       cap_alerts := True,
       cap_paper_trading := True,
       cap_live_trading := True,
       cap_copy_trading := True,
       cap_api_required := True,
       cap_credentials_required := True,
       cap_kyc_required := True,
       cap_region_limited := True \<rparr>"

definition BETFAIR_CAPABILITIES :: market_capabilities where
  "BETFAIR_CAPABILITIES = default_capabilities \<lparr> cap_market_discovery := True,
       cap_event_listing := True,
       cap_price_reading := True,
       cap_orderbook_reading := True,
       cap_trade_history := True,
       cap_candle_history := True,
       cap_alerts := True,
       cap_paper_trading := True,
       cap_live_trading := True,
       cap_copy_trading := True,
       cap_api_required := True,
       cap_credentials_required := True,
       cap_kyc_required := True,
       cap_region_limited := True \<rparr>"

definition HYPERLIQUID_CAPABILITIES :: market_capabilities where
  "HYPERLIQUID_CAPABILITIES = default_capabilities \<lparr> cap_market_discovery := True,
       cap_event_listing := True,
       cap_price_reading := True,
       cap_orderbook_reading := True,
       cap_trade_history := True,
       cap_candle_history := True,
       cap_alerts := True,
       cap_paper_trading := True,
       cap_live_trading := True,
       cap_copy_trading := True,
       cap_api_required := True,
       cap_credentials_required := False,
       cap_kyc_required := False,
       cap_region_limited := True \<rparr>"

definition IBKR_EVENT_CAPABILITIES :: market_capabilities where
  "IBKR_EVENT_CAPABILITIES = default_capabilities \<lparr> cap_market_discovery := True,
       cap_event_listing := True,
       cap_price_reading := True,
       cap_orderbook_reading := True,
       cap_trade_history := True,
       cap_candle_history := True,
       cap_alerts := True,
       cap_paper_trading := True,
       cap_live_trading := True,
       cap_copy_trading := True,
       cap_api_required := True,
       cap_credentials_required := True,
       cap_kyc_required := True,
       cap_region_limited := True \<rparr>"

definition CONTEXT_V2_CAPABILITIES :: market_capabilities where
  "CONTEXT_V2_CAPABILITIES = default_capabilities \<lparr> cap_market_discovery := True,
       cap_event_listing := True,
       cap_price_reading := True,
       cap_orderbook_reading := True,
       cap_trade_history := True,
       cap_candle_history := True,
       cap_alerts := True,
       cap_paper_trading := True,
       cap_live_trading := True,
       cap_copy_trading := True,
       cap_api_required := True,
       cap_credentials_required := True,
       cap_kyc_required := True,
       cap_region_limited := True \<rparr>"

definition THALES_CAPABILITIES :: market_capabilities where
  "THALES_CAPABILITIES = default_capabilities \<lparr> cap_market_discovery := True,
       cap_event_listing := True,
       cap_price_reading := True,
       cap_orderbook_reading := False,
       cap_alerts := True,
       cap_paper_trading := True,
       cap_live_trading := False,
       cap_copy_trading := False,
       cap_api_required := True,
       cap_credentials_required := False,
       cap_kyc_required := False,
       cap_region_limited := True \<rparr>"

definition SMARKETS_CAPABILITIES :: market_capabilities where
  "SMARKETS_CAPABILITIES = default_capabilities \<lparr> cap_market_discovery := True,
       cap_event_listing := True,
       cap_price_reading := True,
       cap_orderbook_reading := True,
       cap_trade_history := True,
       cap_candle_history := True,
       cap_alerts := True,
       cap_paper_trading := True,
       cap_live_trading := True,
       cap_copy_trading := True,
       cap_api_required := True,
       cap_credentials_required := True,
       cap_kyc_required := True,
       cap_region_limited := True \<rparr>"

definition DRIFT_BET_CAPABILITIES :: market_capabilities where
  "DRIFT_BET_CAPABILITIES = default_capabilities \<lparr> cap_market_discovery := True,
       cap_event_listing := True,
       cap_price_reading := True,
       cap_orderbook_reading := False,
       cap_trade_history := True,
       cap_candle_history := True,
       cap_alerts := True,
       cap_paper_trading := True,
       cap_live_trading := False,
       cap_copy_trading := False,
       cap_api_required := True,
       cap_credentials_required := False,
       cap_kyc_required := False,
       cap_region_limited := True \<rparr>"

definition IEM_CAPABILITIES :: market_capabilities where
  "IEM_CAPABILITIES = default_capabilities \<lparr> cap_market_discovery := True,
       cap_event_listing := True,
       cap_price_reading := True,
       cap_orderbook_reading := False,
       cap_candle_history := True,
       cap_alerts := True,
       cap_paper_trading := True,
       cap_live_trading := False,
       cap_copy_trading := False,
       cap_api_required := True,
       cap_credentials_required := False,
       cap_kyc_required := False,
       cap_region_limited := False \<rparr>"

definition HYPERMIND_CAPABILITIES :: market_capabilities where
  "HYPERMIND_CAPABILITIES = default_capabilities \<lparr> cap_market_discovery := True,
       cap_event_listing := True,
       cap_price_reading := True,
       cap_orderbook_reading := False,
       cap_trade_history := True,
       cap_candle_history := True,
       cap_alerts := True,
       cap_paper_trading := True,
       cap_live_trading := False,
       cap_copy_trading := False,
       cap_api_required := True,
       cap_credentials_required := False,
       cap_kyc_required := False,
       cap_region_limited := False \<rparr>"

definition FRENZY_CAPABILITIES :: market_capabilities where
  "FRENZY_CAPABILITIES = default_capabilities \<lparr> cap_market_discovery := True,
       cap_event_listing := True,
       cap_price_reading := True,
       cap_orderbook_reading := False,
       cap_alerts := True,
       cap_paper_trading := True,
       cap_live_trading := False,
       cap_copy_trading := False,
       cap_api_required := True,
       cap_credentials_required := False,
       cap_kyc_required := False,
       cap_region_limited := True \<rparr>"

definition HEDGEHOG_CAPABILITIES :: market_capabilities where
  "HEDGEHOG_CAPABILITIES = default_capabilities \<lparr> cap_market_discovery := True,
       cap_event_listing := True,
       cap_price_reading := True,
       cap_orderbook_reading := False,
       cap_alerts := True,
       cap_paper_trading := True,
       cap_live_trading := False,
       cap_copy_trading := False,
       cap_api_required := True,
       cap_credentials_required := False,
       cap_kyc_required := False,
       cap_region_limited := True \<rparr>"

definition STUB_CAPABILITIES :: market_capabilities where
  "STUB_CAPABILITIES = default_capabilities"

definition MARKET_CATALOG :: "market_metadata list" where
  "MARKET_CATALOG = [
     \<lparr> meta_id = ''polymarket'', meta_display_name = ''Polymarket'',
       meta_default_enabled = True, meta_homepage_url = ''https://polymarket.com'',
       meta_capabilities = POLYMARKET_CAPABILITIES \<rparr>,
     \<lparr> meta_id = ''kalshi'', meta_display_name = ''Kalshi'',
       meta_default_enabled = False, meta_homepage_url = ''https://kalshi.com'',
       meta_capabilities = KALSHI_CAPABILITIES \<rparr>,
     \<lparr> meta_id = ''predictit'', meta_display_name = ''PredictIt'',
       meta_default_enabled = False, meta_homepage_url = ''https://www.predictit.org'',
       meta_capabilities = PREDICTIT_CAPABILITIES \<rparr>,
     \<lparr> meta_id = ''robinhood_prediction_markets'', meta_display_name = ''Robinhood Prediction Markets'',
       meta_default_enabled = False, meta_homepage_url = ''https://robinhood.com'',
       meta_capabilities = ROBINHOOD_PREDICTION_CAPABILITIES \<rparr>,
     \<lparr> meta_id = ''fanatics_markets'', meta_display_name = ''Fanatics Markets'',
       meta_default_enabled = False, meta_homepage_url = ''https://fanaticsmarkets.com'',
       meta_capabilities = FANATICS_MARKETS_CAPABILITIES \<rparr>,
     \<lparr> meta_id = ''draftkings_predictions'', meta_display_name = ''DraftKings Predictions'',
       meta_default_enabled = False, meta_homepage_url = ''https://www.draftkings.com'',
       meta_capabilities = DRAFTKINGS_PREDICTIONS_CAPABILITIES \<rparr>,
     \<lparr> meta_id = ''ibkr_forecasttrader'', meta_display_name = ''Interactive Brokers ForecastTrader / IBKR Prediction Markets'',
       meta_default_enabled = False, meta_homepage_url = ''https://www.interactivebrokers.com'',
       meta_capabilities = IBKR_EVENT_CAPABILITIES \<rparr>,
     \<lparr> meta_id = ''forecastex'', meta_display_name = ''ForecastEx'',
       meta_default_enabled = False, meta_homepage_url = ''https://www.forecastex.com'',
       meta_capabilities = IBKR_EVENT_CAPABILITIES \<rparr>,
     \<lparr> meta_id = ''cme_prediction_markets'', meta_display_name = ''CME Group Prediction Markets'',
       meta_default_enabled = False, meta_homepage_url = ''https://www.cmegroup.com'',
       meta_capabilities = IBKR_EVENT_CAPABILITIES \<rparr>,
     \<lparr> meta_id = ''nadex'', meta_display_name = ''Nadex'',
       meta_default_enabled = False, meta_homepage_url = ''https://www.nadex.com'',
       meta_capabilities = NADEX_CAPABILITIES \<rparr>,
     \<lparr> meta_id = ''crypto_com_predict'', meta_display_name = ''Crypto.com Predict / CDNA'',
       meta_default_enabled = False, meta_homepage_url = ''https://crypto.com'',
       meta_capabilities = CRYPTO_COM_PREDICT_CAPABILITIES \<rparr>,
     \<lparr> meta_id = ''hyperliquid'', meta_display_name = ''Hyperliquid'',
       meta_default_enabled = False, meta_homepage_url = ''https://hyperliquid.xyz'',
       meta_capabilities = HYPERLIQUID_CAPABILITIES \<rparr>,
     \<lparr> meta_id = ''myriad_markets'', meta_display_name = ''Myriad Markets'',
       meta_default_enabled = False, meta_homepage_url = ''https://myriad.markets'',
       meta_capabilities = MYRIAD_CAPABILITIES \<rparr>,
     \<lparr> meta_id = ''context_v2'', meta_display_name = ''Context V2'',
       meta_default_enabled = False, meta_homepage_url = ''https://context.markets'',
       meta_capabilities = CONTEXT_V2_CAPABILITIES \<rparr>,
     \<lparr> meta_id = ''frenzy_finance'', meta_display_name = ''Frenzy Finance'',
       meta_default_enabled = False, meta_homepage_url = ''https://frenzy.finance'',
       meta_capabilities = FRENZY_CAPABILITIES \<rparr>,
     \<lparr> meta_id = ''xo_market'', meta_display_name = ''XO Market'',
       meta_default_enabled = False, meta_homepage_url = ''https://xotrade.co'',
       meta_capabilities = XO_MARKET_CAPABILITIES \<rparr>,
     \<lparr> meta_id = ''manifold'', meta_display_name = ''Manifold Markets'',
       meta_default_enabled = False, meta_homepage_url = ''https://manifold.markets'',
       meta_capabilities = MANIFOLD_CAPABILITIES \<rparr>,
     \<lparr> meta_id = ''metaculus'', meta_display_name = ''Metaculus'',
       meta_default_enabled = False, meta_homepage_url = ''https://www.metaculus.com'',
       meta_capabilities = METACULUS_CAPABILITIES \<rparr>,
     \<lparr> meta_id = ''good_judgment_open'', meta_display_name = ''Good Judgment Open'',
       meta_default_enabled = False, meta_homepage_url = ''https://www.gjopen.com'',
       meta_capabilities = GOOD_JUDGMENT_OPEN_CAPABILITIES \<rparr>,
     \<lparr> meta_id = ''hypermind'', meta_display_name = ''Hypermind'',
       meta_default_enabled = False, meta_homepage_url = ''https://www.hypermind.com'',
       meta_capabilities = HYPERMIND_CAPABILITIES \<rparr>,
     \<lparr> meta_id = ''iowa_electronic_markets'', meta_display_name = ''Iowa Electronic Markets'',
       meta_default_enabled = False, meta_homepage_url = ''https://iem.uiowa.edu'',
       meta_capabilities = IEM_CAPABILITIES \<rparr>,
     \<lparr> meta_id = ''infer'', meta_display_name = ''INFER / INFER-pub'',
       meta_default_enabled = False, meta_homepage_url = ''https://www.infer-pub.com'',
       meta_capabilities = default_capabilities \<rparr>,
     \<lparr> meta_id = ''fact_machine'', meta_display_name = ''Fact Machine'',
       meta_default_enabled = False, meta_homepage_url = ''https://factmachine.io'',
       meta_capabilities = default_capabilities \<rparr>,
     \<lparr> meta_id = ''opinion_labs'', meta_display_name = ''Opinion Labs'',
       meta_default_enabled = False, meta_homepage_url = ''https://opinion.trade'',
       meta_capabilities = OPINION_CAPABILITIES \<rparr>,
     \<lparr> meta_id = ''gemini_titan'', meta_display_name = ''Gemini Titan / Gemini Predictions'',
       meta_default_enabled = False, meta_homepage_url = ''https://www.gemini.com'',
       meta_capabilities = GEMINI_PREDICTION_CAPABILITIES \<rparr>,
     \<lparr> meta_id = ''augur'', meta_display_name = ''Augur'',
       meta_default_enabled = False, meta_homepage_url = ''https://augur.net'',
       meta_capabilities = AUGUR_CAPABILITIES \<rparr>,
     \<lparr> meta_id = ''betmgm'', meta_display_name = ''BetMGM'',
       meta_default_enabled = False, meta_homepage_url = ''https://www.betmgm.com'',
       meta_capabilities = BETMGM_CAPABILITIES \<rparr>,
     \<lparr> meta_id = ''prizepicks'', meta_display_name = ''PrizePicks'',
       meta_default_enabled = False, meta_homepage_url = ''https://www.prizepicks.com'',
       meta_capabilities = default_capabilities \<rparr>,
     \<lparr> meta_id = ''underdog_sports'', meta_display_name = ''Underdog Sports'',
       meta_default_enabled = False, meta_homepage_url = ''https://underdogfantasy.com'',
       meta_capabilities = default_capabilities \<rparr>,
     \<lparr> meta_id = ''drift_bet'', meta_display_name = ''Drift BET'',
       meta_default_enabled = False, meta_homepage_url = ''https://www.drift.trade'',
       meta_capabilities = DRIFT_BET_CAPABILITIES \<rparr>,
     \<lparr> meta_id = ''thales_market'', meta_display_name = ''Thales Market'',
       meta_default_enabled = False, meta_homepage_url = ''https://thalesmarket.io'',
       meta_capabilities = THALES_CAPABILITIES \<rparr>,
     \<lparr> meta_id = ''hedgehog_markets'', meta_display_name = ''Hedgehog Markets'',
       meta_default_enabled = False, meta_homepage_url = ''https://hedgehog.markets'',
       meta_capabilities = HEDGEHOG_CAPABILITIES \<rparr>,
     \<lparr> meta_id = ''omen'', meta_display_name = ''Omen'',
       meta_default_enabled = False, meta_homepage_url = ''https://omen.eth.limo'',
       meta_capabilities = OMEN_CAPABILITIES \<rparr>,
     \<lparr> meta_id = ''zeitgeist'', meta_display_name = ''Zeitgeist'',
       meta_default_enabled = False, meta_homepage_url = ''https://zeitgeist.pm'',
       meta_capabilities = ZEITGEIST_CAPABILITIES \<rparr>,
     \<lparr> meta_id = ''azuro'', meta_display_name = ''Azuro'',
       meta_default_enabled = False, meta_homepage_url = ''https://azuro.org'',
       meta_capabilities = AZURO_CAPABILITIES \<rparr>,
     \<lparr> meta_id = ''sx_bet'', meta_display_name = ''SX Bet / SX Network'',
       meta_default_enabled = False, meta_homepage_url = ''https://sx.bet'',
       meta_capabilities = SX_BET_CAPABILITIES \<rparr>,
     \<lparr> meta_id = ''limitless_exchange'', meta_display_name = ''Limitless Exchange'',
       meta_default_enabled = False, meta_homepage_url = ''https://limitless.exchange'',
       meta_capabilities = LIMITLESS_CAPABILITIES \<rparr>,
     \<lparr> meta_id = ''predict_fun'', meta_display_name = ''Predict.fun'',
       meta_default_enabled = False, meta_homepage_url = ''https://predict.fun'',
       meta_capabilities = PREDICT_FUN_CAPABILITIES \<rparr>,
     \<lparr> meta_id = ''smarkets'', meta_display_name = ''Smarkets'',
       meta_default_enabled = False, meta_homepage_url = ''https://smarkets.com'',
       meta_capabilities = SMARKETS_CAPABILITIES \<rparr>,
     \<lparr> meta_id = ''betfair_exchange'', meta_display_name = ''Betfair Exchange'',
       meta_default_enabled = False, meta_homepage_url = ''https://www.betfair.com/exchange'',
       meta_capabilities = BETFAIR_CAPABILITIES \<rparr>,
     \<lparr> meta_id = ''probo'', meta_display_name = ''Probo'',
       meta_default_enabled = False, meta_homepage_url = ''https://probo.in'',
       meta_capabilities = default_capabilities \<rparr>] @ EXPANDED_MARKET_CATALOG"

definition MARKET_IDS :: "string list" where
  "MARKET_IDS = map meta_id MARKET_CATALOG"

text \<open>\<open>get_market_metadata\<close>: a lookup in the dictionary built from the catalogue.\<close>

definition get_market_metadata :: "string \<Rightarrow> market_metadata res" where
  "get_market_metadata market_id =
     (case dget (rev (map (\<lambda>m. (meta_id m, m)) MARKET_CATALOG)) (lower (strip market_id)) of
        None \<Rightarrow> raise KeyError (lower (strip market_id))
      | Some m \<Rightarrow> Inr m)"


section \<open>Laws\<close>

lemma MARKET_IDS_list: "MARKET_IDS = [
    ''polymarket'', ''kalshi'', ''predictit'', ''robinhood_prediction_markets'',
    ''fanatics_markets'', ''draftkings_predictions'', ''ibkr_forecasttrader'', ''forecastex'',
    ''cme_prediction_markets'', ''nadex'', ''crypto_com_predict'', ''hyperliquid'',
    ''myriad_markets'', ''context_v2'', ''frenzy_finance'', ''xo_market'', ''manifold'',
    ''metaculus'', ''good_judgment_open'', ''hypermind'', ''iowa_electronic_markets'', ''infer'',
    ''fact_machine'', ''opinion_labs'', ''gemini_titan'', ''augur'', ''betmgm'', ''prizepicks'',
    ''underdog_sports'', ''drift_bet'', ''thales_market'', ''hedgehog_markets'', ''omen'',
    ''zeitgeist'', ''azuro'', ''sx_bet'', ''limitless_exchange'', ''predict_fun'', ''smarkets'',
    ''betfair_exchange'', ''probo'', ''coinbase_prediction_markets'', ''probable'',
    ''kalshi_via_robinhood'', ''fanduel_predicts'', ''seer'', ''dflow'', ''space'', ''xmarket'',
    ''trueo'', ''prdt_finance'', ''synstation'', ''gnosis_prediction_markets'',
    ''zeitgeist_sdk_markets'', ''metadao'', ''levr_bet'', ''dexsport'', ''lamas_finance'',
    ''zetarium_world'', ''blinq'', ''zeitgeist_prediction_pools'', ''reality_eth_markets'',
    ''sportstrade'', ''prophet_exchange'', ''sporttrade_products'', ''matchbook'', ''scicast'',
    ''meta_arena'']"
  by (simp add: MARKET_IDS_def MARKET_CATALOG_def EXPANDED_MARKET_CATALOG_def)

lemma MARKET_IDS_distinct: "distinct MARKET_IDS"
  unfolding MARKET_IDS_list by code_simp

lemma MARKET_IDS_normal: "list_all (\<lambda>m. m \<noteq> [] \<and> lower (strip m) = m) MARKET_IDS"
  unfolding MARKET_IDS_list by code_simp

lemma polymarket_in_MARKET_IDS: "''polymarket'' \<in> set MARKET_IDS"
  unfolding MARKET_IDS_list by simp

lemma only_polymarket_default: "filter meta_default_enabled MARKET_CATALOG = [hd MARKET_CATALOG]"
  by (simp add: MARKET_CATALOG_def EXPANDED_MARKET_CATALOG_def)

end
