(* ===== verification/Models_Validate.thy ===== *)
theory Models_Validate
  imports PyJson Catalog
begin

text \<open>
  The field validators of \<open>core/models.py\<close>: every durable record is rebuilt through them, so
  they are the only way a value enters the configuration. Each returns the validated value or
  raises; the lemmas say what a returned value satisfies and that a valid value is returned
  unchanged, which is what the round trips of the records rest on.
\<close>

section \<open>Field validators\<close>

definition MAX_ALERTS :: nat where "MAX_ALERTS = 10000"
definition MAX_ALERT_EVENTS :: nat where "MAX_ALERT_EVENTS = 1000"
definition MAX_PAPER_TRADES :: nat where "MAX_PAPER_TRADES = 50000"
definition MAX_WALLETS :: nat where "MAX_WALLETS = 10000"
definition MAX_COPY_ACTIVITY_OUTBOX_ENTRIES :: nat where "MAX_COPY_ACTIVITY_OUTBOX_ENTRIES = 10000"
definition MAX_MARKET_CONFIGS :: nat where "MAX_MARKET_CONFIGS = 512"
definition MAX_MUTATION_JOURNAL_ENTRIES :: nat where "MAX_MUTATION_JOURNAL_ENTRIES = 256"
definition MAX_MUTATION_RESULT_BYTES :: nat where "MAX_MUTATION_RESULT_BYTES = 256 * 1024"
definition MAX_UNACKNOWLEDGED_WALLET_POLL_RECEIPTS :: nat where
  "MAX_UNACKNOWLEDGED_WALLET_POLL_RECEIPTS = 16"
definition DEFAULT_MARKET_ID :: string where "DEFAULT_MARKET_ID = ''polymarket''"

lemmas capacity_defs = MAX_ALERTS_def MAX_ALERT_EVENTS_def MAX_PAPER_TRADES_def MAX_WALLETS_def
  MAX_COPY_ACTIVITY_OUTBOX_ENTRIES_def MAX_MARKET_CONFIGS_def MAX_MUTATION_JOURNAL_ENTRIES_def
  MAX_MUTATION_RESULT_BYTES_def MAX_UNACKNOWLEDGED_WALLET_POLL_RECEIPTS_def

text \<open>\<open>'key'\<close>, as the messages quote it.\<close>

definition quoted :: "string \<Rightarrow> string" where
  "quoted key = CHR 0x27 # key @ [CHR 0x27]"

abbreviation config_error :: "string \<Rightarrow> string \<Rightarrow> 'a res" where
  "config_error key msg \<equiv> value_error (''Configuration field '' @ quoted key @ msg)"

abbreviation durable_error :: "string \<Rightarrow> string \<Rightarrow> 'a res" where
  "durable_error key msg \<equiv> value_error (''Durable record field '' @ quoted key @ msg)"

definition config_bool :: "obj \<Rightarrow> string \<Rightarrow> bool \<Rightarrow> bool res" where
  "config_bool data key dflt =
     (case oget_or data key (PBool dflt) of
        PBool b \<Rightarrow> Inr b
      | _ \<Rightarrow> config_error key '' must be a JSON boolean.'')"

definition config_number :: "pyval \<Rightarrow> string \<Rightarrow> pyfloat \<Rightarrow> pyfloat option \<Rightarrow> bool \<Rightarrow> pyfloat res" where
  "config_number value key minimum maximum positive =
     (if \<not> (is_int value \<or> is_float value \<or> is_str value)
      then config_error key '' must be a finite number.''
      else case py_float value of
          Inl e \<Rightarrow> config_error key '' must be a finite number.''
        | Inr number \<Rightarrow>
            if \<not> isfinite number \<or> flt number minimum
               \<or> (case maximum of None \<Rightarrow> False | Some m \<Rightarrow> flt m number)
               \<or> (positive \<and> fle number (Fin 0))
            then config_error key '' is outside its supported range.''
            else Inr number)"

text \<open>\<open>alert_probability\<close> without and with \<open>allow_unavailable\<close>.\<close>

definition alert_probability :: "pyval \<Rightarrow> string \<Rightarrow> pyfloat res" where
  "alert_probability value key = config_number value key (Fin 0) (Some (Fin 1)) False"

definition alert_probability_opt :: "pyval \<Rightarrow> string \<Rightarrow> pyfloat option res" where
  "alert_probability_opt value key =
     (if value = PNone \<or> value = PStr [] then Inr None else rbind (alert_probability value key) (\<lambda>x. Inr (Some x)))"

definition config_integer :: "pyval \<Rightarrow> string \<Rightarrow> int option \<Rightarrow> int res" where
  "config_integer value key maximum =
     rbind (case value of
              PStr s \<Rightarrow> if isdecimal (strip s) then rbind (int_of_str (strip s)) (\<lambda>n. Inr (PInt n)) else Inr value
            | _ \<Rightarrow> Inr value)
       (\<lambda>v. case v of
              PInt n \<Rightarrow> if n < 0 \<or> (case maximum of None \<Rightarrow> False | Some m \<Rightarrow> m < n)
                        then config_error key '' must be an integer in its supported range.'' else Inr n
            | _ \<Rightarrow> config_error key '' must be an integer in its supported range.'')"

definition record_identity :: "obj \<Rightarrow> string \<Rightarrow> string res" where
  "record_identity data key =
     (case oget data key of
        PStr s \<Rightarrow> if strip s = [] \<or> s \<noteq> strip s \<or> list_ex is_control s
                  then durable_error key '' must contain a stable non-empty identity.'' else Inr s
      | _ \<Rightarrow> durable_error key '' must contain a stable non-empty identity.'')"

definition record_object :: "obj \<Rightarrow> string \<Rightarrow> bool \<Rightarrow> obj res" where
  "record_object data key required =
     (case (if required then oget data key else oget_or data key (PDict [])) of
        PDict d \<Rightarrow> Inr d
      | _ \<Rightarrow> durable_error key '' must be an object.'')"

text \<open>\<open>_unique_record_fields\<close>: the loop with its set of the identities seen so far.\<close>

fun unique_loop :: "'k list \<Rightarrow> ('r \<Rightarrow> 'k) \<Rightarrow> 'r list \<Rightarrow> unit res" where
  "unique_loop seen f [] = Inr ()"
| "unique_loop seen f (r # rs) =
     (if f r \<in> set seen
      then value_error ''Configuration contains duplicate durable record identities; no records were discarded.''
      else unique_loop (f r # seen) f rs)"

definition unique_record_fields :: "('r \<Rightarrow> 'k) \<Rightarrow> 'r list \<Rightarrow> unit res" where
  "unique_record_fields f rs = unique_loop [] f rs"

text \<open>\<open>C(**data)\<close> of a dataclass: an unknown key or a missing required field raises.\<close>

definition dataclass_args :: "string \<Rightarrow> string list \<Rightarrow> string list \<Rightarrow> obj \<Rightarrow> unit res" where
  "dataclass_args cls flds required data =
     (if \<not> set (keys data) \<subseteq> set flds
      then raise TypeError (cls @ ''.__init__() got an unexpected keyword argument'')
      else if \<not> set required \<subseteq> set (keys data)
      then raise TypeError (cls @ ''.__init__() missing required positional arguments'')
      else Inr ())"

text \<open>\<open>_config_records\<close>\<close>

fun as_objects :: "pyval list \<Rightarrow> obj list option" where
  "as_objects [] = Some []"
| "as_objects (PDict d # vs) = map_option ((#) d) (as_objects vs)"
| "as_objects (_ # vs) = None"

definition config_records :: "obj \<Rightarrow> string \<Rightarrow> nat \<Rightarrow> obj list res" where
  "config_records data key maximum =
     (case oget_or data key (PList []) of
        PList vs \<Rightarrow> (case as_objects vs of
            None \<Rightarrow> config_error key '' must be a list of objects; no records were discarded.''
          | Some rs \<Rightarrow> if maximum < length rs
              then config_error key ('' exceeds its supported capacity of '' @ nat_str (int maximum)
                @ ''; no records were discarded.'')
              else Inr rs)
      | _ \<Rightarrow> config_error key '' must be a list of objects; no records were discarded.'')"

section \<open>What a validated value satisfies\<close>

definition probability :: "pyfloat \<Rightarrow> bool" where
  "probability x \<longleftrightarrow> isfinite x \<and> fle (Fin 0) x \<and> fle x (Fin 1)"

definition stable_identity :: "string \<Rightarrow> bool" where
  "stable_identity s \<longleftrightarrow> s \<noteq> [] \<and> strip s = s \<and> \<not> list_ex is_control s"

lemma config_bool_present: "oget_or data key (PBool d) = PBool b \<Longrightarrow> config_bool data key d = Inr b"
  by (simp add: config_bool_def)

lemma config_bool_Inr: "config_bool data key d = Inr b \<longleftrightarrow> oget_or data key (PBool d) = PBool b"
  by (auto simp: config_bool_def split: pyval.splits)

lemma config_number_Inr:
  "config_number v key mn mx pos = Inr x \<longleftrightarrow>
     (is_int v \<or> is_float v \<or> is_str v) \<and> py_float v = Inr x \<and> isfinite x \<and> \<not> flt x mn
     \<and> (case mx of None \<Rightarrow> True | Some m \<Rightarrow> \<not> flt m x) \<and> (pos \<longrightarrow> \<not> fle x (Fin 0))"
  by (auto simp: config_number_def split: sum.splits option.splits)

lemma config_number_float:
  "isfinite x \<Longrightarrow> \<not> flt x mn \<Longrightarrow> (case mx of None \<Rightarrow> True | Some m \<Rightarrow> \<not> flt m x) \<Longrightarrow> (pos \<Longrightarrow> \<not> fle x (Fin 0))
     \<Longrightarrow> config_number (PFloat x) key mn mx pos = Inr x"
  by (simp add: config_number_Inr)

lemma probability_iff: "probability x \<longleftrightarrow> (\<exists>q. x = Fin q \<and> 0 \<le> q \<and> q \<le> 1)"
  by (cases x) (auto simp: probability_def)

lemma alert_probability_Inr:
  "alert_probability v key = Inr x \<longleftrightarrow>
     (is_int v \<or> is_float v \<or> is_str v) \<and> py_float v = Inr x \<and> probability x"
  by (cases x) (auto simp: alert_probability_def config_number_Inr probability_def)

lemma alert_probability_float [simp]: "probability x \<Longrightarrow> alert_probability (PFloat x) key = Inr x"
  by (simp add: alert_probability_Inr)

lemma probability_not_NaN: "probability x \<Longrightarrow> x \<noteq> NaN"
  by (auto simp: probability_def)

lemma config_integer_Inr_nonneg:
  "config_integer v key mx = Inr n \<Longrightarrow> 0 \<le> n \<and> (case mx of None \<Rightarrow> True | Some m \<Rightarrow> n \<le> m)"
  unfolding config_integer_def
proof (erule rbind_InrE)
  fix w
  assume "(case w of PInt n' \<Rightarrow> if n' < 0 \<or> (case mx of None \<Rightarrow> False | Some m \<Rightarrow> m < n')
      then config_error key '' must be an integer in its supported range.'' else Inr n'
    | _ \<Rightarrow> config_error key '' must be an integer in its supported range.'') = Inr n"
  then show ?thesis by (cases w; cases mx) (auto split: if_splits)
qed

lemma config_integer_PInt:
  "0 \<le> n \<Longrightarrow> (case mx of None \<Rightarrow> True | Some m \<Rightarrow> n \<le> m) \<Longrightarrow> config_integer (PInt n) key mx = Inr n"
  by (auto simp: config_integer_def split: option.splits)

lemma record_identity_Inr:
  "record_identity data key = Inr s \<longleftrightarrow> oget data key = PStr s \<and> stable_identity s"
  by (auto simp: record_identity_def stable_identity_def split: pyval.splits)

lemma record_object_Inr:
  "record_object data key req = Inr d \<longleftrightarrow> (if req then oget data key else oget_or data key (PDict [])) = PDict d"
  by (auto simp: record_object_def split: pyval.splits)

lemma unique_loop_Inr:
  "unique_loop seen f rs = Inr u \<longleftrightarrow> distinct (map f rs) \<and> set seen \<inter> f ` set rs = {}"
  by (induction seen f rs rule: unique_loop.induct) auto

lemma unique_record_fields_Inr [simp]: "unique_record_fields f rs = Inr u \<longleftrightarrow> distinct (map f rs)"
  by (simp add: unique_record_fields_def unique_loop_Inr)

lemma dataclass_args_Inr:
  "dataclass_args c fs req d = Inr u \<longleftrightarrow> set (keys d) \<subseteq> set fs \<and> set req \<subseteq> set (keys d)"
  by (simp add: dataclass_args_def)

lemma as_objects_map [simp]: "as_objects (map PDict ds) = Some ds"
  by (induction ds) auto

lemma as_objects_Some: "as_objects vs = Some ds \<longleftrightarrow> vs = map PDict ds"
proof (induction vs arbitrary: ds rule: as_objects.induct)
  case (2 d vs)
  then show ?case by (cases ds) auto
qed auto

lemma config_records_Inr:
  "config_records data key mx = Inr rs \<longleftrightarrow>
     oget_or data key (PList []) = PList (map PDict rs) \<and> length rs \<le> mx"
proof -
  have "map PDict xs = map PDict ys \<longleftrightarrow> xs = ys" for xs ys
    by (metis as_objects_map option.inject)
  then show ?thesis
    by (cases "oget_or data key (PList [])")
      (auto simp: config_records_def as_objects_Some split: option.splits if_splits)
qed

end
