(* ===== verification/Models_Records.thy ===== *)
theory Models_Records
  imports Models_Validate
begin

text \<open>
  The durable records of \<open>core/models.py\<close>: price alerts, alert events, paper trades, watched
  wallets, copy-trade settings and market configurations, each with the dictionary it is
  written as (\<open>to_dict\<close>) and the strict reader (\<open>from_dict\<close>).

  A field the reader leaves unvalidated keeps the dynamic type \<open>pyval\<close>; a validated field has
  the type its validation gives. \<open>uid\<close> and \<open>now\<close> are what the default factories \<open>_uuid\<close> and
  \<open>int(time.time())\<close> would return for the record.
\<close>

section \<open>Enumerations\<close>

datatype direction = Above | Below
datatype price_source = LastTrade | Midpoint | BestBid | BestAsk

fun direction_str :: "direction \<Rightarrow> string" where
  "direction_str Above = ''above''"
| "direction_str Below = ''below''"

fun source_str :: "price_source \<Rightarrow> string" where
  "source_str LastTrade = ''last_trade''"
| "source_str Midpoint = ''midpoint''"
| "source_str BestBid = ''best_bid''"
| "source_str BestAsk = ''best_ask''"

definition direction_of :: "pyval \<Rightarrow> direction option" where
  "direction_of v = (if v = PStr ''above'' then Some Above else if v = PStr ''below'' then Some Below else None)"

definition source_of :: "pyval \<Rightarrow> price_source option" where
  "source_of v = (if v = PStr ''last_trade'' then Some LastTrade else if v = PStr ''midpoint'' then Some Midpoint
     else if v = PStr ''best_bid'' then Some BestBid else if v = PStr ''best_ask'' then Some BestAsk else None)"

lemma direction_of_str [simp]: "direction_of (PStr (direction_str d)) = Some d"
  by (cases d) (simp_all add: direction_of_def)

lemma source_of_str [simp]: "source_of (PStr (source_str d)) = Some d"
  by (cases d) (simp_all add: source_of_def)

section \<open>Price alerts\<close>

record price_alert =
  pa_token_id :: string
  pa_label :: string
  pa_direction :: direction
  pa_threshold :: pyfloat
  pa_source :: price_source
  pa_once :: bool
  pa_enabled :: bool
  pa_market_id :: string
  pa_id :: string
  pa_created_at :: pyval
  pa_last_value :: "pyfloat option"
  pa_triggered :: bool

definition opt_float :: "pyfloat option \<Rightarrow> pyval" where
  "opt_float x = (case x of None \<Rightarrow> PNone | Some v \<Rightarrow> PFloat v)"

definition price_alert_to_dict :: "price_alert \<Rightarrow> obj" where
  "price_alert_to_dict a = [
     (''token_id'', PStr (pa_token_id a)), (''label'', PStr (pa_label a)),
     (''direction'', PStr (direction_str (pa_direction a))), (''threshold'', PFloat (pa_threshold a)),
     (''source'', PStr (source_str (pa_source a))), (''once'', PBool (pa_once a)),
     (''enabled'', PBool (pa_enabled a)), (''market_id'', PStr (pa_market_id a)),
     (''id'', PStr (pa_id a)), (''created_at'', pa_created_at a),
     (''last_value'', opt_float (pa_last_value a)), (''triggered'', PBool (pa_triggered a))]"

text \<open>One text field of a notification: a string of at most \<open>maximum\<close> characters without control
  characters, and not blank unless \<open>blank\<close>.\<close>

definition text_ok :: "nat \<Rightarrow> bool \<Rightarrow> string \<Rightarrow> bool" where
  "text_ok maximum blank s \<longleftrightarrow> (blank \<or> strip s \<noteq> []) \<and> length s \<le> maximum \<and> \<not> list_ex is_control s"

definition text_field :: "string \<Rightarrow> pyval \<Rightarrow> nat \<Rightarrow> bool \<Rightarrow> string res" where
  "text_field msg v maximum blank =
     (case v of PStr s \<Rightarrow> if text_ok maximum blank s then Inr s else value_error msg
      | _ \<Rightarrow> value_error msg)"

abbreviation alert_text_msg :: string where
  "alert_text_msg \<equiv> ''Alert text or identity is invalid or exceeds the durable notification limit.''"

definition price_alert_fields :: "string list" where
  "price_alert_fields = [''token_id'', ''label'', ''direction'', ''threshold'', ''source'', ''once'', ''enabled'',
     ''market_id'', ''id'', ''created_at'', ''last_value'', ''triggered'']"

definition market_id_text :: "obj \<Rightarrow> string" where
  "market_id_text d = lower (strip (py_str (py_or (oget d ''market_id'') (PStr DEFAULT_MARKET_ID))))"

definition price_controls :: "pyval \<Rightarrow> pyval \<Rightarrow> (direction \<times> price_source) res" where
  "price_controls dir src =
     (case (direction_of dir, source_of src) of
        (Some d, Some s) \<Rightarrow> Inr (d, s)
      | _ \<Rightarrow> value_error ''Alert price controls are invalid.'')"

definition price_alert_from_dict :: "string \<Rightarrow> int \<Rightarrow> obj \<Rightarrow> price_alert res" where
  "price_alert_from_dict uid now d =
     rbind (config_bool d ''enabled'' True) (\<lambda>enabled.
     rbind (config_bool d ''once'' True) (\<lambda>once.
     rbind (config_bool d ''triggered'' False) (\<lambda>triggered.
     rbind (alert_probability (oget d ''threshold'') ''threshold'') (\<lambda>threshold.
     rbind (if oget d ''last_value'' = PNone then Inr None
            else rbind (alert_probability (oget d ''last_value'') ''last_value'') (\<lambda>x. Inr (Some x))) (\<lambda>last_value.
     rbind (dataclass_args ''PriceAlert'' price_alert_fields [''token_id'', ''label'', ''direction''] d) (\<lambda>_.
     rbind (text_field alert_text_msg (oget_or d ''id'' (PStr uid)) 256 False) (\<lambda>id.
     rbind (text_field alert_text_msg (PStr (market_id_text d)) 256 False) (\<lambda>market_id.
     rbind (text_field alert_text_msg (oget d ''token_id'') 256 False) (\<lambda>token_id.
     rbind (text_field alert_text_msg (oget d ''label'') 512 True) (\<lambda>label.
     rbind (price_controls (oget d ''direction'') (oget_or d ''source'' (PStr ''last_trade''))) (\<lambda>(direction, source).
       Inr \<lparr> pa_token_id = token_id, pa_label = label, pa_direction = direction, pa_threshold = threshold,
             pa_source = source, pa_once = once, pa_enabled = enabled, pa_market_id = market_id, pa_id = id,
             pa_created_at = oget_or d ''created_at'' (PInt now), pa_last_value = last_value,
             pa_triggered = triggered \<rparr>)))))))))))"

definition price_alert_ok :: "price_alert \<Rightarrow> bool" where
  "price_alert_ok a \<longleftrightarrow> text_ok 256 False (pa_token_id a) \<and> text_ok 512 True (pa_label a)
     \<and> text_ok 256 False (pa_market_id a) \<and> lower (strip (pa_market_id a)) = pa_market_id a
     \<and> text_ok 256 False (pa_id a) \<and> probability (pa_threshold a)
     \<and> (case pa_last_value a of None \<Rightarrow> True | Some v \<Rightarrow> probability v)"

section \<open>Alert events\<close>

record alert_event =
  ae_alert_id :: string
  ae_market_id :: string
  ae_contract_id :: string
  ae_label :: string
  ae_direction :: direction
  ae_threshold :: pyval
  ae_source :: price_source
  ae_value :: pyval
  ae_message :: string
  ae_id :: string
  ae_created_at :: int
  ae_acknowledged_at :: int

definition alert_event_to_dict :: "alert_event \<Rightarrow> obj" where
  "alert_event_to_dict e = [
     (''alert_id'', PStr (ae_alert_id e)), (''market_id'', PStr (ae_market_id e)),
     (''contract_id'', PStr (ae_contract_id e)), (''label'', PStr (ae_label e)),
     (''direction'', PStr (direction_str (ae_direction e))), (''threshold'', ae_threshold e),
     (''source'', PStr (source_str (ae_source e))), (''value'', ae_value e),
     (''message'', PStr (ae_message e)), (''id'', PStr (ae_id e)),
     (''created_at'', PInt (ae_created_at e)), (''acknowledged_at'', PInt (ae_acknowledged_at e))]"

definition alert_event_fields :: "string list" where
  "alert_event_fields = [''alert_id'', ''market_id'', ''contract_id'', ''label'', ''direction'', ''threshold'', ''source'',
     ''value'', ''message'', ''id'', ''created_at'', ''acknowledged_at'']"

abbreviation event_text_msg :: string where
  "event_text_msg \<equiv> ''Alert event text or identity is invalid or exceeds its supported limit.''"

definition event_price :: "pyval \<Rightarrow> string \<Rightarrow> pyval res" where
  "event_price v key =
     (if is_int v \<or> is_float v then rbind (alert_probability v key) (\<lambda>_. Inr v)
      else value_error ''Alert event prices must be finite probabilities.'')"

definition event_time :: "pyval \<Rightarrow> int res" where
  "event_time v = (case v of PInt n \<Rightarrow> if n < 0 then value_error ''Alert event timestamps must be nonnegative integers.''
       else Inr n
     | _ \<Rightarrow> value_error ''Alert event timestamps must be nonnegative integers.'')"

definition event_controls :: "pyval \<Rightarrow> pyval \<Rightarrow> (direction \<times> price_source) res" where
  "event_controls dir src =
     (case (direction_of dir, source_of src) of
        (Some d, Some s) \<Rightarrow> Inr (d, s)
      | _ \<Rightarrow> value_error ''Alert event price controls are invalid.'')"

definition alert_event_from_dict :: "obj \<Rightarrow> alert_event res" where
  "alert_event_from_dict d =
     rbind (require (set (keys d) = set alert_event_fields)
       (Exc ValueError ''Alert events require complete notification metadata.'')) (\<lambda>_.
     rbind (text_field event_text_msg (oget d ''id'') 256 False) (\<lambda>id.
     rbind (text_field event_text_msg (oget d ''alert_id'') 256 False) (\<lambda>alert_id.
     rbind (text_field event_text_msg (oget d ''market_id'') 256 False) (\<lambda>market_id.
     rbind (text_field event_text_msg (oget d ''contract_id'') 256 False) (\<lambda>contract_id.
     rbind (text_field event_text_msg (oget d ''label'') 512 True) (\<lambda>label.
     rbind (text_field event_text_msg (oget d ''message'') 2048 False) (\<lambda>message.
     rbind (event_controls (oget d ''direction'') (oget d ''source'')) (\<lambda>(direction, source).
     rbind (event_price (oget d ''threshold'') ''threshold'') (\<lambda>threshold.
     rbind (event_price (oget d ''value'') ''value'') (\<lambda>val.
     rbind (event_time (oget d ''created_at'')) (\<lambda>created_at.
     rbind (event_time (oget d ''acknowledged_at'')) (\<lambda>acknowledged_at.
     rbind (require (\<not> (created_at < 1 \<or> (acknowledged_at \<noteq> 0 \<and> acknowledged_at < created_at)))
       (Exc ValueError ''Alert event acknowledgement predates its notification.'')) (\<lambda>_.
       Inr \<lparr> ae_alert_id = alert_id, ae_market_id = market_id, ae_contract_id = contract_id, ae_label = label,
             ae_direction = direction, ae_threshold = threshold, ae_source = source, ae_value = val,
             ae_message = message, ae_id = id, ae_created_at = created_at,
             ae_acknowledged_at = acknowledged_at \<rparr>)))))))))))))"

definition event_price_ok :: "pyval \<Rightarrow> bool" where
  "event_price_ok v \<longleftrightarrow> (is_int v \<or> is_float v) \<and> (case py_float v of Inr x \<Rightarrow> probability x | Inl _ \<Rightarrow> False)"

definition alert_event_ok :: "alert_event \<Rightarrow> bool" where
  "alert_event_ok e \<longleftrightarrow> text_ok 256 False (ae_id e) \<and> text_ok 256 False (ae_alert_id e)
     \<and> text_ok 256 False (ae_market_id e) \<and> text_ok 256 False (ae_contract_id e) \<and> text_ok 512 True (ae_label e)
     \<and> text_ok 2048 False (ae_message e) \<and> event_price_ok (ae_threshold e) \<and> event_price_ok (ae_value e)
     \<and> 1 \<le> ae_created_at e
     \<and> (ae_acknowledged_at e = 0 \<or> ae_created_at e \<le> ae_acknowledged_at e)"

section \<open>Paper trades\<close>

record paper_trade =
  pt_market_id :: string
  pt_contract_id :: string
  pt_side :: string
  pt_size :: pyfloat
  pt_limit_price :: "pyfloat option"
  pt_accepted :: bool
  pt_message :: string
  pt_filled_size :: pyfloat
  pt_average_price :: "pyfloat option"
  pt_quote_currency :: "string option"
  pt_raw :: obj
  pt_id :: pyval
  pt_created_at :: pyval

definition opt_str :: "string option \<Rightarrow> pyval" where
  "opt_str x = (case x of None \<Rightarrow> PNone | Some s \<Rightarrow> PStr s)"

definition paper_trade_to_dict :: "paper_trade \<Rightarrow> obj" where
  "paper_trade_to_dict t = [
     (''market_id'', PStr (pt_market_id t)), (''contract_id'', PStr (pt_contract_id t)),
     (''side'', PStr (pt_side t)), (''size'', PFloat (pt_size t)),
     (''limit_price'', opt_float (pt_limit_price t)), (''accepted'', PBool (pt_accepted t)),
     (''message'', PStr (pt_message t)), (''filled_size'', PFloat (pt_filled_size t)),
     (''average_price'', opt_float (pt_average_price t)), (''quote_currency'', opt_str (pt_quote_currency t)),
     (''raw'', PDict (pt_raw t)), (''id'', pt_id t), (''created_at'', pt_created_at t)]"

definition text_or_empty :: "obj \<Rightarrow> string \<Rightarrow> string" where
  "text_or_empty d key = py_str (py_or (oget d key) (PStr []))"

definition opt_price :: "pyval \<Rightarrow> pyfloat option res" where
  "opt_price v = (if v = PNone \<or> v = PStr [] then Inr None else rbind (py_float v) (\<lambda>x. Inr (Some x)))"

definition paper_quote_currency :: "pyval \<Rightarrow> string option res" where
  "paper_quote_currency v = (case v of PNone \<Rightarrow> Inr None
     | PStr s \<Rightarrow> if s \<in> {''USD'', ''USDC'', ''USDT'', ''pUSD''} then Inr (Some s)
         else value_error ''Paper quote currency must be a supported native asset or null.''
     | _ \<Rightarrow> value_error ''Paper quote currency must be a supported native asset or null.'')"

definition paper_trade_fields :: "string list" where
  "paper_trade_fields = [''market_id'', ''contract_id'', ''side'', ''size'', ''limit_price'', ''accepted'', ''message'',
     ''filled_size'', ''average_price'', ''quote_currency'', ''raw'', ''id'', ''created_at'']"

definition paper_trade_from_dict :: "string \<Rightarrow> int \<Rightarrow> obj \<Rightarrow> paper_trade res" where
  "paper_trade_from_dict uid now d =
     rbind (py_float (py_or (oget d ''size'') (PFloat (Fin 0)))) (\<lambda>size.
     rbind (opt_price (oget d ''limit_price'')) (\<lambda>limit_price.
     rbind (config_bool d ''accepted'' False) (\<lambda>accepted.
     rbind (py_float (py_or (oget d ''filled_size'') (PFloat (Fin 0)))) (\<lambda>filled_size.
     rbind (opt_price (oget d ''average_price'')) (\<lambda>average_price.
     rbind (paper_quote_currency (oget d ''quote_currency'')) (\<lambda>quote_currency.
     rbind (dataclass_args ''PaperTradeRecord'' paper_trade_fields [] d) (\<lambda>_.
       Inr \<lparr> pt_market_id = market_id_text d, pt_contract_id = text_or_empty d ''contract_id'',
             pt_side = upper (text_or_empty d ''side''), pt_size = size, pt_limit_price = limit_price,
             pt_accepted = accepted, pt_message = text_or_empty d ''message'', pt_filled_size = filled_size,
             pt_average_price = average_price, pt_quote_currency = quote_currency,
             pt_raw = (case oget d ''raw'' of PDict r \<Rightarrow> r | _ \<Rightarrow> []),
             pt_id = oget_or d ''id'' (PStr uid), pt_created_at = oget_or d ''created_at'' (PInt now) \<rparr>)))))))"

definition paper_trade_ok :: "paper_trade \<Rightarrow> bool" where
  "paper_trade_ok t \<longleftrightarrow> pt_market_id t \<noteq> [] \<and> lower (strip (pt_market_id t)) = pt_market_id t
     \<and> upper (pt_side t) = pt_side t
     \<and> (case pt_quote_currency t of None \<Rightarrow> True | Some s \<Rightarrow> s \<in> {''USD'', ''USDC'', ''USDT'', ''pUSD''})"

section \<open>Copy-trade settings\<close>

record copy_settings =
  ct_enabled :: bool
  ct_live :: bool
  ct_follow_wallet :: string
  ct_follow_wallets :: "string list"
  ct_scale :: pyfloat
  ct_max_usdc_per_trade :: pyfloat
  ct_slippage :: pyfloat
  ct_allow_sells :: bool
  ct_conflict_guard :: bool
  ct_conflict_window_seconds :: int

definition DEFAULT_SLIPPAGE :: pyfloat where
  "DEFAULT_SLIPPAGE = flit (2 / 100)"

definition default_copy_settings :: copy_settings where
  "default_copy_settings = \<lparr> ct_enabled = False, ct_live = False, ct_follow_wallet = [], ct_follow_wallets = [],
     ct_scale = Fin 1, ct_max_usdc_per_trade = Fin 25, ct_slippage = DEFAULT_SLIPPAGE, ct_allow_sells = False,
     ct_conflict_guard = True, ct_conflict_window_seconds = 300 \<rparr>"

text \<open>\<open>_stored_identity\<close>: addresses are case-insensitive except after \<open>solana:\<close>.\<close>

definition after_colon :: "string \<Rightarrow> string" where
  "after_colon s = tl (dropWhile (\<lambda>c. c \<noteq> CHR '':'') s)"

definition stored_identity :: "string \<Rightarrow> string" where
  "stored_identity v = (let text = strip v in
     if startswith (lower text) ''solana:'' then ''solana:'' @ strip (after_colon text) else lower text)"

text \<open>The loop that collects the followed wallets: blank ones and repetitions are dropped.\<close>

definition add_wallet :: "string list \<Rightarrow> string \<Rightarrow> string list" where
  "add_wallet ws w = (if w \<noteq> [] \<and> w \<notin> set ws then ws @ [w] else ws)"

definition normalized_follow_wallets :: "copy_settings \<Rightarrow> string list" where
  "normalized_follow_wallets s = foldl add_wallet [] (map stored_identity (ct_follow_wallet s # ct_follow_wallets s))"

text \<open>The numbers of \<open>_validated_risk\<close>, after the booleans: scale, maximum, slippage, window.\<close>

definition validated_scale :: "obj \<Rightarrow> pyfloat res" where
  "validated_scale d =
     rbind (config_number (oget_or d ''scale'' (PFloat (Fin 1))) ''scale'' (Fin 0) (Some (Fin 1)) False) (\<lambda>scale.
       case dget d ''copy_percentage'' of None \<Rightarrow> Inr scale
       | Some pct \<Rightarrow>
         rbind (config_number pct ''copy_percentage'' (Fin 0) (Some (Fin 100)) False) (\<lambda>number.
         rbind (fdiv number (Fin 100)) (\<lambda>percentage_scale.
           if has_key d ''scale'' \<and> \<not> isclose_abs scale percentage_scale (flit (1 / 10 ^ 12))
           then value_error ''Copy percentage and scale disagree.''
           else Inr (if has_key d ''scale'' then scale else percentage_scale))))"

record copy_risk =
  cr_enabled :: bool
  cr_live :: bool
  cr_allow_sells :: bool
  cr_conflict_guard :: bool
  cr_scale :: pyfloat
  cr_max_usdc_per_trade :: pyfloat
  cr_slippage :: pyfloat
  cr_conflict_window_seconds :: int

definition validated_risk :: "obj \<Rightarrow> copy_risk res" where
  "validated_risk d =
     rbind (config_bool d ''enabled'' False) (\<lambda>enabled.
     rbind (config_bool d ''live'' False) (\<lambda>live.
     rbind (config_bool d ''allow_sells'' False) (\<lambda>allow_sells.
     rbind (config_bool d ''conflict_guard'' True) (\<lambda>conflict_guard.
     rbind (validated_scale d) (\<lambda>scale.
     rbind (config_number (oget_or d ''max_usdc_per_trade'' (PFloat (Fin 25))) ''max_usdc_per_trade'' (Fin 0) None True) (\<lambda>maximum.
     rbind (config_number (oget_or d ''slippage'' (PFloat DEFAULT_SLIPPAGE)) ''slippage'' (Fin 0) (Some (Fin 1)) False) (\<lambda>slippage.
     rbind (config_integer (oget_or d ''conflict_window_seconds'' (PInt 300)) ''conflict_window_seconds'' (Some 86400)) (\<lambda>window.
       Inr \<lparr> cr_enabled = enabled, cr_live = live, cr_allow_sells = allow_sells, cr_conflict_guard = conflict_guard,
             cr_scale = scale, cr_max_usdc_per_trade = maximum, cr_slippage = slippage,
             cr_conflict_window_seconds = window \<rparr>))))))))"

definition copy_settings_fields :: "string list" where
  "copy_settings_fields = [''enabled'', ''live'', ''follow_wallet'', ''follow_wallets'', ''scale'', ''max_usdc_per_trade'',
     ''slippage'', ''allow_sells'', ''conflict_guard'', ''conflict_window_seconds'']"

definition identity_value :: "pyval \<Rightarrow> string res" where
  "identity_value v = (case v of PStr s \<Rightarrow> Inr (stored_identity s)
     | _ \<Rightarrow> value_error ''Copy follow identities must be strings.'')"

definition raw_follow_wallets :: "pyval \<Rightarrow> pyval list res" where
  "raw_follow_wallets v = (case v of
       PStr s \<Rightarrow> Inr (map PStr (split_on (CHR '','') (replace_char (CHR '';'') (CHR '','') s)))
     | PList vs \<Rightarrow> Inr vs
     | _ \<Rightarrow> value_error ''Copy follow_wallets must be a list or delimited string.'')"

definition copy_settings_from_dict :: "obj \<Rightarrow> copy_settings res" where
  "copy_settings_from_dict d =
     rbind (validated_risk d) (\<lambda>risk.
     rbind (raw_follow_wallets (oget_or d ''follow_wallets'' (PList []))) (\<lambda>raw.
     rbind (rmap identity_value (oget_or d ''follow_wallet'' (PStr []) # raw)) (\<lambda>ids.
     let wallets = foldl add_wallet [] ids in
     rbind (dataclass_args ''CopyTradeSettings'' copy_settings_fields [] (dpop ''copy_percentage'' d)) (\<lambda>_.
       Inr \<lparr> ct_enabled = cr_enabled risk, ct_live = cr_live risk,
             ct_follow_wallet = (case wallets of [] \<Rightarrow> [] | w # _ \<Rightarrow> w), ct_follow_wallets = wallets,
             ct_scale = cr_scale risk, ct_max_usdc_per_trade = cr_max_usdc_per_trade risk,
             ct_slippage = cr_slippage risk, ct_allow_sells = cr_allow_sells risk,
             ct_conflict_guard = cr_conflict_guard risk,
             ct_conflict_window_seconds = cr_conflict_window_seconds risk \<rparr>))))"

definition copy_settings_asdict :: "copy_settings \<Rightarrow> obj" where
  "copy_settings_asdict s = [
     (''enabled'', PBool (ct_enabled s)), (''live'', PBool (ct_live s)), (''follow_wallet'', PStr (ct_follow_wallet s)),
     (''follow_wallets'', PList (map PStr (ct_follow_wallets s))), (''scale'', PFloat (ct_scale s)),
     (''max_usdc_per_trade'', PFloat (ct_max_usdc_per_trade s)), (''slippage'', PFloat (ct_slippage s)),
     (''allow_sells'', PBool (ct_allow_sells s)), (''conflict_guard'', PBool (ct_conflict_guard s)),
     (''conflict_window_seconds'', PInt (ct_conflict_window_seconds s))]"

definition copy_settings_to_dict :: "copy_settings \<Rightarrow> obj res" where
  "copy_settings_to_dict s =
     rbind (validated_risk (copy_settings_asdict s)) (\<lambda>risk.
     let wallets = normalized_follow_wallets s in
     Inr [
     (''enabled'', PBool (cr_enabled risk)), (''live'', PBool (cr_live risk)),
     (''follow_wallet'', PStr (case wallets of [] \<Rightarrow> [] | w # _ \<Rightarrow> w)),
     (''follow_wallets'', PList (map PStr wallets)), (''scale'', PFloat (cr_scale risk)),
     (''max_usdc_per_trade'', PFloat (cr_max_usdc_per_trade risk)), (''slippage'', PFloat (cr_slippage risk)),
     (''allow_sells'', PBool (cr_allow_sells risk)), (''conflict_guard'', PBool (cr_conflict_guard risk)),
     (''conflict_window_seconds'', PInt (cr_conflict_window_seconds risk)),
     (''copy_percentage'', PFloat (fround (fmul (cr_scale risk) (Fin 100)) 10))])"

definition copy_settings_ok :: "copy_settings \<Rightarrow> bool" where
  "copy_settings_ok s \<longleftrightarrow> probability (ct_scale s)
     \<and> isfinite (ct_max_usdc_per_trade s) \<and> flt (Fin 0) (ct_max_usdc_per_trade s)
     \<and> probability (ct_slippage s)
     \<and> 0 \<le> ct_conflict_window_seconds s \<and> ct_conflict_window_seconds s \<le> 86400
     \<and> distinct (ct_follow_wallets s)
     \<and> list_all (\<lambda>w. w \<noteq> [] \<and> stored_identity w = w) (ct_follow_wallets s)
     \<and> ct_follow_wallet s = (case ct_follow_wallets s of [] \<Rightarrow> [] | w # _ \<Rightarrow> w)"

section \<open>Watched wallets\<close>

record wallet_watch =
  ww_wallet :: pyval
  ww_display_name :: pyval
  ww_enabled :: bool
  ww_id :: pyval
  ww_last_seen_ts :: int
  ww_last_seen_tx :: pyval
  ww_seen_activity_keys :: "string list"
  ww_activity_key_timestamps :: "(string, int) dict"
  ww_activity_cursor_market_id :: string
  ww_activity_cursors :: "(string, obj) dict"
  ww_only_market_slug :: pyval

definition timestamps_value :: "(string, int) dict \<Rightarrow> pyval" where
  "timestamps_value ts = PDict (map (\<lambda>(k, n). (k, PInt n)) ts)"

definition wallet_to_dict :: "wallet_watch \<Rightarrow> obj" where
  "wallet_to_dict w = [
     (''wallet'', ww_wallet w), (''display_name'', ww_display_name w), (''enabled'', PBool (ww_enabled w)),
     (''id'', ww_id w), (''last_seen_ts'', PInt (ww_last_seen_ts w)), (''last_seen_tx'', ww_last_seen_tx w),
     (''seen_activity_keys'', PList (map PStr (ww_seen_activity_keys w))),
     (''activity_key_timestamps'', timestamps_value (ww_activity_key_timestamps w)),
     (''activity_cursor_market_id'', PStr (ww_activity_cursor_market_id w)),
     (''activity_cursors'', PDict (map (\<lambda>(k, c). (k, PDict c)) (ww_activity_cursors w))),
     (''only_market_slug'', ww_only_market_slug w)]"

definition wallet_fields :: "string list" where
  "wallet_fields = [''wallet'', ''display_name'', ''enabled'', ''id'', ''last_seen_ts'', ''last_seen_tx'',
     ''seen_activity_keys'', ''activity_key_timestamps'', ''activity_cursor_market_id'', ''activity_cursors'',
     ''only_market_slug'']"

definition cursor_fields :: "string list" where
  "cursor_fields = [''last_seen_ts'', ''last_seen_tx'', ''seen_activity_keys'', ''activity_key_timestamps'']"

definition activity_key_ok :: "string \<Rightarrow> bool" where
  "activity_key_ok k \<longleftrightarrow> k \<noteq> [] \<and> length k \<le> 512 \<and> \<not> list_ex is_control k"

definition activity_keys :: "pyval \<Rightarrow> string list res" where
  "activity_keys v = (case v of
       PList vs \<Rightarrow> if 10000 < length vs \<or> \<not> list_all (\<lambda>k. is_str k \<and> activity_key_ok (the_str k)) vs
         then value_error ''Wallet activity identity ledger is invalid or exceeds capacity.''
         else Inr (uniq (map the_str vs))
     | _ \<Rightarrow> value_error ''Wallet activity identity ledger is invalid or exceeds capacity.'')"

definition key_timestamps :: "pyval \<Rightarrow> (string, int) dict res" where
  "key_timestamps v = (case v of
       PDict d \<Rightarrow> if 10000 < length d
         then value_error ''Wallet activity timestamp ledger is invalid or exceeds capacity.''
         else rmap (\<lambda>(k, t). rbind (record_identity [(''key'', PStr k)] ''key'') (\<lambda>key.
                rbind (config_integer t ''activity timestamp'' None) (\<lambda>n. Inr (key, n)))) d
     | _ \<Rightarrow> value_error ''Wallet activity timestamp ledger is invalid or exceeds capacity.'')"

definition cursor_market :: "pyval \<Rightarrow> string res" where
  "cursor_market v = (case v of PStr s \<Rightarrow> if s \<in> set MARKET_IDS then Inr s
         else value_error ''Wallet activity cursor market is invalid.''
     | _ \<Rightarrow> value_error ''Wallet activity cursor market is invalid.'')"

definition cursor_shape :: "string \<times> pyval \<Rightarrow> (string \<times> obj) res" where
  "cursor_shape kc = (case snd kc of
       PDict c \<Rightarrow> if fst kc \<notin> set MARKET_IDS then value_error ''Wallet activity cursor is invalid.''
         else if set (keys c) \<noteq> set cursor_fields then value_error ''Wallet activity cursor is incomplete.''
         else Inr (fst kc, c)
     | _ \<Rightarrow> value_error ''Wallet activity cursor is invalid.'')"

definition cursor_shapes :: "pyval \<Rightarrow> (string, obj) dict res" where
  "cursor_shapes v = (case v of
       PDict cs \<Rightarrow> if MAX_MARKET_CONFIGS < length cs
         then value_error ''Wallet activity cursor collection is invalid.'' else rmap cursor_shape cs
     | _ \<Rightarrow> value_error ''Wallet activity cursor collection is invalid.'')"

text \<open>\<open>getattr(validated, field)\<close> for the four cursor fields.\<close>

definition cursor_attr :: "wallet_watch \<Rightarrow> string \<Rightarrow> pyval" where
  "cursor_attr w field =
     (if field = ''last_seen_ts'' then PInt (ww_last_seen_ts w)
      else if field = ''last_seen_tx'' then ww_last_seen_tx w
      else if field = ''seen_activity_keys'' then PList (map PStr (ww_seen_activity_keys w))
      else timestamps_value (ww_activity_key_timestamps w))"

text \<open>\<open>from_dict\<close> validates a stored cursor by building a wallet from it; \<open>rec\<close> is that inner
  call. A cursor has exactly four fields, so the inner call meets no cursors of its own.\<close>

definition wallet_build :: "(obj \<Rightarrow> wallet_watch res) \<Rightarrow> string \<Rightarrow> obj \<Rightarrow> wallet_watch res" where
  "wallet_build rec uid d =
     rbind (config_bool d ''enabled'' True) (\<lambda>enabled.
     rbind (config_integer (oget_or d ''last_seen_ts'' (PInt 0)) ''wallet cursor timestamp'' None) (\<lambda>ts.
     rbind (activity_keys (oget_or d ''seen_activity_keys'' (PList []))) (\<lambda>seen.
     rbind (key_timestamps (oget_or d ''activity_key_timestamps'' (PDict []))) (\<lambda>known.
     rbind (cursor_market (oget_or d ''activity_cursor_market_id'' (PStr DEFAULT_MARKET_ID))) (\<lambda>market_id.
     rbind (cursor_shapes (oget_or d ''activity_cursors'' (PDict []))) (\<lambda>shapes.
     rbind (rmap (\<lambda>(k, c). rbind (rec (dupdate [(''wallet'', oget_or d ''wallet'' (PStr []))] c)) (\<lambda>w.
              Inr (k, map (\<lambda>(f, _). (f, cursor_attr w f)) c))) shapes) (\<lambda>cursors.
     rbind (dataclass_args ''WalletWatch'' wallet_fields [''wallet''] d) (\<lambda>_.
       Inr \<lparr> ww_wallet = oget d ''wallet'', ww_display_name = oget_or d ''display_name'' (PStr []),
             ww_enabled = enabled, ww_id = oget_or d ''id'' (PStr uid), ww_last_seen_ts = ts,
             ww_last_seen_tx = oget_or d ''last_seen_tx'' (PStr []), ww_seen_activity_keys = seen,
             ww_activity_key_timestamps = known, ww_activity_cursor_market_id = market_id,
             ww_activity_cursors = cursors, ww_only_market_slug = oget_or d ''only_market_slug'' (PStr []) \<rparr>))))))))"

definition wallet_from_dict :: "string \<Rightarrow> obj \<Rightarrow> wallet_watch res" where
  "wallet_from_dict uid = wallet_build (wallet_build (\<lambda>_. value_error []) []) uid"

section \<open>Market configurations\<close>

record market_config =
  mc_market_id :: string
  mc_enabled :: bool
  mc_settings :: obj

definition MARKET_SAFETY_BOOLEAN_FIELDS :: "string list" where
  "MARKET_SAFETY_BOOLEAN_FIELDS = [''live_trading_enabled'', ''live_trading_confirmed'', ''live_trading_acknowledged'',
     ''live_trading_kill_switch'', ''live_trading_paused'', ''copy_trading_enabled'']"

definition MARKET_SAFETY_LIMIT_FIELDS :: "string list" where
  "MARKET_SAFETY_LIMIT_FIELDS = [''live_trading_max_size'', ''live_trading_max_notional'']"

definition safety_boolean :: "string \<Rightarrow> obj \<Rightarrow> obj res" where
  "safety_boolean key settings =
     (if has_key settings key then rbind (config_bool settings key False) (\<lambda>b. Inr (dset key (PBool b) settings))
      else Inr settings)"

definition safety_limit :: "string \<Rightarrow> obj \<Rightarrow> obj res" where
  "safety_limit key settings =
     (case dget settings key of None \<Rightarrow> Inr settings
      | Some v \<Rightarrow> if v = PNone \<or> (is_str v \<and> strip (the_str v) = []) then Inr (dpop key settings)
          else rbind (config_number v key (Fin 0) None True) (\<lambda>x. Inr (dset key (PFloat x) settings)))"

definition validated_settings :: "pyval \<Rightarrow> obj res" where
  "validated_settings raw = (case raw of
       PDict settings \<Rightarrow> rbind (rfold safety_boolean MARKET_SAFETY_BOOLEAN_FIELDS settings)
         (rfold safety_limit MARKET_SAFETY_LIMIT_FIELDS)
     | _ \<Rightarrow> value_error ''Market settings must be an object.'')"

definition market_config_from_dict :: "string \<Rightarrow> obj \<Rightarrow> market_config res" where
  "market_config_from_dict market_id d =
     rbind (config_bool d ''enabled'' False) (\<lambda>enabled.
     rbind (validated_settings (oget_or d ''settings'' (PDict []))) (\<lambda>settings.
       Inr \<lparr> mc_market_id = py_str (py_or (oget d ''market_id'') (PStr market_id)),
             mc_enabled = enabled, mc_settings = settings \<rparr>))"

definition market_config_to_dict :: "market_config \<Rightarrow> obj res" where
  "market_config_to_dict c =
     rbind (validated_settings (PDict (mc_settings c))) (\<lambda>settings.
       Inr [(''enabled'', PBool (mc_enabled c)), (''settings'', PDict settings)])"

definition default_market_configs :: "(string, market_config) dict" where
  "default_market_configs = map (\<lambda>m. (meta_id m,
     \<lparr> mc_market_id = meta_id m, mc_enabled = meta_default_enabled m, mc_settings = [] \<rparr>)) MARKET_CATALOG"

end
