(* ===== verification/Models_Journal.thy ===== *)
theory Models_Journal
  imports Models_Records
begin

text \<open>
  The two durable outboxes of \<open>core/models.py\<close>: the copy-activity outbox entry and the mutation
  journal entry, with their states, and \<open>bounded_mutation_result\<close>, which bounds what a journal
  entry may store of a response.
\<close>

section \<open>States\<close>

text \<open>\<open>CopyActivityState\<close> and \<open>MutationJournalState\<close> list the same five words.\<close>

datatype journal_state = Pending | Retryable | Completed | Rejected | Ambiguous

fun state_str :: "journal_state \<Rightarrow> string" where
  "state_str Pending = ''pending''"
| "state_str Retryable = ''retryable''"
| "state_str Completed = ''completed''"
| "state_str Rejected = ''rejected''"
| "state_str Ambiguous = ''ambiguous''"

text \<open>Unknown states are read as \<open>ambiguous\<close>: automatic replay could repeat a live order.\<close>

definition state_of :: "string \<Rightarrow> journal_state" where
  "state_of s = (if s = ''pending'' then Pending else if s = ''retryable'' then Retryable
     else if s = ''completed'' then Completed else if s = ''rejected'' then Rejected else Ambiguous)"

definition stored_state :: "obj \<Rightarrow> journal_state" where
  "stored_state d = state_of (lower (strip (py_str (py_or (oget d ''state'') (PStr ''ambiguous'')))))"

lemma state_of_str [simp]: "state_of (lower (strip (state_str s))) = s"
  by (cases s) (simp_all add: state_of_def lower_def lower_char_def strip_def is_space_def)

lemma state_str_nonempty [simp]: "state_str s \<noteq> []"
  by (cases s) simp_all

section \<open>Copy-activity outbox\<close>

record outbox_entry =
  co_watch_id :: string
  co_activity_key :: string
  co_activity :: obj
  co_market_id :: string
  co_execution_policy :: obj
  co_state :: journal_state
  co_attempts :: int
  co_outcome_code :: string
  co_outcome_message :: string
  co_dispatch :: obj
  co_id :: string
  co_created_at :: int
  co_updated_at :: int
  co_replay_authorized_at :: int

definition outbox_to_dict :: "outbox_entry \<Rightarrow> obj" where
  "outbox_to_dict e = [
     (''watch_id'', PStr (co_watch_id e)), (''activity_key'', PStr (co_activity_key e)),
     (''activity'', PDict (co_activity e)), (''market_id'', PStr (co_market_id e)),
     (''execution_policy'', PDict (co_execution_policy e)), (''state'', PStr (state_str (co_state e))),
     (''attempts'', PInt (co_attempts e)), (''outcome_code'', PStr (co_outcome_code e)),
     (''outcome_message'', PStr (co_outcome_message e)), (''dispatch'', PDict (co_dispatch e)),
     (''id'', PStr (co_id e)), (''created_at'', PInt (co_created_at e)), (''updated_at'', PInt (co_updated_at e)),
     (''replay_authorized_at'', PInt (co_replay_authorized_at e))]"

definition outbox_from_dict :: "obj \<Rightarrow> outbox_entry res" where
  "outbox_from_dict d =
     rbind (record_identity d ''id'') (\<lambda>id.
     rbind (record_identity d ''watch_id'') (\<lambda>watch_id.
     rbind (record_identity d ''activity_key'') (\<lambda>activity_key.
     rbind (record_identity d ''market_id'') (\<lambda>market_id.
     rbind (record_object d ''activity'' True) (\<lambda>activity.
     rbind (record_object d ''dispatch'' False) (\<lambda>dispatch.
     rbind (record_object d ''execution_policy'' False) (\<lambda>policy.
     rbind (if policy = [] then Inr () else rbind (copy_settings_from_dict policy) (\<lambda>_. Inr ())) (\<lambda>_.
     rbind (config_integer (oget_or d ''attempts'' (PInt 0)) ''attempts'' None) (\<lambda>attempts.
     rbind (config_integer (oget_or d ''created_at'' (PInt 0)) ''created_at'' None) (\<lambda>created_at.
     rbind (config_integer (oget_or d ''updated_at'' (PInt created_at)) ''updated_at'' None) (\<lambda>updated_at.
     rbind (config_integer (oget_or d ''replay_authorized_at'' (PInt 0)) ''replay_authorized_at'' None) (\<lambda>replay.
       Inr \<lparr> co_watch_id = watch_id, co_activity_key = activity_key, co_activity = activity,
             co_market_id = lower market_id, co_execution_policy = policy, co_state = stored_state d,
             co_attempts = attempts, co_outcome_code = text_or_empty d ''outcome_code'',
             co_outcome_message = text_or_empty d ''outcome_message'', co_dispatch = dispatch, co_id = id,
             co_created_at = created_at, co_updated_at = updated_at, co_replay_authorized_at = replay \<rparr>))))))))))))"

section \<open>Bounded results\<close>

function (sequential) shape_trim :: "nat \<Rightarrow> nat \<Rightarrow> pyval \<Rightarrow> pyval" where
  "shape_trim list_limit string_limit (PDict d) =
     PDict (map (\<lambda>(k, v). (k, shape_trim list_limit string_limit v)) d)"
| "shape_trim list_limit string_limit (PList vs) =
     PList (map (shape_trim list_limit string_limit) (take list_limit vs))"
| "shape_trim list_limit string_limit (PStr s) =
     PStr (if string_limit < length s then take string_limit s else s)"
| "shape_trim list_limit string_limit v = v"
  by pat_completeness auto

termination
proof (relation "measure (\<lambda>(_, _, v). size v)")
  fix l s :: nat and vs :: "pyval list" and x
  assume "x \<in> set (take l vs)"
  then have "size x \<le> size_list size vs" by (intro size_list_estimation'[OF in_set_takeD]) auto
  then show "((l, s, x), (l, s, PList vs)) \<in> measure (\<lambda>(_, _, v). size v)" by simp
next
  fix l s :: nat and d :: obj and z x y
  assume *: "z \<in> set d" "(x, y) = z"
  then have "size y \<le> size_list (size_prod (\<lambda>_. 0) size) d"
    by (intro size_list_estimation'[of z]) auto
  then show "((l, s, y), (l, s, PDict d)) \<in> measure (\<lambda>(_, _, v). size v)"
    by simp
qed simp

definition trim_steps :: "(nat \<times> nat) list" where
  "trim_steps = [(128, 8 * 1024), (64, 4 * 1024), (32, 2 * 1024), (16, 1024), (8, 512), (4, 256), (0, 128)]"

definition encoded_bytes :: "pyval \<Rightarrow> nat list res" where
  "encoded_bytes v = rbind (json_dumps v) (\<lambda>t. Inr (utf8 t))"

definition not_serializable_receipt :: obj where
  "not_serializable_receipt = [(''ok'', PBool True), (''mutation_result'', PDict [
     (''stored'', PStr ''receipt_only''), (''reason'', PStr ''result_was_not_json_serializable'')])]"

definition oversized_receipt :: "nat list \<Rightarrow> obj" where
  "oversized_receipt encoded = [(''ok'', PBool True), (''mutation_result'', PDict [
     (''stored'', PStr ''receipt_only''), (''reason'', PStr ''result_exceeded_storage_limit''),
     (''original_bytes'', PInt (int (length encoded))), (''sha256'', PStr (sha256 encoded))])]"

text \<open>The loop over the trimming steps: the first one that fits.\<close>

fun first_fitting :: "pyval \<Rightarrow> nat \<Rightarrow> (nat \<times> nat) list \<Rightarrow> pyval option" where
  "first_fitting v limit [] = None"
| "first_fitting v limit ((l, s) # steps) =
     (case encoded_bytes (shape_trim l s v) of
        Inl _ \<Rightarrow> first_fitting v limit steps
      | Inr bs \<Rightarrow> if length bs \<le> limit then Some (shape_trim l s v) else first_fitting v limit steps)"

text \<open>\<open>json.loads(encoded)\<close> of a sorted dump of an object.\<close>

definition reloaded :: "pyval \<Rightarrow> obj" where
  "reloaded v = the_dict (json_norm v)"

definition bounded_mutation_result :: "pyval \<Rightarrow> bool \<Rightarrow> int \<Rightarrow> obj" where
  "bounded_mutation_result v preserve_shape max_bytes =
     (let candidate = (if is_dict v then v else PDict [(''result'', v)]);
          limit = nat (max 1 max_bytes)
      in case encoded_bytes candidate of
           Inl _ \<Rightarrow> not_serializable_receipt
         | Inr encoded \<Rightarrow>
             if length encoded \<le> limit then reloaded candidate
             else case (if preserve_shape then first_fitting candidate limit trim_steps else None) of
                 Some t \<Rightarrow> reloaded t
               | None \<Rightarrow> oversized_receipt encoded)"

abbreviation bounded_result :: "obj \<Rightarrow> obj" where
  "bounded_result r \<equiv> bounded_mutation_result (PDict r) False (int MAX_MUTATION_RESULT_BYTES)"

section \<open>Mutation journal\<close>

record journal_entry =
  mj_key_hash :: string
  mj_method :: string
  mj_path :: string
  mj_request_hash :: string
  mj_live :: bool
  mj_state :: journal_state
  mj_response_status :: int
  mj_response :: obj
  mj_outcome_code :: string
  mj_outcome_message :: string
  mj_id :: string
  mj_created_at :: int
  mj_updated_at :: int
  mj_replay_authorized_at :: int

definition journal_to_dict :: "journal_entry \<Rightarrow> obj" where
  "journal_to_dict e = [
     (''key_hash'', PStr (mj_key_hash e)), (''method'', PStr (mj_method e)), (''path'', PStr (mj_path e)),
     (''request_hash'', PStr (mj_request_hash e)), (''live'', PBool (mj_live e)),
     (''state'', PStr (state_str (mj_state e))), (''response_status'', PInt (mj_response_status e)),
     (''response'', PDict (bounded_result (mj_response e))),
     (''outcome_code'', PStr (mj_outcome_code e)), (''outcome_message'', PStr (mj_outcome_message e)),
     (''id'', PStr (mj_id e)), (''created_at'', PInt (mj_created_at e)), (''updated_at'', PInt (mj_updated_at e)),
     (''replay_authorized_at'', PInt (mj_replay_authorized_at e))]"

definition journal_path_ok :: "string \<Rightarrow> string \<Rightarrow> bool" where
  "journal_path_ok method path \<longleftrightarrow> method \<in> {''POST'', ''PATCH'', ''PUT'', ''DELETE''} \<and> startswith path ''/api/''
     \<and> CHR ''?'' \<notin> set path \<and> CHR ''#'' \<notin> set path"

definition journal_status_ok :: "journal_state \<Rightarrow> int \<Rightarrow> bool" where
  "journal_status_ok st status \<longleftrightarrow> \<not> ((status \<noteq> 0 \<and> status < 100) \<or> (st = Completed \<and> status = 0))"

definition journal_from_dict :: "obj \<Rightarrow> journal_entry res" where
  "journal_from_dict d =
     rbind (record_identity d ''id'') (\<lambda>id.
     rbind (record_identity d ''key_hash'') (\<lambda>key_hash.
     rbind (record_identity d ''request_hash'') (\<lambda>request_hash.
     rbind (require (is_digest key_hash \<and> is_digest request_hash)
       (Exc ValueError ''Mutation journal hashes must be canonical SHA-256 digests.'')) (\<lambda>_.
     rbind (record_identity d ''method'') (\<lambda>method.
     rbind (record_identity d ''path'') (\<lambda>path.
     rbind (require (journal_path_ok method path)
       (Exc ValueError ''Mutation journal request identity is invalid.'')) (\<lambda>_.
     rbind (require (has_key d ''live'')
       (Exc ValueError ''Mutation journal execution classification is missing.'')) (\<lambda>_.
     rbind (config_bool d ''live'' False) (\<lambda>live.
     rbind (config_integer (oget_or d ''response_status'' (PInt 0)) ''response_status'' (Some 599)) (\<lambda>status.
     rbind (require (journal_status_ok (stored_state d) status)
       (Exc ValueError ''Mutation journal response status is invalid.'')) (\<lambda>_.
     rbind (record_object d ''response'' False) (\<lambda>response.
     rbind (config_integer (oget_or d ''created_at'' (PInt 0)) ''created_at'' None) (\<lambda>created_at.
     rbind (config_integer (oget_or d ''updated_at'' (PInt created_at)) ''updated_at'' None) (\<lambda>updated_at.
     rbind (config_integer (oget_or d ''replay_authorized_at'' (PInt 0)) ''replay_authorized_at'' None) (\<lambda>replay.
       Inr \<lparr> mj_key_hash = key_hash, mj_method = method, mj_path = path, mj_request_hash = request_hash,
             mj_live = live, mj_state = stored_state d, mj_response_status = status,
             mj_response = bounded_result response, mj_outcome_code = text_or_empty d ''outcome_code'',
             mj_outcome_message = text_or_empty d ''outcome_message'', mj_id = id, mj_created_at = created_at,
             mj_updated_at = updated_at, mj_replay_authorized_at = replay \<rparr>)))))))))))))))"

text \<open>A well-formed entry: what the reader establishes.\<close>

definition journal_entry_ok :: "journal_entry \<Rightarrow> bool" where
  "journal_entry_ok e \<longleftrightarrow> stable_identity (mj_id e) \<and> is_digest (mj_key_hash e) \<and> is_digest (mj_request_hash e)
     \<and> stable_identity (mj_method e) \<and> stable_identity (mj_path e) \<and> journal_path_ok (mj_method e) (mj_path e)
     \<and> 0 \<le> mj_response_status e \<and> mj_response_status e \<le> 599 \<and> journal_status_ok (mj_state e) (mj_response_status e)
     \<and> bounded_result (mj_response e) = mj_response e
     \<and> 0 \<le> mj_created_at e \<and> 0 \<le> mj_updated_at e \<and> 0 \<le> mj_replay_authorized_at e"

definition outbox_entry_ok :: "outbox_entry \<Rightarrow> bool" where
  "outbox_entry_ok e \<longleftrightarrow> stable_identity (co_id e) \<and> stable_identity (co_watch_id e) \<and> stable_identity (co_activity_key e)
     \<and> stable_identity (co_market_id e) \<and> lower (co_market_id e) = co_market_id e
     \<and> (co_execution_policy e = [] \<or> (\<exists>s. copy_settings_from_dict (co_execution_policy e) = Inr s))
     \<and> 0 \<le> co_attempts e \<and> 0 \<le> co_created_at e \<and> 0 \<le> co_updated_at e \<and> 0 \<le> co_replay_authorized_at e"

end
