(* ===== verification/Models_Config.thy ===== *)
theory Models_Config
  imports Models_Journal "HOL-Library.Product_Lexorder"
begin

text \<open>
  \<open>AppConfig\<close> of \<open>core/models.py\<close>: the whole durable state of the program, its reader and writer,
  and the five operations that the rest of the program goes through to change the notification
  history, the copy outbox and the mutation journal.

  An operation that raises leaves the configuration as it was: each Python method checks before
  it assigns, so the model returns either the exception or the new configuration.
\<close>

datatype theme = Light | Dark
datatype ui_design = Classic | Aurora2026 | Graphite2026 | Sentinel2027

fun theme_str :: "theme \<Rightarrow> string" where
  "theme_str Light = ''light''"
| "theme_str Dark = ''dark''"

fun ui_design_str :: "ui_design \<Rightarrow> string" where
  "ui_design_str Classic = ''classic''"
| "ui_design_str Aurora2026 = ''aurora_2026''"
| "ui_design_str Graphite2026 = ''graphite_2026''"
| "ui_design_str Sentinel2027 = ''sentinel_2027''"

record app_config =
  cf_alerts :: "price_alert list"
  cf_alert_events :: "alert_event list"
  cf_paper_trades :: "paper_trade list"
  cf_wallets :: "wallet_watch list"
  cf_copy_activity_outbox :: "outbox_entry list"
  cf_mutation_journal :: "journal_entry list"
  cf_copytrading :: copy_settings
  cf_markets :: "(string, market_config) dict"
  cf_selected_market_id :: string
  cf_theme :: theme
  cf_ui_design :: ui_design

definition default_app_config :: app_config where
  "default_app_config = \<lparr> cf_alerts = [], cf_alert_events = [], cf_paper_trades = [], cf_wallets = [],
     cf_copy_activity_outbox = [], cf_mutation_journal = [], cf_copytrading = default_copy_settings,
     cf_markets = default_market_configs, cf_selected_market_id = DEFAULT_MARKET_ID, cf_theme = Light,
     cf_ui_design = Aurora2026 \<rparr>"

section \<open>Notification history\<close>

text \<open>\<open>append_alert_events\<close>: capacity for the whole batch is reserved first; only acknowledged
  events, oldest first, make room.\<close>

definition removable_events :: "app_config \<Rightarrow> alert_event list" where
  "removable_events cfg = sort_key (\<lambda>e. (ae_created_at e, ae_id e))
     (filter (\<lambda>e. ae_acknowledged_at e \<noteq> 0) (cf_alert_events cfg))"

definition append_alert_events :: "alert_event list \<Rightarrow> app_config \<Rightarrow> app_config res" where
  "append_alert_events events cfg =
     (if events = [] then Inr cfg else
      rbind (rmap (\<lambda>e. alert_event_from_dict (alert_event_to_dict e)) events) (\<lambda>validated.
      let combined = cf_alert_events cfg @ validated in
      rbind (unique_record_fields ae_id combined) (\<lambda>_.
      let remove_count = length combined - MAX_ALERT_EVENTS; removable = removable_events cfg in
      if length removable < remove_count
      then raise AlertEventCapacityError ''Alert notification history is full of unacknowledged events; read and acknowledge notifications before retrying. No crossing was consumed.''
      else let removed = map ae_id (take remove_count removable) in
        Inr (cfg\<lparr> cf_alert_events := filter (\<lambda>e. ae_id e \<notin> set removed) combined \<rparr>))))"

definition acknowledge_alert_event :: "string \<Rightarrow> int \<Rightarrow> app_config \<Rightarrow> (app_config \<times> alert_event) res" where
  "acknowledge_alert_event event_id now cfg =
     (let ack = (\<lambda>e. if ae_acknowledged_at e = 0 then e\<lparr> ae_acknowledged_at := max (ae_created_at e) now \<rparr> else e) in
      case List.find (\<lambda>e. ae_id e = event_id) (cf_alert_events cfg) of
        None \<Rightarrow> value_error ''Alert notification was not found.''
      | Some e \<Rightarrow> Inr (cfg\<lparr> cf_alert_events := update_first (\<lambda>e. ae_id e = event_id) ack (cf_alert_events cfg) \<rparr>, ack e))"

section \<open>Operator reconciliation\<close>

datatype resolution = ConfirmedDispatched | ConfirmedNotDispatched | Discard

definition resolution_of :: "pyval \<Rightarrow> resolution option" where
  "resolution_of v =
     (let s = replace_char (CHR ''-'') (CHR ''_'') (lower (strip (py_str (py_or v (PStr []))))) in
      if s = ''confirmed_dispatched'' then Some ConfirmedDispatched
      else if s = ''confirmed_not_dispatched'' then Some ConfirmedNotDispatched
      else if s = ''discard'' then Some Discard else None)"

abbreviation bad_resolution :: "'a res" where
  "bad_resolution \<equiv> value_error ''Resolution must be confirmed_dispatched, confirmed_not_dispatched, or discard.''"

fun resolve_outbox :: "resolution \<Rightarrow> int \<Rightarrow> outbox_entry \<Rightarrow> outbox_entry" where
  "resolve_outbox ConfirmedDispatched now e = e\<lparr> co_state := Completed, co_outcome_code := ''manual_dispatch_confirmed'',
     co_outcome_message := ''Operator confirmed the live dispatch in venue order history.'',
     co_updated_at := now, co_replay_authorized_at := 0 \<rparr>"
| "resolve_outbox ConfirmedNotDispatched now e = e\<lparr> co_state := Retryable, co_outcome_code := ''manual_dispatch_cleared'',
     co_outcome_message := ''Operator confirmed no venue dispatch; automatic retry is allowed.'',
     co_updated_at := now, co_replay_authorized_at := now \<rparr>"
| "resolve_outbox Discard now e = e\<lparr> co_state := Rejected, co_outcome_code := ''manual_dispatch_discarded'',
     co_outcome_message := ''Operator discarded the ambiguous activity without retry.'',
     co_updated_at := now, co_replay_authorized_at := 0 \<rparr>"

definition reconcile_ambiguous_copy_activity ::
    "string \<Rightarrow> pyval \<Rightarrow> int \<Rightarrow> app_config \<Rightarrow> (app_config \<times> outbox_entry) res" where
  "reconcile_ambiguous_copy_activity entry_id resolution now cfg =
     (case List.find (\<lambda>e. co_id e = entry_id) (cf_copy_activity_outbox cfg) of
        None \<Rightarrow> value_error ''Copy activity outbox entry was not found.''
      | Some e \<Rightarrow>
          if co_state e \<noteq> Ambiguous then value_error ''Only ambiguous copy activity entries can be reconciled.''
          else case resolution_of resolution of
              None \<Rightarrow> bad_resolution
            | Some r \<Rightarrow> Inr (cfg\<lparr> cf_copy_activity_outbox :=
                  update_first (\<lambda>e. co_id e = entry_id) (resolve_outbox r now) (cf_copy_activity_outbox cfg) \<rparr>,
                resolve_outbox r now e))"

section \<open>Mutation journal\<close>

text \<open>An entry the journal may evict: resolved, and not a wallet poll whose delivery is still
  unacknowledged.\<close>

definition journal_removable :: "journal_entry \<Rightarrow> bool" where
  "journal_removable e \<longleftrightarrow> mj_state e \<in> {Completed, Rejected}
     \<and> \<not> (mj_state e = Completed \<and> mj_path e = ''/api/wallets/poll''
          \<and> mj_outcome_code e \<noteq> ''wallet_delivery_batch_acknowledged'')"

definition append_mutation_journal :: "journal_entry \<Rightarrow> app_config \<Rightarrow> app_config res" where
  "append_mutation_journal entry cfg =
     (let journal = cf_mutation_journal cfg in
      if MAX_MUTATION_JOURNAL_ENTRIES \<le> length journal
      then case sort_key (\<lambda>e. (mj_updated_at e, mj_created_at e, mj_id e)) (filter journal_removable journal) of
          [] \<Rightarrow> value_error ''The mutation journal is full of unresolved entries; reconcile them before submitting another durable mutation.''
        | oldest # _ \<Rightarrow> Inr (cfg\<lparr> cf_mutation_journal := filter (\<lambda>e. mj_id e \<noteq> mj_id oldest) journal @ [entry] \<rparr>)
      else Inr (cfg\<lparr> cf_mutation_journal := journal @ [entry] \<rparr>))"

definition reconciled_response :: "string \<Rightarrow> obj" where
  "reconciled_response entry_id = [(''ok'', PBool True), (''mutation'', PDict [
     (''id'', PStr entry_id), (''state'', PStr ''completed''), (''reconciled'', PBool True)])]"

text \<open>\<open>response or {...}\<close>: an absent or empty response is replaced by the standard receipt.\<close>

fun resolve_mutation :: "resolution \<Rightarrow> obj option \<Rightarrow> int \<Rightarrow> journal_entry \<Rightarrow> journal_entry" where
  "resolve_mutation ConfirmedDispatched response now e = e\<lparr> mj_state := Completed, mj_response_status := 200,
     mj_response := bounded_result (case response of Some (p # r) \<Rightarrow> p # r | _ \<Rightarrow> reconciled_response (mj_id e)),
     mj_outcome_code := ''manual_dispatch_confirmed'',
     mj_outcome_message := ''Operator confirmed the live mutation in venue history.'',
     mj_updated_at := now, mj_replay_authorized_at := 0 \<rparr>"
| "resolve_mutation ConfirmedNotDispatched response now e = e\<lparr> mj_state := Retryable, mj_response_status := 0,
     mj_response := [], mj_outcome_code := ''manual_dispatch_cleared'',
     mj_outcome_message := ''Operator confirmed no venue dispatch; one retry is authorized.'',
     mj_updated_at := now, mj_replay_authorized_at := now \<rparr>"
| "resolve_mutation Discard response now e = e\<lparr> mj_state := Rejected, mj_response_status := 409,
     mj_response := [], mj_outcome_code := ''manual_dispatch_discarded'',
     mj_outcome_message := ''Operator discarded the ambiguous mutation without retry.'',
     mj_updated_at := now, mj_replay_authorized_at := 0 \<rparr>"

definition reconcile_ambiguous_mutation ::
    "string \<Rightarrow> pyval \<Rightarrow> obj option \<Rightarrow> int \<Rightarrow> app_config \<Rightarrow> (app_config \<times> journal_entry) res" where
  "reconcile_ambiguous_mutation entry_id resolution response now cfg =
     (case List.find (\<lambda>e. mj_id e = entry_id) (cf_mutation_journal cfg) of
        None \<Rightarrow> value_error ''Mutation journal entry was not found.''
      | Some e \<Rightarrow>
          if \<not> mj_live e \<or> mj_state e \<notin> {Pending, Ambiguous}
          then value_error ''Only pending or ambiguous live mutations can be reconciled.''
          else case resolution_of resolution of
              None \<Rightarrow> bad_resolution
            | Some r \<Rightarrow> Inr (cfg\<lparr> cf_mutation_journal :=
                  update_first (\<lambda>e. mj_id e = entry_id) (resolve_mutation r response now) (cf_mutation_journal cfg) \<rparr>,
                resolve_mutation r response now e))"

section \<open>Writing\<close>

definition named_configs :: "(string, market_config) dict \<Rightarrow> obj res" where
  "named_configs ms = rmap (\<lambda>(k, c). rbind (market_config_to_dict c) (\<lambda>d. Inr (k, PDict d))) ms"

definition app_config_to_dict :: "app_config \<Rightarrow> obj res" where
  "app_config_to_dict cfg =
     rbind (copy_settings_to_dict (cf_copytrading cfg)) (\<lambda>copytrading.
     rbind (named_configs (cf_markets cfg)) (\<lambda>markets.
     Inr [
     (''schema_version'', PInt 1),
     (''alerts'', PList (map (PDict \<circ> price_alert_to_dict) (cf_alerts cfg))),
     (''alert_events'', PList (map (PDict \<circ> alert_event_to_dict) (cf_alert_events cfg))),
     (''paper_trades'', PList (map (PDict \<circ> paper_trade_to_dict) (cf_paper_trades cfg))),
     (''wallets'', PList (map (PDict \<circ> wallet_to_dict) (cf_wallets cfg))),
     (''copy_activity_outbox'', PList (map (PDict \<circ> outbox_to_dict) (cf_copy_activity_outbox cfg))),
     (''mutation_journal'', PList (map (PDict \<circ> journal_to_dict) (cf_mutation_journal cfg))),
     (''copytrading'', PDict copytrading),
     (''markets'', PDict markets),
     (''selected_market_id'', PStr (cf_selected_market_id cfg)),
     (''theme'', PStr (theme_str (cf_theme cfg))),
     (''ui_design'', PStr (ui_design_str (cf_ui_design cfg)))]))"

section \<open>Reading\<close>

text \<open>What the default factories return for the record at a position of a list: a fresh identity
  and the current time.\<close>

type_synonym defaults = "string \<Rightarrow> nat \<Rightarrow> string \<times> int"

definition read_records :: "defaults \<Rightarrow> string \<Rightarrow> (string \<Rightarrow> int \<Rightarrow> obj \<Rightarrow> 'r res) \<Rightarrow> obj list \<Rightarrow> 'r list res" where
  "read_records fresh key from_dict xs =
     rmap (\<lambda>(i, x). case fresh key i of (uid, now) \<Rightarrow> from_dict uid now x) (enumerate 0 xs)"

definition config_fields :: "string list" where
  "config_fields = [''schema_version'', ''alerts'', ''alert_events'', ''paper_trades'', ''wallets'', ''copy_activity_outbox'',
     ''mutation_journal'', ''copytrading'', ''markets'', ''selected_market_id'', ''theme'', ''ui_design'']"

definition schema_check :: "obj \<Rightarrow> unit res" where
  "schema_check d =
     (case oget_or d ''schema_version'' (PInt 0) of
        PInt n \<Rightarrow> require (n \<in> {0, 1}) (Exc ValueError ''Configuration schema_version is not supported by this release; use a compatible release or migrate the state before continuing.'')
      | _ \<Rightarrow> value_error ''Configuration schema_version must be an integer.'')"

definition unknown_fields_check :: "obj \<Rightarrow> unit res" where
  "unknown_fields_check d =
     (let unknown = sort (filter (\<lambda>k. k \<notin> set config_fields) (keys d)) in
      require (unknown = []) (Exc ValueError
        (''Configuration contains unsupported top-level fields and cannot be rewritten safely: '' @ join '', '' unknown)))"

definition wallet_with_market :: "obj \<Rightarrow> obj \<Rightarrow> obj" where
  "wallet_with_market d x = dset ''activity_cursor_market_id''
     (oget_or x ''activity_cursor_market_id'' (py_or (oget d ''selected_market_id'') (PStr DEFAULT_MARKET_ID))) x"

definition read_market :: "string \<times> pyval \<Rightarrow> (string, market_config) dict \<Rightarrow> (string, market_config) dict res" where
  "read_market kc markets =
     (case snd kc of
        PDict raw \<Rightarrow> if is_dict (oget_or raw ''settings'' (PDict []))
          then rbind (market_config_from_dict (fst kc) raw) (\<lambda>c. Inr (dset (mc_market_id c) c markets))
          else value_error ''Configuration market and safety settings must be objects.''
      | _ \<Rightarrow> value_error ''Configuration market and safety settings must be objects.'')"

definition read_markets :: "obj \<Rightarrow> (string, market_config) dict res" where
  "read_markets d =
     (case oget_or d ''markets'' (PDict []) of
        PDict ms \<Rightarrow> if MAX_MARKET_CONFIGS < length ms
          then value_error ''Configuration markets exceed the supported capacity of 512.''
          else rfold read_market ms default_market_configs
      | _ \<Rightarrow> value_error ''Configuration markets must be an object.'')"

definition read_copytrading :: "obj \<Rightarrow> copy_settings res" where
  "read_copytrading d =
     (case oget_or d ''copytrading'' (PDict []) of
        PDict c \<Rightarrow> copy_settings_from_dict c
      | _ \<Rightarrow> value_error ''Configuration copytrading settings must be an object.'')"

definition theme_of :: "pyval \<Rightarrow> theme" where
  "theme_of v = (if lower (py_str (py_or v (PStr []))) = ''dark'' then Dark else Light)"

definition ui_design_of :: "pyval \<Rightarrow> ui_design" where
  "ui_design_of v =
     (let s = replace_char (CHR ''-'') (CHR ''_'') (lower (strip (py_str (py_or v (PStr ''aurora_2026''))))) in
      if s = ''classic'' then Classic else if s = ''graphite_2026'' then Graphite2026
      else if s = ''sentinel_2027'' then Sentinel2027 else Aurora2026)"

definition selected_market :: "(string, market_config) dict \<Rightarrow> pyval \<Rightarrow> string" where
  "selected_market markets v =
     (let s = lower (strip (py_str (py_or v (PStr DEFAULT_MARKET_ID)))) in
      if has_key markets s then s else DEFAULT_MARKET_ID)"

definition app_config_from_dict :: "defaults \<Rightarrow> pyval \<Rightarrow> app_config res" where
  "app_config_from_dict fresh v = (case v of PDict d \<Rightarrow>
     rbind (schema_check d) (\<lambda>_.
     rbind (unknown_fields_check d) (\<lambda>_.
     rbind (rbind (config_records d ''alerts'' MAX_ALERTS) (read_records fresh ''alerts'' price_alert_from_dict)) (\<lambda>alerts.
     rbind (rbind (config_records d ''alert_events'' MAX_ALERT_EVENTS) (rmap alert_event_from_dict)) (\<lambda>alert_events.
     rbind (unique_record_fields ae_id alert_events) (\<lambda>_.
     rbind (rbind (config_records d ''paper_trades'' MAX_PAPER_TRADES)
       (read_records fresh ''paper_trades'' paper_trade_from_dict)) (\<lambda>paper_trades.
     rbind (rbind (config_records d ''wallets'' MAX_WALLETS)
       (\<lambda>ws. read_records fresh ''wallets'' (\<lambda>uid now. wallet_from_dict uid) (map (wallet_with_market d) ws))) (\<lambda>wallets.
     rbind (rbind (config_records d ''copy_activity_outbox'' MAX_COPY_ACTIVITY_OUTBOX_ENTRIES) (rmap outbox_from_dict)) (\<lambda>outbox.
     rbind (rbind (config_records d ''mutation_journal'' MAX_MUTATION_JOURNAL_ENTRIES) (rmap journal_from_dict)) (\<lambda>journal.
     rbind (unique_record_fields mj_id journal) (\<lambda>_.
     rbind (unique_record_fields mj_key_hash journal) (\<lambda>_.
     rbind (unique_record_fields co_id outbox) (\<lambda>_.
     rbind (unique_record_fields (\<lambda>e. (co_market_id e, co_watch_id e, co_activity_key e)) outbox) (\<lambda>_.
     rbind (read_copytrading d) (\<lambda>copytrading.
     rbind (read_markets d) (\<lambda>markets.
       Inr \<lparr> cf_alerts = alerts, cf_alert_events = alert_events, cf_paper_trades = paper_trades, cf_wallets = wallets,
             cf_copy_activity_outbox = outbox, cf_mutation_journal = journal, cf_copytrading = copytrading,
             cf_markets = markets, cf_selected_market_id = selected_market markets (oget d ''selected_market_id''),
             cf_theme = theme_of (oget d ''theme''), cf_ui_design = ui_design_of (oget d ''ui_design'') \<rparr>)))))))))))))))
   | _ \<Rightarrow> value_error ''Configuration must contain a JSON object.'')"

end
