(* ===== verification/Web_Common.thy ===== *)
theory Web_Common
  imports Config_Security Models_Config
begin

text \<open>
  Small helpers of \<open>web_api.py\<close> that several of its components use: lenient coercions of request
  values, the redaction of values shown to clients or stored in the journal, and the reading of
  a market's live-trading safety settings.
\<close>

section \<open>Lenient coercions\<close>

abbreviation is_blank :: "pyval \<Rightarrow> bool" where
  "is_blank v \<equiv> v = PNone \<or> v = PStr []"

text \<open>\<open>_safe_float\<close>: \<open>OverflowError\<close> is not caught.\<close>

definition safe_float :: "pyval \<Rightarrow> pyfloat option \<Rightarrow> pyfloat option res" where
  "safe_float v dflt = (if is_blank v then Inr dflt else
     case py_float v of
       Inr x \<Rightarrow> Inr (Some x)
     | Inl e \<Rightarrow> if exc_kind e \<in> {TypeError, ValueError} then Inr dflt else Inl e)"

definition safe_int :: "pyval \<Rightarrow> int \<Rightarrow> int res" where
  "safe_int v dflt = rbind (safe_float v None) (\<lambda>x. case x of None \<Rightarrow> Inr dflt | Some f \<Rightarrow> int_of_float f)"

definition clamp_int :: "pyval \<Rightarrow> int \<Rightarrow> int \<Rightarrow> int \<Rightarrow> int res" where
  "clamp_int v dflt minimum maximum = rbind (safe_int v dflt) (\<lambda>n. Inr (max minimum (min n maximum)))"

definition UNLIMITED_LIMIT_TOKENS :: "string list" where
  "UNLIMITED_LIMIT_TOKENS = [''0'', ''-1'', ''all'', ''any'', ''none'', ''unlimited'', ''max'']"

definition parse_optional_limit :: "pyval \<Rightarrow> int \<Rightarrow> int \<Rightarrow> int option res" where
  "parse_optional_limit v dflt minimum =
     (if lower (strip (if v = PNone then [] else py_str v)) \<in> set UNLIMITED_LIMIT_TOKENS then Inr None
      else rbind (safe_int v dflt) (\<lambda>n. Inr (Some (max minimum n))))"

definition limit_slice :: "'a list \<Rightarrow> int option \<Rightarrow> 'a list" where
  "limit_slice rows limit = (case limit of None \<Rightarrow> rows
     | Some n \<Rightarrow> if 0 \<le> n then take (nat n) rows else take (length rows - nat (- n)) rows)"

definition bool_from_setting :: "pyval \<Rightarrow> bool \<Rightarrow> bool" where
  "bool_from_setting v dflt = (case v of
       PBool b \<Rightarrow> b
     | PNone \<Rightarrow> dflt
     | PStr s \<Rightarrow> if s = [] then dflt else lower (strip s) \<in> {''1'', ''true'', ''yes'', ''on''}
     | _ \<Rightarrow> truthy v)"

definition optional_positive_float :: "pyval \<Rightarrow> string \<Rightarrow> pyfloat option res" where
  "optional_positive_float raw label =
     (if is_blank raw \<or> (is_str raw \<and> strip (the_str raw) = []) then Inr None
      else if \<not> (is_int raw \<or> is_float raw \<or> is_str raw)
      then value_error (label @ '' must be blank or a positive finite number.'')
      else case py_float raw of
          Inl _ \<Rightarrow> value_error (label @ '' must be blank or a positive number.'')
        | Inr x \<Rightarrow> if \<not> isfinite x \<or> fle x (Fin 0) then value_error (label @ '' must be blank or a positive number.'')
            else Inr (Some x))"

section \<open>Redaction\<close>

definition redacted :: "pyval \<Rightarrow> pyval" where
  "redacted v = (if is_blank v then PStr [] else PStr ''***'')"

fun sanitize_audit_value :: "pyval \<Rightarrow> string \<Rightarrow> pyval" where
  "sanitize_audit_value (PDict d) key = (if is_sensitive_display_key key then redacted (PDict d)
     else PDict (map (\<lambda>(k, v). (k, sanitize_audit_value v k)) d))"
| "sanitize_audit_value (PList vs) key = (if is_sensitive_display_key key then redacted (PList vs)
     else PList (map (\<lambda>v. sanitize_audit_value v key) vs))"
| "sanitize_audit_value v key = (if is_sensitive_display_key key then redacted v else v)"

definition sanitize_settings :: "obj \<Rightarrow> obj" where
  "sanitize_settings settings = map (\<lambda>(k, v).
     (k, if is_sensitive_display_key k then redacted v else sanitize_audit_value v k)) settings"

definition api_error_payload :: "int \<Rightarrow> string \<Rightarrow> string \<Rightarrow> obj \<Rightarrow> obj" where
  "api_error_payload status code message details =
     [(''ok'', PBool False), (''error'', PDict ([(''code'', PStr code), (''message'', PStr message), (''status'', PInt status)]
        @ (if details = [] then [] else [(''details'', sanitize_audit_value (PDict details) [])])))]"

text \<open>No value below a key that names a credential is shown.\<close>

fun redaction_complete :: "string \<Rightarrow> pyval \<Rightarrow> bool" where
  "redaction_complete key (PDict d) \<longleftrightarrow> \<not> is_sensitive_display_key key \<and> list_all (\<lambda>(k, v). redaction_complete k v) d"
| "redaction_complete key (PList vs) \<longleftrightarrow> \<not> is_sensitive_display_key key \<and> list_all (redaction_complete key) vs"
| "redaction_complete key v \<longleftrightarrow> (is_sensitive_display_key key \<longrightarrow> v \<in> {PStr [], PStr ''***''})"

lemma redaction_complete_redacted: "redaction_complete key (redacted v)"
  by (simp add: redacted_def)

lemma sanitize_complete: "redaction_complete key (sanitize_audit_value v key)"
proof (induction v key rule: sanitize_audit_value.induct)
  case (1 d key)
  then show ?case by (auto simp: redaction_complete_redacted list_all_iff)
next
  case (2 vs key)
  then show ?case by (auto simp: redaction_complete_redacted list_all_iff)
qed (auto simp: redaction_complete_redacted redacted_def)

lemma redacted_idem: "redaction_complete key v \<Longrightarrow> is_sensitive_display_key key \<Longrightarrow> redacted v = v"
  by (cases v) (auto simp: redacted_def)

lemma sanitize_idem: "sanitize_audit_value (sanitize_audit_value v key) key = sanitize_audit_value v key"
proof (induction v key rule: sanitize_audit_value.induct)
  case (1 d key)
  then show ?case by (auto simp: redacted_def)
next
  case (2 vs key)
  then show ?case by (auto simp: redacted_def)
qed (auto simp: redacted_def)

section \<open>Live-trading safety settings\<close>

definition enabled_capabilities :: "market_capabilities \<Rightarrow> string list" where
  "enabled_capabilities c = map fst (filter snd (capabilities_to_dict c))"

definition market_live_status :: "market_capabilities \<Rightarrow> obj \<Rightarrow> string" where
  "market_live_status c settings =
     (let flag = (\<lambda>k. bool_from_setting (oget settings k) False) in
      if \<not> cap_live_trading c then ''no''
      else if \<not> flag ''live_trading_enabled'' then ''guarded/off''
      else if flag ''live_trading_kill_switch'' \<or> flag ''live_trading_paused'' then ''kill-switch''
      else if \<not> (flag ''live_trading_confirmed'' \<or> flag ''live_trading_acknowledged'') then ''needs-confirmation''
      else ''armed'')"

definition market_safety_payload :: "obj \<Rightarrow> bool \<Rightarrow> obj" where
  "market_safety_payload settings enabled =
     (let flag = (\<lambda>k. bool_from_setting (oget settings k) False);
          limit = (\<lambda>k. if is_blank (oget settings k) then PNone else oget settings k) in
      [(''enabled'', PBool enabled),
       (''live_trading_enabled'', PBool (flag ''live_trading_enabled'')),
       (''live_trading_confirmed'', PBool (flag ''live_trading_confirmed'' \<or> flag ''live_trading_acknowledged'')),
       (''live_trading_kill_switch'', PBool (flag ''live_trading_kill_switch'' \<or> flag ''live_trading_paused'')),
       (''live_trading_max_size'', limit ''live_trading_max_size''),
       (''live_trading_max_notional'', limit ''live_trading_max_notional'')])"

definition market_configuration_revision :: "app_config \<Rightarrow> string \<Rightarrow> string res" where
  "market_configuration_revision cfg market_id =
     (let snapshot = PDict (case dget (cf_markets cfg) market_id of
            None \<Rightarrow> [(''market_id'', PStr market_id), (''enabled'', PBool False), (''settings'', PDict [])]
          | Some m \<Rightarrow> [(''market_id'', PStr market_id), (''enabled'', PBool (mc_enabled m)), (''settings'', PDict (mc_settings m))])
      in if json_finite snapshot then Inr (sha256_text (json_text True snapshot))
         else value_error ''Out of range float values are not JSON compliant'')"

definition require_market_enabled :: "app_config \<Rightarrow> string \<Rightarrow> string \<Rightarrow> unit res" where
  "require_market_enabled cfg market_id feature =
     (case dget (cf_markets cfg) market_id of
        Some m \<Rightarrow> require (mc_enabled m) (Exc ValueError
          (market_id @ '' is disabled in local market config. Enable it before using '' @ feature @ ''.''))
      | None \<Rightarrow> value_error (market_id @ '' is disabled in local market config. Enable it before using '' @ feature @ ''.''))"

lemma require_market_enabled_Inr:
  "require_market_enabled cfg m f = Inr u \<longleftrightarrow> (\<exists>c. dget (cf_markets cfg) m = Some c \<and> mc_enabled c)"
  by (auto simp: require_market_enabled_def split: option.splits)

end
