(* ===== verification/Web_Idempotency.thy ===== *)
theory Web_Idempotency
  imports Web_Common
begin

text \<open>
  The idempotency layer of \<open>web_api.py\<close>: the key a client sends, the routes that need one, the
  identity of a request (route and canonical body), and what is stored of a response for replay.
\<close>

section \<open>Keys and routes\<close>

definition IDEMPOTENCY_KEY_MAX_LENGTH :: nat where "IDEMPOTENCY_KEY_MAX_LENGTH = 128"

definition visible_ascii :: "char \<Rightarrow> bool" where
  "visible_ascii c \<longleftrightarrow> 33 \<le> ord c \<and> ord c \<le> 126"

definition idempotency_key_ok :: "string \<Rightarrow> bool" where
  "idempotency_key_ok k \<longleftrightarrow> length k \<le> IDEMPOTENCY_KEY_MAX_LENGTH \<and> list_all visible_ascii k"

text \<open>The header value (empty when absent) and the body field.\<close>

definition validated_idempotency_key :: "string \<Rightarrow> obj \<Rightarrow> string res" where
  "validated_idempotency_key header_key payload =
     rbind (case oget payload ''idempotency_key'' of
              PNone \<Rightarrow> Inr [] | PStr s \<Rightarrow> Inr s | _ \<Rightarrow> value_error ''idempotency_key must be a string.'') (\<lambda>body_key.
     if list_ex (\<lambda>k. k \<noteq> [] \<and> \<not> idempotency_key_ok k) [header_key, body_key]
     then value_error ''Idempotency keys must contain 1-128 visible ASCII characters.''
     else if header_key \<noteq> [] \<and> body_key \<noteq> [] \<and> header_key \<noteq> body_key
     then value_error ''Idempotency-Key header and idempotency_key body field must match.''
     else Inr (if header_key \<noteq> [] then header_key else body_key))"

definition LOCAL_DURABLE_CREATE_ROUTES :: "string list" where
  "LOCAL_DURABLE_CREATE_ROUTES = [''/api/alerts'', ''/api/wallets'', ''/api/wallets/poll'', ''/api/paper/orders'']"

definition IDEMPOTENT_MUTATION_ROUTES :: "string list" where
  "IDEMPOTENT_MUTATION_ROUTES = [''/api/polymarket/live-validation/reports'', ''/api/polymarket/live-validation/decisions'',
     ''/api/polymarket/live-validation/promotion-proposal/snapshots'']"

text \<open>\<open>path.strip("/").split("/")\<close>\<close>

definition path_parts :: "string \<Rightarrow> string list" where
  "path_parts path = split_on (CHR ''/'') (strip_char (CHR ''/'') path)"

text \<open>\<open>urllib.parse.unquote\<close>: percent escapes are bytes of UTF-8. A sequence that encodes no
  character of the covered range stands as a question mark.\<close>

definition hex_value :: "char \<Rightarrow> nat" where
  "hex_value c = (let n = ord c in if n \<le> 57 then n - 48 else if n \<le> 70 then n - 55 else n - 87)"

fun unquote :: "string \<Rightarrow> string" where
  "unquote (p # a # b # s) =
     (if p = CHR ''%'' \<and> is_hex_char a \<and> is_hex_char b then
        let n = 16 * hex_value a + hex_value b in
        if n < 128 then char_of n # unquote s
        else case s of
            q # c # d # t \<Rightarrow>
              let m = 16 * hex_value c + hex_value d in
              if n \<in> {194, 195} \<and> q = CHR ''%'' \<and> is_hex_char c \<and> is_hex_char d \<and> 128 \<le> m \<and> m < 192
              then char_of (64 * (n - 192) + (m - 128)) # unquote t else CHR ''?'' # unquote s
          | _ \<Rightarrow> CHR ''?'' # unquote s
      else p # unquote (a # b # s))"
| "unquote s = s"

definition is_live_order_management_route :: "string \<Rightarrow> string \<Rightarrow> bool" where
  "is_live_order_management_route meth path \<longleftrightarrow> (let parts = path_parts path in
     upper (strip meth) = ''POST'' \<and> length parts = 5 \<and> take 2 parts = [''api'', ''markets'']
     \<and> parts ! 3 = ''orders'' \<and> parts ! 2 \<noteq> [] \<and> parts ! 4 \<noteq> [])"

definition is_general_durable_mutation :: "string \<Rightarrow> string \<Rightarrow> bool" where
  "is_general_durable_mutation meth path \<longleftrightarrow> upper (strip meth) = ''POST''
     \<and> (path \<in> set LOCAL_DURABLE_CREATE_ROUTES \<or> is_live_order_management_route meth path)"

text \<open>The checks of \<open>_handle_admitted_mutation\<close> before the lock is taken; the result is the key.\<close>

definition admitted_key :: "string \<Rightarrow> string \<Rightarrow> string \<Rightarrow> obj \<Rightarrow> string res" where
  "admitted_key meth path header_key payload =
     rbind (validated_idempotency_key header_key payload) (\<lambda>key.
     let specialized = (meth = ''POST'' \<and> path \<in> set IDEMPOTENT_MUTATION_ROUTES);
         durable = is_general_durable_mutation meth path in
     if specialized \<and> key = [] then value_error ''Idempotency-Key is required for this durable create route.''
     else if durable \<and> header_key = [] then value_error ''Idempotency-Key header is required for this durable mutation route.''
     else if key \<noteq> [] \<and> \<not> (specialized \<or> durable) then value_error ''Idempotency-Key is not supported for this mutation route.''
     else Inr key)"

section \<open>Request identity\<close>

definition mutation_key_hash :: "string \<Rightarrow> string" where
  "mutation_key_hash key = sha256_text key"

definition mutation_request_hash :: "obj \<Rightarrow> string res" where
  "mutation_request_hash payload =
     (case json_dumps (PDict payload) of
        Inr t \<Rightarrow> Inr (sha256_text t)
      | Inl _ \<Rightarrow> value_error ''Mutation request must contain canonical JSON values.'')"

definition find_journal_entry :: "app_config \<Rightarrow> string \<Rightarrow> journal_entry option" where
  "find_journal_entry cfg key = List.find (\<lambda>e. mj_key_hash e = mutation_key_hash key) (cf_mutation_journal cfg)"

definition new_mutation_journal_entry ::
    "string \<Rightarrow> int \<Rightarrow> string \<Rightarrow> string \<Rightarrow> string \<Rightarrow> obj \<Rightarrow> bool \<Rightarrow> journal_entry res" where
  "new_mutation_journal_entry uid now key meth path payload live =
     rbind (mutation_request_hash payload) (\<lambda>h.
       Inr \<lparr> mj_key_hash = mutation_key_hash key, mj_method = upper (strip meth), mj_path = strip path,
             mj_request_hash = h, mj_live = live, mj_state = Pending, mj_response_status = 0, mj_response = [],
             mj_outcome_code = [], mj_outcome_message = [], mj_id = uid, mj_created_at = now, mj_updated_at = now,
             mj_replay_authorized_at = 0 \<rparr>)"

definition assert_mutation_request_matches :: "journal_entry \<Rightarrow> string \<Rightarrow> string \<Rightarrow> obj \<Rightarrow> unit res" where
  "assert_mutation_request_matches entry meth path payload =
     rbind (mutation_request_hash payload) (\<lambda>h.
     require (mj_method entry = upper (strip meth) \<and> mj_path entry = strip path \<and> mj_request_hash entry = h)
       (Exc IdempotencyConflictError ''The Idempotency-Key was already used for a different route or request body.''))"

section \<open>Stored results\<close>

definition redacted_receipt :: "obj \<Rightarrow> obj" where
  "redacted_receipt stored = [(''ok'', PBool True), (''mutation_result'', PDict [
     (''stored'', PStr ''receipt_only''), (''reason'', PStr ''sensitive_fields_were_redacted''),
     (''sha256'', PStr (sha256_text (json_text False (PDict stored))))])]"

definition stored_mutation_result :: "obj \<Rightarrow> bool \<Rightarrow> int option \<Rightarrow> obj" where
  "stored_mutation_result payload preserve_shape max_bytes =
     (let stored = bounded_mutation_result (sanitize_audit_value (PDict payload) []) preserve_shape
            (case max_bytes of None \<Rightarrow> int MAX_MUTATION_RESULT_BYTES | Some n \<Rightarrow> n)
      in case assert_no_persisted_secrets (PDict stored) of
           Inr _ \<Rightarrow> stored
         | Inl _ \<Rightarrow> redacted_receipt stored)"

definition MAX_HTTP_RESPONSE_BYTES :: nat where "MAX_HTTP_RESPONSE_BYTES = 16 * 1024 * 1024"

text \<open>\<open>_json_bytes\<close> refuses a body above the limit; \<open>NaN\<close> is allowed there.\<close>

definition json_body_fits :: "obj \<Rightarrow> bool" where
  "json_body_fits payload \<longleftrightarrow> length (json_indented 0 (PDict payload)) \<le> MAX_HTTP_RESPONSE_BYTES"

definition client_mutation_result :: "obj \<Rightarrow> obj" where
  "client_mutation_result payload =
     (if json_body_fits payload then payload
      else bounded_mutation_result (sanitize_audit_value (PDict payload) []) True (int MAX_HTTP_RESPONSE_BYTES))"

definition journal_entry_view :: "journal_entry \<Rightarrow> pyval" where
  "journal_entry_view e = PDict [
     (''id'', PStr (mj_id e)), (''method'', PStr (mj_method e)), (''path'', PStr (mj_path e)), (''live'', PBool (mj_live e)),
     (''state'', PStr (state_str (mj_state e))),
     (''response_status'', if mj_response_status e = 0 then PNone else PInt (mj_response_status e)),
     (''outcome_code'', PStr (mj_outcome_code e)), (''outcome_message'', PStr (mj_outcome_message e)),
     (''created_at'', PInt (mj_created_at e)), (''updated_at'', PInt (mj_updated_at e)),
     (''replay_authorized_at'', if mj_replay_authorized_at e = 0 then PNone else PInt (mj_replay_authorized_at e))]"

text \<open>\<open>sorted(..., reverse=True)\<close> keeps the order of equal keys; keys end in a unique id.\<close>

definition mutation_journal_payload :: "app_config \<Rightarrow> obj" where
  "mutation_journal_payload cfg =
     (let entries = rev (sort_key (\<lambda>e. (mj_updated_at e, mj_created_at e, mj_id e)) (rev (cf_mutation_journal cfg))) in
      [(''entries'', PList (map journal_entry_view entries)),
       (''counts'', PDict [(''total'', PInt (int (length entries))),
          (''unresolved'', PInt (int (length (filter (\<lambda>e. mj_state e \<in> {Pending, Ambiguous}) entries))))])])"

section \<open>Laws\<close>

lemma validated_idempotency_key_ok: "validated_idempotency_key h p = Inr k \<Longrightarrow> idempotency_key_ok k"
  unfolding validated_idempotency_key_def
  by (elim rbind_InrE) (auto simp: idempotency_key_ok_def split: if_splits)

lemma admitted_key_ok:
  assumes "admitted_key meth path h p = Inr k"
  shows "idempotency_key_ok k"
    and "is_general_durable_mutation meth path \<Longrightarrow> k \<noteq> [] \<and> k = h"
proof -
  from assms have v: "validated_idempotency_key h p = Inr k"
    and d: "is_general_durable_mutation meth path \<Longrightarrow> h \<noteq> []"
    unfolding admitted_key_def by (auto simp: rbind_eq_Inr Let_def split: if_splits)
  from v show "idempotency_key_ok k" by (rule validated_idempotency_key_ok)
  assume "is_general_durable_mutation meth path"
  with d v show "k \<noteq> [] \<and> k = h"
    unfolding validated_idempotency_key_def by (auto simp: rbind_eq_Inr split: if_splits)
qed

lemma key_hash_digest [simp]: "is_digest (mutation_key_hash k)"
  by (simp add: mutation_key_hash_def)

lemma request_hash_digest: "mutation_request_hash p = Inr h \<Longrightarrow> is_digest h"
  by (auto simp: mutation_request_hash_def split: sum.splits)

lemma new_mutation_journal_entry_Inr:
  "new_mutation_journal_entry uid now key meth path payload live = Inr e \<Longrightarrow>
     mj_key_hash e = mutation_key_hash key \<and> mj_id e = uid \<and> mj_state e = Pending \<and> mj_live e = live
     \<and> mj_replay_authorized_at e = 0 \<and> mj_path e = strip path \<and> is_digest (mj_request_hash e)"
  by (auto simp: new_mutation_journal_entry_def rbind_eq_Inr request_hash_digest)

lemma find_journal_entry_Some:
  "find_journal_entry cfg key = Some e \<Longrightarrow> e \<in> set (cf_mutation_journal cfg) \<and> mj_key_hash e = mutation_key_hash key"
  unfolding find_journal_entry_def by (auto dest: find_SomeD)

lemma find_journal_entry_None:
  "find_journal_entry cfg key = None \<longleftrightarrow> mutation_key_hash key \<notin> mj_key_hash ` set (cf_mutation_journal cfg)"
  unfolding find_journal_entry_def find_None_iff by force

text \<open>A digest is no credential: it has no dot, no colon and no dash.\<close>

lemma startswith_mem: "startswith s (c # p) \<Longrightarrow> c \<in> set s"
  by (cases s) auto

lemma contains_mem: "contains s (c # p) \<Longrightarrow> c \<in> set s"
  by (induction s "c # p" rule: contains.induct) (auto dest: startswith_mem)

end
