(* ===== verification/Models_Laws.thy ===== *)
theory Models_Laws
  imports Models_Records
begin

text \<open>
  Laws of the durable records: what every reader establishes (its well-formedness predicate),
  and that reading what was written gives the record back. For the copy settings the writer
  adds the percentage rounded to ten decimals and the reader insists that it agrees with the
  scale, so the round trip needs the rounding errors of binary64.
\<close>

section \<open>Case conversion and stripping\<close>

lemma is_space_lower_char [simp]: "is_space (lower_char c) = is_space c"
  by (auto simp: is_space_def lower_char_def Let_def)

lemma strip_map: "(\<And>c. is_space (f c) = is_space c) \<Longrightarrow> strip (map f s) = map f (strip s)"
proof -
  assume f: "\<And>c. is_space (f c) = is_space c"
  have d: "dropWhile is_space (map f t) = map f (dropWhile is_space t)" for t
    by (induction t) (simp_all add: f)
  show ?thesis by (simp add: strip_def d rev_map)
qed

lemma strip_lower: "strip (lower s) = lower (strip s)"
  unfolding lower_def by (rule strip_map) simp

lemma lower_strip_idem [simp]: "lower (strip (lower (strip s))) = lower (strip s)"
  by (simp add: strip_lower)

lemma upper_char_upper: "c' \<in> set (upper_char c) \<Longrightarrow> upper_char c' = [c']"
  by (auto simp: upper_char_def Let_def split: if_splits)

lemma upper_fixed: "(\<And>c. c \<in> set s \<Longrightarrow> upper_char c = [c]) \<Longrightarrow> upper s = s"
  by (induction s) (auto simp: upper_def)

lemma upper_idem [simp]: "upper (upper s) = upper s"
  by (rule upper_fixed) (auto simp: upper_def intro: upper_char_upper)

section \<open>Price alerts\<close>

lemma text_field_Inr [simp]: "text_field m v mx b = Inr s \<longleftrightarrow> v = PStr s \<and> text_ok mx b s"
  by (auto simp: text_field_def split: pyval.splits)

lemma text_ok_nonblank: "text_ok mx False s \<Longrightarrow> s \<noteq> [] \<and> strip s \<noteq> []"
  by (auto simp: text_ok_def)

lemma price_controls_Inr:
  "price_controls d s = Inr (x, y) \<longleftrightarrow> direction_of d = Some x \<and> source_of s = Some y"
  by (auto simp: price_controls_def split: option.splits)

lemma market_id_text_normal: "lower (strip (market_id_text d)) = market_id_text d"
  by (auto simp: market_id_text_def)

lemma price_alert_from_dict_ok:
  "price_alert_from_dict uid now d = Inr a \<Longrightarrow> price_alert_ok a"
  unfolding price_alert_from_dict_def
  by (elim rbind_pair_InrE rbind_InrE, simp only: sum.inject, hypsubst)
    (auto simp: price_alert_ok_def alert_probability_Inr market_id_text_normal rbind_eq_Inr split: if_splits)

lemma price_alert_keys: "keys (price_alert_to_dict a) = price_alert_fields"
  by (simp add: price_alert_to_dict_def price_alert_fields_def)

lemma price_alert_roundtrip:
  assumes "price_alert_ok a"
  shows "price_alert_from_dict uid now (price_alert_to_dict a) = Inr a"
proof -
  note ok = assms[unfolded price_alert_ok_def]
  have m: "market_id_text (price_alert_to_dict a) = pa_market_id a"
    using ok text_ok_nonblank[of 256 "pa_market_id a"] by (simp add: market_id_text_def price_alert_to_dict_def)
  have args: "dataclass_args ''PriceAlert'' price_alert_fields [''token_id'', ''label'', ''direction'']
      (price_alert_to_dict a) = Inr ()"
    by (simp only: dataclass_args_Inr price_alert_keys) (simp add: price_alert_fields_def)
  show ?thesis
    using ok unfolding price_alert_from_dict_def m args
    by (simp add: price_alert_to_dict_def config_bool_def opt_float_def text_field_def price_controls_def
        split: option.splits)
qed

section \<open>Alert events\<close>

lemma event_price_Inr: "event_price v k = Inr w \<longleftrightarrow> w = v \<and> event_price_ok v"
  by (auto simp: event_price_def event_price_ok_def rbind_eq_Inr alert_probability_Inr split: sum.splits)

lemma event_time_Inr: "event_time v = Inr n \<longleftrightarrow> v = PInt n \<and> 0 \<le> n"
  by (auto simp: event_time_def split: pyval.splits)

lemma event_controls_Inr:
  "event_controls d s = Inr (x, y) \<longleftrightarrow> direction_of d = Some x \<and> source_of s = Some y"
  by (auto simp: event_controls_def split: option.splits)

lemma alert_event_from_dict_ok: "alert_event_from_dict d = Inr e \<Longrightarrow> alert_event_ok e"
  unfolding alert_event_from_dict_def
  by (elim rbind_pair_InrE rbind_InrE) (auto simp: alert_event_ok_def event_price_Inr event_time_Inr)

lemma alert_event_keys: "keys (alert_event_to_dict e) = alert_event_fields"
  by (simp add: alert_event_to_dict_def alert_event_fields_def)

lemma alert_event_roundtrip:
  assumes "alert_event_ok e"
  shows "alert_event_from_dict (alert_event_to_dict e) = Inr e"
proof -
  note ok = assms[unfolded alert_event_ok_def]
  have k: "require (set (keys (alert_event_to_dict e)) = set alert_event_fields) x = Inr ()" for x
    by (simp add: alert_event_keys)
  have p: "event_price (ae_threshold e) k = Inr (ae_threshold e)" "event_price (ae_value e) k = Inr (ae_value e)" for k
    using ok by (simp_all add: event_price_Inr)
  have t: "event_time (PInt (ae_created_at e)) = Inr (ae_created_at e)"
    "event_time (PInt (ae_acknowledged_at e)) = Inr (ae_acknowledged_at e)"
    using ok by (auto simp: event_time_Inr)
  show ?thesis
    using ok unfolding alert_event_from_dict_def k
    by (auto simp: alert_event_to_dict_def text_field_def event_controls_def p t require_def)
qed

text \<open>The dictionary of an event is accepted exactly when the event is well formed.\<close>

lemma alert_event_accepts: "alert_event_from_dict (alert_event_to_dict e) = Inr e' \<longleftrightarrow> e' = e \<and> alert_event_ok e"
proof
  assume *: "alert_event_from_dict (alert_event_to_dict e) = Inr e'"
  then have "e' = e"
    unfolding alert_event_from_dict_def
    by (elim rbind_pair_InrE rbind_InrE)
      (clarsimp simp: event_price_Inr event_time_Inr event_controls_Inr alert_event_to_dict_def)
  with * alert_event_from_dict_ok show "e' = e \<and> alert_event_ok e" by blast
qed (simp add: alert_event_roundtrip)

section \<open>Paper trades\<close>

lemma opt_price_opt_float [simp]: "opt_price (opt_float x) = Inr x"
  by (cases x) (simp_all add: opt_price_def opt_float_def)

lemma paper_quote_currency_Inr:
  "paper_quote_currency v = Inr x \<Longrightarrow> case x of None \<Rightarrow> True | Some s \<Rightarrow> s \<in> {''USD'', ''USDC'', ''USDT'', ''pUSD''}"
  by (auto simp: paper_quote_currency_def split: pyval.splits if_splits)

lemma paper_trade_from_dict_ok: "paper_trade_from_dict uid now d = Inr t \<Longrightarrow> pt_market_id t \<noteq> [] \<Longrightarrow> paper_trade_ok t"
  unfolding paper_trade_from_dict_def
  by (elim rbind_InrE, simp only: sum.inject, hypsubst)
    (simp add: paper_trade_ok_def market_id_text_normal paper_quote_currency_Inr)

lemma paper_trade_roundtrip:
  assumes "paper_trade_ok t"
  shows "paper_trade_from_dict uid now (paper_trade_to_dict t) = Inr t"
proof -
  note ok = assms[unfolded paper_trade_ok_def]
  have m: "market_id_text (paper_trade_to_dict t) = pt_market_id t"
    using ok by (simp add: market_id_text_def paper_trade_to_dict_def)
  have args: "dataclass_args ''PaperTradeRecord'' paper_trade_fields [] (paper_trade_to_dict t) = Inr ()"
    by (simp add: dataclass_args_Inr paper_trade_to_dict_def paper_trade_fields_def)
  have f: "py_float (py_or (PFloat x) (PFloat (Fin 0))) = Inr x" for x
    by (simp add: py_or_def)
  have s: "py_str (py_or (PStr x) (PStr [])) = x" for x
    by (simp add: py_or_def)
  have q: "paper_quote_currency (opt_str (pt_quote_currency t)) = Inr (pt_quote_currency t)"
    using ok by (auto simp: paper_quote_currency_def opt_str_def split: option.splits)
  show ?thesis
    using ok unfolding paper_trade_from_dict_def m args
    by (simp add: paper_trade_to_dict_def f s q config_bool_def text_or_empty_def)
qed

end
