(* ===== verification/Models_Config_Laws.thy ===== *)
theory Models_Config_Laws
  imports Models_Config Models_Laws
begin

text \<open>
  What the operations on the configuration promise. Both histories are instances of one
  discipline, stated once as the locale \<open>eviction\<close>: a bounded log that makes room only by
  dropping entries its policy allows to drop, oldest first.
\<close>

section \<open>Bounded logs\<close>

text \<open>\<open>evict n\<close> of a log drops the \<open>n\<close> oldest droppable entries and keeps the order of the rest.
  The client supplies the identity, the age and the policy.\<close>

locale eviction =
  fixes ident :: "'e \<Rightarrow> 'i" and age :: "'e \<Rightarrow> 'a :: linorder" and droppable :: "'e \<Rightarrow> bool"
    and dropped :: "nat \<Rightarrow> 'e list \<Rightarrow> 'e list" and evict :: "nat \<Rightarrow> 'e list \<Rightarrow> 'e list"
  assumes dropped_eq: "dropped n xs = take n (sort_key age (filter droppable xs))"
    and evict_eq: "evict n xs = filter (\<lambda>e. ident e \<notin> ident ` set (dropped n xs)) xs"
begin

lemma dropped_droppable: "e \<in> set (dropped n xs) \<Longrightarrow> e \<in> set xs \<and> droppable e"
  unfolding dropped_eq by (auto dest!: in_set_takeD)

lemma keeps_undroppable:
  assumes "e \<in> set xs" "\<not> droppable e" "inj_on ident (set xs)"
  shows "e \<in> set (evict n xs)"
proof -
  have "ident e \<noteq> ident x" if "x \<in> set (dropped n xs)" for x
    using dropped_droppable[OF that] assms by (metis inj_onD)
  then show ?thesis using assms(1) by (auto simp: evict_eq)
qed

lemma evict_subset: "set (evict n xs) \<subseteq> set xs"
  by (auto simp: evict_eq)

lemma evict_eq_dropped:
  assumes "inj_on ident (set xs)"
  shows "set (evict n xs) = set xs - set (dropped n xs)"
  using dropped_droppable inj_onD[OF assms] by (fastforce simp: evict_eq)

lemma length_evict:
  assumes d: "distinct (map ident xs)" and n: "n \<le> length (filter droppable xs)"
  shows "length (evict n xs) + n = length xs"
proof -
  have i: "inj_on ident (set xs)" and dl: "distinct xs" using d by (auto simp: distinct_map)
  have dd: "distinct (dropped n xs)" using dl by (simp add: dropped_eq)
  have "card (set (evict n xs)) = card (set xs) - card (set (dropped n xs))"
    unfolding evict_eq_dropped[OF i] using dropped_droppable by (intro card_Diff_subset) auto
  moreover have "card (set (dropped n xs)) = n"
    using distinct_card[OF dd] n by (simp add: dropped_eq)
  moreover have "card (set (evict n xs)) = length (evict n xs)"
    using dl by (intro distinct_card) (simp add: evict_eq)
  moreover have "card (set xs) = length xs" using dl by (rule distinct_card)
  moreover have "n \<le> length xs" by (rule order_trans[OF n]) simp
  ultimately show ?thesis by simp
qed

text \<open>Only the oldest go: nothing that may be dropped and was kept is older than what went.\<close>

lemma drops_oldest:
  assumes "inj_on ident (set xs)" "e \<in> set (dropped n xs)" "k \<in> set (evict n xs)" "droppable k"
  shows "age e \<le> age k"
proof -
  let ?s = "sort_key age (filter droppable xs)"
  have k: "k \<in> set ?s" "k \<notin> set (take n ?s)"
    using assms evict_eq_dropped[OF assms(1), of n] evict_subset[of n xs] by (auto simp: dropped_eq)
  then have kd: "k \<in> set (drop n ?s)" by (metis Un_iff append_take_drop_id set_append)
  have "sorted (map age (take n ?s @ drop n ?s))" by simp
  then have "sorted (map age (take n ?s) @ map age (drop n ?s))" by (simp only: map_append)
  with kd assms(2) show ?thesis by (auto simp: sorted_append dropped_eq)
qed

end

section \<open>The notification history\<close>

definition events_dropped :: "nat \<Rightarrow> alert_event list \<Rightarrow> alert_event list" where
  "events_dropped n es = take n (sort_key (\<lambda>e. (ae_created_at e, ae_id e)) (filter (\<lambda>e. ae_acknowledged_at e \<noteq> 0) es))"

definition events_evict :: "nat \<Rightarrow> alert_event list \<Rightarrow> alert_event list" where
  "events_evict n es = filter (\<lambda>e. ae_id e \<notin> ae_id ` set (events_dropped n es)) es"

interpretation ev: eviction ae_id "\<lambda>e. (ae_created_at e, ae_id e)" "\<lambda>e. ae_acknowledged_at e \<noteq> 0" events_dropped events_evict
  by unfold_locales (simp_all add: events_dropped_def events_evict_def)

definition unacknowledged :: "app_config \<Rightarrow> alert_event list" where
  "unacknowledged cfg = filter (\<lambda>e. ae_acknowledged_at e = 0) (cf_alert_events cfg)"

text \<open>The excess over the capacity when \<open>n\<close> events arrive.\<close>

definition event_excess :: "nat \<Rightarrow> app_config \<Rightarrow> nat" where
  "event_excess n cfg = length (cf_alert_events cfg) + n - MAX_ALERT_EVENTS"

definition events_admissible :: "alert_event list \<Rightarrow> app_config \<Rightarrow> bool" where
  "events_admissible events cfg \<longleftrightarrow> list_all alert_event_ok events
     \<and> distinct (map ae_id (cf_alert_events cfg @ events))"

lemma validated_events:
  "rmap (\<lambda>e. alert_event_from_dict (alert_event_to_dict e)) events = Inr vs \<longleftrightarrow> vs = events \<and> list_all alert_event_ok events"
proof (induction events arbitrary: vs)
  case (Cons e es)
  then show ?case by (auto simp: rbind_eq_Inr alert_event_accepts)
qed auto

lemma length_acknowledged:
  "length (filter (\<lambda>e. ae_acknowledged_at e \<noteq> 0) es) + length (filter (\<lambda>e. ae_acknowledged_at e = 0) es) = length es"
  by (induction es) auto

lemma append_alert_events_cases:
  assumes "events \<noteq> []"
  shows "append_alert_events events cfg = Inr cfg' \<longleftrightarrow>
     events_admissible events cfg \<and> length (unacknowledged cfg) + length events \<le> MAX_ALERT_EVENTS
     \<and> cfg' = cfg\<lparr> cf_alert_events := events_evict (event_excess (length events) cfg) (cf_alert_events cfg) @ events \<rparr>"
proof -
  let ?old = "cf_alert_events cfg" and ?n = "event_excess (length events) cfg"
  have cap: "\<not> length (removable_events cfg) < length (?old @ events) - MAX_ALERT_EVENTS
      \<longleftrightarrow> length (unacknowledged cfg) + length events \<le> MAX_ALERT_EVENTS"
    using length_acknowledged[of ?old] by (auto simp: removable_events_def unacknowledged_def)
  have dr: "take ?n (removable_events cfg) = events_dropped ?n ?old"
    by (simp add: removable_events_def events_dropped_def)
  have keep: "filter (\<lambda>e. ae_id e \<notin> set (map ae_id (events_dropped ?n ?old))) (?old @ events)
      = events_evict ?n ?old @ events" if "distinct (map ae_id (?old @ events))"
  proof -
    have "ae_id e \<notin> ae_id ` set (events_dropped ?n ?old)" if e: "e \<in> set events" for e
      using \<open>distinct (map ae_id (?old @ events))\<close> e ev.dropped_droppable by fastforce
    then show ?thesis by (simp add: events_evict_def)
  qed
  show ?thesis
  proof (cases "list_all alert_event_ok events \<and> distinct (map ae_id (?old @ events))")
    case True
    then have v: "rmap (\<lambda>e. alert_event_from_dict (alert_event_to_dict e)) events = Inr events"
      by (simp add: validated_events)
    have u: "unique_record_fields ae_id (?old @ events) = Inr ()" using True by simp
    show ?thesis
      using assms True keep cap
      by (auto simp: append_alert_events_def v u Let_def events_admissible_def event_excess_def dr[unfolded event_excess_def]
          simp del: map_append filter_append set_map list.set_map)
  next
    case False
    then have "append_alert_events events cfg \<noteq> Inr cfg'"
      using assms by (auto simp: append_alert_events_def Let_def rbind_eq_Inr validated_events)
    with False show ?thesis by (auto simp: events_admissible_def)
  qed
qed

text \<open>The facts of a successful append that the properties collect.\<close>

lemma append_alert_events_bound:
  assumes "append_alert_events events cfg = Inr cfg'" "length (cf_alert_events cfg) \<le> MAX_ALERT_EVENTS"
    and "distinct (map ae_id (cf_alert_events cfg))"
  shows "length (cf_alert_events cfg') \<le> MAX_ALERT_EVENTS"
proof (cases "events = []")
  case True
  then show ?thesis using assms by (simp add: append_alert_events_def)
next
  case False
  let ?n = "event_excess (length events) cfg"
  have c: "length (unacknowledged cfg) + length events \<le> MAX_ALERT_EVENTS"
    "cfg' = cfg\<lparr> cf_alert_events := events_evict ?n (cf_alert_events cfg) @ events \<rparr>"
    using append_alert_events_cases[OF False] assms(1) by blast+
  have "?n \<le> length (filter (\<lambda>e. ae_acknowledged_at e \<noteq> 0) (cf_alert_events cfg))"
    using c(1) length_acknowledged[of "cf_alert_events cfg"] by (simp add: event_excess_def unacknowledged_def)
  from ev.length_evict[OF assms(3) this] c(2) show ?thesis by (simp add: event_excess_def)
qed

section \<open>The mutation journal\<close>

definition journal_age :: "journal_entry \<Rightarrow> int \<times> int \<times> string" where
  "journal_age e = (mj_updated_at e, mj_created_at e, mj_id e)"

definition journal_dropped :: "nat \<Rightarrow> journal_entry list \<Rightarrow> journal_entry list" where
  "journal_dropped n es = take n (sort_key journal_age (filter journal_removable es))"

definition journal_evict :: "nat \<Rightarrow> journal_entry list \<Rightarrow> journal_entry list" where
  "journal_evict n es = filter (\<lambda>e. mj_id e \<notin> mj_id ` set (journal_dropped n es)) es"

interpretation mj: eviction mj_id journal_age journal_removable journal_dropped journal_evict
  by unfold_locales (simp_all add: journal_dropped_def journal_evict_def)

lemma append_mutation_journal_cases:
  "append_mutation_journal entry cfg = Inr cfg' \<longleftrightarrow>
     (if length (cf_mutation_journal cfg) < MAX_MUTATION_JOURNAL_ENTRIES
      then cfg' = cfg\<lparr> cf_mutation_journal := cf_mutation_journal cfg @ [entry] \<rparr>
      else (\<exists>e \<in> set (cf_mutation_journal cfg). journal_removable e)
        \<and> cfg' = cfg\<lparr> cf_mutation_journal := journal_evict 1 (cf_mutation_journal cfg) @ [entry] \<rparr>)"
proof -
  let ?j = "cf_mutation_journal cfg"
  have s: "sort_key (\<lambda>e. (mj_updated_at e, mj_created_at e, mj_id e)) = sort_key journal_age"
    by (simp add: journal_age_def[abs_def])
  show ?thesis
  proof (cases "sort_key journal_age (filter journal_removable ?j)")
    case Nil
    then have "set (filter journal_removable ?j) = {}" by (metis empty_set set_sort)
    then show ?thesis using Nil by (auto simp: append_mutation_journal_def s Let_def)
  next
    case (Cons e es)
    then have "e \<in> set (filter journal_removable ?j)" by (metis list.set_intros(1) set_sort)
    moreover have "journal_evict 1 ?j = filter (\<lambda>x. mj_id x \<noteq> mj_id e) ?j"
      by (simp add: journal_evict_def journal_dropped_def Cons)
    ultimately show ?thesis using Cons by (auto simp: append_mutation_journal_def s Let_def)
  qed
qed

definition journal_ids_distinct :: "app_config \<Rightarrow> bool" where
  "journal_ids_distinct cfg \<longleftrightarrow> distinct (map mj_id (cf_mutation_journal cfg))"

lemma append_mutation_journal_keeps:
  assumes "append_mutation_journal entry cfg = Inr cfg'" "journal_ids_distinct cfg"
    and "e \<in> set (cf_mutation_journal cfg)" "\<not> journal_removable e"
  shows "e \<in> set (cf_mutation_journal cfg')"
  using assms mj.keeps_undroppable[of e "cf_mutation_journal cfg" 1]
  by (auto simp: append_mutation_journal_cases journal_ids_distinct_def distinct_map split: if_splits)

lemma append_mutation_journal_subset:
  assumes "append_mutation_journal entry cfg = Inr cfg'"
  shows "set (cf_mutation_journal cfg') \<subseteq> insert entry (set (cf_mutation_journal cfg))"
  using assms mj.evict_subset by (fastforce simp: append_mutation_journal_cases split: if_splits)

lemma append_mutation_journal_new:
  "append_mutation_journal entry cfg = Inr cfg' \<Longrightarrow> entry \<in> set (cf_mutation_journal cfg')"
  by (auto simp: append_mutation_journal_cases split: if_splits)

lemma append_mutation_journal_bound:
  assumes "append_mutation_journal entry cfg = Inr cfg'" "journal_ids_distinct cfg"
    and "length (cf_mutation_journal cfg) \<le> MAX_MUTATION_JOURNAL_ENTRIES"
  shows "length (cf_mutation_journal cfg') \<le> MAX_MUTATION_JOURNAL_ENTRIES"
proof (cases "length (cf_mutation_journal cfg) < MAX_MUTATION_JOURNAL_ENTRIES")
  case False
  then have r: "\<exists>e \<in> set (cf_mutation_journal cfg). journal_removable e"
    and c: "cf_mutation_journal cfg' = journal_evict 1 (cf_mutation_journal cfg) @ [entry]"
    using assms(1) by (auto simp: append_mutation_journal_cases)
  have "1 \<le> length (filter journal_removable (cf_mutation_journal cfg))"
    using r by (metis (mono_tags, lifting) One_nat_def Suc_leI filter_empty_conv length_greater_0_conv)
  from mj.length_evict[OF _ this] show ?thesis using assms(2,3) c by (simp add: journal_ids_distinct_def)
qed (use assms in \<open>auto simp: append_mutation_journal_cases\<close>)

lemma append_mutation_journal_distinct:
  assumes "append_mutation_journal entry cfg = Inr cfg'" "distinct (map f (cf_mutation_journal cfg))"
    and "f entry \<notin> f ` set (cf_mutation_journal cfg)"
  shows "distinct (map f (cf_mutation_journal cfg'))"
  using assms mj.evict_subset[of 1 "cf_mutation_journal cfg"]
  by (fastforce simp: append_mutation_journal_cases journal_evict_def distinct_map_filter split: if_splits)

section \<open>Reconciliation\<close>

lemma set_update_first_key:
  assumes "distinct (map k xs)" "x \<in> set xs"
  shows "set (update_first (\<lambda>y. k y = k x) f xs) = insert (f x) (set xs - {x})"
  using assms
proof (induction xs)
  case (Cons y xs)
  show ?case
  proof (cases "k y = k x")
    case True
    then have "y = x" using Cons.prems by (auto simp: image_iff)
    with Cons.prems show ?thesis by auto
  next
    case False
    then show ?thesis using Cons by auto
  qed
qed simp

lemma reconcile_ambiguous_mutation_cases:
  "reconcile_ambiguous_mutation i res resp now cfg = Inr (cfg', e') \<longleftrightarrow>
     (\<exists>e r. List.find (\<lambda>e. mj_id e = i) (cf_mutation_journal cfg) = Some e \<and> mj_live e
        \<and> mj_state e \<in> {Pending, Ambiguous} \<and> resolution_of res = Some r \<and> e' = resolve_mutation r resp now e
        \<and> cfg' = cfg\<lparr> cf_mutation_journal :=
             update_first (\<lambda>e. mj_id e = i) (resolve_mutation r resp now) (cf_mutation_journal cfg) \<rparr>)"
  by (auto simp: reconcile_ambiguous_mutation_def split: option.splits)

lemma resolve_mutation_fixed [simp]:
  "mj_id (resolve_mutation r resp now e) = mj_id e" "mj_key_hash (resolve_mutation r resp now e) = mj_key_hash e"
  "mj_live (resolve_mutation r resp now e) = mj_live e" "mj_request_hash (resolve_mutation r resp now e) = mj_request_hash e"
  "mj_path (resolve_mutation r resp now e) = mj_path e" "mj_method (resolve_mutation r resp now e) = mj_method e"
  "mj_created_at (resolve_mutation r resp now e) = mj_created_at e"
  by (cases r; simp)+

lemma resolve_mutation_state [simp]:
  "mj_state (resolve_mutation r resp now e) =
     (case r of ConfirmedDispatched \<Rightarrow> Completed | ConfirmedNotDispatched \<Rightarrow> Retryable | Discard \<Rightarrow> Rejected)"
  by (cases r) simp_all

lemma resolve_outbox_state [simp]:
  "co_state (resolve_outbox r now e) =
     (case r of ConfirmedDispatched \<Rightarrow> Completed | ConfirmedNotDispatched \<Rightarrow> Retryable | Discard \<Rightarrow> Rejected)"
  "co_id (resolve_outbox r now e) = co_id e" "co_dispatch (resolve_outbox r now e) = co_dispatch e"
  by (cases r; simp)+

end
