(* ===== verification/Web_Mutations.thy ===== *)
theory Web_Mutations
  imports Web_Idempotency Models_Config_Laws
begin

text \<open>
  The live mutation path of \<open>web_api.py\<close>: \<open>_prepare_general_idempotent_mutation\<close>,
  \<open>_commit_local_idempotent_mutation\<close>, \<open>_execute_live_order_management\<close> and the operator's
  reconciliation route. Before a live order operation reaches a venue adapter, a \<open>pending\<close> journal
  entry is committed to the configuration file; the adapter runs once behind that barrier and
  the entry then records the outcome.

  The handlers are functions of the loaded configuration. What the adapters of the registry
  offer and return is the environment: \<open>ops cfg m\<close> is the list of order operations the adapter
  of market \<open>m\<close> declares (or the exception of its construction), \<open>views cfg r\<close> the refreshed
  response of a replayed wallet poll, and an \<open>adapter_outcome\<close> what the adapter call did.
\<close>

section \<open>Preparation\<close>

type_synonym ops = "app_config \<Rightarrow> string \<Rightarrow> string list res"
type_synonym views = "app_config \<Rightarrow> obj \<Rightarrow> obj res"

record request =
  rq_method :: string
  rq_path :: string
  rq_payload :: obj
  rq_key :: string

definition route_market :: "string \<Rightarrow> string" where
  "route_market path = lower (strip (unquote (path_parts path ! 2)))"

definition route_operation :: "string \<Rightarrow> string" where
  "route_operation path = lower (strip (unquote (path_parts path ! 4)))"

text \<open>The checks on a live route before the journal is consulted.\<close>

definition live_route_checks :: "ops \<Rightarrow> app_config \<Rightarrow> request \<Rightarrow> unit res" where
  "live_route_checks ops cfg r =
     (let market_id = route_market (rq_path r); operation = route_operation (rq_path r) in
      if market_id = ''kalshi'' \<and> operation = ''decrease_order'' \<and> \<not> is_blank (oget (rq_payload r) ''reduce_by'')
      then value_error ''Kalshi reduce_by is disabled through the web API because stale quantities can over-reduce a live order; use an explicit reduce_to value.''
      else rbind (require_market_enabled cfg market_id ''order management'') (\<lambda>_.
        rbind (ops cfg market_id) (\<lambda>declared.
        let supported = map (\<lambda>v. lower (strip v)) declared in
        require (operation \<in> set supported) (Exc UnsupportedFeatureError
          (market_id @ '' does not support order-management operation '' @ (if operation = [] then ''<empty>'' else operation)
           @ ''. Supported operations: '' @ (if supported = [] then ''none'' else join '', '' supported) @ ''.'')))))"

definition alert_events_payload :: "app_config \<Rightarrow> obj" where
  "alert_events_payload cfg = [
     (''events'', PList (map (PDict \<circ> alert_event_to_dict)
        (rev (sort_key (\<lambda>e. (ae_created_at e, ae_id e)) (rev (cf_alert_events cfg)))))),
     (''counts'', PDict [(''total'', PInt (int (length (cf_alert_events cfg)))),
        (''unacknowledged'', PInt (int (length (filter (\<lambda>e. ae_acknowledged_at e = 0) (cf_alert_events cfg)))))]),
     (''capacity'', PInt (int MAX_ALERT_EVENTS))]"

definition replayed_response :: "views \<Rightarrow> app_config \<Rightarrow> request \<Rightarrow> journal_entry \<Rightarrow> obj res" where
  "replayed_response views cfg r e =
     (if rq_method r = ''POST'' \<and> rq_path r = ''/api/alerts''
      then Inr (dset ''event_history'' (PDict (alert_events_payload cfg)) (mj_response e))
      else if rq_method r = ''POST'' \<and> rq_path r = ''/api/wallets/poll'' then views cfg (mj_response e)
      else Inr (mj_response e))"

definition retry_started :: "int \<Rightarrow> journal_entry \<Rightarrow> journal_entry" where
  "retry_started now e = e\<lparr> mj_state := Pending, mj_updated_at := now, mj_replay_authorized_at := 0,
     mj_outcome_code := ''manual_retry_started'', mj_outcome_message := ''The operator-authorized retry is in progress.'' \<rparr>"

text \<open>A reply is a status and a body.\<close>

type_synonym reply = "int \<times> obj"

definition unresolved_reply :: "journal_entry \<Rightarrow> reply" where
  "unresolved_reply e = (503, api_error_payload 503
     (if mj_live e then ''live_mutation_reconciliation_required'' else ''mutation_reconciliation_required'')
     (if mj_live e then ''The previous live dispatch outcome is unresolved; inspect venue history and reconcile it before retrying.''
      else ''The previous durable mutation outcome is unresolved and cannot be run again automatically.'')
     [(''mutation_id'', PStr (mj_id e)), (''state'', PStr (state_str (mj_state e))),
      (''reconciliation_route'', if mj_live e then PStr ''/api/mutations/reconcile'' else PNone)])"

definition rejected_reply :: "journal_entry \<Rightarrow> reply" where
  "rejected_reply e =
     (if mj_outcome_code e = ''pre_dispatch_validation_failed'' \<and> mj_response_status e \<noteq> 0
      then (mj_response_status e, mj_response e)
      else (409, api_error_payload 409 ''mutation_rejected_after_reconciliation''
        ''The reconciled mutation was discarded and cannot be retried with this Idempotency-Key.''
        [(''mutation_id'', PStr (mj_id e)), (''state'', PStr (state_str (mj_state e)))]))"

text \<open>\<open>Replied\<close>: the request is answered from the journal. \<open>Barrier\<close>: the configuration holds a
  pending entry that must be saved before the adapter may run. \<open>Proceed\<close>: a local mutation with
  an entry that is committed together with its effect.\<close>

datatype prepared = Replied reply | Barrier app_config journal_entry | Proceed journal_entry

definition prepare_existing :: "views \<Rightarrow> int \<Rightarrow> app_config \<Rightarrow> request \<Rightarrow> journal_entry \<Rightarrow> prepared res" where
  "prepare_existing views now cfg r e =
     rbind (assert_mutation_request_matches e (rq_method r) (rq_path r) (rq_payload r)) (\<lambda>_.
     if mj_state e = Completed then
       rbind (replayed_response views cfg r e) (\<lambda>response.
         Inr (Replied (if mj_response_status e = 0 then 200 else mj_response_status e, response)))
     else if mj_state e = Rejected then Inr (Replied (rejected_reply e))
     else if is_live_order_management_route (rq_method r) (rq_path r) \<and> mj_state e = Retryable \<and> mj_replay_authorized_at e \<noteq> 0
     then Inr (Barrier (cfg\<lparr> cf_mutation_journal := update_first (\<lambda>x. mj_key_hash x = mj_key_hash e) (retry_started now)
               (cf_mutation_journal cfg) \<rparr>) (retry_started now e))
     else Inr (Replied (unresolved_reply e)))"

definition prepare_new :: "string \<Rightarrow> int \<Rightarrow> app_config \<Rightarrow> request \<Rightarrow> prepared res" where
  "prepare_new uid now cfg r =
     (let live = is_live_order_management_route (rq_method r) (rq_path r) in
      rbind (new_mutation_journal_entry uid now (rq_key r) (rq_method r) (rq_path r) (rq_payload r) live) (\<lambda>e.
      if live then rbind (append_mutation_journal e cfg) (\<lambda>cfg'. Inr (Barrier cfg' e)) else Inr (Proceed e)))"

definition prepare_mutation :: "ops \<Rightarrow> views \<Rightarrow> string \<Rightarrow> int \<Rightarrow> app_config \<Rightarrow> request \<Rightarrow> prepared res" where
  "prepare_mutation ops views uid now cfg r =
     rbind (if is_live_order_management_route (rq_method r) (rq_path r) then live_route_checks ops cfg r else Inr ()) (\<lambda>_.
     case find_journal_entry cfg (rq_key r) of
       Some e \<Rightarrow> prepare_existing views now cfg r e
     | None \<Rightarrow> prepare_new uid now cfg r)"

section \<open>Completion\<close>

definition committed_entry :: "int \<Rightarrow> int \<Rightarrow> obj \<Rightarrow> bool \<Rightarrow> journal_entry \<Rightarrow> journal_entry" where
  "committed_entry now status response preserve_shape e = e\<lparr> mj_state := Completed, mj_response_status := status,
     mj_response := stored_mutation_result response preserve_shape None, mj_outcome_code := ''committed'',
     mj_outcome_message := ''The local mutation and replay result were committed atomically.'', mj_updated_at := now \<rparr>"

text \<open>\<open>_commit_local_idempotent_mutation\<close> up to its save: \<open>cfg\<close> already holds the local effect.\<close>

definition commit_local :: "int \<Rightarrow> int \<Rightarrow> obj \<Rightarrow> bool \<Rightarrow> app_config \<Rightarrow> journal_entry \<Rightarrow> app_config res" where
  "commit_local now status response preserve_shape cfg e =
     append_mutation_journal (committed_entry now status response preserve_shape e) cfg"

text \<open>What the adapter call did: a result, one of the two exception types that the adapters raise
  before their transport call, or any other exception.\<close>

datatype adapter_outcome = Returned obj | PreDispatchError string | UnknownError

definition rejection_payload :: "string \<Rightarrow> string \<Rightarrow> obj" where
  "rejection_payload msg entry_id = api_error_payload 400 ''validation_error'' msg
     [(''mutation_id'', PStr entry_id), (''state'', PStr ''rejected'')]"

fun finished_entry :: "adapter_outcome \<Rightarrow> int \<Rightarrow> journal_entry \<Rightarrow> journal_entry" where
  "finished_entry (Returned result) now e = e\<lparr> mj_state := Completed, mj_response_status := 200,
     mj_response := stored_mutation_result result False None, mj_outcome_code := ''live_dispatch_completed'',
     mj_outcome_message := ''The live mutation result was durably recorded.'', mj_updated_at := now \<rparr>"
| "finished_entry (PreDispatchError msg) now e = e\<lparr> mj_state := Rejected, mj_response_status := 400,
     mj_response := rejection_payload msg (mj_id e), mj_outcome_code := ''pre_dispatch_validation_failed'',
     mj_outcome_message := ''Local validation failed before the live adapter was dispatched.'', mj_updated_at := now \<rparr>"
| "finished_entry UnknownError now e = e\<lparr> mj_state := Ambiguous, mj_response_status := 503, mj_response := [],
     mj_outcome_code := ''live_dispatch_outcome_unknown'',
     mj_outcome_message := ''The live adapter returned without a provable non-dispatch outcome; venue reconciliation is required.'',
     mj_updated_at := now \<rparr>"

text \<open>The entry is an object inside the loaded configuration, so updating it updates the journal.\<close>

definition finished_config :: "adapter_outcome \<Rightarrow> int \<Rightarrow> app_config \<Rightarrow> journal_entry \<Rightarrow> app_config" where
  "finished_config out now cfg e = cfg\<lparr> cf_mutation_journal :=
     update_first (\<lambda>x. mj_id x = mj_id e) (finished_entry out now) (cf_mutation_journal cfg) \<rparr>"

definition uncertain_reply :: "string \<Rightarrow> journal_entry \<Rightarrow> reply" where
  "uncertain_reply msg e = (503, api_error_payload 503 ''live_mutation_durability_uncertain'' msg
     [(''mutation_id'', PStr (mj_id e)), (''state'', PStr ''pending''), (''reconciliation_route'', PStr ''/api/mutations/reconcile'')])"

text \<open>The reply to the client; \<open>saved\<close> says whether the save of the outcome returned normally.\<close>

fun finished_reply :: "adapter_outcome \<Rightarrow> bool \<Rightarrow> journal_entry \<Rightarrow> reply" where
  "finished_reply (Returned result) saved e =
     (if saved then (200, stored_mutation_result result False None)
      else uncertain_reply ''The venue returned a result, but its replay record was not durably committed. Reconcile before retrying.'' e)"
| "finished_reply (PreDispatchError msg) saved e =
     (if saved then (400, rejection_payload msg (mj_id e))
      else uncertain_reply ''Local validation failed, but its replay disposition was not durably committed. Reconcile before retrying.'' e)"
| "finished_reply UnknownError saved e = (503, api_error_payload 503 ''live_mutation_outcome_ambiguous''
     ''The live mutation may have reached the venue. It will not be retried automatically; reconcile venue history first.''
     [(''mutation_id'', PStr (mj_id e)), (''state'', PStr ''ambiguous''), (''reconciliation_route'', PStr ''/api/mutations/reconcile'')])"

section \<open>Reconciliation route\<close>

definition RECONCILIATION_CONFIRMATION :: string where
  "RECONCILIATION_CONFIRMATION = ''I_VERIFIED_VENUE_ORDER_HISTORY''"

definition reconcile_route :: "obj \<Rightarrow> int \<Rightarrow> app_config \<Rightarrow> (app_config \<times> journal_entry) res" where
  "reconcile_route payload now cfg =
     (if strip (text_or_empty payload ''confirm_reconciliation'') \<noteq> RECONCILIATION_CONFIRMATION
      then value_error ''Live mutation reconciliation requires exact confirmation text I_VERIFIED_VENUE_ORDER_HISTORY.''
      else rbind (case oget payload ''response'' of
             PNone \<Rightarrow> Inr None
           | PDict d \<Rightarrow> Inr (Some (stored_mutation_result d False None))
           | _ \<Rightarrow> value_error ''response must be a JSON object when supplied.'') (\<lambda>response.
         reconcile_ambiguous_mutation (text_or_empty payload ''mutation_id'')
           (PStr (text_or_empty payload ''resolution'')) response now cfg))"

end
