(* ===== verification/Web_Dispatch.thy ===== *)
theory Web_Dispatch
  imports Web_Mutations
begin

text \<open>
  Live dispatch under crashes, failed saves and concurrent writers. Any number of handlers share
  one configuration file; each loads it, prepares, saves the barrier, calls the adapter and saves
  the outcome. A save compares the file with the content the handler last loaded or saved and
  replaces it only if they agree (\<open>core/storage.py\<close>); it may also commit and then raise, and the
  process may stop between any two steps. The operator may reconcile at any time and other
  programs may change everything in the file except the journal.

  The relation keeps three logs that the program does not have: adapter calls, operator
  authorizations of a retry, and evictions of resolved entries, each by key hash. The invariant
  bounds the calls by the other two.
\<close>

section \<open>The system\<close>

datatype phase =
    Idle
  | Loaded app_config request
  | Armed app_config journal_entry
  | Called app_config journal_entry adapter_outcome

record system =
  sy_disk :: app_config
  sy_procs :: "phase list"
  sy_calls :: "string list"
  sy_authorised :: "string list"
  sy_evicted :: "string list"

abbreviation journal :: "app_config \<Rightarrow> journal_entry list" where
  "journal \<equiv> cf_mutation_journal"

definition dropped_keys :: "app_config \<Rightarrow> app_config \<Rightarrow> string list" where
  "dropped_keys old new = filter (\<lambda>k. k \<notin> mj_key_hash ` set (journal new)) (map mj_key_hash (journal old))"

definition set_phase :: "nat \<Rightarrow> phase \<Rightarrow> system \<Rightarrow> system" where
  "set_phase p ph s = s\<lparr> sy_procs := (sy_procs s)[p := ph] \<rparr>"

text \<open>A committed save of a handler: the file holds what it loaded or saved last.\<close>

definition commit :: "app_config \<Rightarrow> system \<Rightarrow> system" where
  "commit cfg s = s\<lparr> sy_disk := cfg, sy_evicted := sy_evicted s @ dropped_keys (sy_disk s) cfg \<rparr>"

inductive sys_step :: "ops \<Rightarrow> views \<Rightarrow> system \<Rightarrow> system \<Rightarrow> bool" for ops views where
  load: "p < length (sy_procs s) \<Longrightarrow> sy_procs s ! p = Idle \<Longrightarrow> is_general_durable_mutation (rq_method r) (rq_path r)
     \<Longrightarrow> sys_step ops views s (set_phase p (Loaded (sy_disk s) r) s)"
| barrier: "p < length (sy_procs s) \<Longrightarrow> sy_procs s ! p = Loaded base r
     \<Longrightarrow> uid \<notin> mj_id ` set (journal base)
     \<Longrightarrow> prepare_mutation ops views uid now base r = Inr (Barrier cfg e) \<Longrightarrow> sy_disk s = base
     \<Longrightarrow> ph = Armed cfg e \<or> ph = Idle
     \<Longrightarrow> sys_step ops views s (set_phase p ph (commit cfg s))"
| local: "p < length (sy_procs s) \<Longrightarrow> sy_procs s ! p = Loaded base r
     \<Longrightarrow> uid \<notin> mj_id ` set (journal base)
     \<Longrightarrow> prepare_mutation ops views uid now base r = Inr (Proceed e) \<Longrightarrow> sy_disk s = base
     \<Longrightarrow> journal changed = journal base \<Longrightarrow> commit_local now' status response shape changed e = Inr cfg
     \<Longrightarrow> sys_step ops views s (set_phase p Idle (commit cfg s))"
| call: "p < length (sy_procs s) \<Longrightarrow> sy_procs s ! p = Armed cfg e
     \<Longrightarrow> sys_step ops views s (set_phase p (Called cfg e out) (s\<lparr> sy_calls := sy_calls s @ [mj_key_hash e] \<rparr>))"
| finish: "p < length (sy_procs s) \<Longrightarrow> sy_procs s ! p = Called cfg e out \<Longrightarrow> sy_disk s = cfg
     \<Longrightarrow> sys_step ops views s (set_phase p Idle (commit (finished_config out now cfg e) s))"
| abandon: "p < length (sy_procs s) \<Longrightarrow> sys_step ops views s (set_phase p Idle s)"
| reconcile: "reconcile_route payload now (sy_disk s) = Inr (cfg, e)
     \<Longrightarrow> sys_step ops views s ((commit cfg s)\<lparr> sy_authorised := sy_authorised s @
           (if mj_state e = Retryable then [mj_key_hash e] else []) \<rparr>)"
| external: "journal cfg = journal (sy_disk s) \<Longrightarrow> sys_step ops views s (s\<lparr> sy_disk := cfg \<rparr>)"

inductive sys_reach :: "ops \<Rightarrow> views \<Rightarrow> system \<Rightarrow> bool" for ops views where
  start: "distinct (map mj_id (journal d)) \<Longrightarrow> distinct (map mj_key_hash (journal d))
     \<Longrightarrow> sys_reach ops views \<lparr> sy_disk = d, sy_procs = replicate n Idle, sy_calls = [], sy_authorised = [], sy_evicted = [] \<rparr>"
| step: "sys_reach ops views s \<Longrightarrow> sys_step ops views s t \<Longrightarrow> sys_reach ops views t"

inductive_cases sys_stepE: "sys_step ops views s t"

section \<open>Counting\<close>

definition armed_for :: "string \<Rightarrow> phase \<Rightarrow> bool" where
  "armed_for k ph = (case ph of Armed cfg e \<Rightarrow> mj_key_hash e = k | _ \<Rightarrow> False)"

definition armed :: "string \<Rightarrow> system \<Rightarrow> nat" where
  "armed k s = length (filter (armed_for k) (sy_procs s))"

definition authorised_entry :: "string \<Rightarrow> journal_entry \<Rightarrow> bool" where
  "authorised_entry k e \<longleftrightarrow> mj_key_hash e = k \<and> mj_state e = Retryable \<and> mj_replay_authorized_at e \<noteq> 0"

definition permit :: "string \<Rightarrow> app_config \<Rightarrow> nat" where
  "permit k cfg = (if \<exists>e \<in> set (journal cfg). authorised_entry k e then 1 else 0)"

definition present :: "string \<Rightarrow> app_config \<Rightarrow> nat" where
  "present k cfg = (if k \<in> mj_key_hash ` set (journal cfg) then 1 else 0)"

abbreviation keys_distinct :: "app_config \<Rightarrow> bool" where
  "keys_distinct cfg \<equiv> distinct (map mj_id (journal cfg)) \<and> distinct (map mj_key_hash (journal cfg))"

definition dispatch_bound :: "string \<Rightarrow> system \<Rightarrow> bool" where
  "dispatch_bound k s \<longleftrightarrow>
     count_list (sy_calls s) k + armed k s + permit k (sy_disk s)
       \<le> present k (sy_disk s) + count_list (sy_evicted s) k + count_list (sy_authorised s) k"

definition dispatch_inv :: "system \<Rightarrow> bool" where
  "dispatch_inv s \<longleftrightarrow> keys_distinct (sy_disk s) \<and> (\<forall>k. dispatch_bound k s)"

lemma filter_list_update:
  assumes "p < length xs"
  shows "length (filter P (xs[p := y])) + (if P (xs ! p) then 1 else 0)
     = length (filter P xs) + (if P y then 1 else 0)"
proof -
  have x: "xs = take p xs @ xs ! p # drop (Suc p) xs" by (rule id_take_nth_drop[OF assms])
  have "filter P xs = filter P (take p xs) @ filter P (xs ! p # drop (Suc p) xs)"
    by (subst x) (rule filter_append)
  then show ?thesis by (simp add: upd_conv_take_nth_drop[OF assms])
qed

lemma armed_set_phase:
  "p < length (sy_procs s) \<Longrightarrow> armed k (set_phase p ph s) + (if armed_for k (sy_procs s ! p) then 1 else 0)
     = armed k s + (if armed_for k ph then 1 else 0)"
  by (simp add: armed_def set_phase_def filter_list_update)

lemma armed_for_simps [simp]:
  "\<not> armed_for k Idle" "\<not> armed_for k (Loaded b r)" "\<not> armed_for k (Called c e out)"
  "armed_for k (Armed c e) \<longleftrightarrow> mj_key_hash e = k"
  by (simp_all add: armed_for_def)

lemma commit_simps [simp]:
  "sy_disk (commit cfg s) = cfg" "sy_procs (commit cfg s) = sy_procs s" "sy_calls (commit cfg s) = sy_calls s"
  "sy_authorised (commit cfg s) = sy_authorised s" "armed k (commit cfg s) = armed k s"
  by (simp_all add: commit_def armed_def)

lemma set_phase_simps [simp]:
  "sy_disk (set_phase p ph s) = sy_disk s" "sy_calls (set_phase p ph s) = sy_calls s"
  "sy_authorised (set_phase p ph s) = sy_authorised s" "sy_evicted (set_phase p ph s) = sy_evicted s"
  by (simp_all add: set_phase_def)

text \<open>A commit accounts for every key that leaves the journal.\<close>

lemma present_commit:
  assumes "keys_distinct (sy_disk s)"
  shows "present k (sy_disk s) + count_list (sy_evicted s) k
     \<le> present k cfg + count_list (sy_evicted (commit cfg s)) k"
proof (cases "k \<in> mj_key_hash ` set (journal (sy_disk s)) \<and> k \<notin> mj_key_hash ` set (journal cfg)")
  case True
  then have "k \<in> set (dropped_keys (sy_disk s) cfg)" by (auto simp: dropped_keys_def)
  then have "1 \<le> count_list (dropped_keys (sy_disk s) cfg) k" using count_list_0_iff[of "dropped_keys (sy_disk s) cfg" k] by linarith
  then show ?thesis by (simp add: present_def commit_def)
qed (auto simp: present_def commit_def)

section \<open>What preparation saves\<close>

lemma prepare_mutation_cases:
  assumes "prepare_mutation ops views uid now cfg r = Inr pr"
  obtains e where "find_journal_entry cfg (rq_key r) = Some e" "prepare_existing views now cfg r e = Inr pr"
  | "find_journal_entry cfg (rq_key r) = None" "prepare_new uid now cfg r = Inr pr"
  using assms unfolding prepare_mutation_def by (elim rbind_InrE) (auto split: option.splits)

lemma prepare_existing_Barrier:
  assumes "prepare_existing views now cfg r e = Inr (Barrier cfg' e')"
  shows "mj_state e = Retryable \<and> mj_replay_authorized_at e \<noteq> 0 \<and> e' = retry_started now e
     \<and> cfg' = cfg\<lparr> cf_mutation_journal := update_first (\<lambda>x. mj_key_hash x = mj_key_hash e) (retry_started now) (journal cfg) \<rparr>"
  using assms unfolding prepare_existing_def
  by (elim rbind_InrE) (auto simp: rbind_eq_Inr split: if_splits)

lemma prepare_existing_not_Proceed: "prepare_existing views now cfg r e \<noteq> Inr (Proceed e')"
  unfolding prepare_existing_def by (auto simp: rbind_eq_Inr split: if_splits)

lemma prepare_new_Barrier:
  assumes "prepare_new uid now cfg r = Inr (Barrier cfg' e)"
  shows "append_mutation_journal e cfg = Inr cfg' \<and> mj_key_hash e = mutation_key_hash (rq_key r) \<and> mj_id e = uid
     \<and> mj_state e = Pending"
  using assms unfolding prepare_new_def
  by (auto simp: rbind_eq_Inr Let_def dest!: new_mutation_journal_entry_Inr split: if_splits)

lemma prepare_new_Proceed:
  assumes "prepare_new uid now cfg r = Inr (Proceed e)"
  shows "mj_key_hash e = mutation_key_hash (rq_key r) \<and> mj_id e = uid \<and> mj_state e = Pending"
  using assms unfolding prepare_new_def
  by (auto simp: rbind_eq_Inr Let_def dest!: new_mutation_journal_entry_Inr split: if_splits)

section \<open>Effect on keys and permits\<close>

lemma update_first_keys:
  assumes "\<And>x. mj_key_hash (f x) = mj_key_hash x" "\<And>x. mj_id (f x) = mj_id x"
  shows "map mj_key_hash (update_first P f es) = map mj_key_hash es" "map mj_id (update_first P f es) = map mj_id es"
  by (rule map_update_first, rule assms)+

text \<open>An append: the new key enters, no permit appears.\<close>

lemma append_effect:
  assumes a: "append_mutation_journal e base = Inr cfg" and d: "keys_distinct base"
    and k: "mj_key_hash e \<notin> mj_key_hash ` set (journal base)" and i: "mj_id e \<notin> mj_id ` set (journal base)"
    and s: "mj_state e \<noteq> Retryable"
  shows "keys_distinct cfg" and "permit k' cfg \<le> permit k' base" and "present (mj_key_hash e) cfg = 1"
    and "present (mj_key_hash e) base = 0"
proof -
  show "keys_distinct cfg" using append_mutation_journal_distinct[OF a] d k i by blast
  show "permit k' cfg \<le> permit k' base"
    using append_mutation_journal_subset[OF a] s by (auto simp: permit_def authorised_entry_def)
  show "present (mj_key_hash e) cfg = 1" using append_mutation_journal_new[OF a] by (simp add: present_def)
  show "present (mj_key_hash e) base = 0" using k by (simp add: present_def)
qed

lemma update_first_distinct:
  assumes "distinct (map g es)" "\<And>x. g (f x) = g x" "x \<in> set (update_first (\<lambda>x. g x = K) f es)" "g x = K"
  shows "x \<in> f ` set es"
  using assms
proof (induction es)
  case (Cons e es)
  then show ?case by (cases "g e = K") force+
qed simp

lemma permit_update_le:
  assumes "\<And>x. \<not> authorised_entry k (f x)"
  shows "permit k (cfg\<lparr> cf_mutation_journal := update_first P f (journal cfg) \<rparr>) \<le> permit k cfg"
  using set_update_first[of P f "journal cfg"] assms by (auto simp: permit_def)

lemma retry_effect:
  fixes now :: int
  assumes "keys_distinct base" and e: "e \<in> set (journal base)" "mj_state e = Retryable" "mj_replay_authorized_at e \<noteq> 0"
  defines "cfg \<equiv> base\<lparr> cf_mutation_journal := update_first (\<lambda>x. mj_key_hash x = mj_key_hash e) (retry_started now) (journal base) \<rparr>"
  shows "keys_distinct cfg" "present k cfg = present k base" "permit k cfg \<le> permit k base"
    "permit (mj_key_hash e) base = 1" "permit (mj_key_hash e) cfg = 0"
proof -
  have f: "mj_key_hash (retry_started now x) = mj_key_hash x" "mj_id (retry_started now x) = mj_id x"
    "mj_state (retry_started now x) = Pending" for x by (simp_all add: retry_started_def)
  have keys: "map mj_key_hash (journal cfg) = map mj_key_hash (journal base)" "map mj_id (journal cfg) = map mj_id (journal base)"
    by (simp_all add: cfg_def update_first_keys f)
  then show "keys_distinct cfg" using assms(1) by simp
  show "present k cfg = present k base" using keys by (simp add: present_def flip: set_map)
  show "permit k cfg \<le> permit k base"
    unfolding cfg_def by (rule permit_update_le) (simp add: authorised_entry_def f)
  show "permit (mj_key_hash e) base = 1" using e by (auto simp: permit_def authorised_entry_def)
  have "mj_state x = Pending" if "x \<in> set (journal cfg)" "mj_key_hash x = mj_key_hash e" for x
    using update_first_distinct[of mj_key_hash "journal base" "retry_started now" x "mj_key_hash e"] that assms(1) f
    by (auto simp: cfg_def)
  then show "permit (mj_key_hash e) cfg = 0" by (force simp: permit_def authorised_entry_def)
qed

lemma finish_effect:
  fixes now :: int and out :: adapter_outcome and e :: journal_entry
  assumes "keys_distinct base"
  defines "cfg \<equiv> finished_config out now base e"
  shows "keys_distinct cfg" "present k cfg = present k base" "permit k cfg \<le> permit k base"
proof -
  have f: "mj_key_hash (finished_entry out now x) = mj_key_hash x" "mj_id (finished_entry out now x) = mj_id x"
    "mj_state (finished_entry out now x) \<noteq> Retryable" for x by (cases out; simp)+
  have keys: "map mj_key_hash (journal cfg) = map mj_key_hash (journal base)" "map mj_id (journal cfg) = map mj_id (journal base)"
    by (simp_all add: cfg_def finished_config_def update_first_keys f)
  then show "keys_distinct cfg" using assms(1) by simp
  show "present k cfg = present k base" using keys by (simp add: present_def flip: set_map)
  show "permit k cfg \<le> permit k base"
    unfolding cfg_def finished_config_def by (rule permit_update_le) (simp add: authorised_entry_def f)
qed

lemma reconcile_route_cases:
  assumes "reconcile_route payload now base = Inr (cfg, e')"
  obtains i e res resp where "List.find (\<lambda>e. mj_id e = i) (journal base) = Some e" "mj_live e"
    "mj_state e \<in> {Pending, Ambiguous}" "e' = resolve_mutation res resp now e"
    "cfg = base\<lparr> cf_mutation_journal := update_first (\<lambda>e. mj_id e = i) (resolve_mutation res resp now) (journal base) \<rparr>"
  using assms unfolding reconcile_route_def
  by (auto simp: rbind_eq_Inr reconcile_ambiguous_mutation_cases split: if_splits)

lemma reconcile_effect:
  assumes r: "reconcile_route payload now base = Inr (cfg, e')" and d: "keys_distinct base"
  shows "keys_distinct cfg" "present k cfg = present k base"
    "permit k cfg \<le> permit k base + (if mj_state e' = Retryable \<and> mj_key_hash e' = k then 1 else 0)"
proof -
  from r obtain i e res resp where f: "List.find (\<lambda>e. mj_id e = i) (journal base) = Some e"
    and e': "e' = resolve_mutation res resp now e"
    and cfg: "cfg = base\<lparr> cf_mutation_journal := update_first (\<lambda>e. mj_id e = i) (resolve_mutation res resp now) (journal base) \<rparr>"
    by (rule reconcile_route_cases)
  have keys: "map mj_key_hash (journal cfg) = map mj_key_hash (journal base)" "map mj_id (journal cfg) = map mj_id (journal base)"
    by (simp_all add: cfg update_first_keys)
  then show "keys_distinct cfg" using d by simp
  show "present k cfg = present k base" using keys by (simp add: present_def flip: set_map)
  have e: "e \<in> set (journal base)" "mj_id e = i" using find_SomeD[OF f] by auto
  show "permit k cfg \<le> permit k base + (if mj_state e' = Retryable \<and> mj_key_hash e' = k then 1 else 0)"
  proof (cases "\<exists>x \<in> set (journal cfg). authorised_entry k x")
    case True
    then obtain x where x: "x \<in> set (journal cfg)" "authorised_entry k x" by blast
    then consider "x \<in> set (journal base)" | y where "x = resolve_mutation res resp now y" "y \<in> set (journal base)" "mj_id y = i"
      using set_update_first[of "\<lambda>e. mj_id e = i" "resolve_mutation res resp now" "journal base"] by (auto simp: cfg)
    then show ?thesis
    proof cases
      case 1 with x show ?thesis by (auto simp: permit_def)
    next
      case 2
      then have "y = e" using d e by (metis distinct_map inj_onD)
      with 2 x e' show ?thesis by (auto simp: permit_def authorised_entry_def)
    qed
  qed (simp add: permit_def)
qed

section \<open>The invariant\<close>

lemma evicted_commit: "count_list (sy_evicted s) k \<le> count_list (sy_evicted (commit cfg s)) k"
  by (simp add: commit_def)

lemma dispatch_boundI:
  assumes "dispatch_bound k s" "sy_disk t = cfg" "sy_evicted t = sy_evicted (commit cfg s)"
    and "keys_distinct (sy_disk s)"
    and "count_list (sy_calls t) k + armed k t + permit k cfg
       \<le> count_list (sy_calls s) k + armed k s + permit k (sy_disk s) + x"
    and "count_list (sy_authorised t) k + (if present k (sy_disk s) = 0 \<and> present k cfg = 1 then 1 else 0)
       \<ge> count_list (sy_authorised s) k + x"
  shows "dispatch_bound k t"
  using assms present_commit[of s k cfg] evicted_commit[of s k cfg]
  by (auto simp: dispatch_bound_def split: if_splits)

lemma barrier_inv:
  assumes inv: "dispatch_inv s" and p: "p < length (sy_procs s)" "sy_procs s ! p = Loaded (sy_disk s) r"
    and uid: "uid \<notin> mj_id ` set (journal (sy_disk s))"
    and prep: "prepare_mutation ops views uid now (sy_disk s) r = Inr (Barrier cfg e)"
    and ph: "ph = Armed cfg e \<or> ph = Idle"
  shows "dispatch_inv (set_phase p ph (commit cfg s))"
proof -
  let ?base = "sy_disk s" and ?t = "set_phase p ph (commit cfg s)"
  have d: "keys_distinct ?base" and b: "dispatch_bound k s" for k using inv by (auto simp: dispatch_inv_def)
  have arm: "armed k ?t \<le> armed k s + (if k = mj_key_hash e then 1 else 0)" for k
    using armed_set_phase[of p "commit cfg s" k ph] p ph by (auto split: if_splits)
  have "keys_distinct cfg \<and> (\<forall>k. dispatch_bound k ?t)"
    using prep
  proof (cases rule: prepare_mutation_cases)
    case (1 e0)
    from prepare_existing_Barrier[OF 1(2)] find_journal_entry_Some[OF 1(1)]
    have e0: "e0 \<in> set (journal ?base)" "mj_state e0 = Retryable" "mj_replay_authorized_at e0 \<noteq> 0"
      and e: "e = retry_started now e0" and cfg: "cfg = ?base\<lparr> cf_mutation_journal :=
        update_first (\<lambda>x. mj_key_hash x = mj_key_hash e0) (retry_started now) (journal ?base) \<rparr>" by auto
    note eff = retry_effect(1,2,3,5)[OF d e0, where now = now, folded cfg] and was = retry_effect(4)[OF d e0]
    have ek: "mj_key_hash e = mj_key_hash e0" by (simp add: e retry_started_def)
    have "dispatch_bound k ?t" for k
      by (rule dispatch_boundI[OF b, where x = 0])
        (use eff(3)[of k] eff(4) was arm[of k] ek d in \<open>auto split: if_splits\<close>)
    with eff(1) show ?thesis by blast
  next
    case 2
    from prepare_new_Barrier[OF 2(2)] have a: "append_mutation_journal e ?base = Inr cfg"
      "mj_key_hash e = mutation_key_hash (rq_key r)" "mj_id e = uid" "mj_state e = Pending" by auto
    have k: "mj_key_hash e \<notin> mj_key_hash ` set (journal ?base)" using 2(1) a(2) by (simp add: find_journal_entry_None)
    note eff = append_effect[OF a(1) d k]
    have "dispatch_bound k ?t" for k
      by (rule dispatch_boundI[OF b, where x = "if k = mj_key_hash e then 1 else 0"])
        (use eff(2)[of k] eff(3,4) arm[of k] a uid d in \<open>auto split: if_splits\<close>)
    with eff(1) a uid show ?thesis by auto
  qed
  then show ?thesis by (simp add: dispatch_inv_def)
qed

lemma local_inv:
  assumes inv: "dispatch_inv s" and p: "p < length (sy_procs s)" "sy_procs s ! p = Loaded (sy_disk s) r"
    and uid: "uid \<notin> mj_id ` set (journal (sy_disk s))"
    and prep: "prepare_mutation ops views uid now (sy_disk s) r = Inr (Proceed e)"
    and j: "journal changed = journal (sy_disk s)" and c: "commit_local now' status response shape changed e = Inr cfg"
  shows "dispatch_inv (set_phase p Idle (commit cfg s))"
proof -
  let ?base = "sy_disk s" and ?t = "set_phase p Idle (commit cfg s)"
  let ?e = "committed_entry now' status response shape e"
  have d: "keys_distinct ?base" and b: "dispatch_bound k s" for k using inv by (auto simp: dispatch_inv_def)
  have "prepare_new uid now ?base r = Inr (Proceed e)" "find_journal_entry ?base (rq_key r) = None"
    using prep by (cases rule: prepare_mutation_cases; simp add: prepare_existing_not_Proceed)+
  then have e: "mj_key_hash ?e = mutation_key_hash (rq_key r)" "mj_id ?e = uid" "mj_state ?e \<noteq> Retryable"
    and k: "mj_key_hash ?e \<notin> mj_key_hash ` set (journal ?base)"
    using prepare_new_Proceed[of uid now ?base r e] by (auto simp: find_journal_entry_None committed_entry_def)
  have a: "append_mutation_journal ?e changed = Inr cfg" using c by (simp add: commit_local_def)
  have same: "permit k changed = permit k ?base" "present k changed = present k ?base" for k
    by (simp_all add: permit_def present_def j)
  note eff = append_effect[OF a, unfolded j same]
  have arm: "armed k ?t \<le> armed k s" for k
    using armed_set_phase[of p "commit cfg s" k Idle] p by simp
  have "dispatch_bound k ?t" for k
    by (rule dispatch_boundI[OF b, where x = 0]) (use eff(2)[OF d k, of k] e uid arm[of k] d in auto)
  with eff(1)[OF d k] e uid show ?thesis by (auto simp: dispatch_inv_def)
qed

theorem dispatch_inv_step:
  assumes "sys_step ops views s t" "dispatch_inv s"
  shows "dispatch_inv t"
proof -
  have d: "keys_distinct (sy_disk s)" and b: "dispatch_bound k s" for k using assms(2) by (auto simp: dispatch_inv_def)
  show ?thesis
    using assms(1)
  proof (cases rule: sys_step.cases)
    case (load p r)
    have "armed k t = armed k s" for k using armed_set_phase[of p s k "Loaded (sy_disk s) r"] load by simp
    with b d load show ?thesis by (simp add: dispatch_inv_def dispatch_bound_def)
  next
    case (barrier p base r uid now cfg e ph)
    with barrier_inv[OF assms(2), of p r uid ops views now cfg e ph] show ?thesis by simp
  next
    case (local p base r uid now e changed now' status response shape cfg)
    with local_inv[OF assms(2), of p r uid ops views now e changed now' status response shape cfg] show ?thesis by simp
  next
    case (call p cfg e out)
    let ?s = "s\<lparr> sy_calls := sy_calls s @ [mj_key_hash e] \<rparr>"
    have "armed k t + (if mj_key_hash e = k then 1 else 0) = armed k s" for k
      using armed_set_phase[of p ?s k "Called cfg e out"] call by (simp add: armed_def)
    then have "count_list (sy_calls t) k + armed k t = count_list (sy_calls s) k + armed k s" for k
      using call by (auto split: if_splits simp: eq_commute)
    moreover have "sy_disk t = sy_disk s" "sy_evicted t = sy_evicted s" "sy_authorised t = sy_authorised s"
      using call by simp_all
    ultimately have "dispatch_bound k t" for k using b[of k] by (simp add: dispatch_bound_def)
    with d call show ?thesis by (simp add: dispatch_inv_def)
  next
    case (finish p cfg e out now)
    let ?cfg = "finished_config out now cfg e"
    have eff: "keys_distinct ?cfg" "present k ?cfg = present k (sy_disk s)" "permit k ?cfg \<le> permit k (sy_disk s)" for k
      using finish_effect[OF d, where out = out and now = now and e = e] finish by auto
    have arm: "armed k t \<le> armed k s" for k
      using armed_set_phase[of p "commit ?cfg s" k Idle] finish by simp
    have "dispatch_bound k t" for k
      by (rule dispatch_boundI[OF b, where x = 0]) (use finish eff(3)[of k] arm[of k] d in auto)
    with eff(1) finish show ?thesis by (simp add: dispatch_inv_def)
  next
    case (abandon p)
    have arm: "armed k t \<le> armed k s" for k using armed_set_phase[of p s k Idle] abandon by simp
    have "dispatch_bound k t" for k
      using b[of k] arm[of k] abandon unfolding dispatch_bound_def by simp
    with d abandon show ?thesis by (simp add: dispatch_inv_def)
  next
    case (reconcile payload now cfg e)
    note eff = reconcile_effect[OF reconcile(2) d]
    have "dispatch_bound k t" for k
      by (rule dispatch_boundI[OF b, where x = "if mj_state e = Retryable \<and> mj_key_hash e = k then 1 else 0"])
        (use reconcile eff(3)[of k] d in \<open>auto simp: commit_def armed_def\<close>)
    with eff(1) reconcile show ?thesis by (simp add: dispatch_inv_def)
  next
    case (external cfg)
    then show ?thesis using b d by (simp add: dispatch_inv_def dispatch_bound_def permit_def present_def armed_def)
  qed
qed

lemma dispatch_inv_reach: "sys_reach ops views s \<Longrightarrow> dispatch_inv s"
proof (induction rule: sys_reach.induct)
  case (start d n)
  have "permit k d \<le> present k d" for k by (auto simp: permit_def present_def authorised_entry_def)
  then show ?case using start by (simp add: dispatch_inv_def dispatch_bound_def armed_def)
qed (rule dispatch_inv_step)

section \<open>Traces of a dispatch\<close>

text \<open>A key that was dispatched, authorised or armed is in the journal, or was there and was
  evicted after it was resolved.\<close>

definition concerned :: "string \<Rightarrow> system \<Rightarrow> bool" where
  "concerned k s \<longleftrightarrow> k \<in> set (sy_calls s) \<or> k \<in> set (sy_authorised s) \<or> (\<exists>ph \<in> set (sy_procs s). armed_for k ph)"

definition recorded :: "string \<Rightarrow> system \<Rightarrow> bool" where
  "recorded k s \<longleftrightarrow> present k (sy_disk s) = 1 \<or> k \<in> set (sy_evicted s)"

lemma recorded_commit: "recorded k s \<Longrightarrow> sy_disk t = cfg \<Longrightarrow> sy_evicted t = sy_evicted (commit cfg s) \<Longrightarrow> recorded k t"
  by (auto simp: recorded_def commit_def present_def dropped_keys_def split: if_splits)

lemma concerned_set_phase:
  "concerned k (set_phase p ph s) \<Longrightarrow> concerned k s \<or> armed_for k ph"
  by (auto simp: concerned_def set_phase_def dest!: subsetD[OF set_update_subset_insert])

lemma barrier_present:
  assumes "prepare_mutation ops views uid now base r = Inr (Barrier cfg e)"
  shows "present (mj_key_hash e) cfg = 1"
  using assms
proof (cases rule: prepare_mutation_cases)
  case (1 e0)
  from prepare_existing_Barrier[OF 1(2)] find_journal_entry_Some[OF 1(1)]
  have "mj_key_hash e \<in> set (map mj_key_hash (journal cfg))"
    by (auto simp: update_first_keys retry_started_def intro: rev_image_eqI)
  then show ?thesis by (simp add: present_def)
next
  case 2
  from prepare_new_Barrier[OF 2(2)] have "e \<in> set (journal cfg)"
    using append_mutation_journal_new by blast
  then show ?thesis by (simp add: present_def)
qed

lemma traced_step:
  assumes "sys_step ops views s t" "dispatch_inv s" "\<And>k. concerned k s \<Longrightarrow> recorded k s" "concerned k t"
  shows "recorded k t"
  using assms(1)
proof (cases rule: sys_step.cases)
  case (load p r)
  then show ?thesis using assms(3,4) concerned_set_phase[of k p "Loaded (sy_disk s) r" s] by (auto simp: recorded_def)
next
  case (barrier p base r uid now cfg e ph)
  have "concerned k s \<or> k = mj_key_hash e"
    using concerned_set_phase[of k p ph "commit cfg s"] assms(4) barrier by (auto simp: concerned_def)
  then show ?thesis
    using barrier_present[OF barrier(5)] recorded_commit[OF assms(3), of k t cfg] barrier(1)
    by (auto simp: recorded_def)
next
  case (local p base r uid now e changed now' status response shape cfg)
  have "concerned k s" using concerned_set_phase[of k p Idle "commit cfg s"] assms(4) local by (auto simp: concerned_def)
  then show ?thesis using recorded_commit[OF assms(3), of k t cfg] local(1) by simp
next
  case (call p cfg e out)
  have "Armed cfg e \<in> set (sy_procs s)" using call(2,3) nth_mem by metis
  then have "concerned (mj_key_hash e) s" by (auto simp: concerned_def intro: bexI[of _ "Armed cfg e"])
  moreover have "concerned k s \<or> k = mj_key_hash e"
    using concerned_set_phase[of k p "Called cfg e out" "s\<lparr> sy_calls := sy_calls s @ [mj_key_hash e] \<rparr>"] assms(4) call(1)
    by (auto simp: concerned_def)
  ultimately have "recorded k s" using assms(3) by blast
  then show ?thesis using call(1) by (simp add: recorded_def)
next
  case (finish p cfg e out now)
  have "concerned k s"
    using concerned_set_phase[of k p Idle "commit (finished_config out now cfg e) s"] assms(4) finish
    by (auto simp: concerned_def)
  then show ?thesis using recorded_commit[OF assms(3), of k t "finished_config out now cfg e"] finish(1) by simp
next
  case (abandon p)
  then show ?thesis using assms(3,4) concerned_set_phase[of k p Idle s] by (auto simp: recorded_def)
next
  case (reconcile payload now cfg e)
  have d: "keys_distinct (sy_disk s)" using assms(2) by (simp add: dispatch_inv_def)
  have t: "sy_disk t = cfg" "sy_evicted t = sy_evicted (commit cfg s)" using reconcile(1) by (simp_all add: commit_def)
  have "concerned k s \<or> present k cfg = 1"
  proof (cases "k = mj_key_hash e")
    case True
    from reconcile(2) obtain i e0 res resp where "List.find (\<lambda>e. mj_id e = i) (journal (sy_disk s)) = Some e0"
      "e = resolve_mutation res resp now e0" by (rule reconcile_route_cases)
    then have "present k (sy_disk s) = 1" using True by (auto simp: present_def dest: find_SomeD)
    with reconcile_effect(2)[OF reconcile(2) d] show ?thesis by simp
  next
    case False
    then show ?thesis using assms(4) reconcile(1) by (auto simp: concerned_def commit_def split: if_splits)
  qed
  then show ?thesis using recorded_commit[OF assms(3) t, of k] t(1) by (auto simp: recorded_def)
next
  case (external cfg)
  then show ?thesis using assms(3)[of k] assms(4) by (simp add: concerned_def recorded_def present_def)
qed

lemma traced_reach: "sys_reach ops views s \<Longrightarrow> concerned k s \<Longrightarrow> recorded k s"
proof (induction arbitrary: k rule: sys_reach.induct)
  case (start d n)
  then show ?case by (auto simp: concerned_def)
next
  case (step s t)
  show ?case by (rule traced_step[OF step.hyps(2) dispatch_inv_reach[OF step.hyps(1)] step.IH step.prems])
qed

text \<open>An entry that is not resolved survives every step, perhaps in a new state.\<close>

lemma unresolved_kept:
  assumes "sys_step ops views s t" "dispatch_inv s" "e \<in> set (journal (sy_disk s))"
    and unresolved: "mj_state e \<notin> {Completed, Rejected}"
  shows "\<exists>e' \<in> set (journal (sy_disk t)). mj_id e' = mj_id e \<and> mj_key_hash e' = mj_key_hash e"
proof -
  have nr: "\<not> journal_removable e" using unresolved by (simp add: journal_removable_def)
  have d: "journal_ids_distinct (sy_disk s)" using assms(2) by (simp add: dispatch_inv_def journal_ids_distinct_def)
  have upd: "\<exists>e' \<in> set (update_first P f (journal (sy_disk s))). mj_id e' = mj_id e \<and> mj_key_hash e' = mj_key_hash e"
    if f: "\<And>x. mj_key_hash (f x) = mj_key_hash x" "\<And>x. mj_id (f x) = mj_id x" for P f
  proof -
    have "(mj_id e, mj_key_hash e) \<in> set (map (\<lambda>e. (mj_id e, mj_key_hash e)) (update_first P f (journal (sy_disk s))))"
      using assms(3) by (subst map_update_first) (auto simp: f)
    then show ?thesis by force
  qed
  show ?thesis
    using assms(1)
  proof (cases rule: sys_step.cases)
    case (barrier p base r uid now cfg e1 ph)
    show ?thesis
      using barrier(5)
    proof (cases rule: prepare_mutation_cases)
      case (1 e0)
      from prepare_existing_Barrier[OF 1(2)] show ?thesis
        using upd[of "retry_started now" "\<lambda>x. mj_key_hash x = mj_key_hash e0"] barrier by (auto simp: retry_started_def)
    next
      case 2
      from prepare_new_Barrier[OF 2(2)] append_mutation_journal_keeps[OF _ d assms(3) nr, of e1 cfg] barrier
      show ?thesis by auto
    qed
  next
    case (local p base r uid now e1 changed now' status response shape cfg)
    have "append_mutation_journal (committed_entry now' status response shape e1) changed = Inr cfg"
      using local by (simp add: commit_local_def)
    from append_mutation_journal_keeps[OF this, of e] local d assms(3) nr show ?thesis
      by (auto simp: journal_ids_distinct_def)
  next
    case (finish p cfg e1 out now)
    have "mj_key_hash (finished_entry out now x) = mj_key_hash x" "mj_id (finished_entry out now x) = mj_id x" for x
      by (cases out; simp)+
    from upd[OF this, of "\<lambda>x. mj_id x = mj_id e1"] finish show ?thesis by (auto simp: finished_config_def)
  next
    case (reconcile payload now cfg e1)
    from reconcile(2) obtain i e0 res resp where
      "cfg = (sy_disk s)\<lparr> cf_mutation_journal := update_first (\<lambda>e. mj_id e = i) (resolve_mutation res resp now) (journal (sy_disk s)) \<rparr>"
      by (rule reconcile_route_cases)
    with upd[of "resolve_mutation res resp now" "\<lambda>e. mj_id e = i"] reconcile show ?thesis by auto
  qed (use assms(3) in auto)
qed

end
