(* ===== verification/Models_Copy_Laws.thy ===== *)
theory Models_Copy_Laws
  imports Models_Laws
begin

text \<open>
  The copy-trade settings survive being written and read. The writer adds
  \<open>copy_percentage = round(scale * 100, 10)\<close>, the reader refuses a percentage that disagrees with
  the scale by more than \<open>1e-12\<close>; the rounding errors of binary64 stay below that.
\<close>

section \<open>The percentage\<close>

text \<open>A scale written as a percentage with ten decimals and read back differs by less than the
  tolerance of the reader.\<close>

lemma percentage_close:
  assumes "0 \<le> s" "s \<le> 1"
  defines "p \<equiv> fl (of_int (round_even (fl (s * 100) * 10 ^ 10)) / 10 ^ 10)"
  shows "0 \<le> p" "p \<le> 100" "\<bar>fl (p / 100) - s\<bar> \<le> 1 / 10 ^ 12"
proof -
  define x where "x = fl (s * 100)"
  define r where "r = (of_int (round_even (x * 10 ^ 10)) :: rat) / 10 ^ 10"
  have x: "0 \<le> x" "x \<le> 100" "\<bar>x - s * 100\<bar> \<le> 1 / 2 ^ 46"
    using assms(1,2) fl_le[of "s * 100" 100] f64_of_int[of 100] fl_error_128[of "s * 100"]
    by (auto simp: x_def abs_le_iff)
  have "round_even (x * 10 ^ 10) \<le> 10 ^ 12" "0 \<le> round_even (x * 10 ^ 10)"
    by (rule round_even_le, use x in simp, rule round_even_ge, use x in simp)
  then have "(of_int (round_even (x * 10 ^ 10)) :: rat) \<le> of_int (10 ^ 12)"
    "(0 :: rat) \<le> of_int (round_even (x * 10 ^ 10))" by (simp_all only: of_int_le_iff of_int_0_le_iff)
  then have r: "0 \<le> r" "r \<le> 100" by (simp_all add: r_def)
  have rx: "\<bar>r - x\<bar> \<le> 1 / (2 * 10 ^ 10)"
    using round_even_error[of "x * 10 ^ 10"] by (simp add: r_def abs_le_iff field_simps)
  have p: "p = fl r" by (simp add: p_def r_def x_def)
  show pb: "0 \<le> p" "p \<le> 100" using r fl_le[of r 100] f64_of_int[of 100] by (auto simp: p)
  have pr: "\<bar>p - r\<bar> \<le> 1 / 2 ^ 46" using r fl_error_128[of r] by (simp add: p)
  have q: "\<bar>fl (p / 100) - p / 100\<bar> \<le> 1 / 2 ^ 46" by (rule fl_error_128) (use pb in simp)
  have "\<bar>p - s * 100\<bar> \<le> 2 / 2 ^ 46 + 1 / (2 * 10 ^ 10)" proof -
    have "\<bar>p - s * 100\<bar> \<le> \<bar>p - r\<bar> + \<bar>r - x\<bar> + \<bar>x - s * 100\<bar>" by linarith
    then show ?thesis using x(3) rx pr by linarith
  qed
  then have "\<bar>fl (p / 100) - s\<bar> \<le> 1 / 2 ^ 46 + (2 / 2 ^ 46 + 1 / (2 * 10 ^ 10)) / 100"
  proof -
    assume "\<bar>p - s * 100\<bar> \<le> 2 / 2 ^ 46 + 1 / (2 * 10 ^ 10)"
    then have "\<bar>p / 100 - s\<bar> \<le> (2 / 2 ^ 46 + 1 / (2 * 10 ^ 10)) / 100" by (simp add: abs_le_iff field_simps)
    then show ?thesis using q by linarith
  qed
  also have "\<dots> \<le> 1 / 10 ^ 12" by simp
  finally show "\<bar>fl (p / 100) - s\<bar> \<le> 1 / 10 ^ 12" .
qed
section \<open>Wallet identities\<close>

lemma startswith_solana: "startswith t ''solana:'' \<longleftrightarrow> (\<exists>u. t = ''solana:'' @ u)"
  by (rule startswith_iff)

lemma after_colon_solana [simp]: "after_colon (''solana:'' @ u) = u"
  by (simp add: after_colon_def)

lemma strip_solana [simp]: "strip (''solana:'' @ strip u) = ''solana:'' @ strip u"
proof (rule strip_no_space_ends)
  show "\<not> is_space (last (''solana:'' @ strip u))"
  proof (cases "strip u = []")
    case False
    then have "dropWhile is_space (rev (dropWhile is_space u)) \<noteq> []" unfolding strip_def rev_is_Nil_conv .
    then have "\<not> is_space (hd (dropWhile is_space (rev (dropWhile is_space u))))" by (rule hd_dropWhile)
    then show ?thesis using False by (auto simp: strip_def last_rev)
  qed (simp add: is_space_def)
qed (simp_all add: is_space_def)

lemma lower_solana [simp]: "lower (''solana:'' @ u) = ''solana:'' @ lower u"
  by (simp add: lower_def lower_char_def)

lemma stored_identity_idem [simp]: "stored_identity (stored_identity v) = stored_identity v"
proof (cases "startswith (lower (strip v)) ''solana:''")
  case True
  then have "stored_identity v = ''solana:'' @ strip (after_colon (strip v))" by (simp add: stored_identity_def)
  moreover have "startswith (lower (''solana:'' @ strip (after_colon (strip v)))) ''solana:''"
    by (simp only: lower_solana startswith_append)
  ultimately show ?thesis
    by (simp only: stored_identity_def Let_def strip_solana after_colon_solana strip_idem if_True)
next
  case False
  then show ?thesis by (simp add: stored_identity_def strip_lower)
qed

lemma add_wallet_fold:
  assumes "distinct acc" "[] \<notin> set acc"
  shows "distinct (foldl add_wallet acc ws) \<and> [] \<notin> set (foldl add_wallet acc ws)
     \<and> set (foldl add_wallet acc ws) = set acc \<union> (set ws - {[]})"
  using assms
proof (induction ws arbitrary: acc)
  case (Cons w ws)
  have "distinct (add_wallet acc w)" "[] \<notin> set (add_wallet acc w)"
    using Cons.prems by (auto simp: add_wallet_def)
  from Cons.IH[OF this] show ?case using Cons.prems by (auto simp: add_wallet_def split: if_splits)
qed simp

lemma add_wallet_same: "distinct (acc @ ws) \<Longrightarrow> [] \<notin> set ws \<Longrightarrow> foldl add_wallet acc ws = acc @ ws"
  by (induction ws arbitrary: acc) (auto simp: add_wallet_def)

lemma follow_wallets_same:
  assumes "distinct ws" "[] \<notin> set ws"
  shows "foldl add_wallet [] ((case ws of [] \<Rightarrow> [] | w # _ \<Rightarrow> w) # ws) = ws"
proof (cases ws)
  case (Cons w r)
  with assms add_wallet_same[of "[w]" r] show ?thesis by (auto simp: add_wallet_def)
qed (simp add: add_wallet_def)

lemma identity_values: "rmap identity_value (map PStr ws) = Inr (map stored_identity ws)"
  by (rule rmap_map_Inr) (simp add: identity_value_def)

lemma identity_value_stored: "identity_value v = Inr w \<Longrightarrow> stored_identity w = w"
  by (auto simp: identity_value_def split: pyval.splits)

section \<open>Copy settings\<close>

lemma validated_scale_probability: "validated_scale d = Inr x \<Longrightarrow> probability x"
proof -
  assume *: "validated_scale d = Inr x"
  then obtain s where s0: "config_number (oget_or d ''scale'' (PFloat (Fin 1))) ''scale'' (Fin 0) (Some (Fin 1)) False = Inr s"
    and c: "(case dget d ''copy_percentage'' of None \<Rightarrow> Inr s
       | Some pct \<Rightarrow>
         rbind (config_number pct ''copy_percentage'' (Fin 0) (Some (Fin 100)) False) (\<lambda>number.
         rbind (fdiv number (Fin 100)) (\<lambda>percentage_scale.
           if has_key d ''scale'' \<and> \<not> isclose_abs s percentage_scale (flit (1 / 10 ^ 12))
           then value_error ''Copy percentage and scale disagree.''
           else Inr (if has_key d ''scale'' then s else percentage_scale)))) = Inr x"
    unfolding validated_scale_def by (rule rbind_InrE)
  from s0 have s: "probability s" by (auto simp: config_number_Inr probability_def isfinite_iff not_less)
  have "probability p" if n: "isfinite n" "\<not> flt n (Fin 0)" "\<not> flt (Fin 100) n" "fdiv n (Fin 100) = Inr p" for n p
  proof -
    from n obtain q where q: "n = Fin q" "0 \<le> q" "q \<le> 100" by (auto simp: isfinite_iff not_less)
    then have "0 \<le> q / 100" "q / 100 \<le> 1" by simp_all
    then have "to_float (q / 100) = Fin (fl (q / 100))" "0 \<le> fl (q / 100)" "fl (q / 100) \<le> 1"
      using fl_le[of "q / 100" 1] f64_of_int[of 1] by (auto intro!: to_float_small)
    with n(4) q show ?thesis by (auto simp: probability_def)
  qed
  with c s show ?thesis
    by (auto split: option.splits if_splits simp: rbind_eq_Inr config_number_Inr)
qed

lemma copy_settings_from_dict_ok: "copy_settings_from_dict d = Inr s \<Longrightarrow> copy_settings_ok s"
proof -
  assume "copy_settings_from_dict d = Inr s"
  then obtain r raw ids where r: "validated_risk d = Inr r" and ids: "rmap identity_value raw = Inr ids"
    and s: "s = \<lparr> ct_enabled = cr_enabled r, ct_live = cr_live r,
             ct_follow_wallet = (case foldl add_wallet [] ids of [] \<Rightarrow> [] | w # _ \<Rightarrow> w),
             ct_follow_wallets = foldl add_wallet [] ids,
             ct_scale = cr_scale r, ct_max_usdc_per_trade = cr_max_usdc_per_trade r,
             ct_slippage = cr_slippage r, ct_allow_sells = cr_allow_sells r,
             ct_conflict_guard = cr_conflict_guard r,
             ct_conflict_window_seconds = cr_conflict_window_seconds r \<rparr>"
    unfolding copy_settings_from_dict_def by (elim rbind_InrE) (auto simp: Let_def rbind_eq_Inr simp del: rmap.simps)
  have "\<forall>w \<in> set ids. stored_identity w = w"
    using rmap_Inr_set[OF ids] identity_value_stored by blast
  then have "distinct (foldl add_wallet [] ids)" "\<forall>w \<in> set (foldl add_wallet [] ids). w \<noteq> [] \<and> stored_identity w = w"
    using add_wallet_fold[of "[]" ids] by auto
  moreover have "probability (cr_scale r)" "isfinite (cr_max_usdc_per_trade r)" "\<not> fle (cr_max_usdc_per_trade r) (Fin 0)"
    "probability (cr_slippage r)" "0 \<le> cr_conflict_window_seconds r \<and> cr_conflict_window_seconds r \<le> 86400"
    using r unfolding validated_risk_def
    by (elim rbind_InrE; clarsimp dest!: validated_scale_probability config_integer_Inr_nonneg;
        auto simp: config_number_Inr probability_def isfinite_iff not_less)+
  ultimately show ?thesis by (auto simp: copy_settings_ok_def s list_all_iff isfinite_iff)
qed

text \<open>The numbers the writer emits pass the reader's checks unchanged.\<close>

lemma validated_scale_written:
  assumes "probability x" "oget_or d ''scale'' (PFloat (Fin 1)) = PFloat x" "has_key d ''scale''"
    and "dget d ''copy_percentage'' = Some (PFloat (fround (fmul x (Fin 100)) 10))"
  shows "validated_scale d = Inr x"
proof -
  obtain s where x: "x = Fin s" and s: "0 \<le> s" "s \<le> 1" using assms(1) by (auto simp: probability_iff)
  define p where "p = fl (of_int (round_even (fl (s * 100) * 10 ^ 10)) / 10 ^ 10)"
  note p = percentage_close[OF s, folded p_def]
  have m: "fmul x (Fin 100) = Fin (fl (s * 100))" using s by (simp add: x to_float_small)
  have f: "0 \<le> fl (s * 100)" "fl (s * 100) \<le> 100"
    using s fl_le[of "s * 100" 100] f64_of_int[of 100] by auto
  have "round_even (fl (s * 100) * 10 ^ 10) \<le> 10 ^ 12" "0 \<le> round_even (fl (s * 100) * 10 ^ 10)"
    by (rule round_even_le, use f in simp, rule round_even_ge, use f in simp)
  then have "(of_int (round_even (fl (s * 100) * 10 ^ 10)) :: rat) \<le> of_int (10 ^ 12)"
    "(0 :: rat) \<le> of_int (round_even (fl (s * 100) * 10 ^ 10))" by (simp_all only: of_int_le_iff of_int_0_le_iff)
  then have r: "fround (fmul x (Fin 100)) 10 = Fin p"
    by (simp add: m p_def to_float_small)
  have d: "fdiv (Fin p) (Fin 100) = Inr (Fin (fl (p / 100)))"
    using p by (simp add: to_float_small)
  have c: "\<bar>fl (p / 100) - s\<bar> \<le> 1" using p(3) by (rule order_trans) simp
  have "\<bar>fl (fl (p / 100) - s)\<bar> \<le> fl (1 / 10 ^ 12)"
    using fl_mono[OF p(3)] by (simp only: fl_abs)
  then have "isclose_abs x (Fin (fl (p / 100))) (flit (1 / 10 ^ 12))"
    using c by (simp add: isclose_abs_def x fsub_def to_float_small flit_def)
  with assms(2-4) s p(1,2) r d show ?thesis
    by (simp add: validated_scale_def config_number_float x)
qed

lemma validated_scale_plain:
  assumes "probability x" "oget_or d ''scale'' (PFloat (Fin 1)) = PFloat x" "dget d ''copy_percentage'' = None"
  shows "validated_scale d = Inr x"
  using assms by (auto simp: validated_scale_def config_number_float probability_iff)

definition copy_settings_written :: "copy_settings \<Rightarrow> obj" where
  "copy_settings_written s = copy_settings_asdict s @ [(''copy_percentage'', PFloat (fround (fmul (ct_scale s) (Fin 100)) 10))]"

definition copy_risk_of :: "copy_settings \<Rightarrow> copy_risk" where
  "copy_risk_of s = \<lparr> cr_enabled = ct_enabled s, cr_live = ct_live s, cr_allow_sells = ct_allow_sells s,
     cr_conflict_guard = ct_conflict_guard s, cr_scale = ct_scale s, cr_max_usdc_per_trade = ct_max_usdc_per_trade s,
     cr_slippage = ct_slippage s, cr_conflict_window_seconds = ct_conflict_window_seconds s \<rparr>"

lemma validated_risk_settings:
  assumes ok: "copy_settings_ok s" and scale: "validated_scale d = Inr (ct_scale s)"
    and b: "oget_or d ''enabled'' (PBool False) = PBool (ct_enabled s)" "oget_or d ''live'' (PBool False) = PBool (ct_live s)"
      "oget_or d ''allow_sells'' (PBool False) = PBool (ct_allow_sells s)"
      "oget_or d ''conflict_guard'' (PBool True) = PBool (ct_conflict_guard s)"
    and n: "oget_or d ''max_usdc_per_trade'' (PFloat (Fin 25)) = PFloat (ct_max_usdc_per_trade s)"
      "oget_or d ''slippage'' (PFloat DEFAULT_SLIPPAGE) = PFloat (ct_slippage s)"
      "oget_or d ''conflict_window_seconds'' (PInt 300) = PInt (ct_conflict_window_seconds s)"
  shows "validated_risk d = Inr (copy_risk_of s)"
proof -
  have m: "config_number (PFloat (ct_max_usdc_per_trade s)) k (Fin 0) None True = Inr (ct_max_usdc_per_trade s)" for k
    using ok by (intro config_number_float) (auto simp: copy_settings_ok_def isfinite_iff)
  have sl: "config_number (PFloat (ct_slippage s)) k (Fin 0) (Some (Fin 1)) False = Inr (ct_slippage s)" for k
    using ok by (intro config_number_float) (auto simp: copy_settings_ok_def probability_iff)
  have w: "config_integer (PInt (ct_conflict_window_seconds s)) k (Some 86400) = Inr (ct_conflict_window_seconds s)" for k
    using ok by (intro config_integer_PInt) (auto simp: copy_settings_ok_def)
  show ?thesis
    by (simp add: validated_risk_def config_bool_present b scale n m sl w copy_risk_of_def)
qed

lemma asdict_lookups:
  "oget_or (copy_settings_asdict s @ e) ''enabled'' v = PBool (ct_enabled s)"
  "oget_or (copy_settings_asdict s @ e) ''live'' v = PBool (ct_live s)"
  "oget_or (copy_settings_asdict s @ e) ''allow_sells'' v = PBool (ct_allow_sells s)"
  "oget_or (copy_settings_asdict s @ e) ''conflict_guard'' v = PBool (ct_conflict_guard s)"
  "oget_or (copy_settings_asdict s @ e) ''max_usdc_per_trade'' v = PFloat (ct_max_usdc_per_trade s)"
  "oget_or (copy_settings_asdict s @ e) ''slippage'' v = PFloat (ct_slippage s)"
  "oget_or (copy_settings_asdict s @ e) ''conflict_window_seconds'' v = PInt (ct_conflict_window_seconds s)"
  "oget_or (copy_settings_asdict s @ e) ''scale'' v = PFloat (ct_scale s)"
  "oget_or (copy_settings_asdict s @ e) ''follow_wallet'' v = PStr (ct_follow_wallet s)"
  "oget_or (copy_settings_asdict s @ e) ''follow_wallets'' v = PList (map PStr (ct_follow_wallets s))"
  "has_key (copy_settings_asdict s @ e) ''scale''"
  "dget (copy_settings_asdict s @ e) ''copy_percentage'' = dget e ''copy_percentage''"
  "keys (copy_settings_asdict s) = copy_settings_fields"
  by (simp_all add: copy_settings_asdict_def has_key_def copy_settings_fields_def)

lemma copy_settings_ok_wallets:
  assumes "copy_settings_ok s"
  shows "map stored_identity (ct_follow_wallets s) = ct_follow_wallets s" "[] \<notin> set (ct_follow_wallets s)"
    "distinct (ct_follow_wallets s)" "stored_identity (ct_follow_wallet s) = ct_follow_wallet s"
    "ct_follow_wallet s = (case ct_follow_wallets s of [] \<Rightarrow> [] | w # _ \<Rightarrow> w)"
proof -
  have "stored_identity [] = []" by (simp add: stored_identity_def)
  with assms show "map stored_identity (ct_follow_wallets s) = ct_follow_wallets s" "[] \<notin> set (ct_follow_wallets s)"
    "distinct (ct_follow_wallets s)" "stored_identity (ct_follow_wallet s) = ct_follow_wallet s"
    "ct_follow_wallet s = (case ct_follow_wallets s of [] \<Rightarrow> [] | w # _ \<Rightarrow> w)"
    by (auto simp: copy_settings_ok_def list_all_iff intro!: map_idI split: list.splits)
qed

lemma copy_settings_to_dict_written:
  assumes ok: "copy_settings_ok s"
  shows "copy_settings_to_dict s = Inr (copy_settings_written s)"
proof -
  note w = copy_settings_ok_wallets[OF ok]
  have "validated_scale (copy_settings_asdict s @ []) = Inr (ct_scale s)"
    by (rule validated_scale_plain) (use ok in \<open>simp_all only: asdict_lookups copy_settings_ok_def map_of.simps\<close>)
  then have r: "validated_risk (copy_settings_asdict s @ []) = Inr (copy_risk_of s)"
    by (rule validated_risk_settings[OF ok]) (simp_all only: asdict_lookups)
  have n: "normalized_follow_wallets s = ct_follow_wallets s"
    unfolding normalized_follow_wallets_def using follow_wallets_same[OF w(3,2)] w(1,4,5) by simp
  show ?thesis
    using r by (simp add: copy_settings_to_dict_def n copy_risk_of_def copy_settings_written_def w(5)[symmetric])
      (simp add: copy_settings_asdict_def)
qed

theorem copy_settings_roundtrip:
  assumes ok: "copy_settings_ok s"
  shows "rbind (copy_settings_to_dict s) copy_settings_from_dict = Inr s"
proof -
  let ?d = "copy_settings_written s"
  note w = copy_settings_ok_wallets[OF ok]
  have "validated_scale ?d = Inr (ct_scale s)"
    unfolding copy_settings_written_def
    by (rule validated_scale_written)
      (use ok in \<open>simp_all add: asdict_lookups copy_settings_ok_def del: map_of_append\<close>)
  then have r: "validated_risk ?d = Inr (copy_risk_of s)"
    by (rule validated_risk_settings[OF ok]) (simp_all add: copy_settings_written_def asdict_lookups)
  have ids: "rmap identity_value (PStr (ct_follow_wallet s) # map PStr (ct_follow_wallets s))
      = Inr (ct_follow_wallet s # ct_follow_wallets s)"
    using identity_values[of "ct_follow_wallet s # ct_follow_wallets s"] w(1,4) by simp
  have fold: "foldl add_wallet [] (ct_follow_wallet s # ct_follow_wallets s) = ct_follow_wallets s"
    using follow_wallets_same[OF w(3,2)] w(5) by simp
  have args: "dataclass_args ''CopyTradeSettings'' copy_settings_fields [] (dpop ''copy_percentage'' ?d) = Inr ()"
    by (simp add: dataclass_args_Inr copy_settings_written_def copy_settings_asdict_def copy_settings_fields_def)
  have "copy_settings_from_dict ?d = Inr s"
    unfolding copy_settings_from_dict_def r
    by (simp add: copy_settings_written_def asdict_lookups raw_follow_wallets_def ids fold args[unfolded copy_settings_written_def]
        copy_risk_of_def Let_def w(5)[symmetric] del: rmap.simps foldl_Cons)
  then show ?thesis by (simp add: copy_settings_to_dict_written[OF ok])
qed

end
