(* ===== verification/Config_Theorems.thy ===== *)
theory Config_Theorems
  imports Models_Config_Laws
begin

text \<open>
  Properties of the bounded histories of the configuration: the notification history, the
  mutation journal and the operator's reconciliation of its unresolved entries. They rest on the
  two interpretations of the locale \<open>eviction\<close>.
\<close>

section \<open>Notification history\<close>

text \<open>A batch of notifications is stored as a whole or refused as a whole: it is stored exactly
  when every event is well formed, no identity repeats and the unacknowledged events leave room
  for the batch; then the oldest acknowledged events in excess of the capacity are dropped.\<close>

theorem append_alert_events_iff:
  "append_alert_events events cfg = Inr cfg' \<longleftrightarrow>
     (if events = [] then cfg' = cfg
      else list_all alert_event_ok events \<and> distinct (map ae_id (cf_alert_events cfg @ events))
        \<and> length (unacknowledged cfg) + length events \<le> MAX_ALERT_EVENTS
        \<and> cfg' = cfg\<lparr> cf_alert_events := events_evict (event_excess (length events) cfg) (cf_alert_events cfg) @ events \<rparr>)"
  using append_alert_events_cases[of events cfg cfg']
  by (auto simp: events_admissible_def append_alert_events_def)

text \<open>C12: The notification history never exceeds its capacity of 1000, never loses a notification
  that nobody has acknowledged, and holds every event of the batch just stored.\<close>

theorem append_alert_events_keeps_unread:
  assumes "append_alert_events events cfg = Inr cfg'"
    and "length (cf_alert_events cfg) \<le> MAX_ALERT_EVENTS" "distinct (map ae_id (cf_alert_events cfg))"
  shows "length (cf_alert_events cfg') \<le> MAX_ALERT_EVENTS \<and> distinct (map ae_id (cf_alert_events cfg'))
     \<and> set (unacknowledged cfg) \<union> set events \<subseteq> set (cf_alert_events cfg')
     \<and> set (cf_alert_events cfg') \<subseteq> set (cf_alert_events cfg) \<union> set events"
proof (cases "events = []")
  case True
  then show ?thesis using assms by (auto simp: append_alert_events_def unacknowledged_def)
next
  case False
  let ?n = "event_excess (length events) cfg"
  have d: "distinct (map ae_id (cf_alert_events cfg @ events))"
    and c: "cf_alert_events cfg' = events_evict ?n (cf_alert_events cfg) @ events"
    using assms(1) append_alert_events_cases[OF False] by (auto simp: events_admissible_def)
  have i: "inj_on ae_id (set (cf_alert_events cfg))" using assms(3) by (simp add: distinct_map)
  have u: "set (unacknowledged cfg) \<subseteq> set (events_evict ?n (cf_alert_events cfg))"
    using ev.keeps_undroppable[OF _ _ i] by (auto simp: unacknowledged_def)
  have "distinct (map ae_id (cf_alert_events cfg'))"
    using d ev.evict_subset[of ?n "cf_alert_events cfg"]
    by (fastforce simp: c events_evict_def distinct_map_filter)
  then show ?thesis
    using append_alert_events_bound[OF assms] u ev.evict_subset[of ?n "cf_alert_events cfg"] by (auto simp: c)
qed

section \<open>Mutation journal\<close>


text \<open>A full journal whose entries are all unresolved accepts no further mutation, and the
  configuration stays as it was.\<close>

theorem full_journal_refuses:
  "(\<exists>msg. append_mutation_journal entry cfg = Inl (Exc ValueError msg)) \<longleftrightarrow>
     MAX_MUTATION_JOURNAL_ENTRIES \<le> length (cf_mutation_journal cfg)
       \<and> list_all (\<lambda>e. \<not> journal_removable e) (cf_mutation_journal cfg)"
proof -
  have "(\<forall>cfg'. append_mutation_journal entry cfg \<noteq> Inr cfg') \<longleftrightarrow>
      MAX_MUTATION_JOURNAL_ENTRIES \<le> length (cf_mutation_journal cfg)
        \<and> list_all (\<lambda>e. \<not> journal_removable e) (cf_mutation_journal cfg)"
    unfolding append_mutation_journal_cases list_all_iff not_less[symmetric] by metis
  moreover have "(\<exists>msg. append_mutation_journal entry cfg = Inl (Exc ValueError msg)) \<longleftrightarrow>
      (\<forall>cfg'. append_mutation_journal entry cfg \<noteq> Inr cfg')"
    by (auto simp: append_mutation_journal_def Let_def split: list.splits if_splits)
  ultimately show ?thesis by simp
qed

section \<open>Reconciliation\<close>


section \<open>Instances\<close>

definition sample_event :: alert_event where
  "sample_event = \<lparr> ae_alert_id = ''a1'', ae_market_id = ''polymarket'', ae_contract_id = ''c1'', ae_label = ''Rain'',
     ae_direction = Above, ae_threshold = PFloat (Fin (1/2)), ae_source = Midpoint, ae_value = PFloat (Fin (3/4)),
     ae_message = ''crossed'', ae_id = ''e1'', ae_created_at = 7, ae_acknowledged_at = 0 \<rparr>"

definition event_config :: app_config where
  "event_config = default_app_config\<lparr> cf_alert_events := [sample_event] \<rparr>"

definition sample_journal_entry :: journal_entry where
  "sample_journal_entry = \<lparr> mj_key_hash = ''k1'', mj_method = ''POST'', mj_path = ''/api/alerts'', mj_request_hash = ''r1'',
     mj_live = True, mj_state = Ambiguous, mj_response_status = 0, mj_response = [], mj_outcome_code = [],
     mj_outcome_message = [], mj_id = ''m1'', mj_created_at = 5, mj_updated_at = 5, mj_replay_authorized_at = 0 \<rparr>"

definition journal_config :: app_config where
  "journal_config = default_app_config\<lparr> cf_mutation_journal := [sample_journal_entry] \<rparr>"

lemma sample_event_ok: "alert_event_ok sample_event"
  by code_simp

theorem append_alert_events_keeps_unread_witness:
  "append_alert_events [sample_event] default_app_config = Inr event_config
     \<and> sample_event \<in> set (cf_alert_events event_config)"
proof -
  have a: "append_alert_events [sample_event] default_app_config = Inr event_config"
    using sample_event_ok
    by (simp add: append_alert_events_cases events_admissible_def unacknowledged_def event_config_def
        default_app_config_def event_excess_def events_evict_def capacity_defs)
  show ?thesis
    using append_alert_events_keeps_unread[OF a] a by (simp add: default_app_config_def)
qed



end
