(* ===== verification/Web_Alerts.thy ===== *)
theory Web_Alerts
  imports Web_Common Models_Config_Laws Models_Laws
begin

text \<open>
  Price alerts of \<open>web_api.py\<close>: creating and editing an alert, evaluating the alerts of a contract
  against fresh prices, refreshing prices from the venues, and the views of alerts and
  notifications. An evaluation collects its crossings first, commits the notifications, and only
  then changes the alerts, so a full notification history consumes no crossing.

  A venue adapter is an argument: the capabilities it advertises, its display name and the
  price snapshot it returns for a contract.
\<close>

section \<open>Adapters and prices\<close>

record price_snapshot =
  ps_market_id :: string
  ps_contract_id :: string
  ps_last :: pyval
  ps_bid :: pyval
  ps_ask :: pyval
  ps_midpoint :: pyval
  ps_source :: string
  ps_raw :: obj

record adapter =
  ad_capabilities :: market_capabilities
  ad_display_name :: string
  ad_get_price :: "string \<Rightarrow> price_snapshot res"

text \<open>\<open>adapter_for_market\<close>: the registry builds the adapter of a market from its settings.\<close>

type_synonym registry = "string \<Rightarrow> obj \<Rightarrow> adapter res"

definition adapter_for_market :: "app_config \<Rightarrow> string \<Rightarrow> registry \<Rightarrow> adapter res" where
  "adapter_for_market cfg market_id registry =
     registry market_id (case dget (cf_markets cfg) market_id of None \<Rightarrow> [] | Some m \<Rightarrow> mc_settings m)"

text \<open>The validated price of each source.\<close>

record price_values =
  pv_last_trade :: "pyfloat option"
  pv_midpoint :: "pyfloat option"
  pv_best_bid :: "pyfloat option"
  pv_best_ask :: "pyfloat option"

fun value_of :: "price_source \<Rightarrow> price_values \<Rightarrow> pyfloat option" where
  "value_of LastTrade v = pv_last_trade v"
| "value_of Midpoint v = pv_midpoint v"
| "value_of BestBid v = pv_best_bid v"
| "value_of BestAsk v = pv_best_ask v"

definition values_obj :: "price_values \<Rightarrow> obj" where
  "values_obj v = [(''last_trade'', opt_float (pv_last_trade v)), (''midpoint'', opt_float (pv_midpoint v)),
     (''best_bid'', opt_float (pv_best_bid v)), (''best_ask'', opt_float (pv_best_ask v))]"

definition validated_values :: "pyval \<Rightarrow> pyval \<Rightarrow> pyval \<Rightarrow> pyval \<Rightarrow> price_values res" where
  "validated_values lst mid bid ask =
     rbind (alert_probability_opt lst ''last_trade'') (\<lambda>l.
     rbind (alert_probability_opt mid ''midpoint'') (\<lambda>m.
     rbind (alert_probability_opt bid ''best_bid'') (\<lambda>b.
     rbind (alert_probability_opt ask ''best_ask'') (\<lambda>a.
       Inr \<lparr> pv_last_trade = l, pv_midpoint = m, pv_best_bid = b, pv_best_ask = a \<rparr>))))"

definition halved :: "pyfloat \<Rightarrow> pyfloat" where
  "halved x = (case fdiv x (Fin 2) of Inr y \<Rightarrow> y | Inl _ \<Rightarrow> NaN)"

definition price_snapshot_values :: "price_snapshot \<Rightarrow> price_values res" where
  "price_snapshot_values s =
     rbind (validated_values (ps_last s) (ps_midpoint s) (ps_bid s) (ps_ask s)) (\<lambda>v.
       Inr (case (pv_midpoint v, pv_best_bid v, pv_best_ask v) of
              (None, Some b, Some a) \<Rightarrow> v\<lparr> pv_midpoint := Some (halved (fadd b a)) \<rparr>
            | _ \<Rightarrow> v))"

text \<open>The price state of the server: the raw values last seen per market and contract.\<close>

type_synonym price_state = "(string \<times> string, obj) dict"

definition price_state_key :: "string \<Rightarrow> string \<Rightarrow> string \<times> string" where
  "price_state_key market_id contract_id =
     (lower (strip (if market_id = [] then ''polymarket'' else market_id)), strip contract_id)"

definition alert_market_id :: "price_alert \<Rightarrow> string" where
  "alert_market_id a = lower (strip (if pa_market_id a = [] then ''polymarket'' else pa_market_id a))"

definition state_values :: "price_state \<Rightarrow> string \<times> string \<Rightarrow> price_values res" where
  "state_values st key =
     (let raw = dget_or st key [] in
      validated_values (oget raw ''last_trade'') (oget raw ''midpoint'') (oget raw ''best_bid'') (oget raw ''best_ask''))"

definition alert_values :: "price_alert \<Rightarrow> price_state \<Rightarrow> price_values res" where
  "alert_values a st = state_values st (price_state_key (alert_market_id a) (pa_token_id a))"

definition alert_current_value :: "price_alert \<Rightarrow> price_state \<Rightarrow> pyfloat option res" where
  "alert_current_value a st =
     rbind (alert_values a st) (\<lambda>v. case value_of (pa_source a) v of
       Some x \<Rightarrow> Inr (Some x)
     | None \<Rightarrow> alert_probability_opt (opt_float (pa_last_value a)) ''last_value'')"

definition alert_condition :: "price_alert \<Rightarrow> pyfloat \<Rightarrow> bool" where
  "alert_condition a x = (if pa_direction a = Above then fle (pa_threshold a) x else fle x (pa_threshold a))"

section \<open>Creating and editing\<close>

definition find_alert :: "app_config \<Rightarrow> string \<Rightarrow> price_alert res" where
  "find_alert cfg alert_id =
     (case List.find (\<lambda>a. pa_id a = strip alert_id) (cf_alerts cfg) of
        Some a \<Rightarrow> Inr a
      | None \<Rightarrow> value_error (''Unknown alert id: '' @ strip alert_id))"

text \<open>\<open>payload.get(k) or (existing.f if existing else d)\<close>, as text.\<close>

definition text_or_existing :: "obj \<Rightarrow> string \<Rightarrow> string \<Rightarrow> string" where
  "text_or_existing payload key old = py_str (py_or (oget payload key) (PStr old))"

definition check_alert_text :: "price_alert \<Rightarrow> unit res" where
  "check_alert_text a = require (text_ok 256 False (pa_id a) \<and> text_ok 256 False (pa_market_id a)
     \<and> text_ok 256 False (pa_token_id a) \<and> text_ok 512 True (pa_label a)) (Exc ValueError alert_text_msg)"

definition check_price_controls :: "price_alert \<Rightarrow> unit res" where
  "check_price_controls a =
     rbind (alert_probability (PFloat (pa_threshold a)) ''threshold'') (\<lambda>_.
     case pa_last_value a of None \<Rightarrow> Inr ()
     | Some v \<Rightarrow> rbind (alert_probability (PFloat v) ''last_value'') (\<lambda>_. Inr ()))"

definition require_alert_feed :: "app_config \<Rightarrow> registry \<Rightarrow> string \<Rightarrow> string \<Rightarrow> adapter res" where
  "require_alert_feed cfg registry market_id feature =
     rbind (require_market_enabled cfg market_id feature) (\<lambda>_.
     rbind (adapter_for_market cfg market_id registry) (\<lambda>ad.
     rbind (require (cap_alerts (ad_capabilities ad))
       (Exc UnsupportedFeatureError (ad_display_name ad @ '' does not support price alerts.''))) (\<lambda>_.
     rbind (require (cap_price_reading (ad_capabilities ad))
       (Exc UnsupportedFeatureError (ad_display_name ad @ '' has no price feed for alerts.''))) (\<lambda>_. Inr ad))))"

definition alert_candidate :: "string \<Rightarrow> int \<Rightarrow> obj \<Rightarrow> price_alert option \<Rightarrow> price_alert res" where
  "alert_candidate uid now payload existing =
     (let market_id = lower (strip (text_or_existing payload ''market_id'' (case existing of None \<Rightarrow> [] | Some e \<Rightarrow> pa_market_id e)));
          token_id = strip (py_str (py_or (oget payload ''contract_id'')
            (py_or (oget payload ''token_id'') (PStr (case existing of None \<Rightarrow> [] | Some e \<Rightarrow> pa_token_id e)))));
          label = strip (if has_key payload ''label'' then py_str (oget payload ''label'')
            else (case existing of None \<Rightarrow> [] | Some e \<Rightarrow> pa_label e));
          dir = lower (strip (text_or_existing payload ''direction'' (case existing of None \<Rightarrow> ''above'' | Some e \<Rightarrow> direction_str (pa_direction e))));
          src = lower (strip (text_or_existing payload ''source'' (case existing of None \<Rightarrow> ''last_trade'' | Some e \<Rightarrow> source_str (pa_source e))))
      in
      rbind (alert_probability (if has_key payload ''threshold'' then oget payload ''threshold''
          else (case existing of None \<Rightarrow> PNone | Some e \<Rightarrow> PFloat (pa_threshold e))) ''threshold'') (\<lambda>threshold.
      if market_id = [] then value_error ''market_id is required.''
      else if market_id \<notin> set MARKET_IDS then value_error (''Unknown market id: '' @ market_id)
      else if token_id = [] then value_error ''contract_id is required.''
      else case direction_of (PStr dir) of None \<Rightarrow> value_error ''direction must be above or below.''
      | Some direction \<Rightarrow>
        (case source_of (PStr src) of None \<Rightarrow> value_error ''source must be one of: last_trade, midpoint, best_bid, best_ask.''
        | Some source \<Rightarrow>
          let cand = \<lparr> pa_token_id = token_id, pa_label = (if label = [] then ''Alert '' @ take 8 token_id else label),
                pa_direction = direction, pa_threshold = threshold, pa_source = source,
                pa_once = bool_from_setting (oget payload ''once'') (case existing of None \<Rightarrow> True | Some e \<Rightarrow> pa_once e),
                pa_enabled = bool_from_setting (oget payload ''enabled'') (case existing of None \<Rightarrow> True | Some e \<Rightarrow> pa_enabled e),
                pa_market_id = market_id, pa_id = uid, pa_created_at = PInt now, pa_last_value = None, pa_triggered = False \<rparr>
          in rbind (check_alert_text cand) (\<lambda>_. rbind (check_price_controls cand) (\<lambda>_. Inr cand)))))"

definition same_watch :: "price_alert \<Rightarrow> price_alert \<Rightarrow> bool" where
  "same_watch a b \<longleftrightarrow> pa_market_id a = pa_market_id b \<and> pa_token_id a = pa_token_id b \<and> pa_direction a = pa_direction b
     \<and> pa_threshold a = pa_threshold b \<and> pa_source a = pa_source b"

text \<open>An edited alert keeps its identity; a change of what it watches forgets the last value.\<close>

definition edited_alert :: "price_alert \<Rightarrow> price_alert \<Rightarrow> price_alert" where
  "edited_alert old cand = cand\<lparr> pa_id := pa_id old, pa_created_at := pa_created_at old,
     pa_last_value := (if same_watch old cand then pa_last_value old else None),
     pa_triggered := (if same_watch old cand then pa_triggered old else False) \<rparr>"

definition alert_from_payload :: "app_config \<Rightarrow> registry \<Rightarrow> string \<Rightarrow> int \<Rightarrow> obj \<Rightarrow> price_alert option \<Rightarrow> price_alert res" where
  "alert_from_payload cfg registry uid now payload existing =
     rbind (alert_candidate uid now payload existing) (\<lambda>cand.
     let watched_change = (existing = None \<or> list_ex (has_key payload)
           [''market_id'', ''contract_id'', ''token_id'', ''direction'', ''threshold'', ''source'']) in
     rbind (if existing = None \<or> pa_enabled cand \<or> watched_change
            then rbind (require_alert_feed cfg registry (pa_market_id cand) ''price alerts'') (\<lambda>_. Inr ()) else Inr ()) (\<lambda>_.
       Inr (case existing of None \<Rightarrow> cand | Some old \<Rightarrow> edited_alert old cand)))"

definition delete_alert :: "app_config \<Rightarrow> string \<Rightarrow> (app_config \<times> price_alert) res" where
  "delete_alert cfg alert_id = rbind (find_alert cfg alert_id) (\<lambda>a.
     Inr (cfg\<lparr> cf_alerts := filter (\<lambda>x. pa_id x \<noteq> pa_id a) (cf_alerts cfg) \<rparr>, a))"

section \<open>Evaluation\<close>

definition crossing_message :: "string \<Rightarrow> price_alert \<Rightarrow> pyfloat \<Rightarrow> string" where
  "crossing_message market a x = market @ '':'' @ pa_label a @ '' '' @ source_str (pa_source a) @ ''='' @ fmt_g x
     @ '' crossed '' @ direction_str (pa_direction a) @ '' '' @ fmt_g (pa_threshold a)"

definition crossing_event :: "string \<Rightarrow> string \<Rightarrow> string \<Rightarrow> int \<Rightarrow> price_alert \<Rightarrow> pyfloat \<Rightarrow> alert_event" where
  "crossing_event market contract uid now a x =
     \<lparr> ae_alert_id = pa_id a, ae_market_id = market, ae_contract_id = contract, ae_label = pa_label a,
       ae_direction = pa_direction a, ae_threshold = PFloat (pa_threshold a), ae_source = pa_source a, ae_value = PFloat x,
       ae_message = crossing_message market a x, ae_id = uid, ae_created_at = now, ae_acknowledged_at = 0 \<rparr>"

text \<open>The condition holds now and did not hold at the last value seen.\<close>

definition crosses :: "price_alert \<Rightarrow> pyfloat \<Rightarrow> bool" where
  "crosses a x \<longleftrightarrow> alert_condition a x \<and> (case pa_last_value a of None \<Rightarrow> True | Some p \<Rightarrow> \<not> alert_condition a p)"

definition fires :: "price_alert \<Rightarrow> pyfloat \<Rightarrow> bool" where
  "fires a x \<longleftrightarrow> crosses a x \<and> \<not> pa_triggered a"

text \<open>The state of an alert after a value: the assignments collected in \<open>changes\<close>.\<close>

definition observed :: "price_alert \<Rightarrow> pyfloat \<Rightarrow> price_alert" where
  "observed a x =
     (let triggered = (pa_triggered a \<or> fires a x) in
      a\<lparr> pa_last_value := Some x,
         pa_triggered := (if \<not> pa_once a \<and> triggered \<and> \<not> alert_condition a x then False else triggered),
         pa_enabled := (if fires a x \<and> pa_once a then False else pa_enabled a) \<rparr>)"

definition watches :: "string \<times> string \<Rightarrow> price_alert \<Rightarrow> bool" where
  "watches key a \<longleftrightarrow> pa_enabled a \<and> alert_market_id a = fst key \<and> pa_token_id a = snd key"

text \<open>One turn of the loop: the alert afterwards and the notification it raises.\<close>

definition evaluate_one ::
    "string \<times> string \<Rightarrow> price_values \<Rightarrow> string \<Rightarrow> int \<Rightarrow> price_alert \<Rightarrow> (price_alert \<times> alert_event option) res" where
  "evaluate_one key values uid now a =
     (if \<not> watches key a then Inr (a, None)
      else rbind (check_price_controls a) (\<lambda>_.
        case value_of (pa_source a) values of
          None \<Rightarrow> Inr (a, None)
        | Some x \<Rightarrow> Inr (observed a x,
            if fires a x then Some (crossing_event (fst key) (snd key) uid now a x) else None)))"

definition some_values :: "'a option list \<Rightarrow> 'a list" where
  "some_values xs = map the (filter (\<lambda>x. x \<noteq> None) xs)"

text \<open>\<open>fresh i\<close> is the identity and time the event of the \<open>i\<close>-th alert would get.\<close>

definition evaluate_alerts_for_contract ::
    "(nat \<Rightarrow> string \<times> int) \<Rightarrow> app_config \<Rightarrow> string \<Rightarrow> string \<Rightarrow> price_state \<Rightarrow> (app_config \<times> string list) res" where
  "evaluate_alerts_for_contract fresh cfg market_id contract_id st =
     (let key = price_state_key market_id contract_id in
      rbind (state_values st key) (\<lambda>values.
      rbind (rmap (\<lambda>(i, a). evaluate_one key values (fst (fresh i)) (snd (fresh i)) a) (enumerate 0 (cf_alerts cfg))) (\<lambda>results.
      let events = some_values (map snd results) in
      rbind (append_alert_events events cfg) (\<lambda>cfg'.
        Inr (cfg'\<lparr> cf_alerts := map fst results \<rparr>, map ae_message events)))))"

section \<open>Refreshing\<close>

record refreshed =
  rf_market_id :: string
  rf_contract_id :: string
  rf_values :: obj
  rf_messages :: "string list"
  rf_source :: string

text \<open>The new price state is kept even when the evaluation raises.\<close>

definition refresh_alert_price ::
    "(nat \<Rightarrow> string \<times> int) \<Rightarrow> app_config \<Rightarrow> registry \<Rightarrow> price_alert \<Rightarrow> price_state
       \<Rightarrow> price_state \<times> (app_config \<times> refreshed) res" where
  "refresh_alert_price fresh cfg registry a st =
     (let market_id = alert_market_id a; key = price_state_key market_id (pa_token_id a) in
      case rbind (require_alert_feed cfg registry market_id ''alert price refresh'') (\<lambda>ad.
             rbind (ad_get_price ad (pa_token_id a)) (\<lambda>snapshot.
             rbind (price_snapshot_values snapshot) (\<lambda>v. Inr (ps_source snapshot, values_obj v)))) of
        Inl e \<Rightarrow> (st, Inl e)
      | Inr (src, vals) \<Rightarrow>
          let st' = dset key vals st in
          (st', rbind (evaluate_alerts_for_contract fresh cfg market_id (pa_token_id a) st') (\<lambda>(cfg', messages).
             Inr (cfg', \<lparr> rf_market_id = fst key, rf_contract_id = snd key, rf_values = vals,
               rf_messages = messages, rf_source = src \<rparr>))))"

record refresh_state =
  rs_config :: app_config
  rs_prices :: price_state
  rs_refreshed :: "refreshed list"
  rs_problems :: "string list"
  rs_seen :: "(string \<times> string) list"

text \<open>One turn of \<open>refresh_all_alert_prices\<close> for the alert at position \<open>i\<close>, read from the current
  configuration: an earlier turn may have disabled it.\<close>

definition refresh_turn :: "(nat \<Rightarrow> nat \<Rightarrow> string \<times> int) \<Rightarrow> registry \<Rightarrow> nat \<Rightarrow> refresh_state \<Rightarrow> refresh_state res" where
  "refresh_turn fresh registry i rs =
     (if length (cf_alerts (rs_config rs)) \<le> i then Inr rs else
      let a = cf_alerts (rs_config rs) ! i; key = price_state_key (alert_market_id a) (pa_token_id a) in
      if \<not> pa_enabled a \<or> key \<in> set (rs_seen rs) then Inr rs
      else case refresh_alert_price (fresh i) (rs_config rs) registry a (rs_prices rs) of
          (st', Inr (cfg', r)) \<Rightarrow> Inr (rs\<lparr> rs_config := cfg', rs_prices := st', rs_refreshed := rs_refreshed rs @ [r],
             rs_seen := key # rs_seen rs \<rparr>)
        | (st', Inl e) \<Rightarrow> if exc_kind e = AlertEventCapacityError then Inl e
            else Inr (rs\<lparr> rs_prices := st', rs_seen := key # rs_seen rs,
              rs_problems := rs_problems rs @ [fst key @ '':'' @ snd key @ '': '' @ exc_text e] \<rparr>))"

definition refresh_all_alert_prices ::
    "(nat \<Rightarrow> nat \<Rightarrow> string \<times> int) \<Rightarrow> app_config \<Rightarrow> registry \<Rightarrow> price_state \<Rightarrow> refresh_state res" where
  "refresh_all_alert_prices fresh cfg registry st =
     rfold (refresh_turn fresh registry) [0..<length (cf_alerts cfg)]
       \<lparr> rs_config = cfg, rs_prices = st, rs_refreshed = [], rs_problems = [], rs_seen = [] \<rparr>"

section \<open>Views\<close>

definition status_label :: "string \<Rightarrow> string \<Rightarrow> obj" where
  "status_label label tone = [(''label'', PStr label), (''tone'', PStr tone)]"

definition alert_status :: "app_config \<Rightarrow> registry \<Rightarrow> price_alert \<Rightarrow> price_state \<Rightarrow> obj res" where
  "alert_status cfg registry a st =
     (let market_id = alert_market_id a in
      if \<not> pa_enabled a then Inr (status_label (if pa_triggered a then ''triggered/disabled'' else ''disabled'') ''neutral'')
      else if \<not> (case dget (cf_markets cfg) market_id of None \<Rightarrow> False | Some m \<Rightarrow> mc_enabled m)
      then Inr (status_label ''market disabled'' ''warn'')
      else case adapter_for_market cfg market_id registry of
          Inl e \<Rightarrow> Inr (status_label (''adapter unavailable: '' @ exc_text e) ''warn'')
        | Inr ad \<Rightarrow>
            if \<not> cap_alerts (ad_capabilities ad) then Inr (status_label ''alerts unsupported'' ''warn'')
            else if \<not> cap_price_reading (ad_capabilities ad) then Inr (status_label ''price feed unavailable'' ''warn'')
            else if pa_triggered a then Inr (status_label ''triggered'' ''warn'')
            else rbind (alert_current_value a st) (\<lambda>v.
              Inr (if v = None then status_label (''waiting for '' @ source_str (pa_source a)) ''neutral''
                else status_label ''armed'' ''good'')))"

definition alert_payload :: "app_config \<Rightarrow> registry \<Rightarrow> price_alert \<Rightarrow> price_state \<Rightarrow> obj res" where
  "alert_payload cfg registry a st =
     rbind (alert_values a st) (\<lambda>values.
     rbind (alert_current_value a st) (\<lambda>current.
     rbind (alert_status cfg registry a st) (\<lambda>status.
       Inr (dupdate (price_alert_to_dict a) [(''market_id'', PStr (alert_market_id a)), (''contract_id'', PStr (pa_token_id a)),
         (''values'', PDict (values_obj values)), (''current_value'', opt_float current), (''status'', PDict status)]))))"

end
