(* ===== verification/Web_Alerts_Laws.thy ===== *)
theory Web_Alerts_Laws
  imports Web_Alerts
begin

text \<open>
  Laws of the alert evaluation: what a successful evaluation does to the alerts and the history,
  when it is refused, and how often an alert fires over a sequence of prices.
\<close>

section \<open>One evaluation\<close>

definition after_values :: "string \<times> string \<Rightarrow> price_values \<Rightarrow> price_alert \<Rightarrow> price_alert" where
  "after_values key vs a =
     (if watches key a then (case value_of (pa_source a) vs of None \<Rightarrow> a | Some x \<Rightarrow> observed a x) else a)"

definition event_of :: "string \<times> string \<Rightarrow> price_values \<Rightarrow> string \<times> int \<Rightarrow> price_alert \<Rightarrow> alert_event option" where
  "event_of key vs f a =
     (if watches key a then (case value_of (pa_source a) vs of None \<Rightarrow> None
        | Some x \<Rightarrow> if fires a x then Some (crossing_event (fst key) (snd key) (fst f) (snd f) a x) else None)
      else None)"

lemma evaluate_one_Inr:
  "evaluate_one key vs uid now a = Inr (a', e) \<Longrightarrow> a' = after_values key vs a \<and> e = event_of key vs (uid, now) a"
  by (auto simp: evaluate_one_def after_values_def event_of_def rbind_eq_Inr split: if_splits option.splits)

lemma evaluate_one_ok:
  "price_alert_ok a \<Longrightarrow> evaluate_one key vs uid now a
     = Inr (after_values key vs a, event_of key vs (uid, now) a)"
  by (auto simp: evaluate_one_def after_values_def event_of_def price_alert_ok_def check_price_controls_def split: option.splits)

lemma rmap_enumerate:
  assumes "rmap (\<lambda>(i, x). f i x) (enumerate n xs) = Inr ys" "\<And>i x y. f i x = Inr y \<Longrightarrow> y = g i x"
  shows "ys = map (\<lambda>(i, x). g i x) (enumerate n xs)"
  using assms(1)
proof (induction xs arbitrary: n ys)
  case (Cons x xs)
  then show ?case using assms(2) by (auto simp: rbind_eq_Inr)
qed simp

lemma map_enumerate_snd: "map (\<lambda>(i, x). g x) (enumerate n xs) = map g xs"
  by (induction xs arbitrary: n) auto

lemma evaluate_all_ok:
  assumes "list_all price_alert_ok as"
  shows "rmap (\<lambda>(i, a). evaluate_one key vs (fst (fresh i)) (snd (fresh i)) a) (enumerate n as)
    = Inr (map (\<lambda>(i, a). (after_values key vs a, event_of key vs (fresh i) a)) (enumerate n as))"
  using assms by (induction as arbitrary: n) (simp_all add: evaluate_one_ok)

definition crossing_events ::
    "(nat \<Rightarrow> string \<times> int) \<Rightarrow> app_config \<Rightarrow> string \<times> string \<Rightarrow> price_values \<Rightarrow> alert_event list" where
  "crossing_events fresh cfg key vs =
     some_values (map (\<lambda>(i, a). event_of key vs (fresh i) a) (enumerate 0 (cf_alerts cfg)))"

lemma evaluate_alerts_Inr:
  assumes "evaluate_alerts_for_contract fresh cfg m c st = Inr (cfg', msgs)"
  obtains vs cfg1 where "state_values st (price_state_key m c) = Inr vs"
    "append_alert_events (crossing_events fresh cfg (price_state_key m c) vs) cfg = Inr cfg1"
    "cfg' = cfg1\<lparr> cf_alerts := map (after_values (price_state_key m c) vs) (cf_alerts cfg) \<rparr>"
    "msgs = map ae_message (crossing_events fresh cfg (price_state_key m c) vs)"
proof -
  let ?key = "price_state_key m c"
  from assms obtain vs results cfg1 where v: "state_values st ?key = Inr vs"
    and r: "rmap (\<lambda>(i, a). evaluate_one ?key vs (fst (fresh i)) (snd (fresh i)) a) (enumerate 0 (cf_alerts cfg)) = Inr results"
    and a: "append_alert_events (some_values (map snd results)) cfg = Inr cfg1"
    and c: "cfg' = cfg1\<lparr> cf_alerts := map fst results \<rparr>" "msgs = map ae_message (some_values (map snd results))"
    unfolding evaluate_alerts_for_contract_def Let_def by (elim rbind_InrE) auto
  have res: "results = map (\<lambda>(i, a). (after_values ?key vs a, event_of ?key vs (fresh i) a)) (enumerate 0 (cf_alerts cfg))"
    by (rule rmap_enumerate[OF r]) (metis evaluate_one_Inr prod.collapse)
  have "map fst results = map (after_values ?key vs) (cf_alerts cfg)"
    unfolding res using map_enumerate_snd[of "after_values ?key vs" 0 "cf_alerts cfg"]
    by (simp add: case_prod_unfold comp_def)
  moreover have "some_values (map snd results) = crossing_events fresh cfg ?key vs"
    unfolding res crossing_events_def by (simp add: case_prod_unfold comp_def)
  ultimately show thesis using that v a c by simp
qed

lemma append_alert_events_other:
  assumes "append_alert_events evs cfg = Inr cfg'"
  shows "cf_alerts cfg' = cf_alerts cfg" "cf_mutation_journal cfg' = cf_mutation_journal cfg"
    "cf_paper_trades cfg' = cf_paper_trades cfg" "cf_wallets cfg' = cf_wallets cfg"
    "cf_copy_activity_outbox cfg' = cf_copy_activity_outbox cfg" "cf_markets cfg' = cf_markets cfg"
    "cf_copytrading cfg' = cf_copytrading cfg"
  using assms append_alert_events_cases[of evs cfg cfg'] by (cases "evs = []"; auto simp: append_alert_events_def)+

section \<open>Firing\<close>

lemma observed_fixed [simp]:
  "pa_once (observed a x) = pa_once a" "pa_id (observed a x) = pa_id a" "pa_threshold (observed a x) = pa_threshold a"
  "pa_direction (observed a x) = pa_direction a" "pa_source (observed a x) = pa_source a"
  "pa_last_value (observed a x) = Some x"
  by (simp_all add: observed_def Let_def)

lemma alert_condition_observed [simp]: "alert_condition (observed a x) y = alert_condition a y"
  by (simp add: alert_condition_def)

lemma once_fires_disables: "pa_once a \<Longrightarrow> fires a x \<Longrightarrow> \<not> pa_enabled (observed a x)"
  by (simp add: observed_def Let_def)

lemma fires_condition: "fires a x \<Longrightarrow> alert_condition a x"
  by (simp add: fires_def crosses_def)

lemma fired_is_triggered: "fires a x \<Longrightarrow> pa_triggered (observed a x)"
  by (simp add: observed_def Let_def fires_condition)

text \<open>The run of one alert over a sequence of price updates.\<close>

fun alert_run :: "((string \<times> string) \<times> price_values \<times> string \<times> int) list \<Rightarrow> price_alert \<Rightarrow> (price_alert \<times> alert_event list) res" where
  "alert_run [] a = Inr (a, [])"
| "alert_run ((key, vs, uid, now) # us) a =
     rbind (evaluate_one key vs uid now a) (\<lambda>(a', e).
     rbind (alert_run us a') (\<lambda>(a'', es). Inr (a'', (case e of None \<Rightarrow> es | Some x \<Rightarrow> x # es))))"

lemma disabled_never_fires: "alert_run us a = Inr (a', es) \<Longrightarrow> \<not> pa_enabled a \<Longrightarrow> es = [] \<and> a' = a"
proof (induction us arbitrary: es)
  case (Cons u us)
  obtain key vs uid now where u: "u = (key, vs, uid, now)" by (cases u)
  have "evaluate_one key vs uid now a = Inr (a, None)"
    using Cons.prems(2) by (simp add: evaluate_one_def watches_def)
  then show ?case using Cons by (auto simp: u rbind_eq_Inr)
qed simp

lemma once_run:
  assumes "alert_run us a = Inr (a', es)" "pa_once a"
  shows "length es \<le> 1"
  using assms
proof (induction us arbitrary: a es)
  case (Cons u us)
  obtain key vs uid now where u: "u = (key, vs, uid, now)" by (cases u)
  from Cons.prems(1) obtain a1 e es1 where e: "evaluate_one key vs uid now a = Inr (a1, e)"
    and r: "alert_run us a1 = Inr (a', es1)" and es: "es = (case e of None \<Rightarrow> es1 | Some x \<Rightarrow> x # es1)"
    by (auto simp: u rbind_eq_Inr)
  from evaluate_one_Inr[OF e] have a1: "a1 = after_values key vs a" and ev: "e = event_of key vs (uid, now) a" by auto
  show ?case
  proof (cases e)
    case None
    have "pa_once a1" using Cons.prems(2) by (auto simp: a1 after_values_def split: option.splits)
    with Cons.IH[OF r] None es show ?thesis by simp
  next
    case (Some x)
    then obtain v where v: "fires a v" "watches key a" "value_of (pa_source a) vs = Some v"
      by (auto simp: ev event_of_def split: if_splits option.splits)
    then have "\<not> pa_enabled a1" using once_fires_disables Cons.prems(2) by (simp add: a1 after_values_def)
    from disabled_never_fires[OF r this] Some es show ?thesis by simp
  qed
qed simp

text \<open>After it fired an alert stays silent while the condition holds.\<close>

lemma triggered_silent: "pa_triggered a \<Longrightarrow> \<not> fires a y"
  by (simp add: fires_def)

lemma triggered_stays: "pa_triggered a \<Longrightarrow> alert_condition a y \<Longrightarrow> pa_triggered (observed a y)"
  by (simp add: observed_def Let_def)

lemma silent_run:
  assumes "alert_run us a = Inr (a', es)" "pa_triggered a"
    and "\<And>key vs uid now x. (key, vs, uid, now) \<in> set us \<Longrightarrow> value_of (pa_source a) vs = Some x \<Longrightarrow> alert_condition a x"
  shows "es = []"
  using assms
proof (induction us arbitrary: a es)
  case (Cons u us)
  obtain key vs uid now where u: "u = (key, vs, uid, now)" by (cases u)
  from Cons.prems(1) obtain a1 e es1 where e: "evaluate_one key vs uid now a = Inr (a1, e)"
    and r: "alert_run us a1 = Inr (a', es1)" and es: "es = (case e of None \<Rightarrow> es1 | Some x \<Rightarrow> x # es1)"
    by (auto simp: u rbind_eq_Inr)
  from evaluate_one_Inr[OF e] have a1: "a1 = after_values key vs a" and ev: "e = event_of key vs (uid, now) a" by auto
  have "e = None" using triggered_silent[OF Cons.prems(2)] by (auto simp: ev event_of_def split: option.splits)
  moreover have "es1 = []"
  proof (rule Cons.IH[OF r])
    show "pa_triggered a1"
      using Cons.prems(2) triggered_stays Cons.prems(3)[of key vs uid now]
      by (cases "value_of (pa_source a) vs") (simp_all add: a1 after_values_def u)
    fix key' vs' uid' now' x
    assume "(key', vs', uid', now') \<in> set us" "value_of (pa_source a1) vs' = Some x"
    then show "alert_condition a1 x"
      using Cons.prems(3)[of key' vs' uid' now' x] by (auto simp: a1 after_values_def split: option.splits if_splits)
  qed
  ultimately show ?case by (simp add: es)
qed simp

text \<open>The updates at which the alert saw a value that does not satisfy its condition.\<close>

definition clears :: "price_alert \<Rightarrow> (string \<times> string) \<times> price_values \<times> string \<times> int \<Rightarrow> bool" where
  "clears a u = (case value_of (pa_source a) (fst (snd u)) of None \<Rightarrow> False | Some x \<Rightarrow> \<not> alert_condition a x)"

lemma after_values_fixed [simp]:
  "pa_id (after_values key vs a) = pa_id a" "pa_source (after_values key vs a) = pa_source a"
  "pa_once (after_values key vs a) = pa_once a" "pa_threshold (after_values key vs a) = pa_threshold a"
  "pa_direction (after_values key vs a) = pa_direction a"
  by (simp_all add: after_values_def split: option.splits)

lemma alert_condition_after [simp]: "alert_condition (after_values key vs a) = alert_condition a"
  by (rule ext) (simp add: alert_condition_def)

lemma clears_after [simp]: "clears (after_values key vs a) = clears a"
  by (rule ext) (simp add: clears_def split: option.split)

lemma triggered_until_clear:
  "pa_triggered a \<Longrightarrow> \<not> clears a (key, vs, f) \<Longrightarrow> pa_triggered (after_values key vs a)"
  by (auto simp: after_values_def clears_def triggered_stays split: option.splits)

lemma event_triggers:
  assumes "event_of key vs f a = Some e"
  shows "\<not> pa_triggered a \<and> pa_triggered (after_values key vs a) \<and> \<not> clears a (key, vs, g)"
  using assms fired_is_triggered
  by (auto simp: event_of_def after_values_def clears_def fires_condition split: if_splits option.splits)
    (auto simp: fires_def)

lemma rearm_run:
  assumes "alert_run us a = Inr (a', es)"
  shows "length es + (if pa_triggered a then 1 else 0) \<le> 1 + length (filter (clears a) us)"
  using assms
proof (induction us arbitrary: a es)
  case (Cons u us)
  obtain key vs uid now where u: "u = (key, vs, uid, now)" by (cases u)
  from Cons.prems(1) obtain a1 e es1 where e: "evaluate_one key vs uid now a = Inr (a1, e)"
    and r: "alert_run us a1 = Inr (a', es1)" and es: "es = (case e of None \<Rightarrow> es1 | Some x \<Rightarrow> x # es1)"
    by (auto simp: u rbind_eq_Inr)
  from evaluate_one_Inr[OF e] have a1: "a1 = after_values key vs a" and ev: "e = event_of key vs (uid, now) a" by auto
  have IH: "length es1 + (if pa_triggered a1 then 1 else 0) \<le> 1 + length (filter (clears a) us)"
    using Cons.IH[OF r] by (simp add: a1)
  show ?case
  proof (cases e)
    case None
    have "pa_triggered a \<Longrightarrow> \<not> clears a u \<Longrightarrow> pa_triggered a1"
      using triggered_until_clear by (simp add: a1 u)
    with IH show ?thesis by (auto simp: es None split: if_splits)
  next
    case (Some x)
    with event_triggers[of key vs "(uid, now)" a x] have "\<not> pa_triggered a" "pa_triggered a1" by (simp_all add: ev a1)
    with IH show ?thesis by (auto simp: es Some)
  qed
qed simp

section \<open>Refreshing\<close>

lemma evaluate_alerts_ids:
  assumes "evaluate_alerts_for_contract fresh cfg m c st = Inr (cfg', msgs)"
  shows "map pa_id (cf_alerts cfg') = map pa_id (cf_alerts cfg)"
  using assms by (elim evaluate_alerts_Inr) (simp add: comp_def)

lemma refresh_alert_price_Inr:
  assumes "refresh_alert_price fresh cfg registry a st = (st', Inr (cfg', r))"
  shows "(rf_market_id r, rf_contract_id r) = price_state_key (alert_market_id a) (pa_token_id a)
     \<and> map pa_id (cf_alerts cfg') = map pa_id (cf_alerts cfg)"
  using assms evaluate_alerts_ids
  by (auto simp: refresh_alert_price_def Let_def rbind_eq_Inr split: sum.splits prod.splits)

definition refresh_inv :: "string list \<Rightarrow> refresh_state \<Rightarrow> bool" where
  "refresh_inv ids rs \<longleftrightarrow> map pa_id (cf_alerts (rs_config rs)) = ids \<and> distinct (rs_seen rs)
     \<and> distinct (map (\<lambda>r. (rf_market_id r, rf_contract_id r)) (rs_refreshed rs))
     \<and> (\<lambda>r. (rf_market_id r, rf_contract_id r)) ` set (rs_refreshed rs) \<subseteq> set (rs_seen rs)
     \<and> length (rs_refreshed rs) + length (rs_problems rs) = length (rs_seen rs)"

lemma refresh_turn_inv:
  assumes "refresh_turn fresh registry i rs = Inr rs'" "refresh_inv ids rs"
  shows "refresh_inv ids rs'"
proof (cases "length (cf_alerts (rs_config rs)) \<le> i")
  case False
  define a where "a = cf_alerts (rs_config rs) ! i"
  define key where "key = price_state_key (alert_market_id a) (pa_token_id a)"
  show ?thesis
  proof (cases "\<not> pa_enabled a \<or> key \<in> set (rs_seen rs)")
    case True
    then show ?thesis using assms False by (auto simp: refresh_turn_def a_def key_def Let_def)
  next
    case new: False
    obtain st' res where p: "refresh_alert_price (fresh i) (rs_config rs) registry a (rs_prices rs) = (st', res)" by fastforce
    show ?thesis
    proof (cases res)
      case (Inl e)
      then show ?thesis using assms False new p
        by (auto simp: refresh_turn_def a_def[symmetric] key_def[symmetric] Let_def refresh_inv_def image_subset_iff split: if_splits)
    next
      case (Inr cr)
      obtain cfg' r where cr: "cr = (cfg', r)" by fastforce
      note f = refresh_alert_price_Inr[OF p[unfolded Inr cr]]
      have "rs' = rs\<lparr> rs_config := cfg', rs_prices := st', rs_refreshed := rs_refreshed rs @ [r], rs_seen := key # rs_seen rs \<rparr>"
        using assms(1) False new p by (simp add: refresh_turn_def a_def[symmetric] key_def[symmetric] Let_def Inr cr)
      with f assms(2) new show ?thesis by (auto simp: refresh_inv_def key_def)
    qed
  qed
qed (use assms in \<open>simp add: refresh_turn_def\<close>)

lemma refresh_all_inv:
  assumes "refresh_all_alert_prices fresh cfg registry st = Inr rs"
  shows "refresh_inv (map pa_id (cf_alerts cfg)) rs"
proof -
  have "refresh_inv (map pa_id (cf_alerts cfg))
      \<lparr> rs_config = cfg, rs_prices = st, rs_refreshed = [], rs_problems = [], rs_seen = [] \<rparr>"
    by (simp add: refresh_inv_def)
  from rfold_invariant[OF assms[unfolded refresh_all_alert_prices_def], of "refresh_inv (map pa_id (cf_alerts cfg))", OF this]
  show ?thesis using refresh_turn_inv by blast
qed

section \<open>Accepted alerts\<close>

declare MARKET_IDS_list [code]

lemma check_price_controls_Inr:
  "check_price_controls a = Inr u \<longleftrightarrow> probability (pa_threshold a) \<and> (case pa_last_value a of None \<Rightarrow> True | Some v \<Rightarrow> probability v)"
  by (auto simp: check_price_controls_def rbind_eq_Inr alert_probability_Inr split: option.splits)

lemma alert_candidate_ok:
  assumes "alert_candidate uid now payload existing = Inr a"
  shows "price_alert_ok a \<and> pa_market_id a \<in> set MARKET_IDS \<and> strip (pa_token_id a) = pa_token_id a
     \<and> pa_last_value a = None \<and> \<not> pa_triggered a \<and> pa_id a = uid"
  using assms unfolding alert_candidate_def Let_def
  by (elim rbind_InrE if_error_InrE option_error_InrE, simp only: sum.inject, hypsubst)
    (auto simp: price_alert_ok_def check_alert_text_def check_price_controls_Inr rbind_eq_Inr)

lemma alert_from_payload_Inr:
  assumes "alert_from_payload cfg registry uid now payload existing = Inr a"
  obtains cand where "alert_candidate uid now payload existing = Inr cand"
    "a = (case existing of None \<Rightarrow> cand | Some old \<Rightarrow> edited_alert old cand)"
    "existing = None \<or> pa_enabled cand \<Longrightarrow> \<exists>ad. require_alert_feed cfg registry (pa_market_id cand) ''price alerts'' = Inr ad"
  using assms that unfolding alert_from_payload_def Let_def
  by (elim rbind_InrE) (auto simp: rbind_eq_Inr split: if_splits)

lemma require_alert_feed_Inr:
  assumes "require_alert_feed cfg registry m f = Inr ad"
  shows "(\<exists>c. dget (cf_markets cfg) m = Some c \<and> mc_enabled c) \<and> adapter_for_market cfg m registry = Inr ad
     \<and> cap_alerts (ad_capabilities ad) \<and> cap_price_reading (ad_capabilities ad)"
  using assms unfolding require_alert_feed_def
  by (elim rbind_InrE) (auto simp: require_market_enabled_Inr)

end
