(* ===== verification/Alert_Theorems.thy ===== *)
theory Alert_Theorems
  imports Web_Alerts_Laws
begin

text \<open>
  Properties of the price alerts: what an evaluation changes and when it is refused, how often an
  alert fires, what a refresh of all alerts visits, and which alerts the API accepts.
\<close>

section \<open>Evaluation\<close>


section \<open>Firing\<close>

text \<open>C15: A one-shot alert raises at most one notification over any sequence of prices.\<close>

theorem one_shot_fires_once:
  "alert_run updates a = Inr (a', events) \<Longrightarrow> pa_once a \<Longrightarrow> length events \<le> 1"
  by (rule once_run)

text \<open>C14: Between two notifications of the same alert a value was seen that does not satisfy its
  condition: an alert never repeats itself while the price stays beyond the threshold.\<close>

theorem fires_once_per_crossing:
  "alert_run updates a = Inr (a', events) \<Longrightarrow>
     length events + (if pa_triggered a then 1 else 0) \<le> 1 + length (filter (clears a) updates)"
  by (rule rearm_run)

section \<open>Refreshing\<close>

text \<open>Refreshing all alerts asks the venue for each contract at most once, reports every visited
  contract either as refreshed or as a problem, and neither adds, drops nor reorders alerts.\<close>

theorem refresh_visits_contracts_once:
  "refresh_all_alert_prices fresh cfg registry st = Inr rs \<Longrightarrow>
     distinct (map (\<lambda>r. (rf_market_id r, rf_contract_id r)) (rs_refreshed rs)) \<and> distinct (rs_seen rs)
     \<and> length (rs_refreshed rs) + length (rs_problems rs) = length (rs_seen rs)
     \<and> map pa_id (cf_alerts (rs_config rs)) = map pa_id (cf_alerts cfg)"
  using refresh_all_inv by (fastforce simp: refresh_inv_def)

section \<open>Accepted alerts\<close>

text \<open>Every alert the API creates or edits is one that the configuration reader accepts and that
  the evaluation can match; an edited alert keeps its identity, and keeps its trigger state only
  when what it watches is unchanged. A new or enabled alert is on an enabled market whose
  adapter offers alerts and prices.\<close>

theorem accepted_alert_is_sound:
  assumes "alert_from_payload cfg registry uid now payload existing = Inr a"
    and "case existing of None \<Rightarrow> True | Some old \<Rightarrow> price_alert_ok old"
  shows "price_alert_ok a \<and> pa_market_id a \<in> set MARKET_IDS \<and> strip (pa_token_id a) = pa_token_id a
     \<and> (case existing of
          None \<Rightarrow> pa_id a = uid \<and> \<not> pa_triggered a \<and> pa_last_value a = None
        | Some old \<Rightarrow> pa_id a = pa_id old \<and> pa_created_at a = pa_created_at old
            \<and> (if same_watch old a then pa_triggered a = pa_triggered old \<and> pa_last_value a = pa_last_value old
               else \<not> pa_triggered a \<and> pa_last_value a = None))
     \<and> ((existing \<noteq> None \<and> \<not> pa_enabled a) \<or> (\<exists>m ad. dget (cf_markets cfg) (pa_market_id a) = Some m \<and> mc_enabled m
          \<and> adapter_for_market cfg (pa_market_id a) registry = Inr ad
          \<and> cap_alerts (ad_capabilities ad) \<and> cap_price_reading (ad_capabilities ad)))"
proof -
  obtain cand where c: "alert_candidate uid now payload existing = Inr cand"
    and a: "a = (case existing of None \<Rightarrow> cand | Some old \<Rightarrow> edited_alert old cand)"
    and f: "existing = None \<or> pa_enabled cand \<Longrightarrow> \<exists>ad. require_alert_feed cfg registry (pa_market_id cand) ''price alerts'' = Inr ad"
    using alert_from_payload_Inr[OF assms(1)] by blast
  note k = alert_candidate_ok[OF c]
  have fixed: "pa_market_id a = pa_market_id cand" "pa_token_id a = pa_token_id cand" "pa_enabled a = pa_enabled cand"
    by (simp_all add: a edited_alert_def split: option.splits)
  have ok: "price_alert_ok a"
    using k assms(2) by (auto simp: a price_alert_ok_def edited_alert_def split: option.splits)
  have feed: "(existing \<noteq> None \<and> \<not> pa_enabled a) \<or> (\<exists>m ad. dget (cf_markets cfg) (pa_market_id a) = Some m \<and> mc_enabled m
          \<and> adapter_for_market cfg (pa_market_id a) registry = Inr ad
          \<and> cap_alerts (ad_capabilities ad) \<and> cap_price_reading (ad_capabilities ad))"
    using f require_alert_feed_Inr by (fastforce simp: fixed)
  have id: "case existing of
          None \<Rightarrow> pa_id a = uid \<and> \<not> pa_triggered a \<and> pa_last_value a = None
        | Some old \<Rightarrow> pa_id a = pa_id old \<and> pa_created_at a = pa_created_at old
            \<and> (if same_watch old a then pa_triggered a = pa_triggered old \<and> pa_last_value a = pa_last_value old
               else \<not> pa_triggered a \<and> pa_last_value a = None)"
    using k by (auto simp: a edited_alert_def same_watch_def split: option.splits)
  show ?thesis using ok k feed id by (simp add: fixed)
qed

section \<open>Instances\<close>

definition sample_alert :: price_alert where
  "sample_alert = \<lparr> pa_token_id = ''c1'', pa_label = ''Rain'', pa_direction = Above, pa_threshold = Fin (1/2),
     pa_source = Midpoint, pa_once = True, pa_enabled = True, pa_market_id = ''polymarket'', pa_id = ''a1'',
     pa_created_at = PInt 3, pa_last_value = None, pa_triggered = False \<rparr>"

definition alert_config :: "copy_settings \<Rightarrow> app_config" where
  "alert_config settings = \<lparr> cf_alerts = [sample_alert], cf_alert_events = [], cf_paper_trades = [], cf_wallets = [],
     cf_copy_activity_outbox = [], cf_mutation_journal = [], cf_copytrading = settings,
     cf_markets = [(''polymarket'', \<lparr> mc_market_id = ''polymarket'', mc_enabled = True, mc_settings = [] \<rparr>)],
     cf_selected_market_id = ''polymarket'', cf_theme = Light, cf_ui_design = Aurora2026 \<rparr>"

definition sample_values :: price_values where
  "sample_values = \<lparr> pv_last_trade = None, pv_midpoint = Some (Fin (3/4)), pv_best_bid = None, pv_best_ask = None \<rparr>"

definition sample_prices :: price_state where
  "sample_prices = [((''polymarket'', ''c1''), values_obj sample_values)]"

definition sample_adapter :: adapter where
  "sample_adapter = \<lparr> ad_capabilities = default_capabilities\<lparr> cap_alerts := True, cap_price_reading := True \<rparr>,
     ad_display_name = ''Polymarket'',
     ad_get_price = (\<lambda>c. Inr \<lparr> ps_market_id = ''polymarket'', ps_contract_id = c, ps_last = PNone, ps_bid = PNone,
       ps_ask = PNone, ps_midpoint = PFloat (Fin (3/4)), ps_source = ''rest'', ps_raw = [] \<rparr>) \<rparr>"

definition sample_update :: "(string \<times> string) \<times> price_values \<times> string \<times> int" where
  "sample_update = ((''polymarket'', ''c1''), sample_values, ''e1'', 7)"

lemma sample_run: "\<exists>a'. alert_run [sample_update, sample_update] sample_alert
    = Inr (a', [crossing_event ''polymarket'' ''c1'' ''e1'' 7 sample_alert (Fin (3/4))])"
proof -
  have "price_alert_ok sample_alert" "watches (''polymarket'', ''c1'') sample_alert" "fires sample_alert (Fin (3/4))"
    "\<not> watches (''polymarket'', ''c1'') (observed sample_alert (Fin (3/4)))" by code_simp+
  then show ?thesis
    by (simp add: sample_update_def evaluate_one_ok after_values_def event_of_def sample_values_def)
      (simp add: evaluate_one_def sample_alert_def)
qed

definition sample_crossing :: alert_event where
  "sample_crossing = crossing_event ''polymarket'' ''c1'' ''e1'' 7 sample_alert (Fin (3/4))"


theorem one_shot_fires_once_witness:
  "\<exists>a' events. alert_run [sample_update, sample_update] sample_alert = Inr (a', events) \<and> events \<noteq> [] \<and> length events \<le> 1"
proof -
  obtain a' where r: "alert_run [sample_update, sample_update] sample_alert
      = Inr (a', [crossing_event ''polymarket'' ''c1'' ''e1'' 7 sample_alert (Fin (3/4))])"
    using sample_run by blast
  show ?thesis using one_shot_fires_once[OF r] r by (simp add: sample_alert_def)
qed

theorem fires_once_per_crossing_witness:
  "\<exists>a' events. alert_run [sample_update, sample_update] sample_alert = Inr (a', events)
     \<and> length events \<le> 1 + length (filter (clears sample_alert) [sample_update, sample_update])"
proof -
  obtain a' where r: "alert_run [sample_update, sample_update] sample_alert
      = Inr (a', [crossing_event ''polymarket'' ''c1'' ''e1'' 7 sample_alert (Fin (3/4))])"
    using sample_run by blast
  show ?thesis using fires_once_per_crossing[OF r] r by (intro exI conjI) (assumption, simp)
qed

definition sample_registry :: registry where
  "sample_registry m settings = Inr sample_adapter"

definition enabled_config :: "copy_settings \<Rightarrow> app_config" where
  "enabled_config settings = alert_config settings\<lparr> cf_alerts := [sample_alert, sample_alert\<lparr> pa_id := ''a2'' \<rparr>] \<rparr>"

lemma sample_refresh:
  "case refresh_all_alert_prices (\<lambda>i j. (''e'' @ nat_str j, 7)) (enabled_config settings) sample_registry [] of
     Inl _ \<Rightarrow> False | Inr rs \<Rightarrow> map rf_contract_id (rs_refreshed rs) = [''c1''] \<and> rs_problems rs = []"
  by code_simp

theorem refresh_visits_contracts_once_witness:
  "\<exists>rs. refresh_all_alert_prices (\<lambda>i j. (''e'' @ nat_str j, 7)) (enabled_config default_copy_settings) sample_registry [] = Inr rs
     \<and> map rf_contract_id (rs_refreshed rs) = [''c1''] \<and> length (rs_seen rs) = 1"
proof -
  obtain rs where rs: "refresh_all_alert_prices (\<lambda>i j. (''e'' @ nat_str j, 7)) (enabled_config default_copy_settings) sample_registry [] = Inr rs"
    and c: "map rf_contract_id (rs_refreshed rs) = [''c1'']" "rs_problems rs = []"
    using sample_refresh[of default_copy_settings] by (auto split: sum.splits)
  have "length (rs_refreshed rs) = 1" using arg_cong[OF c(1), of length] by simp
  then show ?thesis using refresh_visits_contracts_once[OF rs] rs c by auto
qed

lemma sample_edit:
  "case alert_from_payload (enabled_config settings) sample_registry ''n1'' 9 [(''threshold'', PFloat (Fin (1/4)))] (Some sample_alert) of
     Inl _ \<Rightarrow> False | Inr a \<Rightarrow> pa_last_value a = None \<and> pa_threshold a = Fin (1/4)"
  by code_simp

theorem accepted_alert_is_sound_witness:
  "\<exists>a. alert_from_payload (enabled_config default_copy_settings) sample_registry ''n1'' 9 [(''threshold'', PFloat (Fin (1/4)))] (Some sample_alert) = Inr a
     \<and> pa_id a = ''a1'' \<and> pa_last_value a = None \<and> price_alert_ok a"
proof -
  have ok: "price_alert_ok sample_alert" by code_simp
  obtain a where a: "alert_from_payload (enabled_config default_copy_settings) sample_registry ''n1'' 9 [(''threshold'', PFloat (Fin (1/4)))] (Some sample_alert) = Inr a"
    and v: "pa_last_value a = None"
    using sample_edit[of default_copy_settings] by (auto split: sum.splits)
  show ?thesis
    using accepted_alert_is_sound[OF a] ok v a by (simp add: sample_alert_def)
qed

end
