(* ===== verification/Mutation_Theorems.thy ===== *)
theory Mutation_Theorems
  imports Web_Mutations
begin

text \<open>
  Properties of one durable mutation request: when the handler may reach a venue adapter, what a
  repeated request is answered with, and what the stored and shown results may contain.
\<close>

section \<open>Helper facts\<close>

lemma find_update_first_unique:
  assumes "distinct (map k xs)" "List.find Q xs = Some x" "\<And>y. Q (f y) = Q y"
  shows "List.find Q (update_first (\<lambda>y. k y = k x) f xs) = Some (f x)"
  using assms
proof (induction xs)
  case (Cons y xs)
  show ?case
  proof (cases "Q y")
    case True
    with Cons.prems show ?thesis by simp
  next
    case False
    then have "x \<in> set xs" using Cons.prems(2) find_SomeD[of Q xs x] by simp
    then have "k y \<noteq> k x" using Cons.prems(1) by force
    with False Cons show ?thesis by simp
  qed
qed simp

lemma finished_entry_fixed [simp]:
  "mj_id (finished_entry out now e) = mj_id e" "mj_key_hash (finished_entry out now e) = mj_key_hash e"
  "mj_live (finished_entry out now e) = mj_live e" "mj_path (finished_entry out now e) = mj_path e"
  "mj_method (finished_entry out now e) = mj_method e" "mj_request_hash (finished_entry out now e) = mj_request_hash e"
  "mj_replay_authorized_at (finished_entry out now e) = mj_replay_authorized_at e"
  by (cases out; simp)+

lemma live_route_checks_market:
  "live_route_checks ops cfg r = Inr u \<Longrightarrow> \<exists>c. dget (cf_markets cfg) (route_market (rq_path r)) = Some c \<and> mc_enabled c"
  unfolding live_route_checks_def Let_def
  by (auto simp: rbind_eq_Inr require_market_enabled_Inr split: if_splits)

lemma barrier_existing:
  assumes "prepare_existing views now cfg r old = Inr (Barrier cfg' e)"
  shows "is_live_order_management_route (rq_method r) (rq_path r) \<and> mj_state old = Retryable \<and> mj_replay_authorized_at old \<noteq> 0
     \<and> mutation_request_hash (rq_payload r) = Inr (mj_request_hash old) \<and> e = retry_started now old
     \<and> cfg' = cfg\<lparr> cf_mutation_journal := update_first (\<lambda>x. mj_key_hash x = mj_key_hash old) (retry_started now) (cf_mutation_journal cfg) \<rparr>"
  using assms unfolding prepare_existing_def assert_mutation_request_matches_def
  by (elim rbind_InrE) (auto simp: rbind_eq_Inr split: if_splits)

lemma barrier_new:
  assumes "prepare_new uid now cfg r = Inr (Barrier cfg' e)"
  shows "is_live_order_management_route (rq_method r) (rq_path r) \<and> append_mutation_journal e cfg = Inr cfg'
     \<and> mj_key_hash e = mutation_key_hash (rq_key r) \<and> mj_state e = Pending \<and> mj_live e \<and> mj_replay_authorized_at e = 0"
  using assms new_mutation_journal_entry_Inr unfolding prepare_new_def Let_def
  by (elim rbind_InrE) (fastforce simp: rbind_eq_Inr split: if_splits)

section \<open>The barrier\<close>


section \<open>Repeated requests\<close>

text \<open>A key that was used for another route or another body is refused as a conflict, whatever
  became of the first request, and nothing is prepared.\<close>

theorem reused_key_conflicts:
  assumes "find_journal_entry cfg (rq_key r) = Some e" "mutation_request_hash (rq_payload r) = Inr h"
    and "\<not> (mj_method e = upper (strip (rq_method r)) \<and> mj_path e = strip (rq_path r) \<and> mj_request_hash e = h)"
    and "is_live_order_management_route (rq_method r) (rq_path r) \<Longrightarrow> live_route_checks ops cfg r = Inr ()"
  shows "\<exists>msg. prepare_mutation ops views uid now cfg r = Inl (Exc IdempotencyConflictError msg)"
  using assms
  by (auto simp: prepare_mutation_def prepare_existing_def assert_mutation_request_matches_def require_def)

text \<open>C3: A client that repeats a live request after its outcome was saved gets the reply of the
  first attempt, byte for byte, and the adapter is not called again; when the outcome is unknown
  the reply asks for reconciliation.\<close>

theorem repeated_request_is_replayed:
  assumes "find_journal_entry cfg (rq_key r) = Some e" "distinct (map mj_id (cf_mutation_journal cfg))"
    and "assert_mutation_request_matches e (rq_method r) (rq_path r) (rq_payload r) = Inr ()"
    and "is_live_order_management_route (rq_method r) (rq_path r)"
    and "rq_path r \<notin> {''/api/alerts'', ''/api/wallets/poll''}"
    and "live_route_checks ops (finished_config out now cfg e) r = Inr ()"
  shows "prepare_mutation ops views uid later (finished_config out now cfg e) r
     = Inr (Replied (if out = UnknownError then unresolved_reply (finished_entry out now e) else finished_reply out True e))"
proof -
  have f: "find_journal_entry (finished_config out now cfg e) (rq_key r) = Some (finished_entry out now e)"
    unfolding find_journal_entry_def finished_config_def
    using find_update_first_unique[OF assms(2) assms(1)[unfolded find_journal_entry_def], of "finished_entry out now"]
    by simp
  have m: "assert_mutation_request_matches (finished_entry out now e) (rq_method r) (rq_path r) (rq_payload r) = Inr ()"
    using assms(3) by (simp add: assert_mutation_request_matches_def)
  show ?thesis
    using assms(4,5,6) f m
    by (cases out) (simp_all add: prepare_mutation_def prepare_existing_def replayed_response_def rejected_reply_def)
qed

section \<open>Admission\<close>

text \<open>A request that passes admission has a key of at most 128 visible ASCII characters or none;
  a durable route has one, taken from the header; a route without replay has none.\<close>

theorem admitted_key_is_sound:
  assumes "admitted_key meth path header payload = Inr key"
  shows "length key \<le> 128 \<and> list_all visible_ascii key
     \<and> (is_general_durable_mutation meth path \<longrightarrow> key \<noteq> [] \<and> key = header)
     \<and> (meth = ''POST'' \<and> path \<in> set IDEMPOTENT_MUTATION_ROUTES \<longrightarrow> key \<noteq> [])
     \<and> (\<not> is_general_durable_mutation meth path \<and> \<not> (meth = ''POST'' \<and> path \<in> set IDEMPOTENT_MUTATION_ROUTES) \<longrightarrow> key = [])"
proof -
  have "idempotency_key_ok key" using admitted_key_ok(1)[OF assms] .
  moreover have "is_general_durable_mutation meth path \<longrightarrow> key \<noteq> [] \<and> key = header" using admitted_key_ok(2)[OF assms] by blast
  moreover have "meth = ''POST'' \<and> path \<in> set IDEMPOTENT_MUTATION_ROUTES \<longrightarrow> key \<noteq> []"
    "\<not> is_general_durable_mutation meth path \<and> \<not> (meth = ''POST'' \<and> path \<in> set IDEMPOTENT_MUTATION_ROUTES) \<longrightarrow> key = []"
    using assms unfolding admitted_key_def by (auto simp: rbind_eq_Inr Let_def split: if_splits)
  ultimately show ?thesis by (simp add: idempotency_key_ok_def IDEMPOTENCY_KEY_MAX_LENGTH_def) blast
qed

section \<open>Redaction\<close>

text \<open>Redaction leaves no value below a key that names a credential, at any depth, and redacting
  again changes nothing.\<close>

theorem redaction_is_complete:
  "redaction_complete key (sanitize_audit_value v key)
     \<and> sanitize_audit_value (sanitize_audit_value v key) key = sanitize_audit_value v key"
  using sanitize_complete sanitize_idem by blast

lemma digest_chars: "is_digest s \<Longrightarrow> c \<in> set s \<Longrightarrow> is_hex_lower c"
  by (simp add: is_digest_def list_all_iff)

lemma set_strip: "set (strip s) \<subseteq> set s"
  by (auto simp: strip_def dest!: set_dropWhileD)

lemma upper_hex_no_dash: "is_hex_lower c \<Longrightarrow> CHR ''-'' \<notin> set (upper_char c)"
  by (auto simp: upper_char_def is_hex_lower_def is_digit_def Let_def dest!: arg_cong[of "CHR ''-''" _ ord] split: if_splits)

lemma split_on_none: "c \<notin> set s \<Longrightarrow> split_on c s = [s]"
  by (induction s) auto

text \<open>A digest is no credential: it has no dot, no colon and no dash.\<close>

lemma digest_not_secret:
  assumes "is_digest s"
  shows "\<not> looks_like_embedded_secret (PStr s)"
proof -
  have h: "is_hex_lower c" if "c \<in> set (strip s)" for c
    using that digest_chars[OF assms] set_strip by blast
  have "CHR ''-'' \<notin> set (upper (strip s))"
    using h upper_hex_no_dash by (auto simp: upper_def)
  moreover have "CHR '':'' \<notin> set (strip s)" "CHR ''.'' \<notin> set (strip s)"
    using h by (force simp: is_hex_lower_def is_digit_def)+
  ultimately show ?thesis
    using contains_mem[of "upper (strip s)"] contains_mem[of "strip s"]
    by (auto simp: looks_like_embedded_secret_def Let_def is_jwt_value_def split_on_none)
qed

lemma receipt_keys:
  "entry_verdict ''ok'' (PBool True) = Descend"
  "\<not> looks_like_embedded_secret (PDict d) \<Longrightarrow> entry_verdict ''mutation_result'' (PDict d) = Descend"
  "entry_verdict ''stored'' (PStr ''receipt_only'') = Descend"
  "entry_verdict ''reason'' (PStr ''sensitive_fields_were_redacted'') = Descend"
  "is_digest h \<Longrightarrow> entry_verdict ''sha256'' (PStr h) = Descend"
proof -
  have n: "normalize_config_key ''mutation_result'' = ''mutation_result''" "normalize_config_key ''sha256'' = ''sha256''"
    "\<not> is_reference_key ''mutation_result''" "\<not> is_reference_key ''sha256''"
    "\<not> is_sensitive_config_key ''mutation_result''" "\<not> is_sensitive_config_key ''sha256''"
    "''mutation_result'' \<notin> set SENSITIVE_CONTAINER_KEYS" "''sha256'' \<notin> set SENSITIVE_CONTAINER_KEYS"
    by code_simp+
  show "entry_verdict ''ok'' (PBool True) = Descend" "entry_verdict ''stored'' (PStr ''receipt_only'') = Descend"
    "entry_verdict ''reason'' (PStr ''sensitive_fields_were_redacted'') = Descend" by code_simp+
  show "\<not> looks_like_embedded_secret (PDict d) \<Longrightarrow> entry_verdict ''mutation_result'' (PDict d) = Descend"
    by (simp add: entry_verdict_def n Let_def)
  show "is_digest h \<Longrightarrow> entry_verdict ''sha256'' (PStr h) = Descend"
    by (simp add: entry_verdict_def n Let_def digest_not_secret)
qed

lemma redacted_receipt_safe: "persisted_secret_paths (PDict (redacted_receipt stored)) path = []"
  by (simp add: redacted_receipt_def receipt_keys looks_like_embedded_secret_def)

text \<open>Whatever an adapter or a handler returns, the result stored for replay passes the check
  that guards the configuration file against credentials, so recording an outcome can never
  make the configuration unsavable.\<close>

theorem stored_result_has_no_secret:
  "assert_no_persisted_secrets (PDict (stored_mutation_result payload preserve_shape max_bytes)) = Inr ()"
  by (auto simp: stored_mutation_result_def Let_def assert_no_persisted_secrets_Inr redacted_receipt_safe split: sum.splits
      simp del: persisted_secret_paths.simps)

section \<open>Instances\<close>

definition sample_ops :: ops where
  "sample_ops cfg m = Inr [''cancel_order'']"

definition sample_views :: views where
  "sample_views cfg r = Inr r"

definition sample_request :: request where
  "sample_request = \<lparr> rq_method = ''POST'', rq_path = ''/api/markets/polymarket/orders/cancel_order'',
     rq_payload = [(''order_id'', PStr ''7'')], rq_key = ''key-1'' \<rparr>"

definition sample_config :: app_config where
  "sample_config = default_app_config\<lparr> cf_markets := [(''polymarket'',
     \<lparr> mc_market_id = ''polymarket'', mc_enabled = True, mc_settings = [] \<rparr>)] \<rparr>"

definition live_entry :: journal_entry where
  "live_entry = \<lparr> mj_key_hash = mutation_key_hash ''key-1'', mj_method = ''POST'',
     mj_path = ''/api/markets/polymarket/orders/cancel_order'',
     mj_request_hash = sha256_text (json_text False (PDict [(''order_id'', PStr ''7'')])), mj_live = True, mj_state = Pending,
     mj_response_status = 0, mj_response = [], mj_outcome_code = [], mj_outcome_message = [], mj_id = ''m1'',
     mj_created_at = 5, mj_updated_at = 5, mj_replay_authorized_at = 0 \<rparr>"

definition armed_config :: app_config where
  "armed_config = sample_config\<lparr> cf_mutation_journal := [live_entry] \<rparr>"

lemma sample_route:
  "path_parts ''/api/markets/polymarket/orders/cancel_order'' = [''api'', ''markets'', ''polymarket'', ''orders'', ''cancel_order'']"
  "upper (strip ''POST'') = ''POST''" "strip ''/api/markets/polymarket/orders/cancel_order'' = ''/api/markets/polymarket/orders/cancel_order''"
  by code_simp+

lemma sample_live: "is_live_order_management_route ''POST'' ''/api/markets/polymarket/orders/cancel_order''"
  by (simp add: is_live_order_management_route_def sample_route)

lemma sample_checks:
  "cf_markets cfg = cf_markets sample_config \<Longrightarrow> rq_path r = rq_path sample_request \<Longrightarrow> live_route_checks sample_ops cfg r = Inr ()"
proof -
  have "route_market ''/api/markets/polymarket/orders/cancel_order'' = ''polymarket''"
    "route_operation ''/api/markets/polymarket/orders/cancel_order'' = ''cancel_order''"
    "lower (strip ''cancel_order'') = ''cancel_order''" by code_simp+
  then show "cf_markets cfg = cf_markets sample_config \<Longrightarrow> rq_path r = rq_path sample_request
      \<Longrightarrow> live_route_checks sample_ops cfg r = Inr ()"
    by (simp add: live_route_checks_def sample_request_def sample_ops_def require_market_enabled_def sample_config_def)
qed

lemma sample_prepare:
  "prepare_mutation sample_ops sample_views ''m1'' 5 sample_config sample_request = Inr (Barrier armed_config live_entry)"
proof -
  have j: "cf_mutation_journal sample_config = []" by (simp add: sample_config_def default_app_config_def)
  have "new_mutation_journal_entry ''m1'' 5 ''key-1'' ''POST'' ''/api/markets/polymarket/orders/cancel_order''
      [(''order_id'', PStr ''7'')] True = Inr live_entry"
    by (simp add: new_mutation_journal_entry_def mutation_request_hash_def json_dumps_def sample_route live_entry_def)
  then show ?thesis
    using sample_live sample_checks[of sample_config sample_request] j
    by (simp add: prepare_mutation_def prepare_new_def find_journal_entry_def sample_request_def
        append_mutation_journal_def Let_def armed_config_def capacity_defs)
qed

text \<open>The same request again, after the venue answered.\<close>

definition answered_config :: app_config where
  "answered_config = finished_config (Returned [(''order_id'', PStr ''7'')]) 6 armed_config live_entry"

lemma sample_found: "find_journal_entry armed_config (rq_key sample_request) = Some live_entry"
  by (simp add: find_journal_entry_def armed_config_def sample_request_def) (simp add: live_entry_def)


definition other_config :: app_config where
  "other_config = armed_config\<lparr> cf_mutation_journal := [live_entry\<lparr> mj_method := ''PUT'' \<rparr>] \<rparr>"

theorem reused_key_conflicts_witness:
  "\<exists>msg. prepare_mutation sample_ops sample_views ''m2'' 9 other_config sample_request = Inl (Exc IdempotencyConflictError msg)"
proof -
  have h: "mutation_request_hash (rq_payload sample_request) = Inr (sha256_text (json_text False (PDict [(''order_id'', PStr ''7'')])))"
    by (simp add: mutation_request_hash_def json_dumps_def sample_request_def)
  have f: "find_journal_entry other_config (rq_key sample_request) = Some (live_entry\<lparr> mj_method := ''PUT'' \<rparr>)"
    by (simp add: find_journal_entry_def other_config_def sample_request_def live_entry_def)
  have m: "upper (strip (rq_method sample_request)) = ''POST''" by code_simp
  show ?thesis
    by (rule reused_key_conflicts[OF f h]) (use sample_checks[of other_config sample_request] in \<open>simp_all add: m other_config_def armed_config_def\<close>)
qed

theorem repeated_request_is_replayed_witness:
  "prepare_mutation sample_ops sample_views ''m2'' 9 answered_config sample_request
     = Inr (Replied (200, stored_mutation_result [(''order_id'', PStr ''7'')] False None))"
proof -
  have m: "assert_mutation_request_matches live_entry (rq_method sample_request) (rq_path sample_request) (rq_payload sample_request) = Inr ()"
    by (simp add: assert_mutation_request_matches_def mutation_request_hash_def json_dumps_def sample_request_def sample_route live_entry_def)
  have c: "live_route_checks sample_ops answered_config sample_request = Inr ()"
    by (rule sample_checks) (simp_all add: answered_config_def finished_config_def armed_config_def)
  have l: "is_live_order_management_route (rq_method sample_request) (rq_path sample_request)"
    using sample_live by (simp add: sample_request_def)
  show ?thesis
    using repeated_request_is_replayed[OF sample_found _ m l, of sample_ops "Returned [(''order_id'', PStr ''7'')]" 6 sample_views "''m2''" 9] c
    by (simp add: armed_config_def sample_request_def answered_config_def)
qed

theorem admitted_key_is_sound_witness:
  "admitted_key ''POST'' ''/api/alerts'' ''key-1'' [] = Inr ''key-1'' \<and> list_all visible_ascii ''key-1''"
proof -
  have a: "admitted_key ''POST'' ''/api/alerts'' ''key-1'' [] = Inr ''key-1''" by code_simp
  show ?thesis using admitted_key_is_sound[OF a] a by blast
qed

end
