(* ===== verification/Paper_Accounting.thy ===== *)
theory Paper_Accounting
  imports Models_Config Models_Laws
begin

text \<open>
  \<open>core/paper_accounting.py\<close>: average-cost accounting of the paper ledger. The ledger is kept
  newest first; the accounting replays the accepted records in chronological order and keeps one
  row per market and contract. A quantity or an amount that cannot be established is \<open>None\<close> and
  the row says why.

  Floats are binary64 throughout, so every intermediate result rounds as in Python. \<open>sum\<close> of
  floats is left to right up to Python 3.11 and compensated from 3.12 on; the flag
  \<open>compensated\<close> selects between the two. The sum of no floats is the integer 0, here the float.
\<close>

section \<open>Numbers\<close>

text \<open>\<open>_number\<close>: a finite float, or nothing.\<close>

definition number :: "pyval \<Rightarrow> pyfloat option" where
  "number v = (if is_bool v then None else case py_float v of
     Inl _ \<Rightarrow> None | Inr x \<Rightarrow> if isfinite x then Some x else None)"

definition opt_number :: "pyfloat option \<Rightarrow> pyfloat option" where
  "opt_number x = number (opt_float x)"

definition sign_factor :: "bool \<Rightarrow> pyfloat" where
  "sign_factor positive = Fin (if positive then 1 else - 1)"

text \<open>One step of the compensated sum: the running total and the lost low-order part.\<close>

fun comp_step :: "pyfloat \<times> pyfloat \<Rightarrow> pyfloat \<Rightarrow> pyfloat \<times> pyfloat" where
  "comp_step (s, c) x =
     (let t = fadd s x in
      (t, fadd c (if fle (fabs x) (fabs s) then fadd (fsub s t) x else fadd (fsub x t) s)))"

definition float_sum :: "bool \<Rightarrow> pyfloat list \<Rightarrow> pyfloat" where
  "float_sum compensated xs =
     (case xs of [] \<Rightarrow> Fin 0
      | y # ys \<Rightarrow> if compensated
          then (case foldl comp_step (y, Fin 0) ys of (t, c) \<Rightarrow> if \<not> feq c (Fin 0) \<and> isfinite c then fadd t c else t)
          else foldl fadd y ys)"

section \<open>The ledger\<close>

definition SHARE_QUOTE_CURRENCIES :: "(string, string option) dict" where
  "SHARE_QUOTE_CURRENCIES = [
     (''polymarket'', Some ''pUSD''), (''kalshi'', Some ''USD''), (''predictit'', Some ''USD''),
     (''iowa_electronic_markets'', Some ''USD''), (''ibkr_forecasttrader'', Some ''USD''),
     (''forecastex'', Some ''USD''), (''cme_prediction_markets'', Some ''USD''),
     (''robinhood_prediction_markets'', Some ''USD''), (''coinbase_prediction_markets'', Some ''USD''),
     (''gemini_titan'', Some ''USD''), (''context_v2'', None),
     (''limitless_exchange'', Some ''USDC''), (''probable'', Some ''USDT''),
     (''blinq'', Some ''pUSD''), (''xmarket'', None), (''predict_fun'', Some ''USDT'')]"

definition ensure_paper_history_capacity :: "paper_trade list \<Rightarrow> unit res" where
  "ensure_paper_history_capacity records = require (length records < MAX_PAPER_TRADES) (Exc ValueError
     (''Paper history capacity ('' @ nat_str (int MAX_PAPER_TRADES) @ '' records) reached; no order was recorded. Export and reconcile the complete ledger before explicitly clearing it. Open inventory is never silently pruned.''))"

record paper_row =
  pr_market_id :: string
  pr_contract_id :: string
  pr_net_size :: "pyfloat option"
  pr_notional :: "pyfloat option"
  pr_average_price :: "pyfloat option"
  pr_realized :: "pyfloat option"
  pr_trades :: nat
  pr_currency :: "string option"
  pr_complete :: bool
  pr_reasons :: "string list"
  pr_assumptions :: "string list"
  pr_quantity_unit :: string

definition empty_row :: "paper_trade \<Rightarrow> paper_row" where
  "empty_row t = \<lparr> pr_market_id = pt_market_id t, pr_contract_id = pt_contract_id t, pr_net_size = Some (Fin 0),
     pr_notional = None, pr_average_price = None, pr_realized = Some (Fin 0), pr_trades = 0,
     pr_currency = pt_quote_currency t, pr_complete = True, pr_reasons = [], pr_assumptions = [],
     pr_quantity_unit = ''shares'' \<rparr>"

abbreviation add_reason :: "string \<Rightarrow> paper_row \<Rightarrow> paper_row" where
  "add_reason r row \<equiv> row\<lparr> pr_reasons := pr_reasons row @ [r] \<rparr>"

abbreviation no_amounts :: "paper_row \<Rightarrow> paper_row" where
  "no_amounts row \<equiv> row\<lparr> pr_notional := None, pr_average_price := None, pr_realized := None \<rparr>"

section \<open>One record\<close>

text \<open>The checks before the arithmetic, in the order of the loop body: quote currency, identity
  seen before, quote asset, quantities, and identity and timestamp.\<close>

definition check_currency :: "paper_trade \<Rightarrow> paper_row \<Rightarrow> paper_row" where
  "check_currency t row = (if pt_quote_currency t \<noteq> pr_currency row
     then no_amounts (add_reason ''inconsistent_quote_currency'' row)\<lparr> pr_currency := None \<rparr> else row)"

definition check_duplicate :: "bool \<Rightarrow> paper_row \<Rightarrow> paper_row" where
  "check_duplicate seen row = (if seen
     then (add_reason ''duplicate_record_identity'' row)\<lparr> pr_net_size := None \<rparr> else row)"

definition supported_record :: "paper_trade \<Rightarrow> bool" where
  "supported_record t \<longleftrightarrow> has_key SHARE_QUOTE_CURRENCIES (pt_market_id t) \<and> upper (pt_side t) \<in> {''BUY'', ''SELL''}"

definition unsupported :: "paper_row \<Rightarrow> paper_row" where
  "unsupported row = no_amounts (add_reason ''unsupported_venue_quantity_model'' row)
     \<lparr> pr_net_size := None, pr_quantity_unit := ''unavailable'' \<rparr>"

definition check_quote_asset :: "paper_row \<Rightarrow> paper_row" where
  "check_quote_asset row = (if pr_currency row = None
     then (add_reason ''quote_currency_unavailable'' row)\<lparr> pr_realized := None \<rparr> else row)"

definition fill_quantity_ok :: "paper_trade \<Rightarrow> bool" where
  "fill_quantity_ok t = (case (number (PFloat (pt_size t)), number (PFloat (pt_filled_size t))) of
       (Some requested, Some filled) \<Rightarrow> \<not> (fle requested (Fin 0) \<or> flt filled (Fin 0) \<or> flt requested filled)
     | _ \<Rightarrow> False)"

definition check_quantity :: "paper_trade \<Rightarrow> paper_row \<Rightarrow> paper_row" where
  "check_quantity t row = (if fill_quantity_ok t then row
     else (add_reason ''invalid_fill_quantity'' row)\<lparr> pr_net_size := None \<rparr>)"

definition identity_and_time_ok :: "paper_trade \<Rightarrow> bool" where
  "identity_and_time_ok t \<longleftrightarrow>
     (case number (pt_created_at t) of None \<Rightarrow> False | Some x \<Rightarrow> fle (Fin 0) x \<and> is_integer x)
     \<and> (case pt_id t of PStr s \<Rightarrow> strip s \<noteq> [] | _ \<Rightarrow> False) \<and> strip (pt_contract_id t) \<noteq> []"

definition check_identity :: "paper_trade \<Rightarrow> paper_row \<Rightarrow> paper_row" where
  "check_identity t row = (if identity_and_time_ok t then row
     else (add_reason ''invalid_record_identity_or_timestamp'' row)\<lparr> pr_net_size := None \<rparr>)"

text \<open>The fill: quantity, price, and whether it is the hypothetical full fill of a preview.\<close>

definition hypothetical :: "paper_trade \<Rightarrow> bool" where
  "hypothetical t \<longleftrightarrow> number (PFloat (pt_filled_size t)) = Some (Fin 0)"

definition fill_size :: "paper_trade \<Rightarrow> pyfloat" where
  "fill_size t = (if hypothetical t then pt_size t else pt_filled_size t)"

definition fill_price :: "paper_trade \<Rightarrow> pyfloat option" where
  "fill_price t = (case opt_number (if hypothetical t then pt_limit_price t else pt_average_price t) of
       None \<Rightarrow> None
     | Some p \<Rightarrow> if fle (Fin 0) p \<and> fle p (Fin 1) then Some p else None)"

definition signed_fill :: "paper_trade \<Rightarrow> pyfloat" where
  "signed_fill t = fmul (fill_size t) (sign_factor (upper (pt_side t) = ''BUY''))"

definition note_fill :: "paper_trade \<Rightarrow> paper_row \<Rightarrow> paper_row" where
  "note_fill t row =
     (let row = (if hypothetical t \<and> ''assumed_full_fill_at_limit'' \<notin> set (pr_assumptions row)
            then row\<lparr> pr_assumptions := pr_assumptions row @ [''assumed_full_fill_at_limit''] \<rparr> else row)
      in if fill_price t = None then add_reason ''fill_price_unavailable'' row else row)"

text \<open>Adding to a position: the average price weighted by quantity.\<close>

definition added_average ::
    "pyfloat \<Rightarrow> pyfloat option \<Rightarrow> pyfloat \<Rightarrow> pyfloat option \<Rightarrow> pyfloat \<Rightarrow> pyfloat option res" where
  "added_average current average delta price next_quantity =
     (if feq current (Fin 0) then Inr price
      else case (average, price) of
          (Some a, Some p) \<Rightarrow> rbind (fdiv (fadd (fmul (fabs current) a) (fmul (fabs delta) p)) (fabs next_quantity)) (\<lambda>x. Inr (Some x))
        | _ \<Rightarrow> Inr None)"

text \<open>Reducing a position realizes the difference between the fill price and the average.\<close>

definition realized_after ::
    "pyfloat \<Rightarrow> pyfloat option \<Rightarrow> pyfloat \<Rightarrow> pyfloat option \<Rightarrow> pyfloat option \<Rightarrow> pyfloat option" where
  "realized_after current average delta price realized =
     (case (average, price, realized) of
        (Some a, Some p, Some r) \<Rightarrow>
          Some (fadd r (fmul (fmul (fmin (fabs current) (fabs delta)) (fsub p a)) (sign_factor (flt (Fin 0) current))))
      | _ \<Rightarrow> None)"

definition DUST :: pyfloat where "DUST = flit (1 / 10 ^ 12)"

definition finite_or_none :: "pyfloat option \<Rightarrow> bool" where
  "finite_or_none x = (case x of None \<Rightarrow> True | Some v \<Rightarrow> isfinite v)"

text \<open>The last assignments: dust is cleared, amounts that overflowed are given up.\<close>

definition settle_row :: "pyfloat \<Rightarrow> pyfloat \<Rightarrow> pyfloat \<Rightarrow> pyfloat option \<Rightarrow> paper_row \<Rightarrow> paper_row" where
  "settle_row current delta next_quantity average row =
     (let dust = fle (fabs next_quantity) (fmul DUST (fmax (fabs current) (fabs delta)));
          q = (if dust then Fin 0 else next_quantity);
          a = (if dust then None else average);
          b = (case a of Some x \<Rightarrow> Some (fmul q x) | None \<Rightarrow> if feq q (Fin 0) then Some (Fin 0) else None);
          overflow = \<not> (finite_or_none a \<and> finite_or_none b \<and> finite_or_none (pr_realized row));
          row = (if overflow then (add_reason ''financial_value_overflow'' row)\<lparr> pr_realized := None \<rparr> else row)
      in row\<lparr> pr_net_size := Some q, pr_average_price := (if overflow then None else a),
              pr_notional := (if overflow \<or> pr_currency row = None then None else b) \<rparr>)"

definition apply_fill :: "paper_trade \<Rightarrow> pyfloat \<Rightarrow> paper_row \<Rightarrow> paper_row res" where
  "apply_fill t current row =
     (let row = note_fill t row; delta = signed_fill t; price = fill_price t; next_quantity = fadd current delta in
      if \<not> isfinite next_quantity
      then Inr (no_amounts (add_reason ''quantity_overflow'' row)\<lparr> pr_net_size := None \<rparr>)
      else if feq current (Fin 0) \<or> flt (Fin 0) (fmul current delta) then
        rbind (added_average current (pr_average_price row) delta price next_quantity) (\<lambda>average.
          Inr (settle_row current delta next_quantity average row))
      else
        let average = (if flt (fabs current) (fabs delta) then price else pr_average_price row);
            row = row\<lparr> pr_realized := realized_after current (pr_average_price row) delta price (pr_realized row) \<rparr>
        in Inr (settle_row current delta next_quantity average row))"

text \<open>The body of the loop for an accepted record.\<close>

definition account_record :: "bool \<Rightarrow> paper_trade \<Rightarrow> paper_row \<Rightarrow> paper_row res" where
  "account_record seen t row =
     (let row = check_duplicate seen (check_currency t (row\<lparr> pr_trades := Suc (pr_trades row) \<rparr>)) in
      if \<not> supported_record t then Inr (unsupported row)
      else let row = check_identity t (check_quantity t (check_quote_asset row)) in
        case pr_net_size row of
          None \<Rightarrow> Inr (no_amounts row)
        | Some current \<Rightarrow> apply_fill t current row)"

section \<open>The whole ledger\<close>

definition chronology :: "nat \<times> paper_trade \<Rightarrow> rat \<times> int" where
  "chronology p = ((case number (pt_created_at (snd p)) of Some (Fin q) \<Rightarrow> q | _ \<Rightarrow> 0), - int (fst p))"

text \<open>Oldest first; records of the same second in insertion order, which is the reverse of the list.\<close>

definition chronological :: "paper_trade list \<Rightarrow> paper_trade list" where
  "chronological records = map snd (sort_key chronology (enumerate 0 records))"

record ledger_state =
  ls_rows :: "(string \<times> string, paper_row) dict"
  ls_seen :: "pyval list"

definition row_key :: "paper_trade \<Rightarrow> string \<times> string" where
  "row_key t = (pt_market_id t, pt_contract_id t)"

definition hashable :: "pyval \<Rightarrow> bool" where
  "hashable v \<longleftrightarrow> \<not> is_list v \<and> \<not> is_dict v"

definition ledger_step :: "paper_trade \<Rightarrow> ledger_state \<Rightarrow> ledger_state res" where
  "ledger_step t s =
     (if \<not> pt_accepted t then Inr s
      else if \<not> hashable (pt_id t) then raise TypeError ''unhashable type''
      else rbind (account_record (list_ex (py_eq (pt_id t)) (ls_seen s)) t (dget_or (ls_rows s) (row_key t) (empty_row t))) (\<lambda>row.
        Inr \<lparr> ls_rows = dset (row_key t) row (ls_rows s), ls_seen = pt_id t # ls_seen s \<rparr>))"

definition ledger_rows :: "paper_trade list \<Rightarrow> paper_row list res" where
  "ledger_rows records =
     rbind (rfold ledger_step (chronological records) \<lparr> ls_rows = [], ls_seen = [] \<rparr>) (\<lambda>s.
       Inr (sort_key (\<lambda>row. (pr_market_id row, pr_contract_id row)) (map snd (ls_rows s))))"

definition finish_row :: "paper_row \<Rightarrow> paper_row" where
  "finish_row row = row\<lparr> pr_reasons := uniq (pr_reasons row), pr_complete := (pr_reasons row = [] \<and> pr_complete row) \<rparr>"

record paper_account =
  pc_complete :: bool
  pc_positions :: "paper_row list"
  pc_closed :: "paper_row list"
  pc_realized :: "pyfloat option"
  pc_quote_currency :: "string option"
  pc_reasons :: "string list"
  pc_assumptions :: "string list"

definition sorted_set :: "string list \<Rightarrow> string list" where
  "sorted_set xs = sort (remdups xs)"

definition row_currencies :: "paper_row list \<Rightarrow> string list" where
  "row_currencies rows = sorted_set (concat (map (\<lambda>row. case pr_currency row of Some c \<Rightarrow> if c = [] then [] else [c] | None \<Rightarrow> []) rows))"

text \<open>\<open>sum(row["realized"] for row in all_rows)\<close>; a missing amount is a \<open>TypeError\<close>.\<close>

definition realized_total :: "bool \<Rightarrow> paper_row list \<Rightarrow> pyfloat res" where
  "realized_total compensated rows =
     rbind (rmap (\<lambda>row. case pr_realized row of Some x \<Rightarrow> Inr x
        | None \<Rightarrow> raise TypeError ''unsupported operand type(s) for +'') rows) (\<lambda>xs. Inr (float_sum compensated xs))"

definition paper_accounting :: "bool \<Rightarrow> paper_trade list \<Rightarrow> paper_account res" where
  "paper_accounting compensated records =
     rbind (ledger_rows records) (\<lambda>raw.
     let rows = map finish_row raw; currencies = row_currencies rows;
         reasons = sorted_set (concat (map pr_reasons rows)) @ (if 1 < length currencies then [''multiple_quote_currencies''] else [])
     in
     rbind (if reasons = [] then rbind (realized_total compensated rows) (\<lambda>x. Inr (Some x)) else Inr None) (\<lambda>total.
     let overflow = \<not> finite_or_none total in
       Inr \<lparr> pc_complete = (reasons = [] \<and> \<not> overflow),
             pc_positions = filter (\<lambda>row. case pr_net_size row of None \<Rightarrow> True | Some q \<Rightarrow> \<not> feq q (Fin 0)) rows,
             pc_closed = filter (\<lambda>row. case pr_net_size row of None \<Rightarrow> False | Some q \<Rightarrow> feq q (Fin 0)) rows,
             pc_realized = (if overflow then None else total),
             pc_quote_currency = (case currencies of [c] \<Rightarrow> Some c | _ \<Rightarrow> None),
             pc_reasons = reasons @ (if overflow then [''portfolio_value_overflow''] else []),
             pc_assumptions = sorted_set (concat (map pr_assumptions rows)) \<rparr>))"

definition paper_position_rows :: "bool \<Rightarrow> paper_trade list \<Rightarrow> paper_row list res" where
  "paper_position_rows compensated records = rbind (paper_accounting compensated records) (\<lambda>a. Inr (pc_positions a))"

end
