(* ===== verification/Paper_Laws.thy ===== *)
theory Paper_Laws
  imports Paper_Accounting "HOL-Library.Multiset"
begin

text \<open>
  Laws of the paper accounting: rounding keeps an average price a probability, every step keeps
  the invariant of a row, and the accounting of a ledger never raises.
\<close>

section \<open>Rounded averages\<close>

lemma fl_le_one: "q \<le> 1 \<Longrightarrow> fl q \<le> 1"
  using fl_le[of q 1] f64_of_int[of 1] by simp

lemma to_float_within: "\<bar>fl q\<bar> \<le> b \<Longrightarrow> b < 2 ^ 1024 \<Longrightarrow> to_float q = Fin (fl q)"
  unfolding to_float_Fin by (meson order_le_less_trans)

lemma to_float_unit: "0 \<le> q \<Longrightarrow> q \<le> 1 \<Longrightarrow> to_float q = Fin (fl q) \<and> 0 \<le> fl q \<and> fl q \<le> 1"
proof -
  assume q: "0 \<le> q" "q \<le> 1"
  then have "0 \<le> fl q" "fl q \<le> 1" using fl_le_one by simp_all
  moreover from this have "to_float q = Fin (fl q)" by (intro to_float_within[of _ 1]) simp_all
  ultimately show ?thesis by simp
qed

text \<open>A share of at most one of a representable quantity stays within it.\<close>

lemma scaled_float:
  assumes "float_ok (Fin c)" "0 \<le> a" "a \<le> 1"
  shows "to_float (\<bar>c\<bar> * a) = Fin (fl (\<bar>c\<bar> * a)) \<and> 0 \<le> fl (\<bar>c\<bar> * a) \<and> fl (\<bar>c\<bar> * a) \<le> \<bar>c\<bar>"
proof -
  have "fl (\<bar>c\<bar> * a) \<le> \<bar>c\<bar>"
    using assms by (intro fl_le) (auto simp: mult_left_le f64_def fl_abs)
  moreover have "0 \<le> fl (\<bar>c\<bar> * a)" using assms by simp
  moreover from calculation have "to_float (\<bar>c\<bar> * a) = Fin (fl (\<bar>c\<bar> * a))"
    using assms(1) by (intro to_float_within[of _ "\<bar>c\<bar>"]) simp_all
  ultimately show ?thesis by simp
qed

lemma weighted_average:
  assumes c: "float_ok (Fin c)" and s: "float_ok (Fin s)" and pos: "0 < c * s"
    and n: "fadd (Fin c) (Fin s) = Fin n" and a: "0 \<le> a" "a \<le> 1" and p: "0 \<le> p" "p \<le> 1"
  shows "\<exists>x. fdiv (fadd (fmul (fabs (Fin c)) (Fin a)) (fmul (fabs (Fin s)) (Fin p))) (fabs (Fin n)) = Inr (Fin x)
    \<and> 0 \<le> x \<and> x \<le> 1"
proof -
  let ?u = "fl (\<bar>c\<bar> * a)" and ?v = "fl (\<bar>s\<bar> * p)"
  have u: "to_float (\<bar>c\<bar> * a) = Fin ?u" "0 \<le> ?u" "?u \<le> \<bar>c\<bar>" using scaled_float[OF c a] by auto
  have v: "to_float (\<bar>s\<bar> * p) = Fin ?v" "0 \<le> ?v" "?v \<le> \<bar>s\<bar>" using scaled_float[OF s p] by auto
  have nf: "n = fl (c + s)" "\<bar>n\<bar> < 2 ^ 1024" using n by (simp_all add: to_float_Fin)
  have cs: "\<bar>c\<bar> + \<bar>s\<bar> = \<bar>c + s\<bar>" using pos by (auto simp: zero_less_mult_iff)
  have "fl (?u + ?v) \<le> fl \<bar>c + s\<bar>" using u(3) v(3) cs by (intro fl_mono) linarith
  then have w: "fl (?u + ?v) \<le> \<bar>n\<bar>" by (simp add: nf(1) fl_abs)
  have w0: "0 \<le> fl (?u + ?v)" using u(2) v(2) by simp
  have sum: "to_float (?u + ?v) = Fin (fl (?u + ?v))" using w w0 by (intro to_float_within[OF _ nf(2)]) simp
  have "\<bar>c\<bar> \<le> fl \<bar>c + s\<bar>"
    using c cs by (intro fl_ge) (auto simp: f64_def fl_abs)
  then have n0: "0 < \<bar>n\<bar>" using pos by (auto simp: nf(1) fl_abs zero_less_mult_iff)
  have q: "0 \<le> fl (?u + ?v) / \<bar>n\<bar>" "fl (?u + ?v) / \<bar>n\<bar> \<le> 1" using w w0 n0 by (auto simp: divide_le_eq)
  show ?thesis
    using n0 to_float_unit[OF q] by (auto simp: u(1) v(1) sum)
qed

section \<open>The invariant of a row\<close>

definition quantity_ok :: "pyfloat option \<Rightarrow> bool" where
  "quantity_ok q = (case q of None \<Rightarrow> True | Some x \<Rightarrow> isfinite x \<and> float_ok x)"

definition average_ok :: "pyfloat option \<Rightarrow> bool" where
  "average_ok a = (case a of None \<Rightarrow> True | Some x \<Rightarrow> probability x)"

text \<open>The cost basis never exceeds the quantity, since a share costs at most one unit.\<close>

definition basis_ok :: "pyfloat option \<Rightarrow> pyfloat option \<Rightarrow> bool" where
  "basis_ok b q = (case b of None \<Rightarrow> True | Some x \<Rightarrow> isfinite x \<and> (\<exists>y. q = Some y \<and> fle (fabs x) (fabs y)))"

definition priced_ok :: "paper_row \<Rightarrow> bool" where
  "priced_ok row \<longleftrightarrow> pr_currency row \<noteq> None \<and> (\<exists>r. pr_realized row = Some r \<and> isfinite r)
     \<and> (\<exists>q. pr_net_size row = Some q \<and> (q \<noteq> Fin 0 \<longrightarrow> pr_average_price row \<noteq> None))"

definition row_inv :: "paper_row \<Rightarrow> bool" where
  "row_inv row \<longleftrightarrow> quantity_ok (pr_net_size row) \<and> average_ok (pr_average_price row)
     \<and> basis_ok (pr_notional row) (pr_net_size row) \<and> (pr_reasons row = [] \<longrightarrow> priced_ok row)"

text \<open>Before its first record a row may still lack a quote currency.\<close>

definition start_ok :: "paper_row \<Rightarrow> bool" where
  "start_ok row \<longleftrightarrow> quantity_ok (pr_net_size row) \<and> average_ok (pr_average_price row)
     \<and> (pr_reasons row = [] \<longrightarrow> (\<exists>r. pr_realized row = Some r \<and> isfinite r)
          \<and> (\<exists>q. pr_net_size row = Some q \<and> (q \<noteq> Fin 0 \<longrightarrow> pr_average_price row \<noteq> None)))"

lemma start_ok_row: "row_inv row \<Longrightarrow> start_ok row"
  by (auto simp: row_inv_def start_ok_def priced_ok_def)

lemma start_ok_empty: "start_ok (empty_row t)"
  by (simp add: empty_row_def start_ok_def quantity_ok_def average_ok_def)

lemma row_inv_none [intro]:
  "pr_reasons row \<noteq> [] \<Longrightarrow> pr_net_size row = None \<Longrightarrow> pr_notional row = None \<Longrightarrow> pr_average_price row = None \<Longrightarrow> row_inv row"
  by (simp add: row_inv_def quantity_ok_def average_ok_def basis_ok_def)

section \<open>The checks\<close>

definition checked :: "bool \<Rightarrow> paper_trade \<Rightarrow> paper_row \<Rightarrow> paper_row" where
  "checked seen t row = check_identity t (check_quantity t (check_quote_asset
     (check_duplicate seen (check_currency t (row\<lparr> pr_trades := Suc (pr_trades row) \<rparr>)))))"

lemmas check_defs = check_currency_def check_duplicate_def check_quote_asset_def check_quantity_def check_identity_def

lemma checked_keeps:
  "pr_net_size (checked seen t row) = Some q \<Longrightarrow> pr_net_size row = Some q \<and> fill_quantity_ok t \<and> identity_and_time_ok t \<and> \<not> seen"
  "pr_average_price (checked seen t row) \<in> {pr_average_price row, None}"
  "pr_realized (checked seen t row) \<in> {pr_realized row, None}"
  "pr_reasons (checked seen t row) = [] \<Longrightarrow> checked seen t row = row\<lparr> pr_trades := Suc (pr_trades row) \<rparr>
     \<and> pr_reasons row = [] \<and> pr_currency row \<noteq> None \<and> pt_quote_currency t = pr_currency row"
  by (cases "pt_quote_currency t = pr_currency row"; cases seen; cases "fill_quantity_ok t"; cases "identity_and_time_ok t";
      simp add: checked_def check_defs split: if_splits)+

lemma checked_none: "pr_net_size (checked seen t row) = None \<Longrightarrow> start_ok row \<Longrightarrow> pr_reasons (checked seen t row) \<noteq> []"
  using checked_keeps(4)[of seen t row] by (auto simp: start_ok_def)

section \<open>The arithmetic\<close>

lemma fill_price_probability: "fill_price t = Some p \<Longrightarrow> probability p"
  by (auto simp: fill_price_def opt_number_def number_def probability_def split: option.splits sum.splits if_splits)

lemma delta_float:
  assumes "fill_quantity_ok t" "isfinite (fadd c (signed_fill t))"
  shows "\<exists>s. signed_fill t = Fin s \<and> float_ok (Fin s)"
proof -
  have "isfinite (fill_size t)"
    using assms(1) by (auto simp: fill_quantity_ok_def fill_size_def number_def hypothetical_def split: option.splits if_splits)
  then obtain x where "fill_size t = Fin x" by (cases "fill_size t") auto
  then have "\<exists>q. signed_fill t = to_float q" by (auto simp: signed_fill_def sign_factor_def)
  then obtain q where q: "signed_fill t = to_float q" ..
  have "isfinite (signed_fill t)"
    using assms(2) by (cases c; cases "signed_fill t") auto
  with q show ?thesis using float_ok_to_float[of q] by (cases "to_float q") auto
qed

lemma fmul_pos_iff:
  assumes "flt (Fin 0) (fmul (Fin c) (Fin s))"
  shows "0 < c * s"
proof (rule ccontr)
  assume "\<not> 0 < c * s"
  then have "fl (c * s) \<le> 0" by simp
  then have "\<not> flt (Fin 0) (to_float (c * s))"
    by (auto simp: to_float_def Let_def intro: order_trans[of _ 0])
  with assms show False by simp
qed

lemma added_average_ok:
  assumes c: "c = Fin qc" "float_ok c" and s: "signed_fill t = Fin s" "float_ok (Fin s)"
    and br: "feq c (Fin 0) \<or> flt (Fin 0) (fmul c (signed_fill t))"
    and n: "isfinite (fadd c (signed_fill t))" and a: "average_ok avg"
  shows "\<exists>x. added_average c avg (signed_fill t) (fill_price t) (fadd c (signed_fill t)) = Inr x \<and> average_ok x
     \<and> (fill_price t \<noteq> None \<longrightarrow> (c = Fin 0 \<or> avg \<noteq> None) \<longrightarrow> x \<noteq> None)"
proof (cases "qc = 0")
  case True
  then show ?thesis using c fill_price_probability
    by (auto simp: added_average_def average_ok_def split: option.splits)
next
  case False
  then have pos: "0 < qc * s" using br c s fmul_pos_iff by (simp add: feq_Fin_eq)
  obtain nn where nn: "fadd c (signed_fill t) = Fin nn" using n by auto
  show ?thesis
  proof (cases "avg = None \<or> fill_price t = None")
    case True
    then show ?thesis using False c by (auto simp: added_average_def average_ok_def split: option.splits)
  next
    case False
    then obtain a' p' where ap: "avg = Some (Fin a')" "fill_price t = Some (Fin p')" "0 \<le> a'" "a' \<le> 1" "0 \<le> p'" "p' \<le> 1"
      using a fill_price_probability by (auto simp: average_ok_def probability_iff split: option.splits)
    from weighted_average[OF _ s(2) pos _ ap(3-6), of nn] nn c s
    obtain x where "fdiv (fadd (fmul (fabs c) (Fin a')) (fmul (fabs (signed_fill t)) (Fin p'))) (fabs (Fin nn)) = Inr (Fin x)"
      "0 \<le> x" "x \<le> 1" by auto
    then have "added_average c avg (signed_fill t) (fill_price t) (fadd c (signed_fill t)) = Inr (Some (Fin x))" "probability (Fin x)"
      using c(1) \<open>qc \<noteq> 0\<close> unfolding added_average_def ap nn by (simp_all add: feq_Fin_eq probability_iff del: fmul.simps fabs.simps fadd.simps fdiv.simps)
    then show ?thesis by (simp add: average_ok_def)
  qed
qed

lemma overflow_currency: "pr_currency (if P then (add_reason r row)\<lparr> pr_realized := None \<rparr> else row) = pr_currency row"
  by simp

lemma settle_row_inv:
  assumes n: "isfinite n" "float_ok n" and a: "average_ok avg"
    and r: "pr_reasons row = [] \<Longrightarrow> pr_currency row \<noteq> None \<and> pr_realized row \<noteq> None \<and> (n \<noteq> Fin 0 \<longrightarrow> avg \<noteq> None)"
  shows "row_inv (settle_row c d n avg row)"
proof -
  define dust where "dust \<longleftrightarrow> fle (fabs n) (fmul DUST (fmax (fabs c) (fabs d)))"
  define q where "q = (if dust then Fin 0 else n)"
  define av where "av = (if dust then None else avg)"
  define b where "b = (case av of Some x \<Rightarrow> Some (fmul q x) | None \<Rightarrow> if feq q (Fin 0) then Some (Fin 0) else None)"
  define overflow where "overflow \<longleftrightarrow> \<not> (finite_or_none av \<and> finite_or_none b \<and> finite_or_none (pr_realized row))"
  have s: "settle_row c d n avg row =
     (if overflow then (add_reason ''financial_value_overflow'' row)\<lparr> pr_realized := None \<rparr> else row)
       \<lparr> pr_net_size := Some q, pr_average_price := (if overflow then None else av),
         pr_notional := (if overflow \<or> pr_currency row = None then None else b) \<rparr>"
    unfolding settle_row_def Let_def overflow_currency overflow_def b_def av_def q_def dust_def by (rule refl)
  have q_ok: "quantity_ok (Some q)" using n by (auto simp: quantity_ok_def q_def)
  have av_ok: "average_ok av" using a by (auto simp: average_ok_def av_def)
  obtain qq where qq: "q = Fin qq" using q_ok by (auto simp: quantity_ok_def)
  have b_ok: "basis_ok b (Some q)"
  proof (cases av)
    case None
    then show ?thesis by (auto simp: b_def basis_ok_def qq)
  next
    case (Some x)
    then obtain p where p: "x = Fin p" "0 \<le> p" "p \<le> 1" using av_ok by (auto simp: average_ok_def probability_iff)
    note f = scaled_float[of qq p, OF _ p(2,3)]
    have "fl \<bar>qq * p\<bar> \<le> \<bar>qq\<bar>" using f q_ok p(2) by (simp add: quantity_ok_def qq abs_mult)
    then have b1: "\<bar>fl (qq * p)\<bar> \<le> \<bar>qq\<bar>" by (simp add: fl_abs)
    moreover have "\<bar>qq\<bar> < 2 ^ 1024" using q_ok by (simp add: quantity_ok_def qq del: power_numeral)
    ultimately have "to_float (qq * p) = Fin (fl (qq * p))" by (rule to_float_within)
    with b1 show ?thesis by (simp add: b_def Some p(1) qq basis_ok_def)
  qed
  have pr: "pr_reasons row = [] \<Longrightarrow> \<not> overflow \<Longrightarrow> priced_ok (settle_row c d n avg row)"
    using r by (auto simp: priced_ok_def s overflow_def finite_or_none_def av_def q_def)
  show ?thesis
    using q_ok av_ok b_ok pr unfolding row_inv_def by (auto simp: s average_ok_def basis_ok_def)
qed

lemma note_fill_keeps [simp]:
  "pr_net_size (note_fill t row) = pr_net_size row" "pr_average_price (note_fill t row) = pr_average_price row"
  "pr_realized (note_fill t row) = pr_realized row" "pr_currency (note_fill t row) = pr_currency row"
  "pr_notional (note_fill t row) = pr_notional row"
  "pr_market_id (note_fill t row) = pr_market_id row" "pr_contract_id (note_fill t row) = pr_contract_id row"
  by (simp_all add: note_fill_def Let_def)

lemma note_fill_reasons: "pr_reasons (note_fill t row) = [] \<longleftrightarrow> pr_reasons row = [] \<and> fill_price t \<noteq> None"
  by (auto simp: note_fill_def Let_def)

lemma apply_fill_ok:
  assumes c: "isfinite c" "float_ok c" and a: "average_ok (pr_average_price row)" and f: "fill_quantity_ok t"
    and r: "pr_reasons row = [] \<Longrightarrow> pr_currency row \<noteq> None \<and> pr_realized row \<noteq> None
      \<and> (c \<noteq> Fin 0 \<longrightarrow> pr_average_price row \<noteq> None)"
  shows "\<exists>row'. apply_fill t c row = Inr row' \<and> row_inv row'"
proof (cases "isfinite (fadd c (signed_fill t))")
  case False
  then show ?thesis by (auto simp: apply_fill_def Let_def)
next
  case fin: True
  let ?n = "fadd c (signed_fill t)"
  obtain s where s: "signed_fill t = Fin s" "float_ok (Fin s)" using delta_float[OF f fin] by blast
  obtain qc where qc: "c = Fin qc" using c(1) by auto
  have n_ok: "float_ok ?n" by simp
  show ?thesis
  proof (cases "feq c (Fin 0) \<or> flt (Fin 0) (fmul c (signed_fill t))")
    case True
    obtain x where x: "added_average c (pr_average_price row) (signed_fill t) (fill_price t) ?n = Inr x" "average_ok x"
      "fill_price t \<noteq> None \<Longrightarrow> c = Fin 0 \<or> pr_average_price row \<noteq> None \<Longrightarrow> x \<noteq> None"
      using added_average_ok[OF qc c(2) s True fin a] by blast
    have "row_inv (settle_row c (signed_fill t) ?n x (note_fill t row))"
      by (rule settle_row_inv[OF fin n_ok x(2)]) (use r x(3) in \<open>auto simp: note_fill_reasons\<close>)
    then show ?thesis using fin True x(1) by (simp add: apply_fill_def Let_def)
  next
    case False
    then have c0: "c \<noteq> Fin 0" by (simp add: feq_Fin_eq)
    let ?avg = "if flt (fabs c) (fabs (signed_fill t)) then fill_price t else pr_average_price row"
    let ?row = "(note_fill t row)\<lparr> pr_realized := realized_after c (pr_average_price row) (signed_fill t) (fill_price t) (pr_realized row) \<rparr>"
    have av: "average_ok ?avg" using a fill_price_probability by (auto simp: average_ok_def split: option.splits)
    have "row_inv (settle_row c (signed_fill t) ?n ?avg ?row)"
      by (rule settle_row_inv[OF fin n_ok av])
        (use r c0 in \<open>auto simp: note_fill_reasons realized_after_def\<close>)
    then show ?thesis using fin False
      by (cases "flt (fabs c) (fabs (signed_fill t))") (simp_all add: apply_fill_def Let_def)
  qed
qed

lemma account_record_ok:
  assumes "start_ok row"
  shows "\<exists>row'. account_record seen t row = Inr row' \<and> row_inv row'"
proof (cases "supported_record t")
  case False
  then show ?thesis by (auto simp: account_record_def Let_def unsupported_def)
next
  case True
  have e: "account_record seen t row = (case pr_net_size (checked seen t row) of
      None \<Rightarrow> Inr (no_amounts (checked seen t row)) | Some c \<Rightarrow> apply_fill t c (checked seen t row))"
    using True by (simp only: account_record_def checked_def Let_def simp_thms if_False not_True_eq_False)
  show ?thesis
  proof (cases "pr_net_size (checked seen t row)")
    case None
    then show ?thesis using checked_none[OF None assms] by (auto simp: e)
  next
    case (Some c)
    note k = checked_keeps(1)[OF Some]
    have "\<exists>row'. apply_fill t c (checked seen t row) = Inr row' \<and> row_inv row'"
    proof (rule apply_fill_ok)
      show "isfinite c" "float_ok c" using assms k by (auto simp: start_ok_def quantity_ok_def)
      show "average_ok (pr_average_price (checked seen t row))"
        using checked_keeps(2)[of seen t row] assms by (auto simp: start_ok_def average_ok_def)
      show "fill_quantity_ok t" using k by simp
      assume r: "pr_reasons (checked seen t row) = []"
      note z = checked_keeps(4)[OF r]
      show "pr_currency (checked seen t row) \<noteq> None \<and> pr_realized (checked seen t row) \<noteq> None
          \<and> (c \<noteq> Fin 0 \<longrightarrow> pr_average_price (checked seen t row) \<noteq> None)"
        using z assms k by (auto simp: start_ok_def)
    qed
    then show ?thesis by (simp add: e Some)
  qed
qed

section \<open>The ledger\<close>

lemma account_record_key:
  assumes "account_record seen t row = Inr row'"
  shows "pr_market_id row' = pr_market_id row \<and> pr_contract_id row' = pr_contract_id row"
proof -
  have c: "pr_market_id (checked seen t row) = pr_market_id row" "pr_contract_id (checked seen t row) = pr_contract_id row"
    by (simp_all add: checked_def check_defs)
  have s: "pr_market_id (settle_row c d n a r) = pr_market_id r" "pr_contract_id (settle_row c d n a r) = pr_contract_id r" for c d n a r
    by (simp_all add: settle_row_def Let_def)
  have f: "apply_fill t q r = Inr r' \<Longrightarrow> pr_market_id r' = pr_market_id r \<and> pr_contract_id r' = pr_contract_id r" for q r r'
    by (auto simp: apply_fill_def Let_def rbind_eq_Inr s split: if_splits)
  have e: "account_record seen t row = (if \<not> supported_record t
      then Inr (unsupported (check_duplicate seen (check_currency t (row\<lparr> pr_trades := Suc (pr_trades row) \<rparr>))))
      else case pr_net_size (checked seen t row) of
        None \<Rightarrow> Inr (no_amounts (checked seen t row)) | Some q \<Rightarrow> apply_fill t q (checked seen t row))"
    by (simp only: account_record_def checked_def Let_def)
  show ?thesis
    using assms c f by (auto simp: e unsupported_def check_defs split: if_splits option.splits)
qed

definition row_id :: "paper_row \<Rightarrow> string \<times> string" where
  "row_id row = (pr_market_id row, pr_contract_id row)"

definition ledger_inv :: "ledger_state \<Rightarrow> bool" where
  "ledger_inv s \<longleftrightarrow> dict_ok (ls_rows s)
     \<and> (\<forall>k. case dget (ls_rows s) k of None \<Rightarrow> True | Some row \<Rightarrow> row_inv row \<and> k = row_id row)"

lemma ledger_invD: "ledger_inv s \<Longrightarrow> dget (ls_rows s) k = Some row \<Longrightarrow> row_inv row \<and> k = row_id row"
  unfolding ledger_inv_def by (drule conjunct2, drule spec[of _ k]) simp

lemma ledger_inv_start [simp]: "ledger_inv \<lparr> ls_rows = [], ls_seen = [] \<rparr>"
  by (simp add: ledger_inv_def)

lemma ledger_step_ok:
  assumes "ledger_inv s" "hashable (pt_id t)"
  shows "\<exists>s'. ledger_step t s = Inr s' \<and> ledger_inv s'"
proof (cases "pt_accepted t")
  case True
  define row where "row = dget_or (ls_rows s) (row_key t) (empty_row t)"
  have row: "start_ok row \<and> row_id row = row_key t"
  proof (cases "dget (ls_rows s) (row_key t)")
    case None
    then show ?thesis using start_ok_empty[of t] by (simp add: row_def dget_or_def row_id_def row_key_def empty_row_def)
  next
    case (Some r)
    then show ?thesis using ledger_invD[OF assms(1) Some] start_ok_row by (simp add: row_def dget_or_def)
  qed
  then obtain row' where r: "account_record (list_ex (py_eq (pt_id t)) (ls_seen s)) t row = Inr row'" "row_inv row'"
    using account_record_ok by blast
  have k: "row_key t = row_id row'" using row account_record_key[OF r(1)] by (simp add: row_id_def)
  have "ledger_inv \<lparr> ls_rows = dset (row_key t) row' (ls_rows s), ls_seen = pt_id t # ls_seen s \<rparr>"
    using assms(1) r(2) k unfolding ledger_inv_def by simp
  then show ?thesis using r(1) assms(2) True by (simp add: ledger_step_def row_def)
qed (use assms in \<open>simp add: ledger_step_def\<close>)

lemma ledger_step_inv: "ledger_step t s = Inr s' \<Longrightarrow> ledger_inv s \<Longrightarrow> ledger_inv s'"
  using ledger_step_ok[of s t] by (cases "pt_accepted t"; cases "hashable (pt_id t)") (auto simp: ledger_step_def)

lemma ledger_fold_inv:
  assumes "rfold ledger_step ts \<lparr> ls_rows = [], ls_seen = [] \<rparr> = Inr s"
  shows "ledger_inv s"
  by (rule rfold_invariant[OF assms, of ledger_inv]) (auto intro: ledger_step_inv)

lemma ledger_fold_ok:
  assumes "ledger_inv s" "list_all (\<lambda>t. hashable (pt_id t)) ts"
  shows "\<exists>s'. rfold ledger_step ts s = Inr s' \<and> ledger_inv s'"
  using assms
proof (induction ts arbitrary: s)
  case (Cons t ts)
  then obtain s1 where "ledger_step t s = Inr s1" "ledger_inv s1" using ledger_step_ok[of s t] by auto
  with Cons show ?case by simp
qed simp

lemma mset_chronological: "mset (chronological records) = mset records"
  unfolding chronological_def by (simp add: mset_map) (metis map_snd_enumerate mset_map)

lemma set_chronological [simp]: "set (chronological records) = set records"
  using mset_chronological[of records] by (rule mset_eq_setD)

lemma ledger_rows_inv:
  assumes "ledger_rows records = Inr rows"
  shows "list_all row_inv rows"
proof -
  obtain s where s: "rfold ledger_step (chronological records) \<lparr> ls_rows = [], ls_seen = [] \<rparr> = Inr s"
    "set rows = snd ` set (ls_rows s)"
    using assms by (auto simp: ledger_rows_def rbind_eq_Inr)
  note inv = ledger_fold_inv[OF s(1)]
  have "row_inv row" if "(k, row) \<in> set (ls_rows s)" for k row
    using that ledger_invD[OF inv, of k row] inv by (simp add: dict_ok_mem ledger_inv_def)
  then show ?thesis using s(2) by (auto simp: list_all_iff)
qed

lemma ledger_rows_ok:
  assumes "list_all (\<lambda>t. hashable (pt_id t)) records"
  shows "\<exists>rows. ledger_rows records = Inr rows \<and> distinct (map row_id rows) \<and> list_all row_inv rows"
proof -
  have "list_all (\<lambda>t. hashable (pt_id t)) (chronological records)"
    using assms by (simp add: list_all_iff)
  then obtain s where s: "rfold ledger_step (chronological records) \<lparr> ls_rows = [], ls_seen = [] \<rparr> = Inr s" "ledger_inv s"
    using ledger_fold_ok[OF ledger_inv_start] by blast
  let ?rows = "map snd (ls_rows s)"
  have mem: "row_inv row \<and> k = row_id row" if "(k, row) \<in> set (ls_rows s)" for k row
    using that s(2) ledger_invD[OF s(2), of k row] by (simp add: dict_ok_mem ledger_inv_def)
  have k: "map row_id ?rows = keys (ls_rows s)"
    using mem by (simp add: comp_def) force
  have "distinct (map row_id ?rows)" using s(2) by (simp only: k) (simp add: ledger_inv_def dict_ok_def)
  then have "distinct (map row_id (sort_key row_id ?rows))"
    by (metis distinct_map distinct_sort set_sort)
  moreover have "list_all row_inv ?rows"
    using mem by (auto simp: list_all_iff)
  ultimately show ?thesis
    using s(1) by (simp add: ledger_rows_def row_id_def[abs_def] list_all_iff)
qed

lemma uniq_Nil_iff [simp]: "uniq xs = [] \<longleftrightarrow> xs = []"
  using set_add_new[of "[]" xs] by (metis Un_empty set_empty)

lemma realized_total_ok:
  assumes "\<And>row. row \<in> set rows \<Longrightarrow> pr_realized row \<noteq> None"
  shows "\<exists>x. realized_total compensated rows = Inr x"
proof -
  have "rmap (\<lambda>row. case pr_realized row of Some x \<Rightarrow> Inr x
      | None \<Rightarrow> raise TypeError ''unsupported operand type(s) for +'') rows = Inr (map (the \<circ> pr_realized) rows)"
    using assms by (induction rows) force+
  then show ?thesis by (simp add: realized_total_def)
qed

lemma sorted_set_Nil [simp]: "sorted_set xs = [] \<longleftrightarrow> xs = []"
  unfolding sorted_set_def by (metis remdups_eq_nil_iff set_empty set_sort)

end
