(* ===== verification/Paper_Exact.thy ===== *)
theory Paper_Exact
  imports Paper_Laws
begin

text \<open>
  The reference for the quantities of the paper ledger: the exact integer sum of the fills. For
  whole shares and a turnover of at most \<open>10\<^sup>1\<^sup>1\<close> the float accounting computes it without error:
  below \<open>2\<^sup>5\<^sup>3\<close> integers are floats, and the dust threshold stays below one share.
\<close>

section \<open>The reference\<close>

definition fill_units :: "paper_trade \<Rightarrow> int" where
  "fill_units t = (case fill_size t of Fin q \<Rightarrow> \<lfloor>q\<rfloor> | _ \<Rightarrow> 0)"

definition signed_units :: "paper_trade \<Rightarrow> int" where
  "signed_units t = (if upper (pt_side t) = ''BUY'' then fill_units t else - fill_units t)"

definition whole_fill :: "paper_trade \<Rightarrow> bool" where
  "whole_fill t \<longleftrightarrow> fill_size t = Fin (of_int (fill_units t)) \<and> 0 \<le> fill_units t"

definition position_units :: "string \<times> string \<Rightarrow> paper_trade list \<Rightarrow> int" where
  "position_units k ts = sum_list (map signed_units (filter (\<lambda>t. pt_accepted t \<and> row_key t = k) ts))"

definition turnover :: "paper_trade list \<Rightarrow> int" where
  "turnover ts = sum_list (map fill_units (filter pt_accepted ts))"

definition MAX_EXACT :: int where "MAX_EXACT = 10 ^ 11"

section \<open>One fill\<close>

lemma f64_half_power: "k \<le> 1000 \<Longrightarrow> f64 (1 / 2 ^ k)"
  by (rule f64_dyadic[of _ 1 "- int k"]) (simp_all add: power_int_minus divide_inverse)

lemma dust_small:
  assumes "0 \<le> m" "m \<le> 10 ^ 11"
  shows "\<exists>d. fmul DUST (Fin m) = Fin d \<and> d < 1"
proof -
  have h: "f64 (1 / 2 ^ 39)" by (rule f64_half_power) simp
  have "fl (1 / 10 ^ 12) \<le> 1 / 2 ^ 39" by (rule fl_le[OF _ h]) simp
  moreover have "0 \<le> fl (1 / 10 ^ 12)" by (rule fl_nonneg) simp
  ultimately obtain e where e: "DUST = Fin e" "0 \<le> e" "e \<le> 1 / 2 ^ 39"
    using to_float_unit[of "1 / 10 ^ 12"] by (auto simp: DUST_def flit_def)
  have "e * m \<le> 1 / 2 ^ 39 * 10 ^ 11" using e(2,3) assms by (intro mult_mono) simp_all
  then have "e * m \<le> 1 / 2" by simp
  moreover have "f64 (1 / 2)" using f64_half_power[of 1] by simp
  ultimately have "fl (e * m) \<le> 1 / 2" by (rule fl_le)
  moreover have "to_float (e * m) = Fin (fl (e * m))"
    using to_float_unit[of "e * m"] e(2) assms(1) \<open>e * m \<le> 1 / 2\<close> by simp
  ultimately show ?thesis by (simp add: e(1))
qed

lemma fadd_ints: "\<bar>m + n\<bar> \<le> 2 ^ 53 \<Longrightarrow> fadd (Fin (of_int m)) (Fin (of_int n)) = Fin (of_int (m + n))"
  using to_float_of_int[of "m + n"] by simp

lemma signed_fill_whole:
  assumes "whole_fill t" "fill_units t \<le> MAX_EXACT"
  shows "signed_fill t = Fin (of_int (signed_units t))"
proof -
  have "\<bar>signed_units t\<bar> \<le> 2 ^ 53" using assms by (auto simp: signed_units_def whole_fill_def MAX_EXACT_def)
  from to_float_of_int[OF this] assms(1) show ?thesis
    by (auto simp: signed_fill_def whole_fill_def sign_factor_def signed_units_def)
qed

lemma settle_row_net:
  "pr_net_size (settle_row c d n a row) = Some (if fle (fabs n) (fmul DUST (fmax (fabs c) (fabs d))) then Fin 0 else n)"
  by (simp add: settle_row_def Let_def)

lemma apply_fill_net:
  assumes "apply_fill t c row = Inr row'" "pr_net_size row' = Some q"
  shows "q = (if fle (fabs (fadd c (signed_fill t))) (fmul DUST (fmax (fabs c) (fabs (signed_fill t)))) then Fin 0
    else fadd c (signed_fill t))"
  using assms by (auto simp: apply_fill_def Let_def rbind_eq_Inr settle_row_net simp del: fabs.simps split: if_splits)

lemma apply_fill_whole:
  assumes "apply_fill t (Fin (of_int m)) row = Inr row'" "pr_net_size row' = Some q" "whole_fill t"
    and b: "\<bar>m\<bar> + fill_units t \<le> MAX_EXACT"
  shows "q = Fin (of_int (m + signed_units t))"
proof -
  have u: "0 \<le> fill_units t" "fill_units t \<le> MAX_EXACT" "\<bar>signed_units t\<bar> = fill_units t"
    using assms(3) b by (auto simp: whole_fill_def signed_units_def)
  note s = signed_fill_whole[OF assms(3) u(2)]
  have n: "fadd (Fin (of_int m)) (signed_fill t) = Fin (of_int (m + signed_units t))"
    unfolding s using b u by (intro fadd_ints) (auto simp: MAX_EXACT_def)
  define w where "w = max \<bar>m\<bar> \<bar>signed_units t\<bar>"
  have "fmax (fabs (Fin (of_int m))) (fabs (signed_fill t)) = Fin (of_int w)"
    by (simp add: s fmax_def w_def max_def flip: of_int_abs)
  moreover have "\<exists>d. fmul DUST (Fin (of_int w)) = Fin d \<and> d < 1"
  proof (rule dust_small)
    have "w \<le> 10 ^ 11" "0 \<le> w" using b u by (auto simp: w_def MAX_EXACT_def)
    then have "(of_int w :: rat) \<le> of_int (10 ^ 11)" "(0 :: rat) \<le> of_int w" by (simp_all only: of_int_le_iff of_int_0_le_iff)
    then show "(0 :: rat) \<le> of_int w" "of_int w \<le> (10 ^ 11 :: rat)" by simp_all
  qed
  ultimately obtain d where d: "fmul DUST (fmax (fabs (Fin (of_int m))) (fabs (signed_fill t))) = Fin d" "d < 1" by auto
  show ?thesis
  proof (cases "m + signed_units t = 0")
    case True
    then show ?thesis using apply_fill_net[OF assms(1,2)] n by (simp split: if_splits)
  next
    case False
    then have "1 \<le> \<bar>m + signed_units t\<bar>" by simp
    then have "(of_int 1 :: rat) \<le> of_int \<bar>m + signed_units t\<bar>" by (simp only: of_int_le_iff)
    then have "\<not> fle (fabs (Fin (of_int (m + signed_units t)))) (Fin d)" using d(2) by simp
    then show ?thesis using apply_fill_net[OF assms(1,2)] by (simp only: n d(1) if_False)
  qed
qed

lemma account_record_whole:
  assumes "account_record seen t row = Inr row'" "pr_net_size row' = Some q" "whole_fill t"
    and "\<And>c. pr_net_size row = Some c \<Longrightarrow> c = Fin (of_int m)" "\<bar>m\<bar> + fill_units t \<le> MAX_EXACT"
  shows "q = Fin (of_int (m + signed_units t))"
proof -
  have e: "account_record seen t row = (if \<not> supported_record t
      then Inr (unsupported (check_duplicate seen (check_currency t (row\<lparr> pr_trades := Suc (pr_trades row) \<rparr>))))
      else case pr_net_size (checked seen t row) of
        None \<Rightarrow> Inr (no_amounts (checked seen t row)) | Some c \<Rightarrow> apply_fill t c (checked seen t row))"
    by (simp only: account_record_def checked_def Let_def)
  from assms(1,2) obtain c where c: "pr_net_size (checked seen t row) = Some c" "apply_fill t c (checked seen t row) = Inr row'"
    unfolding e by (auto simp: unsupported_def split: if_splits option.splits)
  then have "c = Fin (of_int m)" using checked_keeps(1)[OF c(1)] assms(4) by blast
  then show ?thesis using apply_fill_whole[OF _ assms(2,3,5)] c(2) by blast
qed

section \<open>The ledger\<close>

lemma position_units_append [simp]: "position_units k (xs @ ys) = position_units k xs + position_units k ys"
  by (simp add: position_units_def)

lemma position_units_bound:
  "list_all whole_fill (filter pt_accepted ts) \<Longrightarrow> \<bar>position_units k ts\<bar> \<le> turnover ts"
proof (induction ts)
  case (Cons t ts)
  then show ?case by (auto simp: position_units_def turnover_def signed_units_def whole_fill_def)
qed (simp add: position_units_def turnover_def)

lemma turnover_append [simp]: "turnover (xs @ ys) = turnover xs + turnover ys"
  by (simp add: turnover_def)

lemma turnover_nonneg: "list_all whole_fill (filter pt_accepted ts) \<Longrightarrow> 0 \<le> turnover ts"
  using position_units_bound[of ts undefined] by linarith

definition exact :: "paper_trade list \<Rightarrow> ledger_state \<Rightarrow> bool" where
  "exact done s \<longleftrightarrow> (\<forall>k. case dget (ls_rows s) k of
       None \<Rightarrow> position_units k done = 0
     | Some row \<Rightarrow> \<forall>q. pr_net_size row = Some q \<longrightarrow> q = Fin (of_int (position_units k done)))"

lemma exactI:
  "(\<And>k. dget (ls_rows s) k = None \<Longrightarrow> position_units k done = 0) \<Longrightarrow>
   (\<And>k row q. dget (ls_rows s) k = Some row \<Longrightarrow> pr_net_size row = Some q \<Longrightarrow> q = Fin (of_int (position_units k done)))
   \<Longrightarrow> exact done s"
proof -
  assume n: "\<And>k. dget (ls_rows s) k = None \<Longrightarrow> position_units k done = 0"
    and r: "\<And>k row q. dget (ls_rows s) k = Some row \<Longrightarrow> pr_net_size row = Some q \<Longrightarrow> q = Fin (of_int (position_units k done))"
  show ?thesis
    unfolding exact_def
  proof
    fix k
    show "case dget (ls_rows s) k of None \<Rightarrow> position_units k done = 0
      | Some row \<Rightarrow> \<forall>q. pr_net_size row = Some q \<longrightarrow> q = Fin (of_int (position_units k done))"
      using n[of k] r[of k] by (cases "dget (ls_rows s) k") (simp_all only: option.case, blast+)
  qed
qed

lemma exactD:
  "exact done s \<Longrightarrow> dget (ls_rows s) k = None \<Longrightarrow> position_units k done = 0"
  "exact done s \<Longrightarrow> dget (ls_rows s) k = Some row \<Longrightarrow> pr_net_size row = Some q \<Longrightarrow> q = Fin (of_int (position_units k done))"
  unfolding exact_def by (drule spec[of _ k], simp)+

lemma ledger_step_exact:
  assumes "ledger_step t s = Inr s'" "exact done s" "pt_accepted t \<Longrightarrow> whole_fill t"
    and b: "\<bar>position_units (row_key t) done\<bar> + turnover [t] \<le> MAX_EXACT"
  shows "exact (done @ [t]) s'"
proof (cases "pt_accepted t")
  case False
  then have "s' = s" "\<And>k. position_units k [t] = 0" using assms(1) by (simp_all add: ledger_step_def position_units_def)
  then show ?thesis using assms(2) unfolding exact_def by (simp only: position_units_append add_0_right simp_thms)
next
  case True
  define row where "row = dget_or (ls_rows s) (row_key t) (empty_row t)"
  obtain row' where r: "account_record (list_ex (py_eq (pt_id t)) (ls_seen s)) t row = Inr row'"
    and s': "s' = \<lparr> ls_rows = dset (row_key t) row' (ls_rows s), ls_seen = pt_id t # ls_seen s \<rparr>"
    using assms(1) True unfolding ledger_step_def row_def[symmetric] by (auto simp: rbind_eq_Inr split: if_splits)
  have m: "c = Fin (of_int (position_units (row_key t) done))" if "pr_net_size row = Some c" for c
  proof (cases "dget (ls_rows s) (row_key t)")
    case None
    then show ?thesis using that exactD(1)[OF assms(2) None] by (simp add: row_def dget_or_def empty_row_def)
  next
    case (Some r0)
    then show ?thesis using that exactD(2)[OF assms(2) Some] by (simp add: row_def dget_or_def)
  qed
  have t: "turnover [t] = fill_units t" "position_units k [t] = (if k = row_key t then signed_units t else 0)" for k
    using True by (auto simp: turnover_def position_units_def)
  show ?thesis
  proof (rule exactI)
    fix k assume "dget (ls_rows s') k = None"
    then have "k \<noteq> row_key t" "dget (ls_rows s) k = None" by (auto simp: s' split: if_splits)
    then show "position_units k (done @ [t]) = 0" using exactD(1)[OF assms(2)] t(2) by simp
  next
    fix k row2 q assume k: "dget (ls_rows s') k = Some row2" "pr_net_size row2 = Some q"
    show "q = Fin (of_int (position_units k (done @ [t])))"
    proof (cases "k = row_key t")
      case True
      then have "row2 = row'" using k(1) by (simp add: s')
      from account_record_whole[OF r k(2)[unfolded this] assms(3)[OF \<open>pt_accepted t\<close>] m b[unfolded t(1)]]
      show ?thesis using True t(2) by simp
    next
      case False
      then have "dget (ls_rows s) k = Some row2" using k(1) by (simp add: s')
      from exactD(2)[OF assms(2) this k(2)] show ?thesis using False t(2) by simp
    qed
  qed
qed

lemma ledger_fold_exact:
  assumes "rfold ledger_step ts s = Inr s'" "exact done s" "list_all whole_fill (filter pt_accepted (done @ ts))"
    and "turnover (done @ ts) \<le> MAX_EXACT"
  shows "exact (done @ ts) s'"
  using assms
proof (induction ts arbitrary: s "done")
  case (Cons t ts)
  from Cons.prems(1) obtain s1 where s1: "ledger_step t s = Inr s1" "rfold ledger_step ts s1 = Inr s'"
    by (auto simp: rbind_eq_Inr)
  have w: "list_all whole_fill (filter pt_accepted done)" "list_all whole_fill (filter pt_accepted ts)" "pt_accepted t \<Longrightarrow> whole_fill t"
    using Cons.prems(3) by (simp_all split: if_splits)
  have "turnover (done @ t # ts) = turnover done + (turnover [t] + turnover ts)"
    using turnover_append[of "[t]" ts] by (simp del: filter.simps)
  then have "\<bar>position_units (row_key t) done\<bar> + turnover [t] \<le> MAX_EXACT"
    using Cons.prems(4) position_units_bound[OF w(1), of "row_key t"] turnover_nonneg[OF w(2)] by linarith
  from ledger_step_exact[OF s1(1) Cons.prems(2) w(3) this] have "exact (done @ [t]) s1" .
  from Cons.IH[OF s1(2) this] Cons.prems(3,4) show ?case by simp
qed simp

lemma sum_list_mset_cong: "mset xs = mset ys \<Longrightarrow> sum_list (map f (filter P xs)) = sum_list (map (f :: 'a \<Rightarrow> int) (filter P ys))"
  by (metis mset_filter mset_map sum_mset_sum_list)

lemma ledger_rows_exact:
  assumes "ledger_rows records = Inr rows" "row \<in> set rows" "pr_net_size row = Some q"
    and "list_all whole_fill (filter pt_accepted records)" "turnover records \<le> MAX_EXACT"
  shows "q = Fin (of_int (position_units (row_id row) records))"
proof -
  let ?c = "chronological records"
  obtain s where s: "rfold ledger_step ?c \<lparr> ls_rows = [], ls_seen = [] \<rparr> = Inr s"
    "rows = sort_key (\<lambda>row. (pr_market_id row, pr_contract_id row)) (map snd (ls_rows s))"
    using assms(1) by (auto simp: ledger_rows_def rbind_eq_Inr)
  note inv = ledger_fold_inv[OF s(1)]
  have pu: "position_units k ?c = position_units k records" and tu: "turnover ?c = turnover records" for k
    unfolding position_units_def turnover_def using mset_chronological sum_list_mset_cong by blast+
  have "exact ([] @ ?c) s"
  proof (rule ledger_fold_exact[OF s(1)])
    show "exact [] \<lparr> ls_rows = [], ls_seen = [] \<rparr>" by (simp add: exact_def position_units_def)
    show "list_all whole_fill (filter pt_accepted ([] @ ?c))" using assms(4) by (auto simp: list_all_iff)
    show "turnover ([] @ ?c) \<le> MAX_EXACT" using assms(5) tu by simp
  qed
  moreover obtain k where "(k, row) \<in> set (ls_rows s)" using assms(2) s(2) by auto
  then have "dget (ls_rows s) k = Some row" using inv by (simp add: dict_ok_mem ledger_inv_def)
  moreover from this have "k = row_id row" using ledger_invD[OF inv] by blast
  ultimately show ?thesis using exactD(2)[of "[] @ ?c" s k row q] assms(3) pu by simp
qed

end
