(* ===== verification/Paper_Reports.thy ===== *)
theory Paper_Reports
  imports Paper_Accounting
begin

text \<open>
  The reports of \<open>core/paper_accounting.py\<close> over the rows of the ledger: unrealized profit at a
  mark, portfolio totals and the impact of an order before it is placed. An order and a mark are
  the shapes the server keeps; a total over rows with a missing amount is missing.
\<close>

record paper_order =
  po_market_id :: string
  po_contract_id :: string
  po_side :: string
  po_size :: pyfloat
  po_limit_price :: "pyfloat option"
  po_metadata :: obj

type_synonym paper_marks = "(string \<times> string, obj) dict"

section \<open>Marks and totals\<close>

definition unit_price :: "pyfloat option \<Rightarrow> bool" where
  "unit_price p = (case p of None \<Rightarrow> False | Some x \<Rightarrow> fle (Fin 0) x \<and> fle x (Fin 1))"

definition paper_unrealized :: "paper_row \<Rightarrow> pyval \<Rightarrow> pyfloat option" where
  "paper_unrealized row mark_price =
     (case (opt_number (pr_net_size row), opt_number (pr_notional row), number mark_price) of
        (Some quantity, Some basis, Some price) \<Rightarrow>
          if unit_price (Some price) then
            let result = fsub (fmul quantity price) basis in if isfinite result then Some result else None
          else None
      | _ \<Rightarrow> None)"

text \<open>\<open>total\<close>: the sum when every number is there and the sum is finite.\<close>

definition total_of :: "bool \<Rightarrow> pyfloat option list \<Rightarrow> pyfloat option" where
  "total_of compensated xs =
     (if None \<in> set xs then None
      else let result = float_sum compensated (map the xs) in if isfinite result then Some result else None)"

definition absolute :: "pyfloat option list \<Rightarrow> pyfloat option list" where
  "absolute xs = map (map_option fabs) xs"

record paper_totals =
  pu_positions :: nat
  pu_gross_size :: "pyfloat option"
  pu_entry_notional :: "pyfloat option"
  pu_net_notional :: "pyfloat option"
  pu_marked :: nat
  pu_unrealized :: "pyfloat option"
  pu_realized :: "pyfloat option"
  pu_quote_currency :: "string option"
  pu_complete :: bool
  pu_reasons :: "string list"
  pu_unavailable :: nat
  pu_sources :: "(string, nat) dict"
  pu_last_marked_at :: "pyfloat option"

definition mark_of :: "paper_marks \<Rightarrow> paper_row \<Rightarrow> obj" where
  "mark_of marks row = dget_or marks (pr_market_id row, pr_contract_id row) []"

definition count_source :: "obj \<Rightarrow> (string, nat) dict \<Rightarrow> (string, nat) dict" where
  "count_source mark sources =
     (let source = text_or_empty mark ''source'' in
      if source = [] then sources else dset source (Suc (dget_or sources source 0)) sources)"

definition later_mark :: "obj \<Rightarrow> pyfloat option \<Rightarrow> pyfloat option" where
  "later_mark mark latest =
     (case number (oget mark ''marked_at'') of
        None \<Rightarrow> latest
      | Some ts \<Rightarrow> Some (case latest of Some l \<Rightarrow> if feq l (Fin 0) then ts else fmax l ts | None \<Rightarrow> ts))"

definition paper_summary :: "bool \<Rightarrow> paper_row list \<Rightarrow> paper_marks \<Rightarrow> paper_account option \<Rightarrow> paper_totals" where
  "paper_summary compensated rows marks account =
     (let currencies = row_currencies rows;
          quantities = map (\<lambda>row. opt_number (pr_net_size row)) rows;
          bases = map (\<lambda>row. opt_number (pr_notional row)) rows;
          prices = map (\<lambda>row. number (oget (mark_of marks row) ''mark_price'')) rows;
          gains = map (\<lambda>row. paper_unrealized row (opt_float (number (oget (mark_of marks row) ''mark_price'')))) rows;
          reasons0 = sorted_set (concat (map pr_reasons rows)) @ (if 1 < length currencies then [''multiple_quote_currencies''] else []);
          reasons = (case account of None \<Rightarrow> reasons0 | Some a \<Rightarrow> sorted_set (reasons0 @ pc_reasons a));
          monetary = (length currencies \<le> 1 \<and> None \<notin> set bases)
      in \<lparr> pu_positions = length rows,
           pu_gross_size = total_of compensated (absolute quantities),
           pu_entry_notional = (if monetary then total_of compensated (absolute bases) else None),
           pu_net_notional = (if monetary then total_of compensated bases else None),
           pu_marked = length (filter unit_price prices),
           pu_unrealized = (if rows \<noteq> [] \<and> length currencies \<le> 1 then total_of compensated gains else None),
           pu_realized = (case account of None \<Rightarrow> None | Some a \<Rightarrow> pc_realized a),
           pu_quote_currency = (case currencies of [c] \<Rightarrow> Some c | _ \<Rightarrow> None),
           pu_complete = (reasons = []),
           pu_reasons = reasons,
           pu_unavailable = length (filter (\<lambda>q. q = None) quantities),
           pu_sources = fold (\<lambda>row. count_source (mark_of marks row)) rows [],
           pu_last_marked_at = fold (\<lambda>row. later_mark (mark_of marks row)) rows None \<rparr>)"

section \<open>Impact of an order\<close>

definition share_currency :: "string \<Rightarrow> string option" where
  "share_currency market_id = (case dget SHARE_QUOTE_CURRENCIES market_id of None \<Rightarrow> None | Some c \<Rightarrow> c)"

definition latest_time :: "paper_trade list \<Rightarrow> pyfloat" where
  "latest_time records = (case map (\<lambda>t. case number (pt_created_at t) of None \<Rightarrow> Fin 0 | Some x \<Rightarrow> x) records of
     [] \<Rightarrow> Fin 0 | x # xs \<Rightarrow> foldl fmax x xs)"

definition preview_trade :: "string \<Rightarrow> int \<Rightarrow> paper_order \<Rightarrow> paper_trade" where
  "preview_trade uid created_at o' = \<lparr> pt_market_id = po_market_id o', pt_contract_id = po_contract_id o', pt_side = po_side o',
     pt_size = po_size o', pt_limit_price = po_limit_price o', pt_accepted = True, pt_message = ''Hypothetical full-fill impact'',
     pt_filled_size = Fin 0, pt_average_price = None, pt_quote_currency = share_currency (po_market_id o'), pt_raw = [],
     pt_id = PStr uid, pt_created_at = PInt created_at \<rparr>"

definition find_row :: "string \<Rightarrow> string \<Rightarrow> paper_row list \<Rightarrow> paper_row option" where
  "find_row market_id contract_id rows =
     List.find (\<lambda>row. pr_market_id row = market_id \<and> pr_contract_id row = contract_id) rows"

record paper_impact =
  pi_current_net :: "pyfloat option"
  pi_signed_size :: "pyfloat option"
  pi_projected_net :: "pyfloat option"
  pi_effect :: string
  pi_order_notional :: "pyfloat option"
  pi_projected_notional :: "pyfloat option"
  pi_projected_average :: "pyfloat option"
  pi_projected_realized :: "pyfloat option"
  pi_complete :: bool
  pi_reasons :: "string list"

definition share_order :: "paper_order \<Rightarrow> bool" where
  "share_order o' \<longleftrightarrow> has_key SHARE_QUOTE_CURRENCIES (po_market_id o') \<and> po_side o' \<in> {''BUY'', ''SELL''}"

definition order_delta :: "paper_order \<Rightarrow> pyfloat option" where
  "order_delta o' = (case number (PFloat (po_size o')) of
       Some n \<Rightarrow> if share_order o' \<and> flt (Fin 0) n then Some (fmul n (sign_factor (po_side o' \<noteq> ''SELL''))) else None
     | None \<Rightarrow> None)"

definition order_notional :: "paper_order \<Rightarrow> pyfloat option" where
  "order_notional o' =
     (case (order_delta o', opt_number (po_limit_price o')) of
        (Some d, Some p) \<Rightarrow> if unit_price (Some p) \<and> isfinite (fmul d p) then Some (fmul d p) else None
      | _ \<Rightarrow> None)"

definition impact_effect :: "pyfloat option \<Rightarrow> pyfloat option \<Rightarrow> pyfloat option \<Rightarrow> string" where
  "impact_effect current next_net delta =
     (case (current, next_net, delta) of
        (Some c, Some n, Some d) \<Rightarrow>
          if feq c (Fin 0) then ''opens position''
          else if feq n (Fin 0) then ''closes position''
          else if flt (fmul c n) (Fin 0) then ''flips position''
          else if flt (Fin 0) (fmul c d) then ''adds to position'' else ''reduces position''
      | _ \<Rightarrow> ''unavailable'')"

definition paper_order_impact :: "bool \<Rightarrow> string \<Rightarrow> paper_trade list \<Rightarrow> paper_order \<Rightarrow> paper_impact res" where
  "paper_order_impact compensated uid records o' =
     rbind (paper_accounting compensated records) (\<lambda>before.
     rbind (int_of_float (fadd (latest_time records) (Fin 1))) (\<lambda>created_at.
     rbind (paper_accounting compensated (preview_trade uid created_at o' # records)) (\<lambda>after.
     let current = find_row (po_market_id o') (po_contract_id o') (pc_positions before);
         projected = find_row (po_market_id o') (po_contract_id o') (pc_positions after @ pc_closed after);
         current_net = (case current of Some row \<Rightarrow> pr_net_size row | None \<Rightarrow> if share_order o' then Some (Fin 0) else None);
         next_net = Option.bind projected pr_net_size
     in Inr \<lparr> pi_current_net = current_net, pi_signed_size = order_delta o', pi_projected_net = next_net,
          pi_effect = impact_effect current_net next_net (order_delta o'),
          pi_order_notional = (if share_currency (po_market_id o') \<noteq> None then order_notional o' else None),
          pi_projected_notional = Option.bind projected pr_notional,
          pi_projected_average = Option.bind projected pr_average_price,
          pi_projected_realized = Option.bind projected pr_realized,
          pi_complete = (case projected of Some row \<Rightarrow> pr_complete row | None \<Rightarrow> False),
          pi_reasons = (case projected of Some row \<Rightarrow> pr_reasons row | None \<Rightarrow> [''unsupported_venue_quantity_model'']) \<rparr>)))"

end
