(* ===== verification/Web_Paper.thy ===== *)
theory Web_Paper
  imports Web_Alerts Paper_Reports
begin

text \<open>
  The paper-trading operations of \<open>web_api.py\<close>: reading an order from a request, placing it with
  the adapter's simulation and recording it, refilling the ticket from the history or a position,
  and marking positions at current prices. What the adapter answers is an argument.
\<close>

section \<open>Orders\<close>

record paper_result =
  px_market_id :: string
  px_contract_id :: string
  px_accepted :: bool
  px_message :: string
  px_filled_size :: pyfloat
  px_average_price :: "pyfloat option"
  px_raw :: obj

record trading_adapter = adapter +
  ad_place_paper_order :: "paper_order \<Rightarrow> paper_result res"

type_synonym trading_registry = "string \<Rightarrow> obj \<Rightarrow> trading_adapter res"

definition trading_adapter_for_market :: "app_config \<Rightarrow> string \<Rightarrow> trading_registry \<Rightarrow> trading_adapter res" where
  "trading_adapter_for_market cfg market_id registry =
     registry market_id (case dget (cf_markets cfg) market_id of None \<Rightarrow> [] | Some m \<Rightarrow> mc_settings m)"

text \<open>\<open>dict(v)\<close> of a JSON value: a list must hold pairs. Only keys that are strings can be stored.\<close>

definition item_pair :: "pyval \<Rightarrow> (string \<times> pyval) res" where
  "item_pair v = (case v of
       PList [PStr k, x] \<Rightarrow> Inr (k, x)
     | PStr [a, b] \<Rightarrow> Inr ([a], PStr [b])
     | PDict [(a, _), (b, _)] \<Rightarrow> Inr (a, PStr b)
     | PList _ \<Rightarrow> value_error ''dictionary update sequence element has the wrong length''
     | PStr _ \<Rightarrow> value_error ''dictionary update sequence element has the wrong length''
     | PDict _ \<Rightarrow> value_error ''dictionary update sequence element has the wrong length''
     | _ \<Rightarrow> raise TypeError ''cannot convert dictionary update sequence element to a sequence'')"

definition py_dict :: "pyval \<Rightarrow> obj res" where
  "py_dict v = (case v of
       PDict d \<Rightarrow> Inr d
     | PList vs \<Rightarrow> rbind (rmap item_pair vs) (\<lambda>ps. Inr (dupdate [] ps))
     | PStr s \<Rightarrow> rbind (rmap item_pair (map (\<lambda>c. PStr [c]) s)) (\<lambda>ps. Inr (dupdate [] ps))
     | _ \<Rightarrow> raise TypeError ''object is not iterable'')"

definition paper_order_from_payload :: "obj \<Rightarrow> paper_order res" where
  "paper_order_from_payload payload =
     (let market_id = lower (strip (text_or_empty payload ''market_id''));
          contract_id = strip (text_or_empty payload ''contract_id'');
          side = upper (strip (text_or_empty payload ''side'')) in
      if market_id = [] then value_error ''market_id is required.''
      else if contract_id = [] then value_error ''contract_id is required.''
      else if side \<notin> {''BUY'', ''SELL'', ''BACK'', ''LAY''} then value_error ''side must be BUY, SELL, BACK, or LAY.''
      else
        rbind (optional_positive_float (oget payload ''size'') ''Order size'') (\<lambda>size_value.
        case size_value of None \<Rightarrow> value_error ''Order size is required.''
        | Some n \<Rightarrow>
          rbind (optional_positive_float (oget payload ''limit_price'') ''Limit price'') (\<lambda>limit_price.
          rbind (py_dict (py_or (oget payload ''metadata'') (PDict []))) (\<lambda>metadata.
            Inr \<lparr> po_market_id = market_id, po_contract_id = contract_id, po_side = side, po_size = n,
                  po_limit_price = limit_price, po_metadata = metadata \<rparr>))))"

definition paper_order_signed_size :: "paper_order \<Rightarrow> pyfloat" where
  "paper_order_signed_size o' =
     (let side = upper (po_side o') in
      if side \<in> {''SELL'', ''LAY''} then fneg (po_size o') else if side \<in> {''BUY'', ''BACK''} then po_size o' else Fin 0)"

definition recorded_trade :: "string \<Rightarrow> int \<Rightarrow> paper_order \<Rightarrow> paper_result \<Rightarrow> paper_trade" where
  "recorded_trade uid now o' x = \<lparr> pt_market_id = po_market_id o', pt_contract_id = po_contract_id o', pt_side = po_side o',
     pt_size = po_size o', pt_limit_price = po_limit_price o', pt_accepted = px_accepted x, pt_message = px_message x,
     pt_filled_size = px_filled_size x, pt_average_price = px_average_price x,
     pt_quote_currency = share_currency (po_market_id o'),
     pt_raw = [(''request'', PDict (po_metadata o')), (''result'', PDict (px_raw x))],
     pt_id = PStr uid, pt_created_at = PInt now \<rparr>"

definition record_paper_trade :: "string \<Rightarrow> int \<Rightarrow> app_config \<Rightarrow> paper_order \<Rightarrow> paper_result \<Rightarrow> (app_config \<times> paper_trade) res" where
  "record_paper_trade uid now cfg o' x =
     rbind (ensure_paper_history_capacity (cf_paper_trades cfg)) (\<lambda>_.
       let t = recorded_trade uid now o' x in Inr (cfg\<lparr> cf_paper_trades := t # cf_paper_trades cfg \<rparr>, t))"

definition order_view :: "paper_order \<Rightarrow> obj" where
  "order_view o' = [(''market_id'', PStr (po_market_id o')), (''contract_id'', PStr (po_contract_id o')),
     (''side'', PStr (po_side o')), (''size'', PFloat (po_size o')), (''limit_price'', opt_float (po_limit_price o'))]"

definition result_view :: "paper_result \<Rightarrow> obj" where
  "result_view x = [(''market_id'', PStr (px_market_id x)), (''contract_id'', PStr (px_contract_id x)),
     (''accepted'', PBool (px_accepted x)), (''message'', PStr (px_message x)), (''filled_size'', PFloat (px_filled_size x)),
     (''average_price'', opt_float (px_average_price x))]"

definition submit_paper_order :: "string \<Rightarrow> int \<Rightarrow> app_config \<Rightarrow> trading_registry \<Rightarrow> obj \<Rightarrow> (app_config \<times> obj) res" where
  "submit_paper_order uid now cfg registry payload =
     rbind (ensure_paper_history_capacity (cf_paper_trades cfg)) (\<lambda>_.
     rbind (paper_order_from_payload payload) (\<lambda>o'.
     rbind (require_market_enabled cfg (po_market_id o') ''paper trading'') (\<lambda>_.
     rbind (trading_adapter_for_market cfg (po_market_id o') registry) (\<lambda>ad.
     rbind (require (cap_paper_trading (ad_capabilities ad))
       (Exc UnsupportedFeatureError (po_market_id o' @ '' does not support paper_trading through this adapter.''))) (\<lambda>_.
     rbind (ad_place_paper_order ad o') (\<lambda>x.
     rbind (record_paper_trade uid now cfg o' x) (\<lambda>(cfg', t).
       Inr (cfg', [(''order'', PDict (order_view o')), (''result'', PDict (result_view x)), (''record'', PDict (paper_trade_to_dict t))]))))))))"

section \<open>Refilling the ticket\<close>

definition history_refill :: "app_config \<Rightarrow> string \<Rightarrow> obj res" where
  "history_refill cfg record_id =
     (case List.find (\<lambda>t. pt_id t = PStr record_id) (cf_paper_trades cfg) of
        None \<Rightarrow> value_error ''Paper history record was not found.''
      | Some t \<Rightarrow> Inr [(''market_id'', PStr (pt_market_id t)), (''contract_id'', PStr (pt_contract_id t)),
          (''side'', PStr (pt_side t)), (''size'', PFloat (pt_size t)), (''limit_price'', opt_float (pt_limit_price t)),
          (''message'', PStr (''Loaded paper history order: '' @ pt_market_id t @ '':'' @ pt_contract_id t @ '' ''
             @ pt_side t @ '' size='' @ fmt_g (pt_size t)))])"

definition position_close_side :: "paper_trade list \<Rightarrow> string \<Rightarrow> string \<Rightarrow> pyfloat \<Rightarrow> string" where
  "position_close_side records market_id contract_id net_size =
     (let sides = map (\<lambda>t. upper (pt_side t))
            (filter (\<lambda>t. pt_accepted t \<and> pt_market_id t = market_id \<and> pt_contract_id t = contract_id) records);
          back_lay = list_ex (\<lambda>s. s \<in> {''BACK'', ''LAY''}) sides;
          buy_sell = list_ex (\<lambda>s. s \<in> {''BUY'', ''SELL''}) sides in
      if back_lay \<and> \<not> buy_sell then (if flt (Fin 0) net_size then ''LAY'' else ''BACK'')
      else if flt (Fin 0) net_size then ''SELL'' else ''BUY'')"

definition open_position :: "bool \<Rightarrow> app_config \<Rightarrow> string \<Rightarrow> string \<Rightarrow> (paper_row \<times> pyfloat) res" where
  "open_position compensated cfg market contract =
     rbind (paper_position_rows compensated (cf_paper_trades cfg)) (\<lambda>rows.
     case find_row market contract rows of
       None \<Rightarrow> value_error ''Paper position was not found.''
     | Some row \<Rightarrow> (case pr_net_size row of
           None \<Rightarrow> value_error ''Paper position quantity accounting is unavailable for this venue or ledger.''
         | Some q \<Rightarrow> Inr (row, q)))"

definition position_refill :: "bool \<Rightarrow> app_config \<Rightarrow> string \<Rightarrow> string \<Rightarrow> (paper_order \<times> string) res" where
  "position_refill compensated cfg market_id contract_id =
     (let market = lower (strip market_id); contract = strip contract_id in
      rbind (open_position compensated cfg market contract) (\<lambda>(row, q).
        let side = position_close_side (cf_paper_trades cfg) market contract q in
        Inr (\<lparr> po_market_id = market, po_contract_id = contract, po_side = side, po_size = fabs q,
               po_limit_price = None, po_metadata = [] \<rparr>,
             ''Loaded paper position: '' @ market @ '':'' @ contract @ '' '' @ side @ '' size='' @ fmt_g (fabs q) @ ''; limit cleared.'')))"

section \<open>Marks\<close>

text \<open>The first price of the preference list: the side a position would be closed at comes first.
  The values of a snapshot are floats or missing.\<close>

definition first_price :: "(pyval \<times> string) list \<Rightarrow> (pyfloat \<times> string) res" where
  "first_price candidates = (case filter (\<lambda>(v, _). v \<noteq> PNone) candidates of
       [] \<Rightarrow> value_error ''No mark price is available for this position.''
     | (v, label) # _ \<Rightarrow> rbind (py_float v) (\<lambda>x. Inr (x, label)))"

definition mark_midpoint :: "price_snapshot \<Rightarrow> pyval res" where
  "mark_midpoint s = (if ps_midpoint s = PNone \<and> ps_bid s \<noteq> PNone \<and> ps_ask s \<noteq> PNone
     then rbind (py_float (ps_bid s)) (\<lambda>b. rbind (py_float (ps_ask s)) (\<lambda>a. Inr (PFloat (halved (fadd b a)))))
     else Inr (ps_midpoint s))"

definition paper_position_mark_price :: "price_snapshot \<Rightarrow> pyfloat \<Rightarrow> (pyfloat \<times> string) res" where
  "paper_position_mark_price s net_size =
     rbind (mark_midpoint s) (\<lambda>midpoint.
       first_price (if fle (Fin 0) net_size
         then [(ps_bid s, ''bid''), (midpoint, ''midpoint''), (ps_last s, ''last''), (ps_ask s, ''ask'')]
         else [(ps_ask s, ''ask''), (midpoint, ''midpoint''), (ps_last s, ''last''), (ps_bid s, ''bid'')]))"

definition marks_for_rows :: "paper_marks \<Rightarrow> paper_row list \<Rightarrow> paper_marks" where
  "marks_for_rows marks rows =
     filter (\<lambda>(k, _). k \<in> set (map (\<lambda>row. (pr_market_id row, pr_contract_id row)) rows)) marks"

definition new_mark :: "pyfloat \<Rightarrow> string \<Rightarrow> int \<Rightarrow> obj" where
  "new_mark price source now = [(''mark_price'', PFloat price), (''source'', PStr source), (''marked_at'', PInt now)]"

definition market_is_enabled :: "app_config \<Rightarrow> string \<Rightarrow> bool" where
  "market_is_enabled cfg market_id = (case dget (cf_markets cfg) market_id of None \<Rightarrow> False | Some m \<Rightarrow> mc_enabled m)"

text \<open>One row of \<open>refresh_paper_marks\<close>: any exception becomes a problem of that row.\<close>

definition mark_row :: "int \<Rightarrow> app_config \<Rightarrow> registry \<Rightarrow> paper_row \<Rightarrow> paper_marks \<times> string list \<Rightarrow> paper_marks \<times> string list" where
  "mark_row now cfg registry row acc =
     (case acc of (marks, problems) \<Rightarrow>
      let m = pr_market_id row; c = pr_contract_id row in
      case pr_net_size row of
        None \<Rightarrow> (marks, problems @ [m @ '':'' @ c @ '': quantity accounting unavailable''])
      | Some q \<Rightarrow>
          if \<not> market_is_enabled cfg m then (marks, problems @ [m @ '': disabled''])
          else case adapter_for_market cfg m registry of
              Inl e \<Rightarrow> (marks, problems @ [m @ '':'' @ c @ '': '' @ exc_text e])
            | Inr ad \<Rightarrow>
                if \<not> cap_price_reading (ad_capabilities ad) then (marks, problems @ [ad_display_name ad @ '': no price feed''])
                else case rbind (ad_get_price ad c) (\<lambda>s. paper_position_mark_price s q) of
                    Inl e \<Rightarrow> (marks, problems @ [m @ '':'' @ c @ '': '' @ exc_text e])
                  | Inr (price, source) \<Rightarrow> (dset (m, c) (new_mark price source now) marks, problems))"

definition refresh_paper_marks :: "int \<Rightarrow> app_config \<Rightarrow> registry \<Rightarrow> paper_row list \<Rightarrow> paper_marks \<Rightarrow> paper_marks \<times> string list" where
  "refresh_paper_marks now cfg registry rows existing =
     (case fold (mark_row now cfg registry) rows (marks_for_rows existing rows, []) of
        (marks, problems) \<Rightarrow> (marks_for_rows marks rows, problems))"

definition refresh_selected_paper_mark ::
    "bool \<Rightarrow> int \<Rightarrow> app_config \<Rightarrow> registry \<Rightarrow> string \<Rightarrow> string \<Rightarrow> paper_marks \<Rightarrow> paper_marks res" where
  "refresh_selected_paper_mark compensated now cfg registry market_id contract_id marks =
     (let market = lower (strip market_id); contract = strip contract_id in
      rbind (open_position compensated cfg market contract) (\<lambda>(row, q).
      rbind (require_market_enabled cfg market ''paper mark refresh'') (\<lambda>_.
      rbind (adapter_for_market cfg market registry) (\<lambda>ad.
      rbind (require (cap_price_reading (ad_capabilities ad)) (Exc UnsupportedFeatureError
        (ad_display_name ad @ '' does not support paper mark refresh.''))) (\<lambda>_.
      rbind (ad_get_price ad contract) (\<lambda>s.
      rbind (paper_position_mark_price s q) (\<lambda>(price, source).
      rbind (paper_position_rows compensated (cf_paper_trades cfg)) (\<lambda>rows.
        Inr (dset (market, contract) (new_mark price source now) (marks_for_rows marks rows))))))))))"

end
