(* ===== verification/Paper_Theorems.thy ===== *)
theory Paper_Theorems
  imports Paper_Exact Web_Paper
begin

text \<open>
  Properties of the paper ledger: the accounting never raises and its amounts are consistent, for
  whole shares it computes the exact positions, orders are recorded only when every check passes,
  the closing order of a position closes it, and marks belong to open rows.
\<close>

section \<open>Accounting\<close>

lemma finish_row_keeps [simp]:
  "pr_net_size (finish_row row) = pr_net_size row" "pr_average_price (finish_row row) = pr_average_price row"
  "pr_notional (finish_row row) = pr_notional row" "pr_realized (finish_row row) = pr_realized row"
  "pr_currency (finish_row row) = pr_currency row" "row_id (finish_row row) = row_id row"
  "pr_reasons (finish_row row) = [] \<longleftrightarrow> pr_reasons row = []"
  by (simp_all add: finish_row_def row_id_def)

lemma finish_row_inv: "row_inv row \<Longrightarrow> row_inv (finish_row row) \<and> (pr_complete (finish_row row) \<longrightarrow> priced_ok (finish_row row))"
  by (auto simp: row_inv_def priced_ok_def) (auto simp: finish_row_def)

lemma partition_distinct:
  "distinct (map f xs) \<Longrightarrow> (\<And>x. Q x = (\<not> P x)) \<Longrightarrow> distinct (map f (filter P xs @ filter Q xs))"
proof -
  assume d: "distinct (map f xs)" and q: "\<And>x. Q x = (\<not> P x)"
  have "Q = (\<lambda>x. \<not> P x)" using q by blast
  then have "mset (filter P xs @ filter Q xs) = mset xs" by (simp add: mset_filter multiset_partition[symmetric])
  then have "mset (map f (filter P xs @ filter Q xs)) = mset (map f xs)" by (simp only: mset_map)
  with d show ?thesis by (metis mset_eq_imp_distinct_iff)
qed


lemma accounting_rows:
  assumes "paper_accounting compensated records = Inr a" "row \<in> set (pc_positions a @ pc_closed a)"
  shows "\<exists>raw r. ledger_rows records = Inr raw \<and> r \<in> set raw \<and> row = finish_row r"
proof -
  obtain raw where raw: "ledger_rows records = Inr raw"
    using assms(1) by (auto simp: paper_accounting_def rbind_eq_Inr)
  have "set (pc_positions a @ pc_closed a) \<subseteq> finish_row ` set raw"
    using assms(1) unfolding paper_accounting_def Let_def raw rbind_Inr by (elim rbind_InrE) auto
  then show ?thesis using assms(2) raw by blast
qed

text \<open>C17: For whole shares and a turnover of at most 100,000,000,000 shares the floating-point ledger is exact: the
  quantity of every row is the integer sum of the fills bought minus the fills sold.\<close>

theorem whole_share_positions_are_exact:
  assumes "paper_accounting compensated records = Inr a" "row \<in> set (pc_positions a @ pc_closed a)"
    and "pr_net_size row = Some q" "list_all whole_fill (filter pt_accepted records)" "turnover records \<le> MAX_EXACT"
  shows "q = Fin (of_int (position_units (pr_market_id row, pr_contract_id row) records))"
proof -
  obtain r where r: "\<exists>raw. ledger_rows records = Inr raw \<and> r \<in> set raw" "row = finish_row r"
    using accounting_rows[OF assms(1,2)] by blast
  then show ?thesis
    using ledger_rows_exact[OF _ _ _ assms(4,5)] assms(3) by (auto simp: row_id_def finish_row_def)
qed

section \<open>Orders\<close>

lemma optional_positive_float_Some:
  "optional_positive_float v l = Inr (Some x) \<Longrightarrow> isfinite x \<and> flt (Fin 0) x"
  by (auto simp: optional_positive_float_def isfinite_iff not_flt_iff split: if_splits sum.splits)

text \<open>A paper order is recorded only when the market is enabled, its adapter simulates orders and
  the history has room; the record is put in front of an unchanged history, which stays within
  its capacity, with the validated order and what the adapter answered.\<close>

theorem submitted_order_is_recorded:
  assumes "submit_paper_order uid now cfg registry payload = Inr (cfg', view)"
  shows "\<exists>o' ad x t. paper_order_from_payload payload = Inr o' \<and> isfinite (po_size o') \<and> flt (Fin 0) (po_size o')
     \<and> po_side o' \<in> {''BUY'', ''SELL'', ''BACK'', ''LAY''}
     \<and> market_is_enabled cfg (po_market_id o') \<and> trading_adapter_for_market cfg (po_market_id o') registry = Inr ad
     \<and> cap_paper_trading (ad_capabilities ad) \<and> ad_place_paper_order ad o' = Inr x
     \<and> t = recorded_trade uid now o' x \<and> cfg' = cfg\<lparr> cf_paper_trades := t # cf_paper_trades cfg \<rparr>
     \<and> length (cf_paper_trades cfg') \<le> MAX_PAPER_TRADES"
proof -
  from assms obtain o' ad x where o': "paper_order_from_payload payload = Inr o'"
    and cap: "length (cf_paper_trades cfg) < MAX_PAPER_TRADES"
    and en: "require_market_enabled cfg (po_market_id o') ''paper trading'' = Inr ()"
    and ad: "trading_adapter_for_market cfg (po_market_id o') registry = Inr ad" "cap_paper_trading (ad_capabilities ad)"
    and x: "ad_place_paper_order ad o' = Inr x"
    and c: "cfg' = cfg\<lparr> cf_paper_trades := recorded_trade uid now o' x # cf_paper_trades cfg \<rparr>"
    unfolding submit_paper_order_def
    by (elim rbind_pair_InrE rbind_InrE) (auto simp: record_paper_trade_def ensure_paper_history_capacity_def rbind_eq_Inr Let_def)
  have "isfinite (po_size o') \<and> flt (Fin 0) (po_size o') \<and> po_side o' \<in> {''BUY'', ''SELL'', ''BACK'', ''LAY''}"
    using o' optional_positive_float_Some unfolding paper_order_from_payload_def Let_def
    by (auto simp: rbind_eq_Inr split: if_splits option.splits)
  then show ?thesis
    using o' cap en ad x c by (auto simp: require_market_enabled_Inr market_is_enabled_def)
qed

lemma find_row_mem: "find_row m c rows = Some row \<Longrightarrow> row \<in> set rows \<and> pr_market_id row = m \<and> pr_contract_id row = c"
  unfolding find_row_def by (auto dest: find_SomeD)

lemma open_position_Inr:
  assumes "open_position compensated cfg m c = Inr (row, q)"
  shows "\<exists>rows. paper_position_rows compensated (cf_paper_trades cfg) = Inr rows \<and> row \<in> set rows
    \<and> pr_market_id row = m \<and> pr_contract_id row = c \<and> pr_net_size row = Some q \<and> isfinite q \<and> q \<noteq> Fin 0"
proof -
  from assms obtain rows where r: "paper_position_rows compensated (cf_paper_trades cfg) = Inr rows"
    "find_row m c rows = Some row" "pr_net_size row = Some q"
    by (auto simp: open_position_def rbind_eq_Inr split: option.splits)
  then obtain a where a: "paper_accounting compensated (cf_paper_trades cfg) = Inr a" "rows = pc_positions a"
    by (auto simp: paper_position_rows_def rbind_eq_Inr)
  note m = find_row_mem[OF r(2)]
  from accounting_rows[OF a(1), of row] m a(2) obtain raw r0 where
    "ledger_rows (cf_paper_trades cfg) = Inr raw" "r0 \<in> set raw" "row = finish_row r0" by auto
  then have "row_inv row" using ledger_rows_inv finish_row_inv by (auto simp: list_all_iff)
  moreover have "\<not> feq q (Fin 0)"
    using a(1) m r(3) unfolding a(2) paper_accounting_def Let_def by (auto simp: rbind_eq_Inr)
  ultimately show ?thesis using r m by (auto simp: row_inv_def quantity_ok_def)
qed

lemma close_side: "position_close_side records m c q \<in> (if flt (Fin 0) q then {''SELL'', ''LAY''} else {''BUY'', ''BACK''})"
  by (simp add: position_close_side_def Let_def)

lemma close_side_upper: "upper ''SELL'' = ''SELL''" "upper ''LAY'' = ''LAY''" "upper ''BUY'' = ''BUY''" "upper ''BACK'' = ''BACK''"
  by code_simp+

text \<open>The order that refills the ticket from an open position closes exactly that position: it is
  for the same market and contract, its size is positive, and its signed size cancels the
  quantity without a rounding error.\<close>

theorem refilled_position_closes:
  assumes "position_refill compensated cfg market_id contract_id = Inr (o', message)"
  shows "\<exists>rows row q. paper_position_rows compensated (cf_paper_trades cfg) = Inr rows \<and> row \<in> set rows
     \<and> pr_market_id row = po_market_id o' \<and> pr_contract_id row = po_contract_id o' \<and> pr_net_size row = Some q
     \<and> flt (Fin 0) (po_size o') \<and> fadd q (paper_order_signed_size o') = Fin 0"
proof -
  let ?m = "lower (strip market_id)" and ?c = "strip contract_id"
  from assms obtain row q where p: "open_position compensated cfg ?m ?c = Inr (row, q)"
    and o': "o' = \<lparr> po_market_id = ?m, po_contract_id = ?c, po_side = position_close_side (cf_paper_trades cfg) ?m ?c q,
      po_size = fabs q, po_limit_price = None, po_metadata = [] \<rparr>"
    by (auto simp: position_refill_def Let_def rbind_eq_Inr)
  obtain rows where r: "paper_position_rows compensated (cf_paper_trades cfg) = Inr rows" "row \<in> set rows"
    "pr_market_id row = ?m" "pr_contract_id row = ?c" "pr_net_size row = Some q" "isfinite q" "q \<noteq> Fin 0"
    using open_position_Inr[OF p] by blast
  obtain x where x: "q = Fin x" "x \<noteq> 0" using r(6,7) by auto
  have "paper_order_signed_size o' = Fin (- x)"
    using close_side[of "cf_paper_trades cfg" ?m ?c q]
    by (auto simp: o' paper_order_signed_size_def Let_def x(1) close_side_upper split: if_splits)
  then show ?thesis using r x by (intro exI[of _ rows] exI[of _ row] exI[of _ q]) (simp add: o')
qed

section \<open>Marks\<close>

lemma mark_row_fresh:
  assumes "mark_row now cfg registry row (marks, problems) = (marks', problems')"
  shows "(\<exists>p. problems' = problems @ [p] \<and> marks' = marks)
    \<or> (\<exists>price source. problems' = problems \<and> marks' = dset (row_id row) (new_mark price source now) marks)"
  using assms by (auto simp: mark_row_def Let_def row_id_def split: option.splits sum.splits if_splits prod.splits)

lemma mark_rows_fresh:
  assumes "fold (mark_row now cfg registry) rows (marks, problems) = (marks', problems')"
    and "\<And>row. row \<in> set seen \<Longrightarrow> length problems < length problems' \<or> (\<exists>price source. dget marks (row_id row) = Some (new_mark price source now))"
  shows "length problems \<le> length problems' \<and> (\<forall>row \<in> set (seen @ rows). length problems < length problems'
     \<or> (\<exists>price source. dget marks' (row_id row) = Some (new_mark price source now)))"
  using assms
proof (induction rows arbitrary: marks problems seen)
  case (Cons row rows)
  obtain m1 p1 where s: "mark_row now cfg registry row (marks, problems) = (m1, p1)" by fastforce
  with Cons.prems(1) have f: "fold (mark_row now cfg registry) rows (m1, p1) = (marks', problems')" by simp
  from mark_row_fresh[OF s] show ?case
  proof (elim disjE exE conjE)
    fix p assume "p1 = problems @ [p]" "m1 = marks"
    then show ?thesis using Cons.IH[OF f, of "[]"] by auto
  next
    fix price source assume e: "p1 = problems" "m1 = dset (row_id row) (new_mark price source now) marks"
    have "length p1 < length problems' \<or> (\<exists>price source. dget m1 (row_id r) = Some (new_mark price source now))"
      if "r \<in> set (seen @ [row])" for r
      using that Cons.prems(2)[of r] by (cases "row_id r = row_id row") (auto simp: e)
    then show ?thesis using Cons.IH[OF f, of "seen @ [row]"] by (simp add: e)
  qed
qed auto

text \<open>Refreshing the marks of a portfolio leaves marks of open rows only, and unless it reports a
  problem every row has a mark taken now.\<close>

theorem refreshed_marks_are_current:
  assumes "refresh_paper_marks now cfg registry rows existing = (marks, problems)"
  shows "set (keys marks) \<subseteq> row_id ` set rows
     \<and> (problems = [] \<longrightarrow> (\<forall>row \<in> set rows. \<exists>price source. dget marks (row_id row) = Some (new_mark price source now)))"
proof -
  obtain m p where f: "fold (mark_row now cfg registry) rows (marks_for_rows existing rows, []) = (m, p)" by fastforce
  then have e: "marks = marks_for_rows m rows" "problems = p" using assms by (simp_all add: refresh_paper_marks_def)
  have k: "dget (marks_for_rows m rows) k = (if k \<in> row_id ` set rows then dget m k else None)" for k
    by (induction m) (auto simp: marks_for_rows_def row_id_def[abs_def])
  have "set (keys marks) \<subseteq> row_id ` set rows" by (auto simp: e marks_for_rows_def row_id_def[abs_def])
  moreover have "\<forall>row \<in> set rows. \<exists>price source. dget marks (row_id row) = Some (new_mark price source now)" if "p = []"
    using mark_rows_fresh[OF f, of "[]"] that by (auto simp: e k)
  ultimately show ?thesis by (simp add: e)
qed

section \<open>Instances\<close>

definition sample_fill :: paper_trade where
  "sample_fill = \<lparr> pt_market_id = ''polymarket'', pt_contract_id = ''c1'', pt_side = ''BUY'', pt_size = Fin 10,
     pt_limit_price = None, pt_accepted = True, pt_message = [], pt_filled_size = Fin 10, pt_average_price = Some (Fin (1/2)),
     pt_quote_currency = Some ''pUSD'', pt_raw = [], pt_id = PStr ''t1'', pt_created_at = PInt 7 \<rparr>"

definition sample_row :: paper_row where
  "sample_row = \<lparr> pr_market_id = ''polymarket'', pr_contract_id = ''c1'', pr_net_size = Some (Fin 10), pr_notional = Some (Fin 5),
     pr_average_price = Some (Fin (1/2)), pr_realized = Some (Fin 0), pr_trades = 1, pr_currency = Some ''pUSD'', pr_complete = True,
     pr_reasons = [], pr_assumptions = [], pr_quantity_unit = ''shares'' \<rparr>"

lemma sample_floats:
  "to_float 10 = Fin 10" "to_float 5 = Fin 5" "float_of_int 7 = Inr (Fin 7)" "is_integer (Fin 7)"
  using to_float_of_int[of 10] to_float_of_int[of 5] float_of_int_small[of 7] by simp_all

lemma sample_account: "account_record False sample_fill (empty_row sample_fill) = Inr sample_row"
proof -
  obtain d where d: "fmul DUST (Fin 10) = Fin d" "d < 1" using dust_small[of 10] by auto
  have t: "strip ''t1'' \<noteq> []" "strip ''c1'' \<noteq> []" "has_key SHARE_QUOTE_CURRENCIES ''polymarket''" by code_simp+
  have n: "number (PFloat (Fin x)) = Some (Fin x)" "number (PInt 7) = Some (Fin 7)" for x
    by (simp_all add: number_def sample_floats)
  have c: "checked False sample_fill (empty_row sample_fill) = (empty_row sample_fill)\<lparr> pr_trades := 1 \<rparr>"
    using t n sample_floats(4)
    by (simp add: checked_def check_defs fill_quantity_ok_def identity_and_time_ok_def) (simp add: empty_row_def sample_fill_def)
  have s: "supported_record sample_fill" using t close_side_upper by (simp add: supported_record_def sample_fill_def)
  have f: "fill_price sample_fill = Some (Fin (1/2))" "signed_fill sample_fill = Fin 10" "\<not> hypothetical sample_fill"
    using n close_side_upper
    by (simp_all add: fill_price_def hypothetical_def opt_number_def opt_float_def signed_fill_def fill_size_def sign_factor_def
        sample_fill_def sample_floats)
  have "account_record False sample_fill (empty_row sample_fill)
      = apply_fill sample_fill (Fin 0) ((empty_row sample_fill)\<lparr> pr_trades := 1 \<rparr>)"
    using s c[unfolded checked_def] by (simp add: account_record_def Let_def) (simp add: empty_row_def)
  also have "\<dots> = Inr (settle_row (Fin 0) (Fin 10) (Fin 10) (Some (Fin (1/2))) ((empty_row sample_fill)\<lparr> pr_trades := 1 \<rparr>))"
    by (simp add: apply_fill_def Let_def f note_fill_def sample_floats added_average_def)
  also have "\<dots> = Inr sample_row"
    using d by (simp add: settle_row_def Let_def fmax_def finite_or_none_def sample_floats)
      (simp add: empty_row_def sample_fill_def sample_row_def)
  finally show ?thesis .
qed

lemma sample_accounting:
  "paper_accounting compensated [sample_fill] = Inr \<lparr> pc_complete = True, pc_positions = [sample_row], pc_closed = [],
     pc_realized = Some (Fin 0), pc_quote_currency = Some ''pUSD'', pc_reasons = [], pc_assumptions = [] \<rparr>"
proof -
  have "ledger_rows [sample_fill] = Inr [sample_row]"
    using sample_account
    by (simp add: ledger_rows_def chronological_def ledger_step_def dget_or_def) (simp add: sample_fill_def hashable_def)
  then show ?thesis
    by (simp add: paper_accounting_def Let_def finish_row_def sample_row_def row_currencies_def sorted_set_def
        realized_total_def float_sum_def finite_or_none_def)
qed

lemma sample_ledger_ok:
  "list_all (\<lambda>t. hashable (pt_id t)) [sample_fill]" "list_all whole_fill (filter pt_accepted [sample_fill])"
  "turnover [sample_fill] \<le> MAX_EXACT"
proof -
  have "number (PFloat (Fin 10)) = Some (Fin 10)" by (simp add: number_def)
  then show "list_all (\<lambda>t. hashable (pt_id t)) [sample_fill]" "list_all whole_fill (filter pt_accepted [sample_fill])"
    "turnover [sample_fill] \<le> MAX_EXACT"
    by (simp_all add: sample_fill_def hashable_def whole_fill_def fill_units_def fill_size_def hypothetical_def turnover_def MAX_EXACT_def)
qed


theorem whole_share_positions_are_exact_witness:
  "Fin 10 = Fin (of_int (position_units (''polymarket'', ''c1'') [sample_fill]))"
  using whole_share_positions_are_exact[OF sample_accounting _ _ sample_ledger_ok(2,3), of sample_row "Fin 10"]
  by (simp add: sample_row_def)

definition trading_config :: "copy_settings \<Rightarrow> app_config" where
  "trading_config settings = \<lparr> cf_alerts = [], cf_alert_events = [], cf_paper_trades = [sample_fill], cf_wallets = [],
     cf_copy_activity_outbox = [], cf_mutation_journal = [], cf_copytrading = settings,
     cf_markets = [(''polymarket'', \<lparr> mc_market_id = ''polymarket'', mc_enabled = True, mc_settings = [] \<rparr>)],
     cf_selected_market_id = ''polymarket'', cf_theme = Light, cf_ui_design = Aurora2026 \<rparr>"

definition sample_trading_adapter :: trading_adapter where
  "sample_trading_adapter = \<lparr> ad_capabilities = default_capabilities\<lparr> cap_paper_trading := True \<rparr>,
     ad_display_name = ''Polymarket'', ad_get_price = (\<lambda>c. value_error ''no price''),
     ad_place_paper_order = (\<lambda>o'. Inr \<lparr> px_market_id = po_market_id o', px_contract_id = po_contract_id o', px_accepted = True,
       px_message = ''ok'', px_filled_size = Fin 0, px_average_price = None, px_raw = [] \<rparr>) \<rparr>"

definition sample_order_payload :: obj where
  "sample_order_payload = [(''market_id'', PStr ''Polymarket''), (''contract_id'', PStr ''c1''), (''side'', PStr ''buy''), (''size'', PFloat (Fin 3))]"

definition sample_order :: paper_order where
  "sample_order = \<lparr> po_market_id = ''polymarket'', po_contract_id = ''c1'', po_side = ''BUY'', po_size = Fin 3,
     po_limit_price = None, po_metadata = [] \<rparr>"

lemma sample_order_parsed: "paper_order_from_payload sample_order_payload = Inr sample_order"
  by code_simp

lemma sample_submit:
  "\<exists>c v. submit_paper_order ''t3'' 11 (trading_config settings) (\<lambda>_ _. Inr sample_trading_adapter) sample_order_payload = Inr (c, v)"
  by (simp add: submit_paper_order_def sample_order_parsed ensure_paper_history_capacity_def MAX_PAPER_TRADES_def
      require_market_enabled_def trading_adapter_for_market_def record_paper_trade_def Let_def trading_config_def)
    (simp add: sample_order_def sample_trading_adapter_def)

theorem submitted_order_is_recorded_witness:
  "\<exists>c v. submit_paper_order ''t3'' 11 (trading_config default_copy_settings) (\<lambda>_ _. Inr sample_trading_adapter) sample_order_payload = Inr (c, v)
     \<and> tl (cf_paper_trades c) = [sample_fill]"
proof -
  obtain c v where s: "submit_paper_order ''t3'' 11 (trading_config default_copy_settings) (\<lambda>_ _. Inr sample_trading_adapter)
      sample_order_payload = Inr (c, v)"
    using sample_submit[of default_copy_settings] by blast
  show ?thesis using submitted_order_is_recorded[OF s] s by (auto simp: trading_config_def)
qed

lemma sample_refill:
  "\<exists>m. position_refill compensated (trading_config settings) '' Polymarket'' ''c1'' = Inr (\<lparr> po_market_id = ''polymarket'',
     po_contract_id = ''c1'', po_side = ''SELL'', po_size = Fin 10, po_limit_price = None, po_metadata = [] \<rparr>, m)"
proof -
  have t: "lower (strip '' Polymarket'') = ''polymarket''" "strip ''c1'' = ''c1''" by code_simp+
  have "open_position compensated (trading_config settings) ''polymarket'' ''c1'' = Inr (sample_row, Fin 10)"
    by (simp add: open_position_def paper_position_rows_def trading_config_def sample_accounting find_row_def)
      (simp add: sample_row_def)
  moreover have "position_close_side [sample_fill] ''polymarket'' ''c1'' (Fin 10) = ''SELL''"
    using close_side_upper by (simp add: position_close_side_def Let_def sample_fill_def)
  ultimately show ?thesis by (simp add: position_refill_def t Let_def trading_config_def)
qed

theorem refilled_position_closes_witness:
  "\<exists>o' m q. position_refill False (trading_config default_copy_settings) '' Polymarket'' ''c1'' = Inr (o', m)
     \<and> po_side o' = ''SELL'' \<and> fadd q (paper_order_signed_size o') = Fin 0"
proof -
  obtain o' m where s: "position_refill False (trading_config default_copy_settings) '' Polymarket'' ''c1'' = Inr (o', m)" "po_side o' = ''SELL''"
    using sample_refill[of False default_copy_settings] by auto
  show ?thesis using refilled_position_closes[OF s(1)] s by blast
qed

definition quote_adapter :: adapter where
  "quote_adapter = \<lparr> ad_capabilities = default_capabilities\<lparr> cap_price_reading := True \<rparr>, ad_display_name = ''Polymarket'',
     ad_get_price = (\<lambda>c. Inr \<lparr> ps_market_id = ''polymarket'', ps_contract_id = c, ps_last = PNone, ps_bid = PFloat (Fin (1/2)),
       ps_ask = PNone, ps_midpoint = PNone, ps_source = ''rest'', ps_raw = [] \<rparr>) \<rparr>"

definition bid_quote :: price_snapshot where
  "bid_quote = \<lparr> ps_market_id = ''polymarket'', ps_contract_id = ''c1'', ps_last = PNone, ps_bid = PFloat (Fin (1/2)),
     ps_ask = PNone, ps_midpoint = PNone, ps_source = ''rest'', ps_raw = [] \<rparr>"

lemma sample_quote:
  "cap_price_reading (ad_capabilities quote_adapter)" "ad_get_price quote_adapter ''c1'' = Inr bid_quote"
  "paper_position_mark_price bid_quote (Fin 10) = Inr (Fin (1/2), ''bid'')"
  "market_is_enabled (trading_config settings) ''polymarket''"
  by (simp_all add: quote_adapter_def bid_quote_def paper_position_mark_price_def mark_midpoint_def first_price_def
      market_is_enabled_def trading_config_def)

lemma sample_marks:
  "refresh_paper_marks 11 (trading_config settings) (\<lambda>_ _. Inr quote_adapter) [sample_row] []
     = ([((''polymarket'', ''c1''), new_mark (Fin (1/2)) ''bid'' 11)], [])"
proof -
  have r: "pr_market_id sample_row = ''polymarket''" "pr_contract_id sample_row = ''c1''" "pr_net_size sample_row = Some (Fin 10)"
    by (simp_all add: sample_row_def)
  have "mark_row 11 (trading_config settings) (\<lambda>_ _. Inr quote_adapter) sample_row ([], [])
      = ([((''polymarket'', ''c1''), new_mark (Fin (1/2)) ''bid'' 11)], [])"
    by (simp add: mark_row_def r Let_def adapter_for_market_def sample_quote)
  then show ?thesis by (simp add: refresh_paper_marks_def marks_for_rows_def r)
qed

theorem refreshed_marks_are_current_witness:
  "\<exists>price source. dget (fst (refresh_paper_marks 11 (trading_config default_copy_settings) (\<lambda>_ _. Inr quote_adapter) [sample_row] []))
     (''polymarket'', ''c1'') = Some (new_mark price source 11)"
  using refreshed_marks_are_current[OF sample_marks[of default_copy_settings]]
  by (simp only: sample_marks fst_conv) (simp add: row_id_def sample_row_def)

end
