(* ===== verification/Config_Roundtrip.thy ===== *)
theory Config_Roundtrip
  imports Models_Copy_Laws Models_Config_Laws
begin

text \<open>
  Writing the whole configuration and reading it back. Each durable record has a well-formedness
  predicate that says which records the reader accepts unchanged; \<open>config_ok\<close> collects them with
  the capacities and the uniqueness of identities.
\<close>

section \<open>Fields\<close>

lemma config_integer_nonneg [simp]: "0 \<le> n \<Longrightarrow> config_integer (PInt n) k None = Inr n"
  by (simp add: config_integer_PInt)

lemma record_identity_stable [simp]: "oget d k = PStr s \<Longrightarrow> stable_identity s \<Longrightarrow> record_identity d k = Inr s"
  by (simp add: record_identity_Inr)

lemma config_records_written:
  "oget_or d k (PList []) = PList (map (PDict \<circ> g) rs) \<Longrightarrow> length rs \<le> n \<Longrightarrow> config_records d k n = Inr (map g rs)"
  by (simp add: config_records_Inr)

lemma rmap_same: "(\<And>x. x \<in> set xs \<Longrightarrow> f x = Inr x) \<Longrightarrow> rmap f xs = Inr xs"
  by (induction xs) auto

lemma rmap_read: "(\<And>x. x \<in> set xs \<Longrightarrow> f (g x) = Inr x) \<Longrightarrow> rmap f (map g xs) = Inr xs"
  by (induction xs) auto

lemma read_records_written:
  assumes "\<And>x uid now. x \<in> set xs \<Longrightarrow> from_dict uid now (g x) = Inr x"
  shows "read_records fresh key from_dict (map g xs) = Inr xs"
proof -
  have "rmap (\<lambda>(i, x). case fresh key i of (uid, now) \<Rightarrow> from_dict uid now x) (enumerate n (map g xs)) = Inr xs" for n
    using assms by (induction xs arbitrary: n) (auto simp: case_prod_unfold)
  then show ?thesis by (simp add: read_records_def)
qed

lemma read_records_mapped:
  "read_records fresh key from_dict (map g xs) = read_records fresh key (\<lambda>uid now x. from_dict uid now (g x)) xs"
proof -
  have "rmap (\<lambda>(i, x). case fresh key i of (uid, now) \<Rightarrow> from_dict uid now x) (enumerate n (map g xs))
      = rmap (\<lambda>(i, x). case fresh key i of (uid, now) \<Rightarrow> from_dict uid now (g x)) (enumerate n xs)" for n
    by (induction xs arbitrary: n) (simp_all add: case_prod_unfold)
  then show ?thesis by (simp add: read_records_def)
qed

lemma read_records_plain: "read_records fresh key (\<lambda>uid now. from_dict) xs = rmap from_dict xs"
proof -
  have "rmap (\<lambda>(i, x). case fresh key i of (uid, now) \<Rightarrow> from_dict x) (enumerate n xs) = rmap from_dict xs" for n
    by (induction xs arbitrary: n) (simp_all add: case_prod_unfold)
  then show ?thesis by (simp add: read_records_def)
qed

section \<open>The contract of a durable record\<close>

text \<open>Every kind of record of the configuration has a writer and a reader; the reader restores the
  well-formed records it is given in writing, whatever the default factories would supply. A section of
  the configuration is then restored as a whole.\<close>

locale durable_record =
  fixes wr :: "'r \<Rightarrow> obj" and rd :: "string \<Rightarrow> int \<Rightarrow> obj \<Rightarrow> 'r res" and ok :: "'r \<Rightarrow> bool"
  assumes reread: "ok r \<Longrightarrow> rd uid now (wr r) = Inr r"
begin

lemma records_reread: "list_all ok rs \<Longrightarrow> read_records fresh key rd (map wr rs) = Inr rs"
  by (intro read_records_written reread) (simp add: list_all_iff)

lemma section_reread:
  assumes "list_all ok rs" "length rs \<le> n" "oget_or d k (PList []) = PList (map (PDict \<circ> wr) rs)"
  shows "rbind (config_records d k n) (read_records fresh key rd) = Inr rs"
  using config_records_written[OF assms(3,2)] records_reread[OF assms(1)] by simp

end

interpretation alert_record: durable_record price_alert_to_dict price_alert_from_dict price_alert_ok
  by unfold_locales (rule price_alert_roundtrip)

interpretation event_record: durable_record alert_event_to_dict "\<lambda>uid now. alert_event_from_dict" alert_event_ok
  by unfold_locales (rule alert_event_roundtrip)

interpretation trade_record: durable_record paper_trade_to_dict paper_trade_from_dict paper_trade_ok
  by unfold_locales (rule paper_trade_roundtrip)

lemma digest_stable: "is_digest s \<Longrightarrow> stable_identity s"
proof -
  assume d: "is_digest s"
  have c: "\<not> is_space c \<and> \<not> is_control c" if "c \<in> set s" for c
    using d that by (auto simp: is_digest_def list_all_iff is_hex_lower_def is_digit_def is_space_def is_control_def)
  have "s \<noteq> []" using d by (auto simp: is_digest_def)
  moreover from this have "strip s = s" using c by (intro strip_no_space_ends) auto
  ultimately show ?thesis using c by (auto simp: stable_identity_def list_ex_iff)
qed

section \<open>Watched wallets\<close>

definition timestamps_ok :: "(string, int) dict \<Rightarrow> bool" where
  "timestamps_ok ts \<longleftrightarrow> length ts \<le> 10000 \<and> list_all (\<lambda>(k, n). stable_identity k \<and> 0 \<le> n) ts"

definition activity_keys_ok :: "string list \<Rightarrow> bool" where
  "activity_keys_ok ks \<longleftrightarrow> length ks \<le> 10000 \<and> list_all activity_key_ok ks \<and> distinct ks"

text \<open>A stored cursor has the four cursor fields of a wallet, in any order.\<close>

definition cursor_ok :: "obj \<Rightarrow> bool" where
  "cursor_ok c \<longleftrightarrow> dict_ok c \<and> set (keys c) = set cursor_fields
     \<and> (case (oget c ''last_seen_ts'', oget c ''seen_activity_keys'', oget c ''activity_key_timestamps'') of
          (PInt n, PList ks, PDict ts) \<Rightarrow> 0 \<le> n \<and> list_all is_str ks \<and> activity_keys_ok (map the_str ks)
             \<and> list_all (\<lambda>(_, v). is_int v) ts \<and> timestamps_ok (map (\<lambda>(k, v). (k, the_int v)) ts)
        | _ \<Rightarrow> False)"

definition wallet_ok :: "wallet_watch \<Rightarrow> bool" where
  "wallet_ok w \<longleftrightarrow> 0 \<le> ww_last_seen_ts w \<and> activity_keys_ok (ww_seen_activity_keys w)
     \<and> timestamps_ok (ww_activity_key_timestamps w) \<and> ww_activity_cursor_market_id w \<in> set MARKET_IDS
     \<and> length (ww_activity_cursors w) \<le> MAX_MARKET_CONFIGS
     \<and> list_all (\<lambda>(k, c). k \<in> set MARKET_IDS \<and> cursor_ok c) (ww_activity_cursors w)"

lemma activity_keys_written: "activity_keys_ok ks \<Longrightarrow> activity_keys (PList (map PStr ks)) = Inr ks"
  by (simp add: activity_keys_def activity_keys_ok_def list_all_iff comp_def)

lemma key_timestamps_written: "timestamps_ok ts \<Longrightarrow> key_timestamps (timestamps_value ts) = Inr ts"
proof -
  assume ok: "timestamps_ok ts"
  have "rmap (\<lambda>(k, t). rbind (record_identity [(''key'', PStr k)] ''key'') (\<lambda>key.
      rbind (config_integer t ''activity timestamp'' None) (\<lambda>n. Inr (key, n)))) (map (\<lambda>(k, n). (k, PInt n)) ts) = Inr ts"
    using ok by (intro rmap_read) (auto simp: timestamps_ok_def list_all_iff)
  then show ?thesis using ok by (simp add: key_timestamps_def timestamps_value_def timestamps_ok_def)
qed

lemma dget_dupdate: "dict_ok e \<Longrightarrow> dget (dupdate d e) k = (case dget e k of Some x \<Rightarrow> Some x | None \<Rightarrow> dget d k)"
proof (induction d e rule: dupdate.induct)
  case (2 d k' v e)
  then have "dget e k' = None" "dict_ok e" by (simp_all add: dict_ok_def map_of_eq_None_iff)
  with 2 show ?case by (auto split: option.split)
qed simp

lemma keys_dupdate: "set (keys (dupdate d e)) = set (keys d) \<union> set (keys e)"
  by (induction d e rule: dupdate.induct) (simp_all add: keys_dset del: set_map)

lemma inner_wallet:
  assumes ok: "cursor_ok c"
  obtains w where "wallet_build (\<lambda>_. value_error []) [] (dupdate [(''wallet'', v)] c) = Inr w"
    "map (\<lambda>(f, _). (f, cursor_attr w f)) c = c"
proof -
  let ?d = "dupdate [(''wallet'', v)] c"
  obtain n ks ts where c: "oget c ''last_seen_ts'' = PInt n" "oget c ''seen_activity_keys'' = PList ks"
      "oget c ''activity_key_timestamps'' = PDict ts"
    and n: "0 \<le> n" "list_all is_str ks" "activity_keys_ok (map the_str ks)" "list_all (\<lambda>(_, v). is_int v) ts"
      "timestamps_ok (map (\<lambda>(k, v). (k, the_int v)) ts)"
    and d: "dict_ok c" "set (keys c) = set cursor_fields"
    using ok by (auto simp: cursor_ok_def split: pyval.splits)
  have ks: "ks = map PStr (map the_str ks)" using n(2) by (induction ks) auto
  have ts: "PDict ts = timestamps_value (map (\<lambda>(k, v). (k, the_int v)) ts)"
    using n(4) by (induction ts) (auto simp: timestamps_value_def)
  have none: "dget c k = None" if "k \<notin> set cursor_fields" for k
    using that d(2) by (metis map_of_eq_None_iff list.set_map)
  have some: "dget c k = Some (oget c k)" if "k \<in> set cursor_fields" for k
  proof -
    have "k \<in> dom (dget c)" using that d(2) by (simp add: dom_map_of_conv_image_fst)
    then show ?thesis by (auto simp: oget_def)
  qed
  have g: "oget_or ?d k x = (if k \<in> set cursor_fields then oget c k else if k = ''wallet'' then v else x)" for k x
    using none[of k] some[of k] d(1) by (auto simp: oget_or_def dget_dupdate)
  have f: "set (keys ?d) = insert ''wallet'' (set cursor_fields)" by (simp add: keys_dupdate d(2) del: set_map)
  show ?thesis
  proof (rule that)
    let ?w = "\<lparr> ww_wallet = v, ww_display_name = PStr [], ww_enabled = True, ww_id = PStr [], ww_last_seen_ts = n,
      ww_last_seen_tx = oget c ''last_seen_tx'', ww_seen_activity_keys = map the_str ks,
      ww_activity_key_timestamps = map (\<lambda>(k, v). (k, the_int v)) ts, ww_activity_cursor_market_id = DEFAULT_MARKET_ID,
      ww_activity_cursors = [], ww_only_market_slug = PStr [] \<rparr>"
    have l: "oget ?d ''wallet'' = v" using g[of "''wallet''" PNone] by (simp add: oget_def oget_or_def cursor_fields_def)
    have a: "activity_keys (PList ks) = Inr (map the_str ks)" using activity_keys_written[OF n(3)] ks by simp
    have t: "key_timestamps (PDict ts) = Inr (map (\<lambda>(k, v). (k, the_int v)) ts)" using key_timestamps_written[OF n(5)] ts by simp
    have m: "cursor_market (PStr DEFAULT_MARKET_ID) = Inr DEFAULT_MARKET_ID"
      by (simp add: cursor_market_def DEFAULT_MARKET_ID_def polymarket_in_MARKET_IDS)
    have args: "dataclass_args ''WalletWatch'' wallet_fields [''wallet''] ?d = Inr ()"
      using f by (simp add: dataclass_args_Inr cursor_fields_def wallet_fields_def del: set_map)
    show "wallet_build (\<lambda>_. value_error []) [] ?d = Inr ?w"
      by (simp add: wallet_build_def config_bool_def g c n(1) a t m args l cursor_shapes_def cursor_fields_def)
    have "cursor_attr ?w ''last_seen_ts'' = oget c ''last_seen_ts''" "cursor_attr ?w ''last_seen_tx'' = oget c ''last_seen_tx''"
      "cursor_attr ?w ''seen_activity_keys'' = oget c ''seen_activity_keys''"
      "cursor_attr ?w ''activity_key_timestamps'' = oget c ''activity_key_timestamps''"
      by (simp_all add: cursor_attr_def c ks[symmetric] ts[symmetric] del: map_map)
    then have "cursor_attr ?w k = oget c k" if "k \<in> set cursor_fields" for k
      using that unfolding cursor_fields_def by (simp del: One_nat_def) (elim disjE; simp only:)
    moreover have "k \<in> set cursor_fields" "oget c k = x" if "(k, x) \<in> set c" for k x
      using that d(1) d(2)[symmetric] by (force, simp add: oget_def dict_ok_mem)
    ultimately have "(k, cursor_attr ?w k) = (k, x)" if "(k, x) \<in> set c" for k x using that by simp
    then show "map (\<lambda>(f, _). (f, cursor_attr ?w f)) c = c" by (intro map_idI) auto
  qed
qed

lemma cursor_keys: "cursor_ok c \<Longrightarrow> set (keys c) = set cursor_fields"
  by (simp add: cursor_ok_def)

lemma cursor_shapes_written:
  assumes "length cs \<le> MAX_MARKET_CONFIGS" "list_all (\<lambda>(k, c). k \<in> set MARKET_IDS \<and> cursor_ok c) cs"
  shows "cursor_shapes (PDict (map (\<lambda>(k, c). (k, PDict c)) cs)) = Inr cs"
proof -
  have "cursor_shape (k, PDict c) = Inr (k, c)" if "(k, c) \<in> set cs" for k c
    using assms(2) cursor_keys[of c] that by (auto simp: cursor_shape_def list_all_iff simp del: set_map)
  then have "rmap cursor_shape (map (\<lambda>(k, c). (k, PDict c)) cs) = Inr cs" by (intro rmap_read) auto
  then show ?thesis using assms(1) by (simp add: cursor_shapes_def)
qed

lemma wallet_roundtrip:
  assumes ok: "wallet_ok w"
  shows "wallet_from_dict uid (wallet_with_market d (wallet_to_dict w)) = Inr w"
proof -
  let ?x = "wallet_to_dict w"
  have same: "wallet_with_market d ?x = ?x" by (simp add: wallet_with_market_def wallet_to_dict_def)
  have l: "oget_or ?x ''enabled'' v = PBool (ww_enabled w)" "oget_or ?x ''last_seen_ts'' v = PInt (ww_last_seen_ts w)"
    "oget_or ?x ''seen_activity_keys'' v = PList (map PStr (ww_seen_activity_keys w))"
    "oget_or ?x ''activity_key_timestamps'' v = timestamps_value (ww_activity_key_timestamps w)"
    "oget_or ?x ''activity_cursor_market_id'' v = PStr (ww_activity_cursor_market_id w)"
    "oget_or ?x ''activity_cursors'' v = PDict (map (\<lambda>(k, c). (k, PDict c)) (ww_activity_cursors w))"
    "oget ?x ''wallet'' = ww_wallet w" "oget_or ?x ''wallet'' v = ww_wallet w" "oget_or ?x ''display_name'' v = ww_display_name w"
    "oget_or ?x ''id'' v = ww_id w" "oget_or ?x ''last_seen_tx'' v = ww_last_seen_tx w"
    "oget_or ?x ''only_market_slug'' v = ww_only_market_slug w" for v
    by (simp_all add: wallet_to_dict_def)
  have args: "dataclass_args ''WalletWatch'' wallet_fields [''wallet''] ?x = Inr ()"
    by (simp add: dataclass_args_Inr wallet_to_dict_def wallet_fields_def)
  have cursors: "rmap (\<lambda>(k, c). rbind (wallet_build (\<lambda>_. value_error []) [] (dupdate [(''wallet'', v)] c)) (\<lambda>w.
      Inr (k, map (\<lambda>(f, _). (f, cursor_attr w f)) c))) (ww_activity_cursors w) = Inr (ww_activity_cursors w)" for v
  proof (rule rmap_same, clarify)
    fix k c assume "(k, c) \<in> set (ww_activity_cursors w)"
    then have "cursor_ok c" using ok by (auto simp: wallet_ok_def list_all_iff)
    then obtain w' where "wallet_build (\<lambda>_. value_error []) [] (dupdate [(''wallet'', v)] c) = Inr w'"
      "map (\<lambda>(f, _). (f, cursor_attr w' f)) c = c" by (rule inner_wallet)
    then show "rbind (wallet_build (\<lambda>_. value_error []) [] (dupdate [(''wallet'', v)] c)) (\<lambda>w.
      Inr (k, map (\<lambda>(f, _). (f, cursor_attr w f)) c)) = Inr (k, c)" by simp
  qed
  have "wallet_build (wallet_build (\<lambda>_. value_error []) []) uid ?x = Inr w"
    unfolding wallet_build_def[of "wallet_build (\<lambda>_. value_error []) []"]
    using ok
    by (simp add: config_bool_def l args cursors wallet_ok_def activity_keys_written key_timestamps_written cursor_market_def
        cursor_shapes_written)
  then show ?thesis by (simp add: wallet_from_dict_def same)
qed

interpretation wallet_record: durable_record wallet_to_dict "\<lambda>uid now x. wallet_from_dict uid (wallet_with_market d x)" wallet_ok for d
  by unfold_locales (rule wallet_roundtrip)

section \<open>Outbox and journal entries\<close>

lemma outbox_roundtrip:
  assumes ok: "outbox_entry_ok e"
  shows "outbox_from_dict (outbox_to_dict e) = Inr e"
proof -
  note o = ok[unfolded outbox_entry_ok_def]
  let ?x = "outbox_to_dict e"
  have l: "oget ?x ''id'' = PStr (co_id e)" "oget ?x ''watch_id'' = PStr (co_watch_id e)"
    "oget ?x ''activity_key'' = PStr (co_activity_key e)" "oget ?x ''market_id'' = PStr (co_market_id e)"
    "oget ?x ''activity'' = PDict (co_activity e)" "oget ?x ''state'' = PStr (state_str (co_state e))"
    "oget_or ?x ''dispatch'' v = PDict (co_dispatch e)" "oget_or ?x ''execution_policy'' v = PDict (co_execution_policy e)"
    "oget_or ?x ''attempts'' v = PInt (co_attempts e)" "oget_or ?x ''created_at'' v = PInt (co_created_at e)"
    "oget_or ?x ''updated_at'' v = PInt (co_updated_at e)" "oget_or ?x ''replay_authorized_at'' v = PInt (co_replay_authorized_at e)"
    "oget ?x ''outcome_code'' = PStr (co_outcome_code e)" "oget ?x ''outcome_message'' = PStr (co_outcome_message e)" for v
    by (simp_all add: outbox_to_dict_def)
  have "(if co_execution_policy e = [] then Inr () else rbind (copy_settings_from_dict (co_execution_policy e)) (\<lambda>_. Inr ())) = Inr ()"
    using o by auto
  then show ?thesis
    using o unfolding outbox_from_dict_def
    by (simp add: record_object_def l stored_state_def text_or_empty_def py_or_def)
qed

lemma journal_roundtrip:
  assumes ok: "journal_entry_ok e"
  shows "journal_from_dict (journal_to_dict e) = Inr e"
proof -
  note o = ok[unfolded journal_entry_ok_def]
  let ?x = "journal_to_dict e"
  have l: "oget ?x ''id'' = PStr (mj_id e)" "oget ?x ''key_hash'' = PStr (mj_key_hash e)"
    "oget ?x ''request_hash'' = PStr (mj_request_hash e)" "oget ?x ''method'' = PStr (mj_method e)"
    "oget ?x ''path'' = PStr (mj_path e)" "oget ?x ''state'' = PStr (state_str (mj_state e))"
    "has_key ?x ''live''" "oget_or ?x ''live'' v = PBool (mj_live e)"
    "oget_or ?x ''response_status'' v = PInt (mj_response_status e)" "oget_or ?x ''response'' v = PDict (bounded_result (mj_response e))"
    "oget_or ?x ''created_at'' v = PInt (mj_created_at e)"
    "oget_or ?x ''updated_at'' v = PInt (mj_updated_at e)" "oget_or ?x ''replay_authorized_at'' v = PInt (mj_replay_authorized_at e)"
    "oget ?x ''outcome_code'' = PStr (mj_outcome_code e)" "oget ?x ''outcome_message'' = PStr (mj_outcome_message e)" for v
    by (simp_all add: journal_to_dict_def has_key_def)
  have h: "stable_identity (mj_key_hash e)" "stable_identity (mj_request_hash e)"
    using o by (auto intro: digest_stable)
  have st: "stored_state ?x = mj_state e" by (simp add: stored_state_def l)
  have status: "config_integer (PInt (mj_response_status e)) ''response_status'' (Some 599) = Inr (mj_response_status e)"
    using o by (simp add: config_integer_def)
  show ?thesis
    using o h unfolding journal_from_dict_def
    by (simp add: record_object_def config_bool_def l st status text_or_empty_def py_or_def)
qed

interpretation outbox_record: durable_record outbox_to_dict "\<lambda>uid now. outbox_from_dict" outbox_entry_ok
  by unfold_locales (rule outbox_roundtrip)

interpretation journal_record: durable_record journal_to_dict "\<lambda>uid now. journal_from_dict" journal_entry_ok
  by unfold_locales (rule journal_roundtrip)

section \<open>Market configurations\<close>

text \<open>The table starts with the catalogue in its order; venues unknown to it come after.\<close>

definition markets_ok :: "(string, market_config) dict \<Rightarrow> bool" where
  "markets_ok ms \<longleftrightarrow> length ms \<le> MAX_MARKET_CONFIGS \<and> dict_ok ms \<and> take (length MARKET_IDS) (keys ms) = MARKET_IDS
     \<and> list_all (\<lambda>(k, c). mc_market_id c = k \<and> validated_settings (PDict (mc_settings c)) = Inr (mc_settings c)) ms"

lemma dset_middle: "k \<notin> set (keys p) \<Longrightarrow> dset k c (p @ (k, c0) # q) = p @ (k, c) # q"
  by (induction p) auto

lemma dset_end: "k \<notin> set (keys p) \<Longrightarrow> dset k c p = p @ [(k, c)]"
  by (induction p) auto

definition market_entry :: "string \<times> market_config \<Rightarrow> string \<times> pyval" where
  "market_entry = (\<lambda>(k, c). (k, PDict [(''enabled'', PBool (mc_enabled c)), (''settings'', PDict (mc_settings c))]))"

lemma read_market_entry:
  assumes "mc_market_id c = k" "validated_settings (PDict (mc_settings c)) = Inr (mc_settings c)"
  shows "read_market (market_entry (k, c)) ms = Inr (dset k c ms)"
  using assms by (cases c) (simp add: read_market_def market_entry_def market_config_from_dict_def config_bool_def py_or_def)

lemma rfold_read_market:
  assumes "distinct (keys (p @ ms))" "keys ds = take (length ds) (keys ms)"
    and "list_all (\<lambda>(k, c). mc_market_id c = k \<and> validated_settings (PDict (mc_settings c)) = Inr (mc_settings c)) ms"
  shows "rfold read_market (map market_entry ms) (p @ ds) = Inr (p @ ms)"
  using assms
proof (induction ms arbitrary: p ds)
  case (Cons kc ms)
  obtain k c where kc: "kc = (k, c)" by fastforce
  have r: "read_market (market_entry kc) q = Inr (dset k c q)" for q
    using Cons.prems(3) read_market_entry by (simp add: kc)
  obtain ds' where "dset k c (p @ ds) = (p @ [(k, c)]) @ ds'" "keys ds' = take (length ds') (keys ms)"
  proof (cases ds)
    case Nil
    then show ?thesis using that[of "[]"] dset_end[of k p c] Cons.prems(1) by (simp add: kc)
  next
    case (Cons d ds')
    then obtain c0 where "ds = (k, c0) # ds'" using Cons.prems(2) by (cases d) (auto simp: kc)
    then show ?thesis using that[of ds'] dset_middle[of k p c c0 ds'] Cons.prems(1,2) by (simp add: kc)
  qed
  then show ?case using Cons.IH[of "p @ [(k, c)]" ds'] Cons.prems(1,3) by (simp add: r) (simp add: kc)
qed simp

lemma default_keys: "keys default_market_configs = MARKET_IDS"
  by (simp add: default_market_configs_def MARKET_IDS_def comp_def)

lemma named_configs_written:
  assumes ok: "markets_ok ms"
  shows "named_configs ms = Inr (map market_entry ms)"
proof -
  have w: "rbind (market_config_to_dict c) (\<lambda>d. Inr (k, PDict d)) = Inr (market_entry (k, c))" if "(k, c) \<in> set ms" for k c
    using ok that by (auto simp: markets_ok_def list_all_iff market_config_to_dict_def market_entry_def)
  show ?thesis
    using rmap_map_Inr[of ms "\<lambda>(k, c). rbind (market_config_to_dict c) (\<lambda>d. Inr (k, PDict d))" id market_entry] w
    by (auto simp: named_configs_def)
qed

lemma read_markets_written:
  assumes ok: "markets_ok ms" and d: "oget_or d ''markets'' (PDict []) = PDict (map market_entry ms)"
  shows "read_markets d = Inr ms"
proof -
  have "keys default_market_configs = take (length default_market_configs) (keys ms)"
    using ok default_keys by (metis length_map markets_ok_def)
  then have "rfold read_market (map market_entry ms) ([] @ default_market_configs) = Inr ([] @ ms)"
    using ok by (intro rfold_read_market) (simp_all add: markets_ok_def dict_ok_def)
  then show ?thesis using ok by (simp add: read_markets_def d markets_ok_def)
qed

section \<open>The whole configuration\<close>

definition config_ok :: "app_config \<Rightarrow> bool" where
  "config_ok cfg \<longleftrightarrow>
     length (cf_alerts cfg) \<le> MAX_ALERTS \<and> list_all price_alert_ok (cf_alerts cfg)
     \<and> length (cf_alert_events cfg) \<le> MAX_ALERT_EVENTS \<and> list_all alert_event_ok (cf_alert_events cfg)
     \<and> distinct (map ae_id (cf_alert_events cfg))
     \<and> length (cf_paper_trades cfg) \<le> MAX_PAPER_TRADES \<and> list_all paper_trade_ok (cf_paper_trades cfg)
     \<and> length (cf_wallets cfg) \<le> MAX_WALLETS \<and> list_all wallet_ok (cf_wallets cfg)
     \<and> length (cf_copy_activity_outbox cfg) \<le> MAX_COPY_ACTIVITY_OUTBOX_ENTRIES
     \<and> list_all outbox_entry_ok (cf_copy_activity_outbox cfg) \<and> distinct (map co_id (cf_copy_activity_outbox cfg))
     \<and> distinct (map (\<lambda>e. (co_market_id e, co_watch_id e, co_activity_key e)) (cf_copy_activity_outbox cfg))
     \<and> length (cf_mutation_journal cfg) \<le> MAX_MUTATION_JOURNAL_ENTRIES
     \<and> list_all journal_entry_ok (cf_mutation_journal cfg) \<and> distinct (map mj_id (cf_mutation_journal cfg))
     \<and> distinct (map mj_key_hash (cf_mutation_journal cfg))
     \<and> copy_settings_ok (cf_copytrading cfg) \<and> markets_ok (cf_markets cfg)
     \<and> has_key (cf_markets cfg) (cf_selected_market_id cfg)
     \<and> cf_selected_market_id cfg \<noteq> [] \<and> lower (strip (cf_selected_market_id cfg)) = cf_selected_market_id cfg"

lemma theme_read [simp]: "theme_of (PStr (theme_str t)) = t"
  by (cases t) (simp_all add: theme_of_def py_or_def lower_def lower_char_def)

lemma ui_design_read [simp]: "ui_design_of (PStr (ui_design_str u)) = u"
  by (cases u) (simp_all add: ui_design_of_def py_or_def Let_def lower_def lower_char_def strip_def is_space_def replace_char_def)

lemma selected_market_read:
  "has_key ms s \<Longrightarrow> s \<noteq> [] \<Longrightarrow> lower (strip s) = s \<Longrightarrow> selected_market ms (PStr s) = s"
  by (simp add: selected_market_def)

lemma app_config_reread:
  assumes ok: "config_ok cfg"
  obtains d where "app_config_to_dict cfg = Inr d" "app_config_from_dict fresh (PDict d) = Inr cfg"
proof -
  note o = ok[unfolded config_ok_def]
  obtain c where c: "copy_settings_to_dict (cf_copytrading cfg) = Inr c" "copy_settings_from_dict c = Inr (cf_copytrading cfg)"
    using copy_settings_roundtrip o by (auto simp: rbind_eq_Inr)
  obtain d where d: "app_config_to_dict cfg = Inr d" using c o by (simp add: app_config_to_dict_def named_configs_written)
  have l: "oget_or d ''schema_version'' v = PInt 1"
    "oget_or d ''alerts'' v = PList (map (PDict \<circ> price_alert_to_dict) (cf_alerts cfg))"
    "oget_or d ''alert_events'' v = PList (map (PDict \<circ> alert_event_to_dict) (cf_alert_events cfg))"
    "oget_or d ''paper_trades'' v = PList (map (PDict \<circ> paper_trade_to_dict) (cf_paper_trades cfg))"
    "oget_or d ''wallets'' v = PList (map (PDict \<circ> wallet_to_dict) (cf_wallets cfg))"
    "oget_or d ''copy_activity_outbox'' v = PList (map (PDict \<circ> outbox_to_dict) (cf_copy_activity_outbox cfg))"
    "oget_or d ''mutation_journal'' v = PList (map (PDict \<circ> journal_to_dict) (cf_mutation_journal cfg))"
    "oget_or d ''copytrading'' v = PDict c" "oget_or d ''markets'' v = PDict (map market_entry (cf_markets cfg))"
    "oget d ''selected_market_id'' = PStr (cf_selected_market_id cfg)" "oget d ''theme'' = PStr (theme_str (cf_theme cfg))"
    "oget d ''ui_design'' = PStr (ui_design_str (cf_ui_design cfg))" "keys d = config_fields" for v
    using d c o by (auto simp: app_config_to_dict_def named_configs_written config_fields_def)
  note plain = read_records_plain[of fresh, symmetric]
  have records:
    "rbind (config_records d ''alerts'' MAX_ALERTS) (read_records fresh ''alerts'' price_alert_from_dict) = Inr (cf_alerts cfg)"
    "rbind (config_records d ''alert_events'' MAX_ALERT_EVENTS) (rmap alert_event_from_dict) = Inr (cf_alert_events cfg)"
    "rbind (config_records d ''paper_trades'' MAX_PAPER_TRADES) (read_records fresh ''paper_trades'' paper_trade_from_dict) = Inr (cf_paper_trades cfg)"
    "rbind (config_records d ''wallets'' MAX_WALLETS) (\<lambda>ws. read_records fresh ''wallets'' (\<lambda>uid now. wallet_from_dict uid) (map (wallet_with_market d) ws))
       = Inr (cf_wallets cfg)"
    "rbind (config_records d ''copy_activity_outbox'' MAX_COPY_ACTIVITY_OUTBOX_ENTRIES) (rmap outbox_from_dict) = Inr (cf_copy_activity_outbox cfg)"
    "rbind (config_records d ''mutation_journal'' MAX_MUTATION_JOURNAL_ENTRIES) (rmap journal_from_dict) = Inr (cf_mutation_journal cfg)"
    unfolding plain[abs_def, of "[]"] read_records_mapped
    by (rule alert_record.section_reread event_record.section_reread trade_record.section_reread wallet_record.section_reread
        outbox_record.section_reread journal_record.section_reread; use l o in simp)+
  have unique_ok: "unique_record_fields f rs = Inr ()" if "distinct (map f rs)" for f :: "'r \<Rightarrow> 'k" and rs using that by simp
  have m: "read_markets d = Inr (cf_markets cfg)" using o by (intro read_markets_written l) simp
  have "app_config_from_dict fresh (PDict d) = Inr cfg"
    using o by (simp add: app_config_from_dict_def schema_check_def unique_ok unknown_fields_check_def l records read_copytrading_def c
        m selected_market_read)
  then show ?thesis using that d by blast
qed

end
