(* ===== verification/Config_Reading.thy ===== *)
theory Config_Reading
  imports Config_Roundtrip
begin

text \<open>
  What reading a configuration establishes: every record the loader accepts is well formed. With
  the four exceptions that \<open>loaded_config_ok\<close> names, a loaded configuration is \<open>config_ok\<close>, so it
  survives being saved and loaded again.
\<close>

section \<open>Outbox and journal entries\<close>

lemma stable_identity_lower: "stable_identity s \<Longrightarrow> stable_identity (lower s)"
proof -
  have "is_control (lower_char c) = is_control c" for c by (auto simp: is_control_def lower_char_def Let_def)
  then show "stable_identity s \<Longrightarrow> stable_identity (lower s)"
    using strip_lower[of s] by (auto simp: stable_identity_def lower_def list_ex_iff)
qed

lemma outbox_from_dict_ok: "outbox_from_dict d = Inr e \<Longrightarrow> outbox_entry_ok e"
  unfolding outbox_from_dict_def
  by (elim rbind_InrE, simp only: sum.inject, hypsubst)
    (auto simp: outbox_entry_ok_def record_identity_Inr stable_identity_lower rbind_eq_Inr split: if_splits
      dest!: config_integer_Inr_nonneg)

lemma journal_from_dict_ok:
  "journal_from_dict d = Inr e \<Longrightarrow> bounded_result (mj_response e) = mj_response e \<Longrightarrow> journal_entry_ok e"
  unfolding journal_from_dict_def
  by (elim rbind_InrE, simp only: sum.inject, hypsubst)
    (auto simp: journal_entry_ok_def record_identity_Inr dest!: config_integer_Inr_nonneg)

section \<open>Watched wallets\<close>

lemma activity_keys_Inr: "activity_keys v = Inr ks \<Longrightarrow> activity_keys_ok ks"
proof -
  assume "activity_keys v = Inr ks"
  then obtain vs where vs: "length vs \<le> 10000" "list_all (\<lambda>k. is_str k \<and> activity_key_ok (the_str k)) vs" "ks = uniq (map the_str vs)"
    by (cases v) (auto simp: activity_keys_def not_less split: if_splits)
  then show ?thesis using length_add_new[of "[]" "map the_str vs"] by (auto simp: activity_keys_ok_def list_all_iff)
qed

lemma key_timestamps_Inr: "key_timestamps v = Inr ts \<Longrightarrow> timestamps_ok ts"
proof -
  assume "key_timestamps v = Inr ts"
  then obtain d where d: "length d \<le> 10000" "rmap (\<lambda>(k, t). rbind (record_identity [(''key'', PStr k)] ''key'') (\<lambda>key.
      rbind (config_integer t ''activity timestamp'' None) (\<lambda>n. Inr (key, n)))) d = Inr ts"
    by (cases v) (simp_all add: key_timestamps_def not_less split: if_splits)
  have "stable_identity k \<and> 0 \<le> n" if "(k, n) \<in> set ts" for k n
    using rmap_Inr_set[OF d(2) that] by (auto simp: rbind_eq_Inr record_identity_Inr dest!: config_integer_Inr_nonneg)
  then show ?thesis using d(1) rmap_Inr_length[OF d(2)] by (auto simp: timestamps_ok_def list_all_iff)
qed

lemma cursor_market_Inr: "cursor_market v = Inr m \<Longrightarrow> m \<in> set MARKET_IDS"
  by (auto simp: cursor_market_def split: pyval.splits if_splits)

lemma wallet_build_Inr:
  assumes "wallet_build rec uid d = Inr w"
  obtains shapes where "0 \<le> ww_last_seen_ts w" "activity_keys_ok (ww_seen_activity_keys w)"
    "timestamps_ok (ww_activity_key_timestamps w)" "ww_activity_cursor_market_id w \<in> set MARKET_IDS"
    "cursor_shapes (oget_or d ''activity_cursors'' (PDict [])) = Inr shapes"
    "rmap (\<lambda>(k, c). rbind (rec (dupdate [(''wallet'', oget_or d ''wallet'' (PStr []))] c)) (\<lambda>w.
        Inr (k, map (\<lambda>(f, _). (f, cursor_attr w f)) c))) shapes = Inr (ww_activity_cursors w)"
  using assms that unfolding wallet_build_def
  by (elim rbind_InrE, simp only: sum.inject, hypsubst)
    (simp add: activity_keys_Inr key_timestamps_Inr cursor_market_Inr config_integer_Inr_nonneg[where mx = None, simplified])

lemma oget_map: "k \<in> set (keys c) \<Longrightarrow> oget (map (\<lambda>(f, _). (f, g f)) c) k = g k"
  by (induction c) (auto simp del: set_map)

lemma cursor_built:
  assumes "wallet_build rec uid d = Inr w" "dict_ok c" "set (keys c) = set cursor_fields"
  shows "cursor_ok (map (\<lambda>(f, _). (f, cursor_attr w f)) c)"
proof -
  let ?c = "map (\<lambda>(f, _). (f, cursor_attr w f)) c"
  have k: "keys ?c = keys c" by (simp add: case_prod_unfold comp_def)
  have g: "oget ?c f = cursor_attr w f" if "f \<in> set cursor_fields" for f using that assms(3) oget_map by metis
  have v: "oget ?c ''last_seen_ts'' = PInt (ww_last_seen_ts w)"
    "oget ?c ''seen_activity_keys'' = PList (map PStr (ww_seen_activity_keys w))"
    "oget ?c ''activity_key_timestamps'' = timestamps_value (ww_activity_key_timestamps w)"
    by (simp_all add: g cursor_fields_def) (simp_all add: cursor_attr_def)
  have ts: "map (\<lambda>(k, v). (k, the_int v)) (map (\<lambda>(k, n). (k, PInt n)) xs) = xs"
    "list_all (\<lambda>(_, v). is_int v) (map (\<lambda>(k, n). (k, PInt n)) xs)" for xs :: "(string, int) dict"
    by (induction xs) auto
  have ks: "map the_str (map PStr xs) = xs" "list_all is_str (map PStr xs)" for xs by (induction xs) auto
  obtain "0 \<le> ww_last_seen_ts w" "activity_keys_ok (ww_seen_activity_keys w)" "timestamps_ok (ww_activity_key_timestamps w)"
    by (rule wallet_build_Inr[OF assms(1)])
  then show ?thesis
    using assms(2,3) by (simp only: cursor_ok_def dict_ok_def k v timestamps_value_def prod.case pyval.case ts ks simp_thms)
qed

lemma pyval_ok_oget: "pyval_ok (PDict d) \<Longrightarrow> pyval_ok w \<Longrightarrow> pyval_ok (oget_or d k w)"
  by (auto simp: oget_or_def list_all_iff split: option.split dest: map_of_SomeD)

lemma set_dset: "set (dset k w d) \<subseteq> insert (k, w) (set d)"
  by (induction d) auto

lemma pyval_ok_dset: "pyval_ok (PDict d) \<Longrightarrow> pyval_ok w \<Longrightarrow> pyval_ok (PDict (dset k w d))"
  using set_dset[of k w d] by (auto simp: list_all_iff distinct_update)

lemma cursor_shapes_Inr:
  assumes "cursor_shapes v = Inr cs" "pyval_ok v"
  shows "length cs \<le> MAX_MARKET_CONFIGS \<and> (\<forall>(k, c) \<in> set cs. k \<in> set MARKET_IDS \<and> dict_ok c \<and> set (keys c) = set cursor_fields)"
proof -
  obtain d where d: "v = PDict d" "length d \<le> MAX_MARKET_CONFIGS" "rmap cursor_shape d = Inr cs"
    using assms(1) by (cases v) (auto simp: cursor_shapes_def not_less split: if_splits)
  have "k \<in> set MARKET_IDS \<and> dict_ok c \<and> set (keys c) = set cursor_fields" if m: "(k, c) \<in> set cs" for k c
  proof -
    obtain kc where kc: "kc \<in> set d" "cursor_shape kc = Inr (k, c)" using rmap_Inr_set[OF d(3) m] by blast
    then have s: "snd kc = PDict c" "k \<in> set MARKET_IDS" "set (keys c) = set cursor_fields"
      by (auto simp: cursor_shape_def simp del: set_map split: pyval.splits if_splits)
    have "pyval_ok (snd kc)" using kc(1) assms(2) d(1) by (auto simp: list_all_iff)
    then show ?thesis using s by (simp add: dict_ok_def)
  qed
  then show ?thesis using d(2) rmap_Inr_length[OF d(3)] by auto
qed

lemma wallet_from_dict_ok:
  assumes "wallet_from_dict uid d = Inr w" "pyval_ok (PDict d)"
  shows "wallet_ok w"
proof -
  obtain shapes where f: "0 \<le> ww_last_seen_ts w" "activity_keys_ok (ww_seen_activity_keys w)"
      "timestamps_ok (ww_activity_key_timestamps w)" "ww_activity_cursor_market_id w \<in> set MARKET_IDS"
    and sh: "cursor_shapes (oget_or d ''activity_cursors'' (PDict [])) = Inr shapes"
    and cs: "rmap (\<lambda>(k, c). rbind (wallet_build (\<lambda>_. value_error []) [] (dupdate [(''wallet'', oget_or d ''wallet'' (PStr []))] c))
        (\<lambda>w. Inr (k, map (\<lambda>(f, _). (f, cursor_attr w f)) c))) shapes = Inr (ww_activity_cursors w)"
    using assms(1) unfolding wallet_from_dict_def by (rule wallet_build_Inr)
  have s: "length shapes \<le> MAX_MARKET_CONFIGS" "\<forall>(k, c) \<in> set shapes. k \<in> set MARKET_IDS \<and> dict_ok c \<and> set (keys c) = set cursor_fields"
    using cursor_shapes_Inr[OF sh] pyval_ok_oget[OF assms(2), of "PDict []"] by simp_all
  have "k \<in> set MARKET_IDS \<and> cursor_ok c" if m: "(k, c) \<in> set (ww_activity_cursors w)" for k c
  proof -
    obtain c0 w0 where "(k, c0) \<in> set shapes" "c = map (\<lambda>(f, _). (f, cursor_attr w0 f)) c0"
      "wallet_build (\<lambda>_. value_error []) [] (dupdate [(''wallet'', oget_or d ''wallet'' (PStr []))] c0) = Inr w0"
      using rmap_Inr_set[OF cs m] by (fastforce simp: rbind_eq_Inr)
    then show ?thesis using s(2) cursor_built by fastforce
  qed
  then show ?thesis using f s(1) rmap_Inr_length[OF cs] by (auto simp: wallet_ok_def list_all_iff)
qed

section \<open>Market settings\<close>

lemma dset_same: "dget d k = Some v \<Longrightarrow> dset k v d = d"
  by (induction d) auto

text \<open>The safety fields of a validated table are booleans and positive finite limits.\<close>

definition safe_boolean :: "obj \<Rightarrow> string \<Rightarrow> bool" where
  "safe_boolean d k = (case dget d k of None \<Rightarrow> True | Some v \<Rightarrow> is_bool v)"

definition safe_limit :: "obj \<Rightarrow> string \<Rightarrow> bool" where
  "safe_limit d k = (case dget d k of None \<Rightarrow> True
     | Some v \<Rightarrow> (case v of PFloat x \<Rightarrow> isfinite x \<and> flt (Fin 0) x | _ \<Rightarrow> False))"

lemma safety_boolean_Inr:
  assumes "safety_boolean k d = Inr d'"
  shows "safe_boolean d' k \<and> (\<forall>k'. k' \<noteq> k \<longrightarrow> dget d' k' = dget d k')"
  using assms by (auto simp: safety_boolean_def rbind_eq_Inr safe_boolean_def has_key_def split: if_splits)

lemma safety_limit_Inr:
  assumes "safety_limit k d = Inr d'"
  shows "safe_limit d' k \<and> (\<forall>k'. k' \<noteq> k \<longrightarrow> dget d' k' = dget d k')"
  using assms
  by (auto simp: safety_limit_def rbind_eq_Inr safe_limit_def config_number_Inr isfinite_iff split: option.splits if_splits)

lemma safety_boolean_same: "safe_boolean d k \<Longrightarrow> safety_boolean k d = Inr d"
  by (auto simp: safety_boolean_def safe_boolean_def has_key_def config_bool_def oget_or_def is_bool_def dset_same split: option.splits)

lemma safety_limit_same: "safe_limit d k \<Longrightarrow> safety_limit k d = Inr d"
  by (auto simp: safety_limit_def safe_limit_def config_number_Inr dset_same rbind_eq_Inr isfinite_iff
      split: option.splits pyval.splits)

lemma rfold_each:
  assumes "rfold f ks d = Inr d'" and step: "\<And>k d d'. f k d = Inr d' \<Longrightarrow> P d' k \<and> (\<forall>k'. k' \<noteq> k \<longrightarrow> P d k' \<longrightarrow> P d' k')"
  shows "\<forall>k \<in> set ks. P d' k"
  using assms(1)
proof (induction ks arbitrary: d)
  case (Cons k ks)
  then obtain d1 where d1: "f k d = Inr d1" "rfold f ks d1 = Inr d'" by (auto simp: rbind_eq_Inr)
  have "P d' k" by (rule rfold_invariant[OF d1(2)]) (use step d1(1) in metis)+
  with Cons.IH[OF d1(2)] show ?case by simp
qed simp

lemma rfold_same: "(\<And>k. k \<in> set ks \<Longrightarrow> f k d = Inr d) \<Longrightarrow> rfold f ks d = Inr d"
  by (induction ks) auto

lemma validated_settings_idem:
  assumes "validated_settings raw = Inr s"
  shows "validated_settings (PDict s) = Inr s"
proof -
  obtain d m where m: "rfold safety_boolean MARKET_SAFETY_BOOLEAN_FIELDS d = Inr m" "rfold safety_limit MARKET_SAFETY_LIMIT_FIELDS m = Inr s"
    using assms by (cases raw) (auto simp: validated_settings_def rbind_eq_Inr)
  have "\<forall>k \<in> set MARKET_SAFETY_BOOLEAN_FIELDS. safe_boolean m k"
    by (rule rfold_each[OF m(1)]) (use safety_boolean_Inr in \<open>auto simp: safe_boolean_def\<close>)
  moreover have "\<forall>k. k \<notin> set MARKET_SAFETY_LIMIT_FIELDS \<longrightarrow> dget s k = dget m k"
    by (rule rfold_invariant[OF m(2)]) (use safety_limit_Inr in \<open>auto, metis\<close>)
  ultimately have "\<forall>k \<in> set MARKET_SAFETY_BOOLEAN_FIELDS. safe_boolean s k"
    by (auto simp: safe_boolean_def MARKET_SAFETY_BOOLEAN_FIELDS_def MARKET_SAFETY_LIMIT_FIELDS_def)
  moreover have "\<forall>k \<in> set MARKET_SAFETY_LIMIT_FIELDS. safe_limit s k"
    by (rule rfold_each[OF m(2)]) (use safety_limit_Inr in \<open>auto simp: safe_limit_def\<close>)
  ultimately show ?thesis
    by (simp add: validated_settings_def rfold_same safety_boolean_same safety_limit_same)
qed

lemma read_market_Inr:
  assumes "read_market kc m = Inr m'"
  shows "\<exists>c. m' = dset (mc_market_id c) c m \<and> validated_settings (PDict (mc_settings c)) = Inr (mc_settings c)"
proof -
  obtain raw c where "market_config_from_dict (fst kc) raw = Inr c" "m' = dset (mc_market_id c) c m"
    using assms by (auto simp: read_market_def rbind_eq_Inr split: pyval.splits if_splits)
  moreover from this(1) have "validated_settings (PDict (mc_settings c)) = Inr (mc_settings c)"
    by (auto simp: market_config_from_dict_def rbind_eq_Inr validated_settings_idem)
  ultimately show ?thesis by blast
qed

lemma read_markets_Inr:
  assumes "read_markets d = Inr ms"
  shows "dict_ok ms \<and> take (length MARKET_IDS) (keys ms) = MARKET_IDS
     \<and> list_all (\<lambda>(k, c). mc_market_id c = k \<and> validated_settings (PDict (mc_settings c)) = Inr (mc_settings c)) ms"
    (is "?P ms")
proof -
  obtain raw where f: "rfold read_market raw default_market_configs = Inr ms"
    using assms by (auto simp: read_markets_def split: pyval.splits if_splits)
  have start: "?P default_market_configs"
    using MARKET_IDS_distinct
    by (simp add: dict_ok_def default_keys) (simp add: default_market_configs_def validated_settings_def
        MARKET_SAFETY_BOOLEAN_FIELDS_def MARKET_SAFETY_LIMIT_FIELDS_def safety_boolean_def safety_limit_def has_key_def list_all_iff)
  show ?thesis
  proof (rule rfold_invariant[where P = ?P, OF f start])
    fix kc m m' assume p: "?P m" "read_market kc m = Inr m'"
    obtain c where c: "m' = dset (mc_market_id c) c m" "validated_settings (PDict (mc_settings c)) = Inr (mc_settings c)"
      using read_market_Inr[OF p(2)] by blast
    have "keys m' = (if mc_market_id c \<in> set (keys m) then keys m else keys m @ [mc_market_id c])"
      unfolding c(1) by (induction m) auto
    moreover have "length MARKET_IDS \<le> length (keys m)"
      using p(1) by (metis length_take min.absorb_iff1 min.commute nat_le_linear)
    ultimately show "?P m'" using p(1) c set_dset[of "mc_market_id c" c m] by (auto simp: list_all_iff)
  qed
qed

section \<open>The whole configuration\<close>

text \<open>What the loader accepts and cannot write back: a venue with an empty name, more venues than
  the reader admits (the catalogue is added to the stored ones), a paper trade without a venue, and
  a stored response that its bound changes once more.\<close>

definition loaded_config_ok :: "app_config \<Rightarrow> bool" where
  "loaded_config_ok cfg \<longleftrightarrow> length (cf_markets cfg) \<le> MAX_MARKET_CONFIGS \<and> [] \<notin> set (keys (cf_markets cfg))
     \<and> list_all (\<lambda>t. pt_market_id t \<noteq> []) (cf_paper_trades cfg)
     \<and> list_all (\<lambda>e. bounded_result (mj_response e) = mj_response e) (cf_mutation_journal cfg)"

lemma read_records_Inr:
  assumes "read_records fresh key from_dict xs = Inr ys"
  shows "length ys = length xs \<and> (\<forall>y \<in> set ys. \<exists>uid now. \<exists>x \<in> set xs. from_dict uid now x = Inr y)"
proof -
  have r: "rmap (\<lambda>(i, x). case fresh key i of (uid, now) \<Rightarrow> from_dict uid now x) (enumerate 0 xs) = Inr ys"
    using assms by (simp add: read_records_def)
  have "\<exists>uid now. \<exists>x \<in> set xs. from_dict uid now x = Inr y" if m: "y \<in> set ys" for y
  proof -
    obtain i x where "(i, x) \<in> set (enumerate 0 xs)" "(case fresh key i of (uid, now) \<Rightarrow> from_dict uid now x) = Inr y"
      using rmap_Inr_set[OF r m] by auto
    moreover from this(1) have "x \<in> set xs" by (auto simp: in_set_enumerate_eq)
    moreover obtain uid now where "fresh key i = (uid, now)" by fastforce
    ultimately show ?thesis by auto
  qed
  then show ?thesis using rmap_Inr_length[OF r] by simp
qed

lemma selected_market_ok:
  assumes "take (length MARKET_IDS) (keys ms) = MARKET_IDS" "[] \<notin> set (keys ms)"
  shows "has_key ms (selected_market ms v) \<and> selected_market ms v \<noteq> []
     \<and> lower (strip (selected_market ms v)) = selected_market ms v"
proof -
  have "DEFAULT_MARKET_ID \<in> set (keys ms)"
    using polymarket_in_MARKET_IDS assms(1) by (metis DEFAULT_MARKET_ID_def in_set_takeD)
  moreover have "lower (strip DEFAULT_MARKET_ID) = DEFAULT_MARKET_ID" "DEFAULT_MARKET_ID \<noteq> []" by code_simp+
  moreover have "selected_market ms v = DEFAULT_MARKET_ID \<or> has_key ms (selected_market ms v)
      \<and> lower (strip (selected_market ms v)) = selected_market ms v"
    by (simp add: selected_market_def Let_def)
  ultimately show ?thesis using assms(2) by (auto simp: has_key_iff simp del: set_map)
qed

lemma config_records_ok:
  assumes "config_records d k n = Inr rs" "pyval_ok (PDict d)"
  shows "length rs \<le> n \<and> (\<forall>r \<in> set rs. pyval_ok (PDict r))"
  using assms pyval_ok_oget[OF assms(2), of "PList []" k] by (auto simp: config_records_Inr list_all_iff)

text \<open>The other half of the contract: what the reader of a record accepts is well formed, up to the exceptions
  \<open>loaded_config_ok\<close> names. Then reading is idempotent, and a section read is a section that survives.\<close>

locale checked_record = durable_record +
  fixes admits :: "'a \<Rightarrow> bool"
  assumes read_ok: "rd uid now d = Inr r \<Longrightarrow> pyval_ok (PDict d) \<Longrightarrow> admits r \<Longrightarrow> ok r"
begin

lemma read_twice: "rd uid now d = Inr r \<Longrightarrow> pyval_ok (PDict d) \<Longrightarrow> admits r \<Longrightarrow> rd uid' now' (wr r) = Inr r"
  by (intro reread read_ok)

lemma section_read:
  assumes "rbind (config_records d k n) (read_records fresh key rd) = Inr rs" "pyval_ok (PDict d)" "\<forall>r \<in> set rs. admits r"
  shows "length rs \<le> n \<and> list_all ok rs"
proof -
  obtain xs where xs: "config_records d k n = Inr xs" "read_records fresh key rd xs = Inr rs"
    using assms(1) by (rule rbind_InrE)
  show ?thesis
    using config_records_ok[OF xs(1) assms(2)] read_records_Inr[OF xs(2)] assms(3) read_ok by (fastforce simp: list_all_iff)
qed

end

interpretation alert_check: checked_record price_alert_to_dict price_alert_from_dict price_alert_ok "\<lambda>_. True"
  by unfold_locales (rule price_alert_from_dict_ok)

interpretation event_check: checked_record alert_event_to_dict "\<lambda>uid now. alert_event_from_dict" alert_event_ok "\<lambda>_. True"
  by unfold_locales (rule alert_event_from_dict_ok)

interpretation trade_check: checked_record paper_trade_to_dict paper_trade_from_dict paper_trade_ok "\<lambda>t. pt_market_id t \<noteq> []"
  by unfold_locales (rule paper_trade_from_dict_ok)

interpretation outbox_check: checked_record outbox_to_dict "\<lambda>uid now. outbox_from_dict" outbox_entry_ok "\<lambda>_. True"
  by unfold_locales (rule outbox_from_dict_ok)

interpretation journal_check: checked_record journal_to_dict "\<lambda>uid now. journal_from_dict" journal_entry_ok
    "\<lambda>e. bounded_result (mj_response e) = mj_response e"
  by unfold_locales (rule journal_from_dict_ok)

lemma app_config_from_dict_ok:
  assumes "app_config_from_dict fresh v = Inr cfg" "pyval_ok v" "loaded_config_ok cfg"
  shows "config_ok cfg"
proof -
  obtain d where v: "v = PDict d" using assms(1) by (cases v) (auto simp: app_config_from_dict_def)
  note plain = read_records_plain[of fresh, symmetric]
  have parts: "rbind (config_records d ''alerts'' MAX_ALERTS) (read_records fresh ''alerts'' price_alert_from_dict) = Inr (cf_alerts cfg)"
    "rbind (config_records d ''alert_events'' MAX_ALERT_EVENTS) (read_records fresh [] (\<lambda>uid now. alert_event_from_dict)) = Inr (cf_alert_events cfg)"
    "rbind (config_records d ''paper_trades'' MAX_PAPER_TRADES) (read_records fresh ''paper_trades'' paper_trade_from_dict) = Inr (cf_paper_trades cfg)"
    "rbind (config_records d ''wallets'' MAX_WALLETS)
       (read_records fresh ''wallets'' (\<lambda>uid now x. wallet_from_dict uid (wallet_with_market d x))) = Inr (cf_wallets cfg)"
    "rbind (config_records d ''copy_activity_outbox'' MAX_COPY_ACTIVITY_OUTBOX_ENTRIES) (read_records fresh [] (\<lambda>uid now. outbox_from_dict))
       = Inr (cf_copy_activity_outbox cfg)"
    "rbind (config_records d ''mutation_journal'' MAX_MUTATION_JOURNAL_ENTRIES) (read_records fresh [] (\<lambda>uid now. journal_from_dict))
       = Inr (cf_mutation_journal cfg)"
    and unique: "distinct (map ae_id (cf_alert_events cfg))" "distinct (map mj_id (cf_mutation_journal cfg))"
      "distinct (map mj_key_hash (cf_mutation_journal cfg))" "distinct (map co_id (cf_copy_activity_outbox cfg))"
      "distinct (map (\<lambda>e. (co_market_id e, co_watch_id e, co_activity_key e)) (cf_copy_activity_outbox cfg))"
    and c: "read_copytrading d = Inr (cf_copytrading cfg)" and m: "read_markets d = Inr (cf_markets cfg)"
    and s: "cf_selected_market_id cfg = selected_market (cf_markets cfg) (oget d ''selected_market_id'')"
    using assms(1) unfolding v app_config_from_dict_def pyval.case plain[abs_def, of "[]"] read_records_mapped
    by (elim rbind_InrE, simp only: sum.inject, hypsubst, simp)+
  have d: "pyval_ok (PDict d)" using assms(2) v by simp
  have w: "pyval_ok (PDict (wallet_with_market d x))" if "pyval_ok (PDict x)" for x
  proof -
    have "oget d k = oget_or d k PNone" for k by (simp add: oget_def oget_or_def)
    then have "pyval_ok (py_or (oget d ''selected_market_id'') (PStr DEFAULT_MARKET_ID))"
      using pyval_ok_oget[OF d, of PNone] by (simp add: py_or_def)
    then show ?thesis unfolding wallet_with_market_def by (intro pyval_ok_dset pyval_ok_oget that)
  qed
  obtain ws where ws: "config_records d ''wallets'' MAX_WALLETS = Inr ws"
      "read_records fresh ''wallets'' (\<lambda>uid now x. wallet_from_dict uid (wallet_with_market d x)) ws = Inr (cf_wallets cfg)"
    using parts(4) by (rule rbind_InrE)
  have "length (cf_wallets cfg) \<le> MAX_WALLETS \<and> list_all wallet_ok (cf_wallets cfg)"
    using config_records_ok[OF ws(1) d] read_records_Inr[OF ws(2)] w wallet_from_dict_ok by (fastforce simp: list_all_iff)
  moreover note alert_check.section_read[OF parts(1) d] event_check.section_read[OF parts(2) d] outbox_check.section_read[OF parts(5) d]
  moreover have "length (cf_paper_trades cfg) \<le> MAX_PAPER_TRADES \<and> list_all paper_trade_ok (cf_paper_trades cfg)"
      "length (cf_mutation_journal cfg) \<le> MAX_MUTATION_JOURNAL_ENTRIES \<and> list_all journal_entry_ok (cf_mutation_journal cfg)"
    using trade_check.section_read[OF parts(3) d] journal_check.section_read[OF parts(6) d] assms(3)
    by (auto simp: loaded_config_ok_def list_all_iff)
  moreover have "copy_settings_ok (cf_copytrading cfg)"
    using c copy_settings_from_dict_ok by (auto simp: read_copytrading_def split: pyval.splits)
  moreover have "markets_ok (cf_markets cfg)"
    using read_markets_Inr[OF m] assms(3) by (simp add: markets_ok_def loaded_config_ok_def)
  moreover have "has_key (cf_markets cfg) (cf_selected_market_id cfg) \<and> cf_selected_market_id cfg \<noteq> []
      \<and> lower (strip (cf_selected_market_id cfg)) = cf_selected_market_id cfg"
    unfolding s using selected_market_ok read_markets_Inr[OF m] assms(3) by (simp add: loaded_config_ok_def)
  ultimately show ?thesis using unique by (simp add: config_ok_def list_all_iff)
qed

end
