(* ===== verification/Durable_Theorems.thy ===== *)
theory Durable_Theorems
  imports Config_Reading
begin

text \<open>
  The properties of the durable state as a whole: it is restored exactly by a load after a save,
  and what a load accepts is well formed.
\<close>

text \<open>C9: Saving and loading. Every well-formed configuration can be written, and reading what was
  written gives exactly that configuration back, whatever the default factories of the records
  return meanwhile.\<close>

theorem saved_config_is_restored:
  assumes "config_ok cfg"
  shows "rbind (app_config_to_dict cfg) (\<lambda>d. app_config_from_dict fresh (PDict d)) = Inr cfg"
  using app_config_reread[OF assms, of fresh] by (metis rbind_Inr)


section \<open>Instances\<close>

lemma default_markets_ok: "markets_ok default_market_configs"
proof -
  have "length MARKET_IDS \<le> 512" unfolding MARKET_IDS_list by simp
  then have "length default_market_configs \<le> MAX_MARKET_CONFIGS"
    by (simp add: MAX_MARKET_CONFIGS_def flip: default_keys)
  moreover have "[] \<notin> set MARKET_IDS" using MARKET_IDS_normal by (auto simp: list_all_iff)
  ultimately show ?thesis
    using read_markets_Inr[of "[]" default_market_configs] MARKET_IDS_distinct
    by (force simp: markets_ok_def read_markets_def list_all_iff simp flip: default_keys)
qed

lemma DEFAULT_SLIPPAGE_probability: "probability DEFAULT_SLIPPAGE"
  using to_float_small[of "2 / 100"] fl_le[of "2 / 100" 1] f64_of_int[of 1]
  by (simp add: DEFAULT_SLIPPAGE_def flit_def probability_def)

definition sample_cursor :: obj where
  "sample_cursor = [(''last_seen_tx'', PStr ''0xbeef''), (''last_seen_ts'', PInt 7),
     (''seen_activity_keys'', PList [PStr ''k1'']), (''activity_key_timestamps'', PDict [(''k1'', PInt 7)])]"

definition sample_wallet :: wallet_watch where
  "sample_wallet = \<lparr> ww_wallet = PStr ''0xfeed'', ww_display_name = PStr ''Whale'', ww_enabled = True, ww_id = PStr ''w1'',
     ww_last_seen_ts = 9, ww_last_seen_tx = PStr [], ww_seen_activity_keys = [''k2'', ''k1''],
     ww_activity_key_timestamps = [(''k1'', 7)], ww_activity_cursor_market_id = ''polymarket'',
     ww_activity_cursors = [(''polymarket'', sample_cursor)], ww_only_market_slug = PStr [] \<rparr>"

definition sample_outbox :: outbox_entry where
  "sample_outbox = \<lparr> co_watch_id = ''w1'', co_activity_key = ''k1'', co_activity = [(''size'', PInt 3)], co_market_id = ''polymarket'',
     co_execution_policy = [], co_state = Ambiguous, co_attempts = 1, co_outcome_code = [], co_outcome_message = [],
     co_dispatch = [], co_id = ''o1'', co_created_at = 8, co_updated_at = 9, co_replay_authorized_at = 0 \<rparr>"

definition saved_config :: app_config where
  "saved_config = default_app_config\<lparr> cf_wallets := [sample_wallet], cf_copy_activity_outbox := [sample_outbox], cf_theme := Dark \<rparr>"

lemma saved_config_ok: "config_ok saved_config"
proof -
  have "wallet_ok sample_wallet"
  proof -
    have "list_all stable_identity [''k1'', ''k2'']" "list_all activity_key_ok [''k1'', ''k2'']" by code_simp+
    then show ?thesis
      using polymarket_in_MARKET_IDS
      by (simp add: wallet_ok_def sample_wallet_def activity_keys_ok_def timestamps_ok_def cursor_ok_def sample_cursor_def
          dict_ok_def cursor_fields_def MAX_MARKET_CONFIGS_def insert_commute)
  qed
  moreover have "outbox_entry_ok sample_outbox"
  proof -
    have "list_all stable_identity [''o1'', ''w1'', ''k1'', ''polymarket'']" "lower ''polymarket'' = ''polymarket''" by code_simp+
    then show ?thesis by (simp add: outbox_entry_ok_def sample_outbox_def)
  qed
  moreover have "copy_settings_ok default_copy_settings"
    using DEFAULT_SLIPPAGE_probability
    by (simp add: copy_settings_ok_def default_copy_settings_def probability_def)
  moreover have "has_key default_market_configs DEFAULT_MARKET_ID"
    using polymarket_in_MARKET_IDS by (simp add: has_key_iff default_keys DEFAULT_MARKET_ID_def del: set_map)
  moreover have "DEFAULT_MARKET_ID \<noteq> [] \<and> lower (strip DEFAULT_MARKET_ID) = DEFAULT_MARKET_ID" by code_simp
  ultimately show ?thesis
    by (simp add: config_ok_def saved_config_def default_app_config_def default_markets_ok capacity_defs)
qed

theorem saved_config_is_restored_witness:
  "\<exists>d. app_config_to_dict saved_config = Inr d \<and> app_config_from_dict (\<lambda>k i. ([], 0)) (PDict d) = Inr saved_config
     \<and> map ww_last_seen_ts (cf_wallets saved_config) = [9]"
proof -
  have "map ww_last_seen_ts (cf_wallets saved_config) = [9]" by (simp add: saved_config_def sample_wallet_def)
  then show ?thesis
    using saved_config_is_restored[OF saved_config_ok, of "\<lambda>k i. ([], 0)"] by (auto simp: rbind_eq_Inr)
qed

text \<open>The empty object, as in a fresh installation, is read as the default configuration.\<close>

lemma default_copy_settings_read: "copy_settings_from_dict [] = Inr default_copy_settings"
proof -
  have n: "probability x \<Longrightarrow> config_number (PFloat x) k (Fin 0) (Some (Fin 1)) False = Inr x"
    "config_number (PFloat (Fin 1)) k (Fin 0) (Some (Fin 1)) False = Inr (Fin 1)"
    "config_number (PFloat (Fin 25)) k (Fin 0) None True = Inr (Fin 25)"
    for k x by (auto simp: config_number_Inr probability_iff)
  have w: "config_integer (PInt 300) k (Some 86400) = Inr 300" for k by (simp add: config_integer_PInt)
  have i: "identity_value (PStr []) = Inr []" by code_simp
  show ?thesis
    by (simp add: copy_settings_from_dict_def validated_risk_def validated_scale_def config_bool_def n n(1)[OF DEFAULT_SLIPPAGE_probability] w raw_follow_wallets_def i
        add_wallet_def dataclass_args_def copy_settings_fields_def default_copy_settings_def)
qed

lemma empty_object: "app_config_from_dict (\<lambda>k i. ([], 0)) (PDict []) = Inr default_app_config"
proof -
  have m: "read_markets [] = Inr default_market_configs" by (simp add: read_markets_def)
  have c: "read_copytrading [] = Inr default_copy_settings" using default_copy_settings_read by (simp add: read_copytrading_def)
  have "lower (strip (py_str (py_or PNone (PStr DEFAULT_MARKET_ID)))) = DEFAULT_MARKET_ID" by code_simp
  then have s: "selected_market default_market_configs PNone = DEFAULT_MARKET_ID" by (simp add: selected_market_def)
  have r: "config_records [] k n = Inr []" for k n by (simp add: config_records_def)
  have t: "theme_of PNone = Light" "ui_design_of PNone = Aurora2026" by code_simp+
  show ?thesis
    by (simp add: app_config_from_dict_def schema_check_def unknown_fields_check_def r m c s t read_records_def unique_record_fields_def
        default_app_config_def)
qed


end
