(* ===== verification/Activity_Identity.thy ===== *)
theory Activity_Identity
  imports PyJson
begin

text \<open>
  The identities of \<open>core/wallet_activity.py\<close>: \<open>_identity_number\<close>, \<open>activity_key\<close> and
  \<open>legacy_transaction_key\<close>. An amount enters an identity in a canonical form, so the same fill
  reported as \<open>0.50\<close> and as \<open>5e-1\<close> keeps its identity.
\<close>

section \<open>Decimal numerals\<close>

text \<open>\<open>Decimal(text).as_tuple()\<close> of a finite numeral: sign, coefficient and exponent. The decimal
  module drops underscores and refuses an exponent outside its exact range.\<close>

definition decimal_of :: "string \<Rightarrow> (bool \<times> nat \<times> int) option" where
  "decimal_of text =
     (case split_sign (filter (\<lambda>c. c \<noteq> CHR ''_'') (strip text)) of (neg, s) \<Rightarrow>
      let ip = takeWhile is_digit s; r = dropWhile is_digit s;
          fp = (case r of [] \<Rightarrow> [] | c # t \<Rightarrow> if c = CHR ''.'' then takeWhile is_digit t else []);
          rest = (case r of [] \<Rightarrow> [] | c # t \<Rightarrow> if c = CHR ''.'' then dropWhile is_digit t else r)
      in if ip = [] \<and> fp = [] then None
         else case parse_exponent rest of None \<Rightarrow> None
              | Some x \<Rightarrow>
                let n = nat (digits_val (ip @ fp)); e = x - int (length fp);
                    adjusted = e + int (length (nat_str (int n))) - 1
                in if adjusted \<le> 999999999999999999 \<and> - 1999999999999999997 \<le> e then Some (neg, n, e) else None)"

fun trim_zeros :: "nat \<Rightarrow> int \<Rightarrow> nat \<times> int" where
  "trim_zeros n e = (if 0 < n \<and> n mod 10 = 0 then trim_zeros (n div 10) (e + 1) else (n, e))"

declare trim_zeros.simps [simp del]

definition identity_number :: "pyval \<Rightarrow> string" where
  "identity_number v =
     (let text = strip (if v = PNone then [] else py_str v) in
      case decimal_of text of
        None \<Rightarrow> text
      | Some (neg, n, e) \<Rightarrow>
          if n = 0 then ''0''
          else case trim_zeros n e of (m, x) \<Rightarrow>
            (if neg then ''-'' else []) @ nat_str (int m) @ ''e'' @ int_str x)"

section \<open>Keys\<close>

text \<open>\<open>str(a or b or "").strip()\<close>\<close>

definition either_text :: "obj \<Rightarrow> string \<Rightarrow> string \<Rightarrow> string" where
  "either_text item k k' = strip (py_str (py_or (oget item k) (py_or (oget item k') (PStr []))))"

definition tx_text :: "obj \<Rightarrow> string" where
  "tx_text item = (let tx = either_text item ''transactionHash'' ''transaction_hash'' in
     if startswith tx ''0x'' \<or> startswith tx ''0X'' then lower tx else tx)"

text \<open>The text of the first field that names the fill within its transaction.\<close>

definition fill_index :: "obj \<Rightarrow> string option" where
  "fill_index item = map_option (\<lambda>f. strip (py_str (oget item f)))
     (List.find (\<lambda>f. oget item f \<noteq> PNone \<and> strip (py_str (oget item f)) \<noteq> [])
       [''logIndex'', ''log_index'', ''fillId'', ''trade_id''])"

definition lowered_field :: "obj \<Rightarrow> string \<Rightarrow> string" where
  "lowered_field item k = lower (strip (if oget item k = PNone then [] else py_str (oget item k)))"

definition fill_fields :: "obj \<Rightarrow> string \<Rightarrow> obj" where
  "fill_fields item asset = [
     (''timestamp'', PStr (identity_number (oget item ''timestamp''))),
     (''proxyWallet'', PStr (lowered_field item ''proxyWallet'')),
     (''side'', PStr (lowered_field item ''side'')),
     (''price'', PStr (identity_number (oget item ''price''))),
     (''size'', PStr (identity_number (oget item ''size''))),
     (''outcome'', PStr (lowered_field item ''outcome'')),
     (''asset'', PStr asset)]"

definition fallback_fields :: "string list" where
  "fallback_fields = [''timestamp'', ''proxyWallet'', ''asset'', ''side'', ''price'', ''size'', ''slug'', ''outcome'']"

definition activity_key :: "obj \<Rightarrow> string" where
  "activity_key item =
     (let explicit = either_text item ''activityId'' ''activity_id''; tx = tx_text item in
      if explicit \<noteq> [] then ''activity-id:'' @ explicit
      else if tx \<noteq> [] then
        (case fill_index item of
           Some index \<Rightarrow> ''tx:'' @ tx @ '':fill:'' @ index
         | None \<Rightarrow>
             let asset = either_text item ''asset'' ''contract_id'' in
             if asset \<noteq> []
             then ''tx:'' @ tx @ '':fill:'' @ sha256_text (json_text True (PDict (fill_fields item asset)))
             else ''tx:'' @ tx)
      else ''activity:'' @ join ''|'' (map (\<lambda>k. lower (strip (py_str (py_or (oget item k) (PStr []))))) fallback_fields))"

definition legacy_transaction_key :: "obj \<Rightarrow> string" where
  "legacy_transaction_key item =
     (let tx = lower (either_text item ''transactionHash'' ''transaction_hash'');
          explicit = lower (either_text item ''activityId'' ''activity_id'') in
      if tx \<noteq> [] then ''tx:'' @ tx else if explicit \<noteq> [] then ''activity-id:'' @ explicit else [])"

section \<open>The canonical form of an amount\<close>

definition decimal_value :: "bool \<times> nat \<times> int \<Rightarrow> rat" where
  "decimal_value d = (case d of (neg, n, e) \<Rightarrow> (if neg then - 1 else 1) * of_nat n * pow10 e)"

lemma trim_zeros_value:
  "0 < n \<Longrightarrow> trim_zeros n e = (m, x) \<Longrightarrow> of_nat m * pow10 x = of_nat n * pow10 e \<and> 0 < m \<and> m mod 10 \<noteq> 0"
proof (induction n e rule: trim_zeros.induct)
  case (1 n e)
  show ?case
  proof (cases "n mod 10 = 0")
    case True
    then have n: "n = 10 * (n div 10)" and p: "0 < n div 10" using \<open>0 < n\<close> by auto
    have "of_nat m * pow10 x = of_nat (n div 10) * pow10 (e + 1) \<and> 0 < m \<and> m mod 10 \<noteq> 0"
      using 1(1) 1(2,3) True p by (simp add: trim_zeros.simps[of n])
    moreover have "(of_nat n :: rat) = 10 * of_nat (n div 10)" by (subst n) simp
    ultimately show ?thesis by (simp add: pow10_def power_int_add)
  next
    case False
    then show ?thesis using 1(2,3) by (simp add: trim_zeros.simps[of n])
  qed
qed

lemma canonical_unique:
  assumes "of_nat m * pow10 x = of_nat n * pow10 y" "m mod 10 \<noteq> 0" "n mod 10 \<noteq> 0"
  shows "m = n \<and> x = y"
proof -
  have le: "x \<le> y" if "of_nat m * pow10 x = of_nat n * pow10 y" "n mod 10 \<noteq> 0" for m n :: nat and x y
  proof (rule ccontr)
    assume "\<not> x \<le> y"
    then obtain k where k: "x = y + int (Suc k)" using zless_iff_Suc_zadd[of y x] by auto
    have "pow10 x = pow10 y * of_nat (10 ^ Suc k)"
      unfolding k pow10_def by (subst power_int_add) (simp_all only: power_int_of_nat of_nat_power of_nat_numeral, simp)
    then have "(of_nat (m * 10 ^ Suc k) :: rat) = of_nat n" using that(1) by (simp add: pow10_def)
    then have "n = m * 10 ^ Suc k" by (simp only: of_nat_eq_iff)
    then have "n mod 10 = 0" by simp
    with that(2) show False by simp
  qed
  have "x = y" using le[OF assms(1,3)] le[OF assms(1)[symmetric] assms(2)] by simp
  with assms(1) show ?thesis by (simp add: pow10_def)
qed

lemma nat_str_all_digits: "0 \<le> n \<Longrightarrow> c \<in> set (nat_str n) \<Longrightarrow> is_digit c"
  using nat_str_digits[of n] by (auto simp: list_all_iff)

lemma int_str_inj: "int_str x = int_str y \<Longrightarrow> x = y"
proof -
  have minus: "\<not> is_digit (CHR ''-'')" by (simp add: is_digit_def)
  have head: "nat_str n \<noteq> CHR ''-'' # s" if "0 \<le> n" for n s
    using nat_str_all_digits[OF that, of "CHR ''-''"] minus by (metis list.set_intros(1))
  assume "int_str x = int_str y"
  then show ?thesis
    using nat_str_inj[of "- x" "- y"] nat_str_inj[of x y] head[of x "nat_str (- y)"] head[of y "nat_str (- x)"]
    by (auto simp: int_str_def split: if_splits)
qed

lemma mantissa_split:
  assumes "nat_str (int m) @ ''e'' @ s = nat_str (int n) @ ''e'' @ t"
  shows "m = n \<and> s = t"
proof -
  have e: "\<not> is_digit (CHR ''e'')" by (simp add: is_digit_def)
  have tw: "takeWhile is_digit (nat_str (int k) @ ''e'' @ u) = nat_str (int k)" for k u
    using nat_str_all_digits[of "int k"] e by (simp add: takeWhile_append)
  have "nat_str (int m) = nat_str (int n)" using tw[of m s] tw[of n t] assms by simp
  then show ?thesis using assms nat_str_inj[of "int m" "int n"] by simp
qed

definition canonical_text :: "bool \<times> nat \<times> int \<Rightarrow> string" where
  "canonical_text d = (case d of (neg, n, e) \<Rightarrow> if n = 0 then ''0''
     else case trim_zeros n e of (m, x) \<Rightarrow> (if neg then ''-'' else []) @ nat_str (int m) @ ''e'' @ int_str x)"

lemma identity_number_canonical:
  "decimal_of (strip (if v = PNone then [] else py_str v)) = Some d \<Longrightarrow> identity_number v = canonical_text d"
  by (cases d) (simp add: identity_number_def canonical_text_def Let_def)

lemma canonical_text_zero: "canonical_text (neg, n, e) = ''0'' \<longleftrightarrow> n = 0"
proof -
  have "nat_str k @ ''e'' @ t \<noteq> ''0''" for k t by (auto simp: append_eq_Cons_conv)
  then show ?thesis by (auto simp: canonical_text_def split: prod.split)
qed

lemma canonical_text_iff: "canonical_text d = canonical_text d' \<longleftrightarrow> decimal_value d = decimal_value d'"
proof -
  obtain neg n e neg' n' e' where d: "d = (neg, n, e)" "d' = (neg', n', e')" by (cases d, cases d')
  have p: "pow10 k > 0" for k by (simp add: pow10_def)
  show ?thesis
  proof (cases "n = 0 \<or> n' = 0")
    case True
    then have "decimal_value d = decimal_value d' \<longleftrightarrow> n = 0 \<and> n' = 0"
      using p[of e] p[of e'] by (auto simp: d decimal_value_def)
    moreover have "canonical_text d = canonical_text d' \<longleftrightarrow> n = 0 \<and> n' = 0"
      using True canonical_text_zero[of neg n e] canonical_text_zero[of neg' n' e'] by (auto simp: d)
    ultimately show ?thesis by simp
  next
    case False
    obtain m x m' x' where t: "trim_zeros n e = (m, x)" "trim_zeros n' e' = (m', x')" by fastforce
    note v = trim_zeros_value[OF _ t(1)] trim_zeros_value[OF _ t(2)]
    have val: "decimal_value d = (if neg then - 1 else 1) * (of_nat m * pow10 x)"
      "decimal_value d' = (if neg' then - 1 else 1) * (of_nat m' * pow10 x')"
      using False v by (simp_all add: d decimal_value_def)
    have pos: "0 < of_nat m * pow10 x" "0 < of_nat m' * pow10 x'" using False v p by simp_all
    have shape: "canonical_text d = (if neg then ''-'' else []) @ nat_str (int m) @ ''e'' @ int_str x"
      "canonical_text d' = (if neg' then ''-'' else []) @ nat_str (int m') @ ''e'' @ int_str x'"
      using False t by (simp_all add: d canonical_text_def)
    have first: "hd (nat_str (int k) @ u) \<noteq> CHR ''-''" for k u
      using nat_str_all_digits[of "int k" "hd (nat_str (int k))"] by (auto simp: is_digit_def)
    have "canonical_text d = canonical_text d' \<longleftrightarrow> neg = neg' \<and> m = m' \<and> x = x'"
    proof
      assume eq: "canonical_text d = canonical_text d'"
      have "neg = neg'"
        using arg_cong[OF eq, of hd] first[of m "''e'' @ int_str x"] first[of m' "''e'' @ int_str x'"]
        by (auto simp: shape split: if_splits)
      then have "nat_str (int m) @ ''e'' @ int_str x = nat_str (int m') @ ''e'' @ int_str x'" using eq by (simp add: shape)
      then show "neg = neg' \<and> m = m' \<and> x = x'" using mantissa_split int_str_inj \<open>neg = neg'\<close> by metis
    qed (simp add: shape)
    moreover have "decimal_value d = decimal_value d' \<longleftrightarrow> neg = neg' \<and> of_nat m * pow10 x = of_nat m' * pow10 x'"
      using pos by (auto simp: val)
    ultimately show ?thesis using canonical_unique[of m x m' x'] False v by auto
  qed
qed

end
