(* ===== verification/Activity_Feed.thy ===== *)
theory Activity_Feed
  imports Activity_Identity
begin

text \<open>
  The bounded readers of \<open>core/wallet_activity.py\<close>. A reader either covers the requested history
  completely or raises \<open>ActivityHistoryIncompleteError\<close>. The feed itself is an argument: the answer
  to the \<open>n\<close>-th request; so is the clock, as \<open>expired n\<close>, whether the deadline has passed at the
  \<open>n\<close>-th look. Sizes and counts are natural numbers, as every caller passes them.
\<close>

definition ACTIVITY_CLOCK_SKEW_SECONDS :: int where "ACTIVITY_CLOCK_SKEW_SECONDS = 300"

abbreviation incomplete :: "string \<Rightarrow> 'a res" where
  "incomplete m \<equiv> raise ActivityHistoryIncompleteError (m @ ''; cursor unchanged.'')"

definition item_time :: "obj \<Rightarrow> int" where
  "item_time item = (case py_int (oget item ''timestamp'') of Inr t \<Rightarrow> t | Inl _ \<Rightarrow> 0)"

text \<open>\<open>sorted(xs, key=..., reverse=True)\<close> keeps the order of equal elements.\<close>

definition newest_first :: "obj list \<Rightarrow> obj list" where
  "newest_first items = sort_key (\<lambda>item. - item_time item) items"

section \<open>Windows and offsets\<close>

record window_read =
  wr_items :: "(string, obj) dict"
  wr_keys :: "string list"
  wr_reached :: bool
  wr_previous :: "int option"

definition row_time :: "pyval \<Rightarrow> int res" where
  "row_time raw = (if is_bool raw then incomplete ''Wallet activity timestamp is invalid''
     else case py_int raw of
         Inr t \<Rightarrow> Inr t
       | Inl e \<Rightarrow> if exc_kind e \<in> {ValueError, TypeError, OverflowError}
           then incomplete ''Wallet activity timestamp is invalid'' else Inl e)"

text \<open>One row of a page; \<open>preceding\<close> is the last timestamp of the page before.\<close>

definition window_row :: "int \<Rightarrow> int \<Rightarrow> int option \<Rightarrow> pyval \<Rightarrow> window_read \<Rightarrow> window_read res" where
  "window_row start stop preceding row s =
     (case row of
        PDict item \<Rightarrow>
          rbind (row_time (oget item ''timestamp'')) (\<lambda>t.
          if t < 0 \<or> (case wr_previous s of Some p \<Rightarrow> p < t | None \<Rightarrow> (case preceding of Some p \<Rightarrow> p < t | None \<Rightarrow> False))
          then incomplete ''Wallet activity page is not in documented timestamp order''
          else
            let key = activity_key item in
            if key \<in> set (wr_keys s) then incomplete ''Wallet fills have an ambiguous duplicate identity''
            else
              let s = s\<lparr> wr_previous := Some t, wr_keys := wr_keys s @ [key] \<rparr> in
              if t < start then Inr (s\<lparr> wr_reached := True \<rparr>)
              else if t \<le> stop then
                (if has_key (wr_items s) key then incomplete ''Wallet activity endpoint repeated a fill across pages''
                 else Inr (s\<lparr> wr_items := dset key item (wr_items s) \<rparr>))
              else incomplete ''Wallet activity escaped the fixed history window'')
      | _ \<Rightarrow> incomplete ''Wallet activity page contains a malformed record'')"

text \<open>The window being read: what it holds so far, the offset of its next page and what the last
  page was.\<close>

record window_state =
  ws_start :: int
  ws_stop :: int
  ws_offset :: nat
  ws_items :: "(string, obj) dict"
  ws_page :: "string list option"
  ws_preceding :: "int option"

definition fresh_window :: "int \<Rightarrow> int \<Rightarrow> window_state" where
  "fresh_window start stop = \<lparr> ws_start = start, ws_stop = stop, ws_offset = 0, ws_items = [], ws_page = None, ws_preceding = None \<rparr>"

record page_limits =
  pg_size :: nat
  pg_maximum :: nat
  pg_ceiling :: nat

datatype window_outcome = Finished "(string, obj) dict" | NextPage window_state | Halve

text \<open>What the body of the loop does with a page.\<close>

definition window_page :: "page_limits \<Rightarrow> nat \<Rightarrow> window_state \<Rightarrow> pyval \<Rightarrow> window_outcome res" where
  "window_page bounds collected w page =
     (case page of
        PList rows \<Rightarrow>
          if pg_size bounds < length rows then incomplete ''Wallet activity response violated its page contract''
          else
          rbind (rfold (window_row (ws_start w) (ws_stop w) (ws_preceding w)) rows
            \<lparr> wr_items = ws_items w, wr_keys = [], wr_reached = False, wr_previous = None \<rparr>) (\<lambda>s.
          if rows \<noteq> [] \<and> Some (wr_keys s) = ws_page w then incomplete ''Wallet activity endpoint repeated a page''
          else if pg_maximum bounds < length (wr_items s) + collected then incomplete ''Wallet activity backlog exceeds capacity''
          else if length rows < pg_size bounds \<or> wr_reached s then Inr (Finished (wr_items s))
          else
            let next_offset = ws_offset w + pg_size bounds in
            if pg_ceiling bounds < next_offset then
              (if ws_start w = ws_stop w then incomplete ''Too many wallet fills share one second for safe pagination''
               else Inr Halve)
            else Inr (NextPage (w\<lparr> ws_offset := next_offset, ws_items := wr_items s, ws_page := Some (wr_keys s),
                   ws_preceding := (case wr_previous s of None \<Rightarrow> ws_preceding w | p \<Rightarrow> p) \<rparr>)))
      | _ \<Rightarrow> incomplete ''Wallet activity response violated its page contract'')"

text \<open>The argument \<open>budget\<close> is \<open>maximum_requests - requests\<close>, so the loop ends. The stack holds the
  windows still to be read; an overfull one is read again as its two halves, the older first.\<close>

type_synonym window_loader = "nat \<Rightarrow> int \<Rightarrow> int \<Rightarrow> nat \<Rightarrow> pyval res"

fun read_windows :: "page_limits \<Rightarrow> window_loader \<Rightarrow> (nat \<Rightarrow> bool) \<Rightarrow> nat \<Rightarrow> nat \<Rightarrow> window_state \<Rightarrow> (int \<times> int) list
    \<Rightarrow> (string, obj) dict \<Rightarrow> (string, obj) dict res" where
  "read_windows bounds loader expired 0 n w stack results = incomplete ''Wallet history read exceeded its bounded budget''"
| "read_windows bounds loader expired (Suc budget) n w stack results =
     (if expired n then incomplete ''Wallet history read exceeded its bounded budget''
      else rbind (loader n (ws_start w) (ws_stop w) (ws_offset w)) (\<lambda>page.
      rbind (window_page bounds (length results) w page) (\<lambda>out. case out of
        Finished items \<Rightarrow> (case stack of
            [] \<Rightarrow> Inr (dupdate results items)
          | (a, b) # stack' \<Rightarrow> read_windows bounds loader expired budget (Suc n) (fresh_window a b) stack' (dupdate results items))
      | NextPage w' \<Rightarrow> read_windows bounds loader expired budget (Suc n) w' stack results
      | Halve \<Rightarrow>
          let middle = ws_start w + (ws_stop w - ws_start w) div 2 in
          read_windows bounds loader expired budget (Suc n) (fresh_window (ws_start w) middle) ((middle + 1, ws_stop w) # stack) results)))"

definition collect_polymarket_activity ::
    "window_loader \<Rightarrow> (nat \<Rightarrow> bool) \<Rightarrow> int \<Rightarrow> int \<Rightarrow> nat \<Rightarrow> nat \<Rightarrow> nat \<Rightarrow> nat \<Rightarrow> obj list res" where
  "collect_polymarket_activity loader expired since latest page_size maximum_items maximum_requests offset_ceiling =
     (let earliest = max 1 since in
      if latest < earliest then incomplete ''Wallet cursor is ahead of the current clock''
      else rbind (read_windows \<lparr> pg_size = max 1 (min page_size 500), pg_maximum = maximum_items, pg_ceiling = offset_ceiling \<rparr>
          loader expired maximum_requests 0 (fresh_window earliest latest) [] [])
        (\<lambda>results. Inr (newest_first (map snd results))))"

section \<open>Opaque cursors\<close>

record v2_page =
  v2_rows :: "pyval list"
  v2_next :: "string option"

definition v2_envelope :: "nat \<Rightarrow> pyval \<Rightarrow> v2_page res" where
  "v2_envelope requested payload =
     (case payload of
        PDict p \<Rightarrow> (case (oget p ''data'', oget p ''pagination'') of
            (PList page, PDict pagination) \<Rightarrow>
              if requested < length page \<or> \<not> has_key pagination ''next_cursor''
              then incomplete ''Wallet activity v2 pagination is incomplete''
              else rbind (case oget pagination ''next_cursor'' of
                     PNone \<Rightarrow> Inr None
                   | PStr c \<Rightarrow> if c = [] \<or> 8192 < length c then incomplete ''Wallet activity v2 cursor is invalid'' else Inr (Some c)
                   | _ \<Rightarrow> incomplete ''Wallet activity v2 cursor is invalid'') (\<lambda>next_cursor.
                 if has_key pagination ''has_more'' \<and> oget pagination ''has_more'' \<noteq> PBool (next_cursor \<noteq> None)
                 then incomplete ''Wallet activity v2 pagination is contradictory''
                 else Inr \<lparr> v2_rows = page, v2_next = next_cursor \<rparr>)
          | _ \<Rightarrow> incomplete ''Wallet activity v2 envelope is invalid'')
      | _ \<Rightarrow> incomplete ''Wallet activity v2 envelope is invalid'')"

record v2_read =
  v2_results :: "obj list"
  v2_identities :: "string list"
  v2_previous :: "int option"

definition v2_row :: "int \<Rightarrow> int \<Rightarrow> nat \<Rightarrow> pyval \<Rightarrow> v2_read \<Rightarrow> v2_read res" where
  "v2_row earliest latest maximum row s =
     (case row of
        PDict item \<Rightarrow> (case oget item ''timestamp'' of
            PInt t \<Rightarrow>
              if \<not> (earliest \<le> t \<and> t \<le> latest) \<or> (case v2_previous s of Some p \<Rightarrow> p < t | None \<Rightarrow> False)
              then incomplete ''Wallet activity v2 record violates the fixed ordered window''
              else
                let identity = activity_key item in
                if identity \<in> set (v2_identities s) then incomplete ''Wallet activity v2 fill identity is repeated or ambiguous''
                else if maximum < Suc (length (v2_results s)) then incomplete ''Wallet activity backlog exceeds capacity''
                else Inr \<lparr> v2_results = v2_results s @ [item], v2_identities = identity # v2_identities s, v2_previous = Some t \<rparr>
          | _ \<Rightarrow> incomplete ''Wallet activity v2 record violates the fixed ordered window'')
      | _ \<Rightarrow> incomplete ''Wallet activity v2 record is malformed'')"

type_synonym cursor_loader = "nat \<Rightarrow> string option \<Rightarrow> pyval res"

record v2_query =
  q_lower :: int
  q_upper :: int
  q_size :: nat
  q_maximum :: nat

fun read_cursors :: "v2_query \<Rightarrow> cursor_loader \<Rightarrow> (nat \<Rightarrow> bool) \<Rightarrow> nat \<Rightarrow> nat \<Rightarrow> string option \<Rightarrow> string list
    \<Rightarrow> v2_read \<Rightarrow> obj list res" where
  "read_cursors q loader expired 0 n cursor visited s = incomplete ''Wallet history read exceeded its bounded page budget''"
| "read_cursors q loader expired (Suc budget) n cursor visited s =
     (if expired n then incomplete ''Wallet history read exceeded its bounded budget''
      else rbind (loader n cursor) (\<lambda>payload.
      rbind (v2_envelope (q_size q) payload) (\<lambda>page.
      rbind (rfold (v2_row (q_lower q) (q_upper q) (q_maximum q)) (v2_rows page) s) (\<lambda>s.
      case v2_next page of
        None \<Rightarrow> Inr (v2_results s)
      | Some c \<Rightarrow> if c \<in> set visited then incomplete ''Wallet activity v2 cursor repeated''
          else read_cursors q loader expired budget (Suc n) (Some c) (c # visited) s))))"

definition v2_start :: v2_read where
  "v2_start = \<lparr> v2_results = [], v2_identities = [], v2_previous = None \<rparr>"

definition collect_polymarket_activity_v2 ::
    "cursor_loader \<Rightarrow> (nat \<Rightarrow> bool) \<Rightarrow> int \<Rightarrow> int \<Rightarrow> nat \<Rightarrow> nat \<Rightarrow> nat \<Rightarrow> obj list res" where
  "collect_polymarket_activity_v2 loader expired since latest page_size maximum_items maximum_requests =
     (let earliest = max 1 since in
      if latest < earliest then incomplete ''Wallet cursor is ahead of the current clock''
      else read_cursors \<lparr> q_lower = earliest, q_upper = latest, q_size = max 1 (min page_size 1000), q_maximum = maximum_items \<rparr>
        loader expired maximum_requests 0 None [] v2_start)"

section \<open>Recent feeds\<close>

text \<open>A page of an adapter: the rows and, for an \<open>ActivitySnapshot\<close>, its two statements.\<close>

record feed_page =
  fp_rows :: pyval
  fp_complete :: "bool option"
  fp_contiguous :: "bool option"

type_synonym recent_loader = "nat \<Rightarrow> nat \<Rightarrow> feed_page res"

definition feed_rows :: "nat \<Rightarrow> int \<Rightarrow> pyval \<Rightarrow> obj list res" where
  "feed_rows requested maximum_time v =
     (case v of
        PList rows \<Rightarrow>
          let items = map the_dict rows in
          if requested < length rows \<or> \<not> list_all is_dict rows then incomplete ''Wallet activity response is malformed''
          else if list_ex (\<lambda>item. case oget item ''timestamp'' of PInt t \<Rightarrow> \<not> (0 < t \<and> t \<le> maximum_time) | _ \<Rightarrow> True) items
          then incomplete ''Wallet activity timestamps are invalid''
          else if \<not> distinct (map activity_key items)
          then incomplete ''Wallet activity fill identity is repeated or ambiguous''
          else Inr items
      | _ \<Rightarrow> incomplete ''Wallet activity response is malformed'')"

definition covers :: "nat \<Rightarrow> int \<Rightarrow> feed_page \<Rightarrow> obj list \<Rightarrow> bool" where
  "covers requested since page items \<longleftrightarrow>
     (case fp_complete page of Some c \<Rightarrow> c | None \<Rightarrow> length items < requested)
     \<or> ((case fp_contiguous page of Some c \<Rightarrow> c | None \<Rightarrow> True) \<and> 0 < since \<and> items \<noteq> []
        \<and> Min (item_time ` set items) < since)"

text \<open>The request doubles up to 5000 rows; it is never zero.\<close>

function read_recent :: "recent_loader \<Rightarrow> (nat \<Rightarrow> bool) \<Rightarrow> int \<Rightarrow> int \<Rightarrow> nat \<Rightarrow> nat \<Rightarrow> string list option \<Rightarrow> obj list res" where
  "read_recent loader expired since maximum_time n requested previous =
     (if expired (2 * n) then raise ActivityHistoryIncompleteError ''Recent wallet feed exceeded its bounded budget; cursor unchanged.''
      else rbind (loader n requested) (\<lambda>page.
      if expired (2 * n + 1) then raise ActivityHistoryIncompleteError ''Recent wallet feed exceeded its bounded budget; cursor unchanged.''
      else rbind (feed_rows requested maximum_time (fp_rows page)) (\<lambda>items.
        if covers requested since page items then Inr (newest_first items)
        else if 5000 \<le> requested \<or> requested = 0 \<or> previous = Some (map activity_key items)
        then raise ActivityHistoryIncompleteError ''Recent wallet feed does not cover the saved cursor; backfill/reconcile before advancing.''
        else read_recent loader expired since maximum_time (Suc n) (min (requested * 2) 5000) (Some (map activity_key items)))))"
  by pat_completeness auto

termination
  by (relation "measure (\<lambda>(_, _, _, _, _, requested, _). 5000 - requested)") auto

definition collect_adapter_activity :: "recent_loader \<Rightarrow> (nat \<Rightarrow> bool) \<Rightarrow> int \<Rightarrow> int \<Rightarrow> nat \<Rightarrow> obj list res" where
  "collect_adapter_activity loader expired since now page_size =
     read_recent loader expired since (now + ACTIVITY_CLOCK_SKEW_SECONDS) 0 (max 1 (min page_size 5000)) None"

end
