(* ===== verification/Activity_Cursor.thy ===== *)
theory Activity_Cursor
  imports Activity_Feed Models_Records
begin

text \<open>
  The durable cursor of a watched wallet: \<open>cursor_for_market\<close> and \<open>remember_activity\<close> of
  \<open>core/wallet_activity.py\<close>. A cursor keeps the newest timestamp it has consumed and the identity of
  every fill consumed at that timestamp, so that a fill is skipped exactly when it was consumed.

  The cursor of the market in use lies in the fields of the wallet, those of the other markets in
  \<open>activity_cursors\<close>, as dictionaries of four fields whose types \<open>from_dict\<close> has checked.
\<close>

section \<open>Cursors\<close>

record cursor =
  cu_last_seen_ts :: int
  cu_last_seen_tx :: pyval
  cu_seen_activity_keys :: "string list"
  cu_activity_key_timestamps :: "(string, int) dict"

definition cursor_obj :: "cursor \<Rightarrow> obj" where
  "cursor_obj c = [(''last_seen_ts'', PInt (cu_last_seen_ts c)), (''last_seen_tx'', cu_last_seen_tx c),
     (''seen_activity_keys'', PList (map PStr (cu_seen_activity_keys c))),
     (''activity_key_timestamps'', timestamps_value (cu_activity_key_timestamps c))]"

definition stored_cursor :: "obj \<Rightarrow> cursor" where
  "stored_cursor d = \<lparr> cu_last_seen_ts = (case oget d ''last_seen_ts'' of PInt n \<Rightarrow> n | _ \<Rightarrow> 0),
     cu_last_seen_tx = oget d ''last_seen_tx'',
     cu_seen_activity_keys = (case oget d ''seen_activity_keys'' of PList ks \<Rightarrow> map the_str ks | _ \<Rightarrow> []),
     cu_activity_key_timestamps = (case oget d ''activity_key_timestamps'' of
        PDict ts \<Rightarrow> map (\<lambda>(k, v). (k, case v of PInt n \<Rightarrow> n | _ \<Rightarrow> 0)) ts | _ \<Rightarrow> []) \<rparr>"

definition no_cursor :: cursor where
  "no_cursor = \<lparr> cu_last_seen_ts = 0, cu_last_seen_tx = PStr [], cu_seen_activity_keys = [], cu_activity_key_timestamps = [] \<rparr>"

definition cursor_for_market :: "wallet_watch \<Rightarrow> string \<Rightarrow> cursor" where
  "cursor_for_market w market_id =
     (if market_id = ww_activity_cursor_market_id w
      then \<lparr> cu_last_seen_ts = ww_last_seen_ts w, cu_last_seen_tx = ww_last_seen_tx w,
             cu_seen_activity_keys = ww_seen_activity_keys w, cu_activity_key_timestamps = ww_activity_key_timestamps w \<rparr>
      else case dget (ww_activity_cursors w) market_id of None \<Rightarrow> no_cursor | Some d \<Rightarrow> stored_cursor d)"

section \<open>Consuming a fill\<close>

text \<open>The cursor after a fill with identity \<open>key\<close>: identities older than the new timestamp are
  forgotten, unless nothing is known of their time.\<close>

definition retained_keys :: "cursor \<Rightarrow> int \<Rightarrow> string list" where
  "retained_keys c next_timestamp = filter (\<lambda>k. case dget (cu_activity_key_timestamps c) k of
      None \<Rightarrow> True | Some t \<Rightarrow> next_timestamp \<le> t) (cu_seen_activity_keys c)"

definition advanced_cursor :: "cursor \<Rightarrow> obj \<Rightarrow> int \<Rightarrow> string \<Rightarrow> cursor res" where
  "advanced_cursor c item timestamp key =
     (let next_timestamp = max (cu_last_seen_ts c) timestamp;
          retained = retained_keys c next_timestamp;
          ledger = (if key \<in> set retained then retained else retained @ [key]);
          known = filter (\<lambda>(_, t). next_timestamp \<le> t) (cu_activity_key_timestamps c)
      in if 10000 < length ledger
         then raise ActivityHistoryIncompleteError ''Wallet cursor identity ledger is full; reconcile before advancing.''
         else Inr \<lparr> cu_last_seen_ts = next_timestamp,
           cu_last_seen_tx = PStr (py_str (py_or (oget item ''transactionHash'') (py_or (oget item ''transaction_hash'')
             (py_or (cu_last_seen_tx c) (PStr []))))),
           cu_seen_activity_keys = ledger, cu_activity_key_timestamps = dset key timestamp known \<rparr>)"

text \<open>An empty \<open>market_id\<close> stands for the market of the cursor in use.\<close>

definition remember_activity :: "wallet_watch \<Rightarrow> obj \<Rightarrow> string \<Rightarrow> string \<Rightarrow> wallet_watch res" where
  "remember_activity w item key market_id =
     rbind (py_int (py_or (oget item ''timestamp'') (PInt 0))) (\<lambda>timestamp.
     let selected = (if market_id = [] then ww_activity_cursor_market_id w else market_id) in
     rbind (advanced_cursor (cursor_for_market w selected) item timestamp key) (\<lambda>c.
     let current = ww_activity_cursor_market_id w;
         w = (if selected = current then w else w\<lparr>
                ww_activity_cursors := dset current (cursor_obj (cursor_for_market w current)) (ww_activity_cursors w),
                ww_activity_cursor_market_id := selected \<rparr>)
     in Inr (w\<lparr> ww_last_seen_ts := cu_last_seen_ts c, ww_last_seen_tx := cu_last_seen_tx c,
          ww_seen_activity_keys := cu_seen_activity_keys c, ww_activity_key_timestamps := cu_activity_key_timestamps c \<rparr>)))"

section \<open>Laws\<close>

lemma stored_cursor_obj [simp]: "stored_cursor (cursor_obj c) = c"
proof -
  have "map (\<lambda>(k, v). (k, case v of PInt n \<Rightarrow> n | _ \<Rightarrow> 0)) (map (\<lambda>(k, n). (k, PInt n)) ts) = ts" for ts :: "(string, int) dict"
    by (induction ts) auto
  then show ?thesis
    by (simp add: stored_cursor_def cursor_obj_def timestamps_value_def oget_def comp_def)
qed

text \<open>The test of a reader: a fill is skipped when its identity is in the ledger or it is older than
  the cursor.\<close>

definition consumed :: "cursor \<Rightarrow> string \<Rightarrow> int \<Rightarrow> bool" where
  "consumed c key t \<longleftrightarrow> key \<in> set (cu_seen_activity_keys c) \<or> t < cu_last_seen_ts c"

text \<open>What the ledger knows of the time of a fill is the time the feed reports.\<close>

definition agrees :: "cursor \<Rightarrow> string \<Rightarrow> int \<Rightarrow> bool" where
  "agrees c key t \<longleftrightarrow> dget (cu_activity_key_timestamps c) key \<in> {None, Some t}"

text \<open>One entry for each identity, as in every dictionary.\<close>

definition cursor_ok :: "cursor \<Rightarrow> bool" where
  "cursor_ok c \<longleftrightarrow> distinct (cu_seen_activity_keys c) \<and> dict_ok (cu_activity_key_timestamps c)
     \<and> length (cu_seen_activity_keys c) \<le> 10000"

lemma dget_filter_ge:
  "dict_ok d \<Longrightarrow> dget (filter (\<lambda>(_, t). n \<le> t) d) k = (case dget d k of Some t \<Rightarrow> if n \<le> t then Some t else None | None \<Rightarrow> None)"
proof (induction d)
  case (Cons e d)
  moreover have "dget d (fst e) = None" using Cons.prems by (cases e) (simp add: map_of_eq_None_iff dict_ok_def)
  moreover have "dict_ok d" using Cons.prems by (simp add: dict_ok_def)
  ultimately show ?case by (cases e) (auto split: option.splits)
qed simp

lemma advanced_cursor_spec:
  assumes "advanced_cursor c item t key = Inr c'" "dict_ok (cu_activity_key_timestamps c)"
  shows "cu_last_seen_ts c' = max (cu_last_seen_ts c) t"
    and "set (cu_seen_activity_keys c') = insert key (set (retained_keys c (max (cu_last_seen_ts c) t)))"
    and "dget (cu_activity_key_timestamps c') k = (if k = key then Some t else
       case dget (cu_activity_key_timestamps c) k of Some u \<Rightarrow> if max (cu_last_seen_ts c) t \<le> u then Some u else None | None \<Rightarrow> None)"
  using assms by (auto simp: advanced_cursor_def Let_def dget_filter_ge split: if_splits)

lemma advanced_cursor_ok: "advanced_cursor c item t key = Inr c' \<Longrightarrow> cursor_ok c \<Longrightarrow> cursor_ok c'"
  by (auto simp: advanced_cursor_def Let_def cursor_ok_def retained_keys_def dict_ok_filter split: if_splits)

text \<open>Nothing consumed becomes new again; nothing becomes consumed but the fill itself and the fills
  older than it.\<close>

lemma consumed_kept:
  assumes "advanced_cursor c item t key = Inr c'" "cursor_ok c" "consumed c k u" "agrees c k u" "k = key \<longrightarrow> u = t"
  shows "consumed c' k u \<and> agrees c' k u"
proof -
  have d: "dict_ok (cu_activity_key_timestamps c)" using assms(2) by (simp add: cursor_ok_def)
  show ?thesis
    using assms(3-5) by (auto simp: consumed_def agrees_def advanced_cursor_spec[OF assms(1) d] retained_keys_def split: option.splits if_splits)
qed

lemma agrees_kept:
  assumes "advanced_cursor c item t key = Inr c'" "cursor_ok c" "agrees c k u" "k = key \<longrightarrow> u = t"
  shows "agrees c' k u"
proof -
  have d: "dict_ok (cu_activity_key_timestamps c)" using assms(2) by (simp add: cursor_ok_def)
  show ?thesis using assms(3,4) by (auto simp: agrees_def advanced_cursor_spec[OF assms(1) d] split: option.splits if_splits)
qed

lemma consumed_new:
  assumes "advanced_cursor c item t key = Inr c'" "cursor_ok c"
  shows "consumed c' key t" "agrees c' key t"
    and "consumed c' k u \<Longrightarrow> consumed c k u \<or> k = key \<or> u < t"
proof -
  have d: "dict_ok (cu_activity_key_timestamps c)" using assms(2) by (simp add: cursor_ok_def)
  note spec = advanced_cursor_spec[OF assms(1) d]
  show "consumed c' key t" "agrees c' key t" by (simp_all add: consumed_def agrees_def spec)
  show "consumed c' k u \<Longrightarrow> consumed c k u \<or> k = key \<or> u < t"
    by (auto simp: consumed_def spec retained_keys_def)
qed

text \<open>The cursors of the other markets keep their state.\<close>

lemma remember_activity_Inr:
  assumes "remember_activity w item key market_id = Inr w'" "market_id \<noteq> []"
  obtains t c where "py_int (py_or (oget item ''timestamp'') (PInt 0)) = Inr t"
    and "advanced_cursor (cursor_for_market w market_id) item t key = Inr c" "cursor_for_market w' market_id = c"
    and "\<And>m. m \<noteq> market_id \<Longrightarrow> cursor_for_market w' m = cursor_for_market w m"
    and "\<exists>cs cm. w' = w\<lparr> ww_activity_cursors := cs, ww_activity_cursor_market_id := cm, ww_last_seen_ts := cu_last_seen_ts c,
      ww_last_seen_tx := cu_last_seen_tx c, ww_seen_activity_keys := cu_seen_activity_keys c,
      ww_activity_key_timestamps := cu_activity_key_timestamps c \<rparr>"
proof -
  let ?w = "if market_id = ww_activity_cursor_market_id w then w else w\<lparr>
      ww_activity_cursors := dset (ww_activity_cursor_market_id w)
        (cursor_obj (cursor_for_market w (ww_activity_cursor_market_id w))) (ww_activity_cursors w),
      ww_activity_cursor_market_id := market_id \<rparr>"
  obtain t c where tc: "py_int (py_or (oget item ''timestamp'') (PInt 0)) = Inr t"
      "advanced_cursor (cursor_for_market w market_id) item t key = Inr c"
    and w': "w' = ?w\<lparr> ww_last_seen_ts := cu_last_seen_ts c, ww_last_seen_tx := cu_last_seen_tx c,
        ww_seen_activity_keys := cu_seen_activity_keys c, ww_activity_key_timestamps := cu_activity_key_timestamps c \<rparr>"
    using assms unfolding remember_activity_def Let_def if_not_P[OF assms(2)]
    by (elim rbind_InrE, simp only: sum.inject)
  show thesis
  proof (rule that[OF tc])
    show "cursor_for_market w' market_id = c" by (cases "market_id = ww_activity_cursor_market_id w") (simp_all add: w' cursor_for_market_def)
    show "cursor_for_market w' m = cursor_for_market w m" if "m \<noteq> market_id" for m
      using that by (cases "market_id = ww_activity_cursor_market_id w") (simp_all add: w' cursor_for_market_def)
    show "\<exists>cs cm. w' = w\<lparr> ww_activity_cursors := cs, ww_activity_cursor_market_id := cm, ww_last_seen_ts := cu_last_seen_ts c,
      ww_last_seen_tx := cu_last_seen_tx c, ww_seen_activity_keys := cu_seen_activity_keys c,
      ww_activity_key_timestamps := cu_activity_key_timestamps c \<rparr>"
      by (rule exI[of _ "ww_activity_cursors ?w"], rule exI[of _ "ww_activity_cursor_market_id ?w"])
        (cases "market_id = ww_activity_cursor_market_id w"; simp add: w')
  qed
qed

lemma remember_activity_identity:
  assumes "remember_activity w item key market_id = Inr w'" "market_id \<noteq> []"
  shows "ww_wallet w' = ww_wallet w" "ww_id w' = ww_id w" "ww_enabled w' = ww_enabled w"
    "ww_display_name w' = ww_display_name w" "ww_only_market_slug w' = ww_only_market_slug w"
  by (rule remember_activity_Inr[OF assms]; elim exE, simp)+

end
