(* ===== verification/Web_Wallets.thy ===== *)
theory Web_Wallets
  imports Web_Alerts Activity_Cursor
begin

text \<open>
  Watched wallets: the identity of a feed (\<open>market_adapters/identity.py\<close>, \<open>polymarket/util.py\<close>) and
  the wallet handlers and views of \<open>web_api.py\<close>. A handler works on the configuration its request has
  loaded and returns the one it saves.
\<close>

section \<open>Activity identities\<close>

definition is_ascii_hex :: "char \<Rightarrow> bool" where
  "is_ascii_hex c \<longleftrightarrow> is_digit c \<or> (97 \<le> ord c \<and> ord c \<le> 102) \<or> (65 \<le> ord c \<and> ord c \<le> 70)"

definition is_wallet_address :: "string \<Rightarrow> bool" where
  "is_wallet_address s \<longleftrightarrow> (let t = strip s in
     length t = 42 \<and> take 2 t = ''0x'' \<and> list_all is_ascii_hex (drop 2 t))"

definition normalize_wallet :: "string \<Rightarrow> string option" where
  "normalize_wallet s = (let t = strip s in if t = [] then None else if is_wallet_address t then Some (lower t) else None)"

definition SOLANA_ALPHABET :: string where
  "SOLANA_ALPHABET = ''123456789ABCDEFGHJKLMNPQRSTUVWXYZabcdefghijkmnopqrstuvwxyz''"

definition solana_index :: "char \<Rightarrow> nat" where
  "solana_index c = length (takeWhile (\<lambda>d. d \<noteq> c) SOLANA_ALPHABET)"

text \<open>\<open>(n.bit_length() + 7) // 8\<close>\<close>

fun byte_length :: "nat \<Rightarrow> nat" where
  "byte_length n = (if n = 0 then 0 else Suc (byte_length (n div 256)))"

declare byte_length.simps [simp del]

definition normalize_solana_identity :: "string \<Rightarrow> string option" where
  "normalize_solana_identity raw =
     (let v = strip raw; v = (if startswith (lower v) ''solana:'' then strip (after_colon v) else v) in
      if \<not> (32 \<le> length v \<and> length v \<le> 44 \<and> list_all (\<lambda>c. c \<in> set SOLANA_ALPHABET) v) then None
      else
        let number = foldl (\<lambda>n c. n * 58 + solana_index c) 0 v;
            leading_zeroes = length (takeWhile (\<lambda>c. c = CHR ''1'') v)
        in if leading_zeroes + byte_length number \<noteq> 32 then None else Some (''solana:'' @ v))"

definition is_username_char :: "char \<Rightarrow> bool" where
  "is_username_char c \<longleftrightarrow> is_lower_alnum c \<or> c \<in> {CHR ''.'', CHR ''_'', CHR ''-''}"

definition is_manifold_username :: "string \<Rightarrow> bool" where
  "is_manifold_username s = (case s of [] \<Rightarrow> False | c # r \<Rightarrow> is_lower_alnum c \<and> length r \<le> 63 \<and> list_all is_username_char r)"

definition identity_market :: "string \<Rightarrow> string" where
  "identity_market market_id = (let m = lower (strip (if market_id = [] then ''polymarket'' else market_id)) in
     if m = [] then ''polymarket'' else m)"

definition normalize_activity_identity :: "string \<Rightarrow> pyval \<Rightarrow> string option" where
  "normalize_activity_identity market_id raw =
     (let market = identity_market market_id; v = strip (py_str (py_or raw (PStr []))) in
      if market = ''manifold'' then
        (if \<not> startswith (lower v) ''manifold:'' then None
         else let username = lower (strip (drop 9 v)) in
           if is_manifold_username username then Some (''manifold:'' @ username) else None)
      else if market \<in> {''metadao'', ''dflow''} then normalize_solana_identity v
      else normalize_wallet v)"

definition activity_identity_hint :: "string \<Rightarrow> string" where
  "activity_identity_hint market_id = (let m = lower (strip market_id) in
     if m = ''manifold'' then ''manifold:<username>''
     else if m \<in> {''metadao'', ''dflow''} then ''solana:<base58 wallet address>'' else ''0x wallet address'')"

section \<open>Handlers\<close>

definition require_selected_market :: "app_config \<Rightarrow> string \<Rightarrow> string res" where
  "require_selected_market cfg feature =
     (let market_id = lower (strip (cf_selected_market_id cfg)) in
      if market_id = [] then value_error (feature @ '' requires a selected market.'')
      else rbind (require_market_enabled cfg market_id feature) (\<lambda>_. Inr market_id))"

definition find_wallet :: "app_config \<Rightarrow> string \<Rightarrow> wallet_watch res" where
  "find_wallet cfg wallet_id =
     (case List.find (\<lambda>w. ww_id w = PStr (strip wallet_id)) (cf_wallets cfg) of
        Some w \<Rightarrow> Inr w | None \<Rightarrow> value_error (''Unknown wallet id: '' @ strip wallet_id))"

text \<open>\<open>str(payload.get(k) if k in payload else existing).strip()\<close>\<close>

definition given_or :: "obj \<Rightarrow> string \<Rightarrow> pyval \<Rightarrow> string" where
  "given_or payload k existing = strip (py_str (oget_or payload k existing))"

record wallet_fields_read =
  wf_wallet :: string
  wf_display_name :: string
  wf_enabled :: bool
  wf_only_market_slug :: string

definition wallet_fields_from_payload :: "obj \<Rightarrow> wallet_watch option \<Rightarrow> string \<Rightarrow> wallet_fields_read res" where
  "wallet_fields_from_payload payload existing market_id =
     (case normalize_activity_identity market_id (PStr (given_or payload ''wallet''
             (case existing of None \<Rightarrow> PStr [] | Some w \<Rightarrow> ww_wallet w))) of
        None \<Rightarrow> if lower (strip market_id) = ''manifold''
          then value_error ''wallet must use the safe manifold:<username> activity identity format.''
          else value_error ''wallet must be a valid 0x wallet/proxyWallet address.''
      | Some wallet \<Rightarrow> Inr \<lparr> wf_wallet = wallet,
          wf_display_name = given_or payload ''display_name'' (case existing of None \<Rightarrow> PStr [] | Some w \<Rightarrow> ww_display_name w),
          wf_enabled = bool_from_setting (oget payload ''enabled'') (case existing of None \<Rightarrow> True | Some w \<Rightarrow> ww_enabled w),
          wf_only_market_slug = given_or payload ''only_market_slug'' (case existing of None \<Rightarrow> PStr [] | Some w \<Rightarrow> ww_only_market_slug w) \<rparr>)"

text \<open>A new \<open>WalletWatch\<close> with the identifier \<open>uid\<close>.\<close>

definition new_wallet :: "string \<Rightarrow> wallet_fields_read \<Rightarrow> wallet_watch" where
  "new_wallet uid f = \<lparr> ww_wallet = PStr (wf_wallet f),
     ww_display_name = PStr (if wf_display_name f = [] then take 10 (wf_wallet f) @ ''...'' else wf_display_name f),
     ww_enabled = wf_enabled f, ww_id = PStr uid, ww_last_seen_ts = 0, ww_last_seen_tx = PStr [],
     ww_seen_activity_keys = [], ww_activity_key_timestamps = [], ww_activity_cursor_market_id = DEFAULT_MARKET_ID,
     ww_activity_cursors = [], ww_only_market_slug = PStr (wf_only_market_slug f) \<rparr>"

definition edited_wallet :: "wallet_fields_read \<Rightarrow> wallet_watch \<Rightarrow> wallet_watch" where
  "edited_wallet f w = w\<lparr> ww_wallet := PStr (wf_wallet f), ww_display_name := PStr (wf_display_name f),
     ww_enabled := wf_enabled f, ww_only_market_slug := PStr (wf_only_market_slug f) \<rparr>"

definition add_wallet_watch :: "string \<Rightarrow> app_config \<Rightarrow> obj \<Rightarrow> (app_config \<times> wallet_watch) res" where
  "add_wallet_watch uid cfg payload =
     rbind (require_selected_market cfg ''Wallet tracking'') (\<lambda>market_id.
     rbind (wallet_fields_from_payload payload None market_id) (\<lambda>f.
     let wallet = new_wallet uid f in
     if list_ex (\<lambda>w. ww_wallet w = ww_wallet wallet) (cf_wallets cfg)
     then value_error ''This wallet is already being tracked.''
     else Inr (cfg\<lparr> cf_wallets := cf_wallets cfg @ [wallet] \<rparr>, wallet)))"

text \<open>\<open>find_wallet\<close> returns the first wallet with the identifier; the edit changes that object.\<close>

fun replace_first :: "('a \<Rightarrow> bool) \<Rightarrow> ('a \<Rightarrow> 'a) \<Rightarrow> 'a list \<Rightarrow> 'a list" where
  "replace_first P f [] = []"
| "replace_first P f (x # xs) = (if P x then f x # xs else x # replace_first P f xs)"

definition update_wallet_watch :: "app_config \<Rightarrow> string \<Rightarrow> obj \<Rightarrow> (app_config \<times> wallet_watch) res" where
  "update_wallet_watch cfg wallet_id payload =
     rbind (require_selected_market cfg ''Wallet tracking'') (\<lambda>market_id.
     rbind (find_wallet cfg wallet_id) (\<lambda>wallet.
     rbind (wallet_fields_from_payload payload (Some wallet) market_id) (\<lambda>f.
     let edited = edited_wallet f wallet;
         wallets = replace_first (\<lambda>w. ww_id w = PStr (strip wallet_id)) (edited_wallet f) (cf_wallets cfg)
     in if list_ex (\<lambda>w. ww_wallet w = ww_wallet edited \<and> ww_id w \<noteq> ww_id edited) wallets
        then value_error ''This wallet is already being tracked.''
        else Inr (cfg\<lparr> cf_wallets := wallets \<rparr>, edited))))"

definition delete_wallet_watch :: "app_config \<Rightarrow> string \<Rightarrow> (app_config \<times> wallet_watch) res" where
  "delete_wallet_watch cfg wallet_id =
     rbind (find_wallet cfg wallet_id) (\<lambda>wallet.
     Inr (cfg\<lparr> cf_wallets := filter (\<lambda>w. ww_id w \<noteq> ww_id wallet) (cf_wallets cfg) \<rparr>, wallet))"

section \<open>Views\<close>

text \<open>\<open>{**wallet.to_dict(), **cursor, ...}\<close>\<close>

definition wallet_payload :: "wallet_watch \<Rightarrow> string \<Rightarrow> obj" where
  "wallet_payload w market_id =
     (let selected = (if market_id = [] then ww_activity_cursor_market_id w else market_id);
          cursor = cursor_for_market w selected
      in dupdate (dupdate (wallet_to_dict w) (cursor_obj cursor))
           [(''activity_cursor_market_id'', PStr selected), (''seen_count'', PInt (int (length (cu_seen_activity_keys cursor))))])"

definition text_or :: "obj \<Rightarrow> string \<Rightarrow> string \<Rightarrow> string" where
  "text_or item k k' = py_str (py_or (oget item k) (py_or (oget item k') (PStr [])))"

definition wallet_activity_payload :: "wallet_watch \<Rightarrow> obj \<Rightarrow> obj res" where
  "wallet_activity_payload w item =
     rbind (py_int (py_or (oget item ''timestamp'') (PInt 0))) (\<lambda>timestamp.
     rbind (safe_float (oget item ''price'') None) (\<lambda>price.
     rbind (safe_float (oget item ''size'') None) (\<lambda>sz. Inr [
     (''id'', PStr (activity_key item)), (''wallet_id'', ww_id w), (''wallet'', ww_wallet w),
     (''display_name'', ww_display_name w), (''timestamp'', PInt timestamp),
     (''transaction_hash'', PStr (text_or item ''transactionHash'' ''transaction_hash'')),
     (''proxy_wallet'', PStr (text_or item ''proxyWallet'' ''proxyWallet'')),
     (''side'', PStr (text_or item ''side'' ''side'')), (''asset'', PStr (text_or item ''asset'' ''asset'')),
     (''price'', opt_float price), (''size'', opt_float sz),
     (''slug'', PStr (text_or item ''slug'' ''slug'')), (''outcome'', PStr (text_or item ''outcome'' ''outcome'')),
     (''pseudonym'', PStr (text_or item ''pseudonym'' ''name'')), (''raw'', PDict item)])))"

text \<open>The server's view of polling: interval, time and message of the last poll.\<close>

definition wallets_payload :: "app_config \<Rightarrow> obj \<Rightarrow> obj list \<Rightarrow> obj res" where
  "wallets_payload cfg polling recent =
     rbind (py_float (py_or (oget polling ''poll_interval_seconds'') (PFloat (Fin 10)))) (\<lambda>interval.
     rbind (safe_float (oget polling ''last_polled_at'') None) (\<lambda>polled. Inr [
     (''wallets'', PList (map (\<lambda>w. PDict (wallet_payload w (cf_selected_market_id cfg))) (cf_wallets cfg))),
     (''counts'', PDict [(''total'', PInt (int (length (cf_wallets cfg)))),
        (''enabled'', PInt (int (length (filter ww_enabled (cf_wallets cfg)))))]),
     (''polling'', PDict [(''mode'', PStr ''manual''), (''poll_interval_seconds'', PFloat interval),
        (''last_polled_at'', opt_float polled),
        (''last_message'', PStr (py_str (py_or (oget polling ''last_message'') (PStr ''Not polled yet.''))))]),
     (''recent_activity'', PList (map PDict recent))]))"

end
