(* ===== verification/Web_Copy.thy ===== *)
theory Web_Copy
  imports Web_Wallets Web_Paper
begin

text \<open>
  Copy trading of \<open>web_api.py\<close>: reading the settings of a request, the conflict guard and the preview
  of a copied trade. A preview never places an order; in live mode it runs the adapter's preflight.

  The adapter adds an order book and the preflight to the trading adapter. An order book is the
  prices of its levels, best first.
\<close>

section \<open>Settings\<close>

text \<open>The follow identities of a payload. The recursive call of the code only reads
  \<open>follow_wallet\<close>, which is \<open>single_wallet\<close> here.\<close>

definition follow_identity :: "string \<Rightarrow> pyval \<Rightarrow> string list \<Rightarrow> string list res" where
  "follow_identity market_id raw wallets =
     (case raw of
        PStr s \<Rightarrow>
          if strip s = [] then Inr wallets
          else (case normalize_activity_identity market_id (PStr (strip s)) of
              None \<Rightarrow> if lower (strip market_id) = ''manifold''
                then value_error ''follow_wallets must contain only safe manifold:<username> activity identities.''
                else value_error ''follow_wallets must contain only valid activity identities (0x or Solana wallets).''
            | Some w \<Rightarrow> Inr (if w \<in> set wallets then wallets else wallets @ [w]))
      | _ \<Rightarrow> value_error ''Copy follow identities must be strings.'')"

definition raw_payload_wallets :: "obj \<Rightarrow> copy_settings \<Rightarrow> pyval list res" where
  "raw_payload_wallets payload existing =
     (case dget payload ''follow_wallets'' of
        Some (PList vs) \<Rightarrow> Inr vs
      | Some (PStr s) \<Rightarrow> Inr (map PStr (split_on (CHR '','') (replace_char (CHR '';'') (CHR '','') s)))
      | Some _ \<Rightarrow> value_error ''follow_wallets must be a list or comma-separated string.''
      | None \<Rightarrow> (case dget payload ''follow_wallet'' of
            Some v \<Rightarrow> Inr [v]
          | None \<Rightarrow> Inr (map PStr (normalized_follow_wallets existing))))"

definition wallets_from_copy_payload :: "obj \<Rightarrow> copy_settings \<Rightarrow> string \<Rightarrow> string list res" where
  "wallets_from_copy_payload payload existing market_id =
     rbind (raw_payload_wallets payload existing) (\<lambda>raw.
     rbind (rfold (follow_identity market_id) raw []) (\<lambda>wallets.
     case (dget payload ''follow_wallets'', dget payload ''follow_wallet'') of
       (Some _, Some v) \<Rightarrow>
         rbind (follow_identity market_id v []) (\<lambda>single_wallet.
         if single_wallet \<noteq> take 1 wallets then value_error ''follow_wallet and follow_wallets disagree.''
         else Inr wallets)
     | _ \<Rightarrow> Inr wallets))"

definition copied_fields :: "string list" where
  "copied_fields = [''enabled'', ''live'', ''scale'', ''max_usdc_per_trade'', ''slippage'', ''allow_sells'',
     ''conflict_guard'', ''conflict_window_seconds'']"

definition percentage_aliases :: "string list" where
  "percentage_aliases = [''copy_percentage'', ''scale_percent'', ''percentage'']"

definition given_values :: "obj \<Rightarrow> string list \<Rightarrow> (string \<times> pyval) list" where
  "given_values payload names = List.map_filter (\<lambda>k. map_option (Pair k) (dget payload k)) names"

text \<open>The percentage of a payload: its aliases must name one scale.\<close>

definition payload_percentage :: "obj \<Rightarrow> pyval option res" where
  "payload_percentage payload =
     (case map snd (given_values payload percentage_aliases) of
        [] \<Rightarrow> Inr None
      | v # vs \<Rightarrow>
        rbind (rmap (\<lambda>p. copy_settings_from_dict [(''copy_percentage'', p)]) (v # vs)) (\<lambda>settings.
        let scales = map ct_scale settings in
        if list_ex (\<lambda>x. \<not> isclose_abs (hd scales) x (flit (1 / 10 ^ 12))) (tl scales)
        then value_error ''Copy percentage aliases disagree.'' else Inr (Some v)))"

definition copy_settings_from_payload :: "obj \<Rightarrow> copy_settings \<Rightarrow> string \<Rightarrow> copy_settings res" where
  "copy_settings_from_payload payload existing market_id =
     rbind (wallets_from_copy_payload payload existing market_id) (\<lambda>wallets.
     rbind (copy_settings_to_dict existing) (\<lambda>written.
     let data = dupdate (dpop ''copy_percentage'' written) (given_values payload copied_fields) in
     rbind (payload_percentage payload) (\<lambda>percentage.
     let data = (case percentage of None \<Rightarrow> data
           | Some p \<Rightarrow> (let d = dset ''copy_percentage'' p data in if has_key payload ''scale'' then d else dpop ''scale'' d))
     in copy_settings_from_dict (dset ''follow_wallets'' (PList (map PStr wallets))
          (dset ''follow_wallet'' (PStr (case wallets of [] \<Rightarrow> [] | w # _ \<Rightarrow> w)) data)))))"

definition apply_copy_settings_patch :: "app_config \<Rightarrow> obj \<Rightarrow> app_config res" where
  "apply_copy_settings_patch cfg payload =
     rbind (require_selected_market cfg ''Copy trading settings'') (\<lambda>market_id.
     rbind (copy_settings_from_payload payload (cf_copytrading cfg) market_id) (\<lambda>s.
     Inr (cfg\<lparr> cf_copytrading := s \<rparr>)))"

section \<open>The conflict guard\<close>

definition lowered_text :: "obj \<Rightarrow> string \<Rightarrow> string" where
  "lowered_text item k = lower (strip (text_or item k k))"

definition copy_trade_guard_key :: "obj \<Rightarrow> string" where
  "copy_trade_guard_key activity =
     join ''|'' (filter (\<lambda>part. part \<noteq> []) (map (lowered_text activity) [''asset'', ''slug'', ''outcome'']))"

text \<open>The accepted copy of a token: its side, wallet, fill and time.\<close>

record guard_entry =
  gd_side :: string
  gd_wallet :: string
  gd_activity_key :: string
  gd_timestamp :: int

type_synonym guard_state = "(string, guard_entry) dict"

definition activity_side :: "obj \<Rightarrow> string" where
  "activity_side activity = upper (strip (text_or activity ''side'' ''side''))"

text \<open>\<open>int(_safe_float(activity.get("timestamp"), now) or now)\<close>\<close>

definition guard_time :: "pyfloat \<Rightarrow> obj \<Rightarrow> int res" where
  "guard_time now activity =
     rbind (safe_float (oget activity ''timestamp'') (Some now)) (\<lambda>x.
     int_of_float (case x of None \<Rightarrow> now | Some t \<Rightarrow> if feq t (Fin 0) then now else t))"

definition drop_stale :: "int \<Rightarrow> int \<Rightarrow> guard_state \<Rightarrow> guard_state" where
  "drop_stale window timestamp state =
     (if window = 0 then state
      else filter (\<lambda>(_, g). \<not> window < timestamp - (if gd_timestamp g = 0 then timestamp else gd_timestamp g)) state)"

definition copy_trade_conflict_reason ::
    "pyfloat \<Rightarrow> copy_settings \<Rightarrow> obj \<Rightarrow> guard_state option \<Rightarrow> (string option \<times> guard_state option) res" where
  "copy_trade_conflict_reason now settings activity conflict_state =
     (case conflict_state of
        None \<Rightarrow> Inr (None, None)
      | Some state \<Rightarrow>
        if \<not> ct_conflict_guard settings \<or> copy_trade_guard_key activity = [] then Inr (None, Some state)
        else
          rbind (guard_time now activity) (\<lambda>timestamp.
          let key = copy_trade_guard_key activity;
              entry = \<lparr> gd_side = activity_side activity, gd_wallet = lowered_text activity ''proxyWallet'',
                gd_activity_key = activity_key activity, gd_timestamp = timestamp \<rparr>;
              state = drop_stale (max 0 (ct_conflict_window_seconds settings)) timestamp state
          in Inr (case dget state key of
               None \<Rightarrow> (None, Some (dset key entry state))
             | Some g \<Rightarrow>
               if gd_wallet g = gd_wallet entry then (None, Some (dset key entry state))
               else if upper (gd_side g) \<noteq> [] \<and> upper (gd_side g) \<noteq> gd_side entry
               then (Some (''conflict guard blocked opposite-side copy for the same token from '' @ gd_wallet g), Some state)
               else (Some (''conflict guard skipped duplicate same-token copy already accepted from '' @ gd_wallet g), Some state))))"

section \<open>Previews\<close>

record copy_adapter = trading_adapter +
  ad_bids :: "string \<Rightarrow> (pyfloat list \<times> pyfloat list) res"
  ad_preflight_live_order :: "paper_order \<Rightarrow> string \<Rightarrow> obj res"

type_synonym copy_registry = "string \<Rightarrow> obj \<Rightarrow> copy_adapter res"

definition copy_adapter_for_market :: "app_config \<Rightarrow> string \<Rightarrow> copy_registry \<Rightarrow> copy_adapter res" where
  "copy_adapter_for_market cfg market_id registry =
     registry market_id (case dget (cf_markets cfg) market_id of None \<Rightarrow> [] | Some m \<Rightarrow> mc_settings m)"

text \<open>\<open>f"{x:.4f}"\<close>: the exact value rounded to four places, ties to even.\<close>

fun fmt_fixed4 :: "pyfloat \<Rightarrow> string" where
  "fmt_fixed4 (Fin q) = (let n = round_even (\<bar>q\<bar> * 10000); ds = nat_str (n mod 10000) in
     (if q < 0 then ''-'' else []) @ nat_str (n div 10000) @ ''.'' @ replicate (4 - length ds) (CHR ''0'') @ ds)"
| "fmt_fixed4 PInf = ''inf''"
| "fmt_fixed4 NInf = ''-inf''"
| "fmt_fixed4 NaN = ''nan''"

text \<open>The best price of each side; no order book leaves both open.\<close>

definition best_prices :: "copy_adapter \<Rightarrow> string \<Rightarrow> string \<Rightarrow> pyfloat option \<times> pyfloat option" where
  "best_prices adapter market_id token_id =
     (if market_id = ''azuro'' then (None, None)
      else case ad_bids adapter token_id of
          Inl _ \<Rightarrow> (None, None)
        | Inr (bids, asks) \<Rightarrow> (case bids of [] \<Rightarrow> None | p # _ \<Rightarrow> Some p, case asks of [] \<Rightarrow> None | p # _ \<Rightarrow> Some p))"

definition first_some :: "'a option \<Rightarrow> 'a option \<Rightarrow> 'a option" where
  "first_some a b = (case a of None \<Rightarrow> b | Some _ \<Rightarrow> a)"

definition some_or :: "'a \<Rightarrow> 'a option \<Rightarrow> 'a" where
  "some_or d x = (case x of None \<Rightarrow> d | Some v \<Rightarrow> v)"

text \<open>The odds of an Azuro activity: what it says, or the inverse of its price.\<close>

definition activity_odds :: "pyval \<Rightarrow> pyfloat option \<Rightarrow> pyfloat option res" where
  "activity_odds odds raw_price =
     rbind (safe_float odds None) (\<lambda>raw_odds.
     case (raw_odds, raw_price) of
       (None, Some p) \<Rightarrow> if flt (Fin 0) p then rbind (fdiv (Fin 1) p) (\<lambda>x. Inr (Some x)) else Inr None
     | _ \<Rightarrow> Inr raw_odds)"

text \<open>The limit price of a copy; \<open>None\<close> when an Azuro activity has no odds.\<close>

definition copy_limit_price :: "string \<Rightarrow> string \<Rightarrow> pyval \<Rightarrow> pyfloat option \<Rightarrow> pyfloat option \<times> pyfloat option \<Rightarrow> pyfloat
    \<Rightarrow> pyfloat option res" where
  "copy_limit_price market_id side odds raw_price best slippage =
     (if market_id = ''azuro'' then
        rbind (activity_odds odds raw_price) (\<lambda>raw_odds. case raw_odds of
            None \<Rightarrow> Inr None
          | Some x \<Rightarrow> if fle x (Fin 0) then Inr None
              else Inr (Some (fmax (flit (1 / 10 ^ 12)) (fmul x (fsub (Fin 1) slippage)))))
      else if side = ''BUY'' then
        Inr (Some (fmin (Fin 1) (fadd (some_or (flit (99 / 100)) (first_some (snd best) raw_price)) slippage)))
      else
        Inr (Some (fmax (Fin 0) (fsub (some_or (flit (1 / 100)) (first_some (fst best) raw_price)) slippage))))"

text \<open>On some venues a bought size is a collateral budget, not a number of shares.\<close>

definition buy_budget_activity :: "string \<Rightarrow> string \<Rightarrow> bool" where
  "buy_budget_activity market_id side \<longleftrightarrow> market_id \<in> {''azuro'', ''manifold'', ''myriad_markets''} \<and> side = ''BUY''"

definition capped_size :: "bool \<Rightarrow> pyfloat \<Rightarrow> pyfloat \<Rightarrow> pyfloat \<Rightarrow> (pyfloat \<times> bool) res" where
  "capped_size budget limit_price maximum sz =
     (if budget then Inr (if flt maximum sz then (maximum, True) else (sz, False))
      else if flt (Fin 0) limit_price then
        rbind (fdiv maximum limit_price) (\<lambda>max_shares. Inr (if flt max_shares sz then (max_shares, True) else (sz, False)))
      else Inr (sz, False))"

text \<open>The terms of a copied trade, or the reason it is skipped, before the conflict guard is asked.\<close>

record copy_terms =
  tm_contract_id :: string
  tm_side :: string
  tm_size :: pyfloat
  tm_limit_price :: pyfloat
  tm_capped :: bool
  tm_slippage :: pyfloat
  tm_raw_price :: "pyfloat option"
  tm_best :: "pyfloat option \<times> pyfloat option"

datatype copy_decision = Skipped string | Copy copy_terms

definition copy_trade_sizing :: "copy_settings \<Rightarrow> copy_adapter \<Rightarrow> string \<Rightarrow> string \<Rightarrow> string \<Rightarrow> obj \<Rightarrow> copy_decision res" where
  "copy_trade_sizing settings adapter market_id side token_id activity =
     rbind (safe_float (oget activity ''size'') (Some (Fin 0))) (\<lambda>raw_size.
     rbind (safe_float (oget activity ''price'') None) (\<lambda>raw_price.
     let sz = fmax (Fin 0) (fmul (some_or (Fin 0) raw_size) (ct_scale settings));
         best = best_prices adapter market_id token_id;
         slippage = fmax (Fin 0) (fmin (ct_slippage settings) (Fin 1))
     in rbind (copy_limit_price market_id side (oget activity ''odds'') raw_price best slippage) (\<lambda>price.
     case price of
       None \<Rightarrow> Inr (Skipped ''Azuro activity has no valid decimal odds'')
     | Some limit_price \<Rightarrow>
       rbind (capped_size (buy_budget_activity market_id side) limit_price
         (fmax (flit (1 / 100)) (ct_max_usdc_per_trade settings)) sz) (\<lambda>(sz, capped).
       Inr (if fle sz (Fin 0) then Skipped ''computed copy size is zero''
         else Copy \<lparr> tm_contract_id = token_id, tm_side = side, tm_size = sz, tm_limit_price = limit_price,
           tm_capped = capped, tm_slippage = slippage, tm_raw_price = raw_price, tm_best = best \<rparr>)))))"

definition copy_trade_decision :: "copy_settings \<Rightarrow> copy_adapter \<Rightarrow> string \<Rightarrow> obj \<Rightarrow> copy_decision res" where
  "copy_trade_decision settings adapter market_id activity =
     (if \<not> cap_copy_trading (ad_capabilities adapter)
      then Inr (Skipped (ad_display_name adapter @ '' does not expose an official account-activity copy feed''))
      else
        let followed = normalized_follow_wallets settings; side = activity_side activity;
            token_id = strip (text_or activity ''asset'' ''contract_id'') in
        if followed = [] then Inr (Skipped ''follow wallet is not set'')
        else if (case normalize_activity_identity market_id (oget activity ''proxyWallet'') of
            None \<Rightarrow> True | Some w \<Rightarrow> w \<notin> set followed)
        then Inr (Skipped ''activity wallet does not match follow wallet'')
        else if side \<notin> {''BUY'', ''SELL''} then Inr (Skipped ''activity side is not BUY or SELL'')
        else if side = ''SELL'' \<and> \<not> ct_allow_sells settings then Inr (Skipped ''SELL copying disabled'')
        else if token_id = [] then Inr (Skipped ''activity has no asset token'')
        else copy_trade_sizing settings adapter market_id side token_id activity)"

definition skipped_preview :: "string \<Rightarrow> obj" where
  "skipped_preview reason = [(''status'', PStr ''skipped''), (''reason'', PStr reason)]"

definition copy_order :: "string \<Rightarrow> obj \<Rightarrow> copy_terms \<Rightarrow> paper_order" where
  "copy_order market_id activity t = \<lparr> po_market_id = market_id, po_contract_id = tm_contract_id t, po_side = tm_side t,
     po_size = tm_size t, po_limit_price = Some (tm_limit_price t),
     po_metadata = [(''source'', PStr ''copy_trading''), (''tif'', PStr ''FOK''), (''activity_key'', PStr (activity_key activity))]
       @ (if market_id \<in> {''manifold'', ''myriad_markets''} \<and> tm_side t = ''SELL''
          then [(''shares'', py_or (oget activity ''shares'') (PFloat (tm_size t)))] else []) \<rparr>"

definition order_terms_obj :: "string \<Rightarrow> copy_terms \<Rightarrow> obj" where
  "order_terms_obj market_id t = [
     (''market_id'', PStr market_id), (''contract_id'', PStr (tm_contract_id t)), (''side'', PStr (tm_side t)),
     (''size'', PFloat (tm_size t)), (''limit_price'', PFloat (tm_limit_price t)),
     (''approx_notional'', PFloat (if buy_budget_activity market_id (tm_side t) then tm_size t
        else fmul (tm_size t) (fmax (Fin 1) (if feq (tm_limit_price t) (Fin 0) then Fin 0 else tm_limit_price t)))),
     (''exposure_model'', PStr ''full_size_upper_bound'')]"

definition simulation_message :: "copy_terms \<Rightarrow> string" where
  "simulation_message t = ''Simulation: would '' @ tm_side t @ '' token='' @ take 10 (tm_contract_id t) @ ''... size=''
     @ fmt_fixed4 (tm_size t) @ '' limit='' @ fmt_fixed4 (tm_limit_price t) @ ''; no order placed.''"

definition accepted_preview :: "copy_settings \<Rightarrow> copy_adapter \<Rightarrow> string \<Rightarrow> obj \<Rightarrow> copy_terms \<Rightarrow> obj res" where
  "accepted_preview settings adapter market_id activity t =
     rbind (safe_float (oget activity ''odds'') None) (\<lambda>raw_odds.
     let result = [
       (''status'', PStr (if ct_live settings then ''live_preflight'' else ''simulation'')),
       (''live'', PBool (ct_live settings)), (''would_place_order'', PBool (ct_live settings)),
       (''order'', PDict (order_terms_obj market_id t)),
       (''pricing'', PDict [(''raw_price'', opt_float (tm_raw_price t)), (''raw_odds'', opt_float raw_odds),
          (''best_bid'', opt_float (fst (tm_best t))), (''best_ask'', opt_float (snd (tm_best t))),
          (''slippage'', PFloat (tm_slippage t)), (''capped_by_max_usdc'', PBool (tm_capped t))]),
       (''conflict_guard'', PBool (ct_conflict_guard settings))]
     in Inr (result @ (if ct_live settings then
         (case ad_preflight_live_order adapter (copy_order market_id activity t) ''live copy trading'' of
            Inr p \<Rightarrow> [(''preflight'', PDict p), (''blocked'', PBool False),
              (''message'', PStr ''Live copy preflight passed. No order was placed.'')]
          | Inl e \<Rightarrow> [(''blocked'', PBool True), (''message'', PStr (''Live copy preflight blocked: '' @ exc_text e))])
       else [(''blocked'', PBool False), (''message'', PStr (simulation_message t))])))"

definition copy_trade_preview_from_activity ::
    "pyfloat \<Rightarrow> app_config \<Rightarrow> copy_registry \<Rightarrow> obj \<Rightarrow> guard_state option \<Rightarrow> (obj \<times> guard_state option) res" where
  "copy_trade_preview_from_activity now cfg registry activity conflict_state =
     rbind (require_selected_market cfg ''Copy trading preview'') (\<lambda>market_id.
     let settings = cf_copytrading cfg in
     if \<not> ct_enabled settings then Inr (skipped_preview ''copy trading disabled'', conflict_state)
     else
       rbind (copy_adapter_for_market cfg market_id registry) (\<lambda>adapter.
       rbind (copy_trade_decision settings adapter market_id activity) (\<lambda>decision.
       case decision of
         Skipped reason \<Rightarrow> Inr (skipped_preview reason, conflict_state)
       | Copy t \<Rightarrow>
         rbind (copy_trade_conflict_reason now settings activity conflict_state) (\<lambda>(conflict, conflict_state).
         case conflict of
           Some reason \<Rightarrow> Inr (skipped_preview reason @ [(''conflict_guard'', PBool True)], conflict_state)
         | None \<Rightarrow>
           rbind (accepted_preview settings adapter market_id activity t) (\<lambda>preview.
           Inr (preview, conflict_state))))))"

section \<open>Views\<close>

definition copy_status :: "copy_settings \<Rightarrow> string" where
  "copy_status s = (if \<not> ct_enabled s then ''disabled'' else if ct_live s then ''live requested'' else ''simulation'')"

definition copy_live_gate :: "market_config option \<Rightarrow> obj res" where
  "copy_live_gate market =
     (let settings = (case market of None \<Rightarrow> [] | Some m \<Rightarrow> mc_settings m);
          flag = (\<lambda>k. bool_from_setting (oget settings k) False) in
      rbind (safe_float (oget settings ''live_trading_max_size'') None) (\<lambda>max_size.
      rbind (safe_float (oget settings ''live_trading_max_notional'') None) (\<lambda>max_notional. Inr [
        (''market_enabled'', PBool (case market of None \<Rightarrow> False | Some m \<Rightarrow> mc_enabled m)),
        (''live_trading_enabled'', PBool (flag ''live_trading_enabled'')),
        (''live_trading_confirmed'', PBool (flag ''live_trading_confirmed'' \<or> flag ''live_trading_acknowledged'')),
        (''live_trading_kill_switch'', PBool (flag ''live_trading_kill_switch'' \<or> flag ''live_trading_paused'')),
        (''max_size'', opt_float max_size), (''max_notional'', opt_float max_notional)])))"

definition copy_payload :: "app_config \<Rightarrow> copy_registry \<Rightarrow> obj res" where
  "copy_payload cfg registry =
     (let m = lower (strip (cf_selected_market_id cfg)); market_id = (if m = [] then ''polymarket'' else m);
          tracked = map ww_wallet (cf_wallets cfg);
          followed = normalized_follow_wallets (cf_copytrading cfg)
      in rbind (copy_live_gate (dget (cf_markets cfg) market_id)) (\<lambda>live_gate.
      rbind (copy_settings_to_dict (cf_copytrading cfg)) (\<lambda>settings. Inr [
        (''settings'', PDict settings), (''wallet_choices'', PList tracked),
        (''follow_wallet_tracked'', PBool (list_ex (\<lambda>w. PStr w \<in> set tracked) followed)),
        (''follow_wallets_tracked'', PInt (int (length (filter (\<lambda>w. PStr w \<in> set tracked) followed)))),
        (''follow_wallets_untracked'', PList (map PStr (filter (\<lambda>w. PStr w \<notin> set tracked) followed))),
        (''status'', PStr (copy_status (cf_copytrading cfg))),
        (''simulation_first'', PBool (\<not> ct_live (cf_copytrading cfg))),
        (''copy_trading_supported'', PBool (case copy_adapter_for_market cfg market_id registry of
            Inl _ \<Rightarrow> False | Inr a \<Rightarrow> cap_copy_trading (ad_capabilities a))),
        (''adapter'', PStr (case copy_adapter_for_market cfg market_id registry of Inl _ \<Rightarrow> market_id | Inr a \<Rightarrow> ad_display_name a)),
        (''market_id'', PStr market_id), (''activity_identity_hint'', PStr (activity_identity_hint market_id)),
        (''live_gate'', PDict live_gate)])))"

text \<open>\<open>payload.get(a) or payload.get(b) or ...\<close>\<close>

definition either :: "obj \<Rightarrow> string list \<Rightarrow> pyval \<Rightarrow> pyval" where
  "either payload names d = foldr (\<lambda>k v. py_or (oget payload k) v) names d"

definition preview_activity :: "app_config \<Rightarrow> int \<Rightarrow> obj \<Rightarrow> obj" where
  "preview_activity cfg seconds payload = [
     (''proxyWallet'', either payload [''proxyWallet'', ''proxy_wallet'']
        (case normalized_follow_wallets (cf_copytrading cfg) of [] \<Rightarrow> PStr [] | w # _ \<Rightarrow> PStr w)),
     (''asset'', either payload [''asset'', ''contract_id'', ''token_id''] (PStr [])),
     (''side'', either payload [''side''] (PStr ''BUY'')),
     (''size'', oget_or payload ''size'' (PInt 0)), (''price'', oget payload ''price''),
     (''timestamp'', PInt seconds), (''slug'', either payload [''slug''] (PStr [])),
     (''outcome'', either payload [''outcome''] (PStr []))]"

definition copy_preview_payload :: "pyfloat \<Rightarrow> int \<Rightarrow> app_config \<Rightarrow> copy_registry \<Rightarrow> obj \<Rightarrow> obj res" where
  "copy_preview_payload now seconds cfg registry payload =
     rbind (require_selected_market cfg ''Copy trading preview'') (\<lambda>_.
     rbind (copy_trade_preview_from_activity now cfg registry (preview_activity cfg seconds payload) None) (\<lambda>(preview, _).
     rbind (copy_payload cfg registry) (\<lambda>copy. Inr [(''preview'', PDict preview), (''copy'', PDict copy)])))"

end
