(* ===== verification/Web_Polling.thy ===== *)
theory Web_Polling
  imports Web_Copy Web_Idempotency
begin

text \<open>
  Wallet polling of \<open>web_api.py\<close>. A poll reads the complete history of every enabled wallet since its
  cursor, then delivers the oldest new fills first, moving the cursor of a wallet with each fill it
  delivers. An event whose response would be too large is taken back and stops the delivery.

  A wallet is named by its position in the configuration. The feeds, the clocks and the checks of the
  request's deadline are arguments. The poll works on a copy and publishes it at the end.
\<close>

section \<open>What a poll reads\<close>

datatype checkpoint = ScopeEntry | WalletStart nat | ReadBudget nat | AfterRead nat | ScanItem nat nat
  | BeforeDelivery nat | AfterPreview nat | BeforePublish | ScopeExit

text \<open>\<open>pf_recent\<close> is the adapter's \<open>list_activity\<close>, where it has one.\<close>

record poll_feeds =
  pf_recent :: "(nat \<Rightarrow> recent_loader) option"
  pf_cursors :: "nat \<Rightarrow> cursor_loader"
  pf_expired :: "nat \<Rightarrow> nat \<Rightarrow> bool"
  pf_now :: "nat \<Rightarrow> int"
  pf_control :: "checkpoint \<Rightarrow> unit res"

definition WALLET_POLL_BATCH_ITEMS :: nat where "WALLET_POLL_BATCH_ITEMS = 100"

definition POLL_MAXIMUM_ITEMS :: nat where "POLL_MAXIMUM_ITEMS = 50000"

definition read_wallet :: "poll_feeds \<Rightarrow> nat \<Rightarrow> nat \<Rightarrow> nat \<Rightarrow> int \<Rightarrow> obj list res" where
  "read_wallet feeds page_size so_far i since =
     rbind (pf_control feeds (ReadBudget i)) (\<lambda>_.
     rbind (case pf_recent feeds of
         Some recent \<Rightarrow> collect_adapter_activity (recent i) (pf_expired feeds i) since (pf_now feeds i) page_size
       | None \<Rightarrow> collect_polymarket_activity_v2 (pf_cursors feeds i) (pf_expired feeds i) since (pf_now feeds i) page_size
           (POLL_MAXIMUM_ITEMS - so_far) 500) (\<lambda>items.
     if POLL_MAXIMUM_ITEMS < so_far + length items
     then incomplete ''Aggregate wallet history exceeds the bounded poll capacity''
     else rbind (pf_control feeds (AfterRead i)) (\<lambda>_. Inr items)))"

section \<open>New fills\<close>

record candidate =
  cd_timestamp :: int
  cd_wallet :: nat
  cd_key :: string
  cd_item :: obj

text \<open>\<open>int(item["timestamp"])\<close>\<close>

definition required_time :: "obj \<Rightarrow> int res" where
  "required_time item = (case dget item ''timestamp'' of None \<Rightarrow> raise KeyError ''timestamp'' | Some v \<Rightarrow> py_int v)"

definition wanted :: "wallet_watch \<Rightarrow> obj \<Rightarrow> bool" where
  "wanted w item \<longleftrightarrow> \<not> truthy (ww_only_market_slug w) \<or> PStr (text_or item ''slug'' ''slug'') = ww_only_market_slug w"

text \<open>The scan of the fills of a wallet, oldest first: identities seen so far, the new fills and how many
  of them are to be delivered. \<open>None\<close> stands for the stop at a legacy checkpoint.\<close>

record scan_state =
  sc_seen :: "string list"
  sc_new :: "candidate list"
  sc_wanted :: nat

definition scan_item :: "poll_feeds \<Rightarrow> wallet_watch \<Rightarrow> nat \<Rightarrow> int \<Rightarrow> nat \<times> obj \<Rightarrow> scan_state option \<Rightarrow> scan_state option res" where
  "scan_item feeds w i since numbered st =
     (case (numbered, st) of
        (_, None) \<Rightarrow> Inr None
      | ((n, item), Some s) \<Rightarrow>
        rbind (pf_control feeds (ScanItem i n)) (\<lambda>_.
        let key = activity_key item in
        if key \<in> set (sc_seen s) then Inr (Some s)
        else
          rbind (required_time item) (\<lambda>t.
          let legacy = legacy_transaction_key item in
          if t < since then Inr (Some s)
          else if legacy \<noteq> [] \<and> legacy \<noteq> key \<and> legacy \<in> set (sc_seen s) then Inr None
          else Inr (Some \<lparr> sc_seen = key # sc_seen s,
            sc_new = sc_new s @ [\<lparr> cd_timestamp = t, cd_wallet = i, cd_key = key, cd_item = item \<rparr>],
            sc_wanted = sc_wanted s + (if wanted w item then 1 else 0) \<rparr>))))"

definition scan_wallet :: "poll_feeds \<Rightarrow> wallet_watch \<Rightarrow> nat \<Rightarrow> cursor \<Rightarrow> obj list \<Rightarrow> scan_state option res" where
  "scan_wallet feeds w i c items =
     rfold (scan_item feeds w i (cu_last_seen_ts c)) (enumerate 0 (rev items))
       (Some \<lparr> sc_seen = cu_seen_activity_keys c, sc_new = [], sc_wanted = 0 \<rparr>)"

text \<open>All enabled wallets in order. A failed read or a legacy checkpoint is a problem: the poll ends with
  it and publishes nothing.\<close>

record gathered =
  ga_observed :: nat
  ga_candidates :: "candidate list"
  ga_wanted :: nat
  ga_problem :: "string option"

definition reraised :: "exc \<Rightarrow> bool" where
  "reraised e \<longleftrightarrow> exc_kind e \<in> {RequestCancelled, RequestDeadlineExceeded}"

definition gather_wallet :: "poll_feeds \<Rightarrow> string \<Rightarrow> nat \<Rightarrow> nat \<times> wallet_watch \<Rightarrow> gathered \<Rightarrow> gathered res" where
  "gather_wallet feeds market_id page_size iw g =
     (case iw of (i, w) \<Rightarrow>
      if ga_problem g \<noteq> None then Inr g
      else
        rbind (pf_control feeds (WalletStart i)) (\<lambda>_.
        let c = cursor_for_market w market_id; named = py_str (ww_wallet w) @ '': '' in
        case read_wallet feeds page_size (ga_observed g) i (cu_last_seen_ts c) of
          Inl e \<Rightarrow> if reraised e then Inl e else Inr (g\<lparr> ga_problem := Some (named @ exc_text e) \<rparr>)
        | Inr items \<Rightarrow>
          rbind (scan_wallet feeds w i c items) (\<lambda>st. Inr (case st of
            None \<Rightarrow> g\<lparr> ga_problem := Some (named @
              ''Legacy transaction checkpoint requires fill reconciliation; cursor unchanged.'') \<rparr>
          | Some s \<Rightarrow> g\<lparr> ga_observed := ga_observed g + length items, ga_candidates := ga_candidates g @ sc_new s,
              ga_wanted := ga_wanted g + sc_wanted s \<rparr>))))"

definition enabled_wallets :: "app_config \<Rightarrow> (nat \<times> wallet_watch) list" where
  "enabled_wallets cfg = filter (\<lambda>(_, w). ww_enabled w) (enumerate 0 (cf_wallets cfg))"

definition gather :: "poll_feeds \<Rightarrow> string \<Rightarrow> nat \<Rightarrow> app_config \<Rightarrow> gathered res" where
  "gather feeds market_id page_size cfg =
     rfold (gather_wallet feeds market_id page_size) (enabled_wallets cfg)
       \<lparr> ga_observed = 0, ga_candidates = [], ga_wanted = 0, ga_problem = None \<rparr>"

text \<open>The order of the delivery: by time, then by wallet and position, which is the order in which the
  fills were found.\<close>

definition delivery_order :: "candidate list \<Rightarrow> candidate list" where
  "delivery_order cs = sort_key cd_timestamp cs"

section \<open>Delivery\<close>

record delivery =
  dl_cfg :: app_config
  dl_recent :: "obj list"
  dl_emitted :: "obj list"
  dl_filtered :: nat
  dl_remaining :: nat
  dl_conflicts :: guard_state
  dl_blocked :: "nat list"
  dl_full :: bool

definition poll_result :: "nat \<Rightarrow> string list \<Rightarrow> delivery \<Rightarrow> obj" where
  "poll_result batch problems s = [
     (''activity'', PList (map PDict (rev (dl_emitted s)))), (''problems'', PList (map PStr problems)),
     (''polled_wallets'', PInt (int (length (enabled_wallets (dl_cfg s))))),
     (''delivered_activity'', PInt (int (length (dl_emitted s)))),
     (''has_more'', PBool (0 < dl_remaining s \<or> problems \<noteq> [])),
     (''remaining_activity'', if problems = [] then PInt (int (dl_remaining s)) else PNone),
     (''consumed_filtered'', PInt (int (dl_filtered s))), (''batch_limit'', PInt (int batch))]"

text \<open>\<open>_json_bytes\<close>: the size of the JSON text of a response.\<close>

definition fits_bytes :: "nat \<Rightarrow> obj \<Rightarrow> unit res" where
  "fits_bytes budget payload = require (length (json_indented 0 (PDict payload)) \<le> budget)
     (Exc HttpResponseTooLargeError (''HTTP response exceeds '' @ nat_str (int budget) @ '' bytes.''))"

type_synonym response_validator = "app_config \<Rightarrow> obj \<Rightarrow> obj list \<Rightarrow> unit res"

definition poll_preflight :: "response_validator \<Rightarrow> nat \<Rightarrow> delivery \<Rightarrow> unit res" where
  "poll_preflight validator batch s =
     (let candidate = poll_result batch [] s in
      rbind (fits_bytes (min MAX_MUTATION_RESULT_BYTES MAX_HTTP_RESPONSE_BYTES) candidate) (\<lambda>_.
      rbind (require (json_finite (PDict candidate)) (Exc ValueError ''Out of range float values are not JSON compliant'')) (\<lambda>_.
      validator (dl_cfg s) candidate (dl_recent s))))"

text \<open>The options of a poll and the arguments of its previews and its response check.\<close>

record poll_context =
  px_market :: string
  px_registry :: copy_registry
  px_clock :: "nat \<Rightarrow> pyfloat"
  px_validator :: response_validator
  px_checks :: "checkpoint \<Rightarrow> unit res"
  px_advance :: bool
  px_batch :: nat

definition check_response :: "poll_context \<Rightarrow> delivery \<Rightarrow> unit res" where
  "check_response x s = poll_preflight (px_validator x) (px_batch x) s"

definition with_wallet :: "nat \<Rightarrow> wallet_watch \<Rightarrow> delivery \<Rightarrow> delivery" where
  "with_wallet i w s = s\<lparr> dl_cfg := (dl_cfg s)\<lparr> cf_wallets := (cf_wallets (dl_cfg s))[i := w] \<rparr> \<rparr>"

text \<open>The view of a fill enters the batch and the recent activity; a preview is added to both.\<close>

definition sanitized_activity :: "wallet_watch \<Rightarrow> obj \<Rightarrow> obj res" where
  "sanitized_activity w item =
     rbind (wallet_activity_payload w item) (\<lambda>payload.
     let activity = the_dict (sanitize_audit_value (PDict payload) []) in
     rbind (assert_no_persisted_secrets (PDict activity)) (\<lambda>_. Inr activity))"

definition with_event :: "obj \<Rightarrow> delivery \<Rightarrow> delivery" where
  "with_event activity s = s\<lparr> dl_emitted := dl_emitted s @ [activity], dl_remaining := dl_remaining s - 1,
     dl_recent := take 100 (activity # dl_recent s) \<rparr>"

definition with_preview :: "obj \<Rightarrow> guard_state \<Rightarrow> delivery \<Rightarrow> delivery" where
  "with_preview preview conflicts s =
     (let activity = dset ''copy_preview'' (sanitize_audit_value (PDict preview) []) (last (dl_emitted s)) in
      s\<lparr> dl_emitted := butlast (dl_emitted s) @ [activity], dl_recent := activity # tl (dl_recent s),
         dl_conflicts := conflicts \<rparr>)"

definition consume :: "poll_context \<Rightarrow> candidate \<Rightarrow> delivery \<Rightarrow> delivery res" where
  "consume x c s =
     (let i = cd_wallet c; w = cf_wallets (dl_cfg s) ! i in
      if px_advance x
      then rbind (remember_activity w (cd_item c) (cd_key c) (px_market x)) (\<lambda>w'. Inr (with_wallet i w' s))
      else Inr s)"

definition deliver_event :: "poll_context \<Rightarrow> nat \<Rightarrow> candidate \<Rightarrow> delivery \<Rightarrow> delivery res" where
  "deliver_event x n c s =
     rbind (consume x c s) (\<lambda>s.
     let w = cf_wallets (dl_cfg s) ! cd_wallet c in
     if \<not> wanted w (cd_item c) then
       (let s = s\<lparr> dl_filtered := dl_filtered s + 1 \<rparr> in rbind (check_response x s) (\<lambda>_. Inr s))
     else
       rbind (sanitized_activity w (cd_item c)) (\<lambda>activity.
       let s = with_event activity s in
       rbind (check_response x s) (\<lambda>_.
       rbind (copy_trade_preview_from_activity (px_clock x n) (dl_cfg s) (px_registry x) (cd_item c) (Some (dl_conflicts s)))
         (\<lambda>(preview, conflicts).
       let s = with_preview preview (case conflicts of None \<Rightarrow> [] | Some g \<Rightarrow> g) s in
       rbind (px_checks x (AfterPreview n)) (\<lambda>_.
       rbind (check_response x s) (\<lambda>_. Inr s))))))"

text \<open>A wallet stopped by a full batch or an oversized event stays stopped, so that its fills are
  consumed in order.\<close>

definition stop_wallet :: "nat \<Rightarrow> delivery \<Rightarrow> delivery" where
  "stop_wallet i s = s\<lparr> dl_blocked := i # dl_blocked s, dl_full := True \<rparr>"

definition deliver_candidate :: "poll_context \<Rightarrow> nat \<times> candidate \<Rightarrow> delivery \<Rightarrow> delivery res" where
  "deliver_candidate x nc s =
     (case nc of (n, c) \<Rightarrow>
      rbind (px_checks x (BeforeDelivery n)) (\<lambda>_.
      let i = cd_wallet c in
      if i \<in> set (dl_blocked s) then Inr s
      else if wanted (cf_wallets (dl_cfg s) ! i) (cd_item c) \<and> (dl_full s \<or> px_batch x \<le> length (dl_emitted s))
      then Inr (stop_wallet i s)
      else case deliver_event x n c s of
          Inr s' \<Rightarrow> Inr s'
        | Inl e \<Rightarrow>
          if exc_kind e \<noteq> HttpResponseTooLargeError then Inl e
          else if dl_emitted s = []
          then raise HttpResponseTooLargeError ''The next wallet event cannot fit its complete delivery response; cursor unchanged.''
          else Inr (stop_wallet i s)))"

definition deliver :: "poll_context \<Rightarrow> candidate list \<Rightarrow> delivery \<Rightarrow> delivery res" where
  "deliver x cs s = rfold (deliver_candidate x) (enumerate 0 cs) s"

section \<open>The poll\<close>

record polled =
  pd_cfg :: app_config
  pd_recent :: "obj list"
  pd_result :: obj

record poll_options =
  op_limit :: nat
  op_advance_seen :: bool
  op_max_batch_items :: int

definition poll_start :: "app_config \<Rightarrow> obj list \<Rightarrow> delivery" where
  "poll_start cfg recent = \<lparr> dl_cfg = cfg, dl_recent = take 100 recent, dl_emitted = [], dl_filtered = 0, dl_remaining = 0,
     dl_conflicts = [], dl_blocked = [], dl_full = False \<rparr>"

definition poll_body :: "poll_feeds \<Rightarrow> (nat \<Rightarrow> pyfloat) \<Rightarrow> response_validator \<Rightarrow> poll_options \<Rightarrow> app_config \<Rightarrow> copy_registry
    \<Rightarrow> obj list \<Rightarrow> polled res" where
  "poll_body feeds clock validator opts cfg registry recent =
     rbind (require_selected_market cfg ''Wallet polling'') (\<lambda>market_id.
     rbind (copy_adapter_for_market cfg market_id registry) (\<lambda>adapter.
     if pf_recent feeds = None \<and> market_id \<noteq> ''polymarket''
     then value_error (ad_display_name adapter @ '' does not expose an official wallet activity feed for tracking.'')
     else
       let x = \<lparr> px_market = market_id, px_registry = registry, px_clock = clock, px_validator = validator,
             px_checks = pf_control feeds, px_advance = op_advance_seen opts, px_batch = nat (op_max_batch_items opts) \<rparr>;
           s = poll_start cfg recent
       in rbind (check_response x s) (\<lambda>_.
       rbind (gather feeds market_id (op_limit opts) cfg) (\<lambda>g.
       case ga_problem g of
         Some problem \<Rightarrow> Inr \<lparr> pd_cfg = cfg, pd_recent = recent,
           pd_result = poll_result (px_batch x) [problem] (s\<lparr> dl_remaining := ga_wanted g \<rparr>) \<rparr>
       | None \<Rightarrow>
         rbind (deliver x (delivery_order (ga_candidates g)) (s\<lparr> dl_remaining := ga_wanted g \<rparr>)) (\<lambda>s.
         rbind (check_response x s) (\<lambda>_.
         rbind (pf_control feeds BeforePublish) (\<lambda>_.
         Inr \<lparr> pd_cfg = dl_cfg s, pd_recent = dl_recent s, pd_result = poll_result (px_batch x) [] s \<rparr>)))))))"

text \<open>The request scope checks its deadline on entry and when the body has returned or raised.\<close>

definition poll_wallet_activity :: "poll_feeds \<Rightarrow> (nat \<Rightarrow> pyfloat) \<Rightarrow> response_validator \<Rightarrow> poll_options \<Rightarrow> app_config
    \<Rightarrow> copy_registry \<Rightarrow> obj list \<Rightarrow> polled res" where
  "poll_wallet_activity feeds clock validator opts cfg registry recent =
     (if \<not> (1 \<le> op_max_batch_items opts \<and> op_max_batch_items opts \<le> int WALLET_POLL_BATCH_ITEMS)
      then value_error ''Wallet activity delivery batch must contain between 1 and 100 events.''
      else rbind (pf_control feeds ScopeEntry) (\<lambda>_.
        let outcome = poll_body feeds clock validator opts cfg registry recent in
        rbind (pf_control feeds ScopeExit) (\<lambda>_. outcome)))"

end
