(* ===== verification/Web_Poll_Route.thy ===== *)
theory Web_Poll_Route
  imports Web_Polling
begin

text \<open>
  The route \<open>POST /api/wallets/poll\<close> of \<open>web_api.py\<close>. A poll reserves its place in the mutation
  journal, delivers a batch, and saves the moved cursors together with the receipt that holds the
  batch; only then does the server adopt the new recent activity. The save is an argument.
\<close>

section \<open>Receipts\<close>

definition poll_message :: "obj \<Rightarrow> string" where
  "poll_message result = ''Polled '' @ py_str (oget result ''polled_wallets'') @ '' wallet(s); delivered ''
     @ py_str (oget result ''delivered_activity'') @ '' activity item(s); '' @ py_str (oget result ''remaining_activity'') @ '' remaining.''"

definition poll_receipt :: "string \<Rightarrow> obj \<Rightarrow> obj" where
  "poll_receipt receipt_id result = dupdate result [(''message'', PStr (poll_message result)),
     (''delivery'', PDict [(''mode'', PStr ''durable_replayable_batch''), (''receipt_id'', PStr receipt_id),
        (''acknowledge_with_next_poll'', PBool True)])]"

text \<open>The response of a poll and its receipt; both must fit whole.\<close>

definition poll_response :: "string \<Rightarrow> obj \<Rightarrow> copy_registry \<Rightarrow> app_config \<Rightarrow> obj \<Rightarrow> obj list \<Rightarrow> (obj \<times> obj \<times> obj) res" where
  "poll_response receipt_id polling registry cfg result recent =
     (let receipt = poll_receipt receipt_id result;
          polling = dset ''last_message'' (PStr (poll_message result)) polling
      in rbind (fits_bytes (min MAX_MUTATION_RESULT_BYTES MAX_HTTP_RESPONSE_BYTES) receipt) (\<lambda>_.
      rbind (wallets_payload cfg polling recent) (\<lambda>wallets.
      rbind (copy_payload cfg registry) (\<lambda>copy.
      let response = dupdate [(''wallets'', PDict wallets), (''copy'', PDict copy)] receipt in
      rbind (fits_bytes MAX_HTTP_RESPONSE_BYTES response) (\<lambda>_. Inr (response, receipt, polling))))))"

section \<open>Acknowledgement\<close>

definition ACKNOWLEDGED :: string where "ACKNOWLEDGED = ''wallet_delivery_batch_acknowledged''"

definition acknowledged_entry :: "int \<Rightarrow> journal_entry \<Rightarrow> journal_entry" where
  "acknowledged_entry now e = (if mj_outcome_code e = ACKNOWLEDGED then e
     else e\<lparr> mj_outcome_code := ACKNOWLEDGED,
       mj_outcome_message := ''The client acknowledged receiving this complete wallet activity batch.'', mj_updated_at := now \<rparr>)"

definition acknowledge_receipt :: "int \<Rightarrow> pyval \<Rightarrow> app_config \<Rightarrow> app_config res" where
  "acknowledge_receipt now acknowledge cfg =
     (case acknowledge of
        PNone \<Rightarrow> Inr cfg
      | PStr receipt_id \<Rightarrow>
        if receipt_id = [] \<or> 128 < length receipt_id
        then value_error ''acknowledge_receipt_id must identify a previously received wallet poll receipt.''
        else (case List.find (\<lambda>e. mj_id e = receipt_id) (cf_mutation_journal cfg) of
            None \<Rightarrow> value_error ''The acknowledged wallet poll receipt does not exist or has not committed.''
          | Some prior \<Rightarrow>
            if mj_method prior \<noteq> ''POST'' \<or> mj_path prior \<noteq> ''/api/wallets/poll'' \<or> mj_state prior \<noteq> Completed
            then value_error ''The acknowledged wallet poll receipt does not exist or has not committed.''
            else Inr (cfg\<lparr> cf_mutation_journal :=
              replace_first (\<lambda>e. mj_id e = receipt_id) (acknowledged_entry now) (cf_mutation_journal cfg) \<rparr>))
      | _ \<Rightarrow> value_error ''acknowledge_receipt_id must identify a previously received wallet poll receipt.'')"

definition unacknowledged_receipts :: "app_config \<Rightarrow> nat" where
  "unacknowledged_receipts cfg = length (filter (\<lambda>e. mj_state e = Completed \<and> mj_path e = ''/api/wallets/poll''
     \<and> mj_outcome_code e \<noteq> ACKNOWLEDGED) (cf_mutation_journal cfg))"

section \<open>The route\<close>

definition completed_receipt :: "int \<Rightarrow> obj \<Rightarrow> journal_entry \<Rightarrow> journal_entry" where
  "completed_receipt now stored e = e\<lparr> mj_state := Completed, mj_response_status := 200, mj_response := stored,
     mj_outcome_code := ''wallet_delivery_batch_committed'',
     mj_outcome_message := ''Wallet cursors and the complete replayable activity batch committed atomically.'', mj_updated_at := now \<rparr>"

text \<open>What the server keeps: the saved configuration, the recent activity and the polling view.\<close>

record poll_server =
  sv_cfg :: app_config
  sv_recent :: "obj list"
  sv_polling :: obj

datatype poll_reply = Refused int string string obj | Delivered obj

definition receipts_full :: "string \<Rightarrow> obj \<Rightarrow> poll_reply" where
  "receipts_full message details = Refused 503 ''wallet_poll_receipts_full'' message details"

definition failed_poll :: "exc \<Rightarrow> poll_reply res" where
  "failed_poll e =
     (if exc_kind e \<in> {RequestCancelled, RequestDeadlineExceeded}
      then Inr (Refused 503 ''wallet_poll_budget_exhausted''
        ''Wallet polling exceeded its aggregate work budget; cursors were left unchanged.'' [])
      else if exc_kind e = HttpResponseTooLargeError
      then Inr (Refused 503 ''wallet_poll_response_budget''
        ''The next wallet event or current state cannot fit a complete replayable response; cursors were left unchanged.'' [])
      else Inl e)"

record poll_request =
  pr_payload :: obj
  pr_entry :: journal_entry
  pr_now :: int
  pr_polled_at :: pyfloat

definition poll_limit :: "obj \<Rightarrow> nat res" where
  "poll_limit payload =
     rbind (safe_float (oget payload ''limit'') (Some (Fin 25))) (\<lambda>x.
     rbind (int_of_float (case x of None \<Rightarrow> Fin 25 | Some f \<Rightarrow> if feq f (Fin 0) then Fin 25 else f)) (\<lambda>n.
     Inr (nat (max 1 (min n 100)))))"

text \<open>A finished poll: the receipt must be stored exactly as it was built.\<close>

definition commit_poll :: "poll_request \<Rightarrow> copy_registry \<Rightarrow> obj \<Rightarrow> polled \<Rightarrow> (poll_server \<times> obj) res" where
  "commit_poll r registry polling p =
     rbind (poll_response (mj_id (pr_entry r)) polling registry (pd_cfg p) (pd_result p) (pd_recent p)) (\<lambda>(response, receipt, polling).
     let stored = stored_mutation_result receipt False None in
     if \<not> py_eq (PDict stored) (PDict receipt)
     then value_error ''Wallet delivery receipt cannot be preserved exactly; cursors were left unchanged.''
     else Inr (\<lparr> sv_cfg = (pd_cfg p)\<lparr> cf_mutation_journal := replace_first (\<lambda>e. mj_id e = mj_id (pr_entry r))
          (completed_receipt (pr_now r) stored) (cf_mutation_journal (pd_cfg p)) \<rparr>,
        sv_recent = pd_recent p, sv_polling = polling \<rparr>, response))"

definition wallet_poll_route :: "poll_feeds \<Rightarrow> (nat \<Rightarrow> pyfloat) \<Rightarrow> copy_registry \<Rightarrow> (app_config \<Rightarrow> unit res) \<Rightarrow> poll_request
    \<Rightarrow> poll_server \<Rightarrow> (poll_server \<times> poll_reply) res" where
  "wallet_poll_route feeds clock registry save r server =
     rbind (poll_limit (pr_payload r)) (\<lambda>n.
     let polling = dset ''last_polled_at'' (PFloat (pr_polled_at r)) (sv_polling server) in
     rbind (acknowledge_receipt (pr_now r) (oget (pr_payload r) ''acknowledge_receipt_id'') (sv_cfg server)) (\<lambda>cfg.
     if MAX_UNACKNOWLEDGED_WALLET_POLL_RECEIPTS \<le> unacknowledged_receipts cfg
     then Inr (server, receipts_full ''Unacknowledged wallet activity receipts are full; acknowledge a received batch before polling again.''
       [(''max_unacknowledged_receipts'', PInt (int MAX_UNACKNOWLEDGED_WALLET_POLL_RECEIPTS))])
     else case append_mutation_journal (pr_entry r) cfg of
       Inl _ \<Rightarrow> Inr (server, receipts_full ''The durable journal has no removable capacity; acknowledge received wallet batches or reconcile unresolved operations.'' [])
     | Inr cfg \<Rightarrow>
       case poll_wallet_activity feeds clock
         (\<lambda>cfg result recent. rbind (poll_response (mj_id (pr_entry r)) polling registry cfg result recent) (\<lambda>_. Inr ()))
         \<lparr> op_limit = n, op_advance_seen = True, op_max_batch_items = int WALLET_POLL_BATCH_ITEMS \<rparr> cfg registry (sv_recent server) of
         Inl e \<Rightarrow> rbind (failed_poll e) (\<lambda>reply. Inr (server, reply))
       | Inr p \<Rightarrow>
         if oget (pd_result p) ''problems'' \<noteq> PList []
         then Inr (server, Refused 503 ''wallet_poll_incomplete''
           ''Wallet source history is incomplete; delivery cursors were left unchanged.''
           [(''problems'', oget (pd_result p) ''problems''), (''has_more'', PBool True), (''remaining_activity'', PNone)])
         else
           rbind (commit_poll r registry polling p) (\<lambda>(server', response).
           rbind (save (sv_cfg server')) (\<lambda>_. Inr (server', Delivered response)))))"

end
