(* ===== verification/Activity_Feed_Laws.thy ===== *)
theory Activity_Feed_Laws
  imports Activity_Feed "HOL-Library.Multiset"
begin

text \<open>
  The readers against a feed that serves a fixed history. What the window reader returns is the
  history of the whole window, whatever way it had to split it; what the cursor reader returns is
  every page up to the explicit end; what the recent reader returns reaches back to the cursor.
\<close>

section \<open>Histories\<close>

text \<open>A history is newest first, with integer times and one identity per fill.\<close>

definition history_ok :: "obj list \<Rightarrow> bool" where
  "history_ok H \<longleftrightarrow> sorted (map (\<lambda>x. - item_time x) H) \<and> distinct (map activity_key H)
     \<and> list_all (\<lambda>x. case oget x ''timestamp'' of PInt t \<Rightarrow> 0 \<le> t | _ \<Rightarrow> False) H"

definition during :: "int \<Rightarrow> int \<Rightarrow> obj list \<Rightarrow> obj list" where
  "during a b H = filter (\<lambda>x. a \<le> item_time x \<and> item_time x \<le> b) H"

definition serves_windows :: "nat \<Rightarrow> obj list \<Rightarrow> window_loader \<Rightarrow> bool" where
  "serves_windows ps H loader \<longleftrightarrow>
     (\<forall>n a b off. loader n a b off = Inr (PList (map PDict (take ps (drop off (during a b H))))))"

definition keyed :: "obj list \<Rightarrow> (string, obj) dict" where
  "keyed xs = map (\<lambda>x. (activity_key x, x)) xs"

lemma keyed_append: "keyed (xs @ ys) = keyed xs @ keyed ys"
  by (simp add: keyed_def)

lemma keyed_simps [simp]: "keys (keyed xs) = map activity_key xs" "map snd (keyed xs) = xs" "length (keyed xs) = length xs"
  by (simp_all add: keyed_def comp_def)

text \<open>Two lists that agree second by second have the same elements and the same newest-first order.\<close>

definition same_seconds :: "obj list \<Rightarrow> obj list \<Rightarrow> bool" where
  "same_seconds xs ys \<longleftrightarrow> (\<forall>t. filter (\<lambda>x. item_time x = t) xs = filter (\<lambda>x. item_time x = t) ys)"

lemma same_seconds_refl [simp]: "same_seconds xs xs"
  by (simp add: same_seconds_def)

lemma same_seconds_trans: "same_seconds xs ys \<Longrightarrow> same_seconds ys zs \<Longrightarrow> same_seconds xs zs"
  by (simp add: same_seconds_def)

lemma same_seconds_append: "same_seconds xs ys \<Longrightarrow> same_seconds us vs \<Longrightarrow> same_seconds (xs @ us) (ys @ vs)"
  by (simp add: same_seconds_def)

lemma same_seconds_mset: "same_seconds xs ys \<Longrightarrow> mset xs = mset ys"
proof (rule multiset_eqI)
  fix x assume "same_seconds xs ys"
  then have "count (mset (filter (\<lambda>y. item_time y = item_time x) xs)) x = count (mset (filter (\<lambda>y. item_time y = item_time x) ys)) x"
    by (simp add: same_seconds_def)
  then show "count (mset xs) x = count (mset ys) x" by simp
qed

lemma same_seconds_newest: "same_seconds xs ys \<Longrightarrow> sorted (map (\<lambda>x. - item_time x) ys) \<Longrightarrow> newest_first xs = ys"
  unfolding newest_first_def
proof (rule properties_for_sort_key)
  assume s: "same_seconds xs ys"
  then show "mset ys = mset xs" by (simp add: same_seconds_mset)
  fix k show "filter (\<lambda>x. - item_time k = - item_time x) ys = filter (\<lambda>x. - item_time k = - item_time x) xs"
    using s by (simp add: same_seconds_def eq_commute[of "item_time k"])
qed

lemma filter_during:
  "filter (\<lambda>x. item_time x = t) (during a b H) = (if a \<le> t \<and> t \<le> b then filter (\<lambda>x. item_time x = t) H else [])"
proof (cases "a \<le> t \<and> t \<le> b")
  case True
  then show ?thesis by (auto simp: during_def intro!: filter_cong)
next
  case False
  then show ?thesis by (auto simp: during_def filter_empty_conv)
qed

lemma during_split:
  assumes "a \<le> b"
  shows "same_seconds (during a (a + (b - a) div 2) H @ during (a + (b - a) div 2 + 1) b H) (during a b H)"
proof -
  have "a \<le> a + (b - a) div 2" "a + (b - a) div 2 \<le> b" using assms by auto
  then show ?thesis by (auto simp: same_seconds_def filter_during)
qed

lemma during_ok: "history_ok H \<Longrightarrow> history_ok (during a b H)"
  by (auto simp: history_ok_def during_def sorted_filter distinct_map_filter list_all_iff)

section \<open>The window reader\<close>

lemma row_time_PInt: "row_time (PInt t) = Inr t"
  by (simp add: row_time_def)

text \<open>Rows inside the window are added to what was read; nothing else happens.\<close>

lemma window_row_inside:
  assumes "window_row a b p (PDict x) s = Inr s'" "a \<le> item_time x" "item_time x \<le> b" "is_int (oget x ''timestamp'')"
  shows "wr_items s' = wr_items s @ keyed [x] \<and> wr_reached s' = wr_reached s"
proof -
  obtain t where t: "oget x ''timestamp'' = PInt t" "item_time x = t" using assms(4) by (auto simp: is_int_def item_time_def)
  then have "\<not> has_key (wr_items s) (activity_key x)" "s' = s\<lparr> wr_previous := Some t, wr_keys := wr_keys s @ [activity_key x],
      wr_items := dset (activity_key x) x (wr_items s) \<rparr>"
    using assms(1-3) by (auto simp: window_row_def row_time_PInt Let_def split: if_splits)
  moreover have "dset k v d = d @ [(k, v)]" if "\<not> has_key d k" for k and v :: obj and d
    using that by (induction d) (auto simp: has_key_def split: if_splits)
  ultimately show ?thesis by (simp add: keyed_def)
qed

lemma window_rows_inside:
  assumes "rfold (window_row a b p) (map PDict xs) s = Inr s'"
    and "\<And>x. x \<in> set xs \<Longrightarrow> a \<le> item_time x \<and> item_time x \<le> b \<and> is_int (oget x ''timestamp'')"
  shows "wr_items s' = wr_items s @ keyed xs \<and> wr_reached s' = wr_reached s"
  using assms
proof (induction xs arbitrary: s)
  case (Cons x xs)
  then obtain s1 where s1: "window_row a b p (PDict x) s = Inr s1" "rfold (window_row a b p) (map PDict xs) s1 = Inr s'"
    by (auto simp: rbind_eq_Inr)
  show ?case
    using window_row_inside[OF s1(1)] Cons.IH[OF s1(2)] Cons.prems(2) by (simp add: keyed_def)
qed (simp add: keyed_def)

lemma history_ok_int: "history_ok H \<Longrightarrow> x \<in> set H \<Longrightarrow> is_int (oget x ''timestamp'')"
  by (cases "oget x ''timestamp''") (auto simp: history_ok_def list_all_iff split: pyval.splits)

lemma during_mem: "x \<in> set (during a b H) \<Longrightarrow> a \<le> item_time x \<and> item_time x \<le> b \<and> x \<in> set H"
  by (auto simp: during_def)

lemma window_page_Inr:
  assumes "window_page bounds collected w (PList rows) = Inr out"
  shows "\<exists>s. rfold (window_row (ws_start w) (ws_stop w) (ws_preceding w)) rows
        \<lparr> wr_items = ws_items w, wr_keys = [], wr_reached = False, wr_previous = None \<rparr> = Inr s
     \<and> out = (if length rows < pg_size bounds \<or> wr_reached s then Finished (wr_items s)
       else if pg_ceiling bounds < ws_offset w + pg_size bounds then Halve
       else NextPage (w\<lparr> ws_offset := ws_offset w + pg_size bounds, ws_items := wr_items s, ws_page := Some (wr_keys s),
          ws_preceding := (case wr_previous s of None \<Rightarrow> ws_preceding w | p \<Rightarrow> p) \<rparr>))"
  using assms unfolding window_page_def pyval.case by (auto simp: rbind_eq_Inr Let_def split: if_splits)

lemma window_page_outcome:
  assumes H: "history_ok H" and w: "ws_items w = keyed (take (ws_offset w) (during (ws_start w) (ws_stop w) H))"
    and size: "0 < pg_size bounds"
    and out: "window_page bounds collected w (PList (map PDict (take (pg_size bounds) (drop (ws_offset w) (during (ws_start w) (ws_stop w) H))))) = Inr out"
  shows "case out of
      Finished items \<Rightarrow> items = keyed (during (ws_start w) (ws_stop w) H)
    | NextPage w' \<Rightarrow> ws_start w' = ws_start w \<and> ws_stop w' = ws_stop w
        \<and> ws_items w' = keyed (take (ws_offset w') (during (ws_start w) (ws_stop w) H))
    | Halve \<Rightarrow> ws_start w \<le> ws_stop w"
proof -
  let ?W = "during (ws_start w) (ws_stop w) H"
  let ?rows = "take (pg_size bounds) (drop (ws_offset w) ?W)"
  obtain s where r: "rfold (window_row (ws_start w) (ws_stop w) (ws_preceding w)) (map PDict ?rows)
        \<lparr> wr_items = ws_items w, wr_keys = [], wr_reached = False, wr_previous = None \<rparr> = Inr s"
    and o: "out = (if length ?rows < pg_size bounds \<or> wr_reached s then Finished (wr_items s)
       else if pg_ceiling bounds < ws_offset w + pg_size bounds then Halve
       else NextPage (w\<lparr> ws_offset := ws_offset w + pg_size bounds, ws_items := wr_items s, ws_page := Some (wr_keys s),
          ws_preceding := (case wr_previous s of None \<Rightarrow> ws_preceding w | p \<Rightarrow> p) \<rparr>))"
    using window_page_Inr[OF out] by (auto simp only: length_map)
  have in_W: "x \<in> set ?W" if "x \<in> set ?rows" for x using that by (meson in_set_dropD in_set_takeD)
  have s: "wr_items s = ws_items w @ keyed ?rows" "\<not> wr_reached s"
    using window_rows_inside[OF r] in_W during_mem history_ok_int[OF H] by fastforce+
  have items: "wr_items s = keyed (take (ws_offset w + pg_size bounds) ?W)"
    by (simp add: s w take_add flip: keyed_append)
  show ?thesis
  proof (cases "length ?rows < pg_size bounds")
    case True
    then have "take (ws_offset w + pg_size bounds) ?W = ?W" by simp
    then show ?thesis using True items by (simp add: o)
  next
    case False
    then have "?W \<noteq> []" using size by auto
    then have "hd ?W \<in> set ?W" by simp
    then have "ws_start w \<le> ws_stop w" using during_mem by fastforce
    then show ?thesis using False items s(2) by (simp add: o)
  qed
qed

lemma dupdate_fresh: "distinct (keys (d @ e)) \<Longrightarrow> dupdate d e = d @ e"
proof (induction d e rule: dupdate.induct)
  case (2 d k v e)
  have "dset k v d = d @ [(k, v)]" if "k \<notin> set (keys d)" for d :: "('a, 'b) dict" using that by (induction d) auto
  with 2 show ?case by simp
qed simp

definition todo :: "obj list \<Rightarrow> (int \<times> int) list \<Rightarrow> obj list" where
  "todo H ws = concat (map (\<lambda>(a, b). during a b H) ws)"

lemma distinct_mset: "mset xs = mset ys \<Longrightarrow> distinct (map f xs) \<longleftrightarrow> distinct (map f ys)"
  by (metis mset_eq_imp_distinct_iff mset_map)

text \<open>What remains to be read, added to what was read, is the same history at every step.\<close>

lemma read_windows_complete:
  assumes H: "history_ok H" and serves: "serves_windows (pg_size bounds) H loader" and size: "0 < pg_size bounds"
  shows "read_windows bounds loader expired budget n w stack (keyed done') = Inr R
    \<Longrightarrow> ws_items w = keyed (take (ws_offset w) (during (ws_start w) (ws_stop w) H))
    \<Longrightarrow> distinct (map activity_key (done' @ todo H ((ws_start w, ws_stop w) # stack)))
    \<Longrightarrow> same_seconds (map snd R) (done' @ todo H ((ws_start w, ws_stop w) # stack))"
proof (induction budget arbitrary: n w stack done')
  case (Suc budget)
  let ?W = "during (ws_start w) (ws_stop w) H"
  obtain out where out: "window_page bounds (length done') w (PList (map PDict (take (pg_size bounds) (drop (ws_offset w) ?W)))) = Inr out"
    and cont: "(case out of
        Finished items \<Rightarrow> (case stack of
            [] \<Rightarrow> Inr (dupdate (keyed done') items)
          | (a, b) # stack' \<Rightarrow> read_windows bounds loader expired budget (Suc n) (fresh_window a b) stack' (dupdate (keyed done') items))
      | NextPage w' \<Rightarrow> read_windows bounds loader expired budget (Suc n) w' stack (keyed done')
      | Halve \<Rightarrow> let middle = ws_start w + (ws_stop w - ws_start w) div 2 in
          read_windows bounds loader expired budget (Suc n) (fresh_window (ws_start w) middle) ((middle + 1, ws_stop w) # stack) (keyed done'))
      = Inr R"
    using Suc.prems(1) serves by (auto simp: serves_windows_def rbind_eq_Inr split: if_splits)
  note outcome = window_page_outcome[OF H Suc.prems(2) size out]
  have fresh: "ws_items (fresh_window a b) = keyed (take (ws_offset (fresh_window a b)) X)" for a b X
    by (simp add: fresh_window_def keyed_def)
  have se: "ws_start (fresh_window a b) = a" "ws_stop (fresh_window a b) = b" for a b by (simp_all add: fresh_window_def)
  show ?case
  proof (cases out)
    case (Finished items)
    then have items: "items = keyed ?W" using outcome by simp
    then have d: "dupdate (keyed done') items = keyed (done' @ ?W)"
      using Suc.prems(3) by (subst dupdate_fresh) (auto simp: keyed_append todo_def)
    show ?thesis
    proof (cases stack)
      case Nil
      then show ?thesis using cont Finished d by (auto simp: todo_def)
    next
      case (Cons ab stack')
      obtain a b where ab: "ab = (a, b)" by fastforce
      show ?thesis
        using Suc.IH[of "Suc n" "fresh_window a b" stack' "done' @ ?W"] cont Suc.prems(3) fresh
        by (simp add: Finished d Cons ab se todo_def)
    qed
  next
    case (NextPage w')
    then show ?thesis using Suc.IH[of "Suc n" w' stack done'] cont outcome Suc.prems(3) by simp
  next
    case Halve
    let ?m = "ws_start w + (ws_stop w - ws_start w) div 2"
    have split: "same_seconds (done' @ todo H ((ws_start w, ?m) # (?m + 1, ws_stop w) # stack))
        (done' @ todo H ((ws_start w, ws_stop w) # stack))"
      using same_seconds_append[OF same_seconds_refl[of done'] same_seconds_append[OF during_split same_seconds_refl]] outcome Halve
      by (simp add: todo_def)
    then have "distinct (map activity_key (done' @ todo H ((ws_start w, ?m) # (?m + 1, ws_stop w) # stack)))"
      using Suc.prems(3) distinct_mset[OF same_seconds_mset[OF split]] by blast
    then have "same_seconds (map snd R) (done' @ todo H ((ws_start w, ?m) # (?m + 1, ws_stop w) # stack))"
      using Suc.IH[of "Suc n" "fresh_window (ws_start w) ?m" "(?m + 1, ws_stop w) # stack" done'] cont fresh
      by (simp add: Halve Let_def se)
    then show ?thesis using split same_seconds_trans by blast
  qed
qed simp

lemma collect_polymarket_activity_complete:
  assumes "collect_polymarket_activity loader expired since latest page_size maximum_items maximum_requests offset_ceiling = Inr items"
    and "history_ok H" "serves_windows (max 1 (min page_size 500)) H loader"
  shows "items = during (max 1 since) latest H"
proof -
  let ?w = "fresh_window (max 1 since) latest" and ?D = "during (max 1 since) latest H"
  obtain R where R: "read_windows \<lparr> pg_size = max 1 (min page_size 500), pg_maximum = maximum_items, pg_ceiling = offset_ceiling \<rparr>
      loader expired maximum_requests 0 ?w [] (keyed []) = Inr R" and items: "items = newest_first (map snd R)"
    using assms(1) by (auto simp: collect_polymarket_activity_def Let_def rbind_eq_Inr keyed_def split: if_splits)
  have "history_ok ?D" using assms(2) by (rule during_ok)
  then have D: "distinct (map activity_key ?D)" "sorted (map (\<lambda>x. - item_time x) ?D)" by (simp_all add: history_ok_def)
  have "same_seconds (map snd R) ([] @ todo H ((ws_start ?w, ws_stop ?w) # []))"
    using assms(2,3) D by (intro read_windows_complete[OF _ _ _ R]) (simp_all add: fresh_window_def keyed_def todo_def)
  then have "same_seconds (map snd R) ?D" by (simp add: todo_def fresh_window_def)
  then show ?thesis using same_seconds_newest[OF _ D(2)] by (simp add: items)
qed

subsection \<open>It ends with a result\<close>

definition not_after :: "int option \<Rightarrow> obj list \<Rightarrow> bool" where
  "not_after p xs \<longleftrightarrow> (case p of None \<Rightarrow> True | Some t \<Rightarrow> \<forall>x \<in> set xs. item_time x \<le> t)"

lemma window_rows_accept:
  assumes "history_ok xs" "\<And>x. x \<in> set xs \<Longrightarrow> a \<le> item_time x \<and> item_time x \<le> b"
    and "set (map activity_key xs) \<inter> set (wr_keys s) = {}" "set (map activity_key xs) \<inter> set (keys (wr_items s)) = {}"
    and "not_after (case wr_previous s of None \<Rightarrow> p | q \<Rightarrow> q) xs"
  shows "\<exists>s'. rfold (window_row a b p) (map PDict xs) s = Inr s' \<and> wr_keys s' = wr_keys s @ map activity_key xs
     \<and> wr_previous s' = (if xs = [] then wr_previous s else Some (item_time (last xs)))"
  using assms
proof (induction xs arbitrary: s)
  case (Cons x xs)
  obtain t where t: "oget x ''timestamp'' = PInt t" "item_time x = t" "0 \<le> t"
    using Cons.prems(1) by (cases "oget x ''timestamp''") (auto simp: history_ok_def item_time_def)
  let ?s = "s\<lparr> wr_previous := Some t, wr_keys := wr_keys s @ [activity_key x], wr_items := dset (activity_key x) x (wr_items s) \<rparr>"
  have order: "\<not> (t < 0 \<or> (case wr_previous s of Some q \<Rightarrow> q < t | None \<Rightarrow> (case p of Some q \<Rightarrow> q < t | None \<Rightarrow> False)))"
    using Cons.prems(5) t by (auto simp: not_after_def split: option.splits)
  have fresh: "activity_key x \<notin> set (wr_keys s)" "\<not> has_key (wr_items s) (activity_key x)"
    using Cons.prems(3,4) by (auto simp: has_key_iff)
  have "window_row a b p (PDict x) s = Inr ?s"
    using Cons.prems(2)[of x] t(1,2) order fresh by (simp add: window_row_def row_time_PInt Let_def)
  moreover have "\<exists>s'. rfold (window_row a b p) (map PDict xs) ?s = Inr s' \<and> wr_keys s' = wr_keys ?s @ map activity_key xs
     \<and> wr_previous s' = (if xs = [] then wr_previous ?s else Some (item_time (last xs)))"
  proof (rule Cons.IH)
    show "history_ok xs" using Cons.prems(1) by (simp add: history_ok_def)
    show "not_after (case wr_previous ?s of None \<Rightarrow> p | q \<Rightarrow> q) xs"
      using Cons.prems(1) t(2) by (auto simp: not_after_def history_ok_def)
    have "activity_key x \<notin> set (map activity_key xs)" using Cons.prems(1) by (simp add: history_ok_def)
    then show "set (map activity_key xs) \<inter> set (wr_keys ?s) = {}" "set (map activity_key xs) \<inter> set (keys (wr_items ?s)) = {}"
      using Cons.prems(3,4) by (auto simp: keys_dset simp del: set_map)
  qed (use Cons.prems(2) in auto)
  ultimately show ?case using t(2) by auto
qed simp

text \<open>A page in the middle of a window, after pages that left their trace in the state.\<close>

definition window_at :: "obj list \<Rightarrow> window_state \<Rightarrow> bool" where
  "window_at W w \<longleftrightarrow> ws_items w = keyed (take (ws_offset w) W)
     \<and> (case ws_page w of None \<Rightarrow> True | Some ks \<Rightarrow> set ks \<subseteq> activity_key ` set (take (ws_offset w) W))
     \<and> not_after (ws_preceding w) (drop (ws_offset w) W)"

lemma history_ok_drop: "history_ok H \<Longrightarrow> history_ok (take n (drop m H))"
  by (auto simp: history_ok_def list_all_iff sorted_wrt_drop sorted_wrt_take simp flip: take_map drop_map dest: in_set_takeD in_set_dropD)

lemma window_page_accepts:
  assumes W: "history_ok W" "\<And>x. x \<in> set W \<Longrightarrow> ws_start w \<le> item_time x \<and> item_time x \<le> ws_stop w"
    and w: "window_at W w" and fits: "length W + collected \<le> pg_maximum bounds"
    and ceil: "ws_offset w + pg_size bounds \<le> pg_ceiling bounds" and size: "0 < pg_size bounds"
  defines "rows \<equiv> take (pg_size bounds) (drop (ws_offset w) W)"
  shows "if length rows < pg_size bounds
    then window_page bounds collected w (PList (map PDict rows)) = Inr (Finished (keyed W))
    else \<exists>w'. window_page bounds collected w (PList (map PDict rows)) = Inr (NextPage w') \<and> window_at W w'
       \<and> ws_start w' = ws_start w \<and> ws_stop w' = ws_stop w \<and> ws_offset w' = ws_offset w + pg_size bounds"
proof -
  let ?o = "ws_offset w" and ?p = "pg_size bounds"
  let ?s = "\<lparr> wr_items = ws_items w, wr_keys = [], wr_reached = False, wr_previous = None \<rparr>"
  have W_split: "W = take ?o W @ rows @ drop (?o + ?p) W"
    unfolding rows_def by (metis append.assoc append_take_drop_id take_add)
  have upto: "take (?o + ?p) W = take ?o W @ rows" by (simp add: rows_def take_add)
  have in_W: "x \<in> set W" if "x \<in> set rows" for x using that unfolding rows_def by (meson in_set_dropD in_set_takeD)
  have rows_ok: "history_ok rows" unfolding rows_def by (rule history_ok_drop[OF W(1)])
  have "distinct (map activity_key (take ?o W @ rows @ drop (?o + ?p) W))" using W(1) W_split by (simp add: history_ok_def)
  then have disj: "set (map activity_key rows) \<inter> set (map activity_key (take ?o W)) = {}" by auto
  have "sorted (map (\<lambda>x. - item_time x) (take ?o W @ rows @ drop (?o + ?p) W))" using W(1) W_split by (simp add: history_ok_def)
  then have later: "item_time y \<le> item_time x" if "x \<in> set rows" "y \<in> set (drop (?o + ?p) W)" for x y
    using that by (auto simp: sorted_append)
  have "set rows \<subseteq> set (drop ?o W)" unfolding rows_def by (rule set_take_subset)
  then have "not_after (ws_preceding w) rows"
    using w by (cases "ws_preceding w") (auto simp: window_at_def not_after_def)
  then obtain s where s: "rfold (window_row (ws_start w) (ws_stop w) (ws_preceding w)) (map PDict rows) ?s = Inr s"
      "wr_keys s = map activity_key rows" "wr_previous s = (if rows = [] then None else Some (item_time (last rows)))"
    using window_rows_accept[of rows "ws_start w" "ws_stop w" ?s "ws_preceding w"] rows_ok W(2) in_W disj w
    by (auto simp: window_at_def simp del: set_map)
  have items: "wr_items s = keyed (take (?o + ?p) W)" "\<not> wr_reached s"
    using window_rows_inside[OF s(1)] W(2) in_W history_ok_int[OF rows_ok] w
    by (auto simp: window_at_def upto keyed_append)
  have not_repeated: "\<not> (map PDict rows \<noteq> [] \<and> Some (wr_keys s) = ws_page w)"
  proof
    assume r: "map PDict rows \<noteq> [] \<and> Some (wr_keys s) = ws_page w"
    then have "activity_key (hd rows) \<in> set (wr_keys s)" by (simp add: s(2))
    moreover have "set (wr_keys s) \<subseteq> activity_key ` set (take ?o W)"
      using w r by (auto simp: window_at_def split: option.splits)
    ultimately have "activity_key (hd rows) \<in> activity_key ` set (take ?o W)" by blast
    moreover have "activity_key (hd rows) \<in> set (map activity_key rows)" using r by simp
    ultimately show False using disj by auto
  qed
  have capacity: "\<not> pg_maximum bounds < length (wr_items s) + collected" using fits by (simp add: items)
  have short: "\<not> ?p < length (map PDict rows)" by (simp add: rows_def)
  have page: "window_page bounds collected w (PList (map PDict rows)) = (if length rows < ?p then Inr (Finished (wr_items s))
      else Inr (NextPage (w\<lparr> ws_offset := ?o + ?p, ws_items := wr_items s, ws_page := Some (wr_keys s),
        ws_preceding := (case wr_previous s of None \<Rightarrow> ws_preceding w | p \<Rightarrow> p) \<rparr>)))"
    using ceil not_repeated by (auto simp: window_page_def short s(1) capacity items(2) simp del: length_map) auto
  show ?thesis
  proof (cases "length rows < ?p")
    case True
    then have "take (?o + ?p) W = W" by (simp add: rows_def)
    then show ?thesis using True by (simp add: page items)
  next
    case False
    then have "rows \<noteq> []" using size by auto
    then have "window_at W (w\<lparr> ws_offset := ?o + ?p, ws_items := wr_items s, ws_page := Some (wr_keys s),
        ws_preceding := (case wr_previous s of None \<Rightarrow> ws_preceding w | p \<Rightarrow> p) \<rparr>)"
      using later[OF last_in_set] by (auto simp: window_at_def items s upto not_after_def)
    then show ?thesis using False by (simp add: page)
  qed
qed

lemma read_windows_ends:
  assumes serves: "serves_windows (pg_size bounds) H loader" and H: "history_ok H" and size: "0 < pg_size bounds"
    and clock: "\<And>k. \<not> expired k"
  shows "window_at (during (ws_start w) (ws_stop w) H) w \<Longrightarrow> length (during (ws_start w) (ws_stop w) H) \<le> pg_maximum bounds
    \<Longrightarrow> length (during (ws_start w) (ws_stop w) H) + pg_size bounds \<le> pg_ceiling bounds
    \<Longrightarrow> length (during (ws_start w) (ws_stop w) H) < ws_offset w + budget * pg_size bounds
    \<Longrightarrow> ws_offset w \<le> length (during (ws_start w) (ws_stop w) H)
    \<Longrightarrow> read_windows bounds loader expired budget n w [] [] = Inr (keyed (during (ws_start w) (ws_stop w) H))"
proof (induction budget arbitrary: n w)
  case (Suc budget)
  let ?W = "during (ws_start w) (ws_stop w) H"
  let ?rows = "take (pg_size bounds) (drop (ws_offset w) ?W)"
  have page: "loader n (ws_start w) (ws_stop w) (ws_offset w) = Inr (PList (map PDict ?rows))"
    using serves by (simp add: serves_windows_def)
  have inside: "\<And>x. x \<in> set ?W \<Longrightarrow> ws_start w \<le> item_time x \<and> item_time x \<le> ws_stop w" using during_mem by blast
  have fits: "length ?W + 0 \<le> pg_maximum bounds" using Suc.prems(2) by simp
  have ceil: "ws_offset w + pg_size bounds \<le> pg_ceiling bounds" using Suc.prems(3,5) by simp
  note accepts = window_page_accepts[OF during_ok[OF H] inside Suc.prems(1) fits ceil size]
  show ?case
  proof (cases "length ?rows < pg_size bounds")
    case True
    then have "window_page bounds 0 w (PList (map PDict ?rows)) = Inr (Finished (keyed ?W))"
      using accepts by (simp only: if_True)
    then show ?thesis using dupdate_fresh[of "[]" "keyed ?W"] during_ok[OF H]
      by (simp add: clock page history_ok_def)
  next
    case False
    then obtain w' where w': "window_page bounds 0 w (PList (map PDict ?rows)) = Inr (NextPage w')" "window_at ?W w'"
      "ws_start w' = ws_start w" "ws_stop w' = ws_stop w" "ws_offset w' = ws_offset w + pg_size bounds"
      using accepts by (simp only: if_False) blast
    have "ws_offset w' \<le> length ?W" using False size by (simp add: w'(5))
    then show ?thesis using Suc.IH[of w' "Suc n"] w' Suc.prems(2,3,4) by (simp add: clock page)
  qed
qed simp

lemma read_fresh_window_ends:
  assumes "history_ok H" "serves_windows ps H loader" "0 < ps" "\<And>k. \<not> expired k" "length (during a b H) \<le> maximum"
    and "length (during a b H) + ps \<le> ceil" "length (during a b H) < budget * ps"
  shows "read_windows \<lparr> pg_size = ps, pg_maximum = maximum, pg_ceiling = ceil \<rparr> loader expired budget n (fresh_window a b) [] []
    = Inr (keyed (during a b H))"
  using read_windows_ends[where bounds = "\<lparr> pg_size = ps, pg_maximum = maximum, pg_ceiling = ceil \<rparr>" and w = "fresh_window a b"
      and H = H and loader = loader and expired = expired and n = n and budget = budget, simplified fresh_window_def page_limits.simps window_state.simps] assms
  by (simp add: fresh_window_def window_at_def keyed_def not_after_def)

lemma collect_polymarket_activity_ends:
  assumes "history_ok H" "serves_windows (max 1 (min page_size 500)) H loader" "\<And>k. \<not> expired k" "max 1 since \<le> latest"
    and "length (during (max 1 since) latest H) \<le> maximum_items"
    and "length (during (max 1 since) latest H) + max 1 (min page_size 500) \<le> offset_ceiling"
    and "length (during (max 1 since) latest H) < maximum_requests * max 1 (min page_size 500)"
  shows "collect_polymarket_activity loader expired since latest page_size maximum_items maximum_requests offset_ceiling
    = Inr (during (max 1 since) latest H)"
proof -
  let ?D = "during (max 1 since) latest H"
  have "sorted (map (\<lambda>x. - item_time x) ?D)" using during_ok[OF assms(1)] by (simp add: history_ok_def)
  then have newest: "newest_first ?D = ?D" unfolding newest_first_def by (rule sort_key_id_if_sorted)
  have size: "0 < max (1::nat) (min page_size 500)" by simp
  show ?thesis
    unfolding collect_polymarket_activity_def Let_def
    using assms(4) newest
    by (simp only: read_fresh_window_ends[OF assms(1,2) size assms(3,5,6,7)] rbind_Inr keyed_simps linorder_not_less[symmetric] if_False simp_thms)
qed


section \<open>The cursor reader\<close>

text \<open>The rows of a feed from a cursor on, page after page, to a page that says it is the last.\<close>

inductive feed_rows_from :: "nat \<Rightarrow> cursor_loader \<Rightarrow> nat \<Rightarrow> string option \<Rightarrow> obj list \<Rightarrow> bool" where
  last_page: "loader n c = Inr payload \<Longrightarrow> v2_envelope requested payload = Inr page \<Longrightarrow> v2_next page = None
     \<Longrightarrow> v2_rows page = map PDict rows \<Longrightarrow> feed_rows_from requested loader n c rows"
| next_page: "loader n c = Inr payload \<Longrightarrow> v2_envelope requested payload = Inr page \<Longrightarrow> v2_next page = Some c'
     \<Longrightarrow> v2_rows page = map PDict rows \<Longrightarrow> feed_rows_from requested loader (Suc n) (Some c') rest
     \<Longrightarrow> feed_rows_from requested loader n c (rows @ rest)"

definition v2_read_ok :: "v2_query \<Rightarrow> v2_read \<Rightarrow> bool" where
  "v2_read_ok q s \<longleftrightarrow> v2_identities s = rev (map activity_key (v2_results s)) \<and> distinct (map activity_key (v2_results s))
     \<and> sorted (map (\<lambda>x. - item_time x) (v2_results s)) \<and> length (v2_results s) \<le> q_maximum q
     \<and> (\<forall>x \<in> set (v2_results s). q_lower q \<le> item_time x \<and> item_time x \<le> q_upper q)
     \<and> (case v2_previous s of None \<Rightarrow> v2_results s = [] | Some t \<Rightarrow> (\<forall>x \<in> set (v2_results s). t \<le> item_time x))"

lemma v2_row_ok:
  assumes "v2_row (q_lower q) (q_upper q) (q_maximum q) v s = Inr s'" "v2_read_ok q s"
  shows "\<exists>x. v = PDict x \<and> v2_results s' = v2_results s @ [x] \<and> v2_read_ok q s'"
proof -
  obtain x t where x: "v = PDict x" "oget x ''timestamp'' = PInt t" "item_time x = t" "q_lower q \<le> t" "t \<le> q_upper q"
    and p: "\<not> (case v2_previous s of Some p \<Rightarrow> p < t | None \<Rightarrow> False)"
    and s': "activity_key x \<notin> set (v2_identities s)" "Suc (length (v2_results s)) \<le> q_maximum q"
      "s' = \<lparr> v2_results = v2_results s @ [x], v2_identities = activity_key x # v2_identities s, v2_previous = Some t \<rparr>"
    using assms(1) by (auto simp: v2_row_def Let_def item_time_def split: pyval.splits if_splits)
  have "t \<le> item_time y" if "y \<in> set (v2_results s)" for y
    using p that assms(2) by (auto simp: v2_read_ok_def split: option.splits)
  then show ?thesis using x s' assms(2) by (auto simp: v2_read_ok_def sorted_append)
qed

lemma v2_rows_ok:
  assumes "rfold (v2_row (q_lower q) (q_upper q) (q_maximum q)) vs s = Inr s'" "v2_read_ok q s"
  shows "\<exists>rows. vs = map PDict rows \<and> v2_results s' = v2_results s @ rows \<and> v2_read_ok q s'"
  using assms
proof (induction vs arbitrary: s)
  case (Cons v vs)
  then obtain s1 where s1: "v2_row (q_lower q) (q_upper q) (q_maximum q) v s = Inr s1"
    "rfold (v2_row (q_lower q) (q_upper q) (q_maximum q)) vs s1 = Inr s'" by (auto simp: rbind_eq_Inr)
  obtain x where x: "v = PDict x" "v2_results s1 = v2_results s @ [x]" "v2_read_ok q s1"
    using v2_row_ok[OF s1(1) Cons.prems(2)] by blast
  obtain rows where "vs = map PDict rows" "v2_results s' = v2_results s1 @ rows" "v2_read_ok q s'"
    using Cons.IH[OF s1(2) x(3)] by blast
  then show ?case using x by (intro exI[of _ "x # rows"]) simp
qed simp

lemma read_cursors_complete:
  "read_cursors q loader expired budget n cursor visited s = Inr items \<Longrightarrow> v2_read_ok q s
     \<Longrightarrow> \<exists>rows s'. feed_rows_from (q_size q) loader n cursor rows \<and> items = v2_results s @ rows
        \<and> v2_results s' = items \<and> v2_read_ok q s'"
proof (induction budget arbitrary: n cursor visited s)
  case (Suc budget)
  obtain payload page s1 where p: "loader n cursor = Inr payload" "v2_envelope (q_size q) payload = Inr page"
      "rfold (v2_row (q_lower q) (q_upper q) (q_maximum q)) (v2_rows page) s = Inr s1"
    and cont: "(case v2_next page of None \<Rightarrow> Inr (v2_results s1)
      | Some c \<Rightarrow> if c \<in> set visited then incomplete ''Wallet activity v2 cursor repeated''
          else read_cursors q loader expired budget (Suc n) (Some c) (c # visited) s1) = Inr items"
    using Suc.prems(1) by (auto simp: rbind_eq_Inr split: if_splits)
  obtain rows where rows: "v2_rows page = map PDict rows" "v2_results s1 = v2_results s @ rows" "v2_read_ok q s1"
    using v2_rows_ok[OF p(3) Suc.prems(2)] by blast
  show ?case
  proof (cases "v2_next page")
    case None
    then show ?thesis using last_page[where loader = loader, OF p(1,2) None rows(1)] rows cont by auto
  next
    case (Some c)
    then have "read_cursors q loader expired budget (Suc n) (Some c) (c # visited) s1 = Inr items"
      using cont by (auto split: if_splits)
    then obtain rest s' where r: "feed_rows_from (q_size q) loader (Suc n) (Some c) rest" "items = v2_results s1 @ rest"
      "v2_results s' = items" "v2_read_ok q s'" using Suc.IH rows(3) by blast
    then show ?thesis using next_page[where loader = loader, OF p(1,2) Some rows(1) r(1)] rows(2) by fastforce
  qed
qed simp

section \<open>The recent reader\<close>

definition serves_recent :: "obj list \<Rightarrow> recent_loader \<Rightarrow> bool" where
  "serves_recent H loader \<longleftrightarrow> (\<forall>n k. loader n k = Inr \<lparr> fp_rows = PList (map PDict (take k H)), fp_complete = None, fp_contiguous = None \<rparr>)"

lemma feed_rows_Inr:
  "feed_rows requested latest (PList (map PDict xs)) = Inr items \<Longrightarrow> items = xs \<and> distinct (map activity_key xs)"
  by (auto simp: feed_rows_def Let_def comp_def split: if_splits)

lemma newest_first_same: "sorted (map (\<lambda>x. - item_time x) xs) \<Longrightarrow> newest_first xs = xs"
  by (simp add: newest_first_def)

lemma read_recent_covers:
  assumes H: "history_ok H" and serves: "serves_recent H loader"
  shows "read_recent loader expired since latest n requested previous = Inr items
    \<Longrightarrow> \<exists>k. items = take k H \<and> (\<forall>x \<in> set H. since \<le> item_time x \<longrightarrow> x \<in> set items)"
proof (induction requested arbitrary: n previous rule: measure_induct_rule[where f = "\<lambda>r. 5000 - r"])
  case (less requested)
  define xs where "xs = take requested H"
  have sorted_H: "sorted (map (\<lambda>x. - item_time x) H)" using H by (simp add: history_ok_def)
  then have sorted_xs: "sorted (map (\<lambda>x. - item_time x) xs)" using sorted_wrt_take[of "(\<le>)" "map (\<lambda>x. - item_time x) H" requested] by (simp add: take_map xs_def)
  have page: "loader n requested = Inr \<lparr> fp_rows = PList (map PDict xs), fp_complete = None, fp_contiguous = None \<rparr>"
    using serves by (simp add: serves_recent_def xs_def)
  obtain its where rows: "feed_rows requested latest (PList (map PDict xs)) = Inr its"
    using less.prems by (subst (asm) read_recent.simps) (auto simp: page rbind_eq_Inr split: if_splits)
  have its: "its = xs" using feed_rows_Inr[OF rows] by simp
  let ?page = "\<lparr> fp_rows = PList (map PDict xs), fp_complete = None, fp_contiguous = None \<rparr>"
  have step: "(if covers requested since ?page xs then Inr (newest_first xs)
      else if 5000 \<le> requested \<or> requested = 0 \<or> previous = Some (map activity_key xs)
      then raise ActivityHistoryIncompleteError ''Recent wallet feed does not cover the saved cursor; backfill/reconcile before advancing.''
      else read_recent loader expired since latest (Suc n) (min (requested * 2) 5000) (Some (map activity_key xs))) = Inr items"
    using less.prems rows its
    by (subst (asm) read_recent.simps) (auto simp: page split: if_splits simp del: read_recent.simps)
  show ?case
  proof (cases "covers requested since ?page xs")
    case True
    then have items: "items = xs" using step newest_first_same[OF sorted_xs] by simp
    have "x \<in> set xs" if x: "x \<in> set H" "since \<le> item_time x" for x
    proof (rule ccontr)
      assume "x \<notin> set xs"
      then have d: "x \<in> set (drop requested H)" using x(1) unfolding xs_def by (metis UnE append_take_drop_id set_append)
      then have "length xs = requested" by (cases "requested \<le> length H") (auto simp: xs_def)
      then have "xs \<noteq> []" "Min (item_time ` set xs) < since" using True by (auto simp: covers_def)
      then obtain y where y: "y \<in> set xs" "item_time y < since" by (auto simp: Min_less_iff)
      have "sorted (map (\<lambda>x. - item_time x) (xs @ drop requested H))" using sorted_H by (simp add: xs_def)
      then have "- item_time y \<le> - item_time x" using y(1) d by (auto simp only: map_append sorted_append set_map)
      with y(2) x(2) show False by simp
    qed
    then show ?thesis using items xs_def by blast
  next
    case False
    then have "read_recent loader expired since latest (Suc n) (min (requested * 2) 5000) (Some (map activity_key xs)) = Inr items"
      "requested < 5000" "requested \<noteq> 0"
      using step by (auto split: if_splits simp del: read_recent.simps)
    then show ?thesis using less.IH[of "min (requested * 2) 5000"] by (auto simp del: read_recent.simps)
  qed
qed

end
