(* ===== verification/Web_Polling_Laws.thy ===== *)
theory Web_Polling_Laws
  imports Web_Poll_Route Activity_Feed_Laws
begin

text \<open>
  What a poll delivers. A reader returns a history in order and without repetition; a scan finds the
  fills the cursor has not consumed; the delivery consumes, wallet by wallet, the oldest of them; a
  second scan of the same history finds exactly the fills that are left.
\<close>

section \<open>What the readers return\<close>

lemma v2_rows_int:
  assumes "rfold (v2_row a b m) vs s = Inr s'" "\<And>x. x \<in> set (v2_results s) \<Longrightarrow> is_int (oget x ''timestamp'')"
  shows "x \<in> set (v2_results s') \<Longrightarrow> is_int (oget x ''timestamp'')"
  using assms
proof (induction vs arbitrary: s)
  case (Cons v vs)
  then obtain s1 where s1: "v2_row a b m v s = Inr s1" "rfold (v2_row a b m) vs s1 = Inr s'" by (auto simp: rbind_eq_Inr)
  have "y \<in> set (v2_results s1) \<Longrightarrow> is_int (oget y ''timestamp'')" for y
    using s1(1) Cons.prems(3) by (auto simp: v2_row_def Let_def split: pyval.splits if_splits)
  then show ?case using Cons.IH[OF Cons.prems(1) s1(2)] by blast
qed simp

lemma read_cursors_int:
  "read_cursors q loader expired budget n cursor visited s = Inr items
    \<Longrightarrow> (\<And>x. x \<in> set (v2_results s) \<Longrightarrow> is_int (oget x ''timestamp''))
    \<Longrightarrow> x \<in> set items \<Longrightarrow> is_int (oget x ''timestamp'')"
proof (induction budget arbitrary: n cursor visited s)
  case (Suc budget)
  obtain page :: v2_page and s1 where p: "rfold (v2_row (q_lower q) (q_upper q) (q_maximum q)) (v2_rows page) s = Inr s1"
    and cont: "(case v2_next page of None \<Rightarrow> Inr (v2_results s1)
      | Some c \<Rightarrow> if c \<in> set visited then incomplete ''Wallet activity v2 cursor repeated''
          else read_cursors q loader expired budget (Suc n) (Some c) (c # visited) s1) = Inr items"
    using Suc.prems(1) unfolding read_cursors.simps by (elim if_error_InrE rbind_InrE) blast
  have s1: "y \<in> set (v2_results s1) \<Longrightarrow> is_int (oget y ''timestamp'')" for y
    using v2_rows_int[OF p] Suc.prems(2) by blast
  show ?case
  proof (cases "v2_next page")
    case None
    then show ?thesis using cont s1 Suc.prems(3) by simp
  next
    case (Some c)
    then have "read_cursors q loader expired budget (Suc n) (Some c) (c # visited) s1 = Inr items"
      using cont by (auto split: if_splits)
    then show ?thesis using Suc.IH s1 Suc.prems(3) by blast
  qed
qed simp

text \<open>Newest first, one identity per fill, integer times.\<close>

definition fills_ok :: "obj list \<Rightarrow> bool" where
  "fills_ok items \<longleftrightarrow> sorted (map (\<lambda>x. - item_time x) items) \<and> distinct (map activity_key items)
     \<and> (\<forall>x \<in> set items. is_int (oget x ''timestamp''))"

lemma collect_v2_ok:
  assumes "collect_polymarket_activity_v2 loader expired since latest page_size maximum_items maximum_requests = Inr items"
  shows "fills_ok items"
proof -
  let ?q = "\<lparr> q_lower = max 1 since, q_upper = latest, q_size = max 1 (min page_size 1000), q_maximum = maximum_items \<rparr>"
  have r: "read_cursors ?q loader expired maximum_requests 0 None [] v2_start = Inr items"
    using assms by (auto simp: collect_polymarket_activity_v2_def Let_def split: if_splits)
  have start: "v2_read_ok ?q v2_start" by (simp add: v2_read_ok_def v2_start_def)
  obtain s' where "v2_results s' = items" "v2_read_ok ?q s'" using read_cursors_complete[OF r start] by blast
  moreover have "\<And>x. x \<in> set items \<Longrightarrow> is_int (oget x ''timestamp'')"
    using read_cursors_int[OF r] by (simp add: v2_start_def)
  ultimately show ?thesis by (simp add: fills_ok_def v2_read_ok_def)
qed

lemma time_case_int: "\<not> (case v of PInt t \<Rightarrow> P t | _ \<Rightarrow> True) \<Longrightarrow> is_int v"
  by (cases v) simp_all

lemma feed_rows_ok: "feed_rows requested latest v = Inr items
    \<Longrightarrow> distinct (map activity_key items) \<and> (\<forall>x \<in> set items. is_int (oget x ''timestamp''))"
proof -
  assume r: "feed_rows requested latest v = Inr items"
  then have "distinct (map activity_key items)" "\<forall>x \<in> set items. \<not> (case oget x ''timestamp'' of PInt t \<Rightarrow> \<not> (0 < t \<and> t \<le> latest) | _ \<Rightarrow> True)"
    by (cases v; auto simp: feed_rows_def Let_def list_ex_iff comp_def split: if_splits)+
  then show ?thesis using time_case_int[where P = "\<lambda>t. \<not> (0 < t \<and> t \<le> latest)"] by blast
qed

lemma newest_first_ok: "distinct (map activity_key xs) \<Longrightarrow> \<forall>x \<in> set xs. is_int (oget x ''timestamp'') \<Longrightarrow> fills_ok (newest_first xs)"
  by (simp add: fills_ok_def newest_first_def distinct_map)

lemma read_recent_ok:
  "read_recent loader expired since latest n requested previous = Inr items \<Longrightarrow> fills_ok items"
proof (induction requested arbitrary: n previous rule: measure_induct_rule[where f = "\<lambda>r. 5000 - r"])
  case (less requested)
  obtain page :: feed_page and its where rows: "feed_rows requested latest (fp_rows page) = Inr its"
    and step: "(if covers requested since page its then Inr (newest_first its)
      else if 5000 \<le> requested \<or> requested = 0 \<or> previous = Some (map activity_key its)
      then raise ActivityHistoryIncompleteError ''Recent wallet feed does not cover the saved cursor; backfill/reconcile before advancing.''
      else read_recent loader expired since latest (Suc n) (min (requested * 2) 5000) (Some (map activity_key its))) = Inr items"
    using less.prems by (subst (asm) read_recent.simps) (auto simp: rbind_eq_Inr split: if_splits simp del: read_recent.simps)
  show ?case
  proof (cases "covers requested since page its")
    case True
    then show ?thesis using step newest_first_ok feed_rows_ok[OF rows] by auto
  next
    case False
    then have "read_recent loader expired since latest (Suc n) (min (requested * 2) 5000) (Some (map activity_key its)) = Inr items"
      "requested < 5000" "requested \<noteq> 0"
      using step by (auto split: if_splits simp del: read_recent.simps)
    then show ?thesis using less.IH[of "min (requested * 2) 5000"] by (auto simp del: read_recent.simps)
  qed
qed

lemma read_wallet_ok: "read_wallet feeds page_size so_far i since = Inr items \<Longrightarrow> fills_ok items"
  using read_recent_ok collect_v2_ok
  by (auto simp: read_wallet_def collect_adapter_activity_def rbind_eq_Inr split: option.splits if_splits simp del: read_recent.simps)

section \<open>Cursors over a list of fills\<close>

definition new_candidate :: "nat \<Rightarrow> obj \<Rightarrow> candidate" where
  "new_candidate i x = \<lparr> cd_timestamp = item_time x, cd_wallet = i, cd_key = activity_key x, cd_item = x \<rparr>"

text \<open>The fills of a history that a cursor has not consumed, oldest first.\<close>

definition new_fills :: "cursor \<Rightarrow> obj list \<Rightarrow> obj list" where
  "new_fills c items = filter (\<lambda>x. \<not> consumed c (activity_key x) (item_time x)) (rev items)"

definition consume_fills :: "obj list \<Rightarrow> cursor \<Rightarrow> cursor res" where
  "consume_fills xs c = rfold (\<lambda>x c. advanced_cursor c x (item_time x) (activity_key x)) xs c"

lemma consume_fills_simps [simp]:
  "consume_fills [] c = Inr c"
  "consume_fills (x # xs) c = rbind (advanced_cursor c x (item_time x) (activity_key x)) (consume_fills xs)"
  by (simp_all add: consume_fills_def[abs_def])

lemma consume_fills_append: "consume_fills (xs @ ys) c = rbind (consume_fills xs c) (consume_fills ys)"
  unfolding consume_fills_def by (rule rfold_append)

lemma consume_fills_ok: "consume_fills xs c = Inr c' \<Longrightarrow> cursor_ok c \<Longrightarrow> cursor_ok c'"
proof (induction xs arbitrary: c)
  case (Cons x xs)
  then show ?case using advanced_cursor_ok by (auto simp: rbind_eq_Inr)
qed simp

lemma consume_fills_kept:
  "consume_fills xs c = Inr c' \<Longrightarrow> cursor_ok c \<Longrightarrow> consumed c k u \<Longrightarrow> agrees c k u
    \<Longrightarrow> (\<And>x. x \<in> set xs \<Longrightarrow> activity_key x = k \<Longrightarrow> item_time x = u) \<Longrightarrow> consumed c' k u \<and> agrees c' k u"
proof (induction xs arbitrary: c)
  case (Cons x xs)
  obtain c1 where c1: "advanced_cursor c x (item_time x) (activity_key x) = Inr c1" "consume_fills xs c1 = Inr c'"
    using Cons.prems(1) by (auto simp: rbind_eq_Inr)
  have "k = activity_key x \<longrightarrow> u = item_time x" using Cons.prems(5)[of x] by auto
  then have "consumed c1 k u \<and> agrees c1 k u" using consumed_kept[OF c1(1) Cons.prems(2-4)] by blast
  then show ?case using Cons.IH[OF c1(2) advanced_cursor_ok[OF c1(1) Cons.prems(2)]] Cons.prems(5) by simp
qed simp

lemma consume_fills_all:
  "consume_fills xs c = Inr c' \<Longrightarrow> cursor_ok c \<Longrightarrow> distinct (map activity_key xs) \<Longrightarrow> y \<in> set xs
    \<Longrightarrow> consumed c' (activity_key y) (item_time y)"
proof (induction xs arbitrary: c)
  case (Cons x xs)
  obtain c1 where c1: "advanced_cursor c x (item_time x) (activity_key x) = Inr c1" "consume_fills xs c1 = Inr c'"
    using Cons.prems(1) by (auto simp: rbind_eq_Inr)
  have ok: "cursor_ok c1" by (rule advanced_cursor_ok[OF c1(1) Cons.prems(2)])
  show ?case
  proof (cases "y = x")
    case True
    have "\<And>z. z \<in> set xs \<Longrightarrow> activity_key z = activity_key x \<Longrightarrow> item_time z = item_time x"
      using Cons.prems(3) by (auto simp: image_iff)
    then show ?thesis using consume_fills_kept[OF c1(2) ok consumed_new(1,2)[OF c1(1) Cons.prems(2)]] True by simp
  next
    case False
    then show ?thesis using Cons.IH[OF c1(2) ok] Cons.prems(3,4) by simp
  qed
qed simp

lemma consume_fills_only:
  "consume_fills xs c = Inr c' \<Longrightarrow> cursor_ok c \<Longrightarrow> consumed c' k u
    \<Longrightarrow> consumed c k u \<or> (\<exists>x \<in> set xs. activity_key x = k \<or> u < item_time x)"
proof (induction xs arbitrary: c)
  case (Cons x xs)
  obtain c1 where c1: "advanced_cursor c x (item_time x) (activity_key x) = Inr c1" "consume_fills xs c1 = Inr c'"
    using Cons.prems(1) by (auto simp: rbind_eq_Inr)
  show ?case
    using Cons.IH[OF c1(2) advanced_cursor_ok[OF c1(1) Cons.prems(2)] Cons.prems(3)] consumed_new(3)[OF c1(1) Cons.prems(2)] by auto
qed simp

lemma filter_drop: "distinct xs \<Longrightarrow> filter (\<lambda>x. x \<notin> set (take k xs)) xs = drop k xs"
proof -
  assume d: "distinct xs"
  have "set (take k xs) \<inter> set (drop k xs) = {}" using d by (rule set_take_disj_set_drop_if_distinct) simp
  then have "filter (\<lambda>x. x \<notin> set (take k xs)) (take k xs @ drop k xs) = drop k xs"
    by (auto simp: filter_empty_conv filter_id_conv simp del: append_take_drop_id)
  then show ?thesis by simp
qed

lemma new_fills_distinct: "fills_ok items \<Longrightarrow> distinct (map activity_key (new_fills c items))"
  by (simp add: fills_ok_def new_fills_def distinct_map_filter rev_map[symmetric])

lemma new_fills_sorted: "fills_ok items \<Longrightarrow> sorted (map item_time (new_fills c items))"
proof -
  assume "fills_ok items"
  then have "sorted_wrt (\<lambda>x y. item_time y \<le> item_time x) items" by (simp add: fills_ok_def sorted_map)
  then have "sorted_wrt (\<lambda>x y. item_time x \<le> item_time y) (rev items)" by (simp add: sorted_wrt_rev)
  then show ?thesis unfolding new_fills_def by (simp add: sorted_map sorted_wrt_filter)
qed

theorem rescan_finds_the_rest:
  assumes items: "fills_ok items" and c: "cursor_ok c" and run: "consume_fills (take k (new_fills c items)) c = Inr c'"
    and agree: "\<And>x. x \<in> set items \<Longrightarrow> agrees c (activity_key x) (item_time x)"
  shows "new_fills c' items = drop k (new_fills c items)"
proof -
  let ?N = "new_fills c items"
  have dk: "distinct (map activity_key ?N)" by (rule new_fills_distinct[OF items])
  have same: "x = y" if "x \<in> set items" "y \<in> set items" "activity_key x = activity_key y" for x y
    using items that by (auto simp: fills_ok_def distinct_map inj_on_def)
  have in_items: "x \<in> set items" if "x \<in> set (take k ?N)" for x using that by (auto simp: new_fills_def dest: in_set_takeD)
  have prefix: "distinct (map activity_key (take k ?N))" using dk by (simp add: take_map[symmetric])
  have split: "sorted (map item_time (take k ?N @ drop k ?N))" using new_fills_sorted[OF items] by simp
  have "consumed c' (activity_key y) (item_time y) \<longleftrightarrow> consumed c (activity_key y) (item_time y) \<or> y \<in> set (take k ?N)"
    if y: "y \<in> set items" for y
  proof
    assume "consumed c' (activity_key y) (item_time y)"
    then have "consumed c (activity_key y) (item_time y) \<or> (\<exists>x \<in> set (take k ?N). activity_key x = activity_key y \<or> item_time y < item_time x)"
      by (rule consume_fills_only[OF run c])
    moreover have "y \<in> set (take k ?N)" if new: "\<not> consumed c (activity_key y) (item_time y)"
      and x: "x \<in> set (take k ?N)" "activity_key x = activity_key y \<or> item_time y < item_time x" for x
    proof -
      have "y \<in> set (take k ?N) \<union> set (drop k ?N)" using y new by (simp add: new_fills_def flip: set_append)
      moreover have "y \<notin> set (drop k ?N)" if "activity_key x \<noteq> activity_key y"
        using split x that by (fastforce simp: sorted_append simp del: append_take_drop_id)
      ultimately show ?thesis using x(1) same[OF in_items[OF x(1)] y] by auto
    qed
    ultimately show "consumed c (activity_key y) (item_time y) \<or> y \<in> set (take k ?N)" by blast
  next
    assume "consumed c (activity_key y) (item_time y) \<or> y \<in> set (take k ?N)"
    then show "consumed c' (activity_key y) (item_time y)"
      using consume_fills_kept[OF run c _ agree[OF y]] consume_fills_all[OF run c prefix] same[OF in_items y] by blast
  qed
  then have "new_fills c' items = filter (\<lambda>y. y \<notin> set (take k ?N)) ?N"
    unfolding new_fills_def by (auto intro!: filter_cong)
  also have "\<dots> = drop k ?N" by (rule filter_drop) (use dk in \<open>simp add: distinct_map\<close>)
  finally show ?thesis .
qed

section \<open>The scan\<close>

lemma required_time_int: "is_int (oget x ''timestamp'') \<Longrightarrow> required_time x = Inr (item_time x)"
  by (cases "oget x ''timestamp''") (auto simp: required_time_def item_time_def oget_def split: option.splits)

lemma scan_items_None: "rfold (scan_item feeds w i since) xs None = Inr None"
  by (induction xs) (simp_all add: scan_item_def)

lemma scan_item_Some:
  assumes "scan_item feeds w i since (n, x) (Some s) = Inr st" "is_int (oget x ''timestamp'')"
  shows "st = None \<or> st = Some (if activity_key x \<in> set (sc_seen s) \<or> item_time x < since then s
    else \<lparr> sc_seen = activity_key x # sc_seen s, sc_new = sc_new s @ [new_candidate i x],
      sc_wanted = sc_wanted s + (if wanted w x then 1 else 0) \<rparr>)"
  using assms by (auto simp: scan_item_def Let_def rbind_eq_Inr required_time_int new_candidate_def split: if_splits)

lemma scan_items:
  "rfold (scan_item feeds w i since) (enumerate n ys) (Some s) = Inr (Some s') \<Longrightarrow> distinct (map activity_key ys)
    \<Longrightarrow> \<forall>x \<in> set ys. is_int (oget x ''timestamp'')
    \<Longrightarrow> sc_new s' = sc_new s @ map (new_candidate i) (filter (\<lambda>x. \<not> (activity_key x \<in> set (sc_seen s) \<or> item_time x < since)) ys)
      \<and> sc_wanted s' = sc_wanted s
        + length (filter (wanted w) (filter (\<lambda>x. \<not> (activity_key x \<in> set (sc_seen s) \<or> item_time x < since)) ys))"
proof (induction ys arbitrary: n s)
  case (Cons x ys)
  let ?s = "if activity_key x \<in> set (sc_seen s) \<or> item_time x < since then s
    else \<lparr> sc_seen = activity_key x # sc_seen s, sc_new = sc_new s @ [new_candidate i x],
      sc_wanted = sc_wanted s + (if wanted w x then 1 else 0) \<rparr>"
  obtain st where st: "scan_item feeds w i since (n, x) (Some s) = Inr st"
      "rfold (scan_item feeds w i since) (enumerate (Suc n) ys) st = Inr (Some s')"
    using Cons.prems(1) by (auto simp: rbind_eq_Inr)
  then have "st = Some ?s" using scan_item_Some[OF st(1)] Cons.prems(3) scan_items_None by auto
  then have IH: "sc_new s' = sc_new ?s @ map (new_candidate i) (filter (\<lambda>x. \<not> (activity_key x \<in> set (sc_seen ?s) \<or> item_time x < since)) ys)"
      "sc_wanted s' = sc_wanted ?s + length (filter (wanted w) (filter (\<lambda>x. \<not> (activity_key x \<in> set (sc_seen ?s) \<or> item_time x < since)) ys))"
    using Cons.IH[of "Suc n" ?s] st(2) Cons.prems(2,3) by simp_all
  have "filter (\<lambda>x. \<not> (activity_key x \<in> set (sc_seen ?s) \<or> item_time x < since)) ys
      = filter (\<lambda>x. \<not> (activity_key x \<in> set (sc_seen s) \<or> item_time x < since)) ys"
    using Cons.prems(2) by (auto intro!: filter_cong simp: image_iff)
  then show ?case using IH by simp
qed simp

lemma scan_wallet_new:
  assumes "scan_wallet feeds w i c items = Inr (Some s)" "fills_ok items"
  shows "sc_new s = map (new_candidate i) (new_fills c items)" "sc_wanted s = length (filter (wanted w) (new_fills c items))"
  using scan_items[OF assms(1)[unfolded scan_wallet_def]] assms(2)
  by (simp_all add: fills_ok_def new_fills_def consumed_def rev_map[symmetric])

section \<open>All wallets\<close>

definition wanted_of :: "wallet_watch list \<Rightarrow> candidate \<Rightarrow> bool" where
  "wanted_of ws c \<longleftrightarrow> wanted (ws ! cd_wallet c) (cd_item c)"

abbreviation of_wallet :: "nat \<Rightarrow> candidate list \<Rightarrow> candidate list" where
  "of_wallet i cs \<equiv> filter (\<lambda>c. cd_wallet c = i) cs"

lemma of_wallet_new: "of_wallet j (map (new_candidate i) xs) = (if i = j then map (new_candidate i) xs else [])"
  by (induction xs) (simp_all add: new_candidate_def)

lemma gather_wallet_problem: "gather_wallet feeds m ps iw g = Inr g' \<Longrightarrow> ga_problem g \<noteq> None \<Longrightarrow> g' = g"
  by (auto simp: gather_wallet_def split: prod.splits)

lemma gather_problem: "rfold (gather_wallet feeds m ps) ws g = Inr g' \<Longrightarrow> ga_problem g \<noteq> None \<Longrightarrow> g' = g"
proof (induction ws arbitrary: g)
  case (Cons w ws)
  then show ?case by (auto simp: rbind_eq_Inr dest!: gather_wallet_problem)
qed simp

lemma gather_wallet_step:
  assumes "gather_wallet feeds m ps (i, w) g = Inr g'" "ga_problem g' = None" "ga_problem g = None"
  obtains items so_far where "read_wallet feeds ps so_far i (cu_last_seen_ts (cursor_for_market w m)) = Inr items"
    and "ga_candidates g' = ga_candidates g @ map (new_candidate i) (new_fills (cursor_for_market w m) items)"
    and "ga_wanted g' = ga_wanted g + length (filter (wanted w) (new_fills (cursor_for_market w m) items))"
proof -
  let ?c = "cursor_for_market w m"
  have step: "(case read_wallet feeds ps (ga_observed g) i (cu_last_seen_ts ?c) of
      Inl e \<Rightarrow> if reraised e then Inl e else Inr (g\<lparr> ga_problem := Some ((py_str (ww_wallet w) @ '': '') @ exc_text e) \<rparr>)
    | Inr items \<Rightarrow> rbind (scan_wallet feeds w i ?c items) (\<lambda>st. Inr (case st of
        None \<Rightarrow> g\<lparr> ga_problem := Some ((py_str (ww_wallet w) @ '': '') @
          ''Legacy transaction checkpoint requires fill reconciliation; cursor unchanged.'') \<rparr>
      | Some s \<Rightarrow> g\<lparr> ga_observed := ga_observed g + length items, ga_candidates := ga_candidates g @ sc_new s,
          ga_wanted := ga_wanted g + sc_wanted s \<rparr>))) = Inr g'"
    using assms(1,3) by (auto simp: gather_wallet_def Let_def rbind_eq_Inr)
  then obtain items where items: "read_wallet feeds ps (ga_observed g) i (cu_last_seen_ts ?c) = Inr items"
    using assms(2) by (auto split: sum.splits if_splits)
  then obtain s where s: "scan_wallet feeds w i ?c items = Inr (Some s)"
    "g' = g\<lparr> ga_observed := ga_observed g + length items, ga_candidates := ga_candidates g @ sc_new s, ga_wanted := ga_wanted g + sc_wanted s \<rparr>"
    using step assms(2) by (auto simp: rbind_eq_Inr split: option.splits)
  show thesis using that[OF items] scan_wallet_new[OF s(1) read_wallet_ok[OF items]] s(2) by simp
qed

lemma gather_new:
  "rfold (gather_wallet feeds m ps) ws g = Inr g' \<Longrightarrow> ga_problem g' = None \<Longrightarrow> distinct (map fst ws)
    \<Longrightarrow> (\<And>i w. (i, w) \<in> set ws \<Longrightarrow> of_wallet i (ga_candidates g) = [] \<and> W ! i = w)
    \<Longrightarrow> (\<forall>(i, w) \<in> set ws. \<exists>items so_far. read_wallet feeds ps so_far i (cu_last_seen_ts (cursor_for_market w m)) = Inr items
          \<and> of_wallet i (ga_candidates g') = map (new_candidate i) (new_fills (cursor_for_market w m) items))
      \<and> (\<forall>i. i \<notin> fst ` set ws \<longrightarrow> of_wallet i (ga_candidates g') = of_wallet i (ga_candidates g))
      \<and> (ga_wanted g = length (filter (wanted_of W) (ga_candidates g)) \<longrightarrow> ga_wanted g' = length (filter (wanted_of W) (ga_candidates g')))"
proof (induction ws arbitrary: g)
  case (Cons iw ws)
  obtain i w where iw: "iw = (i, w)" by fastforce
  obtain g1 where g1: "gather_wallet feeds m ps (i, w) g = Inr g1" "rfold (gather_wallet feeds m ps) ws g1 = Inr g'"
    using Cons.prems(1) iw by (auto simp: rbind_eq_Inr)
  have p: "ga_problem g = None" "ga_problem g1 = None"
    using gather_wallet_problem[OF g1(1)] gather_problem[OF g1(2)] Cons.prems(2) by metis+
  obtain items so_far where r: "read_wallet feeds ps so_far i (cu_last_seen_ts (cursor_for_market w m)) = Inr items"
    and new: "ga_candidates g1 = ga_candidates g @ map (new_candidate i) (new_fills (cursor_for_market w m) items)"
    and count: "ga_wanted g1 = ga_wanted g + length (filter (wanted w) (new_fills (cursor_for_market w m) items))"
    by (rule gather_wallet_step[OF g1(1) p(2) p(1)])
  have i: "i \<notin> fst ` set ws" "W ! i = w" using Cons.prems(3) Cons.prems(4)[of i w] iw by auto
  have rest: "\<And>j v. (j, v) \<in> set ws \<Longrightarrow> of_wallet j (ga_candidates g1) = [] \<and> W ! j = v"
    using Cons.prems(4) i(1) iw by (force simp: new of_wallet_new)
  have "length (filter (wanted_of W) (map (new_candidate i) xs)) = length (filter (wanted w) xs)" for xs
    by (simp add: filter_map comp_def wanted_of_def new_candidate_def i(2))
  then have "ga_wanted g = length (filter (wanted_of W) (ga_candidates g)) \<Longrightarrow> ga_wanted g1 = length (filter (wanted_of W) (ga_candidates g1))"
    by (simp add: count new)
  moreover have "of_wallet i (ga_candidates g1) = map (new_candidate i) (new_fills (cursor_for_market w m) items)"
    using Cons.prems(4)[of i w] iw by (simp add: new of_wallet_new)
  moreover have "of_wallet j (ga_candidates g1) = of_wallet j (ga_candidates g)" if "j \<noteq> i" for j
    using that by (simp add: new of_wallet_new)
  ultimately show ?case
    using Cons.IH[OF g1(2) Cons.prems(2) _ rest] Cons.prems(3) r i(1) iw by auto
qed simp

section \<open>The delivery\<close>

abbreviation wallets_of :: "delivery \<Rightarrow> wallet_watch list" where
  "wallets_of s \<equiv> cf_wallets (dl_cfg s)"

text \<open>The identity an event carries.\<close>

definition event_key :: "obj \<Rightarrow> string" where
  "event_key e = the_str (oget e ''id'')"

lemma plain_id [simp]: "\<not> is_sensitive_display_key ''id''" "\<not> is_sensitive_display_key []"
  by code_simp+

lemma sanitized_activity_key: "sanitized_activity w x = Inr a \<Longrightarrow> event_key a = activity_key x"
  by (auto simp: sanitized_activity_def wallet_activity_payload_def rbind_eq_Inr Let_def event_key_def oget_def)

lemma event_key_preview [simp]: "event_key (dset ''copy_preview'' v e) = event_key e"
  by (simp add: event_key_def oget_def)

lemma with_event_simps [simp]:
  "dl_emitted (with_event a s) = dl_emitted s @ [a]" "dl_remaining (with_event a s) = dl_remaining s - 1"
  "dl_cfg (with_event a s) = dl_cfg s" "dl_blocked (with_event a s) = dl_blocked s" "dl_full (with_event a s) = dl_full s"
  "dl_filtered (with_event a s) = dl_filtered s"
  by (simp_all add: with_event_def)

lemma with_preview_simps [simp]:
  "dl_remaining (with_preview p g s) = dl_remaining s" "dl_cfg (with_preview p g s) = dl_cfg s"
  "dl_blocked (with_preview p g s) = dl_blocked s" "dl_full (with_preview p g s) = dl_full s"
  "dl_filtered (with_preview p g s) = dl_filtered s"
  "dl_emitted s \<noteq> [] \<Longrightarrow> map event_key (dl_emitted (with_preview p g s)) = map event_key (dl_emitted s)"
  by (simp_all add: with_preview_def Let_def) (metis append_butlast_last_id last_map list.simps(8) list.simps(9) map_append map_butlast)

lemma with_wallet_simps [simp]:
  "dl_emitted (with_wallet i w s) = dl_emitted s" "dl_remaining (with_wallet i w s) = dl_remaining s"
  "dl_blocked (with_wallet i w s) = dl_blocked s" "dl_full (with_wallet i w s) = dl_full s"
  "dl_filtered (with_wallet i w s) = dl_filtered s" "dl_cfg (with_wallet i w s) = (dl_cfg s)\<lparr> cf_wallets := (wallets_of s)[i := w] \<rparr>"
  by (simp_all add: with_wallet_def)

text \<open>One event: its wallet remembers the fill, and a wanted fill enters the batch.\<close>

lemma deliver_event_spec:
  assumes "deliver_event x n c s = Inr s'" "px_advance x" "cd_wallet c < length (wallets_of s)" "px_market x \<noteq> []"
    and "cd_key c = activity_key (cd_item c)"
  obtains w' where "remember_activity (wallets_of s ! cd_wallet c) (cd_item c) (cd_key c) (px_market x) = Inr w'"
    and "dl_cfg s' = (dl_cfg s)\<lparr> cf_wallets := (wallets_of s)[cd_wallet c := w'] \<rparr>"
    and "dl_blocked s' = dl_blocked s" "dl_full s' = dl_full s"
    and "map event_key (dl_emitted s') = map event_key (dl_emitted s) @ (if wanted_of (wallets_of s) c then [cd_key c] else [])"
    and "dl_remaining s' = dl_remaining s - (if wanted_of (wallets_of s) c then 1 else 0)"
    and "dl_filtered s' = dl_filtered s + (if wanted_of (wallets_of s) c then 0 else 1)"
proof -
  let ?i = "cd_wallet c" and ?m = "px_market x"
  obtain w' where w': "remember_activity (wallets_of s ! ?i) (cd_item c) (cd_key c) ?m = Inr w'" "consume x c s = Inr (with_wallet ?i w' s)"
    using assms(1,2) by (auto simp: deliver_event_def consume_def Let_def rbind_eq_Inr)
  have "wanted w' (cd_item c) = wanted_of (wallets_of s) c"
    using remember_activity_identity(5)[OF w'(1) assms(4)] by (simp add: wanted_def wanted_of_def)
  then have rest: "(if \<not> wanted_of (wallets_of s) c then
       (let s = (with_wallet ?i w' s)\<lparr> dl_filtered := dl_filtered (with_wallet ?i w' s) + 1 \<rparr> in rbind (check_response x s) (\<lambda>_. Inr s))
     else
       rbind (sanitized_activity w' (cd_item c)) (\<lambda>activity.
       let s = with_event activity (with_wallet ?i w' s) in
       rbind (check_response x s) (\<lambda>_.
       rbind (copy_trade_preview_from_activity (px_clock x n) (dl_cfg s) (px_registry x) (cd_item c) (Some (dl_conflicts s)))
         (\<lambda>(preview, conflicts).
       let s = with_preview preview (case conflicts of None \<Rightarrow> [] | Some g \<Rightarrow> g) s in
       rbind (px_checks x (AfterPreview n)) (\<lambda>_.
       rbind (check_response x s) (\<lambda>_. Inr s)))))) = Inr s'"
    using assms(1,3) w'(2) by (simp add: deliver_event_def)
  show thesis
  proof (cases "wanted_of (wallets_of s) c")
    case True
    obtain a p g where a: "sanitized_activity w' (cd_item c) = Inr a" and s': "s' = with_preview p g (with_event a (with_wallet ?i w' s))"
      using rest True by (auto simp: rbind_eq_Inr Let_def)
    show thesis by (rule that[OF w'(1)]) (simp_all add: True s' sanitized_activity_key[OF a] assms(5))
  next
    case False
    then have "s' = (with_wallet ?i w' s)\<lparr> dl_filtered := dl_filtered s + 1 \<rparr>"
      using rest by (auto simp: rbind_eq_Inr Let_def)
    then show thesis by (intro that[OF w'(1)]) (simp_all add: False)
  qed
qed

definition candidate_ok :: "delivery \<Rightarrow> candidate \<Rightarrow> bool" where
  "candidate_ok s c \<longleftrightarrow> cd_wallet c < length (wallets_of s) \<and> c = new_candidate (cd_wallet c) (cd_item c)
     \<and> is_int (oget (cd_item c) ''timestamp'')"

text \<open>Two states of a delivery, and the fills consumed between them: every wallet has consumed some of
  its fills in order, all of them unless it was stopped.\<close>

definition delivers :: "string \<Rightarrow> candidate list \<Rightarrow> candidate list \<Rightarrow> delivery \<Rightarrow> delivery \<Rightarrow> bool" where
  "delivers m cs D s s' \<longleftrightarrow>
     (\<forall>i. \<exists>k. of_wallet i D = take k (of_wallet i cs))
     \<and> (\<forall>i \<in> set (dl_blocked s). of_wallet i D = []) \<and> (\<forall>i. i \<notin> set (dl_blocked s') \<longrightarrow> of_wallet i D = of_wallet i cs)
     \<and> set (dl_blocked s) \<subseteq> set (dl_blocked s')
     \<and> dl_cfg s' = (dl_cfg s)\<lparr> cf_wallets := wallets_of s' \<rparr> \<and> length (wallets_of s') = length (wallets_of s)
     \<and> (\<forall>i < length (wallets_of s). ww_only_market_slug (wallets_of s' ! i) = ww_only_market_slug (wallets_of s ! i)
          \<and> consume_fills (map cd_item (of_wallet i D)) (cursor_for_market (wallets_of s ! i) m) = Inr (cursor_for_market (wallets_of s' ! i) m))
     \<and> map event_key (dl_emitted s') = map event_key (dl_emitted s) @ map cd_key (filter (wanted_of (wallets_of s)) D)
     \<and> dl_remaining s' = dl_remaining s - length (filter (wanted_of (wallets_of s)) D)"

lemma wanted_of_same:
  "length W' = length W \<Longrightarrow> \<forall>i < length W. ww_only_market_slug (W' ! i) = ww_only_market_slug (W ! i)
    \<Longrightarrow> cd_wallet c < length W \<Longrightarrow> wanted_of W' c = wanted_of W c"
  by (simp add: wanted_of_def wanted_def)

lemma take_Cons_of_wallet: "\<exists>k. of_wallet i D = take k (of_wallet i cs) \<Longrightarrow> \<exists>k. of_wallet i (c # D) = take k (of_wallet i (c # cs))"
proof (elim exE)
  fix k assume "of_wallet i D = take k (of_wallet i cs)"
  then show ?thesis by (cases "cd_wallet c = i") (auto intro: exI[of _ "Suc k"] exI[of _ k])
qed

text \<open>A fill that is left behind stops its wallet.\<close>

lemma delivers_stop:
  assumes "delivers m cs D s1 s'" "cd_wallet c \<in> set (dl_blocked s1)" "dl_cfg s1 = dl_cfg s" "dl_emitted s1 = dl_emitted s"
    "dl_remaining s1 = dl_remaining s" "set (dl_blocked s) \<subseteq> set (dl_blocked s1)"
  shows "delivers m (c # cs) D s s'"
proof -
  have "\<exists>k. of_wallet i D = take k (of_wallet i (c # cs))" for i
  proof (cases "cd_wallet c = i")
    case True
    then have "of_wallet i D = take 0 (of_wallet i (c # cs))" using assms(1,2) by (simp add: delivers_def)
    then show ?thesis by blast
  next
    case False
    then show ?thesis using assms(1) by (simp add: delivers_def)
  qed
  moreover have "of_wallet i D = of_wallet i (c # cs)" if "i \<notin> set (dl_blocked s')" for i
  proof -
    have "i \<noteq> cd_wallet c" using assms(1,2) that by (auto simp: delivers_def)
    then show ?thesis using assms(1) that by (simp add: delivers_def)
  qed
  ultimately show ?thesis using assms by (auto simp: delivers_def)
qed

lemma delivers_event:
  assumes "delivers m cs D s1 s'" "cd_wallet c \<notin> set (dl_blocked s)" "dl_blocked s1 = dl_blocked s" "candidate_ok s c"
    and r: "remember_activity (wallets_of s ! cd_wallet c) (cd_item c) (cd_key c) m = Inr w'" and m: "m \<noteq> []"
    and s1: "dl_cfg s1 = (dl_cfg s)\<lparr> cf_wallets := (wallets_of s)[cd_wallet c := w'] \<rparr>"
      "map event_key (dl_emitted s1) = map event_key (dl_emitted s) @ (if wanted_of (wallets_of s) c then [cd_key c] else [])"
      "dl_remaining s1 = dl_remaining s - (if wanted_of (wallets_of s) c then 1 else 0)"
    and inside: "\<forall>d \<in> set cs. cd_wallet d < length (wallets_of s)"
  shows "delivers m (c # cs) (c # D) s s'"
proof -
  let ?i = "cd_wallet c"
  have i: "?i < length (wallets_of s)" using assms(4) by (simp add: candidate_ok_def)
  obtain t cu where t: "py_int (py_or (oget (cd_item c) ''timestamp'') (PInt 0)) = Inr t"
    and cu: "advanced_cursor (cursor_for_market (wallets_of s ! ?i) m) (cd_item c) t (cd_key c) = Inr cu" "cursor_for_market w' m = cu"
    by (rule remember_activity_Inr[OF r m])
  have "t = item_time (cd_item c)" using t assms(4)
    by (cases "oget (cd_item c) ''timestamp''") (auto simp: candidate_ok_def item_time_def py_or_def split: if_splits)
  moreover have "cd_key c = activity_key (cd_item c)"
    using assms(4) unfolding candidate_ok_def new_candidate_def by (metis candidate.simps(3))
  ultimately have adv: "advanced_cursor (cursor_for_market (wallets_of s ! ?i) m) (cd_item c) (item_time (cd_item c)) (activity_key (cd_item c))
      = Inr (cursor_for_market w' m)" using cu by simp
  have slug: "ww_only_market_slug w' = ww_only_market_slug (wallets_of s ! ?i)" by (rule remember_activity_identity(5)[OF r m])
  have W1: "wallets_of s1 = (wallets_of s)[?i := w']" by (simp add: s1(1))
  have slugs1: "ww_only_market_slug (wallets_of s1 ! j) = ww_only_market_slug (wallets_of s ! j)" if "j < length (wallets_of s)" for j
    using that i slug by (cases "j = ?i") (simp_all add: W1)
  have "cd_wallet d < length (wallets_of s)" if "d \<in> set D" for d
  proof -
    have "\<exists>k. of_wallet (cd_wallet d) D = take k (of_wallet (cd_wallet d) cs)" using assms(1) unfolding delivers_def by blast
    then obtain k where "of_wallet (cd_wallet d) D = take k (of_wallet (cd_wallet d) cs)" by blast
    moreover have "d \<in> set (of_wallet (cd_wallet d) D)" using that by simp
    ultimately have "d \<in> set cs" by (metis (mono_tags) filter_is_subset in_set_takeD subsetD)
    then show ?thesis using inside by blast
  qed
  then have same: "filter (wanted_of (wallets_of s1)) D = filter (wanted_of (wallets_of s)) D"
    using slugs1 by (intro filter_cong refl wanted_of_same) (simp_all add: W1)
  have len1: "length (wallets_of s1) = length (wallets_of s)" by (simp add: W1)
  have tail: "consume_fills (map cd_item (of_wallet j D)) (cursor_for_market (wallets_of s1 ! j) m) = Inr (cursor_for_market (wallets_of s' ! j) m)"
    if "j < length (wallets_of s)" for j
    using assms(1) that unfolding delivers_def len1 by blast
  have consume: "consume_fills (map cd_item (of_wallet j (c # D))) (cursor_for_market (wallets_of s ! j) m) = Inr (cursor_for_market (wallets_of s' ! j) m)"
    if "j < length (wallets_of s)" for j
    using tail[OF that] adv i by (cases "j = ?i") (simp_all add: W1)
  have "\<forall>j. \<exists>k. of_wallet j (c # D) = take k (of_wallet j (c # cs))"
    using assms(1) take_Cons_of_wallet unfolding delivers_def by blast
  then show ?thesis
    using assms(1-3) consume slugs1 s1(2,3) same by (auto simp: delivers_def s1(1))
qed

lemma deliver_candidate_cases:
  assumes "deliver_candidate x (n, c) s = Inr s'"
  obtains "cd_wallet c \<in> set (dl_blocked s)" "s' = s" | "s' = stop_wallet (cd_wallet c) s"
    | "cd_wallet c \<notin> set (dl_blocked s)" "deliver_event x n c s = Inr s'"
      "wanted_of (wallets_of s) c \<longrightarrow> length (dl_emitted s) < px_batch x"
proof -
  have step: "(if cd_wallet c \<in> set (dl_blocked s) then Inr s
      else if wanted (wallets_of s ! cd_wallet c) (cd_item c) \<and> (dl_full s \<or> px_batch x \<le> length (dl_emitted s))
      then Inr (stop_wallet (cd_wallet c) s)
      else case deliver_event x n c s of
          Inr s' \<Rightarrow> Inr s'
        | Inl e \<Rightarrow>
          if exc_kind e \<noteq> HttpResponseTooLargeError then Inl e
          else if dl_emitted s = []
          then raise HttpResponseTooLargeError ''The next wallet event cannot fit its complete delivery response; cursor unchanged.''
          else Inr (stop_wallet (cd_wallet c) s)) = Inr s'"
    using assms unfolding deliver_candidate_def prod.case Let_def by (elim rbind_InrE)
  show thesis
  proof (cases "deliver_event x n c s")
    case (Inl e)
    then show ?thesis using step that by (simp split: if_splits)
  next
    case (Inr s2)
    then show ?thesis using step that by (simp add: wanted_of_def not_le split: if_splits)
  qed
qed

lemma deliver_delivers:
  "rfold (deliver_candidate x) (enumerate n cs) s = Inr s' \<Longrightarrow> px_advance x \<Longrightarrow> px_market x \<noteq> []
    \<Longrightarrow> \<forall>c \<in> set cs. candidate_ok s c \<Longrightarrow> \<exists>D. delivers (px_market x) cs D s s'"
proof (induction cs arbitrary: n s)
  case Nil
  have "delivers (px_market x) [] [] s s" by (simp add: delivers_def)
  then show ?case using Nil.prems(1) by auto
next
  case (Cons c cs)
  obtain s1 where s1: "deliver_candidate x (n, c) s = Inr s1" "rfold (deliver_candidate x) (enumerate (Suc n) cs) s1 = Inr s'"
    using Cons.prems(1) by (auto simp: rbind_eq_Inr)
  let ?i = "cd_wallet c"
  show ?case
  proof (rule deliver_candidate_cases[OF s1(1)])
    assume skip: "?i \<in> set (dl_blocked s)" "s1 = s"
    then show ?thesis using Cons.IH[OF s1(2)] Cons.prems(2-4) delivers_stop[of "px_market x" cs _ s s' c s] by auto
  next
    assume stop: "s1 = stop_wallet ?i s"
    have ok: "\<forall>d \<in> set cs. candidate_ok s1 d" using Cons.prems(4) by (simp add: stop stop_wallet_def candidate_ok_def)
    show ?thesis using Cons.IH[OF s1(2) Cons.prems(2,3) ok] delivers_stop[of "px_market x" cs _ s1 s' c s]
      by (auto simp: stop stop_wallet_def)
  next
    assume event: "?i \<notin> set (dl_blocked s)" "deliver_event x n c s = Inr s1"
    have c: "candidate_ok s c" "?i < length (wallets_of s)" "cd_key c = activity_key (cd_item c)"
      using Cons.prems(4) by (auto simp: candidate_ok_def new_candidate_def) (metis candidate.simps(3))
    obtain w' where w': "remember_activity (wallets_of s ! ?i) (cd_item c) (cd_key c) (px_market x) = Inr w'"
      and e: "dl_cfg s1 = (dl_cfg s)\<lparr> cf_wallets := (wallets_of s)[?i := w'] \<rparr>" "dl_blocked s1 = dl_blocked s"
        "map event_key (dl_emitted s1) = map event_key (dl_emitted s) @ (if wanted_of (wallets_of s) c then [cd_key c] else [])"
        "dl_remaining s1 = dl_remaining s - (if wanted_of (wallets_of s) c then 1 else 0)"
      by (rule deliver_event_spec[OF event(2) Cons.prems(2) c(2) Cons.prems(3) c(3)])
    have ok: "\<forall>d \<in> set cs. candidate_ok s1 d" using Cons.prems(4) by (simp add: e(1) candidate_ok_def)
    obtain D where D: "delivers (px_market x) cs D s1 s'" using Cons.IH[OF s1(2) Cons.prems(2,3) ok] by blast
    have inside: "\<forall>d \<in> set cs. cd_wallet d < length (wallets_of s)" using Cons.prems(4) by (simp add: candidate_ok_def)
    show ?thesis using delivers_event[OF D event(1) e(2) c(1) w' Cons.prems(3) e(1,3,4) inside] by blast
  qed
qed

lemma deliver_bounded:
  "rfold (deliver_candidate x) (enumerate n cs) s = Inr s' \<Longrightarrow> px_advance x \<Longrightarrow> px_market x \<noteq> []
    \<Longrightarrow> \<forall>c \<in> set cs. candidate_ok s c \<Longrightarrow> length (dl_emitted s) \<le> px_batch x \<Longrightarrow> length (dl_emitted s') \<le> px_batch x"
proof (induction cs arbitrary: n s)
  case (Cons c cs)
  obtain s1 where s1: "deliver_candidate x (n, c) s = Inr s1" "rfold (deliver_candidate x) (enumerate (Suc n) cs) s1 = Inr s'"
    using Cons.prems(1) by (auto simp: rbind_eq_Inr)
  have "(\<forall>c \<in> set cs. candidate_ok s1 c) \<and> length (dl_emitted s1) \<le> px_batch x"
  proof (rule deliver_candidate_cases[OF s1(1)])
    assume e: "deliver_event x n c s = Inr s1" "wanted_of (wallets_of s) c \<longrightarrow> length (dl_emitted s) < px_batch x"
    have c: "cd_wallet c < length (wallets_of s)" "cd_key c = activity_key (cd_item c)"
      using Cons.prems(4) by (auto simp: candidate_ok_def new_candidate_def) (metis candidate.simps(3))
    obtain w' where "dl_cfg s1 = (dl_cfg s)\<lparr> cf_wallets := (wallets_of s)[cd_wallet c := w'] \<rparr>"
      and "map event_key (dl_emitted s1) = map event_key (dl_emitted s) @ (if wanted_of (wallets_of s) c then [cd_key c] else [])"
      by (rule deliver_event_spec[OF e(1) Cons.prems(2) c(1) Cons.prems(3) c(2)])
    then have "\<forall>c \<in> set cs. candidate_ok s1 c" "length (dl_emitted s1) = length (dl_emitted s) + (if wanted_of (wallets_of s) c then 1 else 0)"
      using Cons.prems(4) by (auto simp: candidate_ok_def dest!: arg_cong[where f = length])
    then show ?thesis using e(2) Cons.prems(5) by auto
  qed (use Cons.prems(4,5) in \<open>auto simp: stop_wallet_def candidate_ok_def\<close>)
  then show ?case using Cons.IH[OF s1(2) Cons.prems(2,3)] by blast
qed simp

text \<open>The first fill of a delivery is consumed: it is delivered or filtered, or the delivery fails.\<close>

lemma candidate_okD:
  "candidate_ok s c \<Longrightarrow> cd_wallet c < length (wallets_of s) \<and> cd_key c = activity_key (cd_item c)"
  by (auto simp: candidate_ok_def new_candidate_def) (metis candidate.simps(3))

lemma deliver_event_counts:
  assumes "deliver_event x n c s = Inr s'" "px_advance x" "px_market x \<noteq> []" "candidate_ok s c"
  shows "length (dl_emitted s') + dl_filtered s' = Suc (length (dl_emitted s) + dl_filtered s)"
    and "candidate_ok s' = candidate_ok s"
proof -
  have c: "cd_wallet c < length (wallets_of s)" "cd_key c = activity_key (cd_item c)" using candidate_okD[OF assms(4)] by auto
  obtain w' where e: "dl_cfg s' = (dl_cfg s)\<lparr> cf_wallets := (wallets_of s)[cd_wallet c := w'] \<rparr>"
    "map event_key (dl_emitted s') = map event_key (dl_emitted s) @ (if wanted_of (wallets_of s) c then [cd_key c] else [])"
    "dl_filtered s' = dl_filtered s + (if wanted_of (wallets_of s) c then 0 else 1)"
    by (rule deliver_event_spec[OF assms(1,2) c(1) assms(3) c(2)])
  show "length (dl_emitted s') + dl_filtered s' = Suc (length (dl_emitted s) + dl_filtered s)"
    using e(3) arg_cong[OF e(2), of length] by simp
  show "candidate_ok s' = candidate_ok s" by (rule ext) (simp add: candidate_ok_def e(1))
qed

lemma deliver_counts:
  "rfold (deliver_candidate x) (enumerate n cs) s = Inr s' \<Longrightarrow> px_advance x \<Longrightarrow> px_market x \<noteq> []
    \<Longrightarrow> \<forall>c \<in> set cs. candidate_ok s c \<Longrightarrow> length (dl_emitted s) + dl_filtered s \<le> length (dl_emitted s') + dl_filtered s'"
proof (induction cs arbitrary: n s)
  case (Cons c cs)
  obtain s1 where s1: "deliver_candidate x (n, c) s = Inr s1" "rfold (deliver_candidate x) (enumerate (Suc n) cs) s1 = Inr s'"
    using Cons.prems(1) by (auto simp: rbind_eq_Inr)
  have c: "candidate_ok s c" using Cons.prems(4) by simp
  have "candidate_ok s1 = candidate_ok s \<and> length (dl_emitted s) + dl_filtered s \<le> length (dl_emitted s1) + dl_filtered s1"
  proof (rule deliver_candidate_cases[OF s1(1)])
    assume "deliver_event x n c s = Inr s1"
    then show ?thesis using deliver_event_counts[OF _ Cons.prems(2,3) c] by simp
  qed (auto simp: stop_wallet_def candidate_ok_def fun_eq_iff)
  then show ?case using Cons.IH[OF s1(2) Cons.prems(2,3)] Cons.prems(4) by fastforce
qed simp

lemma deliver_progress:
  assumes "deliver x (c # cs) s = Inr s'" "px_advance x" "px_market x \<noteq> []" "\<forall>d \<in> set (c # cs). candidate_ok s d"
    and "dl_emitted s = []" "dl_blocked s = []" "\<not> dl_full s" "0 < px_batch x"
  shows "0 < length (dl_emitted s') + dl_filtered s'"
proof -
  obtain s1 where s1: "deliver_candidate x (0, c) s = Inr s1" "rfold (deliver_candidate x) (enumerate (Suc 0) cs) s1 = Inr s'"
    using assms(1) by (auto simp: deliver_def rbind_eq_Inr)
  have "deliver_event x 0 c s = Inr s1"
    using s1(1) assms(5-8) by (auto simp: deliver_candidate_def Let_def rbind_eq_Inr split: sum.splits if_splits)
  then have "0 < length (dl_emitted s1) + dl_filtered s1" "candidate_ok s1 = candidate_ok s"
    using deliver_event_counts[OF _ assms(2,3)] assms(4) by auto
  then show ?thesis using deliver_counts[OF s1(2) assms(2,3)] assms(4) by fastforce
qed

section \<open>The poll\<close>

lemma enabled_wallets_mem: "(i, w) \<in> set (enabled_wallets cfg) \<Longrightarrow> i < length (cf_wallets cfg) \<and> w = cf_wallets cfg ! i \<and> ww_enabled w"
  by (auto simp: enabled_wallets_def in_set_enumerate_eq)

lemma enabled_wallets_distinct: "distinct (map fst (enabled_wallets cfg))"
  unfolding enabled_wallets_def by (rule distinct_map_filter) simp

lemma require_selected_market_Inr: "require_selected_market cfg f = Inr m \<Longrightarrow> m \<noteq> []"
  by (auto simp: require_selected_market_def Let_def rbind_eq_Inr split: if_splits)

lemma delivery_order_of_wallet:
  assumes "sorted (map cd_timestamp (of_wallet i cs))"
  shows "of_wallet i (delivery_order cs) = of_wallet i cs"
  unfolding delivery_order_def filter_sort using assms by simp

lemma new_candidates_sorted: "fills_ok items \<Longrightarrow> sorted (map cd_timestamp (map (new_candidate i) (new_fills c items)))"
  using new_fills_sorted[of items c] by (simp add: new_candidate_def comp_def)

lemma poll_Inr:
  assumes "poll_wallet_activity feeds clock validator opts cfg registry recent = Inr p" "oget (pd_result p) ''problems'' = PList []"
  obtains m x g s where "require_selected_market cfg ''Wallet polling'' = Inr m"
    and "px_market x = m" "px_advance x = op_advance_seen opts" "int (px_batch x) = op_max_batch_items opts" "px_validator x = validator"
    and "1 \<le> op_max_batch_items opts" "op_max_batch_items opts \<le> 100"
    and "gather feeds m (op_limit opts) cfg = Inr g" "ga_problem g = None"
    and "deliver x (delivery_order (ga_candidates g)) ((poll_start cfg recent)\<lparr> dl_remaining := ga_wanted g \<rparr>) = Inr s"
    and "check_response x s = Inr ()"
    and "p = \<lparr> pd_cfg = dl_cfg s, pd_recent = dl_recent s, pd_result = poll_result (px_batch x) [] s \<rparr>"
proof -
  have batch: "1 \<le> op_max_batch_items opts" "op_max_batch_items opts \<le> 100"
    and body: "poll_body feeds clock validator opts cfg registry recent = Inr p"
    using assms(1) by (auto simp: poll_wallet_activity_def WALLET_POLL_BATCH_ITEMS_def rbind_eq_Inr Let_def split: if_splits)
  obtain m where m: "require_selected_market cfg ''Wallet polling'' = Inr m"
    using body unfolding poll_body_def by (elim rbind_InrE)
  let ?x = "\<lparr> px_market = m, px_registry = registry, px_clock = clock, px_validator = validator,
      px_checks = pf_control feeds, px_advance = op_advance_seen opts, px_batch = nat (op_max_batch_items opts) \<rparr>"
  obtain g where g: "gather feeds m (op_limit opts) cfg = Inr g"
    and cont: "(case ga_problem g of
         Some problem \<Rightarrow> Inr \<lparr> pd_cfg = cfg, pd_recent = recent,
           pd_result = poll_result (px_batch ?x) [problem] ((poll_start cfg recent)\<lparr> dl_remaining := ga_wanted g \<rparr>) \<rparr>
       | None \<Rightarrow>
         rbind (deliver ?x (delivery_order (ga_candidates g)) ((poll_start cfg recent)\<lparr> dl_remaining := ga_wanted g \<rparr>)) (\<lambda>s.
         rbind (check_response ?x s) (\<lambda>_.
         rbind (pf_control feeds BeforePublish) (\<lambda>_.
         Inr \<lparr> pd_cfg = dl_cfg s, pd_recent = dl_recent s, pd_result = poll_result (px_batch ?x) [] s \<rparr>)))) = Inr p"
    using body m unfolding poll_body_def Let_def by (auto simp: rbind_eq_Inr split: if_splits)
  have none: "ga_problem g = None"
    using cont assms(2) by (cases "ga_problem g") (auto simp: poll_result_def oget_def)
  then obtain s where s: "deliver ?x (delivery_order (ga_candidates g)) ((poll_start cfg recent)\<lparr> dl_remaining := ga_wanted g \<rparr>) = Inr s"
      "check_response ?x s = Inr ()" "p = \<lparr> pd_cfg = dl_cfg s, pd_recent = dl_recent s, pd_result = poll_result (px_batch ?x) [] s \<rparr>"
    using cont by (auto simp: rbind_eq_Inr)
  show thesis by (rule that[OF m _ _ _ _ batch g none s]) (use batch in simp_all)
qed

lemma gather_candidates:
  assumes g: "gather feeds m ps cfg = Inr g" "ga_problem g = None"
  shows "(\<forall>(i, w) \<in> set (enabled_wallets cfg). \<exists>items so_far. read_wallet feeds ps so_far i (cu_last_seen_ts (cursor_for_market w m)) = Inr items
          \<and> of_wallet i (ga_candidates g) = map (new_candidate i) (new_fills (cursor_for_market w m) items))
      \<and> (\<forall>i. i \<notin> fst ` set (enabled_wallets cfg) \<longrightarrow> of_wallet i (ga_candidates g) = [])"
    and "of_wallet i (delivery_order (ga_candidates g)) = of_wallet i (ga_candidates g)"
    and "wallets_of s = cf_wallets cfg \<Longrightarrow> c \<in> set (delivery_order (ga_candidates g)) \<Longrightarrow> candidate_ok s c"
proof -
  have gathered: "(\<forall>(i, w) \<in> set (enabled_wallets cfg). \<exists>items so_far. read_wallet feeds ps so_far i (cu_last_seen_ts (cursor_for_market w m)) = Inr items
          \<and> of_wallet i (ga_candidates g) = map (new_candidate i) (new_fills (cursor_for_market w m) items))
      \<and> (\<forall>i. i \<notin> fst ` set (enabled_wallets cfg) \<longrightarrow> of_wallet i (ga_candidates g) = [])"
    using gather_new[OF g(1)[unfolded gather_def] g(2) enabled_wallets_distinct, of "cf_wallets cfg"] enabled_wallets_mem by simp
  have sorted_i: "of_wallet i (delivery_order (ga_candidates g)) = of_wallet i (ga_candidates g)" for i
  proof (cases "i \<in> fst ` set (enabled_wallets cfg)")
    case True
    then obtain w items so_far where r: "read_wallet feeds ps so_far i (cu_last_seen_ts (cursor_for_market w m)) = Inr items"
      "of_wallet i (ga_candidates g) = map (new_candidate i) (new_fills (cursor_for_market w m) items)" using gathered by fastforce
    then show ?thesis using new_candidates_sorted[OF read_wallet_ok[OF r(1)]] by (intro delivery_order_of_wallet) simp
  next
    case False
    then show ?thesis using gathered by (intro delivery_order_of_wallet) simp
  qed
  have ok: "candidate_ok s c" if start: "wallets_of s = cf_wallets cfg" and mem: "c \<in> set (delivery_order (ga_candidates g))" for s c
  proof -
    have "c \<in> set (delivery_order (ga_candidates g))" by (rule mem)
    then have c: "c \<in> set (of_wallet (cd_wallet c) (ga_candidates g))" by (simp add: delivery_order_def)
    then have "cd_wallet c \<in> fst ` set (enabled_wallets cfg)" using gathered by (metis empty_iff list.set(1))
    then obtain w items so_far where w: "(cd_wallet c, w) \<in> set (enabled_wallets cfg)"
      and r: "read_wallet feeds ps so_far (cd_wallet c) (cu_last_seen_ts (cursor_for_market w m)) = Inr items"
      "of_wallet (cd_wallet c) (ga_candidates g) = map (new_candidate (cd_wallet c)) (new_fills (cursor_for_market w m) items)"
      using gathered by fastforce
    then obtain y where "y \<in> set items" "c = new_candidate (cd_wallet c) y" using c by (auto simp: new_fills_def)
    then show "candidate_ok s c" using enabled_wallets_mem[OF w] read_wallet_ok[OF r(1)] start
      unfolding candidate_ok_def fills_ok_def new_candidate_def by (metis candidate.simps(4))
  qed
  show "(\<forall>(i, w) \<in> set (enabled_wallets cfg). \<exists>items so_far. read_wallet feeds ps so_far i (cu_last_seen_ts (cursor_for_market w m)) = Inr items
          \<and> of_wallet i (ga_candidates g) = map (new_candidate i) (new_fills (cursor_for_market w m) items))
      \<and> (\<forall>i. i \<notin> fst ` set (enabled_wallets cfg) \<longrightarrow> of_wallet i (ga_candidates g) = [])" by (rule gathered)
  show "of_wallet i (delivery_order (ga_candidates g)) = of_wallet i (ga_candidates g)" by (rule sorted_i)
  show "wallets_of s = cf_wallets cfg \<Longrightarrow> c \<in> set (delivery_order (ga_candidates g)) \<Longrightarrow> candidate_ok s c" by (rule ok)
qed

text \<open>Between two states of a wallet, \<open>fills\<close> were consumed: they and what a scan with the new cursor
  finds are what a scan with the old cursor finds.\<close>

definition resumes :: "poll_feeds \<Rightarrow> nat \<Rightarrow> string \<Rightarrow> nat \<Rightarrow> wallet_watch \<Rightarrow> wallet_watch \<Rightarrow> obj list \<Rightarrow> bool" where
  "resumes feeds page_size m i w w' fills \<longleftrightarrow>
     (\<exists>items so_far. read_wallet feeds page_size so_far i (cu_last_seen_ts (cursor_for_market w m)) = Inr items
        \<and> fills @ new_fills (cursor_for_market w' m) items = new_fills (cursor_for_market w m) items)"

text \<open>The ledger of a wallet agrees with every history its feed returns.\<close>

definition ledger_agrees :: "poll_feeds \<Rightarrow> nat \<Rightarrow> string \<Rightarrow> nat \<Rightarrow> wallet_watch \<Rightarrow> bool" where
  "ledger_agrees feeds page_size m i w \<longleftrightarrow> cursor_ok (cursor_for_market w m)
     \<and> (\<forall>items so_far x. read_wallet feeds page_size so_far i (cu_last_seen_ts (cursor_for_market w m)) = Inr items \<longrightarrow> x \<in> set items
         \<longrightarrow> agrees (cursor_for_market w m) (activity_key x) (item_time x))"

lemma poll_resumes:
  assumes poll: "poll_wallet_activity feeds clock validator opts cfg registry recent = Inr p" "oget (pd_result p) ''problems'' = PList []"
    and adv: "op_advance_seen opts" and m: "require_selected_market cfg ''Wallet polling'' = Inr m"
    and ledger: "\<And>i w. (i, w) \<in> set (enabled_wallets cfg) \<Longrightarrow> ledger_agrees feeds (op_limit opts) m i w"
  shows "\<exists>D E. oget (pd_result p) ''activity'' = PList (map PDict (rev E))
     \<and> map event_key E = map cd_key (filter (wanted_of (cf_wallets cfg)) D)
     \<and> (\<forall>(i, w) \<in> set (enabled_wallets cfg).
          resumes feeds (op_limit opts) m i w (cf_wallets (pd_cfg p) ! i) (map cd_item (of_wallet i D)))"
proof -
  obtain m' x g s where m': "require_selected_market cfg ''Wallet polling'' = Inr m'"
    and x: "px_market x = m'" "px_advance x = op_advance_seen opts"
    and g: "gather feeds m' (op_limit opts) cfg = Inr g" "ga_problem g = None"
    and s: "deliver x (delivery_order (ga_candidates g)) ((poll_start cfg recent)\<lparr> dl_remaining := ga_wanted g \<rparr>) = Inr s"
    and p: "p = \<lparr> pd_cfg = dl_cfg s, pd_recent = dl_recent s, pd_result = poll_result (px_batch x) [] s \<rparr>"
    by (rule poll_Inr[OF poll])
  have mm: "m' = m" using m m' by simp
  let ?s = "(poll_start cfg recent)\<lparr> dl_remaining := ga_wanted g \<rparr>" and ?W = "cf_wallets cfg"
  have start: "wallets_of ?s = ?W" "dl_emitted ?s = []" "dl_blocked ?s = []" by (simp_all add: poll_start_def)
  note gathered = gather_candidates(1)[OF g[unfolded mm]]
    and sorted_i = gather_candidates(2)[OF g[unfolded mm]]
  have ok: "\<forall>c \<in> set (delivery_order (ga_candidates g)). candidate_ok ?s c"
    using gather_candidates(3)[OF g[unfolded mm] start(1)] by blast
  obtain D where D: "delivers m (delivery_order (ga_candidates g)) D ?s s"
    using deliver_delivers[OF s[unfolded deliver_def] _ _ ok] adv x require_selected_market_Inr[OF m] mm by auto
  have "resumes feeds (op_limit opts) m i w (wallets_of s ! i) (map cd_item (of_wallet i D))" if iw: "(i, w) \<in> set (enabled_wallets cfg)" for i w
  proof -
    let ?c = "cursor_for_market w m"
    obtain items so_far where r: "read_wallet feeds (op_limit opts) so_far i (cu_last_seen_ts ?c) = Inr items"
      "of_wallet i (ga_candidates g) = map (new_candidate i) (new_fills ?c items)" using gathered iw by fastforce
    obtain k where k: "of_wallet i D = take k (map (new_candidate i) (new_fills ?c items))"
      using D r(2) sorted_i unfolding delivers_def by metis
    then have fills: "map cd_item (of_wallet i D) = take k (new_fills ?c items)"
      by (simp add: take_map comp_def new_candidate_def)
    have "i < length ?W" "w = ?W ! i" using enabled_wallets_mem[OF iw] by auto
    then have run: "consume_fills (take k (new_fills ?c items)) ?c = Inr (cursor_for_market (wallets_of s ! i) m)"
      using D fills start(1) unfolding delivers_def by metis
    have "new_fills (cursor_for_market (wallets_of s ! i) m) items = drop k (new_fills ?c items)"
      by (rule rescan_finds_the_rest[OF read_wallet_ok[OF r(1)] _ run])
        (use ledger[OF iw] r(1) in \<open>auto simp: ledger_agrees_def\<close>)
    then show ?thesis unfolding resumes_def fills using r(1) by (intro exI[of _ items] exI[of _ so_far]) simp
  qed
  moreover have "map event_key (dl_emitted s) = map cd_key (filter (wanted_of ?W) D)"
    using D start unfolding delivers_def by simp
  moreover have "oget (pd_result p) ''activity'' = PList (map PDict (rev (dl_emitted s)))" by (simp add: p poll_result_def oget_def)
  ultimately show ?thesis by (intro exI[of _ D] exI[of _ "dl_emitted s"]) (auto simp: p)
qed

lemma poll_bounded:
  assumes poll: "poll_wallet_activity feeds clock validator opts cfg registry recent = Inr p" "oget (pd_result p) ''problems'' = PList []"
    and adv: "op_advance_seen opts"
  shows "\<exists>E. oget (pd_result p) ''activity'' = PList (map PDict E) \<and> int (length E) \<le> op_max_batch_items opts"
    and "length (json_indented 0 (PDict (pd_result p))) \<le> 256 * 1024" "json_finite (PDict (pd_result p))"
    and "validator (pd_cfg p) (pd_result p) (pd_recent p) = Inr ()"
proof -
  obtain m x g s where m: "require_selected_market cfg ''Wallet polling'' = Inr m"
    and x: "px_market x = m" "px_advance x = op_advance_seen opts" "int (px_batch x) = op_max_batch_items opts" "px_validator x = validator"
    and g: "gather feeds m (op_limit opts) cfg = Inr g" "ga_problem g = None"
    and s: "deliver x (delivery_order (ga_candidates g)) ((poll_start cfg recent)\<lparr> dl_remaining := ga_wanted g \<rparr>) = Inr s"
      "check_response x s = Inr ()"
    and p: "p = \<lparr> pd_cfg = dl_cfg s, pd_recent = dl_recent s, pd_result = poll_result (px_batch x) [] s \<rparr>"
    by (rule poll_Inr[OF poll])
  have "wallets_of ((poll_start cfg recent)\<lparr> dl_remaining := ga_wanted g \<rparr>) = cf_wallets cfg" by (simp add: poll_start_def)
  then have "\<forall>c \<in> set (delivery_order (ga_candidates g)). candidate_ok ((poll_start cfg recent)\<lparr> dl_remaining := ga_wanted g \<rparr>) c"
    using gather_candidates(3)[OF g] by blast
  then have "length (dl_emitted s) \<le> px_batch x"
    using deliver_bounded[OF s(1)[unfolded deliver_def]] adv x require_selected_market_Inr[OF m] by (simp add: poll_start_def)
  then show "\<exists>E. oget (pd_result p) ''activity'' = PList (map PDict E) \<and> int (length E) \<le> op_max_batch_items opts"
    using x(3) by (intro exI[of _ "rev (dl_emitted s)"]) (simp add: p poll_result_def oget_def)
  show "length (json_indented 0 (PDict (pd_result p))) \<le> 256 * 1024" "json_finite (PDict (pd_result p))"
    "validator (pd_cfg p) (pd_result p) (pd_recent p) = Inr ()"
    using s(2) x(4) by (auto simp: check_response_def poll_preflight_def Let_def rbind_eq_Inr fits_bytes_def p
      MAX_MUTATION_RESULT_BYTES_def simp del: json_indented.simps json_finite.simps)
qed

text \<open>Only the wallets change, and of a wallet only its cursors.\<close>

lemma poll_progress:
  assumes poll: "poll_wallet_activity feeds clock validator opts cfg registry recent = Inr p" "oget (pd_result p) ''problems'' = PList []"
    and adv: "op_advance_seen opts" and m': "require_selected_market cfg ''Wallet polling'' = Inr m"
  shows "\<exists>d f. oget (pd_result p) ''delivered_activity'' = PInt (int d) \<and> oget (pd_result p) ''consumed_filtered'' = PInt (int f)
     \<and> (0 < d + f \<or> oget (pd_result p) ''has_more'' = PBool False \<and> (\<forall>(i, w) \<in> set (enabled_wallets cfg). \<exists>items so_far.
          read_wallet feeds (op_limit opts) so_far i (cu_last_seen_ts (cursor_for_market w m)) = Inr items
          \<and> new_fills (cursor_for_market w m) items = []))"
proof -
  obtain m1 x g s where m1: "require_selected_market cfg ''Wallet polling'' = Inr m1"
    and x1: "px_market x = m1" and x: "px_advance x = op_advance_seen opts" "int (px_batch x) = op_max_batch_items opts" "1 \<le> op_max_batch_items opts"
    and g1: "gather feeds m1 (op_limit opts) cfg = Inr g" "ga_problem g = None"
    and s: "deliver x (delivery_order (ga_candidates g)) ((poll_start cfg recent)\<lparr> dl_remaining := ga_wanted g \<rparr>) = Inr s"
    and p: "p = \<lparr> pd_cfg = dl_cfg s, pd_recent = dl_recent s, pd_result = poll_result (px_batch x) [] s \<rparr>"
    by (rule poll_Inr[OF poll])
  have "m1 = m" using m1 m' by simp
  note g = g1[unfolded this] and market = x1[unfolded this]
  let ?s = "(poll_start cfg recent)\<lparr> dl_remaining := ga_wanted g \<rparr>"
  have ok: "\<forall>c \<in> set (delivery_order (ga_candidates g)). candidate_ok ?s c"
    using gather_candidates(3)[OF g, of ?s] by (simp add: poll_start_def)
  have "0 < length (dl_emitted s) + dl_filtered s \<or> oget (pd_result p) ''has_more'' = PBool False \<and> (\<forall>(i, w) \<in> set (enabled_wallets cfg).
      \<exists>items so_far. read_wallet feeds (op_limit opts) so_far i (cu_last_seen_ts (cursor_for_market w m)) = Inr items
        \<and> new_fills (cursor_for_market w m) items = [])"
  proof (cases "delivery_order (ga_candidates g)")
    case Nil
    then have none: "ga_candidates g = []" by (metis delivery_order_def set_sort set_empty)
    then have "ga_wanted g = 0"
      using gather_new[OF g(1)[unfolded gather_def] g(2) enabled_wallets_distinct, of "cf_wallets cfg"] enabled_wallets_mem by simp
    then have "oget (pd_result p) ''has_more'' = PBool False" using s Nil by (auto simp: deliver_def p poll_result_def oget_def)
    moreover have "\<forall>(i, w) \<in> set (enabled_wallets cfg). \<exists>items so_far.
        read_wallet feeds (op_limit opts) so_far i (cu_last_seen_ts (cursor_for_market w m)) = Inr items \<and> new_fills (cursor_for_market w m) items = []"
      using gather_candidates(1)[OF g] by (fastforce simp: none)
    ultimately show ?thesis by blast
  next
    case (Cons c cs)
    have "0 < length (dl_emitted s) + dl_filtered s"
      by (rule deliver_progress[OF s[unfolded Cons] _ _ ok[unfolded Cons]])
        (use x market adv require_selected_market_Inr[OF m'] in \<open>auto simp: poll_start_def\<close>)
    then show ?thesis by blast
  qed
  then show ?thesis
    by (intro exI[of _ "length (dl_emitted s)"] exI[of _ "dl_filtered s"]) (simp add: p poll_result_def oget_def)
qed

lemma poll_changes_only_wallets:
  assumes poll: "poll_wallet_activity feeds clock validator opts cfg registry recent = Inr p" "oget (pd_result p) ''problems'' = PList []"
    and adv: "op_advance_seen opts"
  shows "pd_cfg p = cfg\<lparr> cf_wallets := cf_wallets (pd_cfg p) \<rparr>" "length (cf_wallets (pd_cfg p)) = length (cf_wallets cfg)"
proof -
  obtain m x g s where m: "require_selected_market cfg ''Wallet polling'' = Inr m"
    and x: "px_market x = m" "px_advance x = op_advance_seen opts"
    and g: "gather feeds m (op_limit opts) cfg = Inr g" "ga_problem g = None"
    and s: "deliver x (delivery_order (ga_candidates g)) ((poll_start cfg recent)\<lparr> dl_remaining := ga_wanted g \<rparr>) = Inr s"
    and p: "p = \<lparr> pd_cfg = dl_cfg s, pd_recent = dl_recent s, pd_result = poll_result (px_batch x) [] s \<rparr>"
    by (rule poll_Inr[OF poll])
  let ?s = "(poll_start cfg recent)\<lparr> dl_remaining := ga_wanted g \<rparr>"
  have start: "dl_cfg ?s = cfg" by (simp add: poll_start_def)
  then have "\<forall>c \<in> set (delivery_order (ga_candidates g)). candidate_ok ?s c" using gather_candidates(3)[OF g, of ?s] by simp
  then obtain D where "delivers m (delivery_order (ga_candidates g)) D ?s s"
    using deliver_delivers[OF s[unfolded deliver_def]] adv x require_selected_market_Inr[OF m] by auto
  then have "dl_cfg s = cfg\<lparr> cf_wallets := wallets_of s \<rparr>" "length (wallets_of s) = length (cf_wallets cfg)"
    unfolding delivers_def start by blast+
  then show "pd_cfg p = cfg\<lparr> cf_wallets := cf_wallets (pd_cfg p) \<rparr>" "length (cf_wallets (pd_cfg p)) = length (cf_wallets cfg)"
    by (simp_all add: p)
qed

section \<open>The route\<close>

lemma replace_first_mem: "x \<in> set xs \<Longrightarrow> P x \<Longrightarrow> \<exists>y \<in> set xs. P y \<and> f y \<in> set (replace_first P f xs)"
  by (induction xs) auto

lemma append_mutation_journal_mem: "append_mutation_journal e cfg = Inr cfg' \<Longrightarrow> e \<in> set (cf_mutation_journal cfg')"
  by (auto simp: append_mutation_journal_def Let_def split: if_splits list.splits)

lemma commit_poll_Inr:
  assumes "commit_poll r registry polling p = Inr (server', response)"
  shows "sv_recent server' = pd_recent p" "cf_wallets (sv_cfg server') = cf_wallets (pd_cfg p)"
    and "\<exists>stored. py_eq (PDict stored) (PDict (poll_receipt (mj_id (pr_entry r)) (pd_result p)))
      \<and> cf_mutation_journal (sv_cfg server') = replace_first (\<lambda>e. mj_id e = mj_id (pr_entry r)) (completed_receipt (pr_now r) stored)
          (cf_mutation_journal (pd_cfg p))"
proof -
  obtain receipt polling' where r: "poll_response (mj_id (pr_entry r)) polling registry (pd_cfg p) (pd_result p) (pd_recent p) = Inr (response, receipt, polling')"
    and eq: "py_eq (PDict (stored_mutation_result receipt False None)) (PDict receipt)"
    and s: "server' = \<lparr> sv_cfg = (pd_cfg p)\<lparr> cf_mutation_journal := replace_first (\<lambda>e. mj_id e = mj_id (pr_entry r))
          (completed_receipt (pr_now r) (stored_mutation_result receipt False None)) (cf_mutation_journal (pd_cfg p)) \<rparr>,
        sv_recent = pd_recent p, sv_polling = polling' \<rparr>"
    using assms unfolding commit_poll_def Let_def by (elim rbind_InrE) (auto split: if_splits)
  have "receipt = poll_receipt (mj_id (pr_entry r)) (pd_result p)"
    using r unfolding poll_response_def Let_def by (elim rbind_InrE) simp
  then show "sv_recent server' = pd_recent p" "cf_wallets (sv_cfg server') = cf_wallets (pd_cfg p)"
    "\<exists>stored. py_eq (PDict stored) (PDict (poll_receipt (mj_id (pr_entry r)) (pd_result p)))
      \<and> cf_mutation_journal (sv_cfg server') = replace_first (\<lambda>e. mj_id e = mj_id (pr_entry r)) (completed_receipt (pr_now r) stored)
          (cf_mutation_journal (pd_cfg p))" using eq by (auto simp: s)
qed

text \<open>The poll a route runs, on the configuration that holds its reservation.\<close>

definition route_poll :: "poll_feeds \<Rightarrow> (nat \<Rightarrow> pyfloat) \<Rightarrow> copy_registry \<Rightarrow> poll_request \<Rightarrow> poll_server \<Rightarrow> nat \<Rightarrow> app_config \<Rightarrow> polled res" where
  "route_poll feeds clock registry r server n cfg = poll_wallet_activity feeds clock
     (\<lambda>cfg result recent. rbind (poll_response (mj_id (pr_entry r))
       (dset ''last_polled_at'' (PFloat (pr_polled_at r)) (sv_polling server)) registry cfg result recent) (\<lambda>_. Inr ()))
     \<lparr> op_limit = n, op_advance_seen = True, op_max_batch_items = int WALLET_POLL_BATCH_ITEMS \<rparr> cfg registry (sv_recent server)"

lemma wallet_poll_route_Inr:
  assumes "wallet_poll_route feeds clock registry save r server = Inr (server', reply)"
  shows "(\<exists>status code message details. reply = Refused status code message details \<and> server' = server)
    \<or> (\<exists>n cfg acked p response. poll_limit (pr_payload r) = Inr n
        \<and> acknowledge_receipt (pr_now r) (oget (pr_payload r) ''acknowledge_receipt_id'') (sv_cfg server) = Inr acked
        \<and> unacknowledged_receipts acked < MAX_UNACKNOWLEDGED_WALLET_POLL_RECEIPTS
        \<and> append_mutation_journal (pr_entry r) acked = Inr cfg
        \<and> route_poll feeds clock registry r server n cfg = Inr p \<and> oget (pd_result p) ''problems'' = PList []
        \<and> commit_poll r registry (dset ''last_polled_at'' (PFloat (pr_polled_at r)) (sv_polling server)) p = Inr (server', response)
        \<and> save (sv_cfg server') = Inr () \<and> reply = Delivered response)"
proof -
  let ?polling = "dset ''last_polled_at'' (PFloat (pr_polled_at r)) (sv_polling server)"
  obtain n acked where n: "poll_limit (pr_payload r) = Inr n"
    and acked: "acknowledge_receipt (pr_now r) (oget (pr_payload r) ''acknowledge_receipt_id'') (sv_cfg server) = Inr acked"
    and rest: "(if MAX_UNACKNOWLEDGED_WALLET_POLL_RECEIPTS \<le> unacknowledged_receipts acked
     then Inr (server, receipts_full ''Unacknowledged wallet activity receipts are full; acknowledge a received batch before polling again.''
       [(''max_unacknowledged_receipts'', PInt (int MAX_UNACKNOWLEDGED_WALLET_POLL_RECEIPTS))])
     else case append_mutation_journal (pr_entry r) acked of
       Inl _ \<Rightarrow> Inr (server, receipts_full ''The durable journal has no removable capacity; acknowledge received wallet batches or reconcile unresolved operations.'' [])
     | Inr cfg \<Rightarrow>
       case route_poll feeds clock registry r server n cfg of
         Inl e \<Rightarrow> rbind (failed_poll e) (\<lambda>reply. Inr (server, reply))
       | Inr p \<Rightarrow>
         if oget (pd_result p) ''problems'' \<noteq> PList []
         then Inr (server, Refused 503 ''wallet_poll_incomplete''
           ''Wallet source history is incomplete; delivery cursors were left unchanged.''
           [(''problems'', oget (pd_result p) ''problems''), (''has_more'', PBool True), (''remaining_activity'', PNone)])
         else
           rbind (commit_poll r registry ?polling p) (\<lambda>(server', response).
           rbind (save (sv_cfg server')) (\<lambda>_. Inr (server', Delivered response)))) = Inr (server', reply)"
    using assms unfolding wallet_poll_route_def route_poll_def Let_def by (elim rbind_InrE)
  show ?thesis
  proof (cases "MAX_UNACKNOWLEDGED_WALLET_POLL_RECEIPTS \<le> unacknowledged_receipts acked")
    case True
    then show ?thesis using rest by (auto simp: receipts_full_def)
  next
    case False
    show ?thesis
    proof (cases "append_mutation_journal (pr_entry r) acked")
      case (Inl e)
      then show ?thesis using rest False by (auto simp: receipts_full_def)
    next
      case (Inr cfg)
      show ?thesis
      proof (cases "route_poll feeds clock registry r server n cfg")
        case (Inl e)
        then show ?thesis using rest False Inr by (auto simp: rbind_eq_Inr failed_poll_def split: if_splits)
      next
        case p: (Inr p)
        show ?thesis
        proof (cases "oget (pd_result p) ''problems'' = PList []")
          case True
          then obtain response where "commit_poll r registry ?polling p = Inr (server', response)" "save (sv_cfg server') = Inr ()" "reply = Delivered response"
            using rest False Inr p by (auto simp: rbind_eq_Inr)
          then show ?thesis using n acked False Inr p True by (intro disjI2) auto
        next
          case False': False
          then show ?thesis using rest False Inr p by auto
        qed
      qed
    qed
  qed
qed

end
