(* ===== verification/Activity_Theorems.thy ===== *)
theory Activity_Theorems
  imports Web_Polling_Laws
begin

text \<open>
  Properties of wallet activity: what the readers return of a history and when they return, that a
  poll neither loses nor repeats a fill, and that its cursors and its receipt are saved together.
\<close>

section \<open>Histories\<close>

text \<open>C19: Whatever the sizes of page, window and budget, a history read in time windows is returned
  complete, in its own order and without repetition, or the read fails: splitting an overfull window
  loses no fill and duplicates none.\<close>

theorem window_read_is_complete:
  assumes "collect_polymarket_activity loader expired since latest page_size maximum_items maximum_requests offset_ceiling = Inr items"
    and "history_ok H" "serves_windows (max 1 (min page_size 500)) H loader"
  shows "items = during (max 1 since) latest H"
  by (rule collect_polymarket_activity_complete[OF assms])

definition windows_of :: "nat \<Rightarrow> obj list \<Rightarrow> window_loader" where
  "windows_of ps H n a b off = Inr (PList (map PDict (take ps (drop off (during a b H)))))"

lemma windows_of_serves: "serves_windows ps H (windows_of ps H)"
  by (simp add: serves_windows_def windows_of_def)

definition demo_fill :: "string \<Rightarrow> int \<Rightarrow> obj" where
  "demo_fill k t = [(''activityId'', PStr k), (''timestamp'', PInt t)]"

definition demo_history :: "obj list" where
  "demo_history = [demo_fill ''c'' 9, demo_fill ''b'' 7, demo_fill ''a'' 5]"

lemma demo_history_ok: "history_ok demo_history"
  by code_simp

lemma demo_during: "during (max 1 6) 10 demo_history = [demo_fill ''c'' 9, demo_fill ''b'' 7]"
  by code_simp

lemma demo_window_read:
  "collect_polymarket_activity (windows_of (max 1 (min 25 500)) demo_history) (\<lambda>_. False) 6 10 25 50000 200 5000
     = Inr [demo_fill ''c'' 9, demo_fill ''b'' 7]"
  using collect_polymarket_activity_ends[OF demo_history_ok windows_of_serves, where expired = "\<lambda>_. False" and since = 6 and latest = 10
      and page_size = 25 and maximum_items = 50000 and maximum_requests = 200 and offset_ceiling = 5000]
  unfolding demo_during by simp

theorem window_read_is_complete_witness: "[demo_fill ''c'' 9, demo_fill ''b'' 7] = during (max 1 6) 10 demo_history"
  by (rule window_read_is_complete[OF demo_window_read demo_history_ok windows_of_serves])



text \<open>A history read with cursors is every row of every page up to the page that says it is the
  last, within the requested times, ordered, without repetition and within the capacity.\<close>

theorem cursor_read_is_exhaustive:
  assumes "collect_polymarket_activity_v2 loader expired since latest page_size maximum_items maximum_requests = Inr items"
  shows "feed_rows_from (max 1 (min page_size 1000)) loader 0 None items \<and> fills_ok items
    \<and> length items \<le> maximum_items \<and> (\<forall>x \<in> set items. max 1 since \<le> item_time x \<and> item_time x \<le> latest)"
proof (intro conjI)
  let ?q = "\<lparr> q_lower = max 1 since, q_upper = latest, q_size = max 1 (min page_size 1000), q_maximum = maximum_items \<rparr>"
  have r: "read_cursors ?q loader expired maximum_requests 0 None [] v2_start = Inr items"
    using assms by (auto simp: collect_polymarket_activity_v2_def Let_def split: if_splits)
  have start: "v2_read_ok ?q v2_start" by (simp add: v2_read_ok_def v2_start_def)
  obtain rows s' where "feed_rows_from (q_size ?q) loader 0 None rows" "items = v2_results v2_start @ rows" "v2_results s' = items" "v2_read_ok ?q s'"
    using read_cursors_complete[OF r start] by blast
  then show "feed_rows_from (max 1 (min page_size 1000)) loader 0 None items" "length items \<le> maximum_items"
    "\<forall>x \<in> set items. max 1 since \<le> item_time x \<and> item_time x \<le> latest" by (auto simp: v2_read_ok_def v2_start_def)
  show "fills_ok items" by (rule collect_v2_ok[OF assms])
qed

definition demo_page :: "obj list \<Rightarrow> pyval \<Rightarrow> pyval" where
  "demo_page rows next_cursor = PDict [(''data'', PList (map PDict rows)), (''pagination'', PDict [(''next_cursor'', next_cursor)])]"

definition demo_cursors :: cursor_loader where
  "demo_cursors n c = Inr (if c = None then demo_page [demo_fill ''c'' 9, demo_fill ''b'' 7] (PStr ''p2'')
     else demo_page [demo_fill ''a'' 5] PNone)"

lemma demo_cursor_read: "collect_polymarket_activity_v2 demo_cursors (\<lambda>_. False) 1 10 25 50 500 = Inr demo_history"
  by code_simp

theorem cursor_read_is_exhaustive_witness: "feed_rows_from (max 1 (min 25 1000)) demo_cursors 0 None demo_history"
  by (rule cursor_read_is_exhaustive[OF demo_cursor_read, THEN conjunct1])

text \<open>C21: A recent feed is read back to the cursor: what the reader returns is the newest part of the
  history and contains every fill at or after the cursor, or the reader refuses.\<close>

theorem recent_read_reaches_the_cursor:
  assumes "history_ok H" "serves_recent H loader" "collect_adapter_activity loader expired since now page_size = Inr items"
  shows "\<exists>k. items = take k H \<and> (\<forall>x \<in> set H. since \<le> item_time x \<longrightarrow> x \<in> set items)"
  by (rule read_recent_covers[OF assms(1,2) assms(3)[unfolded collect_adapter_activity_def]])

definition recent_of :: "obj list \<Rightarrow> recent_loader" where
  "recent_of H n k = Inr \<lparr> fp_rows = PList (map PDict (take k H)), fp_complete = None, fp_contiguous = None \<rparr>"

lemma recent_of_serves: "serves_recent H (recent_of H)"
  by (simp add: serves_recent_def recent_of_def)

lemma demo_recent_read: "collect_adapter_activity (recent_of demo_history) (\<lambda>_. False) 8 100 1
    = Inr [demo_fill ''c'' 9, demo_fill ''b'' 7]"
  by code_simp

theorem recent_read_reaches_the_cursor_witness:
  "\<exists>k. [demo_fill ''c'' 9, demo_fill ''b'' 7] = take k demo_history
     \<and> (\<forall>x \<in> set demo_history. 8 \<le> item_time x \<longrightarrow> x \<in> set [demo_fill ''c'' 9, demo_fill ''b'' 7])"
  by (rule recent_read_reaches_the_cursor[OF demo_history_ok recent_of_serves demo_recent_read])

section \<open>Identities\<close>

text \<open>Two amounts that are decimal numerals have the same text in an identity exactly when they are
  the same number, however they are written.\<close>

theorem amounts_have_one_identity:
  assumes "decimal_of (strip (if v = PNone then [] else py_str v)) = Some d"
    and "decimal_of (strip (if w = PNone then [] else py_str w)) = Some d'"
  shows "identity_number v = identity_number w \<longleftrightarrow> decimal_value d = decimal_value d'"
  by (simp add: identity_number_canonical[OF assms(1)] identity_number_canonical[OF assms(2)] canonical_text_iff)

theorem amounts_have_one_identity_witness: "identity_number (PStr ''0.50'') = identity_number (PStr ''5e-1'')"
  by (subst amounts_have_one_identity[where d = "(False, 50, -2)" and d' = "(False, 5, -1)"])
    (code_simp, code_simp, simp add: decimal_value_def pow10_def)

section \<open>Polling\<close>

text \<open>C8: A poll neither loses nor repeats a fill. There are the fills it consumed, in order: the wanted
  ones are the delivered events, and for every enabled wallet the fills consumed, followed by what a
  second scan of the same history finds with the saved cursor, are exactly what the first scan found.\<close>

theorem poll_neither_loses_nor_repeats:
  assumes "poll_wallet_activity feeds clock validator opts cfg registry recent = Inr p" "oget (pd_result p) ''problems'' = PList []"
    and "op_advance_seen opts" "require_selected_market cfg ''Wallet polling'' = Inr m"
    and "\<And>i w. (i, w) \<in> set (enabled_wallets cfg) \<Longrightarrow> ledger_agrees feeds (op_limit opts) m i w"
  shows "\<exists>D E. oget (pd_result p) ''activity'' = PList (map PDict (rev E))
     \<and> map event_key E = map cd_key (filter (wanted_of (cf_wallets cfg)) D)
     \<and> (\<forall>(i, w) \<in> set (enabled_wallets cfg).
          resumes feeds (op_limit opts) m i w (cf_wallets (pd_cfg p) ! i) (map cd_item (of_wallet i D)))"
  by (rule poll_resumes[OF assms])

definition demo_wallet :: wallet_watch where
  "demo_wallet = \<lparr> ww_wallet = PStr ''0xabc'', ww_display_name = PStr ''a'', ww_enabled = True, ww_id = PStr ''w1'',
     ww_last_seen_ts = 0, ww_last_seen_tx = PStr [], ww_seen_activity_keys = [], ww_activity_key_timestamps = [],
     ww_activity_cursor_market_id = ''polymarket'', ww_activity_cursors = [], ww_only_market_slug = PStr ''m'' \<rparr>"

definition demo_config :: app_config where
  "demo_config = \<lparr> cf_alerts = [], cf_alert_events = [], cf_paper_trades = [], cf_wallets = [demo_wallet],
     cf_copy_activity_outbox = [], cf_mutation_journal = [],
     cf_copytrading = \<lparr> ct_enabled = False, ct_live = False, ct_follow_wallet = [], ct_follow_wallets = [], ct_scale = Fin 1,
       ct_max_usdc_per_trade = Fin 25, ct_slippage = Fin 0, ct_allow_sells = False, ct_conflict_guard = True, ct_conflict_window_seconds = 300 \<rparr>,
     cf_markets = [(''polymarket'', \<lparr> mc_market_id = ''polymarket'', mc_enabled = True, mc_settings = [] \<rparr>)],
     cf_selected_market_id = ''polymarket'', cf_theme = Light, cf_ui_design = Classic \<rparr>"

definition demo_feeds :: poll_feeds where
  "demo_feeds = \<lparr> pf_recent = Some (\<lambda>_. recent_of [demo_fill ''a'' 5]), pf_cursors = (\<lambda>_ _ _. value_error []),
     pf_expired = (\<lambda>_ _. False), pf_now = (\<lambda>_. 100), pf_control = (\<lambda>_. Inr ()) \<rparr>"

definition demo_registry :: copy_registry where
  "demo_registry = (\<lambda>_ _. Inr \<lparr> ad_capabilities = default_capabilities, ad_display_name = ''demo'', ad_get_price = (\<lambda>_. value_error []),
     ad_place_paper_order = (\<lambda>_. value_error []), ad_bids = (\<lambda>_. value_error []), ad_preflight_live_order = (\<lambda>_ _. value_error []) \<rparr>)"

definition demo_options :: poll_options where
  "demo_options = \<lparr> op_limit = 25, op_advance_seen = True, op_max_batch_items = 1 \<rparr>"

text \<open>A poll that consumes a fill of another market.\<close>

definition demo_gathered :: gathered where
  "demo_gathered = \<lparr> ga_observed = 1, ga_candidates = [new_candidate 0 (demo_fill ''a'' 5)], ga_wanted = 0, ga_problem = None \<rparr>"

definition demo_moved :: wallet_watch where
  "demo_moved = demo_wallet\<lparr> ww_last_seen_ts := 5, ww_seen_activity_keys := [''activity-id:a''],
     ww_activity_key_timestamps := [(''activity-id:a'', 5)] \<rparr>"

definition demo_delivered :: delivery where
  "demo_delivered = (poll_start (demo_config\<lparr> cf_wallets := [demo_moved] \<rparr>) [])\<lparr> dl_filtered := 1 \<rparr>"

definition demo_polled :: polled where
  "demo_polled = \<lparr> pd_cfg = dl_cfg demo_delivered, pd_recent = [], pd_result = poll_result 1 [] demo_delivered \<rparr>"

lemma small_response:
  "length (json_indented 0 (PDict (poll_result n [] s))) \<le> 1000 \<Longrightarrow> json_finite (PDict (poll_result n [] s))
    \<Longrightarrow> poll_preflight (\<lambda>_ _ _. Inr ()) n s = Inr ()"
  by (simp add: poll_preflight_def Let_def fits_bytes_def MAX_MUTATION_RESULT_BYTES_def MAX_HTTP_RESPONSE_BYTES_def del: json_indented.simps json_finite.simps)

lemma demo_responses: "poll_preflight (\<lambda>_ _ _. Inr ()) 1 (poll_start demo_config []) = Inr ()"
  "poll_preflight (\<lambda>_ _ _. Inr ()) 1 demo_delivered = Inr ()"
  by (rule small_response; code_simp)+

lemma demo_collect: "collect_adapter_activity (recent_of [demo_fill ''a'' 5]) (\<lambda>_. False) 0 100 25 = Inr [demo_fill ''a'' 5]"
  by code_simp

lemma demo_read: "read_wallet demo_feeds 25 0 0 0 = Inr [demo_fill ''a'' 5]"
  by (simp add: read_wallet_def demo_feeds_def demo_collect POLL_MAXIMUM_ITEMS_def)

lemma demo_scan: "scan_wallet demo_feeds demo_wallet 0 no_cursor [demo_fill ''a'' 5]
    = Inr (Some \<lparr> sc_seen = [''activity-id:a''], sc_new = [new_candidate 0 (demo_fill ''a'' 5)], sc_wanted = 0 \<rparr>)"
  by code_simp

lemma demo_gather: "gather demo_feeds ''polymarket'' 25 demo_config = Inr demo_gathered"
proof -
  have "cursor_for_market demo_wallet ''polymarket'' = no_cursor" by (simp add: cursor_for_market_def demo_wallet_def no_cursor_def)
  moreover have "cu_last_seen_ts no_cursor = 0" by (simp add: no_cursor_def)
  moreover have "enabled_wallets demo_config = [(0, demo_wallet)]" by (simp add: enabled_wallets_def demo_config_def demo_wallet_def)
  moreover have "pf_control demo_feeds c = Inr ()" for c by (simp add: demo_feeds_def)
  ultimately show ?thesis by (simp add: gather_def gather_wallet_def demo_read demo_scan demo_gathered_def)
qed

lemma demo_remember: "remember_activity demo_wallet (demo_fill ''a'' 5) ''activity-id:a'' ''polymarket'' = Inr demo_moved"
  by code_simp

lemma demo_unwanted: "\<not> wanted demo_wallet (demo_fill ''a'' 5)" "\<not> wanted demo_moved (demo_fill ''a'' 5)"
  by code_simp+

lemma demo_market: "require_selected_market demo_config ''Wallet polling'' = Inr ''polymarket''"
  by code_simp

lemma demo_key: "activity_key (demo_fill ''a'' 5) = ''activity-id:a''"
  by code_simp

lemma demo_poll_Inr: "poll_wallet_activity demo_feeds (\<lambda>_. Fin 0) (\<lambda>_ _ _. Inr ()) demo_options demo_config demo_registry []
    = Inr demo_polled" "oget (pd_result demo_polled) ''problems'' = PList []"
proof -
  let ?x = "\<lparr> px_market = ''polymarket'', px_registry = demo_registry, px_clock = \<lambda>_. Fin 0, px_validator = \<lambda>_ _ _. Inr (),
      px_checks = \<lambda>_. Inr (), px_advance = True, px_batch = 1 \<rparr>"
  have start: "(poll_start demo_config [])\<lparr> dl_remaining := 0 \<rparr> = poll_start demo_config []" by (simp add: poll_start_def)
  have wallets: "cf_wallets demo_config = [demo_wallet]" by (simp add: demo_config_def)
  have "deliver_event ?x 0 (new_candidate 0 (demo_fill ''a'' 5)) (poll_start demo_config []) = Inr demo_delivered"
    using demo_remember demo_unwanted(2) demo_responses(2)
    by (simp add: deliver_event_def consume_def new_candidate_def poll_start_def wallets demo_key with_wallet_def
      check_response_def demo_delivered_def)
  then have "deliver ?x (delivery_order (ga_candidates demo_gathered)) (poll_start demo_config []) = Inr demo_delivered"
    using demo_unwanted(1) by (simp add: deliver_def delivery_order_def demo_gathered_def deliver_candidate_def poll_start_def wallets new_candidate_def)
  then show "poll_wallet_activity demo_feeds (\<lambda>_. Fin 0) (\<lambda>_ _ _. Inr ()) demo_options demo_config demo_registry [] = Inr demo_polled"
    using demo_responses start demo_gather
    by (simp add: poll_wallet_activity_def poll_body_def demo_market demo_options_def demo_registry_def copy_adapter_for_market_def
      WALLET_POLL_BATCH_ITEMS_def check_response_def demo_polled_def demo_gathered_def demo_delivered_def poll_start_def demo_feeds_def)
  show "oget (pd_result demo_polled) ''problems'' = PList []" by (simp add: demo_polled_def poll_result_def oget_def)
qed

lemma demo_advance: "op_advance_seen demo_options"
  by (simp add: demo_options_def)

lemma demo_ledger: "(i, w) \<in> set (enabled_wallets demo_config) \<Longrightarrow> ledger_agrees demo_feeds (op_limit demo_options) ''polymarket'' i w"
  by (auto simp: ledger_agrees_def enabled_wallets_def demo_config_def demo_wallet_def cursor_for_market_def cursor_ok_def agrees_def)

theorem poll_neither_loses_nor_repeats_witness:
  "\<exists>D E. oget (pd_result demo_polled) ''activity'' = PList (map PDict (rev E))
     \<and> map event_key E = map cd_key (filter (wanted_of (cf_wallets demo_config)) D)
     \<and> (\<forall>(i, w) \<in> set (enabled_wallets demo_config).
          resumes demo_feeds (op_limit demo_options) ''polymarket'' i w (cf_wallets (pd_cfg demo_polled) ! i) (map cd_item (of_wallet i D)))"
  by (rule poll_neither_loses_nor_repeats[OF demo_poll_Inr demo_advance demo_market demo_ledger])



text \<open>C18: What a poll delivers is bounded and was checked as a whole: at most the batch size of events, a
  finite JSON text of at most 256 KiB, and the caller's check of the very state it publishes.\<close>

theorem poll_batch_is_bounded:
  assumes "poll_wallet_activity feeds clock validator opts cfg registry recent = Inr p" "oget (pd_result p) ''problems'' = PList []"
    and "op_advance_seen opts"
  shows "(\<exists>E. oget (pd_result p) ''activity'' = PList (map PDict E) \<and> int (length E) \<le> op_max_batch_items opts)
    \<and> length (json_indented 0 (PDict (pd_result p))) \<le> 256 * 1024 \<and> json_finite (PDict (pd_result p))
    \<and> validator (pd_cfg p) (pd_result p) (pd_recent p) = Inr ()
    \<and> pd_cfg p = cfg\<lparr> cf_wallets := cf_wallets (pd_cfg p) \<rparr>"
  by (intro conjI poll_bounded[OF assms] poll_changes_only_wallets(1)[OF assms])

theorem poll_batch_is_bounded_witness: "length (json_indented 0 (PDict (pd_result demo_polled))) \<le> 256 * 1024"
  by (rule poll_batch_is_bounded[OF demo_poll_Inr demo_advance, THEN conjunct2, THEN conjunct1])


definition demo_entry :: journal_entry where
  "demo_entry = \<lparr> mj_key_hash = ''k'', mj_method = ''POST'', mj_path = ''/api/wallets/poll'', mj_request_hash = ''h'', mj_live = False,
     mj_state = Pending, mj_response_status = 0, mj_response = [], mj_outcome_code = [], mj_outcome_message = [], mj_id = ''e1'',
     mj_created_at = 1, mj_updated_at = 1, mj_replay_authorized_at = 0 \<rparr>"

definition demo_server :: poll_server where
  "demo_server = \<lparr> sv_cfg = demo_config, sv_recent = [], sv_polling = [] \<rparr>"

definition demo_request :: poll_request where
  "demo_request = \<lparr> pr_payload = [], pr_entry = demo_entry, pr_now = 1, pr_polled_at = Fin 1 \<rparr>"

text \<open>A poll whose deadline passes before it publishes.\<close>

definition late_feeds :: poll_feeds where
  "late_feeds = demo_feeds\<lparr> pf_control := (\<lambda>c. if c = ScopeExit then raise RequestDeadlineExceeded ''late'' else Inr ()) \<rparr>"

lemma demo_late_poll: "wallet_poll_route late_feeds (\<lambda>_. Fin 0) demo_registry (\<lambda>_. Inr ()) demo_request demo_server
    = Inr (demo_server, Refused 503 ''wallet_poll_budget_exhausted''
        ''Wallet polling exceeded its aggregate work budget; cursors were left unchanged.'' [])"
  by (simp add: wallet_poll_route_def demo_request_def demo_server_def poll_limit_def safe_float_def oget_def acknowledge_receipt_def
    unacknowledged_receipts_def demo_config_def append_mutation_journal_def capacity_defs poll_wallet_activity_def WALLET_POLL_BATCH_ITEMS_def
    late_feeds_def failed_poll_def rat_trunc_def)


end
