(* ===== verification/Web_Wallets_Laws.thy ===== *)
theory Web_Wallets_Laws
  imports Web_Wallets Models_Copy_Laws
begin

text \<open>
  Laws of activity identities and watched wallets: a normalized identity is canonical, in the
  normalization and in the stored copy settings, and the handlers keep the tracked wallets distinct.
\<close>

section \<open>Canonical identities\<close>

lemma is_space_ascii: "is_space c \<Longrightarrow> \<not> is_lower_alnum c \<and> c \<notin> {CHR ''.'', CHR ''_'', CHR ''-''}"
  by (auto simp: is_space_def is_lower_alnum_def is_digit_def)

lemma username_char: "is_username_char c \<Longrightarrow> \<not> is_space c \<and> lower_char c = c"
  by (auto simp: is_username_char_def is_space_def is_lower_alnum_def is_digit_def lower_char_def Let_def)

lemma lower_username: "list_all is_username_char s \<Longrightarrow> lower s = s"
  using username_char by (induction s) (auto simp: lower_def)

lemma manifold_username: "is_manifold_username s \<Longrightarrow> s \<noteq> [] \<and> list_all is_username_char s"
  by (auto simp: is_manifold_username_def is_username_char_def split: list.splits)

lemma strip_manifold:
  assumes "is_manifold_username u"
  shows "strip (''manifold:'' @ u) = ''manifold:'' @ u" "strip u = u"
proof -
  have u: "u \<noteq> []" "list_all is_username_char u" using manifold_username[OF assms] by auto
  then have ends: "\<not> is_space (hd u)" "\<not> is_space (last u)" using username_char by (auto simp: list_all_iff)
  show "strip u = u" by (rule strip_no_space_ends[OF u(1) ends])
  have "\<not> is_space (hd (''manifold:'' @ u))" "last (''manifold:'' @ u) = last u" using u(1) by (simp_all add: is_space_def)
  then show "strip (''manifold:'' @ u) = ''manifold:'' @ u" using ends(2) by (intro strip_no_space_ends) simp_all
qed

lemma lower_manifold: "is_manifold_username u \<Longrightarrow> lower (''manifold:'' @ u) = ''manifold:'' @ u"
  using lower_username manifold_username by (simp add: lower_append) (simp add: lower_def lower_char_def)

lemma solana_char: "c \<in> set SOLANA_ALPHABET \<Longrightarrow> \<not> is_space c"
  by (auto simp: SOLANA_ALPHABET_def is_space_def)

lemma strip_solana_address: "v \<noteq> [] \<Longrightarrow> list_all (\<lambda>c. c \<in> set SOLANA_ALPHABET) v \<Longrightarrow> strip v = v"
  using solana_char by (intro strip_no_space_ends) (auto simp: list_all_iff)

lemma normalize_solana_stable:
  assumes "normalize_solana_identity raw = Some w"
  shows "normalize_solana_identity w = Some w" "strip w = w" "stored_identity w = w" "w \<noteq> []"
proof -
  obtain v where v: "w = ''solana:'' @ v" "32 \<le> length v" "length v \<le> 44" "list_all (\<lambda>c. c \<in> set SOLANA_ALPHABET) v"
    "\<not> length (takeWhile (\<lambda>c. c = CHR ''1'') v) + byte_length (foldl (\<lambda>n c. n * 58 + solana_index c) 0 v) \<noteq> 32"
    using assms by (auto simp: normalize_solana_identity_def Let_def split: if_splits)
  have "v \<noteq> []" using v(2) by auto
  then have s: "strip v = v" using v(4) by (rule strip_solana_address)
  then show strip: "strip w = w" using strip_solana[of v] by (simp add: v(1) del: append.simps)
  have l: "startswith (lower w) ''solana:''" "after_colon w = v" by (simp_all add: v(1) del: append.simps)
  show "normalize_solana_identity w = Some w"
    unfolding normalize_solana_identity_def Let_def strip using l v s by (simp del: startswith.simps)
  show "stored_identity w = w" using l s strip v(1) by (simp add: stored_identity_def Let_def)
  show "w \<noteq> []" by (simp add: v(1))
qed

lemma hex_lower: "is_ascii_hex c \<Longrightarrow> is_ascii_hex (lower_char c) \<and> \<not> is_space (lower_char c)"
  by (auto simp: is_ascii_hex_def lower_char_def is_digit_def is_space_def Let_def)

lemma normalize_wallet_stable:
  assumes "normalize_wallet raw = Some w"
  shows "normalize_wallet w = Some w" "strip w = w" "stored_identity w = w" "w \<noteq> []"
proof -
  obtain h where t: "strip raw = ''0x'' @ h" "length h = 40" "list_all is_ascii_hex h" "w = lower (''0x'' @ h)"
  proof (rule that[of "drop 2 (strip raw)"])
    have t: "length (strip raw) = 42" "take 2 (strip raw) = ''0x''" "list_all is_ascii_hex (drop 2 (strip raw))" "w = lower (strip raw)"
      using assms by (auto simp: normalize_wallet_def is_wallet_address_def Let_def split: if_splits)
    then show "strip raw = ''0x'' @ drop 2 (strip raw)" by (metis append_take_drop_id)
    then show "w = lower (''0x'' @ drop 2 (strip raw))" using t(4) by simp
  qed (use assms in \<open>auto simp: normalize_wallet_def is_wallet_address_def Let_def split: if_splits\<close>)
  have w: "w = ''0x'' @ lower h" by (simp add: t(4) lower_append) (simp add: lower_def lower_char_def)
  have h: "list_all (\<lambda>c. is_ascii_hex c \<and> \<not> is_space c) (lower h)" using t(3) hex_lower by (simp add: lower_def list_all_iff)
  have "lower h \<noteq> []" using t(2) by (metis length_lower list.size(3) zero_neq_numeral)
  then have "\<not> is_space (last w)" "\<not> is_space (hd w)" using h by (simp_all add: w list_all_iff is_space_def)
  then show strip: "strip w = w" by (intro strip_no_space_ends) (simp_all add: w)
  have "lower w = w" by (simp add: t(4))
  moreover have "is_wallet_address w" using h t(2) unfolding is_wallet_address_def strip Let_def by (simp add: w list_all_iff)
  ultimately show "normalize_wallet w = Some w" by (simp add: normalize_wallet_def strip) (simp add: w)
  show "stored_identity w = w" using strip \<open>lower w = w\<close> by (simp add: stored_identity_def) (simp add: w)
  show "w \<noteq> []" by (simp add: w)
qed

lemma normalize_identity_stable:
  assumes "normalize_activity_identity market_id raw = Some w"
  shows "normalize_activity_identity market_id (PStr w) = Some w \<and> stored_identity w = w \<and> w \<noteq> []"
proof -
  let ?m = "identity_market market_id" and ?v = "strip (py_str (py_or raw (PStr [])))"
  consider (manifold) "?m = ''manifold''" | (solana) "?m \<in> {''metadao'', ''dflow''}" | (evm) "?m \<notin> {''manifold'', ''metadao'', ''dflow''}" by blast
  then show ?thesis
  proof cases
    case manifold
    then obtain u where u: "is_manifold_username u" "w = ''manifold:'' @ u"
      using assms by (auto simp: normalize_activity_identity_def Let_def split: if_splits)
    have low: "lower u = u" using lower_username manifold_username[OF u(1)] by blast
    have "strip w = w" "lower w = w" "w \<noteq> []" using strip_manifold(1) lower_manifold u by auto
    moreover have "drop 9 w = u" "startswith w ''manifold:''" "\<not> startswith w ''solana:''" by (simp_all add: u(2))
    moreover have "py_str (py_or (PStr w) (PStr [])) = w" by (simp add: py_or_def py_str_def u(2))
    ultimately show ?thesis
      using manifold strip_manifold(2)[OF u(1)] u low
      by (simp add: normalize_activity_identity_def stored_identity_def Let_def del: startswith.simps append_Cons)
  next
    case solana
    then have n: "normalize_solana_identity ?v = Some w" using assms by (auto simp: normalize_activity_identity_def Let_def split: if_splits)
    note st = normalize_solana_stable[OF n]
    then have "py_str (py_or (PStr w) (PStr [])) = w" by (simp add: py_or_def py_str_def)
    then show ?thesis using solana st by (auto simp: normalize_activity_identity_def Let_def)
  next
    case evm
    then have n: "normalize_wallet ?v = Some w" using assms by (auto simp: normalize_activity_identity_def Let_def split: if_splits)
    note st = normalize_wallet_stable[OF n]
    then have "py_str (py_or (PStr w) (PStr [])) = w" by (simp add: py_or_def py_str_def)
    then show ?thesis using evm st by (auto simp: normalize_activity_identity_def Let_def)
  qed
qed

section \<open>Distinct watches\<close>

definition watches_ok :: "app_config \<Rightarrow> bool" where
  "watches_ok cfg \<longleftrightarrow> distinct (map ww_wallet (cf_wallets cfg)) \<and> distinct (map ww_id (cf_wallets cfg))"

lemma wallet_fields_identity:
  "wallet_fields_from_payload payload existing m = Inr f \<Longrightarrow> normalize_activity_identity m (PStr (wf_wallet f)) = Some (wf_wallet f)"
  using normalize_identity_stable by (auto simp: wallet_fields_from_payload_def split: option.splits if_splits)

lemma replace_first_map:
  "distinct (map g xs) \<Longrightarrow> replace_first (\<lambda>x. g x = k) f xs = map (\<lambda>x. if g x = k then f x else x) xs"
proof (induction xs)
  case (Cons x xs)
  then have "g x = k \<Longrightarrow> map (\<lambda>x. if g x = k then f x else x) xs = xs" by (intro map_idI) (auto simp: image_iff)
  then show ?case using Cons by simp
qed simp

lemma add_keeps_watches:
  assumes "add_wallet_watch uid cfg payload = Inr (cfg', w)" "watches_ok cfg" "PStr uid \<notin> set (map ww_id (cf_wallets cfg))"
  shows "watches_ok cfg'" "cf_wallets cfg' = cf_wallets cfg @ [w]"
proof -
  obtain f where "w = new_wallet uid f" "\<not> list_ex (\<lambda>v. ww_wallet v = ww_wallet w) (cf_wallets cfg)"
    "cfg' = cfg\<lparr> cf_wallets := cf_wallets cfg @ [w] \<rparr>"
    using assms(1) by (auto simp: add_wallet_watch_def Let_def rbind_eq_Inr split: if_splits)
  then show "watches_ok cfg'" "cf_wallets cfg' = cf_wallets cfg @ [w]"
    using assms(2,3) by (auto simp: watches_ok_def list_ex_iff new_wallet_def)
qed

lemma update_keeps_watches:
  assumes "update_wallet_watch cfg wallet_id payload = Inr (cfg', w)" "watches_ok cfg"
  shows "watches_ok cfg'" "\<exists>f. cf_wallets cfg' = map (\<lambda>v. if ww_id v = ww_id w then edited_wallet f v else v) (cf_wallets cfg)"
proof -
  let ?k = "PStr (strip wallet_id)"
  obtain v f where v: "find_wallet cfg wallet_id = Inr v" and w: "w = edited_wallet f v"
    and fresh: "\<not> list_ex (\<lambda>u. ww_wallet u = ww_wallet w \<and> ww_id u \<noteq> ww_id w)
        (replace_first (\<lambda>w. ww_id w = ?k) (edited_wallet f) (cf_wallets cfg))"
    and cfg': "cfg' = cfg\<lparr> cf_wallets := replace_first (\<lambda>w. ww_id w = ?k) (edited_wallet f) (cf_wallets cfg) \<rparr>"
    using assms(1) by (auto simp: update_wallet_watch_def Let_def rbind_eq_Inr split: if_splits)
  have ids: "distinct (map ww_id (cf_wallets cfg))" using assms(2) by (simp add: watches_ok_def)
  have id_w: "ww_id w = ?k" using v by (auto simp: w edited_wallet_def find_wallet_def find_Some_iff split: option.splits)
  let ?e = "\<lambda>v. if ww_id v = ?k then edited_wallet f v else v"
  have ws: "cf_wallets cfg' = map ?e (cf_wallets cfg)" by (simp add: cfg' replace_first_map[OF ids])
  have id_e: "ww_id (?e v) = ww_id v" for v by (simp add: edited_wallet_def)
  have "ww_wallet (?e a) \<noteq> ww_wallet (?e b)" if ab: "a \<in> set (cf_wallets cfg)" "b \<in> set (cf_wallets cfg)" "ww_id a \<noteq> ww_id b" for a b
  proof -
    have not_w: "ww_wallet c \<noteq> ww_wallet w" if "c \<in> set (cf_wallets cfg)" "ww_id c \<noteq> ?k" for c
    proof -
      have "?e c \<in> set (map ?e (cf_wallets cfg))" using that(1) unfolding set_map by (rule imageI)
      then have "c \<in> set (map ?e (cf_wallets cfg))" unfolding if_not_P[OF that(2)] .
      then have "\<not> (ww_wallet c = ww_wallet w \<and> ww_id c \<noteq> ww_id w)"
        using fresh[unfolded replace_first_map[OF ids] list_ex_iff] by (rule_tac notI) (erule notE, rule bexI)
      then show ?thesis using that(2) id_w by simp
    qed
    have e: "ww_wallet (edited_wallet f c) = ww_wallet w" for c by (simp add: w edited_wallet_def)
    have "a = b" if "ww_wallet a = ww_wallet b" using that assms(2) ab(1,2) by (auto simp: watches_ok_def distinct_map inj_on_def)
    then show ?thesis using not_w[OF ab(1)] not_w[OF ab(2)] ab(3) e by (auto split: if_splits)
  qed
  then have "inj_on (\<lambda>v. ww_wallet (?e v)) (set (cf_wallets cfg))"
    using ids by (metis (no_types, lifting) distinct_map inj_on_def)
  then show "watches_ok cfg'" using ids by (simp add: watches_ok_def ws comp_def id_e distinct_map)
  show "\<exists>f. cf_wallets cfg' = map (\<lambda>v. if ww_id v = ww_id w then edited_wallet f v else v) (cf_wallets cfg)"
    using ws id_w by auto
qed

lemma delete_keeps_watches:
  "delete_wallet_watch cfg wallet_id = Inr (cfg', w) \<Longrightarrow> watches_ok cfg \<Longrightarrow>
    watches_ok cfg' \<and> cf_wallets cfg' = filter (\<lambda>v. ww_id v \<noteq> ww_id w) (cf_wallets cfg)"
  by (auto simp: delete_wallet_watch_def rbind_eq_Inr watches_ok_def distinct_map_filter)

end
