(* ===== verification/Web_Copy_Laws.thy ===== *)
theory Web_Copy_Laws
  imports Web_Copy Web_Wallets_Laws
begin

text \<open>
  Laws of copy trading: what a settings patch may change, which trades a preview accepts and how their
  size and price are bounded, and that the conflict guard lets one wallet at a time trade a token.
\<close>

section \<open>The settings patch\<close>

lemma dget_dupdate_other: "k \<notin> set (keys e) \<Longrightarrow> dget (dupdate d e) k = dget d k"
  by (induction d e rule: dupdate.induct) auto

lemma given_values_keys: "set (keys (given_values payload names)) \<subseteq> {k \<in> set names. has_key payload k}"
  by (auto simp: given_values_def List.map_filter_def has_key_def)

lemma follow_identity_canonical:
  assumes "follow_identity m raw ws = Inr ws'" "distinct ws" "\<forall>w \<in> set ws. normalize_activity_identity m (PStr w) = Some w"
  shows "distinct ws' \<and> (\<forall>w \<in> set ws'. normalize_activity_identity m (PStr w) = Some w)"
  using assms normalize_identity_stable by (auto simp: follow_identity_def split: pyval.splits option.splits if_splits)

lemma wallets_from_copy_payload_canonical:
  assumes "wallets_from_copy_payload payload existing m = Inr ws"
  shows "distinct ws" "\<forall>w \<in> set ws. normalize_activity_identity m (PStr w) = Some w"
proof -
  obtain raw where r: "rfold (follow_identity m) raw [] = Inr ws"
    using assms unfolding wallets_from_copy_payload_def
    by (elim rbind_InrE) (auto simp: rbind_eq_Inr split: option.splits if_splits)
  have "distinct ws \<and> (\<forall>w \<in> set ws. normalize_activity_identity m (PStr w) = Some w)"
    by (rule rfold_invariant[OF r]) (use follow_identity_canonical in auto)
  then show "distinct ws" "\<forall>w \<in> set ws. normalize_activity_identity m (PStr w) = Some w" by auto
qed

text \<open>The flags that turn copying on, live and two-sided.\<close>

definition copy_flags :: "string list" where
  "copy_flags = [''enabled'', ''live'', ''allow_sells'', ''conflict_guard'']"

definition flag_of :: "copy_settings \<Rightarrow> string \<Rightarrow> bool" where
  "flag_of s k = (if k = ''enabled'' then ct_enabled s else if k = ''live'' then ct_live s
     else if k = ''allow_sells'' then ct_allow_sells s else ct_conflict_guard s)"

lemma copy_flagsE:
  assumes "k \<in> set copy_flags"
  obtains "k = ''enabled''" | "k = ''live''" | "k = ''allow_sells''" | "k = ''conflict_guard''"
  using assms unfolding copy_flags_def list.set insert_iff empty_iff by blast

lemma flag_of_simps [simp]: "flag_of s ''enabled'' = ct_enabled s" "flag_of s ''live'' = ct_live s"
  "flag_of s ''allow_sells'' = ct_allow_sells s" "flag_of s ''conflict_guard'' = ct_conflict_guard s"
  by (simp_all add: flag_of_def)

lemma validated_risk_flags:
  assumes "validated_risk d = Inr r"
  shows "oget_or d ''enabled'' (PBool False) = PBool (cr_enabled r)" "oget_or d ''live'' (PBool False) = PBool (cr_live r)"
    "oget_or d ''allow_sells'' (PBool False) = PBool (cr_allow_sells r)" "oget_or d ''conflict_guard'' (PBool True) = PBool (cr_conflict_guard r)"
  using assms unfolding validated_risk_def by (elim rbind_InrE, simp only: sum.inject config_bool_Inr, hypsubst, simp)+

lemma from_dict_flags:
  assumes "copy_settings_from_dict d = Inr s" "k \<in> set copy_flags"
  shows "oget_or d k (PBool (k = ''conflict_guard'')) = PBool (flag_of s k)"
proof -
  obtain r where r: "validated_risk d = Inr r" "ct_enabled s = cr_enabled r" "ct_live s = cr_live r"
    "ct_allow_sells s = cr_allow_sells r" "ct_conflict_guard s = cr_conflict_guard r"
    using assms(1) unfolding copy_settings_from_dict_def Let_def by (elim rbind_InrE, simp only: sum.inject, hypsubst, simp)
  show ?thesis by (rule copy_flagsE[OF assms(2)]; hypsubst; simp add: r validated_risk_flags[OF r(1)])
qed

lemma to_dict_flags:
  assumes "copy_settings_to_dict s = Inr d" "k \<in> set copy_flags"
  shows "dget d k = Some (PBool (flag_of s k))"
proof -
  obtain r where r: "validated_risk (copy_settings_asdict s) = Inr r"
    using assms(1) unfolding copy_settings_to_dict_def by (elim rbind_InrE)
  then have d: "dget d ''enabled'' = Some (PBool (cr_enabled r))" "dget d ''live'' = Some (PBool (cr_live r))"
    "dget d ''allow_sells'' = Some (PBool (cr_allow_sells r))" "dget d ''conflict_guard'' = Some (PBool (cr_conflict_guard r))"
    using assms(1) r unfolding copy_settings_to_dict_def by (simp_all add: Let_def) (hypsubst, simp)+
  have "cr_enabled r = ct_enabled s" "cr_live r = ct_live s" "cr_allow_sells r = ct_allow_sells s" "cr_conflict_guard r = ct_conflict_guard s"
    using validated_risk_flags[OF r] by (simp_all add: copy_settings_asdict_def oget_or_def)
  with d show ?thesis by (rule_tac copy_flagsE[OF assms(2)]) (simp_all only: flag_of_simps)
qed

lemma from_dict_follow_wallets:
  assumes "copy_settings_from_dict d = Inr s" "dget d ''follow_wallets'' = Some (PList (map PStr ws))"
    "dget d ''follow_wallet'' = Some (PStr (case ws of [] \<Rightarrow> [] | w # _ \<Rightarrow> w))"
    "distinct ws" "\<forall>w \<in> set ws. stored_identity w = w \<and> w \<noteq> []"
  shows "ct_follow_wallets s = ws"
proof -
  let ?h = "case ws of [] \<Rightarrow> [] | w # _ \<Rightarrow> w"
  have h: "stored_identity ?h = ?h" using assms(5) by (cases ws) (simp_all add: stored_identity_def)
  have ids: "map stored_identity (?h # ws) = ?h # ws" using h assms(5) by (simp add: map_idI)
  have "rmap identity_value (PStr ?h # map PStr ws) = Inr (?h # ws)" using identity_values[of "?h # ws"] ids by simp
  moreover have "[] \<notin> set ws" using assms(5) by blast
  then have "foldl add_wallet [] (?h # ws) = ws" by (rule follow_wallets_same[OF assms(4)])
  ultimately show ?thesis
    using assms(1-3) unfolding copy_settings_from_dict_def
    by (elim rbind_InrE) (simp add: oget_or_def raw_follow_wallets_def Let_def rbind_eq_Inr del: rmap.simps foldl_Cons, elim exE conjE, hypsubst, simp)
qed

lemma copy_settings_from_payload_spec:
  assumes p: "copy_settings_from_payload payload existing m = Inr s"
  shows "copy_settings_ok s" "wallets_from_copy_payload payload existing m = Inr (ct_follow_wallets s)"
    and "\<And>k. k \<in> set copy_flags \<Longrightarrow> \<not> has_key payload k \<Longrightarrow> flag_of s k = flag_of existing k"
proof -
  obtain ws written pct where ws: "wallets_from_copy_payload payload existing m = Inr ws"
    and written: "copy_settings_to_dict existing = Inr written"
    and r: "copy_settings_from_dict (dset ''follow_wallets'' (PList (map PStr ws))
          (dset ''follow_wallet'' (PStr (case ws of [] \<Rightarrow> [] | w # _ \<Rightarrow> w))
            (case pct of None \<Rightarrow> dupdate (dpop ''copy_percentage'' written) (given_values payload copied_fields)
             | Some p \<Rightarrow> (let d = dset ''copy_percentage'' p (dupdate (dpop ''copy_percentage'' written) (given_values payload copied_fields))
                 in if has_key payload ''scale'' then d else dpop ''scale'' d)))) = Inr s"
    using p unfolding copy_settings_from_payload_def Let_def by (elim rbind_InrE)
  let ?base = "dupdate (dpop ''copy_percentage'' written) (given_values payload copied_fields)"
  let ?data = "case pct of None \<Rightarrow> ?base
      | Some p \<Rightarrow> (let d = dset ''copy_percentage'' p ?base in if has_key payload ''scale'' then d else dpop ''scale'' d)"
  show "copy_settings_ok s" by (rule copy_settings_from_dict_ok[OF r])
  note c = wallets_from_copy_payload_canonical[OF ws]
  then have "\<forall>w \<in> set ws. stored_identity w = w \<and> w \<noteq> []" using normalize_identity_stable by blast
  then have "ct_follow_wallets s = ws" by (intro from_dict_follow_wallets[OF r _ _ c(1)]) simp_all
  then show "wallets_from_copy_payload payload existing m = Inr (ct_follow_wallets s)" using ws by simp
  fix k assume k: "k \<in> set copy_flags" "\<not> has_key payload k"
  have other: "k \<notin> {''follow_wallets'', ''follow_wallet'', ''copy_percentage'', ''scale''}" using k(1) by (auto simp: copy_flags_def)
  have "k \<notin> set (keys (given_values payload copied_fields))" using given_values_keys k(2) by blast
  then have "dget ?base k = Some (PBool (flag_of existing k))" using to_dict_flags[OF written k(1)] other by (simp add: dget_dupdate_other)
  then have "dget ?data k = Some (PBool (flag_of existing k))" using other by (auto simp: Let_def split: option.splits)
  then show "flag_of s k = flag_of existing k" using from_dict_flags[OF r k(1)] other by (simp add: oget_or_def)
qed

section \<open>Previews\<close>

lemma fle_of_flt: "flt x y \<Longrightarrow> fle x y"
  by (simp add: fle_def)

lemma fmin_le_left: "\<not> flt a (fmin a x)"
  by (cases a; cases x) (auto simp: fmin_def)

lemma fmax_ge_left: "\<not> flt (fmax a x) a"
  by (cases a; cases x) (auto simp: fmax_def)

lemma capped_size_Inr:
  assumes "capped_size budget price maximum sz = Inr (s, capped)"
  shows "s = sz \<or> flt s sz" "budget \<Longrightarrow> \<not> flt maximum s"
    and "\<not> budget \<Longrightarrow> flt (Fin 0) price \<Longrightarrow> \<exists>shares. fdiv maximum price = Inr shares \<and> \<not> flt shares s"
proof -
  have irr: "\<not> flt x x" for x by (cases x) simp_all
  show "s = sz \<or> flt s sz" "budget \<Longrightarrow> \<not> flt maximum s"
    "\<not> budget \<Longrightarrow> flt (Fin 0) price \<Longrightarrow> \<exists>shares. fdiv maximum price = Inr shares \<and> \<not> flt shares s"
    using assms irr by (auto simp: capped_size_def rbind_eq_Inr split: if_splits)
qed

text \<open>The bounds of an accepted copy: never larger than the scaled activity, never above the budget of
  a trade, and a price on the safe side of certainty.\<close>

definition terms_within :: "copy_settings \<Rightarrow> string \<Rightarrow> obj \<Rightarrow> copy_terms \<Rightarrow> bool" where
  "terms_within settings market_id activity t \<longleftrightarrow>
     (let maximum = fmax (flit (1 / 100)) (ct_max_usdc_per_trade settings) in
      \<not> fle (tm_size t) (Fin 0)
      \<and> (\<exists>raw. safe_float (oget activity ''size'') (Some (Fin 0)) = Inr raw
           \<and> (let scaled = fmax (Fin 0) (fmul (some_or (Fin 0) raw) (ct_scale settings)) in tm_size t = scaled \<or> flt (tm_size t) scaled))
      \<and> (if buy_budget_activity market_id (tm_side t) then \<not> flt maximum (tm_size t)
         else flt (Fin 0) (tm_limit_price t) \<longrightarrow> (\<exists>shares. fdiv maximum (tm_limit_price t) = Inr shares \<and> \<not> flt shares (tm_size t)))
      \<and> (market_id \<noteq> ''azuro'' \<longrightarrow> (if tm_side t = ''BUY'' then \<not> flt (Fin 1) (tm_limit_price t) else \<not> flt (tm_limit_price t) (Fin 0))))"

lemma copy_trade_sizing_within:
  assumes "copy_trade_sizing settings adapter m side token activity = Inr (Copy t)"
  shows "tm_side t = side" "tm_contract_id t = token" "terms_within settings m activity t"
proof -
  let ?mx = "fmax (flit (1 / 100)) (ct_max_usdc_per_trade settings)"
  obtain raw raw_price where raw: "safe_float (oget activity ''size'') (Some (Fin 0)) = Inr raw"
    and rest: "(let sz = fmax (Fin 0) (fmul (some_or (Fin 0) raw) (ct_scale settings));
         best = best_prices adapter m token; slippage = fmax (Fin 0) (fmin (ct_slippage settings) (Fin 1))
     in rbind (copy_limit_price m side (oget activity ''odds'') raw_price best slippage) (\<lambda>price.
     case price of
       None \<Rightarrow> Inr (Skipped ''Azuro activity has no valid decimal odds'')
     | Some limit_price \<Rightarrow>
       rbind (capped_size (buy_budget_activity m side) limit_price ?mx sz) (\<lambda>(sz, capped).
       Inr (if fle sz (Fin 0) then Skipped ''computed copy size is zero''
         else Copy \<lparr> tm_contract_id = token, tm_side = side, tm_size = sz, tm_limit_price = limit_price,
           tm_capped = capped, tm_slippage = slippage, tm_raw_price = raw_price, tm_best = best \<rparr>)))) = Inr (Copy t)"
    using assms unfolding copy_trade_sizing_def by (elim rbind_InrE)
  obtain price where price: "copy_limit_price m side (oget activity ''odds'') raw_price (best_prices adapter m token)
      (fmax (Fin 0) (fmin (ct_slippage settings) (Fin 1))) = Inr (Some price)"
    and cap: "rbind (capped_size (buy_budget_activity m side) price ?mx (fmax (Fin 0) (fmul (some_or (Fin 0) raw) (ct_scale settings)))) (\<lambda>(sz, capped).
       Inr (if fle sz (Fin 0) then Skipped ''computed copy size is zero''
         else Copy \<lparr> tm_contract_id = token, tm_side = side, tm_size = sz, tm_limit_price = price,
           tm_capped = capped, tm_slippage = fmax (Fin 0) (fmin (ct_slippage settings) (Fin 1)), tm_raw_price = raw_price,
           tm_best = best_prices adapter m token \<rparr>)) = Inr (Copy t)"
    using rest by (auto simp: Let_def rbind_eq_Inr split: option.splits)
  obtain sz capped where c: "capped_size (buy_budget_activity m side) price ?mx (fmax (Fin 0) (fmul (some_or (Fin 0) raw) (ct_scale settings))) = Inr (sz, capped)"
    and t: "\<not> fle sz (Fin 0)" "t = \<lparr> tm_contract_id = token, tm_side = side, tm_size = sz, tm_limit_price = price,
           tm_capped = capped, tm_slippage = fmax (Fin 0) (fmin (ct_slippage settings) (Fin 1)), tm_raw_price = raw_price,
           tm_best = best_prices adapter m token \<rparr>"
    using cap by (auto simp: rbind_eq_Inr split: if_splits)
  show "tm_side t = side" "tm_contract_id t = token" by (simp_all add: t(2))
  have "m \<noteq> ''azuro'' \<Longrightarrow> if side = ''BUY'' then \<not> flt (Fin 1) price else \<not> flt price (Fin 0)"
    using price fmin_le_left fmax_ge_left by (auto simp: copy_limit_price_def split: if_splits)
  then show "terms_within settings m activity t"
    using raw t(1) capped_size_Inr[OF c] by (simp add: terms_within_def t(2) Let_def)
qed

lemma copy_trade_decision_Copy:
  assumes "copy_trade_decision settings adapter m activity = Inr (Copy t)"
  shows "cap_copy_trading (ad_capabilities adapter)" "tm_side t \<in> {''BUY'', ''SELL''}" "tm_side t = ''SELL'' \<Longrightarrow> ct_allow_sells settings"
    and "\<exists>w \<in> set (normalized_follow_wallets settings). normalize_activity_identity m (oget activity ''proxyWallet'') = Some w"
    and "terms_within settings m activity t"
proof -
  have d: "cap_copy_trading (ad_capabilities adapter)"
    "\<not> (case normalize_activity_identity m (oget activity ''proxyWallet'') of None \<Rightarrow> True | Some w \<Rightarrow> w \<notin> set (normalized_follow_wallets settings))"
    "activity_side activity \<in> {''BUY'', ''SELL''}" "\<not> (activity_side activity = ''SELL'' \<and> \<not> ct_allow_sells settings)"
    and s: "copy_trade_sizing settings adapter m (activity_side activity) (strip (text_or activity ''asset'' ''contract_id'')) activity = Inr (Copy t)"
    using assms unfolding copy_trade_decision_def Let_def by (metis copy_decision.distinct(1) sum.inject(2))+
  show "cap_copy_trading (ad_capabilities adapter)" by (rule d(1))
  show "tm_side t \<in> {''BUY'', ''SELL''}" "tm_side t = ''SELL'' \<Longrightarrow> ct_allow_sells settings" "terms_within settings m activity t"
    using copy_trade_sizing_within[OF s] d by auto
  show "\<exists>w \<in> set (normalized_follow_wallets settings). normalize_activity_identity m (oget activity ''proxyWallet'') = Some w"
    using d(2) by (auto split: option.splits)
qed

lemma preview_status: "oget (skipped_preview r @ e) ''status'' = PStr ''skipped''" "oget (skipped_preview r) ''status'' = PStr ''skipped''"
  by (simp_all add: skipped_preview_def oget_def)

lemma accepted_preview_Inr:
  assumes "accepted_preview settings adapter m activity t = Inr preview"
  shows "oget preview ''order'' = PDict (order_terms_obj m t)" "oget preview ''live'' = PBool (ct_live settings)"
    and "\<not> ct_live settings \<Longrightarrow> oget preview ''message'' = PStr (simulation_message t)"
  using assms by (auto simp: accepted_preview_def rbind_eq_Inr Let_def oget_def)

lemma preview_accepted:
  assumes "copy_trade_preview_from_activity now cfg registry activity g = Inr (preview, g')" "oget preview ''status'' \<noteq> PStr ''skipped''"
  obtains m adapter t where "require_selected_market cfg ''Copy trading preview'' = Inr m" "copy_adapter_for_market cfg m registry = Inr adapter"
    and "ct_enabled (cf_copytrading cfg)" "copy_trade_decision (cf_copytrading cfg) adapter m activity = Inr (Copy t)"
    and "copy_trade_conflict_reason now (cf_copytrading cfg) activity g = Inr (None, g')"
    and "accepted_preview (cf_copytrading cfg) adapter m activity t = Inr preview"
proof -
  let ?s = "cf_copytrading cfg"
  obtain m where m: "require_selected_market cfg ''Copy trading preview'' = Inr m"
    using assms(1) unfolding copy_trade_preview_from_activity_def by (elim rbind_InrE)
  have en: "ct_enabled ?s"
    using assms m by (auto simp: copy_trade_preview_from_activity_def Let_def preview_status split: if_splits)
  obtain adapter d where ad: "copy_adapter_for_market cfg m registry = Inr adapter" "copy_trade_decision ?s adapter m activity = Inr d"
    and rest: "(case d of
         Skipped reason \<Rightarrow> Inr (skipped_preview reason, g)
       | Copy t \<Rightarrow>
         rbind (copy_trade_conflict_reason now ?s activity g) (\<lambda>(conflict, conflict_state).
         case conflict of
           Some reason \<Rightarrow> Inr (skipped_preview reason @ [(''conflict_guard'', PBool True)], conflict_state)
         | None \<Rightarrow>
           rbind (accepted_preview ?s adapter m activity t) (\<lambda>preview.
           Inr (preview, conflict_state)))) = Inr (preview, g')"
    using assms(1) m en by (auto simp: copy_trade_preview_from_activity_def Let_def rbind_eq_Inr)
  obtain t where t: "d = Copy t" using rest assms(2) by (cases d) (auto simp: preview_status)
  obtain c cs where c: "copy_trade_conflict_reason now ?s activity g = Inr (c, cs)"
    and rest2: "(case c of
           Some reason \<Rightarrow> Inr (skipped_preview reason @ [(''conflict_guard'', PBool True)], cs)
         | None \<Rightarrow> rbind (accepted_preview ?s adapter m activity t) (\<lambda>preview. Inr (preview, cs))) = Inr (preview, g')"
    using rest t by (auto simp: rbind_eq_Inr)
  have "c = None" using rest2 assms(2) by (cases c) (auto simp: preview_status)
  then show thesis using that[OF m ad(1) en] ad(2) t c rest2 by (auto simp: rbind_eq_Inr)
qed

section \<open>The conflict guard\<close>

text \<open>The accepted copies of a token, in the order of their times.\<close>

definition guarded_by :: "string \<Rightarrow> string \<Rightarrow> int \<Rightarrow> guard_state \<Rightarrow> bool" where
  "guarded_by key wallet since st \<longleftrightarrow> (\<exists>g. dget st key = Some g \<and> gd_wallet g = wallet \<and> since \<le> gd_timestamp g \<and> gd_timestamp g \<noteq> 0)"

lemma drop_stale_keeps:
  assumes "dict_ok st" "guarded_by key w since st" "window = 0 \<or> t - since \<le> window"
  shows "guarded_by key w since (drop_stale window t st)"
proof -
  obtain g where g: "dget st key = Some g" "gd_wallet g = w" "since \<le> gd_timestamp g" "gd_timestamp g \<noteq> 0"
    using assms(2) by (auto simp: guarded_by_def)
  have "(key, g) \<in> set st" using g(1) by (rule map_of_SomeD)
  then have "(key, g) \<in> set (drop_stale window t st)" using g(3,4) assms(3) by (auto simp: drop_stale_def)
  moreover have "dict_ok (drop_stale window t st)" using assms(1) by (simp add: drop_stale_def)
  ultimately have "dget (drop_stale window t st) key = Some g" by (simp add: dict_ok_mem)
  then show ?thesis using g by (auto simp: guarded_by_def)
qed

lemma conflict_reason_step:
  assumes "copy_trade_conflict_reason now s a (Some st) = Inr (r, Some st')" "ct_conflict_guard s" "dict_ok st"
    and "copy_trade_guard_key a \<noteq> []" "guard_time now a = Inr t" "t \<noteq> 0"
  shows "dict_ok st'"
    and "r = None \<Longrightarrow> guarded_by (copy_trade_guard_key a) (lowered_text a ''proxyWallet'') t st'"
    and "guarded_by key w since st \<Longrightarrow> ct_conflict_window_seconds s \<le> 0 \<or> t - since \<le> ct_conflict_window_seconds s \<Longrightarrow> since \<le> t
      \<Longrightarrow> guarded_by key w since st' \<and> (r = None \<longrightarrow> copy_trade_guard_key a = key \<longrightarrow> lowered_text a ''proxyWallet'' = w)"
proof -
  let ?k = "copy_trade_guard_key a" and ?w = "max 0 (ct_conflict_window_seconds s)"
  let ?st = "drop_stale ?w t st"
  let ?e = "\<lparr> gd_side = activity_side a, gd_wallet = lowered_text a ''proxyWallet'', gd_activity_key = activity_key a, gd_timestamp = t \<rparr>"
  have step: "(case dget ?st ?k of
               None \<Rightarrow> (None, Some (dset ?k ?e ?st))
             | Some g \<Rightarrow>
               if gd_wallet g = gd_wallet ?e then (None, Some (dset ?k ?e ?st))
               else if upper (gd_side g) \<noteq> [] \<and> upper (gd_side g) \<noteq> gd_side ?e
               then (Some (''conflict guard blocked opposite-side copy for the same token from '' @ gd_wallet g), Some ?st)
               else (Some (''conflict guard skipped duplicate same-token copy already accepted from '' @ gd_wallet g), Some ?st)) = (r, Some st')"
    using assms(1,2,4,5) unfolding copy_trade_conflict_reason_def Let_def by simp
  have ok: "dict_ok ?st" using assms(3) by (simp add: drop_stale_def)
  have cases: "r = None \<and> st' = dset ?k ?e ?st \<and> (case dget ?st ?k of None \<Rightarrow> True | Some g \<Rightarrow> gd_wallet g = lowered_text a ''proxyWallet'')
      \<or> r \<noteq> None \<and> st' = ?st"
    using step by (auto split: option.splits if_splits)
  then show "dict_ok st'" using ok by auto
  show "r = None \<Longrightarrow> guarded_by ?k (lowered_text a ''proxyWallet'') t st'" using cases assms(6) by (auto simp: guarded_by_def)
  assume g: "guarded_by key w since st" and inside: "ct_conflict_window_seconds s \<le> 0 \<or> t - since \<le> ct_conflict_window_seconds s" and le: "since \<le> t"
  have kept: "guarded_by key w since ?st" by (rule drop_stale_keeps[OF assms(3) g]) (use inside in auto)
  then have same: "?k = key \<Longrightarrow> r = None \<Longrightarrow> lowered_text a ''proxyWallet'' = w" using cases by (auto simp: guarded_by_def)
  show "guarded_by key w since st' \<and> (r = None \<longrightarrow> ?k = key \<longrightarrow> lowered_text a ''proxyWallet'' = w)"
  proof (cases "r = None")
    case True
    then have "st' = dset ?k ?e ?st" using cases by auto
    then have "guarded_by key w since st'" using kept same[OF _ True] le assms(6) by (cases "?k = key") (auto simp: guarded_by_def)
    then show ?thesis using same True by blast
  next
    case False
    then show ?thesis using cases kept by auto
  qed
qed

text \<open>A run of the guard over the activities of a batch: the verdict on each.\<close>

fun guard_run :: "pyfloat \<Rightarrow> copy_settings \<Rightarrow> obj list \<Rightarrow> guard_state \<Rightarrow> (obj \<times> bool) list res" where
  "guard_run now s [] st = Inr []"
| "guard_run now s (a # as) st =
     rbind (copy_trade_conflict_reason now s a (Some st)) (\<lambda>(r, st').
     rbind (guard_run now s as (case st' of None \<Rightarrow> st | Some x \<Rightarrow> x)) (\<lambda>vs. Inr ((a, r = None) # vs)))"

definition guardable :: "pyfloat \<Rightarrow> obj \<Rightarrow> int \<Rightarrow> bool" where
  "guardable now a t \<longleftrightarrow> copy_trade_guard_key a \<noteq> [] \<and> guard_time now a = Inr t \<and> t \<noteq> 0"

lemma conflict_reason_Some: "copy_trade_conflict_reason now s a (Some st) = Inr (r, st') \<Longrightarrow> \<exists>x. st' = Some x"
  by (auto simp: copy_trade_conflict_reason_def rbind_eq_Inr Let_def split: if_splits option.splits)

lemma guard_run_Cons:
  assumes "guard_run now s (a # as) st = Inr vs"
  obtains r st' vs' where "copy_trade_conflict_reason now s a (Some st) = Inr (r, Some st')" "guard_run now s as st' = Inr vs'"
    and "vs = (a, r = None) # vs'"
proof -
  obtain r x vs' where c: "copy_trade_conflict_reason now s a (Some st) = Inr (r, x)"
    and v: "guard_run now s as (case x of None \<Rightarrow> st | Some y \<Rightarrow> y) = Inr vs'" "vs = (a, r = None) # vs'"
    using assms by (auto simp: rbind_eq_Inr)
  obtain y where "x = Some y" using conflict_reason_Some[OF c] by blast
  then show thesis using that c v by simp
qed

lemma guard_run_holds:
  "guard_run now s as st = Inr vs \<Longrightarrow> ct_conflict_guard s \<Longrightarrow> dict_ok st \<Longrightarrow> guarded_by key w since st
    \<Longrightarrow> (\<And>a. a \<in> set as \<Longrightarrow> guardable now a (time a) \<and> since \<le> time a
          \<and> (ct_conflict_window_seconds s \<le> 0 \<or> time a - since \<le> ct_conflict_window_seconds s))
    \<Longrightarrow> (b, True) \<in> set vs \<Longrightarrow> copy_trade_guard_key b = key \<Longrightarrow> lowered_text b ''proxyWallet'' = w"
proof (induction as arbitrary: st vs)
  case (Cons a as)
  obtain r st' vs' where c: "copy_trade_conflict_reason now s a (Some st) = Inr (r, Some st')" "guard_run now s as st' = Inr vs'"
    and vs: "vs = (a, r = None) # vs'" by (rule guard_run_Cons[OF Cons.prems(1)])
  have a: "copy_trade_guard_key a \<noteq> []" "guard_time now a = Inr (time a)" "time a \<noteq> 0" "since \<le> time a"
    "ct_conflict_window_seconds s \<le> 0 \<or> time a - since \<le> ct_conflict_window_seconds s"
    using Cons.prems(5)[of a] by (auto simp: guardable_def)
  note step = conflict_reason_step[OF c(1) Cons.prems(2,3) a(1-3)]
  have kept: "guarded_by key w since st'" "r = None \<longrightarrow> copy_trade_guard_key a = key \<longrightarrow> lowered_text a ''proxyWallet'' = w"
    using step(3)[OF Cons.prems(4) a(5,4)] by auto
  show ?case
  proof (cases "(b, True) \<in> set vs'")
    case True
    then show ?thesis using Cons.IH[OF c(2) Cons.prems(2) step(1) kept(1)] Cons.prems(5,7) by simp
  next
    case False
    then show ?thesis using Cons.prems(6,7) kept(2) by (auto simp: vs)
  qed
qed simp

lemma guard_run_one_wallet:
  "guard_run now s as st = Inr (us @ (a, True) # ws) \<Longrightarrow> ct_conflict_guard s \<Longrightarrow> dict_ok st
    \<Longrightarrow> (\<And>c. c \<in> set as \<Longrightarrow> guardable now c (time c))
    \<Longrightarrow> (\<And>c. c \<in> fst ` set ws \<Longrightarrow> time a \<le> time c
          \<and> (ct_conflict_window_seconds s \<le> 0 \<or> time c - time a \<le> ct_conflict_window_seconds s))
    \<Longrightarrow> (b, True) \<in> set ws \<Longrightarrow> copy_trade_guard_key b = copy_trade_guard_key a
    \<Longrightarrow> lowered_text b ''proxyWallet'' = lowered_text a ''proxyWallet''"
proof (induction as arbitrary: st us)
  case (Cons x as)
  obtain r st' vs' where c: "copy_trade_conflict_reason now s x (Some st) = Inr (r, Some st')" "guard_run now s as st' = Inr vs'"
    and vs: "us @ (a, True) # ws = (x, r = None) # vs'" by (rule guard_run_Cons[OF Cons.prems(1)])
  have x: "copy_trade_guard_key x \<noteq> []" "guard_time now x = Inr (time x)" "time x \<noteq> 0"
    using Cons.prems(4)[of x] by (auto simp: guardable_def)
  note step = conflict_reason_step[OF c(1) Cons.prems(2,3) x]
  have fsts: "map fst vs = xs" if "guard_run now s xs st0 = Inr vs" for xs vs st0
    using that by (induction xs arbitrary: st0 vs) (auto elim!: guard_run_Cons simp del: guard_run.simps(2))
  show ?case
  proof (cases us)
    case Nil
    then have a: "x = a" "r = None" "vs' = ws" using vs by auto
    have "set as = fst ` set ws" using fsts[OF c(2)] a(3) by (metis set_map)
    then show ?thesis
      using guard_run_holds[OF c(2) Cons.prems(2) step(1) step(2)[OF a(2)], of time b] Cons.prems(4-7) a by auto
  next
    case (Cons u us')
    then have "guard_run now s as st' = Inr (us' @ (a, True) # ws)" using vs c(2) by simp
    then show ?thesis using Cons.IH Cons.prems(2,4-7) step(1) by simp
  qed
qed simp

end
