(* ===== verification/Copy_Theorems.thy ===== *)
theory Copy_Theorems
  imports Web_Copy_Laws
begin

text \<open>
  Properties of watched wallets and copy trading: canonical identities, distinct watches, what a
  settings patch can change, which trades a preview accepts and what the conflict guard excludes.
\<close>

section \<open>Watched wallets\<close>

text \<open>An accepted activity identity is canonical: normalizing it again gives the same text, and so
  does the normalization of the stored copy settings, so a followed wallet is found again after a
  restart.\<close>

theorem activity_identity_is_canonical:
  assumes "normalize_activity_identity market_id raw = Some w"
  shows "normalize_activity_identity market_id (PStr w) = Some w \<and> stored_identity w = w \<and> w \<noteq> []"
  by (rule normalize_identity_stable[OF assms])

theorem activity_identity_is_canonical_witness: "stored_identity ''manifold:alice'' = ''manifold:alice''"
  using activity_identity_is_canonical[of "''manifold''" "PStr '' Manifold: Alice''" "''manifold:alice''"] by code_simp

text \<open>C24: No two watches follow the same wallet or share an identifier: adding, editing and deleting a
  watch keep both distinct, and change no other watch.\<close>

theorem watches_stay_distinct:
  assumes "watches_ok cfg"
  shows "(add_wallet_watch uid cfg payload = Inr (cfg1, w) \<longrightarrow> PStr uid \<notin> set (map ww_id (cf_wallets cfg))
        \<longrightarrow> watches_ok cfg1 \<and> cf_wallets cfg1 = cf_wallets cfg @ [w])
    \<and> (update_wallet_watch cfg wallet_id payload = Inr (cfg2, w)
        \<longrightarrow> watches_ok cfg2 \<and> (\<exists>f. cf_wallets cfg2 = map (\<lambda>v. if ww_id v = ww_id w then edited_wallet f v else v) (cf_wallets cfg)))
    \<and> (delete_wallet_watch cfg wallet_id = Inr (cfg3, w)
        \<longrightarrow> watches_ok cfg3 \<and> cf_wallets cfg3 = filter (\<lambda>v. ww_id v \<noteq> ww_id w) (cf_wallets cfg))"
  using add_keeps_watches[of uid cfg payload cfg1 w] update_keeps_watches[of cfg wallet_id payload cfg2 w]
    delete_keeps_watches[of cfg wallet_id cfg3 w] assms by blast+

definition copy_wallet :: "string \<Rightarrow> string \<Rightarrow> wallet_watch" where
  "copy_wallet uid address = \<lparr> ww_wallet = PStr address, ww_display_name = PStr ''a'', ww_enabled = True, ww_id = PStr uid,
     ww_last_seen_ts = 0, ww_last_seen_tx = PStr [], ww_seen_activity_keys = [], ww_activity_key_timestamps = [],
     ww_activity_cursor_market_id = ''polymarket'', ww_activity_cursors = [], ww_only_market_slug = PStr [] \<rparr>"

definition copy_demo_settings :: copy_settings where
  "copy_demo_settings = \<lparr> ct_enabled = True, ct_live = False, ct_follow_wallet = ''manifold:alice'',
     ct_follow_wallets = [''manifold:alice''], ct_scale = Fin 1, ct_max_usdc_per_trade = Fin 25, ct_slippage = Fin 0,
     ct_allow_sells = False, ct_conflict_guard = True, ct_conflict_window_seconds = 300 \<rparr>"

definition copy_demo_config :: app_config where
  "copy_demo_config = \<lparr> cf_alerts = [], cf_alert_events = [], cf_paper_trades = [],
     cf_wallets = [copy_wallet ''w1'' ''manifold:alice'', copy_wallet ''w2'' ''manifold:bob''],
     cf_copy_activity_outbox = [], cf_mutation_journal = [], cf_copytrading = copy_demo_settings,
     cf_markets = [(''manifold'', \<lparr> mc_market_id = ''manifold'', mc_enabled = True, mc_settings = [] \<rparr>)],
     cf_selected_market_id = ''manifold'', cf_theme = Light, cf_ui_design = Classic \<rparr>"

theorem watches_stay_distinct_witness:
  "watches_ok (copy_demo_config\<lparr> cf_wallets := [copy_wallet ''w2'' ''manifold:bob''] \<rparr>)"
proof -
  have "watches_ok copy_demo_config" by code_simp
  moreover have "delete_wallet_watch copy_demo_config ''w1''
      = Inr (copy_demo_config\<lparr> cf_wallets := [copy_wallet ''w2'' ''manifold:bob''] \<rparr>, copy_wallet ''w1'' ''manifold:alice'')"
    by (simp add: delete_wallet_watch_def find_wallet_def copy_demo_config_def copy_wallet_def strip_def is_space_def)
  ultimately show ?thesis using watches_stay_distinct[THEN conjunct2, THEN conjunct2, rule_format] by blast
qed

section \<open>Settings\<close>

text \<open>A settings patch is validated and turns nothing on by itself: the new settings are well-formed,
  they follow distinct canonical identities of the selected market, and the switches for copying,
  live orders, sells and the guard keep their values unless the payload names them.\<close>

theorem copy_patch_is_validated:
  assumes "apply_copy_settings_patch cfg payload = Inr cfg'"
  shows "cfg' = cfg\<lparr> cf_copytrading := cf_copytrading cfg' \<rparr> \<and> copy_settings_ok (cf_copytrading cfg')
    \<and> (\<exists>m. require_selected_market cfg ''Copy trading settings'' = Inr m \<and> distinct (ct_follow_wallets (cf_copytrading cfg'))
      \<and> (\<forall>w \<in> set (ct_follow_wallets (cf_copytrading cfg')). normalize_activity_identity m (PStr w) = Some w))
    \<and> (\<forall>k \<in> set copy_flags. \<not> has_key payload k \<longrightarrow> flag_of (cf_copytrading cfg') k = flag_of (cf_copytrading cfg) k)"
proof (intro conjI)
  obtain m s where m: "require_selected_market cfg ''Copy trading settings'' = Inr m"
    and s: "copy_settings_from_payload payload (cf_copytrading cfg) m = Inr s" and cfg': "cfg' = cfg\<lparr> cf_copytrading := s \<rparr>"
    using assms by (auto simp: apply_copy_settings_patch_def rbind_eq_Inr)
  note spec = copy_settings_from_payload_spec[OF s]
  show "cfg' = cfg\<lparr> cf_copytrading := cf_copytrading cfg' \<rparr>" "copy_settings_ok (cf_copytrading cfg')"
    "\<forall>k \<in> set copy_flags. \<not> has_key payload k \<longrightarrow> flag_of (cf_copytrading cfg') k = flag_of (cf_copytrading cfg) k"
    using spec by (auto simp: cfg')
  show "\<exists>m. require_selected_market cfg ''Copy trading settings'' = Inr m \<and> distinct (ct_follow_wallets (cf_copytrading cfg'))
      \<and> (\<forall>w \<in> set (ct_follow_wallets (cf_copytrading cfg')). normalize_activity_identity m (PStr w) = Some w)"
    using m wallets_from_copy_payload_canonical[OF spec(2)] by (auto simp: cfg')
qed

lemma lower_strip_manifold: "lower (strip ''manifold'') = ''manifold''"
  by code_simp

lemma copy_demo_market: "require_selected_market copy_demo_config f = Inr ''manifold''"
  by (simp add: require_selected_market_def copy_demo_config_def require_market_enabled_def lower_strip_manifold Let_def)

lemma copy_demo_ok: "copy_settings_ok copy_demo_settings"
proof -
  have "stored_identity ''manifold:alice'' = ''manifold:alice''" by code_simp
  then show ?thesis by (simp add: copy_settings_ok_def copy_demo_settings_def probability_iff)
qed

lemma copy_demo_wallets: "wallets_from_copy_payload [(''enabled'', PBool False)] copy_demo_settings ''manifold'' = Inr [''manifold:alice'']"
  by code_simp

lemma copy_demo_patch: "\<exists>s. copy_settings_from_payload [(''enabled'', PBool False)] copy_demo_settings ''manifold'' = Inr s"
proof -
  let ?off = "copy_demo_settings\<lparr> ct_enabled := False \<rparr>"
  have ok: "copy_settings_ok ?off" using copy_demo_ok by (simp add: copy_settings_ok_def)
  let ?d = "copy_settings_asdict ?off @ []"
  have "dset ''follow_wallets'' (PList (map PStr [''manifold:alice''])) (dset ''follow_wallet'' (PStr ''manifold:alice'')
      (dupdate (dpop ''copy_percentage'' (copy_settings_written copy_demo_settings)) [(''enabled'', PBool False)])) = ?d"
    by (simp add: copy_settings_written_def copy_settings_asdict_def copy_demo_settings_def)
  moreover have "\<exists>s. copy_settings_from_dict ?d = Inr s"
  proof -
    have "validated_scale ?d = Inr (ct_scale ?off)"
      by (rule validated_scale_plain) (use ok in \<open>simp_all only: asdict_lookups copy_settings_ok_def map_of.simps\<close>)
    then have r: "validated_risk ?d = Inr (copy_risk_of ?off)" by (rule validated_risk_settings[OF ok]) (simp_all only: asdict_lookups)
    have ids: "rmap identity_value (PStr (ct_follow_wallet ?off) # map PStr (ct_follow_wallets ?off))
        = Inr (map stored_identity (ct_follow_wallet ?off # ct_follow_wallets ?off))"
      using identity_values[of "ct_follow_wallet ?off # ct_follow_wallets ?off"] by simp
    have args: "dataclass_args ''CopyTradeSettings'' copy_settings_fields [] (dpop ''copy_percentage'' ?d) = Inr ()"
      by (simp add: dataclass_args_Inr copy_settings_asdict_def copy_settings_fields_def)
    show ?thesis
      by (simp only: copy_settings_from_dict_def r rbind_Inr asdict_lookups raw_follow_wallets_def pyval.case ids args Let_def) blast
  qed
  moreover have "given_values [(''enabled'', PBool False)] copied_fields = [(''enabled'', PBool False)]"
    "payload_percentage [(''enabled'', PBool False)] = Inr None"
    by (simp_all add: given_values_def copied_fields_def payload_percentage_def percentage_aliases_def List.map_filter_def)
  ultimately show ?thesis
    by (simp add: copy_settings_from_payload_def copy_demo_wallets copy_settings_to_dict_written[OF copy_demo_ok] Let_def)
qed

theorem copy_patch_is_validated_witness:
  "\<exists>cfg'. apply_copy_settings_patch copy_demo_config [(''enabled'', PBool False)] = Inr cfg' \<and> copy_settings_ok (cf_copytrading cfg')"
proof -
  have "cf_copytrading copy_demo_config = copy_demo_settings" by (simp add: copy_demo_config_def)
  then obtain cfg' where cfg': "apply_copy_settings_patch copy_demo_config [(''enabled'', PBool False)] = Inr cfg'"
    using copy_demo_patch by (auto simp: apply_copy_settings_patch_def copy_demo_market)
  then show ?thesis using copy_patch_is_validated[OF cfg'] by blast
qed

section \<open>Previews\<close>

text \<open>C22: A preview accepts a trade only under the settings: copying is on, the venue has an official
  feed, the wallet is followed, a sell is allowed, and the order is not larger than the scaled
  activity or the budget of a trade, at a price that is at most certainty for a buy and not negative
  for a sell. In simulation its message says that nothing was placed.\<close>

theorem preview_respects_the_settings:
  assumes "copy_trade_preview_from_activity now cfg registry activity g = Inr (preview, g')" "oget preview ''status'' \<noteq> PStr ''skipped''"
  shows "\<exists>m adapter t. require_selected_market cfg ''Copy trading preview'' = Inr m \<and> copy_adapter_for_market cfg m registry = Inr adapter
     \<and> ct_enabled (cf_copytrading cfg) \<and> cap_copy_trading (ad_capabilities adapter)
     \<and> (\<exists>w \<in> set (normalized_follow_wallets (cf_copytrading cfg)). normalize_activity_identity m (oget activity ''proxyWallet'') = Some w)
     \<and> tm_side t \<in> {''BUY'', ''SELL''} \<and> (tm_side t = ''SELL'' \<longrightarrow> ct_allow_sells (cf_copytrading cfg))
     \<and> terms_within (cf_copytrading cfg) m activity t
     \<and> oget preview ''order'' = PDict (order_terms_obj m t) \<and> oget preview ''live'' = PBool (ct_live (cf_copytrading cfg))
     \<and> (\<not> ct_live (cf_copytrading cfg) \<longrightarrow> oget preview ''message'' = PStr (simulation_message t))"
proof -
  obtain m adapter t where m: "require_selected_market cfg ''Copy trading preview'' = Inr m" "copy_adapter_for_market cfg m registry = Inr adapter"
    "ct_enabled (cf_copytrading cfg)" and d: "copy_trade_decision (cf_copytrading cfg) adapter m activity = Inr (Copy t)"
    and p: "accepted_preview (cf_copytrading cfg) adapter m activity t = Inr preview"
    by (rule preview_accepted[OF assms])
  show ?thesis using m copy_trade_decision_Copy[OF d] accepted_preview_Inr[OF p] by blast
qed

text \<open>A fill of a followed wallet: two shares bought at the price one.\<close>

definition copy_demo_activity :: obj where
  "copy_demo_activity = [(''proxyWallet'', PStr ''manifold:alice''), (''side'', PStr ''buy''), (''asset'', PStr ''t1''),
     (''size'', PInt 2), (''price'', PInt 1), (''timestamp'', PInt 10)]"

definition copy_demo_adapter :: copy_adapter where
  "copy_demo_adapter = \<lparr> ad_capabilities = default_capabilities\<lparr> cap_copy_trading := True \<rparr>, ad_display_name = ''demo'',
     ad_get_price = (\<lambda>_. value_error []), ad_place_paper_order = (\<lambda>_. value_error []), ad_bids = (\<lambda>_. value_error []),
     ad_preflight_live_order = (\<lambda>_ _. value_error []) \<rparr>"

definition copy_demo_terms :: copy_terms where
  "copy_demo_terms = \<lparr> tm_contract_id = ''t1'', tm_side = ''BUY'', tm_size = Fin 2, tm_limit_price = Fin 1, tm_capped = False,
     tm_slippage = Fin 0, tm_raw_price = Some (Fin 1), tm_best = (None, None) \<rparr>"

lemma copy_demo_facts:
  "activity_side copy_demo_activity = ''BUY''" "strip (text_or copy_demo_activity ''asset'' ''contract_id'') = ''t1''"
  "normalize_activity_identity ''manifold'' (oget copy_demo_activity ''proxyWallet'') = Some ''manifold:alice''"
  "normalized_follow_wallets copy_demo_settings = [''manifold:alice'']" "buy_budget_activity ''manifold'' ''BUY''"
  by code_simp+

lemma copy_demo_decision: "copy_trade_decision copy_demo_settings copy_demo_adapter ''manifold'' copy_demo_activity = Inr (Copy copy_demo_terms)"
proof -
  have f: "float_of_int 2 = Inr (Fin 2)" "float_of_int 1 = Inr (Fin 1)" "to_float 2 = Fin 2"
    using float_of_int_small[of 2] float_of_int_small[of 1] to_float_numeral[of "num.Bit0 num.One"] by simp_all
  have "fl (1 / 100) \<le> 1" using fl_le[of "1 / 100" 1] f64_of_int[of 1] by simp
  then have mx: "fmax (flit (1 / 100)) (Fin 25) = Fin 25" by (simp add: fmax_def flit_def to_float_small)
  have "copy_trade_sizing copy_demo_settings copy_demo_adapter ''manifold'' ''BUY'' ''t1'' copy_demo_activity = Inr (Copy copy_demo_terms)"
    by (simp add: copy_trade_sizing_def copy_demo_activity_def oget_def safe_float_def f copy_demo_settings_def copy_demo_adapter_def
      copy_demo_terms_def best_prices_def copy_limit_price_def first_some_def some_or_def fmin_def fmax_def[of "Fin 0"] capped_size_def
      copy_demo_facts(5) mx Let_def)
  then show ?thesis
    using copy_demo_facts by (simp add: copy_trade_decision_def Let_def) (simp add: copy_demo_adapter_def)
qed

theorem preview_respects_the_settings_witness:
  "\<exists>preview t. copy_trade_preview_from_activity (Fin 1) copy_demo_config (\<lambda>_ _. Inr copy_demo_adapter) copy_demo_activity None = Inr (preview, None)
     \<and> oget preview ''order'' = PDict (order_terms_obj ''manifold'' t)"
proof -
  have cfg: "cf_copytrading copy_demo_config = copy_demo_settings" "ct_enabled copy_demo_settings" "\<not> ct_live copy_demo_settings"
    by (simp_all add: copy_demo_config_def copy_demo_settings_def)
  have odds: "safe_float (oget copy_demo_activity ''odds'') None = Inr None"
    by (simp add: copy_demo_activity_def oget_def safe_float_def)
  obtain preview where a: "accepted_preview copy_demo_settings copy_demo_adapter ''manifold'' copy_demo_activity copy_demo_terms = Inr preview"
      "oget preview ''status'' = PStr ''simulation''"
    using cfg(3) by (simp add: accepted_preview_def odds Let_def)
  have p: "copy_trade_preview_from_activity (Fin 1) copy_demo_config (\<lambda>_ _. Inr copy_demo_adapter) copy_demo_activity None
      = Inr (preview, None)" "oget preview ''status'' = PStr ''simulation''"
    using cfg a by (simp_all add: copy_trade_preview_from_activity_def copy_demo_market copy_adapter_for_market_def copy_demo_decision
      copy_trade_conflict_reason_def)
  obtain m t where "require_selected_market copy_demo_config ''Copy trading preview'' = Inr m" "oget preview ''order'' = PDict (order_terms_obj m t)"
    using preview_respects_the_settings[OF p(1)] p(2) by auto
  then show ?thesis using p(1) by (auto simp: copy_demo_market)
qed

text \<open>C23: Within a batch and its conflict window the guard lets one wallet trade a token: after an
  accepted copy, every later accepted copy of the same token, outcome and market is of the same
  wallet.\<close>

theorem conflict_guard_admits_one_wallet:
  assumes "guard_run now s as st = Inr (us @ (a, True) # ws)" "ct_conflict_guard s" "dict_ok st"
    and "\<And>c. c \<in> set as \<Longrightarrow> guardable now c (time c)"
    and "\<And>c. c \<in> fst ` set ws \<Longrightarrow> time a \<le> time c
          \<and> (ct_conflict_window_seconds s \<le> 0 \<or> time c - time a \<le> ct_conflict_window_seconds s)"
    and "(b, True) \<in> set ws" "copy_trade_guard_key b = copy_trade_guard_key a"
  shows "lowered_text b ''proxyWallet'' = lowered_text a ''proxyWallet''"
  by (rule guard_run_one_wallet[OF assms])

definition guard_activity :: "string \<Rightarrow> int \<Rightarrow> obj" where
  "guard_activity wallet t = [(''proxyWallet'', PStr wallet), (''side'', PStr ''BUY''), (''asset'', PStr ''t1''),
     (''activityId'', PStr ''a''), (''timestamp'', PInt t)]"

definition guard_batch :: "obj list" where
  "guard_batch = [guard_activity ''w'' 10, guard_activity ''v'' 11, guard_activity ''w'' 12]"

lemma guard_times: "guardable (Fin 1) (guard_activity w t) t" if "t \<in> {10, 11, 12}"
proof -
  have "float_of_int t = Inr (Fin (of_int t))" using that float_of_int_small[of t] by auto
  moreover have "copy_trade_guard_key (guard_activity w t) = ''t1''"
    by (simp add: copy_trade_guard_key_def lowered_text_def text_or_def guard_activity_def oget_def py_or_def py_str_def
      strip_def is_space_def lower_def lower_char_def Let_def)
  ultimately show ?thesis using that
    by (auto simp: guardable_def guard_time_def safe_float_def guard_activity_def oget_def)
qed

lemma guard_wallets: "lowered_text (guard_activity ''w'' t) ''proxyWallet'' = ''w''" "lowered_text (guard_activity ''v'' t) ''proxyWallet'' = ''v''"
  "activity_side (guard_activity w t) = ''BUY''"
  by (simp_all add: lowered_text_def activity_side_def text_or_def guard_activity_def oget_def py_or_def py_str_def
    strip_def is_space_def lower_def lower_char_def upper_def upper_char_def Let_def)

lemma guard_verdicts: "guard_run (Fin 1) copy_demo_settings guard_batch []
    = Inr ([] @ (guard_activity ''w'' 10, True) # [(guard_activity ''v'' 11, False), (guard_activity ''w'' 12, True)])"
proof -
  have g: "copy_trade_guard_key (guard_activity w 10) = ''t1''" "copy_trade_guard_key (guard_activity w 11) = ''t1''"
    "copy_trade_guard_key (guard_activity w 12) = ''t1''" for w
    by (simp_all add: copy_trade_guard_key_def lowered_text_def text_or_def guard_activity_def oget_def py_or_def py_str_def
      strip_def is_space_def lower_def lower_char_def Let_def)
  have t: "guard_time (Fin 1) (guard_activity w 10) = Inr 10" "guard_time (Fin 1) (guard_activity w 11) = Inr 11"
    "guard_time (Fin 1) (guard_activity w 12) = Inr 12" for w
    using guard_times by (auto simp: guardable_def)
  show ?thesis
    by (simp add: guard_batch_def copy_trade_conflict_reason_def g t guard_wallets copy_demo_settings_def drop_stale_def Let_def
      upper_def upper_char_def)
qed

theorem conflict_guard_admits_one_wallet_witness:
  "lowered_text (guard_activity ''w'' 12) ''proxyWallet'' = lowered_text (guard_activity ''w'' 10) ''proxyWallet''"
proof (rule conflict_guard_admits_one_wallet[OF guard_verdicts])
  let ?time = "\<lambda>a. case oget a ''timestamp'' of PInt t \<Rightarrow> t | _ \<Rightarrow> 0"
  show "c \<in> set guard_batch \<Longrightarrow> guardable (Fin 1) c (?time c)" for c
    using guard_times by (auto simp: guard_batch_def guard_activity_def oget_def)
  show "c \<in> fst ` set [(guard_activity ''v'' 11, False), (guard_activity ''w'' 12, True)] \<Longrightarrow> ?time (guard_activity ''w'' 10) \<le> ?time c
      \<and> (ct_conflict_window_seconds copy_demo_settings \<le> 0 \<or> ?time c - ?time (guard_activity ''w'' 10) \<le> ct_conflict_window_seconds copy_demo_settings)" for c
    by (auto simp: guard_activity_def oget_def copy_demo_settings_def)
  show "copy_trade_guard_key (guard_activity ''w'' 12) = copy_trade_guard_key (guard_activity ''w'' 10)"
    by (simp add: copy_trade_guard_key_def lowered_text_def text_or_def guard_activity_def oget_def)
qed (simp_all add: copy_demo_settings_def)

end
