(* ===== verification/Drawdown.thy ===== *)
theory Drawdown
  imports PyVal
begin

text \<open>
  Maximum drawdown of \<open>polymarket/drawdown.py\<close>: one pass over the sampled profit-and-loss points keeps,
  for every running peak, the lowest trough below it; the largest loss and the largest percentage are
  read off these episodes. The observed window starts at profit zero.
\<close>

section \<open>Episodes\<close>

record episode =
  ep_peak_value :: pyfloat
  ep_trough_value :: pyfloat
  ep_peak_timestamp :: pyval
  ep_trough_timestamp :: pyval

definition finite_input :: "pyfloat \<Rightarrow> pyfloat res" where
  "finite_input x = (if isfinite x then Inr x else value_error ''Drawdown inputs must be finite numbers.'')"

definition point_value :: "obj \<Rightarrow> pyfloat res" where
  "point_value point = (case dget point ''value'' of
       None \<Rightarrow> raise KeyError ''value'' | Some v \<Rightarrow> rbind (py_float v) finite_input)"

text \<open>The state of the pass. The active episode, which the code names as an object, is the last one
  of the list.\<close>

record drawdown_scan =
  dd_peak :: pyfloat
  dd_peak_ts :: pyval
  dd_episodes :: "episode list"
  dd_active :: bool

definition drawdown_start :: drawdown_scan where
  "drawdown_start = \<lparr> dd_peak = Fin 0, dd_peak_ts = PNone, dd_episodes = [], dd_active = False \<rparr>"

definition lower_trough :: "pyfloat \<Rightarrow> pyval \<Rightarrow> episode list \<Rightarrow> episode list" where
  "lower_trough x ts es = butlast es @ [(last es)\<lparr> ep_trough_value := x, ep_trough_timestamp := ts \<rparr>]"

definition drawdown_point :: "obj \<Rightarrow> drawdown_scan \<Rightarrow> drawdown_scan res" where
  "drawdown_point point s =
     rbind (point_value point) (\<lambda>x.
     let ts = oget point ''timestamp'' in
     Inr (if flt (dd_peak s) x then s\<lparr> dd_peak := x, dd_peak_ts := ts, dd_active := False \<rparr>
       else if flt x (dd_peak s) then
         (if \<not> dd_active s then s\<lparr> dd_active := True, dd_episodes := dd_episodes s @
             [\<lparr> ep_peak_value = dd_peak s, ep_trough_value = x, ep_peak_timestamp = dd_peak_ts s, ep_trough_timestamp = ts \<rparr>] \<rparr>
          else if flt x (ep_trough_value (last (dd_episodes s))) then s\<lparr> dd_episodes := lower_trough x ts (dd_episodes s) \<rparr>
          else s)
       else s))"

section \<open>Percentages\<close>

record pct_drawdown =
  pc_mdd_pct :: "pyfloat option"
  pc_drawdown_usd :: "pyfloat option"
  pc_peak_value :: "pyfloat option"
  pc_trough_value :: "pyfloat option"
  pc_peak_timestamp :: pyval
  pc_trough_timestamp :: pyval

definition pct_start :: "pyfloat option \<Rightarrow> pct_drawdown" where
  "pct_start base = \<lparr> pc_mdd_pct = (case base of None \<Rightarrow> None | Some b \<Rightarrow> if flt (Fin 0) b then Some (Fin 0) else None),
     pc_drawdown_usd = None, pc_peak_value = None, pc_trough_value = None, pc_peak_timestamp = PNone, pc_trough_timestamp = PNone \<rparr>"

definition episode_pct :: "pyfloat option \<Rightarrow> episode \<Rightarrow> pct_drawdown \<Rightarrow> pct_drawdown res" where
  "episode_pct base e r =
     rbind (finite_input (ep_peak_value e)) (\<lambda>peak.
     rbind (finite_input (ep_trough_value e)) (\<lambda>trough.
     if flt peak (Fin 0) \<or> flt peak trough then value_error ''Drawdown episodes must start at a nonnegative PnL peak.''
     else
       rbind (finite_input (fsub peak trough)) (\<lambda>loss.
       case base of
         None \<Rightarrow> Inr r
       | Some b \<Rightarrow>
         if fle b (Fin 0) then Inr r
         else
           rbind (finite_input (fadd b peak)) (\<lambda>denominator.
           rbind (fdiv loss denominator) (\<lambda>ratio.
           rbind (finite_input (fmul ratio (Fin 100))) (\<lambda>pct.
           Inr (case pc_mdd_pct r of
               Some m \<Rightarrow> if flt m pct then
                 \<lparr> pc_mdd_pct = Some pct, pc_drawdown_usd = Some loss, pc_peak_value = Some peak, pc_trough_value = Some trough,
                   pc_peak_timestamp = ep_peak_timestamp e, pc_trough_timestamp = ep_trough_timestamp e \<rparr> else r
             | None \<Rightarrow> r)))))))"

definition finite_base :: "pyfloat option \<Rightarrow> pyfloat option res" where
  "finite_base base = (case base of None \<Rightarrow> Inr None | Some b \<Rightarrow> rbind (finite_input b) (\<lambda>b. Inr (Some b)))"

definition percentage_drawdown :: "episode list \<Rightarrow> pyfloat option \<Rightarrow> pct_drawdown res" where
  "percentage_drawdown episodes equity_base_usd =
     rbind (finite_base equity_base_usd) (\<lambda>base. rfold (episode_pct base) episodes (pct_start base))"

section \<open>The drawdown\<close>

definition episode_loss :: "episode \<Rightarrow> pyfloat" where
  "episode_loss e = fsub (ep_peak_value e) (ep_trough_value e)"

text \<open>\<open>max(episodes, key=..., default=None)\<close>: the first of the largest losses.\<close>

fun largest_from :: "episode \<Rightarrow> episode list \<Rightarrow> episode" where
  "largest_from m [] = m"
| "largest_from m (e # es) = largest_from (if flt (episode_loss m) (episode_loss e) then e else m) es"

definition largest_episode :: "episode list \<Rightarrow> episode option" where
  "largest_episode es = (case es of [] \<Rightarrow> None | e # es' \<Rightarrow> Some (largest_from e es'))"

record drawdown =
  md_usd :: "pyfloat option"
  md_percentage :: pct_drawdown
  md_pct :: "pyfloat option"
  md_available :: bool
  md_maximum :: "episode option"
  md_episodes :: "episode list"

definition max_drawdown :: "obj list \<Rightarrow> pyfloat option \<Rightarrow> drawdown res" where
  "max_drawdown points equity_base_usd =
     rbind (rfold drawdown_point points drawdown_start) (\<lambda>s.
     rbind (percentage_drawdown (dd_episodes s) equity_base_usd) (\<lambda>percentage.
     let maximum = largest_episode (dd_episodes s); sampled = points \<noteq> [] in
     rbind (case maximum of
         Some e \<Rightarrow> rbind (finite_input (episode_loss e)) (\<lambda>x. Inr (Some x))
       | None \<Rightarrow> Inr (if sampled then Some (Fin 0) else None)) (\<lambda>usd.
     Inr \<lparr> md_usd = usd, md_percentage = percentage, md_pct = (if sampled then pc_mdd_pct percentage else None),
       md_available = sampled, md_maximum = maximum, md_episodes = dd_episodes s \<rparr>)))"

text \<open>The dictionary the function returns.\<close>

definition float_or_none :: "pyfloat option \<Rightarrow> pyval" where
  "float_or_none x = (case x of None \<Rightarrow> PNone | Some f \<Rightarrow> PFloat f)"

definition episode_obj :: "episode \<Rightarrow> obj" where
  "episode_obj e = [(''peak_value'', PFloat (ep_peak_value e)), (''trough_value'', PFloat (ep_trough_value e)),
     (''peak_timestamp'', ep_peak_timestamp e), (''trough_timestamp'', ep_trough_timestamp e)]"

definition drawdown_obj :: "drawdown \<Rightarrow> obj" where
  "drawdown_obj r = (let p = md_percentage r; of_maximum = (\<lambda>f. case md_maximum r of None \<Rightarrow> PNone | Some e \<Rightarrow> f e) in [
     (''mdd_usd'', float_or_none (md_usd r)), (''mdd_pct'', float_or_none (md_pct r)),
     (''pct_drawdown_usd'', float_or_none (pc_drawdown_usd p)), (''pct_peak_value'', float_or_none (pc_peak_value p)),
     (''pct_trough_value'', float_or_none (pc_trough_value p)), (''pct_peak_timestamp'', pc_peak_timestamp p),
     (''pct_trough_timestamp'', pc_trough_timestamp p), (''mdd_available'', PBool (md_available r)),
     (''peak_value'', of_maximum (\<lambda>e. PFloat (ep_peak_value e))), (''trough_value'', of_maximum (\<lambda>e. PFloat (ep_trough_value e))),
     (''peak_timestamp'', of_maximum ep_peak_timestamp), (''trough_timestamp'', of_maximum ep_trough_timestamp),
     (''drawdown_episodes'', PList (map (PDict \<circ> episode_obj) (md_episodes r))),
     (''drawdown_baseline'', PStr ''zero_pnl_at_start_of_observed_window'')])"

end
