(* ===== verification/Drawdown_Laws.thy ===== *)
theory Drawdown_Laws
  imports Drawdown
begin

text \<open>
  The episodes hold enough: the largest loss and the largest percentage over the episodes are those over
  all sampled points against their running peak, for every equity base. Rounding is monotone, so the
  lowest trough of a peak has the largest rounded loss.
\<close>

section \<open>The reference\<close>

text \<open>Every point with the highest value seen up to it, from zero.\<close>

fun sampled :: "rat \<Rightarrow> rat list \<Rightarrow> (rat \<times> rat) list" where
  "sampled p [] = []"
| "sampled p (q # qs) = (max p q, q) # sampled (max p q) qs"

definition sample_loss :: "rat \<times> rat \<Rightarrow> rat" where
  "sample_loss s = (case s of (a, c) \<Rightarrow> fl (a - c))"

definition sample_pct :: "rat \<Rightarrow> rat \<times> rat \<Rightarrow> rat" where
  "sample_pct b s = (case s of (a, c) \<Rightarrow> fl (fl (fl (a - c) / fl (b + a)) * 100))"

lemma sampled_bounds: "(a, c) \<in> set (sampled p qs) \<Longrightarrow> c \<in> set qs \<and> c \<le> a \<and> p \<le> a \<and> (a = p \<or> a \<in> set qs)"
  by (induction qs arbitrary: p) (fastforce simp: max_def split: if_splits)+

section \<open>The pass\<close>

definition scan_ok :: "(rat \<times> rat) list \<Rightarrow> rat \<Rightarrow> drawdown_scan \<Rightarrow> bool" where
  "scan_ok S p s \<longleftrightarrow> dd_peak s = Fin p
     \<and> (\<forall>e \<in> set (dd_episodes s). \<exists>a c. ep_peak_value e = Fin a \<and> ep_trough_value e = Fin c \<and> (a, c) \<in> set S \<and> c < a)
     \<and> (\<forall>(a, c) \<in> set S. c < a \<longrightarrow> (\<exists>e \<in> set (dd_episodes s). \<exists>d. ep_peak_value e = Fin a \<and> ep_trough_value e = Fin d \<and> d \<le> c))
     \<and> (dd_active s \<longrightarrow> dd_episodes s \<noteq> [] \<and> ep_peak_value (last (dd_episodes s)) = Fin p)"

lemma scan_ok_start: "scan_ok [] 0 drawdown_start"
  by (simp add: scan_ok_def drawdown_start_def)

lemma scan_ok_lower:
  assumes ok: "scan_ok S p s" and active: "dd_active s" and q: "flt (Fin q) (ep_trough_value (last (dd_episodes s)))" "q < p"
  shows "scan_ok (S @ [(p, q)]) p (s\<lparr> dd_episodes := lower_trough (Fin q) ts (dd_episodes s) \<rparr>)"
proof -
  let ?es = "dd_episodes s" and ?e = "(last (dd_episodes s))\<lparr> ep_trough_value := Fin q, ep_trough_timestamp := ts \<rparr>"
  have es: "?es = butlast ?es @ [last ?es]" "ep_peak_value (last ?es) = Fin p" using ok active by (auto simp: scan_ok_def)
  have split: "set ?es = insert (last ?es) (set (butlast ?es))" by (subst es(1)) auto
  have "set (lower_trough (Fin q) ts ?es) = insert ?e (set (butlast ?es))" by (simp add: lower_trough_def)
  moreover have "\<exists>e \<in> insert ?e (set (butlast ?es)). \<exists>d. ep_peak_value e = Fin a \<and> ep_trough_value e = Fin d \<and> d \<le> c"
    if ac: "(a, c) \<in> set (S @ [(p, q)])" "c < a" for a c
  proof (cases "(a, c) \<in> set S")
    case True
    then obtain e d where e: "e \<in> set ?es" "ep_peak_value e = Fin a" "ep_trough_value e = Fin d" "d \<le> c"
      using ok ac(2) by (fastforce simp: scan_ok_def)
    show ?thesis
    proof (cases "e \<in> set (butlast ?es)")
      case False
      then have "e = last ?es" using e(1) split by blast
      then have "a = p" "q \<le> c" using e es(2) q(1) by auto
      then show ?thesis using es(2) by auto
    qed (use e in auto)
  next
    case False
    then have "a = p" "c = q" using ac(1) by auto
    then show ?thesis using es(2) by auto
  qed
  moreover have "\<exists>a c. ep_peak_value e = Fin a \<and> ep_trough_value e = Fin c \<and> (a, c) \<in> set (S @ [(p, q)]) \<and> c < a"
    if "e \<in> insert ?e (set (butlast ?es))" for e
    using that ok q(2) es(2) split by (fastforce simp: scan_ok_def)
  moreover have "dd_peak s = Fin p" using ok by (simp add: scan_ok_def)
  ultimately show ?thesis using es(2) unfolding scan_ok_def by (auto simp: lower_trough_def)
qed

text \<open>A sample that needs no new trough.\<close>

lemma scan_ok_more:
  assumes "scan_ok S p s" "dd_episodes s' = dd_episodes s" "dd_peak s' = Fin a"
    and "c < a \<Longrightarrow> \<exists>e \<in> set (dd_episodes s). \<exists>d. ep_peak_value e = Fin a \<and> ep_trough_value e = Fin d \<and> d \<le> c"
    and "dd_active s' \<Longrightarrow> dd_active s \<and> a = p"
  shows "scan_ok (S @ [(a, c)]) a s'"
proof -
  have "\<exists>a' c'. ep_peak_value e = Fin a' \<and> ep_trough_value e = Fin c' \<and> (a', c') \<in> set (S @ [(a, c)]) \<and> c' < a'"
    if "e \<in> set (dd_episodes s)" for e
  proof -
    obtain x y where "ep_peak_value e = Fin x" "ep_trough_value e = Fin y" "(x, y) \<in> set S" "y < x"
      using assms(1) \<open>e \<in> set (dd_episodes s)\<close> unfolding scan_ok_def by blast
    then show ?thesis by auto
  qed
  then show ?thesis using assms unfolding scan_ok_def by auto
qed

lemma scan_ok_fresh:
  assumes "scan_ok S p s" "q < p"
  shows "scan_ok (S @ [(p, q)]) p (s\<lparr> dd_active := True, dd_episodes := dd_episodes s @
      [\<lparr> ep_peak_value = Fin p, ep_trough_value = Fin q, ep_peak_timestamp = t, ep_trough_timestamp = u \<rparr>] \<rparr>)"
proof -
  have "\<exists>a' c'. ep_peak_value e = Fin a' \<and> ep_trough_value e = Fin c' \<and> (a', c') \<in> set (S @ [(p, q)]) \<and> c' < a'"
    if "e \<in> set (dd_episodes s)" for e
  proof -
    obtain x y where "ep_peak_value e = Fin x" "ep_trough_value e = Fin y" "(x, y) \<in> set S" "y < x"
      using assms(1) \<open>e \<in> set (dd_episodes s)\<close> unfolding scan_ok_def by blast
    then show ?thesis by auto
  qed
  then show ?thesis using assms unfolding scan_ok_def by (auto; blast)
qed

lemma scan_ok_point:
  assumes ok: "scan_ok S p s" and v: "point_value pt = Inr (Fin q)"
  obtains s' where "drawdown_point pt s = Inr s'" "scan_ok (S @ [(max p q, q)]) (max p q) s'"
proof -
  let ?ts = "oget pt ''timestamp''"
  have p: "dd_peak s = Fin p" using ok by (simp add: scan_ok_def)
  consider (up) "p < q" | (fresh) "q < p" "\<not> dd_active s"
    | (low) "q < p" "dd_active s" "flt (Fin q) (ep_trough_value (last (dd_episodes s)))"
    | (above) "q < p" "dd_active s" "\<not> flt (Fin q) (ep_trough_value (last (dd_episodes s)))" | (level) "q = p" by linarith
  then show thesis
  proof cases
    case up
    show thesis by (rule that[of "s\<lparr> dd_peak := Fin q, dd_peak_ts := ?ts, dd_active := False \<rparr>"])
      (use up v p in \<open>auto simp: drawdown_point_def max_def intro!: scan_ok_more[OF ok]\<close>)
  next
    case fresh
    have "max p q = p" using fresh by simp
    then show thesis using that scan_ok_fresh[OF ok fresh(1), of "dd_peak_ts s" ?ts] fresh v p
      by (simp add: drawdown_point_def)
  next
    case low
    then show thesis using scan_ok_lower[OF ok low(2,3,1), of ?ts] v p by (intro that[OF _]) (auto simp: drawdown_point_def max_def)
  next
    case above
    then have e: "last (dd_episodes s) \<in> set (dd_episodes s)" "ep_peak_value (last (dd_episodes s)) = Fin p"
      using ok by (auto simp: scan_ok_def)
    then obtain d where d: "ep_trough_value (last (dd_episodes s)) = Fin d" using ok by (fastforce simp: scan_ok_def)
    then have "d \<le> q" using above(3) by simp
    then show thesis using above v p e d
      by (intro that[of s]) (auto simp: drawdown_point_def max_def intro!: scan_ok_more[OF ok])
  next
    case level
    then show thesis using v p by (intro that[of s]) (auto simp: drawdown_point_def intro!: scan_ok_more[OF ok])
  qed
qed

lemma scan_ok_points:
  "rmap point_value points = Inr (map Fin qs) \<Longrightarrow> scan_ok S p s
    \<Longrightarrow> \<exists>s' p'. rfold drawdown_point points s = Inr s' \<and> scan_ok (S @ sampled p qs) p' s'"
proof (induction points arbitrary: qs S p s)
  case (Cons pt points)
  obtain q qs' where qs: "qs = q # qs'" and v: "point_value pt = Inr (Fin q)" "rmap point_value points = Inr (map Fin qs')"
    using Cons.prems(1) by (cases qs) (auto simp: rbind_eq_Inr)
  obtain s1 where s1: "drawdown_point pt s = Inr s1" "scan_ok (S @ [(max p q, q)]) (max p q) s1"
    by (rule scan_ok_point[OF Cons.prems(2) v(1)])
  show ?case using Cons.IH[OF v(2) s1(2)] s1(1) by (simp add: qs)
qed auto

section \<open>Losses and percentages\<close>

lemma to_float_bound:
  assumes "\<bar>q\<bar> \<le> 2 ^ k" "k \<le> 1000"
  shows "to_float q = Fin (fl q)" "\<bar>fl q\<bar> \<le> 2 ^ k"
proof -
  have f: "f64 (2 ^ k)" using f64_dyadic[of "2 ^ k" 1 "int k"] by simp
  show b: "\<bar>fl q\<bar> \<le> 2 ^ k" using assms(1) fl_le[OF _ f, of "\<bar>q\<bar>"] by (simp add: fl_abs)
  have "(2 :: rat) ^ k < 2 ^ 1024" using assms(2) by (intro power_strict_increasing) auto
  then show "to_float q = Fin (fl q)" using b by (simp add: to_float_Fin)
qed

lemma bound_le: "m \<le> 2 ^ k \<Longrightarrow> k \<le> j \<Longrightarrow> m \<le> (2 :: rat) ^ j"
  using power_increasing[of k j "2 :: rat"] by linarith

definition sample_range :: rat where "sample_range = 2 ^ 500"

lemma sample_range_ge: "1 \<le> sample_range"
  by (simp add: sample_range_def)

text \<open>The arithmetic of a sample in the range of the model stays finite.\<close>

lemma sample_arithmetic:
  assumes "\<bar>a\<bar> \<le> sample_range" "\<bar>c\<bar> \<le> sample_range" "c \<le> a" "0 \<le> a" "1 \<le> b" "b \<le> sample_range"
  shows "fsub (Fin a) (Fin c) = Fin (fl (a - c))" "fadd (Fin b) (Fin a) = Fin (fl (b + a))" "1 \<le> fl (b + a)"
    and "to_float (fl (a - c) / fl (b + a)) = Fin (fl (fl (a - c) / fl (b + a)))"
    and "to_float (fl (fl (a - c) / fl (b + a)) * 100) = Fin (sample_pct b (a, c))"
proof -
  have two: "(2 :: rat) ^ 501 = 2 * 2 ^ 500" by (rule power_Suc[of 2 500, simplified])
  have d: "\<bar>a - c\<bar> \<le> 2 ^ 501" and s: "\<bar>b + a\<bar> \<le> 2 ^ 501" using assms unfolding two sample_range_def by linarith+
  show "fsub (Fin a) (Fin c) = Fin (fl (a - c))" using to_float_bound(1)[OF d] by (simp add: fsub_def)
  show "fadd (Fin b) (Fin a) = Fin (fl (b + a))" using to_float_bound(1)[OF s] by simp
  have "f64 1" using f64_of_int[of 1] by simp
  then show one: "1 \<le> fl (b + a)" using assms by (intro fl_ge) auto
  have l: "\<bar>fl (a - c)\<bar> \<le> 2 ^ 501" using to_float_bound(2)[OF d] by simp
  have "\<bar>fl (a - c) / fl (b + a)\<bar> \<le> \<bar>fl (a - c)\<bar>"
    using one by (simp add: abs_divide divide_le_eq mult_le_cancel_left1)
  then have r: "\<bar>fl (a - c) / fl (b + a)\<bar> \<le> 2 ^ 501" using l by linarith
  show "to_float (fl (a - c) / fl (b + a)) = Fin (fl (fl (a - c) / fl (b + a)))" using to_float_bound(1)[OF r] by simp
  have "\<bar>fl (fl (a - c) / fl (b + a))\<bar> * 100 \<le> 2 ^ 501 * 2 ^ 7" using to_float_bound(2)[OF r] by simp
  then have p: "\<bar>fl (fl (a - c) / fl (b + a)) * 100\<bar> \<le> 2 ^ 508" by (simp add: abs_mult power_add[symmetric])
  show "to_float (fl (fl (a - c) / fl (b + a)) * 100) = Fin (sample_pct b (a, c))"
    using to_float_bound(1)[OF p] by (simp add: sample_pct_def)
qed

lemma sample_loss_mono: "d \<le> c \<Longrightarrow> sample_loss (a, c) \<le> sample_loss (a, d)"
  by (simp add: sample_loss_def fl_mono)

lemma sample_pct_mono: "d \<le> c \<Longrightarrow> 0 < fl (b + a) \<Longrightarrow> sample_pct b (a, c) \<le> sample_pct b (a, d)"
  by (simp add: sample_pct_def fl_mono divide_right_mono mult_right_mono)

lemma sample_nonneg: "c \<le> a \<Longrightarrow> 0 \<le> sample_loss (a, c)" "c \<le> a \<Longrightarrow> 0 \<le> a \<Longrightarrow> 0 \<le> b \<Longrightarrow> 0 \<le> sample_pct b (a, c)"
  by (simp_all add: sample_loss_def sample_pct_def)

text \<open>The episode of a sample.\<close>

definition episode_of :: "rat \<times> rat \<Rightarrow> episode \<Rightarrow> bool" where
  "episode_of ac e \<longleftrightarrow> ep_peak_value e = Fin (fst ac) \<and> ep_trough_value e = Fin (snd ac)"

definition sample_ok :: "rat \<times> rat \<Rightarrow> bool" where
  "sample_ok ac \<longleftrightarrow> \<bar>fst ac\<bar> \<le> sample_range \<and> \<bar>snd ac\<bar> \<le> sample_range \<and> snd ac \<le> fst ac \<and> 0 \<le> fst ac"

lemma episode_pct_Inr:
  assumes "episode_of ac e" "sample_ok ac" "1 \<le> b" "b \<le> sample_range" "pc_mdd_pct r = Some (Fin m)"
  obtains r' where "episode_pct (Some (Fin b)) e r = Inr r'" "pc_mdd_pct r' = Some (Fin (max m (sample_pct b ac)))"
proof -
  obtain a c where ac: "ac = (a, c)" by (cases ac)
  note arith = sample_arithmetic[of a c b, OF _ _ _ _ assms(3,4)]
  show thesis
    using assms arith that unfolding episode_of_def sample_ok_def ac
    by (auto simp: episode_pct_def finite_input_def max_def not_less)
qed

lemma episodes_pct:
  "list_all2 episode_of acs es \<Longrightarrow> \<forall>ac \<in> set acs. sample_ok ac \<Longrightarrow> 1 \<le> b \<Longrightarrow> b \<le> sample_range \<Longrightarrow> pc_mdd_pct r = Some (Fin m)
    \<Longrightarrow> \<exists>r'. rfold (episode_pct (Some (Fin b))) es r = Inr r' \<and> pc_mdd_pct r' = Some (Fin (Max (insert m (sample_pct b ` set acs))))"
proof (induction acs es arbitrary: r m rule: list_all2_induct)
  case (Cons ac acs e es)
  obtain r1 where r1: "episode_pct (Some (Fin b)) e r = Inr r1" "pc_mdd_pct r1 = Some (Fin (max m (sample_pct b ac)))"
    using episode_pct_Inr[OF Cons.hyps(1) _ Cons.prems(2,3,4)] Cons.prems(1) by auto
  have "Max (insert (max m x) X) = Max (insert m (insert x X))" if "finite X" for x :: rat and X
    using that by (cases "X = {}") (simp_all add: max.assoc)
  then show ?case using Cons.IH[OF _ Cons.prems(2,3) r1(2)] Cons.prems(1) r1(1) by simp
qed simp

lemma episode_of_loss: "sample_ok ac \<Longrightarrow> episode_of ac e \<Longrightarrow> episode_loss e = Fin (sample_loss ac)"
  using sample_arithmetic(1)[of "fst ac" "snd ac" 1, OF _ _ _ _ order.refl sample_range_ge]
  unfolding sample_ok_def episode_of_def episode_loss_def sample_loss_def by (auto simp: case_prod_beta)

lemma largest_from_Max:
  "list_all2 episode_of acs es \<Longrightarrow> \<forall>ac \<in> set acs. sample_ok ac \<Longrightarrow> sample_ok ac \<Longrightarrow> episode_of ac e
    \<Longrightarrow> episode_loss (largest_from e es) = Fin (Max (insert (sample_loss ac) (sample_loss ` set acs)))"
proof (induction acs es arbitrary: ac e rule: list_all2_induct)
  case Nil
  then show ?case by (simp add: episode_of_loss)
next
  case (Cons bd acs f es)
  have loss: "episode_loss e = Fin (sample_loss ac)" "episode_loss f = Fin (sample_loss bd)"
    using Cons.prems Cons.hyps(1) by (auto intro: episode_of_loss)
  have "Max (insert x (insert y X)) = (if x < y then Max (insert y X) else Max (insert x X))" if "finite X" for x y :: rat and X
    using that by (cases "X = {}") (auto simp: max_def)
  then show ?case
    using Cons.IH[of ac e] Cons.IH[of bd f] Cons.prems Cons.hyps(1) loss by simp
qed

section \<open>Episodes against all samples\<close>

lemma Max_dominated:
  assumes "finite A" "B \<subseteq> A" "A \<noteq> {}" "\<And>x. x \<in> A \<Longrightarrow> f x \<noteq> (0 :: rat) \<Longrightarrow> \<exists>y \<in> B. f x \<le> f y" "\<And>x. x \<in> A \<Longrightarrow> 0 \<le> f x"
  shows "Max (insert 0 (f ` B)) = Max (f ` A)"
proof (rule antisym)
  have finB: "finite B" using assms(1,2) finite_subset by blast
  obtain x where x: "x \<in> A" using assms(3) by blast
  have "0 \<le> Max (f ` A)" using assms(1,5) x by (meson Max_ge finite_imageI imageI order.trans)
  then show "Max (insert 0 (f ` B)) \<le> Max (f ` A)" using assms(1,2) finB by (auto intro!: Max_ge)
  have "f y \<le> Max (insert 0 (f ` B))" if y: "y \<in> A" for y
  proof (cases "f y = 0")
    case False
    then obtain z where "z \<in> B" "f y \<le> f z" using assms(4)[OF y] by blast
    then show ?thesis using finB by (meson Max_ge finite_imageI finite_insert imageI insertI2 order.trans)
  qed (use finB in simp)
  then show "Max (f ` A) \<le> Max (insert 0 (f ` B))" using assms(1,3) by simp
qed

lemma episodes_samples: "scan_ok S p s \<Longrightarrow> \<exists>acs. list_all2 episode_of acs (dd_episodes s) \<and> set acs \<subseteq> set S
    \<and> (\<forall>(a, c) \<in> set S. c < a \<longrightarrow> (\<exists>d. (a, d) \<in> set acs \<and> d \<le> c))"
proof -
  assume ok: "scan_ok S p s"
  have "\<forall>e \<in> set (dd_episodes s). \<exists>ac. episode_of ac e \<and> ac \<in> set S" using ok by (fastforce simp: scan_ok_def episode_of_def)
  then obtain f where f: "\<forall>e \<in> set (dd_episodes s). episode_of (f e) e \<and> f e \<in> set S" by metis
  have "list_all2 episode_of (map f (dd_episodes s)) (dd_episodes s)" using f by (simp add: list_all2_conv_all_nth)
  moreover have "\<exists>d. (a, d) \<in> set (map f (dd_episodes s)) \<and> d \<le> c" if ac: "(a, c) \<in> set S" "c < a" for a c
  proof -
    obtain e d where e: "e \<in> set (dd_episodes s)" "ep_peak_value e = Fin a" "ep_trough_value e = Fin d" "d \<le> c"
      using ok ac by (fastforce simp: scan_ok_def)
    then have "f e = (a, d)" using f by (metis episode_of_def prod.collapse pyfloat.inject)
    then show ?thesis using e(1,4) by force
  qed
  ultimately show ?thesis using f by (intro exI[of _ "map f (dd_episodes s)"]) auto
qed

text \<open>What the pass computes, for samples in the range: the largest loss, and for every base in the range
  the largest percentage.\<close>

lemma max_drawdown_samples:
  assumes v: "rmap point_value points = Inr (map Fin qs)" "qs \<noteq> []" "\<forall>q \<in> set qs. \<bar>q\<bar> \<le> sample_range"
    and b: "1 \<le> b" "b \<le> sample_range"
  shows "\<exists>r. max_drawdown points (Some (Fin b)) = Inr r
    \<and> md_usd r = Some (Fin (Max (sample_loss ` set (sampled 0 qs))))
    \<and> md_pct r = Some (Fin (Max (sample_pct b ` set (sampled 0 qs))))
    \<and> (\<forall>b'. 1 \<le> b' \<longrightarrow> b' \<le> sample_range \<longrightarrow> (\<exists>q. percentage_drawdown (md_episodes r) (Some (Fin b')) = Inr q
          \<and> pc_mdd_pct q = Some (Fin (Max (sample_pct b' ` set (sampled 0 qs))))))"
proof -
  let ?S = "set (sampled 0 qs)"
  obtain s p' where s: "rfold drawdown_point points drawdown_start = Inr s" "scan_ok (sampled 0 qs) p' s"
    using scan_ok_points[OF v(1) scan_ok_start] by auto
  obtain acs where acs: "list_all2 episode_of acs (dd_episodes s)" "set acs \<subseteq> ?S"
    and low: "\<And>a c. (a, c) \<in> ?S \<Longrightarrow> c < a \<Longrightarrow> \<exists>d. (a, d) \<in> set acs \<and> d \<le> c"
    using episodes_samples[OF s(2)] by fastforce
  have S: "finite ?S" "?S \<noteq> {}" using v(2) by (cases qs; simp)+
  have sok: "sample_ok ac" if "ac \<in> ?S" for ac
    using sampled_bounds[of "fst ac" "snd ac" 0 qs] that v(3) sample_range_ge by (fastforce simp: sample_ok_def)
  have dominated: "Max (insert 0 (f ` set acs)) = Max (f ` ?S)"
    if "\<And>a c d. (a, c) \<in> ?S \<Longrightarrow> d \<le> c \<Longrightarrow> f (a, c) \<le> f (a, d)" "\<And>a. f (a, a) = 0" "\<And>x. x \<in> ?S \<Longrightarrow> 0 \<le> f x" for f :: "rat \<times> rat \<Rightarrow> rat"
  proof (rule Max_dominated[OF S(1) acs(2) S(2)])
    fix x assume x: "x \<in> ?S" "f x \<noteq> 0"
    obtain a c where ac: "x = (a, c)" by (cases x)
    then have "c < a" using x that(2) sok[OF x(1)] by (cases "c = a") (auto simp: sample_ok_def)
    then show "\<exists>y \<in> set acs. f x \<le> f y" using low[of a c] that(1) x(1) ac by blast
  qed (rule that(3))
  have pct: "\<exists>q. percentage_drawdown (dd_episodes s) (Some (Fin b')) = Inr q \<and> pc_mdd_pct q = Some (Fin (Max (sample_pct b' ` ?S)))"
    if b': "1 \<le> b'" "b' \<le> sample_range" for b'
  proof -
    have "0 < fl (b' + a)" if "(a, c) \<in> ?S" for a c
      using sample_arithmetic(3)[of a c b'] sok[OF that] b' unfolding sample_ok_def by auto
    then have "Max (insert 0 (sample_pct b' ` set acs)) = Max (sample_pct b' ` ?S)"
      using b' sok by (intro dominated sample_pct_mono) (auto simp: sample_pct_def sample_ok_def)
    moreover have "pc_mdd_pct (pct_start (Some (Fin b'))) = Some (Fin 0)" using b' by (simp add: pct_start_def)
    moreover have "\<forall>ac \<in> set acs. sample_ok ac" using acs(2) sok by blast
    ultimately show ?thesis
      using episodes_pct[OF acs(1) _ b', of "pct_start (Some (Fin b'))" 0]
      by (auto simp: percentage_drawdown_def finite_base_def finite_input_def)
  qed
  have "Max (insert 0 (sample_loss ` set acs)) = Max (sample_loss ` ?S)"
    using sok by (intro dominated sample_loss_mono) (auto simp: sample_loss_def sample_ok_def)
  moreover have "(case largest_episode (dd_episodes s) of Some e \<Rightarrow> rbind (finite_input (episode_loss e)) (\<lambda>x. Inr (Some x))
      | None \<Rightarrow> Inr (Some (Fin 0))) = Inr (Some (Fin (Max (insert 0 (sample_loss ` set acs)))))"
  proof (cases "dd_episodes s")
    case (Cons e es)
    then obtain ac acs' where split: "acs = ac # acs'" "episode_of ac e" "list_all2 episode_of acs' es"
      using acs(1) by (cases acs) auto
    moreover have "sample_ok ac" "\<forall>ac \<in> set acs'. sample_ok ac" using acs(2) sok split(1) by auto
    ultimately have "episode_loss (largest_from e es) = Fin (Max (sample_loss ` set acs))"
      using largest_from_Max[OF split(3) _ _ split(2)] by simp
    moreover have "0 \<le> Max (sample_loss ` set acs)"
    proof -
      have "0 \<le> sample_loss ac" using sok[of ac] acs(2) split(1) by (cases ac) (simp add: sample_loss_def sample_ok_def)
      then show ?thesis using split(1) by (meson Max_ge finite_imageI finite_set image_eqI list.set_intros(1) order.trans)
    qed
    ultimately show ?thesis using Cons split(1) by (simp add: largest_episode_def finite_input_def max_absorb2)
  qed (use acs(1) in \<open>simp add: largest_episode_def\<close>)
  moreover have "points \<noteq> []" using v(1,2) by auto
  ultimately show ?thesis using s(1) pct[OF b] pct by (auto simp: max_drawdown_def Let_def)
qed

end
