(* ===== verification/Analytics_Theorems.thy ===== *)
theory Analytics_Theorems
  imports Drawdown_Laws
begin

text \<open>Properties of the wallet analytics.\<close>

section \<open>Drawdown\<close>

text \<open>C27: The pass over the episodes computes the drawdown of its definition. For finite points of at most
  2^500 it returns, the loss is the largest rounded loss of any point against the highest value seen
  up to it (from zero), the percentage is the largest one over all points, and the stored episodes
  give the largest percentage for every other equity base as well.\<close>

theorem drawdown_equals_reference:
  assumes "rmap point_value points = Inr (map Fin qs)" "qs \<noteq> []" "\<forall>q \<in> set qs. \<bar>q\<bar> \<le> 2 ^ 500" "1 \<le> b" "b \<le> 2 ^ 500"
  shows "\<exists>r. max_drawdown points (Some (Fin b)) = Inr r
    \<and> md_usd r = Some (Fin (Max (sample_loss ` set (sampled 0 qs))))
    \<and> md_pct r = Some (Fin (Max (sample_pct b ` set (sampled 0 qs))))
    \<and> (\<forall>b'. 1 \<le> b' \<longrightarrow> b' \<le> 2 ^ 500 \<longrightarrow> (\<exists>q. percentage_drawdown (md_episodes r) (Some (Fin b')) = Inr q
          \<and> pc_mdd_pct q = Some (Fin (Max (sample_pct b' ` set (sampled 0 qs))))))"
  by (rule max_drawdown_samples[unfolded sample_range_def, OF assms])

definition curve :: "obj list" where
  "curve = [[(''value'', PInt 10), (''timestamp'', PInt 1)], [(''value'', PInt 4), (''timestamp'', PInt 2)],
     [(''value'', PInt 20), (''timestamp'', PInt 3)], [(''value'', PInt 12), (''timestamp'', PInt 4)]]"

lemma curve_values: "rmap point_value curve = Inr (map Fin [10, 4, 20, 12])"
  using float_of_int_small[of 10] float_of_int_small[of 4] float_of_int_small[of 20] float_of_int_small[of 12]
  by (simp add: curve_def point_value_def finite_input_def)

theorem drawdown_equals_reference_witness:
  "\<exists>r. max_drawdown curve (Some (Fin 10)) = Inr r \<and> md_usd r = Some (Fin 8)"
proof -
  have "sampled 0 [10, 4, 20, 12] = [(10, 10), (10, 4), (20, 20), (20, 12)]" by (simp add: max_def)
  moreover have "fl 0 = 0" "fl 6 = 6" "fl 8 = 8" by (simp_all add: fl_numeral)
  ultimately have "Max (sample_loss ` set (sampled 0 [10, 4, 20, 12])) = 8" by (simp add: sample_loss_def)
  then show ?thesis using drawdown_equals_reference[OF curve_values, of 10] by fastforce
qed

end
