(* ===== verification/Live_Adapter.thy ===== *)
theory Live_Adapter
  imports Web_Paper
begin

text \<open>
  The live-order guard every venue adapter shares: \<open>market_adapters/base.py\<close> with the settings readers
  of \<open>market_adapters/runtime.py\<close> and the two exchange exposure models of \<open>betfair.py\<close> and
  \<open>matchbook.py\<close>. An adapter is the record of the attributes the guard uses; the exposure of an order
  is a field because a venue may override it.
\<close>

section \<open>Settings\<close>

definition adapter_config_bool :: "obj \<Rightarrow> string \<Rightarrow> bool \<Rightarrow> bool" where
  "adapter_config_bool config key dflt =
     (case oget_or config key (PBool dflt) of
        PBool b \<Rightarrow> b
      | PStr s \<Rightarrow> lower (strip s) \<in> {''1'', ''true'', ''yes'', ''on''}
      | v \<Rightarrow> truthy v)"

definition adapter_config_float :: "string \<Rightarrow> obj \<Rightarrow> string \<Rightarrow> pyfloat option res" where
  "adapter_config_float market_id config key =
     (let v = oget config key in
      if is_blank v then Inr None
      else case py_float v of
          Inl e \<Rightarrow> if exc_kind e \<in> {TypeError, ValueError}
            then raise MarketConfigurationError (market_id @ '' config '' @ key @ '' must be numeric.'') else Inl e
        | Inr x \<Rightarrow> if isfinite x then Inr (Some x)
            else raise MarketConfigurationError (market_id @ '' config '' @ key @ '' must be finite.''))"

section \<open>Adapters\<close>

record live_adapter =
  la_market_id :: string
  la_display_name :: string
  la_capabilities :: market_capabilities
  la_config :: obj
  la_live_order_sides :: "string list"
  la_exposure_model :: string
  la_live_order_exposure :: "paper_order \<Rightarrow> pyfloat \<Rightarrow> pyfloat option \<Rightarrow> pyfloat res"

definition DEFAULT_LIVE_ORDER_SIDES :: "string list" where
  "DEFAULT_LIVE_ORDER_SIDES = [''BUY'', ''SELL'']"

text \<open>\<open>limit_price or 0.0\<close>\<close>

definition limit_or_zero :: "pyfloat option \<Rightarrow> pyfloat" where
  "limit_or_zero p = (case p of None \<Rightarrow> Fin 0 | Some x \<Rightarrow> x)"

definition base_live_order_exposure :: "paper_order \<Rightarrow> pyfloat \<Rightarrow> pyfloat option \<Rightarrow> pyfloat res" where
  "base_live_order_exposure order sz limit_price = Inr (fmul sz (fmax (Fin 1) (limit_or_zero limit_price)))"

definition exchange_live_order_exposure :: "string \<Rightarrow> paper_order \<Rightarrow> pyfloat \<Rightarrow> pyfloat option \<Rightarrow> pyfloat res" where
  "exchange_live_order_exposure venue order sz limit_price =
     (if upper (po_side order) \<notin> {''SELL'', ''LAY''} then Inr sz
      else case limit_price of
          None \<Rightarrow> raise MarketConfigurationError (venue @ '' LAY preflight requires a probability greater than 0 and at most 1.'')
        | Some p \<Rightarrow> if flt (Fin 1) p
            then raise MarketConfigurationError (venue @ '' LAY preflight requires a probability greater than 0 and at most 1.'')
            else rbind (fdiv (Fin 1) p) (\<lambda>odds. Inr (fmul sz (fsub odds (Fin 1)))))"

section \<open>The preflight\<close>

abbreviation refuse_order :: "live_adapter \<Rightarrow> string \<Rightarrow> 'a res" where
  "refuse_order a m \<equiv> raise MarketConfigurationError (la_display_name a @ m)"

definition ensure_live_capability :: "live_adapter \<Rightarrow> unit res" where
  "ensure_live_capability a = require (cap_live_trading (la_capabilities a))
     (Exc UnsupportedFeatureError (la_market_id a @ '' does not support live_trading through this adapter.''))"

definition ensure_order_market :: "live_adapter \<Rightarrow> paper_order \<Rightarrow> unit res" where
  "ensure_order_market a order = require (po_market_id order = la_market_id a)
     (Exc MarketConfigurationError (''Order market mismatch: '' @ po_market_id order))"

definition ensure_live_trading_enabled :: "live_adapter \<Rightarrow> string \<Rightarrow> unit res" where
  "ensure_live_trading_enabled a feature =
     (let flag = (\<lambda>k. adapter_config_bool (la_config a) k False) in
      if \<not> flag ''live_trading_enabled'' then refuse_order a ('' '' @ feature @ '' is disabled by adapter config.'')
      else if flag ''live_trading_kill_switch'' \<or> flag ''live_trading_paused''
      then refuse_order a ('' '' @ feature @ '' is blocked by the live trading kill switch.'')
      else if \<not> (flag ''live_trading_confirmed'' \<or> flag ''live_trading_acknowledged'')
      then refuse_order a ('' '' @ feature @ '' requires explicit acknowledgement. Set live_trading_confirmed=true only after reviewing live-order risk controls.'')
      else Inr ())"

definition live_finite :: "pyfloat \<Rightarrow> string \<Rightarrow> pyfloat res" where
  "live_finite x label = (if isfinite x then Inr x
     else raise MarketConfigurationError (''Live order '' @ label @ '' must be finite.''))"

definition positive_config_float :: "live_adapter \<Rightarrow> string \<Rightarrow> pyfloat option res" where
  "positive_config_float a key =
     rbind (adapter_config_float (la_market_id a) (la_config a) key) (\<lambda>v. case v of
         None \<Rightarrow> Inr None
       | Some x \<Rightarrow> if fle x (Fin 0)
           then raise MarketConfigurationError (la_market_id a @ '' config '' @ key @ '' must be greater than 0.'')
           else Inr (Some x))"

text \<open>What the checks establish about an order.\<close>

record live_terms =
  lt_size :: pyfloat
  lt_limit_price :: "pyfloat option"
  lt_notional :: pyfloat
  lt_max_size :: "pyfloat option"
  lt_max_notional :: "pyfloat option"

definition checked_limit :: "live_adapter \<Rightarrow> paper_order \<Rightarrow> pyfloat option res" where
  "checked_limit a order = (case po_limit_price order of
       None \<Rightarrow> Inr None
     | Some p \<Rightarrow> rbind (live_finite p ''limit price'') (\<lambda>p.
         if fle p (Fin 0) then refuse_order a '' live order limit price must be positive.'' else Inr (Some p)))"

definition above_limit :: "pyfloat option \<Rightarrow> pyfloat \<Rightarrow> bool" where
  "above_limit maximum x = (case maximum of None \<Rightarrow> False | Some m \<Rightarrow> flt m x)"

definition limit_text :: "pyfloat option \<Rightarrow> string" where
  "limit_text m = (case m of None \<Rightarrow> [] | Some x \<Rightarrow> fmt_g x)"

definition checked_terms :: "live_adapter \<Rightarrow> paper_order \<Rightarrow> live_terms res" where
  "checked_terms a order =
     rbind (live_finite (po_size order) ''order size'') (\<lambda>sz.
     if fle sz (Fin 0) then refuse_order a '' live order size must be positive.''
     else
       rbind (checked_limit a order) (\<lambda>limit_price.
       rbind (la_live_order_exposure a order sz limit_price) (\<lambda>exposure.
       rbind (live_finite exposure ''maximum exposure'') (\<lambda>notional.
       if flt notional (Fin 0) then refuse_order a '' live order exposure must not be negative.''
       else
         rbind (positive_config_float a ''live_trading_max_size'') (\<lambda>max_size.
         rbind (positive_config_float a ''live_trading_max_notional'') (\<lambda>max_notional.
         if above_limit max_size sz
         then refuse_order a ('' live order size '' @ fmt_g sz @ '' exceeds configured max '' @ limit_text max_size @ ''.'')
         else if above_limit max_notional notional
         then refuse_order a ('' live order notional '' @ fmt_g notional @ '' exceeds configured max '' @ limit_text max_notional @ ''.'')
         else Inr \<lparr> lt_size = sz, lt_limit_price = limit_price, lt_notional = notional, lt_max_size = max_size,
           lt_max_notional = max_notional \<rparr>))))))"

definition checked_order :: "live_adapter \<Rightarrow> paper_order \<Rightarrow> string \<Rightarrow> live_terms res" where
  "checked_order a order feature =
     rbind (ensure_live_capability a) (\<lambda>_.
     rbind (ensure_order_market a order) (\<lambda>_.
     rbind (ensure_live_trading_enabled a feature) (\<lambda>_.
     if strip (po_contract_id order) = [] \<or> po_contract_id order \<noteq> strip (po_contract_id order)
     then refuse_order a '' live order requires a non-empty canonical contract id.''
     else if po_side order \<notin> set (la_live_order_sides a)
     then refuse_order a ('' live order side must be one of: '' @ join '', '' (la_live_order_sides a) @ ''.'')
     else checked_terms a order)))"

definition optional_float :: "pyfloat option \<Rightarrow> pyval" where
  "optional_float x = (case x of None \<Rightarrow> PNone | Some f \<Rightarrow> PFloat f)"

definition capability_warnings :: "market_capabilities \<Rightarrow> string list" where
  "capability_warnings c = (if cap_credentials_required c then [''credentials_required''] else [])
     @ (if cap_kyc_required c then [''kyc_required''] else []) @ (if cap_region_limited c then [''region_limited''] else [])"

definition dry_run_preview :: "live_adapter \<Rightarrow> paper_order \<Rightarrow> live_terms \<Rightarrow> string" where
  "dry_run_preview a order t =
     ''Would submit live '' @ po_side order @ '' order for '' @ fmt_g (lt_size t) @ '' on '' @ la_display_name a
     @ '' contract '' @ po_contract_id order
     @ (case lt_limit_price t of None \<Rightarrow> [] | Some p \<Rightarrow> '' at limit '' @ fmt_g p)"

definition metadata_keys :: "paper_order \<Rightarrow> pyval" where
  "metadata_keys order = PList (map PStr (sort (map fst (po_metadata order))))"

definition preflight_report :: "live_adapter \<Rightarrow> paper_order \<Rightarrow> string \<Rightarrow> live_terms \<Rightarrow> obj" where
  "preflight_report a order feature t = (let c = la_capabilities a in [
     (''market_id'', PStr (la_market_id a)), (''display_name'', PStr (la_display_name a)), (''feature'', PStr feature),
     (''contract_id'', PStr (po_contract_id order)), (''side'', PStr (po_side order)), (''size'', PFloat (lt_size t)),
     (''limit_price'', optional_float (lt_limit_price t)), (''approx_notional'', PFloat (lt_notional t)),
     (''exposure_model'', PStr (la_exposure_model a)), (''max_size'', optional_float (lt_max_size t)),
     (''max_notional'', optional_float (lt_max_notional t)), (''live_trading_enabled'', PBool True), (''confirmed'', PBool True),
     (''kill_switch'', PBool False), (''paper_trading_supported'', PBool (cap_paper_trading c)),
     (''requires_credentials'', PBool (cap_credentials_required c)), (''requires_kyc'', PBool (cap_kyc_required c)),
     (''region_limited'', PBool (cap_region_limited c)), (''warnings'', PList (map PStr (capability_warnings c))),
     (''metadata_keys'', metadata_keys order), (''dry_run_preview'', PStr (dry_run_preview a order t))])"

definition preflight_live_order :: "live_adapter \<Rightarrow> paper_order \<Rightarrow> string \<Rightarrow> obj res" where
  "preflight_live_order a order feature =
     rbind (checked_order a order feature) (\<lambda>t. Inr (preflight_report a order feature t))"

end
