(* ===== verification/Live_Laws.thy ===== *)
theory Live_Laws
  imports Live_Adapter
begin

text \<open>What a passed preflight establishes: every gate of the settings is open and the order is within the
  configured limits.\<close>

lemma live_finite_Inr: "live_finite x label = Inr y \<longleftrightarrow> y = x \<and> isfinite x"
  by (auto simp: live_finite_def)

lemma fle_Inr_or: "isfinite x \<Longrightarrow> isfinite y \<Longrightarrow> \<not> fle x y \<longleftrightarrow> flt y x"
  by (cases x; cases y) (auto simp: fle_def)

lemma fle_finite: "isfinite x \<Longrightarrow> isfinite y \<Longrightarrow> \<not> flt y x \<longleftrightarrow> fle x y"
  by (cases x; cases y) (auto simp: fle_def)

text \<open>The switches that admit a live order.\<close>

definition live_switches :: "obj \<Rightarrow> bool" where
  "live_switches config \<longleftrightarrow> adapter_config_bool config ''live_trading_enabled'' False
     \<and> \<not> adapter_config_bool config ''live_trading_kill_switch'' False \<and> \<not> adapter_config_bool config ''live_trading_paused'' False
     \<and> (adapter_config_bool config ''live_trading_confirmed'' False \<or> adapter_config_bool config ''live_trading_acknowledged'' False)"

lemma ensure_live_trading_enabled_Inr: "ensure_live_trading_enabled a feature = Inr u \<longleftrightarrow> live_switches (la_config a)"
  by (auto simp: ensure_live_trading_enabled_def live_switches_def Let_def)

text \<open>A limit that is set bounds the amount.\<close>

definition within_limit :: "live_adapter \<Rightarrow> string \<Rightarrow> pyfloat \<Rightarrow> bool" where
  "within_limit a key x \<longleftrightarrow> (\<forall>m. adapter_config_float (la_market_id a) (la_config a) key = Inr (Some m) \<longrightarrow> flt (Fin 0) m \<and> fle x m)"

lemma adapter_config_float_finite: "adapter_config_float m config key = Inr (Some x) \<Longrightarrow> isfinite x"
  by (auto simp: adapter_config_float_def Let_def split: if_splits sum.splits)

lemma positive_config_float_within:
  assumes "positive_config_float a key = Inr m" "\<not> above_limit m x" "isfinite x"
  shows "within_limit a key x"
proof -
  have "flt (Fin 0) y \<and> fle x y" if y: "adapter_config_float (la_market_id a) (la_config a) key = Inr (Some y)" for y
  proof -
    have fin: "isfinite y" by (rule adapter_config_float_finite[OF y])
    have "\<not> fle y (Fin 0)" "m = Some y" using assms(1) y by (auto simp: positive_config_float_def split: if_splits)
    then show ?thesis using assms(2,3) fin fle_Inr_or[OF fin, of "Fin 0"] fle_finite[OF assms(3) fin] by (simp add: above_limit_def)
  qed
  then show ?thesis by (simp add: within_limit_def)
qed

lemma checked_terms_Inr:
  assumes "checked_terms a order = Inr t"
  shows "lt_size t = po_size order" "isfinite (po_size order)" "flt (Fin 0) (po_size order)" "lt_limit_price t = po_limit_price order"
    and "la_live_order_exposure a order (po_size order) (po_limit_price order) = Inr (lt_notional t)" "isfinite (lt_notional t)"
    and "within_limit a ''live_trading_max_size'' (lt_size t)" "within_limit a ''live_trading_max_notional'' (lt_notional t)"
    and "\<And>p. po_limit_price order = Some p \<Longrightarrow> isfinite p \<and> flt (Fin 0) p"
proof -
  obtain ms mn where t: "isfinite (po_size order)" "\<not> fle (po_size order) (Fin 0)" "checked_limit a order = Inr (lt_limit_price t)"
      "la_live_order_exposure a order (po_size order) (lt_limit_price t) = Inr (lt_notional t)" "isfinite (lt_notional t)"
      "positive_config_float a ''live_trading_max_size'' = Inr ms" "positive_config_float a ''live_trading_max_notional'' = Inr mn"
      "\<not> above_limit ms (po_size order)" "\<not> above_limit mn (lt_notional t)" "lt_size t = po_size order"
    using assms by (auto simp: checked_terms_def rbind_eq_Inr live_finite_Inr split: if_splits)
  have limit: "lt_limit_price t = po_limit_price order \<and> (\<forall>p. po_limit_price order = Some p \<longrightarrow> isfinite p \<and> flt (Fin 0) p)"
    using t(3) by (auto simp: checked_limit_def rbind_eq_Inr live_finite_Inr fle_Inr_or split: option.splits if_splits)
  show "lt_size t = po_size order" "isfinite (po_size order)" "isfinite (lt_notional t)" by fact+
  show "flt (Fin 0) (po_size order)" using t(1,2) by (simp add: fle_Inr_or)
  show "lt_limit_price t = po_limit_price order" "\<And>p. po_limit_price order = Some p \<Longrightarrow> isfinite p \<and> flt (Fin 0) p" using limit by auto
  show "la_live_order_exposure a order (po_size order) (po_limit_price order) = Inr (lt_notional t)" using t(4) limit by simp
  show "within_limit a ''live_trading_max_size'' (lt_size t)" "within_limit a ''live_trading_max_notional'' (lt_notional t)"
    using positive_config_float_within[OF t(6,8,1)] positive_config_float_within[OF t(7,9,5)] t(10) by simp_all
qed

text \<open>The shared exposure model charges at least the submitted size.\<close>

lemma base_exposure_ge:
  assumes "base_live_order_exposure order sz limit_price = Inr x" "isfinite x" "isfinite sz" "float_ok sz" "flt (Fin 0) sz"
    and "\<And>p. limit_price = Some p \<Longrightarrow> isfinite p"
  shows "fle sz x"
proof -
  obtain q where q: "sz = Fin q" "0 < q" "f64 q" using assms(3-5) by (cases sz) auto
  have "isfinite (limit_or_zero limit_price)" using assms(6) by (cases limit_price) (auto simp: limit_or_zero_def)
  then obtain l where "limit_or_zero limit_price = Fin l" by blast
  then obtain m where m: "fmax (Fin 1) (limit_or_zero limit_price) = Fin m" "1 \<le> m"
    by (cases "1 < l") (auto simp: fmax_def)
  have "to_float (q * m) = x" using assms(1) m(1) by (simp add: base_live_order_exposure_def q(1))
  moreover obtain r where "x = Fin r" using assms(2) by (cases x) auto
  ultimately have "x = Fin (fl (q * m))" by (simp add: to_float_Fin)
  moreover have "q \<le> fl (q * m)" using q m(2) by (intro fl_ge) (simp_all add: mult_le_cancel_left1)
  ultimately show ?thesis by (simp add: q(1))
qed

lemma checked_order_Inr:
  assumes "checked_order a order feature = Inr t"
  shows "cap_live_trading (la_capabilities a)" "po_market_id order = la_market_id a" "live_switches (la_config a)"
    and "po_contract_id order \<noteq> []" "strip (po_contract_id order) = po_contract_id order" "po_side order \<in> set (la_live_order_sides a)"
    and "checked_terms a order = Inr t"
proof -
  have "cap_live_trading (la_capabilities a) \<and> po_market_id order = la_market_id a \<and> live_switches (la_config a)
      \<and> \<not> (strip (po_contract_id order) = [] \<or> po_contract_id order \<noteq> strip (po_contract_id order))
      \<and> po_side order \<in> set (la_live_order_sides a) \<and> checked_terms a order = Inr t"
    using assms unfolding checked_order_def
    by (auto simp: rbind_eq_Inr ensure_live_capability_def ensure_order_market_def require_def ensure_live_trading_enabled_Inr split: if_splits)
  then show "cap_live_trading (la_capabilities a)" "po_market_id order = la_market_id a" "live_switches (la_config a)"
    "po_contract_id order \<noteq> []" "strip (po_contract_id order) = po_contract_id order" "po_side order \<in> set (la_live_order_sides a)"
    "checked_terms a order = Inr t" by auto
qed

end
