(* ===== verification/Support_Matrix.thy ===== *)
theory Support_Matrix
  imports Live_Adapter
begin

text \<open>
  The support report of the catalogue: \<open>market_adapters/support_matrix.py\<close> with the contract check of
  \<open>capability_audit.py\<close>, and the market views of \<open>web_api.py\<close> built on it. What the check asks of an
  adapter's class is a field: the methods it inherits unchanged from \<open>MarketAdapter\<close>.
\<close>

record venue_adapter = live_adapter +
  va_class_name :: string
  va_account_operations :: "string list"
  va_order_operations :: "string list"
  va_base_methods :: "string list"
  va_health_check :: "obj res"

section \<open>The contract check\<close>

definition CORE_CAPABILITY_METHODS :: "(string \<times> string list) list" where
  "CORE_CAPABILITY_METHODS = [
     (''event_listing'', [''list_events'', ''list_contracts'']), (''price_reading'', [''get_price'']),
     (''orderbook_reading'', [''get_orderbook'']), (''trade_history'', [''list_trades'']), (''candle_history'', [''list_candles'']),
     (''paper_trading'', [''place_paper_order'']), (''live_trading'', [''place_live_order'']),
     (''copy_trading'', [''copy_trade_from_activity''])]"

definition has_capability :: "market_capabilities \<Rightarrow> string \<Rightarrow> bool" where
  "has_capability c k = (dget (capabilities_to_dict c) k = Some True)"

definition capability_contract_issues :: "market_capabilities \<Rightarrow> string list \<Rightarrow> string list" where
  "capability_contract_issues c base_methods =
     (if has_capability c ''market_discovery'' \<and> \<not> has_capability c ''event_listing'' then [''market_discovery requires event_listing''] else [])
     @ (if has_capability c ''alerts'' \<and> \<not> has_capability c ''price_reading''
        then [''alerts require price_reading for the shared price-trigger engine''] else [])
     @ List.map_filter (\<lambda>(capability, methods).
         let missing = filter (\<lambda>m. m \<in> set base_methods) methods in
         if has_capability c capability \<and> missing \<noteq> []
         then Some (capability @ '' inherits unsupported operation(s): '' @ join '', '' missing) else None) CORE_CAPABILITY_METHODS"

section \<open>Rows\<close>

definition SUPPORT_OPERATIONS :: "string list" where
  "SUPPORT_OPERATIONS = [''market_discovery'', ''event_listing'', ''price_reading'', ''orderbook_reading'', ''trade_history'',
     ''candle_history'', ''alerts'', ''paper_trading'', ''live_trading'', ''copy_trading'']"

text \<open>The labels, as \<open>label.title()\<close> writes them.\<close>

definition capability_title :: "string \<Rightarrow> string" where
  "capability_title k = (case dget [(''market_discovery'', ''Market Discovery''), (''event_listing'', ''Event And Contract Listing''),
     (''price_reading'', ''Price Reading''), (''orderbook_reading'', ''Orderbook Reading''), (''trade_history'', ''Trade History''),
     (''candle_history'', ''Candle History''), (''alerts'', ''Price Alerts''), (''paper_trading'', ''Paper Trading''),
     (''live_trading'', ''Live Trading''), (''copy_trading'', ''Copy Trading'')] k of Some t \<Rightarrow> t | None \<Rightarrow> [])"

text \<open>A reviewed blocker, after \<open>_blocker_payload\<close>: an empty mapping is none.\<close>

record blocker =
  bk_reason :: string
  bk_references :: "string list"
  bk_last_reviewed :: "string option"

definition text_list :: "pyval \<Rightarrow> pyval list res" where
  "text_list v = (case v of PList vs \<Rightarrow> Inr vs | PStr s \<Rightarrow> Inr (map (\<lambda>c. PStr [c]) s) | PDict d \<Rightarrow> Inr (map (PStr \<circ> fst) d)
     | _ \<Rightarrow> if truthy v then raise TypeError ''object is not iterable'' else Inr [])"

definition blocker_payload :: "obj option \<Rightarrow> blocker option res" where
  "blocker_payload b =
     (case b of None \<Rightarrow> Inr None | Some d \<Rightarrow>
      if d = [] then Inr None
      else rbind (text_list (oget d ''references'')) (\<lambda>refs.
        Inr (Some \<lparr> bk_reason = (let r = oget d ''reason'' in if truthy r then py_str r else ''Verified upstream blocker.''),
          bk_references = filter (\<lambda>s. strip s \<noteq> []) (map py_str refs),
          bk_last_reviewed = (let v = oget d ''last_reviewed'' in if truthy v then Some (py_str v) else None) \<rparr>)))"

record operation_state =
  os_status :: string
  os_advertised :: bool
  os_guarded :: bool
  os_reason :: string

definition support_state :: "string \<Rightarrow> string \<Rightarrow> bool \<Rightarrow> bool \<Rightarrow> operation_state" where
  "support_state status reason advertised guarded =
     \<lparr> os_status = status, os_advertised = advertised, os_guarded = guarded, os_reason = reason \<rparr>"

definition operation_state_of :: "string \<Rightarrow> bool \<Rightarrow> blocker option \<Rightarrow> operation_state" where
  "operation_state_of capability advertised b =
     (case b of
        Some k \<Rightarrow> support_state ''blocked'' (if bk_reason k = []
          then capability_title capability @ '' is blocked by the verified upstream review.'' else bk_reason k) advertised False
      | None \<Rightarrow>
        if \<not> advertised
        then support_state ''unsupported'' (capability_title capability @ '' is not advertised by this adapter and fails closed.'') False False
        else if capability = ''live_trading''
        then support_state ''guarded'' ''Implemented behind adapter credentials, venue eligibility, funding, live-safety acknowledgement, and kill-switch gates.'' True True
        else if capability = ''copy_trading''
        then support_state ''guarded'' ''Implemented only for the adapter's documented activity feed and remains configuration/safety gated.'' True True
        else if capability = ''paper_trading''
        then support_state ''supported'' ''Local dry-run orders are supported; no upstream order is sent.'' True False
        else support_state ''supported'' (capability_title capability @ '' is implemented by the adapter.'') True False)"

definition surface_state :: "blocker option \<Rightarrow> string list \<Rightarrow> string \<Rightarrow> string \<Rightarrow> operation_state" where
  "surface_state b operations declared undeclared =
     (case b of
        Some k \<Rightarrow> support_state ''blocked'' (bk_reason k) False False
      | None \<Rightarrow> if operations \<noteq> [] then support_state ''guarded'' declared True True else support_state ''unsupported'' undeclared False False)"

definition account_state :: "blocker option \<Rightarrow> string list \<Rightarrow> operation_state" where
  "account_state b operations = surface_state b operations
     ''Credentialed account reads are implemented; account eligibility and credentials remain external gates.''
     ''No documented authenticated account-read operations are declared.''"

definition order_state :: "blocker option \<Rightarrow> string list \<Rightarrow> operation_state" where
  "order_state b operations = surface_state b operations
     ''Mutating order management is implemented behind explicit opt-in, confirmation, credentials, and live-safety gates.''
     ''No documented authenticated order-management operations are declared.''"

record support_row =
  sr_market_id :: string
  sr_display_name :: string
  sr_implementation_status :: string
  sr_implementation_reason :: string
  sr_adapter :: string
  sr_operations :: "(string \<times> operation_state) list"
  sr_account :: "operation_state \<times> string list"
  sr_order :: "operation_state \<times> string list"
  sr_capabilities :: market_capabilities
  sr_blocker :: "blocker option"
  sr_issues :: "string list"

definition implementation :: "blocker option \<Rightarrow> bool \<Rightarrow> string \<Rightarrow> string \<times> string" where
  "implementation b created adapter_error =
     (if adapter_error \<noteq> [] then (''unavailable'', adapter_error)
      else case b of
          Some k \<Rightarrow> (''verified_blocked'', bk_reason k)
        | None \<Rightarrow> if \<not> created then (''unavailable'', ''Adapter instance could not be created for this catalog row.'')
            else (''implemented'', ''Adapter registered and support contract loaded.''))"

definition support_matrix_entry :: "market_metadata \<Rightarrow> venue_adapter option \<Rightarrow> obj option \<Rightarrow> string \<Rightarrow> support_row res" where
  "support_matrix_entry meta adapter blocked adapter_error =
     rbind (blocker_payload blocked) (\<lambda>b.
     let c = meta_capabilities meta;
         account = (case adapter of None \<Rightarrow> [] | Some a \<Rightarrow> va_account_operations a);
         orders = (case adapter of None \<Rightarrow> [] | Some a \<Rightarrow> va_order_operations a);
         impl = implementation b (adapter \<noteq> None) adapter_error
     in Inr \<lparr> sr_market_id = meta_id meta, sr_display_name = meta_display_name meta,
       sr_implementation_status = fst impl, sr_implementation_reason = snd impl,
       sr_adapter = (case adapter of None \<Rightarrow> [] | Some a \<Rightarrow> va_class_name a),
       sr_operations = map (\<lambda>k. (k, operation_state_of k (has_capability c k) b)) SUPPORT_OPERATIONS,
       sr_account = (account_state b account, account), sr_order = (order_state b orders, orders),
       sr_capabilities = c, sr_blocker = b,
       sr_issues = (case adapter of None \<Rightarrow> [] | Some a \<Rightarrow> capability_contract_issues (la_capabilities a) (va_base_methods a)) \<rparr>)"

definition row_statuses :: "support_row \<Rightarrow> string list" where
  "row_statuses r = map (os_status \<circ> snd) (sr_operations r) @ [os_status (fst (sr_account r)), os_status (fst (sr_order r))]"

definition row_counts :: "support_row \<Rightarrow> (string \<times> nat) list" where
  "row_counts r = map (\<lambda>s. (s, count_list (row_statuses r) s)) [''supported'', ''guarded'', ''unsupported'', ''blocked'']"

definition row_audit_ok :: "support_row \<Rightarrow> bool" where
  "row_audit_ok r \<longleftrightarrow> sr_issues r = [] \<and> sr_implementation_status r \<noteq> ''unavailable''"

section \<open>The row as JSON\<close>

definition state_obj :: "operation_state \<Rightarrow> obj" where
  "state_obj s = [(''status'', PStr (os_status s)), (''advertised'', PBool (os_advertised s)), (''guarded'', PBool (os_guarded s)),
     (''reason'', PStr (os_reason s))]"

definition texts :: "string list \<Rightarrow> pyval" where
  "texts ss = PList (map PStr ss)"

definition blocker_obj :: "blocker \<Rightarrow> obj" where
  "blocker_obj b = [(''reason'', PStr (bk_reason b)), (''references'', texts (bk_references b))]
     @ (case bk_last_reviewed b of None \<Rightarrow> [] | Some d \<Rightarrow> [(''last_reviewed'', PStr d)])"

definition support_row_obj :: "support_row \<Rightarrow> obj" where
  "support_row_obj r = (let c = sr_capabilities r in [
     (''market_id'', PStr (sr_market_id r)), (''display_name'', PStr (sr_display_name r)),
     (''implementation_status'', PStr (sr_implementation_status r)), (''implementation_reason'', PStr (sr_implementation_reason r)),
     (''adapter'', PStr (sr_adapter r)), (''operations'', PDict (map (\<lambda>(k, s). (k, PDict (state_obj s))) (sr_operations r))),
     (''account_recovery'', PDict (state_obj (fst (sr_account r)) @ [(''operations'', texts (snd (sr_account r)))])),
     (''order_management'', PDict (state_obj (fst (sr_order r)) @ [(''operations'', texts (snd (sr_order r)))])),
     (''requirements'', PDict [(''api_required'', PBool (cap_api_required c)), (''credentials_required'', PBool (cap_credentials_required c)),
        (''kyc_required'', PBool (cap_kyc_required c)), (''region_limited'', PBool (cap_region_limited c))]),
     (''blocker'', case sr_blocker r of None \<Rightarrow> PNone | Some b \<Rightarrow> PDict (blocker_obj b)),
     (''audit'', PDict [(''capability_contract_issues'', texts (sr_issues r)), (''ok'', PBool (row_audit_ok r))]),
     (''counts'', PDict (map (\<lambda>(s, n). (s, PInt (int n))) (row_counts r)))])"

section \<open>The summary\<close>

definition positive_counts :: "string list \<Rightarrow> string list \<Rightarrow> obj" where
  "positive_counts statuses seen = map (\<lambda>s. (s, PInt (int (count_list seen s)))) (filter (\<lambda>s. 0 < count_list seen s) statuses)"

definition row_operation_status :: "string \<Rightarrow> support_row \<Rightarrow> string" where
  "row_operation_status k r = (case dget (sr_operations r) k of
       Some s \<Rightarrow> if os_status s = [] then ''unavailable'' else os_status s | None \<Rightarrow> ''unavailable'')"

definition support_matrix_summary :: "support_row list \<Rightarrow> obj" where
  "support_matrix_summary rows = [
     (''total_markets'', PInt (int (length rows))),
     (''implementation'', PDict (positive_counts [''implemented'', ''verified_blocked'', ''unavailable''] (map sr_implementation_status rows))),
     (''operations'', PDict (map (\<lambda>k. (k, PDict (positive_counts [''supported'', ''guarded'', ''unsupported'', ''blocked'', ''unavailable'']
        (map (row_operation_status k) rows)))) SUPPORT_OPERATIONS))]"

end
