(* ===== verification/Web_Live.thy ===== *)
theory Web_Live
  imports Support_Matrix
begin

text \<open>
  The market and live-safety views of \<open>web_api.py\<close>: the health of a market, the support report, the
  live-safety status with its blockers, and the preflight preview of a live order. Adapters come from
  the registry; the description prose of the catalogue is the argument \<open>prose\<close>.
\<close>

type_synonym venue_registry = "string \<Rightarrow> obj \<Rightarrow> venue_adapter res"

definition market_settings_of :: "app_config \<Rightarrow> string \<Rightarrow> obj" where
  "market_settings_of cfg market_id = (case dget (cf_markets cfg) market_id of None \<Rightarrow> [] | Some m \<Rightarrow> mc_settings m)"

definition enabled_in :: "app_config \<Rightarrow> string \<Rightarrow> bool" where
  "enabled_in cfg market_id = (case dget (cf_markets cfg) market_id of None \<Rightarrow> False | Some m \<Rightarrow> mc_enabled m)"

text \<open>\<open>type(exc).__name__\<close>\<close>

fun exc_class_name :: "exc_class \<Rightarrow> string" where
  "exc_class_name ValueError = ''ValueError''"
| "exc_class_name TypeError = ''TypeError''"
| "exc_class_name OverflowError = ''OverflowError''"
| "exc_class_name KeyError = ''KeyError''"
| "exc_class_name IndexError = ''IndexError''"
| "exc_class_name AttributeError = ''AttributeError''"
| "exc_class_name RuntimeErr = ''RuntimeError''"
| "exc_class_name OSErr = ''OSError''"
| "exc_class_name ZeroDivisionError = ''ZeroDivisionError''"
| "exc_class_name AlertEventCapacityError = ''AlertEventCapacityError''"
| "exc_class_name ConfigSecurityError = ''ConfigSecurityError''"
| "exc_class_name ConfigLoadError = ''ConfigLoadError''"
| "exc_class_name ConfigConflictError = ''ConfigConflictError''"
| "exc_class_name ConfigCommitError = ''ConfigCommitError''"
| "exc_class_name ActivityHistoryIncompleteError = ''ActivityHistoryIncompleteError''"
| "exc_class_name MarketAdapterError = ''MarketAdapterError''"
| "exc_class_name MarketConfigurationError = ''MarketConfigurationError''"
| "exc_class_name MarketHTTPError = ''MarketHTTPError''"
| "exc_class_name UnsupportedFeatureError = ''UnsupportedFeatureError''"
| "exc_class_name RequestCancelled = ''RequestCancelled''"
| "exc_class_name RequestDeadlineExceeded = ''RequestDeadlineExceeded''"
| "exc_class_name IdempotencyConflictError = ''IdempotencyConflictError''"
| "exc_class_name MarketConfigConflictError = ''MarketConfigConflictError''"
| "exc_class_name WorkerStateError = ''WorkerStateError''"
| "exc_class_name WorkerBusyError = ''WorkerBusyError''"
| "exc_class_name WorkerInterrupted = ''WorkerInterrupted''"
| "exc_class_name PolymarketResponseError = ''PolymarketResponseError''"
| "exc_class_name HttpResponseTooLargeError = ''HttpResponseTooLargeError''"
| "exc_class_name TransportTimeout = ''Timeout''"

section \<open>Market health\<close>

definition yes_no :: "bool \<Rightarrow> string" where
  "yes_no b = (if b then ''yes'' else ''no'')"

definition market_status_text :: "market_metadata \<Rightarrow> bool \<Rightarrow> obj \<Rightarrow> obj \<Rightarrow> string" where
  "market_status_text meta enabled health settings =
     (let message = strip (let m = oget health ''message'' in if truthy m then py_str m else []); c = meta_capabilities meta in
      if truthy (oget health ''verified_blocker'') then meta_display_name meta @ '': verified blocked. '' @ message
      else meta_display_name meta @ '': adapter loaded. Config '' @ (if enabled then ''enabled'' else ''disabled'')
        @ ''; Alerts '' @ yes_no (cap_alerts c)
        @ ''; read-only '' @ yes_no (cap_market_discovery c \<or> cap_event_listing c \<or> cap_price_reading c \<or> cap_orderbook_reading c)
        @ ''; paper '' @ yes_no (cap_paper_trading c) @ ''; live '' @ market_live_status c settings
        @ ''; copy '' @ yes_no (cap_copy_trading c) @ ''.'')"

definition capabilities_obj :: "market_capabilities \<Rightarrow> pyval" where
  "capabilities_obj c = PDict (map (\<lambda>(k, b). (k, PBool b)) (capabilities_to_dict c))"

text \<open>The adapter, its health, and the error text when either failed.\<close>

definition adapter_health :: "market_metadata \<Rightarrow> venue_registry \<Rightarrow> obj \<Rightarrow> venue_adapter option \<times> obj \<times> string" where
  "adapter_health meta registry settings =
     (let failed = (\<lambda>e. [(''market_id'', PStr (meta_id meta)), (''ok'', PBool False), (''message'', PStr ''Adapter health check failed.''),
            (''error_type'', PStr (exc_class_name (exc_kind e))), (''adapter'', PStr []), (''capabilities'', capabilities_obj (meta_capabilities meta))]);
          reason = (\<lambda>e. ''Adapter health check failed: '' @ exc_class_name (exc_kind e) @ ''.'')
      in case registry (meta_id meta) settings of
           Inl e \<Rightarrow> (None, failed e, reason e)
         | Inr a \<Rightarrow> (case va_health_check a of Inl e \<Rightarrow> (Some a, failed e, reason e) | Inr h \<Rightarrow> (Some a, h, [])))"

definition upstream_blocker :: "obj \<Rightarrow> obj option" where
  "upstream_blocker health =
     (if truthy (oget health ''verified_blocker'') then Some [
        (''reason'', py_or (oget health ''message'') (PStr ''Verified upstream blocker.'')),
        (''references'', py_or (oget health ''references'') (PList [])), (''last_reviewed'', py_or (oget health ''last_reviewed'') (PStr []))]
      else None)"

definition source_text :: "pyval \<Rightarrow> string option" where
  "source_text v = (case v of
       PDict d \<Rightarrow> Some (py_str (py_or (oget d ''name'') (PStr ''credential'')) @ '' from '' @ py_str (py_or (oget d ''source'') (PStr ''configured'')))
     | _ \<Rightarrow> None)"

definition credential_summary :: "pyval list \<Rightarrow> string" where
  "credential_summary sources = (let s = join '', '' (List.map_filter source_text sources) in if s = [] then ''none detected'' else s)"

definition market_health_row :: "market_metadata \<Rightarrow> app_config \<Rightarrow> venue_registry \<Rightarrow> support_row res" where
  "market_health_row meta cfg registry =
     (case adapter_health meta registry (market_settings_of cfg (meta_id meta)) of
        (adapter, health, adapter_error) \<Rightarrow> support_matrix_entry meta adapter (upstream_blocker health) adapter_error)"

definition market_health_payload :: "(string \<Rightarrow> string) \<Rightarrow> market_metadata \<Rightarrow> app_config \<Rightarrow> venue_registry \<Rightarrow> obj res" where
  "market_health_payload prose meta cfg registry =
     (let settings = market_settings_of cfg (meta_id meta); enabled = enabled_in cfg (meta_id meta);
          health = fst (snd (adapter_health meta registry settings));
          sources = (case oget health ''credential_sources'' of PList vs \<Rightarrow> vs | _ \<Rightarrow> [])
      in rbind (market_health_row meta cfg registry) (\<lambda>support.
      rbind (text_list (oget settings ''credential_env_vars'')) (\<lambda>env_vars.
      rbind (market_configuration_revision cfg (meta_id meta)) (\<lambda>revision.
      Inr [(''market_id'', PStr (meta_id meta)), (''display_name'', PStr (meta_display_name meta)),
        (''configuration_revision'', PStr revision), (''enabled'', PBool enabled), (''default_enabled'', PBool (meta_default_enabled meta)),
        (''homepage_url'', PStr (meta_homepage_url meta)), (''description'', PStr (prose (meta_id meta))),
        (''capabilities'', capabilities_obj (meta_capabilities meta)),
        (''enabled_capabilities'', texts (enabled_capabilities (meta_capabilities meta))),
        (''settings'', PDict (sanitize_settings settings)), (''safety'', PDict (market_safety_payload settings enabled)),
        (''health'', PDict health), (''support'', PDict (support_row_obj support)),
        (''status_text'', PStr (market_status_text meta enabled health settings)),
        (''credential_env_vars'', texts (map py_str env_vars)), (''credential_sources'', PList sources),
        (''credential_summary'', PStr (credential_summary sources))]))))"

definition markets_payload :: "(string \<Rightarrow> string) \<Rightarrow> app_config \<Rightarrow> venue_registry \<Rightarrow> obj res" where
  "markets_payload prose cfg registry =
     rbind (rmap (\<lambda>meta. market_health_payload prose meta cfg registry) MARKET_CATALOG) (\<lambda>markets.
     rbind (rmap (\<lambda>meta. market_health_row meta cfg registry) MARKET_CATALOG) (\<lambda>rows.
     Inr [(''selected_market_id'', PStr (cf_selected_market_id cfg)), (''markets'', PList (map PDict markets)),
       (''support_matrix'', PList (map (PDict \<circ> support_row_obj) rows)), (''support_summary'', PDict (support_matrix_summary rows)),
       (''counts'', PDict [(''total'', PInt (int (length markets))),
          (''enabled'', PInt (int (length (filter (\<lambda>meta. enabled_in cfg (meta_id meta)) MARKET_CATALOG)))),
          (''implemented'', PInt (int (length (filter (\<lambda>meta. enabled_capabilities (meta_capabilities meta) \<noteq> []) MARKET_CATALOG)))),
          (''verified_blocked'', PInt (int (length (filter (\<lambda>r. sr_implementation_status r = ''verified_blocked'') rows)))),
          (''guarded_markets'', PInt (int (length (filter (\<lambda>r. list_ex (\<lambda>(_, s). os_status s = ''guarded'') (sr_operations r)) rows))))])]))"

definition market_support_payload :: "(string \<Rightarrow> string) \<Rightarrow> app_config \<Rightarrow> venue_registry \<Rightarrow> string \<Rightarrow> obj res" where
  "market_support_payload prose cfg registry market_id =
     rbind (markets_payload prose cfg registry) (\<lambda>payload.
     let normalized = lower (strip market_id);
         matrix = (case oget payload ''support_matrix'' of PList vs \<Rightarrow> vs | _ \<Rightarrow> []);
         rows = filter (\<lambda>v. oget (the_dict v) ''market_id'' = PStr normalized) matrix in
     if normalized = [] then Inr [(''selected_market_id'', oget payload ''selected_market_id''), (''markets'', PList matrix),
       (''support_summary'', oget payload ''support_summary''), (''counts'', oget payload ''counts'')]
     else case rows of
         [] \<Rightarrow> value_error (''Unknown market id: '' @ normalized)
       | r # _ \<Rightarrow> Inr [(''selected_market_id'', PStr normalized), (''market'', r), (''markets'', PList rows),
           (''support_summary'', oget payload ''support_summary''), (''counts'', oget payload ''counts'')])"

section \<open>Live safety\<close>

definition live_blockers :: "market_capabilities \<Rightarrow> bool \<Rightarrow> obj \<Rightarrow> string list" where
  "live_blockers c enabled settings =
     (let safety = market_safety_payload settings enabled; on = (\<lambda>k. truthy (oget safety k)) in
      (if \<not> enabled then [''market disabled''] else [])
      @ (if \<not> cap_live_trading c then [''live trading unsupported''] else [])
      @ (if cap_live_trading c \<and> \<not> on ''live_trading_enabled'' then [''live trading disabled''] else [])
      @ (if on ''live_trading_kill_switch'' then [''kill switch active''] else [])
      @ (if cap_live_trading c \<and> on ''live_trading_enabled'' \<and> \<not> on ''live_trading_confirmed'' then [''acknowledgement required''] else []))"

definition live_tone :: "bool \<Rightarrow> string \<Rightarrow> string list \<Rightarrow> string" where
  "live_tone enabled status blockers = (if enabled \<and> status = ''armed'' then ''good'' else if blockers \<noteq> [] then ''warn'' else ''neutral'')"

text \<open>The labels of the redaction policy are an argument: they are display text.\<close>

definition live_safety_payload :: "(string \<Rightarrow> string) \<Rightarrow> string list \<Rightarrow> app_config \<Rightarrow> venue_registry \<Rightarrow> string \<Rightarrow> obj res" where
  "live_safety_payload prose labels cfg registry market_id =
     (let normalized = lower (strip (if market_id = [] then cf_selected_market_id cfg else market_id)) in
      case find (\<lambda>m. meta_id m = normalized) MARKET_CATALOG of
        None \<Rightarrow> value_error (''Unknown market id: '' @ normalized)
      | Some meta \<Rightarrow>
        let settings = market_settings_of cfg normalized; enabled = enabled_in cfg normalized; c = meta_capabilities meta;
            status = market_live_status c settings; blockers = live_blockers c enabled settings
        in rbind (market_health_payload prose meta cfg registry) (\<lambda>market.
        Inr [(''selected_market_id'', PStr normalized), (''market'', PDict market), (''status'', PStr status),
          (''tone'', PStr (live_tone enabled status blockers)), (''blockers'', texts blockers),
          (''can_preflight'', PBool (enabled \<and> cap_live_trading c)), (''controls'', PDict (market_safety_payload settings enabled)),
          (''redaction'', PDict [(''sensitive_key_policy'', texts labels), (''audit_payloads_redacted'', PBool True),
             (''persistent_credentials_allowed'', PBool False)])]))"

section \<open>The preflight preview\<close>

definition numeric_value :: "pyval \<Rightarrow> pyfloat option res" where
  "numeric_value v = (case v of PInt _ \<Rightarrow> rbind (py_float v) (\<lambda>x. Inr (Some x)) | PFloat x \<Rightarrow> Inr (Some x)
     | PBool _ \<Rightarrow> rbind (py_float v) (\<lambda>x. Inr (Some x)) | _ \<Rightarrow> Inr None)"

definition amount_part :: "string \<Rightarrow> pyfloat option \<Rightarrow> string list" where
  "amount_part label x = (case x of None \<Rightarrow> [] | Some f \<Rightarrow> [label @ fmt_g f])"

definition format_live_preflight :: "obj \<Rightarrow> string res" where
  "format_live_preflight preflight =
     (let preview = py_str (py_or (oget preflight ''dry_run_preview'') (PStr ''Live order preflight passed.''));
          warnings = (case oget preflight ''warnings'' of PList vs \<Rightarrow> vs | _ \<Rightarrow> []) in
      rbind (numeric_value (oget preflight ''approx_notional'')) (\<lambda>exposure.
      rbind (numeric_value (oget preflight ''max_notional'')) (\<lambda>max_notional.
      Inr (join ''; '' ([''Preflight OK: '' @ preview] @ amount_part ''max_exposure~'' exposure @ amount_part ''max_notional='' max_notional
        @ (if warnings = [] then [] else [''warnings='' @ join '','' (map py_str warnings)]))))))"

definition live_order_audit_payload :: "paper_order \<Rightarrow> obj" where
  "live_order_audit_payload order = [
     (''market_id'', PStr (po_market_id order)), (''contract_id'', PStr (po_contract_id order)), (''side'', PStr (po_side order)),
     (''size'', PFloat (po_size order)), (''limit_price'', optional_float (po_limit_price order)),
     (''approx_notional'', PFloat (fmul (po_size order) (fmax (Fin 1) (limit_or_zero (po_limit_price order))))),
     (''exposure_model'', PStr ''full_size_upper_bound''), (''metadata_keys'', metadata_keys order)]"

definition checked_preview :: "app_config \<Rightarrow> venue_registry \<Rightarrow> paper_order \<Rightarrow> obj res" where
  "checked_preview cfg registry order =
     rbind (require_market_enabled cfg (po_market_id order) ''live preflight preview'') (\<lambda>_.
     rbind (registry (po_market_id order) (market_settings_of cfg (po_market_id order))) (\<lambda>adapter.
     if \<not> cap_live_trading (la_capabilities adapter)
     then raise UnsupportedFeatureError (la_display_name adapter @ '' does not support live trading in this app.'')
     else rbind (preflight_live_order (live_adapter.truncate adapter) order ''live preflight preview'') (\<lambda>report.
       Inr (the_dict (sanitize_audit_value (PDict report) [])))))"

text \<open>A refusal is part of the answer; only the order itself, the safety view and the text of an accepted
  report can raise.\<close>

definition live_preflight_payload :: "(string \<Rightarrow> string) \<Rightarrow> string list \<Rightarrow> app_config \<Rightarrow> venue_registry \<Rightarrow> obj \<Rightarrow> obj res" where
  "live_preflight_payload prose labels cfg registry payload =
     rbind (paper_order_from_payload payload) (\<lambda>order.
     rbind (live_safety_payload prose labels cfg registry (po_market_id order)) (\<lambda>safety.
     let audit = (''order'', PDict (live_order_audit_payload order)) in
     case checked_preview cfg registry order of
       Inl e \<Rightarrow> Inr [(''ok'', PBool False), (''blocked'', PBool True), audit, (''preflight'', PNone),
         (''message'', PStr (''Live preflight blocked: '' @ exc_text e)), (''live_safety'', PDict safety), (''error'', PStr (exc_text e))]
     | Inr preflight \<Rightarrow>
         rbind (format_live_preflight preflight) (\<lambda>message.
         Inr [(''ok'', PBool True), (''blocked'', PBool False), audit, (''preflight'', PDict preflight), (''message'', PStr message),
           (''live_safety'', PDict safety)])))"

end
