(* ===== verification/Live_Theorems.thy ===== *)
theory Live_Theorems
  imports Live_Laws Web_Live
begin

text \<open>Properties of the live-order guard.\<close>

text \<open>C26: A preflight passes only behind every gate: the adapter trades live and owns the market, live
  trading is switched on, confirmed and neither killed nor paused, the side and the contract are
  admitted, size and price are positive and finite, and size and exposure are within every limit that
  is set. The shared exposure model never charges less than the submitted size.\<close>

theorem live_preflight_is_gated:
  assumes "preflight_live_order a order feature = Inr report"
  shows "\<exists>t. report = preflight_report a order feature t
    \<and> cap_live_trading (la_capabilities a) \<and> po_market_id order = la_market_id a \<and> live_switches (la_config a)
    \<and> po_contract_id order \<noteq> [] \<and> po_side order \<in> set (la_live_order_sides a)
    \<and> lt_size t = po_size order \<and> isfinite (lt_size t) \<and> flt (Fin 0) (lt_size t)
    \<and> lt_limit_price t = po_limit_price order \<and> (\<forall>p. lt_limit_price t = Some p \<longrightarrow> isfinite p \<and> flt (Fin 0) p)
    \<and> la_live_order_exposure a order (po_size order) (po_limit_price order) = Inr (lt_notional t)
    \<and> within_limit a ''live_trading_max_size'' (lt_size t) \<and> within_limit a ''live_trading_max_notional'' (lt_notional t)
    \<and> (la_live_order_exposure a = base_live_order_exposure \<longrightarrow> float_ok (po_size order) \<longrightarrow> fle (lt_size t) (lt_notional t))"
proof -
  obtain t where t: "checked_order a order feature = Inr t" "report = preflight_report a order feature t"
    using assms by (auto simp: preflight_live_order_def rbind_eq_Inr)
  note gates = checked_order_Inr[OF t(1)]
  note terms = checked_terms_Inr[OF gates(7)]
  have "fle (lt_size t) (lt_notional t)" if "la_live_order_exposure a = base_live_order_exposure" "float_ok (po_size order)"
    using base_exposure_ge[of order "po_size order" "po_limit_price order" "lt_notional t"] terms that by simp
  then show ?thesis using t(2) gates(1-6) terms by (intro exI[of _ t]) auto
qed

definition demo_live_adapter :: live_adapter where
  "demo_live_adapter = \<lparr> la_market_id = ''kalshi'', la_display_name = ''Kalshi'',
     la_capabilities = default_capabilities\<lparr> cap_live_trading := True \<rparr>,
     la_config = [(''live_trading_enabled'', PBool True), (''live_trading_confirmed'', PStr '' Yes''), (''live_trading_max_notional'', PFloat (Fin 5))],
     la_live_order_sides = DEFAULT_LIVE_ORDER_SIDES, la_exposure_model = ''full_size_upper_bound'',
     la_live_order_exposure = base_live_order_exposure \<rparr>"

definition demo_live_order :: paper_order where
  "demo_live_order = \<lparr> po_market_id = ''kalshi'', po_contract_id = ''K1'', po_side = ''BUY'', po_size = Fin 4, po_limit_price = None, po_metadata = [] \<rparr>"

lemma demo_checked: "checked_terms demo_live_adapter demo_live_order
    = Inr \<lparr> lt_size = Fin 4, lt_limit_price = None, lt_notional = Fin 4, lt_max_size = None, lt_max_notional = Some (Fin 5) \<rparr>"
proof -
  have "positive_config_float demo_live_adapter ''live_trading_max_size'' = Inr None"
    "positive_config_float demo_live_adapter ''live_trading_max_notional'' = Inr (Some (Fin 5))"
    by (simp_all add: positive_config_float_def adapter_config_float_def demo_live_adapter_def)
  moreover have "la_live_order_exposure demo_live_adapter = base_live_order_exposure" by (simp add: demo_live_adapter_def)
  ultimately show ?thesis
    by (simp add: checked_terms_def demo_live_order_def live_finite_def checked_limit_def base_live_order_exposure_def
      limit_or_zero_def fmax_def to_float_numeral above_limit_def)
qed

lemma demo_preflight: "\<exists>r. preflight_live_order demo_live_adapter demo_live_order ''live trading'' = Inr r"
proof -
  have "ensure_live_trading_enabled demo_live_adapter ''live trading'' = Inr ()" by code_simp
  moreover have "strip ''K1'' = ''K1''" by code_simp
  ultimately have "checked_order demo_live_adapter demo_live_order ''live trading'' = checked_terms demo_live_adapter demo_live_order"
    by (simp add: checked_order_def ensure_live_capability_def ensure_order_market_def require_def demo_live_order_def
      demo_live_adapter_def DEFAULT_LIVE_ORDER_SIDES_def)
  then show ?thesis by (simp add: preflight_live_order_def demo_checked)
qed

theorem live_preflight_is_gated_witness:
  "\<exists>t :: live_terms. lt_size t = Fin 4 \<and> within_limit demo_live_adapter ''live_trading_max_notional'' (lt_notional t) \<and> fle (Fin 4) (lt_notional t)"
proof -
  obtain r where r: "preflight_live_order demo_live_adapter demo_live_order ''live trading'' = Inr r" using demo_preflight by blast
  have "to_float 4 = Fin 4" by (rule to_float_numeral) simp
  then have "float_ok (Fin 4)" by (metis float_ok_to_float)
  moreover have "la_live_order_exposure demo_live_adapter = base_live_order_exposure" "po_size demo_live_order = Fin 4"
    by (simp_all add: demo_live_adapter_def demo_live_order_def)
  ultimately have facts: "float_ok (po_size demo_live_order)" "la_live_order_exposure demo_live_adapter = base_live_order_exposure"
    "po_size demo_live_order = Fin 4" by (simp_all del: float_ok.simps)
  show ?thesis by (rule ex_forward[OF live_preflight_is_gated[OF r]]) (use facts in \<open>auto simp del: float_ok.simps\<close>)
qed

section \<open>The safety view and the guard\<close>

text \<open>The view reads a setting with \<open>bool_from_setting\<close>, the adapter with \<open>config_bool\<close>.\<close>

lemma settings_readers_agree: "bool_from_setting (oget s k) False = adapter_config_bool s k False"
proof (cases "dget s k")
  case None
  then show ?thesis by (simp add: bool_from_setting_def adapter_config_bool_def oget_def oget_or_def)
next
  case (Some v)
  moreover have "lower (strip []) = []" by code_simp
  ultimately show ?thesis
    by (cases v) (auto simp: bool_from_setting_def adapter_config_bool_def oget_def oget_or_def)
qed

lemma armed_iff_switches: "market_live_status c s = ''armed'' \<longleftrightarrow> cap_live_trading c \<and> live_switches s"
  by (simp add: market_live_status_def Let_def live_switches_def settings_readers_agree)

lemma no_blockers_iff: "live_blockers c e s = [] \<longleftrightarrow> e \<and> cap_live_trading c \<and> live_switches s"
  by (auto simp: live_blockers_def market_safety_payload_def Let_def live_switches_def settings_readers_agree)

text \<open>The safety view of the dashboard never disagrees with the guard of the adapter: it lists no
  blocker exactly when the market is enabled and both gates of the guard are open, exactly then the
  status of the enabled market is armed, and exactly then the tone is good.\<close>

theorem safety_view_agrees_with_the_guard:
  "(live_blockers (la_capabilities a) e (la_config a) = []
      \<longleftrightarrow> e \<and> ensure_live_capability a = Inr () \<and> ensure_live_trading_enabled a feature = Inr ())
   \<and> (e \<and> market_live_status (la_capabilities a) (la_config a) = ''armed'' \<longleftrightarrow> live_blockers (la_capabilities a) e (la_config a) = [])
   \<and> (live_tone e (market_live_status (la_capabilities a) (la_config a)) (live_blockers (la_capabilities a) e (la_config a)) = ''good''
      \<longleftrightarrow> live_blockers (la_capabilities a) e (la_config a) = [])"
  by (auto simp: no_blockers_iff armed_iff_switches ensure_live_trading_enabled_Inr ensure_live_capability_def live_tone_def require_def)

end
