(* ===== verification/Storage.thy ===== *)
theory Storage
  imports Models_Config Config_Security
begin

text \<open>
  The configuration store of \<open>core/storage.py\<close>: bounded reading, loading, and saving by compare and
  replace under a lock. A file is missing, something other than a regular file, or a sequence of bytes
  (characters of code 0 to 255). UTF-8 decoding with the strict JSON parser is the argument \<open>decode\<close>;
  a read happens at one instant, so the checks for a file that changes while it is read have no
  counterpart. Faults of the file system are arguments.
\<close>

section \<open>Reading\<close>

datatype config_file = Missing | Special | Contents string

definition MAX_CONFIG_BYTES :: nat where
  "MAX_CONFIG_BYTES = 16 * 1024 * 1024"

definition read_config_bytes :: "config_file \<Rightarrow> string option res" where
  "read_config_bytes f = (case f of
       Missing \<Rightarrow> Inr None
     | Special \<Rightarrow> value_error ''Configuration must be a regular file, not a symbolic link or special file.''
     | Contents raw \<Rightarrow> if MAX_CONFIG_BYTES < length raw
         then value_error (''Configuration exceeds the supported size limit of '' @ nat_str (int MAX_CONFIG_BYTES) @ '' bytes.'')
         else Inr (Some raw))"

definition MISSING_REVISION :: string where
  "MISSING_REVISION = ''missing''"

definition bytes_revision :: "string \<Rightarrow> string" where
  "bytes_revision raw = sha256 (map ord raw)"

definition config_file_revision :: "config_file \<Rightarrow> string res" where
  "config_file_revision f = rbind (read_config_bytes f) (\<lambda>raw. Inr (case raw of None \<Rightarrow> MISSING_REVISION | Some b \<Rightarrow> bytes_revision b))"

text \<open>A configuration with the revision it was loaded or last saved as.\<close>

record stored_config =
  sc_config :: app_config
  sc_revision :: string

type_synonym decoder = "string \<Rightarrow> pyval res"

definition parse_config :: "decoder \<Rightarrow> defaults \<Rightarrow> string \<Rightarrow> stored_config res" where
  "parse_config decode fresh raw =
     rbind (decode raw) (\<lambda>data.
     rbind (assert_no_persisted_secrets data) (\<lambda>_.
     rbind (app_config_from_dict fresh data) (\<lambda>cfg.
     Inr \<lparr> sc_config = cfg, sc_revision = bytes_revision raw \<rparr>)))"

definition unreadable_config :: "string \<Rightarrow> exc \<Rightarrow> 'a res" where
  "unreadable_config path e = raise ConfigLoadError
     (if exc_isa (exc_kind e) ConfigSecurityError
      then ''Configuration file cannot be loaded safely: '' @ path @ ''. '' @ exc_text e @ '' The file was left unchanged.''
      else ''Configuration file cannot be loaded: '' @ path @ ''. The file was left unchanged; restore a verified backup or reconcile the damaged state before restarting. Do not reset trading journals.'')"

definition load_config :: "decoder \<Rightarrow> defaults \<Rightarrow> string \<Rightarrow> config_file \<Rightarrow> stored_config res" where
  "load_config decode fresh path f =
     (case rbind (read_config_bytes f) (\<lambda>raw. case raw of
          None \<Rightarrow> Inr \<lparr> sc_config = default_app_config, sc_revision = MISSING_REVISION \<rparr>
        | Some b \<Rightarrow> parse_config decode fresh b)
      of Inl e \<Rightarrow> unreadable_config path e | Inr s \<Rightarrow> Inr s)"

section \<open>Saving\<close>

text \<open>The bytes a save publishes: \<open>json.dumps(.., indent=2, sort_keys=True, allow_nan=False)\<close> and a newline,
  which is ASCII text. The snapshot is read back before it is published.\<close>

definition config_document :: "defaults \<Rightarrow> app_config \<Rightarrow> string res" where
  "config_document fresh cfg =
     rbind (app_config_to_dict cfg) (\<lambda>d.
     rbind (assert_no_persisted_secrets (PDict d)) (\<lambda>_.
     rbind (app_config_from_dict fresh (PDict d)) (\<lambda>_.
     rbind (require (json_finite (PDict d)) (Exc ValueError ''Out of range float values are not JSON compliant'')) (\<lambda>_.
     let data = json_indented 0 (PDict d) @ [newline] in
     if MAX_CONFIG_BYTES < length data
     then value_error (''Serialized configuration exceeds the supported size limit of '' @ nat_str (int MAX_CONFIG_BYTES) @ '' bytes.'')
     else Inr data))))"

text \<open>What the file system may do to a save: no lock in time, a failure before the replacement, a
  failure after it.\<close>

record save_faults =
  sf_no_lock :: bool
  sf_not_replaced :: "exc option"
  sf_not_synced :: "exc option"

definition conflict :: "string \<Rightarrow> 'a res" where
  "conflict path = raise ConfigConflictError
     (''Configuration changed in another process: '' @ path @ ''. Reload it before saving; no data was written.'')"

definition save_config ::
    "defaults \<Rightarrow> string \<Rightarrow> save_faults \<Rightarrow> config_file \<Rightarrow> stored_config \<Rightarrow> config_file \<times> stored_config \<times> unit res" where
  "save_config fresh path faults f s =
     (case config_document fresh (sc_config s) of
        Inl e \<Rightarrow> (f, s, Inl e)
      | Inr data \<Rightarrow>
        if sf_no_lock faults
        then (f, s, raise ConfigConflictError (''Timed out waiting for the configuration lock: '' @ path @ ''. No data was written.''))
        else (case config_file_revision f of
            Inl e \<Rightarrow> (f, s, Inl e)
          | Inr current \<Rightarrow>
            if sc_revision s \<noteq> current then (f, s, conflict path)
            else (case sf_not_replaced faults of
                Some e \<Rightarrow> (f, s, Inl e)
              | None \<Rightarrow> (Contents data, s\<lparr> sc_revision := bytes_revision data \<rparr>,
                  (case sf_not_synced faults of
                     None \<Rightarrow> Inr ()
                   | Some e \<Rightarrow> raise ConfigCommitError (''Configuration was replaced, but durability or cleanup could not be confirmed. ''
                       @ ''Reconcile the committed file before continuing.''))))))"

section \<open>Concurrent savers\<close>

text \<open>The same save in its atomic steps, for any number of processes on one file: the snapshot is
  taken and the lock acquired, the revision is compared, the temporary file is written, the file is
  replaced, the lock is released. A crash, a timeout or an error ends a save at any point; the lock
  goes with its holder. The commits are recorded with the revision each was based on.\<close>

datatype save_phase = Away | Has stored_config | Locked stored_config string | Compared stored_config string
  | Written stored_config string | Replaced stored_config

record store =
  so_file :: config_file
  so_procs :: "save_phase list"
  so_commits :: "(string \<times> string) list"

fun holds_lock :: "save_phase \<Rightarrow> bool" where
  "holds_lock Away = False"
| "holds_lock (Has s) = False"
| "holds_lock _ = True"

definition enter :: "nat \<Rightarrow> save_phase \<Rightarrow> store \<Rightarrow> store" where
  "enter p ph st = st\<lparr> so_procs := (so_procs st)[p := ph] \<rparr>"

definition publish :: "string \<Rightarrow> string \<Rightarrow> store \<Rightarrow> store" where
  "publish base data st = st\<lparr> so_file := Contents data, so_commits := so_commits st @ [(base, data)] \<rparr>"

inductive store_step :: "decoder \<Rightarrow> defaults \<Rightarrow> store \<Rightarrow> store \<Rightarrow> bool" for decode fresh where
  load: "p < length (so_procs st) \<Longrightarrow> so_procs st ! p = Away \<Longrightarrow> load_config decode fresh path (so_file st) = Inr s
     \<Longrightarrow> store_step decode fresh st (enter p (Has s) st)"
| change: "p < length (so_procs st) \<Longrightarrow> so_procs st ! p = Has s \<Longrightarrow> store_step decode fresh st (enter p (Has (s\<lparr> sc_config := cfg \<rparr>)) st)"
| lock: "p < length (so_procs st) \<Longrightarrow> so_procs st ! p = Has s \<Longrightarrow> config_document fresh (sc_config s) = Inr data
     \<Longrightarrow> \<forall>q < length (so_procs st). \<not> holds_lock (so_procs st ! q) \<Longrightarrow> store_step decode fresh st (enter p (Locked s data) st)"
| compare: "p < length (so_procs st) \<Longrightarrow> so_procs st ! p = Locked s data \<Longrightarrow> config_file_revision (so_file st) = Inr (sc_revision s)
     \<Longrightarrow> store_step decode fresh st (enter p (Compared s data) st)"
| prepare: "p < length (so_procs st) \<Longrightarrow> so_procs st ! p = Compared s data \<Longrightarrow> store_step decode fresh st (enter p (Written s data) st)"
| replace: "p < length (so_procs st) \<Longrightarrow> so_procs st ! p = Written s data
     \<Longrightarrow> store_step decode fresh st (enter p (Replaced (s\<lparr> sc_revision := bytes_revision data \<rparr>)) (publish (sc_revision s) data st))"
| release: "p < length (so_procs st) \<Longrightarrow> so_procs st ! p = Replaced s \<Longrightarrow> store_step decode fresh st (enter p (Has s) st)"
| refuse: "p < length (so_procs st) \<Longrightarrow> so_procs st ! p \<in> {Locked s data, Compared s data, Written s data}
     \<Longrightarrow> store_step decode fresh st (enter p (Has s) st)"
| crash: "p < length (so_procs st) \<Longrightarrow> store_step decode fresh st (enter p Away st)"

inductive store_reach :: "decoder \<Rightarrow> defaults \<Rightarrow> config_file \<Rightarrow> store \<Rightarrow> bool" for decode fresh f where
  start: "store_reach decode fresh f \<lparr> so_file = f, so_procs = replicate n Away, so_commits = [] \<rparr>"
| step: "store_reach decode fresh f st \<Longrightarrow> store_step decode fresh st st' \<Longrightarrow> store_reach decode fresh f st'"

text \<open>The revision of the file after some commits, and commits each of which replaced what its
  process had last seen.\<close>

definition file_after :: "config_file \<Rightarrow> (string \<times> string) list \<Rightarrow> config_file" where
  "file_after f commits = (if commits = [] then f else Contents (snd (last commits)))"

fun chained :: "string \<Rightarrow> (string \<times> string) list \<Rightarrow> bool" where
  "chained r [] = True"
| "chained r ((base, data) # rest) = (base = r \<and> chained (bytes_revision data) rest)"

end
