(* ===== verification/Interleaving.thy ===== *)
theory Interleaving
  imports Main
begin

text \<open>
  Mutual exclusion among interleaved threads or processes, stated once: a system whose states list the
  phase of every participant, and whose steps move at most one of them, into a phase that holds the
  lock only when it held it before or nobody does. Then at most one participant holds it, ever.
\<close>

definition one_holder :: "('p \<Rightarrow> bool) \<Rightarrow> 'p list \<Rightarrow> bool" where
  "one_holder holds ps \<longleftrightarrow> (\<forall>p < length ps. \<forall>q < length ps. holds (ps ! p) \<longrightarrow> holds (ps ! q) \<longrightarrow> p = q)"

definition unheld :: "('p \<Rightarrow> bool) \<Rightarrow> 'p list \<Rightarrow> bool" where
  "unheld holds ps \<longleftrightarrow> (\<forall>p < length ps. \<not> holds (ps ! p))"

lemma unheld_one_holder: "unheld holds ps \<Longrightarrow> one_holder holds ps"
  by (simp add: unheld_def one_holder_def)

lemma unheld_replicate: "\<not> holds ph \<Longrightarrow> unheld holds (replicate n ph)"
  by (simp add: unheld_def)

lemma one_holder_update:
  assumes "one_holder holds ps" "holds ph \<longrightarrow> holds (ps ! p) \<or> unheld holds ps" "p < length ps"
  shows "one_holder holds (ps[p := ph])"
  using assms by (auto simp: one_holder_def unheld_def nth_list_update)

lemma one_holder_Cons: "one_holder holds (x # xs) \<Longrightarrow> one_holder holds xs"
  unfolding one_holder_def by (metis Suc_inject Suc_less_eq length_Cons nth_Cons_Suc)

lemma one_holder_count: "one_holder holds ps \<Longrightarrow> length (filter holds ps) \<le> 1"
proof (induction ps)
  case (Cons x xs)
  have "\<not> holds y" if x: "holds x" and y: "y \<in> set xs" for y
  proof
    assume "holds y"
    obtain i where i: "i < length xs" "xs ! i = y" using y by (auto simp: in_set_conv_nth)
    have "0 = Suc i"
      using Cons.prems x \<open>holds y\<close> i unfolding one_holder_def
      by (metis Suc_less_eq length_Cons nth_Cons_0 nth_Cons_Suc zero_less_Suc)
    then show False by simp
  qed
  then show ?case using Cons.IH one_holder_Cons[OF Cons.prems] by (auto simp: filter_empty_conv)
qed simp

locale exclusive =
  fixes phases :: "'s \<Rightarrow> 'p list" and holds :: "'p \<Rightarrow> bool" and step :: "'s \<Rightarrow> 's \<Rightarrow> bool"
  assumes moves_one: "step s t \<Longrightarrow> phases t = phases s
    \<or> (\<exists>p ph. p < length (phases s) \<and> phases t = (phases s)[p := ph] \<and> (holds ph \<longrightarrow> holds (phases s ! p) \<or> unheld holds (phases s)))"
begin

lemma stays_exclusive: "step s t \<Longrightarrow> one_holder holds (phases s) \<Longrightarrow> one_holder holds (phases t)"
  using moves_one[of s t] one_holder_update by metis

lemma same_participants: "step s t \<Longrightarrow> length (phases t) = length (phases s)"
  using moves_one[of s t] by auto

lemma exclusive_ever:
  assumes "step\<^sup>*\<^sup>* s t" "unheld holds (phases s)"
  shows "length (filter holds (phases t)) \<le> 1 \<and> length (phases t) = length (phases s)"
  using assms(1)
proof -
  have "one_holder holds (phases t) \<and> length (phases t) = length (phases s)"
    using assms by (induction rule: rtranclp_induct) (auto intro: stays_exclusive unheld_one_holder dest: same_participants)
  then show ?thesis using one_holder_count by blast
qed

end

end
