(* ===== verification/Storage_Laws.thy ===== *)
theory Storage_Laws
  imports Storage Interleaving
begin

text \<open>Saving is one compare-and-replace, alone and among concurrent savers.\<close>

lemma config_document_size: "config_document fresh cfg = Inr data \<Longrightarrow> length data \<le> MAX_CONFIG_BYTES"
  by (auto simp: config_document_def rbind_eq_Inr Let_def split: if_splits)

lemma document_revision: "length data \<le> MAX_CONFIG_BYTES \<Longrightarrow> config_file_revision (Contents data) = Inr (bytes_revision data)"
  by (simp add: config_file_revision_def read_config_bytes_def)

lemma parse_config_revision: "parse_config decode fresh raw = Inr s \<Longrightarrow> sc_revision s = bytes_revision raw"
  by (auto simp: parse_config_def rbind_eq_Inr)

lemma load_config_revision: "load_config decode fresh path f = Inr s \<Longrightarrow> config_file_revision f = Inr (sc_revision s)"
  by (cases f) (auto simp: load_config_def config_file_revision_def read_config_bytes_def unreadable_config_def
    dest: parse_config_revision split: if_splits sum.splits)

section \<open>The invariant of the store\<close>

text \<open>A process that has compared still knows the revision of the file: nobody else can replace it.\<close>

fun knows_file :: "config_file \<Rightarrow> save_phase \<Rightarrow> bool" where
  "knows_file f (Locked s data) = (length data \<le> MAX_CONFIG_BYTES)"
| "knows_file f (Compared s data) = (length data \<le> MAX_CONFIG_BYTES \<and> config_file_revision f = Inr (sc_revision s))"
| "knows_file f (Written s data) = (length data \<le> MAX_CONFIG_BYTES \<and> config_file_revision f = Inr (sc_revision s))"
| "knows_file f _ = True"

definition file_known :: "config_file \<Rightarrow> store \<Rightarrow> bool" where
  "file_known f st \<longleftrightarrow> list_all (knows_file (so_file st)) (so_procs st)
     \<and> so_file st = file_after f (so_commits st)
     \<and> (so_commits st \<noteq> [] \<longrightarrow> (\<exists>r. config_file_revision f = Inr r \<and> chained r (so_commits st)))
     \<and> list_all (\<lambda>(_, data). length data \<le> MAX_CONFIG_BYTES) (so_commits st)"

definition store_inv :: "config_file \<Rightarrow> store \<Rightarrow> bool" where
  "store_inv f st \<longleftrightarrow> one_holder holds_lock (so_procs st) \<and> file_known f st"

lemmas store_inv_defs = store_inv_def file_known_def

text \<open>The lock file excludes: a process acquires it only when nobody holds it.\<close>

interpretation store_lock: exclusive so_procs holds_lock "store_step decode fresh" for decode fresh
proof
  fix s t assume "store_step decode fresh s t"
  then show "so_procs t = so_procs s \<or> (\<exists>p ph. p < length (so_procs s) \<and> so_procs t = (so_procs s)[p := ph]
      \<and> (holds_lock ph \<longrightarrow> holds_lock (so_procs s ! p) \<or> unheld holds_lock (so_procs s)))"
    by (induction rule: store_step.induct) (force simp: enter_def publish_def unheld_def)+
qed

lemma knows_file_enter:
  "list_all (knows_file f) ps \<Longrightarrow> knows_file f ph \<Longrightarrow> list_all (knows_file f) (ps[p := ph])"
  by (auto simp: list_all_iff dest!: set_update_subset_insert[THEN subsetD])

lemma file_known_enter:
  assumes "file_known f st" "knows_file (so_file st) ph"
  shows "file_known f (enter p ph st)"
proof -
  have "list_all (knows_file (so_file st)) ((so_procs st)[p := ph])"
    using assms unfolding file_known_def by (blast intro: knows_file_enter)
  then show ?thesis using assms(1) by (auto simp: file_known_def enter_def)
qed

lemma chained_snoc:
  "chained r (commits @ [(base, data)]) \<longleftrightarrow> chained r commits
     \<and> base = (if commits = [] then r else bytes_revision (snd (last commits)))"
  by (induction r commits rule: chained.induct) auto

text \<open>The replacement: the other processes hold no lock, so none of them relies on the old file.\<close>

lemma file_known_replace:
  assumes inv: "store_inv f st" and p: "p < length (so_procs st)" "so_procs st ! p = Written s data"
  shows "file_known f (enter p (Replaced s') (publish (sc_revision s) data st))"
proof -
  have knows: "knows_file (so_file st) (Written s data)"
    using inv p by (metis store_inv_def file_known_def list_all_length)
  have free: "knows_file g (so_procs st ! q)" if "q < length (so_procs st)" "q \<noteq> p" for g q
  proof -
    have "\<not> holds_lock (so_procs st ! q)" using inv p that by (auto simp: store_inv_def one_holder_def)
    then show ?thesis by (cases "so_procs st ! q") auto
  qed
  have others: "list_all (knows_file (Contents data)) ((so_procs st)[p := Replaced s'])"
    using free p(1) by (auto simp: list_all_length nth_list_update)
  have "\<exists>r. config_file_revision f = Inr r \<and> chained r (so_commits st @ [(sc_revision s, data)])"
  proof (cases "so_commits st = []")
    case True
    then show ?thesis using inv knows by (auto simp: store_inv_defs file_after_def)
  next
    case False
    have "length (snd (last (so_commits st))) \<le> MAX_CONFIG_BYTES"
      using inv last_in_set[OF False] unfolding store_inv_defs list_all_iff by (metis case_prod_unfold)
    then have "sc_revision s = bytes_revision (snd (last (so_commits st)))"
      using inv knows False document_revision by (auto simp: store_inv_defs file_after_def)
    then show ?thesis using inv False by (auto simp: store_inv_defs chained_snoc)
  qed
  then show ?thesis using inv knows others by (simp add: store_inv_defs enter_def publish_def file_after_def)
qed

lemma file_known_step: "store_step decode fresh st st' \<Longrightarrow> store_inv f st \<Longrightarrow> file_known f st'"
proof (induction rule: store_step.induct)
  case (compare p st s data)
  then have "knows_file (so_file st) (Locked s data)" by (metis store_inv_defs list_all_length)
  then show ?case using compare by (intro file_known_enter) (auto simp: store_inv_def)
next
  case (prepare p st s data)
  then have "knows_file (so_file st) (Compared s data)" by (metis store_inv_defs list_all_length)
  then show ?case using prepare by (intro file_known_enter) (auto simp: store_inv_def)
next
  case (replace p st s data)
  then show ?case by (intro file_known_replace)
qed (auto intro!: file_known_enter dest: config_document_size simp: store_inv_def)

lemma store_inv_reach: "store_reach decode fresh f st \<Longrightarrow> store_inv f st"
proof (induction rule: store_reach.induct)
  case (start n)
  then show ?case by (simp add: store_inv_defs unheld_one_holder unheld_replicate file_after_def list_all_length)
next
  case (step st st')
  then show ?case using file_known_step store_lock.stays_exclusive by (auto simp: store_inv_def)
qed

section \<open>One save\<close>

text \<open>A save leaves everything as it was and fails, or it replaces the file it was based on; then the
  revision it remembers is the one of the new file, whatever is reported.\<close>

lemma save_config_cases:
  assumes "save_config fresh path faults f s = (f', s', r)"
  obtains e where "f' = f" "s' = s" "r = Inl e"
  | data where "config_document fresh (sc_config s) = Inr data" "config_file_revision f = Inr (sc_revision s)"
      "f' = Contents data" "s' = s\<lparr> sc_revision := bytes_revision data \<rparr>"
      "r = Inr () \<or> (\<exists>m. r = raise ConfigCommitError m)" "config_file_revision f' = Inr (sc_revision s')"
proof (cases "\<exists>e. f' = f \<and> s' = s \<and> r = Inl e")
  case True
  then show ?thesis using that(1) by blast
next
  case False
  then have "\<exists>data. config_document fresh (sc_config s) = Inr data \<and> config_file_revision f = Inr (sc_revision s)
        \<and> f' = Contents data \<and> s' = s\<lparr> sc_revision := bytes_revision data \<rparr> \<and> (r = Inr () \<or> (\<exists>m. r = raise ConfigCommitError m))"
      using assms by (auto simp: save_config_def conflict_def split: sum.splits if_splits option.splits)
  then obtain data where d: "config_document fresh (sc_config s) = Inr data" "config_file_revision f = Inr (sc_revision s)"
      "f' = Contents data" "s' = s\<lparr> sc_revision := bytes_revision data \<rparr>" "r = Inr () \<or> (\<exists>m. r = raise ConfigCommitError m)"
      by blast
  show ?thesis by (rule that(2)[OF d]) (simp add: d(3,4) document_revision config_document_size[OF d(1)])
qed

section \<open>The contract of the store\<close>

text \<open>What a client of the store relies on: a loaded value knows the revision of the file, and a save swaps
  file and revision together or fails and leaves both alone.\<close>

locale revisioned_store =
  fixes revision :: "'f \<Rightarrow> 'r res" and based :: "'s \<Rightarrow> 'r" and load :: "'f \<Rightarrow> 's res"
    and save :: "'x \<Rightarrow> 'f \<Rightarrow> 's \<Rightarrow> 'f \<times> 's \<times> unit res"
  assumes loaded: "load f = Inr s \<Longrightarrow> revision f = Inr (based s)"
    and swaps: "save x f s = (f', s', r) \<Longrightarrow>
      (f' = f \<and> s' = s \<and> isl r) \<or> (revision f = Inr (based s) \<and> revision f' = Inr (based s'))"
begin

lemma stale_save_fails:
  assumes "save x f s = (f', s', r)" "revision f \<noteq> Inr (based s)"
  shows "f' = f \<and> s' = s \<and> isl r"
  using swaps[OF assms(1)] assms(2) by blast

text \<open>Of two values loaded from the same file at most one replaces it.\<close>

lemma second_save_fails:
  assumes "load f = Inr s" "based a = based s" "based b = based s"
    and "save x f a = (g, a', r)" "revision g \<noteq> revision f" "save y g b = (h, b', q)"
  shows "h = g \<and> b' = b \<and> isl q"
  using stale_save_fails[OF assms(6)] loaded[OF assms(1)] assms(3,5) by simp

text \<open>After a save that did not fail silently the value can be saved again without a new load.\<close>

lemma saved_is_based:
  assumes "save x f s = (f', s', Inr ())"
  shows "revision f' = Inr (based s')"
  using swaps[OF assms] by auto

end

interpretation config_store: revisioned_store config_file_revision sc_revision "load_config decode fresh path" "save_config fresh path"
  for decode fresh path
proof
  show "config_file_revision f = Inr (sc_revision s)" if "load_config decode fresh path f = Inr s" for f s
    using that by (rule load_config_revision)
  show "(f' = f \<and> s' = s \<and> isl r) \<or> (config_file_revision f = Inr (sc_revision s) \<and> config_file_revision f' = Inr (sc_revision s'))"
    if "save_config fresh path x f s = (f', s', r)" for x f s f' s' r
    using that by (rule save_config_cases) auto
qed

text \<open>A desktop or API process that loaded the configuration before another one saved it cannot
  overwrite that save.\<close>

lemma later_saver_conflicts:
  assumes "load_config decode fresh path f = Inr s"
    and "save_config fresh path x f (s\<lparr> sc_config := cfg \<rparr>) = (g, s1, r)" "config_file_revision g \<noteq> config_file_revision f"
    and "save_config fresh path y g (s\<lparr> sc_config := cfg' \<rparr>) = (h, s2, q)"
  shows "h = g \<and> isl q"
  using config_store.second_save_fails[OF assms(1) _ _ assms(2-4)] by simp

end
