(* ===== verification/Storage_Theorems.thy ===== *)
theory Storage_Theorems
  imports Storage_Laws Models_Copy_Laws
begin

text \<open>Properties of the configuration store.\<close>

text \<open>C28: No update is lost. However the saves of any number of processes interleave, time out, fail or crash,
  the file holds the initial content or what was committed last, and every commit replaced exactly the
  revision that its process had loaded or saved before: the commits form one chain from the initial file.
  Every committed file is within the size the loader accepts.\<close>

theorem no_update_is_lost:
  assumes "store_reach decode fresh f st" "so_commits st \<noteq> []"
  shows "\<exists>r. config_file_revision f = Inr r \<and> chained r (so_commits st) \<and> so_file st = Contents (snd (last (so_commits st)))
     \<and> (\<forall>(base, data) \<in> set (so_commits st). config_file_revision (Contents data) = Inr (bytes_revision data))"
  using store_inv_reach[OF assms(1)] assms(2)
  by (fastforce simp: store_inv_defs file_after_def list_all_iff intro: document_revision)

text \<open>C29: A save is a transaction. It fails and changes neither the file nor the revision it remembers, or it
  compared the revision of the file with the one it was based on and replaced the file; then it reports
  success or the uncertain commit, and in both cases the next save or load of this process starts from
  the committed file.\<close>

theorem save_is_a_transaction:
  assumes "save_config fresh path faults f s = (f', s', r)"
  shows "(f' = f \<and> s' = s \<and> isl r)
     \<or> (\<exists>data. config_document fresh (sc_config s) = Inr data \<and> config_file_revision f = Inr (sc_revision s)
         \<and> f' = Contents data \<and> s' = s\<lparr> sc_revision := bytes_revision data \<rparr> \<and> config_file_revision f' = Inr (sc_revision s')
         \<and> (r = Inr () \<or> (\<exists>m. r = raise ConfigCommitError m)))"
  using assms by (rule save_config_cases) auto

section \<open>A fresh installation\<close>

text \<open>Two processes start without a file; both load the default configuration and the first of them saves a
  small one.\<close>

definition plain_copy :: copy_settings where
  "plain_copy = default_copy_settings\<lparr> ct_scale := Fin 0, ct_slippage := Fin 0 \<rparr>"

definition plain_config :: app_config where
  "plain_config = default_app_config\<lparr> cf_markets := [], cf_copytrading := plain_copy \<rparr>"

definition plain_copy_obj :: obj where
  "plain_copy_obj = [(''enabled'', PBool False), (''live'', PBool False), (''follow_wallet'', PStr []), (''follow_wallets'', PList []),
     (''scale'', PFloat (Fin 0)), (''max_usdc_per_trade'', PFloat (Fin 25)), (''slippage'', PFloat (Fin 0)), (''allow_sells'', PBool False),
     (''conflict_guard'', PBool True), (''conflict_window_seconds'', PInt 300), (''copy_percentage'', PFloat (Fin 0))]"

definition plain_obj :: obj where
  "plain_obj = [(''schema_version'', PInt 1), (''alerts'', PList []), (''alert_events'', PList []), (''paper_trades'', PList []),
     (''wallets'', PList []), (''copy_activity_outbox'', PList []), (''mutation_journal'', PList []), (''copytrading'', PDict plain_copy_obj),
     (''markets'', PDict []), (''selected_market_id'', PStr ''polymarket''), (''theme'', PStr ''light''), (''ui_design'', PStr ''aurora_2026'')]"

lemma plain_copy_ok: "copy_settings_ok plain_copy"
  by (simp add: copy_settings_ok_def plain_copy_def default_copy_settings_def probability_def)

lemma plain_copy_written: "copy_settings_to_dict plain_copy = Inr plain_copy_obj"
proof -
  have "copy_settings_written plain_copy = plain_copy_obj"
    by (simp add: copy_settings_written_def copy_settings_asdict_def plain_copy_def plain_copy_obj_def default_copy_settings_def round_even_of_int[of 0, simplified])
  then show ?thesis using copy_settings_to_dict_written[OF plain_copy_ok] by simp
qed

lemma plain_copy_read: "copy_settings_from_dict plain_copy_obj = Inr plain_copy"
  using copy_settings_roundtrip[OF plain_copy_ok] by (simp add: plain_copy_written)

lemma plain_written: "app_config_to_dict plain_config = Inr plain_obj"
  using plain_copy_written
  by (simp add: app_config_to_dict_def plain_config_def default_app_config_def named_configs_def plain_obj_def DEFAULT_MARKET_ID_def)

lemma plain_read: "\<exists>cfg. app_config_from_dict fresh (PDict plain_obj) = Inr cfg"
proof -
  have checks: "schema_check plain_obj = Inr ()" "unknown_fields_check plain_obj = Inr ()" by code_simp+
  have records: "config_records plain_obj k n = Inr []"
    if "k \<in> {''alerts'', ''alert_events'', ''paper_trades'', ''wallets'', ''copy_activity_outbox'', ''mutation_journal''}" for k n
    using that by (auto simp: config_records_def plain_obj_def)
  have markets: "read_markets plain_obj = Inr default_market_configs" by (simp add: read_markets_def plain_obj_def)
  have "read_copytrading plain_obj = Inr plain_copy" using plain_copy_read by (simp add: read_copytrading_def plain_obj_def)
  then show ?thesis
    by (simp add: app_config_from_dict_def checks records markets read_records_def unique_record_fields_def)
qed

text \<open>No key of the document names a credential and no value looks like one.\<close>

lemma plain_keys_1: "list_all (\<lambda>(k, v). entry_verdict k v = Descend) (take 4 plain_copy_obj)" by code_simp
lemma plain_keys_2: "list_all (\<lambda>(k, v). entry_verdict k v = Descend) (take 4 (drop 4 plain_copy_obj))" by code_simp
lemma plain_keys_3: "list_all (\<lambda>(k, v). entry_verdict k v = Descend) (drop 8 plain_copy_obj)" by code_simp
lemma plain_keys_4: "list_all (\<lambda>(k, v). entry_verdict k v = Descend) (take 4 plain_obj)" by code_simp
lemma plain_keys_5: "list_all (\<lambda>(k, v). entry_verdict k v = Descend) (take 4 (drop 4 plain_obj))" by code_simp
lemma plain_keys_6: "list_all (\<lambda>(k, v). entry_verdict k v = Descend) (drop 8 plain_obj)" by code_simp

lemmas plain_keys = plain_keys_1 plain_keys_2 plain_keys_3 plain_keys_4 plain_keys_5 plain_keys_6

lemma plain_passes: "persisted_secret_paths (PDict plain_obj) [] = []"
proof -
  have "list_all (\<lambda>(k, v). entry_verdict k v = Descend) plain_copy_obj" "list_all (\<lambda>(k, v). entry_verdict k v = Descend) plain_obj"
    using plain_keys by (simp_all add: plain_copy_obj_def plain_obj_def)
  then show ?thesis by (simp add: plain_obj_def plain_copy_obj_def)
qed

lemma plain_document: "\<exists>data. config_document fresh plain_config = Inr data"
proof -
  have "assert_no_persisted_secrets (PDict plain_obj) = Inr ()" using plain_passes by (simp only: assert_no_persisted_secrets_Inr)
  moreover have "json_finite (PDict plain_obj)" "length (json_indented 0 (PDict plain_obj)) = 567" by code_simp+
  ultimately show ?thesis using plain_read[of fresh] plain_written
    by (auto simp: config_document_def Let_def MAX_CONFIG_BYTES_def simp del: json_indented.simps json_finite.simps)
qed

definition no_parser :: decoder where
  "no_parser raw = value_error ''not JSON''"

lemma first_save:
  assumes "config_document (\<lambda>k i. ([], 0)) plain_config = Inr data"
  shows "\<exists>st. store_reach no_parser (\<lambda>k i. ([], 0)) Missing st \<and> so_commits st = [(MISSING_REVISION, data)] \<and> length (so_procs st) = 2"
proof -
  let ?fresh = "(\<lambda>k i. ([], 0)) :: defaults" and ?rev = MISSING_REVISION
  define fresh where "fresh = ?fresh"
  define base where "base = \<lparr> sc_config = default_app_config, sc_revision = ?rev \<rparr>"
  define plain where "plain = base\<lparr> sc_config := plain_config \<rparr>"
  let ?st = "\<lambda>ph. \<lparr> so_file = Missing, so_procs = [ph, Away], so_commits = [] \<rparr>"
  have loaded: "load_config no_parser fresh [] Missing = Inr base" by (simp add: load_config_def read_config_bytes_def base_def)
  have revision: "config_file_revision Missing = Inr (sc_revision plain)"
    by (simp add: config_file_revision_def read_config_bytes_def plain_def base_def)
  have "store_reach no_parser fresh Missing (?st Away)"
    using store_reach.start[of no_parser fresh Missing 2] by (simp add: numeral_2_eq_2)
  note store_reach.step[OF this store_step.load[of 0 _ no_parser fresh "[]" base]]
  then have "store_reach no_parser fresh Missing (?st (Has base))" using loaded by (simp add: enter_def)
  note store_reach.step[OF this store_step.change[of 0 _ base no_parser fresh plain_config]]
  then have "store_reach no_parser fresh Missing (?st (Has plain))" by (simp add: enter_def plain_def)
  note store_reach.step[OF this store_step.lock[of 0 _ plain fresh data no_parser]]
  then have "store_reach no_parser fresh Missing (?st (Locked plain data))"
    using assms by (simp add: enter_def plain_def fresh_def less_Suc_eq nth_Cons')
  note store_reach.step[OF this store_step.compare[of 0 _ plain data no_parser fresh]]
  then have "store_reach no_parser fresh Missing (?st (Compared plain data))" using revision by (simp add: enter_def)
  note store_reach.step[OF this store_step.prepare[of 0 _ plain data no_parser fresh]]
  then have "store_reach no_parser fresh Missing (?st (Written plain data))" by (simp add: enter_def)
  note store_reach.step[OF this store_step.replace[of 0 _ plain data no_parser fresh]]
  then show ?thesis by (intro exI conjI) (auto simp: enter_def publish_def plain_def base_def fresh_def)
qed

theorem no_update_is_lost_witness:
  "\<exists>data st. store_reach no_parser (\<lambda>k i. ([], 0)) Missing st \<and> so_file st = Contents data
     \<and> config_file_revision (Contents data) = Inr (bytes_revision data)"
proof -
  obtain data where "config_document (\<lambda>k i. ([], 0)) plain_config = Inr data" using plain_document by blast
  then obtain st where st: "store_reach no_parser (\<lambda>k i. ([], 0)) Missing st" "so_commits st = [(MISSING_REVISION, data)]"
    using first_save by blast
  then show ?thesis using no_update_is_lost[OF st(1)] by fastforce
qed

theorem save_is_a_transaction_witness:
  "\<exists>f' s' r. save_config (\<lambda>k i. ([], 0)) [] \<lparr> sf_no_lock = False, sf_not_replaced = None, sf_not_synced = None \<rparr> Missing
       \<lparr> sc_config = plain_config, sc_revision = MISSING_REVISION \<rparr> = (f', s', r)
     \<and> r = Inr () \<and> config_file_revision f' = Inr (sc_revision s')"
proof -
  let ?faults = "\<lparr> sf_no_lock = False, sf_not_replaced = None, sf_not_synced = None \<rparr>"
    and ?s = "\<lparr> sc_config = plain_config, sc_revision = MISSING_REVISION \<rparr>"
  obtain data where data: "config_document (\<lambda>k i. ([], 0)) plain_config = Inr data" using plain_document by blast
  obtain f' s' r where save: "save_config (\<lambda>k i. ([], 0)) [] ?faults Missing ?s = (f', s', r)" using prod_cases3 by blast
  then have "r = Inr ()" using data by (auto simp: save_config_def config_file_revision_def read_config_bytes_def)
  then show ?thesis using save save_is_a_transaction[OF save] by auto
qed

end
