(* ===== verification/Worker_State.thy ===== *)
theory Worker_State
  imports Storage
begin

text \<open>
  The durable telemetry of the unattended worker (\<open>core/unattended_worker.py\<close>): the state file with one
  entry per task, and how a run writes its entry when it starts, after each attempt and when it ends.
  Decoding the file is an argument, as in the configuration store; process identity and time are
  arguments.
\<close>

section \<open>Constants\<close>

definition TASK_ALERTS :: string where "TASK_ALERTS = ''alerts-refresh''"
definition TASK_WALLETS :: string where "TASK_WALLETS = ''wallets-poll''"
definition TASKS :: "string list" where "TASKS = [TASK_ALERTS, TASK_WALLETS]"

definition SERVICE_UNIT_BY_TASK :: "(string, string) dict" where
  "SERVICE_UNIT_BY_TASK = [(TASK_ALERTS, ''market-sentinel-alerts-refresh.service''),
     (TASK_WALLETS, ''market-sentinel-wallets-poll.service'')]"

definition MAX_STATE_BYTES :: nat where "MAX_STATE_BYTES = 64 * 1024"
definition MAX_CAPTURE_BYTES :: nat where "MAX_CAPTURE_BYTES = 16 * 1024"
definition ATTEMPT_SHUTDOWN_BUDGET_SECONDS :: pyfloat where "ATTEMPT_SHUTDOWN_BUDGET_SECONDS = Fin 6"
definition FUTURE_CLOCK_TOLERANCE_SECONDS :: pyfloat where "FUTURE_CLOCK_TOLERANCE_SECONDS = Fin 5"

definition EXIT_OK :: int where "EXIT_OK = 0"
definition EXIT_USAGE :: int where "EXIT_USAGE = 64"
definition EXIT_SOFTWARE :: int where "EXIT_SOFTWARE = 70"
definition EXIT_IOERR :: int where "EXIT_IOERR = 74"
definition EXIT_TEMPFAIL :: int where "EXIT_TEMPFAIL = 75"

section \<open>Results of an attempt\<close>

record attempt_result =
  ar_task :: string
  ar_outcome :: string
  ar_retryable :: bool
  ar_processed :: int
  ar_problems :: int
  ar_emitted :: int
  ar_exit_code :: int

text \<open>A result without counts.\<close>

definition attempt_failure :: "string \<Rightarrow> string \<Rightarrow> bool \<Rightarrow> int \<Rightarrow> attempt_result" where
  "attempt_failure task outcome retryable code = \<lparr> ar_task = task, ar_outcome = outcome, ar_retryable = retryable,
     ar_processed = 0, ar_problems = 0, ar_emitted = 0, ar_exit_code = code \<rparr>"

definition attempt_result_to_dict :: "attempt_result \<Rightarrow> obj" where
  "attempt_result_to_dict r = [(''schema_version'', PInt 1), (''task'', PStr (ar_task r)), (''outcome'', PStr (ar_outcome r)),
     (''retryable'', PBool (ar_retryable r)), (''processed'', PInt (ar_processed r)), (''problems'', PInt (ar_problems r)),
     (''emitted'', PInt (ar_emitted r)), (''exit_code'', PInt (ar_exit_code r))]"

section \<open>Lenient numbers\<close>

definition number_or :: "pyval \<Rightarrow> pyfloat \<Rightarrow> pyfloat res" where
  "number_or v dflt = (case v of PBool _ \<Rightarrow> Inr dflt
     | _ \<Rightarrow> (case py_float v of Inl e \<Rightarrow> if exc_kind e \<in> {TypeError, ValueError} then Inr dflt else Inl e | Inr x \<Rightarrow> Inr x))"

definition integer_or :: "pyval \<Rightarrow> int \<Rightarrow> int res" where
  "integer_or v dflt = (case v of PBool _ \<Rightarrow> Inr dflt
     | _ \<Rightarrow> (case py_int v of Inl e \<Rightarrow> if exc_kind e \<in> {TypeError, ValueError} then Inr dflt else Inl e | Inr n \<Rightarrow> Inr n))"

text \<open>\<open>max(0, _integer(entry.get(key)))\<close>\<close>

definition counter :: "obj \<Rightarrow> string \<Rightarrow> int res" where
  "counter entry key = rbind (integer_or (oget entry key) 0) (\<lambda>n. Inr (max 0 n))"

section \<open>Time stamps\<close>

text \<open>\<open>datetime.fromtimestamp(t, tz=utc).isoformat()\<close> with \<open>Z\<close> for the offset: the microseconds are rounded
  half to even, the date is the proleptic Gregorian one.\<close>

definition civil_date :: "int \<Rightarrow> int \<times> int \<times> int" where
  "civil_date days =
     (let z = days + 719468; era = z div 146097; doe = z mod 146097;
          yoe = (doe - doe div 1460 + doe div 36524 - doe div 146096) div 365;
          doy = doe - (365 * yoe + yoe div 4 - yoe div 100); mp = (5 * doy + 2) div 153;
          m = (if mp < 10 then mp + 3 else mp - 9)
      in (yoe + era * 400 + (if m \<le> 2 then 1 else 0), m, doy - (153 * mp + 2) div 5 + 1))"

definition padded :: "nat \<Rightarrow> int \<Rightarrow> string" where
  "padded n k = (let s = nat_str k in replicate (n - length s) (CHR ''0'') @ s)"

definition whole_and_micros :: "rat \<Rightarrow> int \<times> int" where
  "whole_and_micros q = (let w = rat_trunc q; us = round_even (fl ((q - of_int w) * 1000000)) in
     if 1000000 \<le> us then (w + 1, us - 1000000) else if us < 0 then (w - 1, us + 1000000) else (w, us))"

definition iso_utc :: "int \<Rightarrow> int \<Rightarrow> string res" where
  "iso_utc w us =
     (case civil_date (w div 86400) of (y, m, d) \<Rightarrow>
        if \<not> (1 \<le> y \<and> y \<le> 9999) then value_error (''year '' @ int_str y @ '' is out of range'')
        else let s = w mod 86400 in
          Inr (padded 4 y @ ''-'' @ padded 2 m @ ''-'' @ padded 2 d @ ''T'' @ padded 2 (s div 3600) @ '':'' @ padded 2 (s div 60 mod 60)
            @ '':'' @ padded 2 (s mod 60) @ (if us = 0 then [] else ''.'' @ padded 6 us) @ ''Z''))"

definition utc_timestamp :: "pyfloat \<Rightarrow> string res" where
  "utc_timestamp t = (case t of
       Fin q \<Rightarrow> (case whole_and_micros q of (w, us) \<Rightarrow> iso_utc w us)
     | NaN \<Rightarrow> value_error ''Invalid value NaN (not a number)''
     | _ \<Rightarrow> raise OverflowError ''cannot convert float infinity to integer'')"

section \<open>The state file\<close>

definition worker_state_error :: "string \<Rightarrow> string \<Rightarrow> 'a res" where
  "worker_state_error m path = raise WorkerStateError (m @ '': '' @ path)"

definition regular_file_bytes :: "string \<Rightarrow> config_file \<Rightarrow> string option res" where
  "regular_file_bytes path f = (case f of
       Missing \<Rightarrow> Inr None
     | Special \<Rightarrow> worker_state_error ''Worker state must be a regular file'' path
     | Contents raw \<Rightarrow> if MAX_STATE_BYTES < length raw
         then worker_state_error (''Worker state exceeds the '' @ nat_str (int MAX_STATE_BYTES) @ ''-byte safety limit'') path
         else Inr (Some raw))"

definition empty_worker_state :: obj where
  "empty_worker_state = [(''schema_version'', PInt 1), (''tasks'', PDict [])]"

definition checked_worker_state :: "string \<Rightarrow> pyval \<Rightarrow> obj res" where
  "checked_worker_state path v = (case v of
       PDict d \<Rightarrow>
         if \<not> py_eq (oget d ''schema_version'') (PInt 1) then worker_state_error ''Worker state schema is unsupported'' path
         else (case oget d ''tasks'' of
             PDict ts \<Rightarrow> if list_all (\<lambda>(task, entry). task \<in> set TASKS \<and> is_dict entry) ts then Inr d
               else worker_state_error ''Worker state contains an invalid task entry'' path
           | _ \<Rightarrow> worker_state_error ''Worker state tasks must be a JSON object'' path)
     | _ \<Rightarrow> worker_state_error ''Worker state root must be a JSON object'' path)"

definition read_worker_state :: "decoder \<Rightarrow> string \<Rightarrow> config_file \<Rightarrow> obj res" where
  "read_worker_state decode path f =
     rbind (regular_file_bytes path f) (\<lambda>raw. case raw of
         None \<Rightarrow> Inr empty_worker_state
       | Some b \<Rightarrow> (case decode b of
             Inl _ \<Rightarrow> worker_state_error ''Worker state is not valid strict JSON'' path
           | Inr v \<Rightarrow> checked_worker_state path v))"

text \<open>The atomic writer may fail before or after the file is replaced.\<close>

datatype write_fault = NoFault | BeforeReplace | AfterReplace

definition state_text :: "obj \<Rightarrow> string" where
  "state_text state = json_indented 0 (PDict state) @ [newline]"

definition write_worker_state :: "string \<Rightarrow> write_fault \<Rightarrow> obj \<Rightarrow> config_file \<Rightarrow> config_file \<times> unit res" where
  "write_worker_state path fault state f =
     (case regular_file_bytes path f of
        Inl e \<Rightarrow> (f, Inl e)
      | Inr _ \<Rightarrow>
        if \<not> json_finite (PDict state) then (f, value_error ''Out of range float values are not JSON compliant'')
        else if MAX_STATE_BYTES < length (state_text state)
        then (f, worker_state_error (''Worker state exceeds the '' @ nat_str (int MAX_STATE_BYTES) @ ''-byte safety limit'') path)
        else (case fault of
            NoFault \<Rightarrow> (Contents (state_text state), Inr ())
          | BeforeReplace \<Rightarrow> (f, worker_state_error ''Worker state could not be committed durably'' path)
          | AfterReplace \<Rightarrow> (Contents (state_text state), worker_state_error ''Worker state could not be committed durably'' path)))"

definition updated_worker_state :: "string \<Rightarrow> obj \<Rightarrow> pyfloat \<Rightarrow> obj \<Rightarrow> obj res" where
  "updated_worker_state task entry now state =
     rbind (utc_timestamp now) (\<lambda>stamp.
     Inr (dset ''tasks'' (PDict (dset task (PDict entry) (the_dict (oget state ''tasks''))))
       (dset ''updated_at_unix'' (PFloat now) (dset ''updated_at'' (PStr stamp) (dset ''schema_version'' (PInt 1) state)))))"

definition update_task_state ::
    "decoder \<Rightarrow> string \<Rightarrow> write_fault \<Rightarrow> string \<Rightarrow> obj \<Rightarrow> pyfloat \<Rightarrow> config_file \<Rightarrow> config_file \<times> unit res" where
  "update_task_state decode path fault task entry now f =
     (case rbind (read_worker_state decode path f) (updated_worker_state task entry now) of
        Inl e \<Rightarrow> (f, Inl e)
      | Inr state \<Rightarrow> write_worker_state path fault state f)"

section \<open>Entries\<close>

text \<open>What identifies a run: the fields a start copies into its entry.\<close>

record run_identity =
  ri_task :: string
  ri_run_id :: string
  ri_pid :: int
  ri_deadline_seconds :: pyfloat
  ri_max_attempts :: int
  ri_source_revision :: string
  ri_service_unit :: string
  ri_unit_contract :: string

definition worker_invocation_sha256 :: "run_identity \<Rightarrow> string" where
  "worker_invocation_sha256 ri = sha256 (map ord (''market-sentinel-worker-invocation-v1'' @ [CHR 0x00] @ json_text True (PDict [
     (''schema_version'', PInt 1), (''service_unit'', PStr (ri_service_unit ri)), (''source_revision'', PStr (ri_source_revision ri)),
     (''task'', PStr (ri_task ri)), (''unit_contract_sha256'', PStr (ri_unit_contract ri))])))"

definition kept_fields :: "string list" where
  "kept_fields = [''last_success_at'', ''last_success_at_unix'', ''last_failure_at'', ''last_failure_at_unix'',
     ''total_runs'', ''total_successes'', ''total_failures'']"

definition kept_entries :: "obj \<Rightarrow> obj" where
  "kept_entries previous = List.map_filter (\<lambda>k. map_option (Pair k) (dget previous k)) kept_fields"

definition abandoned :: "obj \<Rightarrow> bool" where
  "abandoned previous \<longleftrightarrow> oget previous ''state'' \<in> {PStr ''running'', PStr ''retrying''}"

definition initial_running_entry :: "run_identity \<Rightarrow> pyfloat \<Rightarrow> obj \<Rightarrow> obj res" where
  "initial_running_entry ri now previous =
     (let lost = (if abandoned previous then 1 else 0) in
      rbind (require (\<not> is_list (oget previous ''state'') \<and> \<not> is_dict (oget previous ''state'')) (Exc TypeError ''unhashable type'')) (\<lambda>_.
      rbind (counter previous ''consecutive_failures'') (\<lambda>failures.
      rbind (counter previous ''abandoned_runs'') (\<lambda>abandoned_runs.
      rbind (utc_timestamp now) (\<lambda>stamp.
      Inr ([(''state'', PStr ''running''), (''run_id'', PStr (ri_run_id ri)), (''pid'', PInt (ri_pid ri)),
          (''last_started_at'', PStr stamp), (''last_started_at_unix'', PFloat now),
          (''deadline_seconds'', PFloat (ri_deadline_seconds ri)), (''max_attempts'', PInt (ri_max_attempts ri)),
          (''source_revision'', PStr (ri_source_revision ri)), (''service_unit'', PStr (ri_service_unit ri)),
          (''unit_contract_sha256'', PStr (ri_unit_contract ri)), (''invocation_sha256'', PStr (worker_invocation_sha256 ri)),
          (''attempts_completed'', PInt 0), (''consecutive_failures'', PInt (failures + lost)),
          (''abandoned_runs'', PInt (abandoned_runs + lost))]
        @ (if abandoned previous
           then dset ''last_failure_at_unix'' (PFloat now) (dset ''last_failure_at'' (PStr stamp)
             (kept_entries previous @ [(''previous_run_outcome'', PStr ''abandoned_without_terminal_telemetry'')]))
           else kept_entries previous)))))))"

definition next_retry :: "pyfloat option \<Rightarrow> obj \<Rightarrow> obj res" where
  "next_retry t entry = (case t of
       None \<Rightarrow> Inr (dpop ''next_retry_at_unix'' (dpop ''next_retry_at'' entry))
     | Some x \<Rightarrow> rbind (utc_timestamp x) (\<lambda>stamp. Inr (dset ''next_retry_at_unix'' (PFloat x) (dset ''next_retry_at'' (PStr stamp) entry))))"

definition attempt_state_entry :: "obj \<Rightarrow> attempt_result \<Rightarrow> nat \<Rightarrow> pyfloat \<Rightarrow> pyfloat option \<Rightarrow> obj res" where
  "attempt_state_entry running r completed now retry_at =
     rbind (utc_timestamp now) (\<lambda>stamp.
     next_retry retry_at (dupdate running [(''state'', PStr (if retry_at \<noteq> None then ''retrying'' else ''running'')),
       (''attempts_completed'', PInt (int completed)), (''last_attempt_at'', PStr stamp), (''last_attempt_at_unix'', PFloat now),
       (''last_attempt_outcome'', PStr (ar_outcome r)), (''last_attempt_processed'', PInt (ar_processed r)),
       (''last_attempt_problems'', PInt (ar_problems r)), (''last_attempt_emitted'', PInt (ar_emitted r))]))"

definition final_state :: "attempt_result \<Rightarrow> string" where
  "final_state r = (if ar_outcome r = ''succeeded'' then ''succeeded'' else if ar_outcome r = ''interrupted'' then ''interrupted'' else ''failed'')"

definition terminal_state_entry :: "obj \<Rightarrow> attempt_result \<Rightarrow> nat \<Rightarrow> pyfloat \<Rightarrow> pyfloat \<Rightarrow> obj res" where
  "terminal_state_entry running r completed started now =
     (let success = ar_outcome r = ''succeeded'' in
      rbind (counter running ''total_runs'') (\<lambda>runs.
      rbind (counter running ''total_successes'') (\<lambda>successes.
      rbind (counter running ''total_failures'') (\<lambda>failures.
      rbind (utc_timestamp now) (\<lambda>stamp.
      rbind (if success then Inr 0 else counter running ''consecutive_failures'') (\<lambda>consecutive.
      let entry = dupdate running [(''state'', PStr (final_state r)), (''attempts_completed'', PInt (int completed)),
            (''last_finished_at'', PStr stamp), (''last_finished_at_unix'', PFloat now),
            (''last_duration_seconds'', PFloat (fround (fmax (Fin 0) (fsub now started)) 6)),
            (''last_outcome'', PStr (ar_outcome r)), (''last_processed'', PInt (ar_processed r)),
            (''last_problems'', PInt (ar_problems r)), (''last_emitted'', PInt (ar_emitted r)),
            (''total_runs'', PInt (runs + 1)), (''total_successes'', PInt (successes + (if success then 1 else 0))),
            (''total_failures'', PInt (failures + (if success then 0 else 1))),
            (''consecutive_failures'', PInt (if success then 0 else consecutive + 1))];
          which = (if success then ''last_success_at'' else ''last_failure_at'')
      in Inr (dset (which @ ''_unix'') (PFloat now) (dset which (PStr stamp)
           (dpop ''next_retry_at_unix'' (dpop ''next_retry_at'' entry))))))))))"

end
