(* ===== verification/Worker_Run.thy ===== *)
theory Worker_Run
  imports Worker_State Web_Alerts Web_Polling
begin

text \<open>
  One run of the unattended worker (\<open>core/unattended_worker.py\<close>): the task itself, the reading of what
  the child process printed, the bounded retries with their telemetry, and the status report. What the
  operating system does (clocks, signals, the child process, faults of a write) is an argument, one
  record for each attempt.
\<close>

section \<open>The task\<close>

record task_world =
  tw_decode :: decoder
  tw_fresh :: defaults
  tw_path :: string
  tw_faults :: save_faults
  tw_registry :: registry
  tw_alert_fresh :: "nat \<Rightarrow> nat \<Rightarrow> string \<times> int"
  tw_copy_registry :: copy_registry
  tw_feeds :: poll_feeds
  tw_clock :: "nat \<Rightarrow> pyfloat"

definition no_validator :: response_validator where
  "no_validator cfg payload recent = Inr ()"

text \<open>The outcome of an exception, in the order of the handlers.\<close>

definition classified :: "string \<Rightarrow> exc \<Rightarrow> attempt_result" where
  "classified task e =
     (let k = exc_kind e in
      if exc_isa k ConfigConflictError then attempt_failure task ''config_conflict'' True EXIT_TEMPFAIL
      else if exc_isa k AlertEventCapacityError then attempt_failure task ''alert_notification_history_full'' False EXIT_TEMPFAIL
      else if exc_isa k ConfigCommitError then attempt_failure task ''config_durability_uncertain'' False EXIT_IOERR
      else if exc_isa k WorkerInterrupted then attempt_failure task ''interrupted'' False 130
      else attempt_failure task ''operation_failed'' True EXIT_TEMPFAIL)"

definition finished_attempt :: "string \<Rightarrow> int \<Rightarrow> int \<Rightarrow> int \<Rightarrow> attempt_result" where
  "finished_attempt task processed problems emitted =
     \<lparr> ar_task = task, ar_outcome = (if problems \<noteq> 0 then ''partial_feed_failure'' else ''succeeded''), ar_retryable = (problems \<noteq> 0),
       ar_processed = processed, ar_problems = problems, ar_emitted = emitted,
       ar_exit_code = (if problems \<noteq> 0 then EXIT_TEMPFAIL else EXIT_OK) \<rparr>"

definition list_length :: "pyval \<Rightarrow> int" where
  "list_length v = (case v of PList vs \<Rightarrow> int (length vs) | _ \<Rightarrow> 0)"

definition alerts_attempt :: "task_world \<Rightarrow> config_file \<Rightarrow> stored_config \<Rightarrow> config_file \<times> attempt_result" where
  "alerts_attempt w f s =
     (case refresh_all_alert_prices (tw_alert_fresh w) (sc_config s) (tw_registry w) [] of
        Inl e \<Rightarrow> (f, classified TASK_ALERTS e)
      | Inr rs \<Rightarrow>
        (case save_config (tw_fresh w) (tw_path w) (tw_faults w) f (s\<lparr> sc_config := rs_config rs \<rparr>) of
           (f', _, Inl e) \<Rightarrow> (f', classified TASK_ALERTS e)
         | (f', _, Inr _) \<Rightarrow> (f', finished_attempt TASK_ALERTS (int (length (rs_refreshed rs))) (int (length (rs_problems rs)))
             (int (sum_list (map (length \<circ> rf_messages) (rs_refreshed rs)))))))"

definition wallets_attempt :: "task_world \<Rightarrow> nat \<Rightarrow> app_config \<Rightarrow> attempt_result" where
  "wallets_attempt w limit cfg =
     (case poll_wallet_activity (tw_feeds w) (tw_clock w) no_validator
         \<lparr> op_limit = limit, op_advance_seen = False, op_max_batch_items = int WALLET_POLL_BATCH_ITEMS \<rparr> cfg (tw_copy_registry w) [] of
        Inl e \<Rightarrow> classified TASK_WALLETS e
      | Inr p \<Rightarrow>
        (case counter (pd_result p) ''polled_wallets'' of
           Inl e \<Rightarrow> classified TASK_WALLETS e
         | Inr processed \<Rightarrow> finished_attempt TASK_WALLETS processed (list_length (oget (pd_result p) ''problems''))
             (list_length (oget (pd_result p) ''activity''))))"

definition execute_task_once :: "task_world \<Rightarrow> string \<Rightarrow> nat \<Rightarrow> config_file \<Rightarrow> config_file \<times> attempt_result" where
  "execute_task_once w task limit f =
     (case load_config (tw_decode w) (tw_fresh w) (tw_path w) f of
        Inl _ \<Rightarrow> (f, attempt_failure task ''config_load_failed'' False EXIT_SOFTWARE)
      | Inr s \<Rightarrow>
        if task = TASK_ALERTS then alerts_attempt w f s
        else if task = TASK_WALLETS then (f, wallets_attempt w limit (sc_config s))
        else (f, attempt_failure task ''unsupported_task'' False EXIT_USAGE))"

section \<open>The child process\<close>

definition invalid_attempt :: "string \<Rightarrow> attempt_result" where
  "invalid_attempt task = attempt_failure task ''invalid_attempt_result'' True EXIT_TEMPFAIL"

definition decode_attempt_result :: "decoder \<Rightarrow> string \<Rightarrow> string \<Rightarrow> int \<Rightarrow> attempt_result res" where
  "decode_attempt_result decode task output return_code =
     (if MAX_CAPTURE_BYTES < length output then Inr (invalid_attempt task)
      else case decode output of
          Inr (PDict d) \<Rightarrow>
            if \<not> py_eq (oget d ''schema_version'') (PInt 1) \<or> oget d ''task'' \<noteq> PStr task then Inr (invalid_attempt task)
            else (case (oget d ''outcome'', oget d ''retryable'') of
                (PStr outcome, PBool retryable) \<Rightarrow>
                  if outcome = [] then Inr (invalid_attempt task)
                  else
                    rbind (integer_or (oget d ''exit_code'') return_code) (\<lambda>code.
                    if return_code \<noteq> code then Inr (invalid_attempt task)
                    else
                      rbind (counter d ''processed'') (\<lambda>processed.
                      rbind (counter d ''problems'') (\<lambda>problems.
                      rbind (counter d ''emitted'') (\<lambda>emitted.
                      Inr \<lparr> ar_task = task, ar_outcome = outcome, ar_retryable = retryable, ar_processed = processed,
                        ar_problems = problems, ar_emitted = emitted, ar_exit_code = code \<rparr>))))
              | _ \<Rightarrow> Inr (invalid_attempt task))
        | _ \<Rightarrow> Inr (invalid_attempt task))"

datatype process_outcome = NotStarted | Stopped | TimedOut | Exited string int

definition interrupted_result :: "string \<Rightarrow> int \<Rightarrow> attempt_result" where
  "interrupted_result task signal_number = attempt_failure task ''interrupted'' False (128 + signal_number)"

definition run_attempt_process :: "decoder \<Rightarrow> string \<Rightarrow> int \<Rightarrow> process_outcome \<Rightarrow> attempt_result res" where
  "run_attempt_process decode task signal_number outcome = (case outcome of
       NotStarted \<Rightarrow> Inr (attempt_failure task ''attempt_start_failed'' True EXIT_TEMPFAIL)
     | Stopped \<Rightarrow> Inr (interrupted_result task signal_number)
     | TimedOut \<Rightarrow> Inr (attempt_failure task ''attempt_timeout'' True EXIT_TEMPFAIL)
     | Exited output code \<Rightarrow> decode_attempt_result decode task output code)"

section \<open>Arguments\<close>

record run_args =
  ra_task :: string
  ra_deadline_seconds :: pyfloat
  ra_attempt_timeout :: pyfloat
  ra_lock_timeout :: pyfloat
  ra_initial_backoff :: pyfloat
  ra_max_backoff :: pyfloat
  ra_max_attempts :: int
  ra_wallet_limit :: int
  ra_state_file :: string
  ra_lock_file :: string
  ra_source_revision :: string
  ra_service_unit :: string
  ra_unit_contract :: string

definition within_seconds :: "string \<Rightarrow> pyfloat \<Rightarrow> rat \<Rightarrow> rat \<Rightarrow> unit res" where
  "within_seconds name x lo hi = require (fle (Fin lo) x \<and> fle x (Fin hi))
     (Exc ValueError (''--'' @ name @ '' must be between '' @ fmt_g (Fin lo) @ '' and '' @ fmt_g (Fin hi) @ ''.''))"

definition validate_run_arguments :: "run_args \<Rightarrow> unit res" where
  "validate_run_arguments a =
     rbind (within_seconds ''deadline-seconds'' (ra_deadline_seconds a) 7 3600) (\<lambda>_.
     rbind (within_seconds ''attempt-timeout-seconds'' (ra_attempt_timeout a) 1 900) (\<lambda>_.
     rbind (within_seconds ''lock-timeout-seconds'' (ra_lock_timeout a) 0 60) (\<lambda>_.
     rbind (within_seconds ''initial-backoff-seconds'' (ra_initial_backoff a) 0 60) (\<lambda>_.
     rbind (within_seconds ''max-backoff-seconds'' (ra_max_backoff a) 0 300) (\<lambda>_.
     rbind (require (1 \<le> ra_max_attempts a \<and> ra_max_attempts a \<le> 10) (Exc ValueError ''--max-attempts must be between 1 and 10.'')) (\<lambda>_.
     rbind (require (1 \<le> ra_wallet_limit a \<and> ra_wallet_limit a \<le> 100) (Exc ValueError ''--wallet-limit must be between 1 and 100.'')) (\<lambda>_.
     rbind (require (\<not> flt (ra_deadline_seconds a) (ra_attempt_timeout a))
       (Exc ValueError ''--attempt-timeout-seconds cannot exceed --deadline-seconds.'')) (\<lambda>_.
     rbind (require (\<not> flt (ra_max_backoff a) (ra_initial_backoff a))
       (Exc ValueError ''--max-backoff-seconds cannot be less than --initial-backoff-seconds.'')) (\<lambda>_.
     rbind (require (ra_state_file a \<noteq> ra_lock_file a) (Exc ValueError ''--state-file and --lock-file must be different paths.'')) (\<lambda>_.
     rbind (require (length (ra_source_revision a) = 40 \<and> list_all is_hex_lower (ra_source_revision a))
       (Exc ValueError ''--source-revision must be a lowercase 40-character Git commit.'')) (\<lambda>_.
     rbind (case dget SERVICE_UNIT_BY_TASK (ra_task a) of None \<Rightarrow> raise KeyError (ra_task a) | Some u \<Rightarrow> Inr u) (\<lambda>u.
     rbind (require (ra_service_unit a = u) (Exc ValueError ''--service-unit does not match --task.'')) (\<lambda>_.
     require (is_digest (ra_unit_contract a)) (Exc ValueError ''--unit-contract-sha256 must be a lowercase SHA-256 digest.''))))))))))))))"

section \<open>The attempts of a run\<close>

text \<open>What one attempt meets: whether a stop was requested before it, after it and during the wait for the
  next one, the monotonic and the wall clock, the child process under a time limit, and the fate of
  the telemetry write.\<close>

record attempt_world =
  aw_stop_before :: bool
  aw_mono_before :: pyfloat
  aw_process :: "pyfloat \<Rightarrow> process_outcome"
  aw_finished :: pyfloat
  aw_stop_after :: bool
  aw_mono_after :: pyfloat
  aw_write :: write_fault
  aw_stop_in_wait :: bool

text \<open>The run so far; the time limits given to the child processes are recorded.\<close>

record run_state =
  rn_file :: config_file
  rn_running :: obj
  rn_last :: attempt_result
  rn_completed :: nat
  rn_limits :: "pyfloat list"

datatype turn = Again | Enough | Broken exc

record run_context =
  rc_args :: run_args
  rc_decode :: decoder
  rc_deadline :: pyfloat
  rc_signal :: int

definition backoff :: "run_args \<Rightarrow> nat \<Rightarrow> pyfloat" where
  "backoff a n = fmin (fmul (ra_initial_backoff a) (Fin (2 ^ (n - 1)))) (ra_max_backoff a)"

definition attempt_limit :: "run_context \<Rightarrow> pyfloat \<Rightarrow> pyfloat" where
  "attempt_limit c remaining = fmin (ra_attempt_timeout (rc_args c)) (fsub remaining ATTEMPT_SHUTDOWN_BUDGET_SECONDS)"

definition retries :: "run_context \<Rightarrow> attempt_world \<Rightarrow> nat \<Rightarrow> attempt_result \<Rightarrow> bool" where
  "retries c w n r \<longleftrightarrow> ar_retryable r \<and> int n < ra_max_attempts (rc_args c) \<and> \<not> aw_stop_after w
     \<and> flt (fadd (backoff (rc_args c) n) (flit (1 / 1000))) (fsub (rc_deadline c) (aw_mono_after w))"

text \<open>The telemetry of attempt \<open>n\<close> and the decision about the next one.\<close>

definition record_attempt :: "run_context \<Rightarrow> attempt_world \<Rightarrow> nat \<Rightarrow> attempt_result \<Rightarrow> run_state \<Rightarrow> run_state \<times> turn" where
  "record_attempt c w n r st =
     (let a = rc_args c; retry = retries c w n r;
          retry_at = (if retry then Some (fadd (aw_finished w) (backoff a n)) else None) in
      case attempt_state_entry (rn_running st) r n (aw_finished w) retry_at of
        Inl e \<Rightarrow> (st\<lparr> rn_last := r, rn_completed := n \<rparr>, Broken e)
      | Inr running \<Rightarrow>
        (case update_task_state (rc_decode c) (ra_state_file a) (aw_write w) (ra_task a) running (aw_finished w) (rn_file st) of
           (f, outcome) \<Rightarrow>
             let st = st\<lparr> rn_file := f, rn_last := r, rn_completed := n, rn_running := running \<rparr> in
             (case outcome of
                Inl e \<Rightarrow> (st, Broken e)
              | Inr _ \<Rightarrow>
                if ar_outcome r = ''succeeded'' \<or> \<not> retry then (st, Enough)
                else if aw_stop_in_wait w then (st\<lparr> rn_last := interrupted_result (ra_task a) (rc_signal c) \<rparr>, Enough)
                else (st, Again))))"

definition attempt_turn :: "run_context \<Rightarrow> attempt_world \<Rightarrow> nat \<Rightarrow> run_state \<Rightarrow> run_state \<times> turn" where
  "attempt_turn c w n st =
     (let a = rc_args c; remaining = fsub (rc_deadline c) (aw_mono_before w) in
      if aw_stop_before w then (st\<lparr> rn_last := interrupted_result (ra_task a) (rc_signal c) \<rparr>, Enough)
      else if fle remaining ATTEMPT_SHUTDOWN_BUDGET_SECONDS
      then (st\<lparr> rn_last := attempt_failure (ra_task a) ''run_deadline_exceeded'' False EXIT_TEMPFAIL \<rparr>, Enough)
      else
        let limit = attempt_limit c remaining; st = st\<lparr> rn_limits := rn_limits st @ [limit] \<rparr> in
        (case run_attempt_process (rc_decode c) (ra_task a) (rc_signal c) (aw_process w limit) of
           Inl e \<Rightarrow> (st, Broken e)
         | Inr r \<Rightarrow> record_attempt c w n r st))"

text \<open>\<open>for attempt_number in range(1, max_attempts + 1)\<close>: \<open>k\<close> attempts are left and \<open>n\<close> is the next.\<close>

fun attempts :: "run_context \<Rightarrow> (nat \<Rightarrow> attempt_world) \<Rightarrow> nat \<Rightarrow> nat \<Rightarrow> run_state \<Rightarrow> run_state \<times> exc option" where
  "attempts c world 0 n st = (st, None)"
| "attempts c world (Suc k) n st =
     (case attempt_turn c (world n) n st of
        (st', Again) \<Rightarrow> attempts c world k (Suc n) st'
      | (st', Enough) \<Rightarrow> (st', None)
      | (st', Broken e) \<Rightarrow> (st', Some e))"

section \<open>The run\<close>

datatype lock_outcome = Acquired | Busy | LockStopped | LockUnsafe

record run_world =
  rw_decode :: decoder
  rw_lock :: lock_outcome
  rw_run_id :: string
  rw_pid :: int
  rw_started :: pyfloat
  rw_started_mono :: pyfloat
  rw_first_write :: write_fault
  rw_attempts :: "nat \<Rightarrow> attempt_world"
  rw_finished :: pyfloat
  rw_last_write :: write_fault
  rw_signal :: int

definition identity_of :: "run_args \<Rightarrow> run_world \<Rightarrow> run_identity" where
  "identity_of a w = \<lparr> ri_task = ra_task a, ri_run_id = rw_run_id w, ri_pid = rw_pid w, ri_deadline_seconds = ra_deadline_seconds a,
     ri_max_attempts = ra_max_attempts a, ri_source_revision = ra_source_revision a, ri_service_unit = ra_service_unit a,
     ri_unit_contract = ra_unit_contract a \<rparr>"

definition run_start :: "run_args \<Rightarrow> run_world \<Rightarrow> config_file \<Rightarrow> config_file \<times> obj res" where
  "run_start a w f =
     (case rbind (read_worker_state (rw_decode w) (ra_state_file a) f) (\<lambda>state.
        initial_running_entry (identity_of a w) (rw_started w)
          (the_dict (oget_or (the_dict (oget state ''tasks'')) (ra_task a) (PDict []))))
      of Inl e \<Rightarrow> (f, Inl e)
      | Inr running \<Rightarrow>
        (case update_task_state (rw_decode w) (ra_state_file a) (rw_first_write w) (ra_task a) running (rw_started w) f of
           (f', Inl e) \<Rightarrow> (f', Inl e) | (f', Inr _) \<Rightarrow> (f', Inr running)))"

definition run_end :: "run_args \<Rightarrow> run_world \<Rightarrow> run_state \<Rightarrow> config_file \<times> int res" where
  "run_end a w st =
     (case terminal_state_entry (rn_running st) (rn_last st) (rn_completed st) (rw_started w) (rw_finished w) of
        Inl e \<Rightarrow> (rn_file st, Inl e)
      | Inr entry \<Rightarrow>
        (case update_task_state (rw_decode w) (ra_state_file a) (rw_last_write w) (ra_task a) entry (rw_finished w) (rn_file st) of
           (f, Inl e) \<Rightarrow> (f, Inl e) | (f, Inr _) \<Rightarrow> (f, Inr (ar_exit_code (rn_last st)))))"

definition run_body :: "run_args \<Rightarrow> run_world \<Rightarrow> config_file \<Rightarrow> config_file \<times> int res" where
  "run_body a w f =
     (case run_start a w f of
        (f', Inl e) \<Rightarrow> (f', Inl e)
      | (f', Inr running) \<Rightarrow>
        (case attempts \<lparr> rc_args = a, rc_decode = rw_decode w, rc_deadline = fadd (rw_started_mono w) (ra_deadline_seconds a), rc_signal = rw_signal w \<rparr>
            (rw_attempts w) (nat (ra_max_attempts a)) 1
            \<lparr> rn_file = f', rn_running = running, rn_last = attempt_failure (ra_task a) ''not_started'' True EXIT_TEMPFAIL,
              rn_completed = 0, rn_limits = [] \<rparr> of
           (st, Some e) \<Rightarrow> (rn_file st, Inl e)
         | (st, None) \<Rightarrow> run_end a w st))"

definition run_worker :: "run_args \<Rightarrow> run_world \<Rightarrow> config_file \<Rightarrow> config_file \<times> int" where
  "run_worker a w f =
     (case validate_run_arguments a of
        Inl e \<Rightarrow> (f, EXIT_USAGE)
      | Inr _ \<Rightarrow>
        (case rw_lock w of
           Busy \<Rightarrow> (f, EXIT_TEMPFAIL)
         | LockStopped \<Rightarrow> (f, 128 + rw_signal w)
         | LockUnsafe \<Rightarrow> (f, EXIT_IOERR)
         | Acquired \<Rightarrow>
           (case run_body a w f of
              (f', Inr code) \<Rightarrow> (f', code)
            | (f', Inl e) \<Rightarrow> (f', if exc_isa (exc_kind e) WorkerStateError then EXIT_IOERR else EXIT_SOFTWARE))))"

section \<open>Status\<close>

record task_status =
  ts_healthy :: bool
  ts_state :: pyval
  ts_last_success_at :: pyval
  ts_age :: "pyfloat option"
  ts_consecutive_failures :: int

definition status_of_entry :: "pyfloat \<Rightarrow> pyfloat \<Rightarrow> obj \<Rightarrow> task_status res" where
  "status_of_entry now max_age entry =
     rbind (number_or (oget entry ''last_success_at_unix'') (Fin 0)) (\<lambda>last_success.
     rbind (counter entry ''consecutive_failures'') (\<lambda>failures.
     let valid = flt (Fin 0) last_success \<and> fle last_success (fadd now FUTURE_CLOCK_TOLERANCE_SECONDS);
         age = (if valid then Some (fmax (Fin 0) (fsub now last_success)) else None) in
     Inr \<lparr> ts_healthy = (py_eq (oget entry ''state'') (PStr ''succeeded'') \<and> (case age of None \<Rightarrow> False | Some x \<Rightarrow> fle x max_age)),
       ts_state = oget_or entry ''state'' (PStr ''missing''), ts_last_success_at = oget entry ''last_success_at'',
       ts_age = map_option (\<lambda>x. fround x 6) age, ts_consecutive_failures = failures \<rparr>))"

definition missing_status :: task_status where
  "missing_status = \<lparr> ts_healthy = False, ts_state = PStr ''missing'', ts_last_success_at = PNone, ts_age = None, ts_consecutive_failures = 0 \<rparr>"

definition task_status_of :: "pyfloat \<Rightarrow> pyfloat \<Rightarrow> obj \<Rightarrow> string \<Rightarrow> task_status res" where
  "task_status_of now max_age state task = (case oget (the_dict (oget state ''tasks'')) task of
       PDict entry \<Rightarrow> status_of_entry now max_age entry | _ \<Rightarrow> Inr missing_status)"

text \<open>The exit code of \<open>run_status\<close> with the report it prints.\<close>

definition run_status ::
    "decoder \<Rightarrow> string \<Rightarrow> string list \<Rightarrow> pyfloat \<Rightarrow> pyfloat \<Rightarrow> config_file \<Rightarrow> ((string, task_status) dict \<times> int) res" where
  "run_status decode path selected now max_age f =
     (case read_worker_state decode path f of
        Inl e \<Rightarrow> if exc_isa (exc_kind e) WorkerStateError then Inr ([], EXIT_IOERR) else Inl e
      | Inr state \<Rightarrow>
        rbind (rmap (\<lambda>task. rbind (task_status_of now max_age state task) (\<lambda>s. Inr (task, s))) selected) (\<lambda>statuses.
        Inr (statuses, if list_all (\<lambda>(_, s). ts_healthy s) statuses then EXIT_OK else 1)))"

end
