(* ===== verification/Worker_Laws.thy ===== *)
theory Worker_Laws
  imports Worker_Run Storage_Laws
begin

text \<open>The attempts of a run are bounded and justified; the telemetry counts every finished run once.\<close>

section \<open>Attempts\<close>

text \<open>What must hold for attempt \<open>n\<close> to be made, and for another one to follow it.\<close>

definition admitted_attempt :: "run_context \<Rightarrow> attempt_world \<Rightarrow> pyfloat \<Rightarrow> bool" where
  "admitted_attempt c w limit \<longleftrightarrow> \<not> aw_stop_before w
     \<and> \<not> fle (fsub (rc_deadline c) (aw_mono_before w)) ATTEMPT_SHUTDOWN_BUDGET_SECONDS
     \<and> limit = attempt_limit c (fsub (rc_deadline c) (aw_mono_before w))"

definition retried_attempt :: "run_context \<Rightarrow> attempt_world \<Rightarrow> nat \<Rightarrow> pyfloat \<Rightarrow> bool" where
  "retried_attempt c w n limit \<longleftrightarrow> (\<exists>r. run_attempt_process (rc_decode c) (ra_task (rc_args c)) (rc_signal c) (aw_process w limit) = Inr r
     \<and> ar_outcome r \<noteq> ''succeeded'' \<and> retries c w n r \<and> \<not> aw_stop_in_wait w)"

lemma record_attempt_limits: "record_attempt c w n r st = (st', t) \<Longrightarrow> rn_limits st' = rn_limits st"
  by (auto simp: record_attempt_def Let_def split: sum.splits prod.splits if_splits)

lemma record_attempt_again:
  "record_attempt c w n r st = (st', Again) \<Longrightarrow> ar_outcome r \<noteq> ''succeeded'' \<and> retries c w n r \<and> \<not> aw_stop_in_wait w"
  by (auto simp: record_attempt_def Let_def split: sum.splits prod.splits if_splits)

lemma record_attempt_completed: "record_attempt c w n r st = (st', t) \<Longrightarrow> rn_completed st' = n"
  by (auto simp: record_attempt_def Let_def split: sum.splits prod.splits if_splits)

lemma attempt_turn_cases:
  assumes "attempt_turn c w n st = (st', t)"
  obtains "t = Enough" "rn_limits st' = rn_limits st" "rn_completed st' = rn_completed st"
  | limit where "admitted_attempt c w limit" "rn_limits st' = rn_limits st @ [limit]" "rn_completed st' \<in> {rn_completed st, n}"
      "t = Again \<longrightarrow> retried_attempt c w n limit"
proof (cases "aw_stop_before w \<or> fle (fsub (rc_deadline c) (aw_mono_before w)) ATTEMPT_SHUTDOWN_BUDGET_SECONDS")
  case True
  then show ?thesis using assms that(1) by (auto simp: attempt_turn_def Let_def split: if_splits)
next
  case False
  let ?limit = "attempt_limit c (fsub (rc_deadline c) (aw_mono_before w))"
  let ?st = "st\<lparr> rn_limits := rn_limits st @ [?limit] \<rparr>"
  have admitted: "admitted_attempt c w ?limit" using False by (simp add: admitted_attempt_def)
  show ?thesis
  proof (cases "run_attempt_process (rc_decode c) (ra_task (rc_args c)) (rc_signal c) (aw_process w ?limit)")
    case (Inl e)
    then show ?thesis using assms False admitted that(2) by (auto simp: attempt_turn_def Let_def)
  next
    case (Inr r)
    then have turn: "record_attempt c w n r ?st = (st', t)" using assms False by (simp add: attempt_turn_def Let_def)
    have "t = Again \<longrightarrow> retried_attempt c w n ?limit"
      using record_attempt_again turn Inr unfolding retried_attempt_def by blast
    then show ?thesis
      using that(2)[OF admitted] record_attempt_limits[OF turn] record_attempt_completed[OF turn] by simp
  qed
qed

lemma attempts_limits:
  "attempts c world k n st = (st', r) \<Longrightarrow> \<exists>ms. rn_limits st' = rn_limits st @ ms \<and> length ms \<le> k
     \<and> (\<forall>i < length ms. admitted_attempt c (world (n + i)) (ms ! i))
     \<and> (\<forall>i. Suc i < length ms \<longrightarrow> retried_attempt c (world (n + i)) (n + i) (ms ! i))"
proof (induction c world k n st rule: attempts.induct)
  case (1 c world n st)
  then show ?case by auto
next
  case (2 c world k n st)
  obtain st1 t where turn: "attempt_turn c (world n) n st = (st1, t)" by fastforce
  show ?case
  proof (cases t)
    case Again
    then have rest: "attempts c world k (Suc n) st1 = (st', r)" using 2(2) turn by simp
    obtain ms where ms: "rn_limits st' = rn_limits st1 @ ms" "length ms \<le> k"
        "\<forall>i < length ms. admitted_attempt c (world (Suc n + i)) (ms ! i)"
        "\<forall>i. Suc i < length ms \<longrightarrow> retried_attempt c (world (Suc n + i)) (Suc n + i) (ms ! i)"
      using 2(1)[OF turn[symmetric] Again rest] by blast
    from turn obtain limit where l: "admitted_attempt c (world n) limit" "rn_limits st1 = rn_limits st @ [limit]"
        "retried_attempt c (world n) n limit"
      by (rule attempt_turn_cases) (use Again in auto)
    have "\<forall>i < length (limit # ms). admitted_attempt c (world (n + i)) ((limit # ms) ! i)"
      using l(1) ms(3) by (simp add: nth_Cons split: nat.split)
    moreover have "retried_attempt c (world (n + i)) (n + i) ((limit # ms) ! i)" if "Suc i < length (limit # ms)" for i
      using that l(3) ms(4) by (cases i) auto
    ultimately show ?thesis using ms(1,2) l(2) by (intro exI[of _ "limit # ms"]) auto
  next
    case Enough
    then have "st' = st1" using 2(2) turn by simp
    with turn show ?thesis by (elim attempt_turn_cases) (force intro: exI[of _ "[]"] exI[of _ "[_]"])+
  next
    case (Broken e)
    then have "st' = st1" using 2(2) turn by simp
    with turn show ?thesis by (elim attempt_turn_cases) (force intro: exI[of _ "[]"] exI[of _ "[_]"])+
  qed
qed

lemma validated_attempts: "validate_run_arguments a = Inr u \<Longrightarrow> 1 \<le> ra_max_attempts a \<and> ra_max_attempts a \<le> 10"
  by (auto simp: validate_run_arguments_def rbind_eq_Inr)

lemma fmin_le_first: "isfinite a \<Longrightarrow> fle (fmin a b) a"
  by (cases a; cases b) (auto simp: fmin_def fle_def)

lemma validated_timeout: "validate_run_arguments a = Inr u \<Longrightarrow> fle (ra_attempt_timeout a) (Fin 900) \<and> fle (Fin 1) (ra_attempt_timeout a)"
  by (auto simp: validate_run_arguments_def rbind_eq_Inr within_seconds_def)

section \<open>Telemetry\<close>

text \<open>The totals of an entry, and entries that count alike.\<close>

definition totals :: "obj \<Rightarrow> int \<Rightarrow> int \<Rightarrow> int \<Rightarrow> bool" where
  "totals entry runs successes failures \<longleftrightarrow> counter entry ''total_runs'' = Inr runs
     \<and> counter entry ''total_successes'' = Inr successes \<and> counter entry ''total_failures'' = Inr failures"

definition same_counters :: "obj \<Rightarrow> obj \<Rightarrow> bool" where
  "same_counters d e \<longleftrightarrow> (\<forall>k \<in> {''total_runs'', ''total_successes'', ''total_failures'', ''consecutive_failures''}. dget e k = dget d k)"

lemma same_counters_refl [simp]: "same_counters d d"
  by (simp add: same_counters_def)

lemma same_counters_trans: "same_counters d e \<Longrightarrow> same_counters e f \<Longrightarrow> same_counters d f"
  by (simp add: same_counters_def)

lemma same_counters_counter:
  "same_counters d e \<Longrightarrow> k \<in> {''total_runs'', ''total_successes'', ''total_failures'', ''consecutive_failures''} \<Longrightarrow> counter e k = counter d k"
  by (auto simp: same_counters_def counter_def oget_def)

lemma dget_dupdate_notin: "k \<notin> fst ` set e \<Longrightarrow> dget (dupdate d e) k = dget d k"
  by (induction d e rule: dupdate.induct) auto

lemma next_retry_counters: "next_retry t d = Inr e \<Longrightarrow> same_counters d e"
  by (auto simp: next_retry_def same_counters_def rbind_eq_Inr split: option.splits)

lemma dupdate_counters: "fst ` set e \<inter> {''total_runs'', ''total_successes'', ''total_failures'', ''consecutive_failures''} = {}
    \<Longrightarrow> same_counters d (dupdate d e)"
  by (auto simp: same_counters_def intro!: dget_dupdate_notin)

lemma attempt_state_entry_counters:
  assumes "attempt_state_entry running r n now t = Inr e"
  shows "same_counters running e"
proof -
  obtain fs where fs: "next_retry t (dupdate running fs) = Inr e"
      "fst ` set fs = {''state'', ''attempts_completed'', ''last_attempt_at'', ''last_attempt_at_unix'', ''last_attempt_outcome'',
         ''last_attempt_processed'', ''last_attempt_problems'', ''last_attempt_emitted''}"
    using assms unfolding attempt_state_entry_def rbind_eq_Inr by (elim exE conjE) (rule that, assumption, simp)
  have "same_counters running (dupdate running fs)" by (rule dupdate_counters) (simp add: fs(2))
  then show ?thesis using next_retry_counters[OF fs(1)] by (rule same_counters_trans)
qed

text \<open>What a start keeps of the previous entry.\<close>

lemma dget_kept_entries: "dget (kept_entries previous) k = (if k \<in> set kept_fields then dget previous k else None)"
proof -
  have "dget (List.map_filter (\<lambda>k. map_option (Pair k) (dget previous k)) ks) k = (if k \<in> set ks then dget previous k else None)" for ks
    by (induction ks) (auto simp: List.map_filter_simps split: option.splits)
  then show ?thesis by (simp add: kept_entries_def)
qed

lemma counter_PInt: "dget d k = Some (PInt n) \<Longrightarrow> counter d k = Inr (max 0 n)"
  by (simp add: counter_def oget_def integer_or_def)

lemma counter_nonneg: "counter d k = Inr n \<Longrightarrow> 0 \<le> n"
  by (auto simp: counter_def rbind_eq_Inr)

lemma initial_running_entry_counters:
  assumes "initial_running_entry ri now previous = Inr e"
  shows "k \<in> {''total_runs'', ''total_successes'', ''total_failures''} \<Longrightarrow> dget e k = dget previous k"
    and "counter previous ''consecutive_failures'' = Inr n \<Longrightarrow>
      counter e ''consecutive_failures'' = Inr (n + (if abandoned previous then 1 else 0))"
proof -
  obtain failures runs stamp where f: "counter previous ''consecutive_failures'' = Inr failures" "counter previous ''abandoned_runs'' = Inr runs"
      "utc_timestamp now = Inr stamp"
    using assms by (auto simp: initial_running_entry_def rbind_eq_Inr Let_def)
  note e = assms[unfolded initial_running_entry_def Let_def, simplified f rbind_Inr]
  show "k \<in> {''total_runs'', ''total_successes'', ''total_failures''} \<Longrightarrow> dget e k = dget previous k"
    using e by (auto simp: rbind_eq_Inr map_add_def dget_kept_entries kept_fields_def split: if_splits option.splits)
  assume "counter previous ''consecutive_failures'' = Inr n"
  then show "counter e ''consecutive_failures'' = Inr (n + (if abandoned previous then 1 else 0))"
    using e f counter_nonneg[OF f(1)] by (auto simp: rbind_eq_Inr intro!: counter_PInt[THEN trans] split: if_splits)
qed

text \<open>The end of a run.\<close>

lemma terminal_state_entry_Inr:
  assumes "terminal_state_entry running r completed started now = Inr e"
  shows "oget e ''state'' = PStr (final_state r)" "oget e ''last_outcome'' = PStr (ar_outcome r)"
    and "ar_outcome r = ''succeeded'' \<Longrightarrow> oget e ''last_success_at_unix'' = PFloat now"
    and "totals running runs successes failures \<Longrightarrow>
      totals e (runs + 1) (successes + (if ar_outcome r = ''succeeded'' then 1 else 0)) (failures + (if ar_outcome r = ''succeeded'' then 0 else 1))"
    and "counter running ''consecutive_failures'' = Inr n \<Longrightarrow>
      counter e ''consecutive_failures'' = Inr (if ar_outcome r = ''succeeded'' then 0 else n + 1)"
    and "ar_outcome r = ''succeeded'' \<Longrightarrow> counter e ''consecutive_failures'' = Inr 0"
proof -
  let ?success = "ar_outcome r = ''succeeded''"
  obtain rs ss fs ns stamp where n: "counter running ''total_runs'' = Inr rs" "counter running ''total_successes'' = Inr ss"
      "counter running ''total_failures'' = Inr fs" "(if ?success then Inr 0 else counter running ''consecutive_failures'') = Inr ns"
      "utc_timestamp now = Inr stamp"
    using assms by (auto simp: terminal_state_entry_def Let_def rbind_eq_Inr)
  have e: "dget e ''state'' = Some (PStr (final_state r))" "dget e ''last_outcome'' = Some (PStr (ar_outcome r))"
      "?success \<Longrightarrow> dget e ''last_success_at_unix'' = Some (PFloat now)"
      "dget e ''total_runs'' = Some (PInt (rs + 1))" "dget e ''total_successes'' = Some (PInt (ss + (if ?success then 1 else 0)))"
      "dget e ''total_failures'' = Some (PInt (fs + (if ?success then 0 else 1)))"
      "dget e ''consecutive_failures'' = Some (PInt (if ?success then 0 else ns + 1))"
    using assms[symmetric] by (simp_all add: terminal_state_entry_def Let_def n)
  show "oget e ''state'' = PStr (final_state r)" "oget e ''last_outcome'' = PStr (ar_outcome r)"
    "?success \<Longrightarrow> oget e ''last_success_at_unix'' = PFloat now"
    using e(1-3) by (simp_all add: oget_def)
  note nonneg = counter_nonneg[OF n(1)] counter_nonneg[OF n(2)] counter_nonneg[OF n(3)]
  show "totals running runs successes failures \<Longrightarrow>
      totals e (runs + 1) (successes + (if ?success then 1 else 0)) (failures + (if ?success then 0 else 1))"
    using nonneg n(1-3) by (simp add: totals_def counter_PInt[OF e(4)] counter_PInt[OF e(5)] counter_PInt[OF e(6)])
  show "counter e ''consecutive_failures'' = Inr (if ?success then 0 else n' + 1)" if "counter running ''consecutive_failures'' = Inr n'" for n'
    using that n(4) counter_nonneg[OF that] by (auto simp: counter_PInt[OF e(7)])
  show "?success \<Longrightarrow> counter e ''consecutive_failures'' = Inr 0" by (simp add: counter_PInt[OF e(7)])
qed

lemma record_attempt_counters:
  "record_attempt c w n r st = (st', t) \<Longrightarrow> same_counters (rn_running st) (rn_running st')"
  by (auto simp: record_attempt_def Let_def dest: attempt_state_entry_counters split: sum.splits prod.splits if_splits)

lemma attempt_turn_counters: "attempt_turn c w n st = (st', t) \<Longrightarrow> same_counters (rn_running st) (rn_running st')"
  by (auto simp: attempt_turn_def Let_def dest: record_attempt_counters split: sum.splits if_splits)

lemma attempts_counters: "attempts c world k n st = (st', r) \<Longrightarrow> same_counters (rn_running st) (rn_running st')"
proof (induction c world k n st rule: attempts.induct)
  case (2 c world k n st)
  obtain st1 t where turn: "attempt_turn c (world n) n st = (st1, t)" by fastforce
  note here = attempt_turn_counters[OF turn]
  show ?case
  proof (cases t)
    case Again
    then show ?thesis using 2 turn here by (auto intro: same_counters_trans)
  qed (use 2(2) turn here in auto)
qed simp

text \<open>A successful write leaves the entry in the file, and with it what the other tasks had.\<close>

definition entry_of :: "obj \<Rightarrow> string \<Rightarrow> obj" where
  "entry_of state task = the_dict (oget_or (the_dict (oget state ''tasks'')) task (PDict []))"

definition written_state :: "string \<Rightarrow> obj \<Rightarrow> obj \<Rightarrow> bool" where
  "written_state task entry state \<longleftrightarrow> is_dict (oget state ''tasks'') \<and> oget (the_dict (oget state ''tasks'')) task = PDict entry
     \<and> oget state ''schema_version'' = PInt 1
     \<and> (task \<in> set TASKS \<longrightarrow> list_all (\<lambda>(t, e). t \<in> set TASKS \<and> is_dict e) (the_dict (oget state ''tasks'')))"

lemma list_all_dset: "list_all P d \<Longrightarrow> P (k, v) \<Longrightarrow> list_all P (dset k v d)"
  by (induction d) auto

lemma read_worker_state_tasks:
  assumes "read_worker_state decode path f = Inr state"
  shows "list_all (\<lambda>(t, e). t \<in> set TASKS \<and> is_dict e) (the_dict (oget state ''tasks''))"
proof -
  have "list_all (\<lambda>(t, e). t \<in> set TASKS \<and> is_dict e) (the_dict (oget d ''tasks''))" if "checked_worker_state path v = Inr d" for v d
    using that by (auto simp: checked_worker_state_def worker_state_error_def simp del: set_simps split: pyval.splits if_splits)
  moreover have "state = empty_worker_state \<or> (\<exists>v. checked_worker_state path v = Inr state)"
    using assms by (auto simp: read_worker_state_def rbind_eq_Inr worker_state_error_def split: option.split_asm sum.split_asm)
      (metis sum.exhaust)
  ultimately show ?thesis by (auto simp: empty_worker_state_def)
qed

lemma updated_worker_state_Inr:
  assumes "updated_worker_state task entry now state = Inr state'"
    and "list_all (\<lambda>(t, e). t \<in> set TASKS \<and> is_dict e) (the_dict (oget state ''tasks''))"
  shows "written_state task entry state'"
  using assms list_all_dset[OF assms(2), of task "PDict entry"]
  by (auto simp: updated_worker_state_def rbind_eq_Inr written_state_def)

lemma update_task_state_Inr:
  assumes "update_task_state decode path fault task entry now f = (f', Inr u)"
  obtains state where "f' = Contents (state_text state)" "written_state task entry state" "length (state_text state) \<le> MAX_STATE_BYTES"
proof -
  obtain old state where state: "read_worker_state decode path f = Inr old"
      "updated_worker_state task entry now old = Inr state" "write_worker_state path fault state f = (f', Inr u)"
    using assms by (auto simp: update_task_state_def rbind_eq_Inr split: sum.splits)
  have "f' = Contents (state_text state) \<and> length (state_text state) \<le> MAX_STATE_BYTES"
    using state(3) by (auto simp: write_worker_state_def worker_state_error_def split: sum.splits if_splits write_fault.splits)
  then show ?thesis using that updated_worker_state_Inr[OF state(2) read_worker_state_tasks[OF state(1)]] by blast
qed

section \<open>A finished run\<close>

lemma run_start_Inr:
  assumes "run_start a w f = (f', Inr running)"
  obtains state where "read_worker_state (rw_decode w) (ra_state_file a) f = Inr state"
    "initial_running_entry (identity_of a w) (rw_started w) (entry_of state (ra_task a)) = Inr running"
  using assms by (auto simp: run_start_def rbind_eq_Inr entry_of_def split: sum.splits prod.splits)

lemma run_end_Inr:
  assumes "run_end a w st = (f', Inr code)"
  obtains entry where "terminal_state_entry (rn_running st) (rn_last st) (rn_completed st) (rw_started w) (rw_finished w) = Inr entry"
    "code = ar_exit_code (rn_last st)"
    "\<exists>s. f' = Contents (state_text s) \<and> written_state (ra_task a) entry s \<and> length (state_text s) \<le> MAX_STATE_BYTES"
  using assms by (auto simp: run_end_def split: sum.splits prod.splits) (metis update_task_state_Inr)

lemma run_body_Inr:
  assumes run: "run_body a w f = (f', Inr code)"
  obtains state s entry result where
    "read_worker_state (rw_decode w) (ra_state_file a) f = Inr state"
    "f' = Contents (state_text s)" "written_state (ra_task a) entry s" "length (state_text s) \<le> MAX_STATE_BYTES" "code = ar_exit_code result"
    "oget entry ''state'' = PStr (final_state result)" "oget entry ''last_outcome'' = PStr (ar_outcome result)"
    "ar_outcome result = ''succeeded'' \<Longrightarrow> oget entry ''last_success_at_unix'' = PFloat (rw_finished w)"
    "ar_outcome result = ''succeeded'' \<Longrightarrow> counter entry ''consecutive_failures'' = Inr 0"
    "\<And>runs successes failures. totals (entry_of state (ra_task a)) runs successes failures \<Longrightarrow>
      totals entry (runs + 1) (successes + (if ar_outcome result = ''succeeded'' then 1 else 0))
        (failures + (if ar_outcome result = ''succeeded'' then 0 else 1))"
    "\<And>n. counter (entry_of state (ra_task a)) ''consecutive_failures'' = Inr n \<Longrightarrow>
      counter entry ''consecutive_failures'' = Inr (if ar_outcome result = ''succeeded'' then 0
        else n + (if abandoned (entry_of state (ra_task a)) then 1 else 0) + 1)"
proof -
  obtain f1 running where start: "run_start a w f = (f1, Inr running)"
    using run by (auto simp: run_body_def split: prod.splits sum.splits)
  obtain st where same: "same_counters running (rn_running st)" and ending: "run_end a w st = (f', Inr code)"
    using run start by (auto simp: run_body_def dest!: attempts_counters split: prod.splits option.splits)
  obtain state where state: "read_worker_state (rw_decode w) (ra_state_file a) f = Inr state"
      "initial_running_entry (identity_of a w) (rw_started w) (entry_of state (ra_task a)) = Inr running"
    using start by (rule run_start_Inr)
  obtain entry s where entry: "terminal_state_entry (rn_running st) (rn_last st) (rn_completed st) (rw_started w) (rw_finished w) = Inr entry"
      "code = ar_exit_code (rn_last st)" "f' = Contents (state_text s)" "written_state (ra_task a) entry s" "length (state_text s) \<le> MAX_STATE_BYTES"
    using ending by (rule run_end_Inr) blast
  note fields = terminal_state_entry_Inr[OF entry(1)]
  let ?previous = "entry_of state (ra_task a)"
  have kept: "totals ?previous r t u \<Longrightarrow> totals (rn_running st) r t u" for r t u
    using same_counters_counter[OF same] initial_running_entry_counters(1)[OF state(2)]
    by (simp add: totals_def counter_def oget_def)
  show ?thesis
  proof (rule that[OF state(1) entry(3,4,5,2) fields(1,2,3,6)])
    show "totals ?previous r t u \<Longrightarrow> totals entry (r + 1) (t + (if ar_outcome (rn_last st) = ''succeeded'' then 1 else 0))
        (u + (if ar_outcome (rn_last st) = ''succeeded'' then 0 else 1))" for r t u
      by (rule fields(4)) (rule kept)
    show "counter entry ''consecutive_failures'' = Inr (if ar_outcome (rn_last st) = ''succeeded'' then 0
        else n + (if abandoned ?previous then 1 else 0) + 1)" if "counter ?previous ''consecutive_failures'' = Inr n" for n
      using fields(5)[of "n + (if abandoned ?previous then 1 else 0)"] same_counters_counter[OF same, of "''consecutive_failures''"]
        initial_running_entry_counters(2)[OF state(2) that] by simp
  qed
qed

section \<open>The task and the report\<close>

lemma classified_outcome:
  "ar_outcome (classified task e) \<notin> {''succeeded'', ''partial_feed_failure''}"
  "exc_kind e = ConfigCommitError \<Longrightarrow> ar_outcome (classified task e) = ''config_durability_uncertain''"
  by (simp_all add: classified_def Let_def attempt_failure_def exc_isa_def)

lemma finished_outcome: "ar_outcome (finished_attempt task p q e) = ''succeeded'' \<longleftrightarrow> q = 0"
  by (simp add: finished_attempt_def)

text \<open>A changed file is the document of a completed refresh, based on the file that was loaded.\<close>

lemma alerts_attempt_cases:
  assumes "alerts_attempt w f s = (f', r)"
  obtains "f' = f" "ar_outcome r \<notin> {''succeeded'', ''partial_feed_failure''}"
  | rs data where "refresh_all_alert_prices (tw_alert_fresh w) (sc_config s) (tw_registry w) [] = Inr rs"
      "config_document (tw_fresh w) (rs_config rs) = Inr data" "config_file_revision f = Inr (sc_revision s)" "f' = Contents data"
      "r = finished_attempt TASK_ALERTS (int (length (rs_refreshed rs))) (int (length (rs_problems rs)))
           (int (sum_list (map (length \<circ> rf_messages) (rs_refreshed rs))))
       \<or> ar_outcome r = ''config_durability_uncertain''"
proof (cases "refresh_all_alert_prices (tw_alert_fresh w) (sc_config s) (tw_registry w) []")
  case (Inl e)
  then show ?thesis using assms classified_outcome(1) that(1) by (auto simp: alerts_attempt_def)
next
  case (Inr rs)
  obtain g s' outcome where save: "save_config (tw_fresh w) (tw_path w) (tw_faults w) f (s\<lparr> sc_config := rs_config rs \<rparr>) = (g, s', outcome)"
    using prod_cases3 by blast
  from save show ?thesis
  proof (cases rule: save_config_cases)
    case (1 e)
    then show ?thesis using assms Inr save classified_outcome(1) that(1) by (auto simp: alerts_attempt_def)
  next
    case (2 data)
    have d: "config_document (tw_fresh w) (rs_config rs) = Inr data" "config_file_revision f = Inr (sc_revision s)" using 2(1,2) by simp_all
    show ?thesis
      using assms Inr save 2(3,5) classified_outcome(2) by (intro that(2)[OF Inr d]) (auto simp: alerts_attempt_def)
  qed
qed

text \<open>Sorting the keys of an object changes no lookup.\<close>

lemma map_of_insort: "map_of (insort_key fst kv d) = (map_of d)(fst kv \<mapsto> snd kv)" for kv :: "'k :: linorder \<times> 'v"
  by (induction d) (auto simp: fun_eq_iff)

lemma map_of_sort_key: "map_of (sort_key fst d) = map_of d" for d :: "('k :: linorder \<times> 'v) list"
  by (induction d) (auto simp: map_of_insort)

lemma oget_json_norm: "oget (the_dict (json_norm (PDict d))) k = json_norm (oget d k)"
proof -
  have "dget (sort_key fst (map (\<lambda>(k, v). (k, json_norm v)) d)) k = map_option json_norm (dget d k)"
    by (simp add: map_of_map map_of_sort_key)
  then show ?thesis by (cases "dget d k") (simp_all add: oget_def)
qed

lemma json_norm_numbers: "integer_or (json_norm v) n = integer_or v n" "number_or (json_norm v) x = number_or v x"
  by (cases v; simp add: integer_or_def number_or_def)+

lemma json_norm_counter: "counter (the_dict (json_norm (PDict d))) k = counter d k"
  unfolding counter_def oget_json_norm json_norm_numbers ..

lemma json_norm_kind: "is_dict (json_norm v) = is_dict v"
  by (cases v) simp_all

text \<open>A written state is read back with its entry.\<close>

lemma written_state_read:
  assumes "written_state task entry s" "length (state_text s) \<le> MAX_STATE_BYTES" "task \<in> set TASKS"
    and "decode (state_text s) = Inr (json_norm (PDict s))"
  shows "\<exists>d. read_worker_state decode path (Contents (state_text s)) = Inr d
    \<and> oget (the_dict (oget d ''tasks'')) task = json_norm (PDict entry)"
proof -
  obtain ts where ts: "oget s ''tasks'' = PDict ts" using assms(1) by (auto simp: written_state_def is_dict_def)
  define d where "d = the_dict (json_norm (PDict s))"
  have d: "json_norm (PDict s) = PDict d" "\<And>k. oget d k = json_norm (oget s k)" unfolding d_def oget_json_norm by simp_all
  have tasks: "oget d ''tasks'' = json_norm (PDict ts)" using d(2) ts by (simp del: json_norm.simps)
  obtain ts' where ts': "json_norm (PDict ts) = PDict ts'" by simp
  have "list_all (\<lambda>(t, e). t \<in> set TASKS \<and> is_dict e) ts'"
    using assms(1,3) ts ts' by (fastforce simp: written_state_def list_all_iff json_norm_kind)
  then have "checked_worker_state path (PDict d) = Inr d"
    using assms(1) d(2) tasks ts' by (simp add: checked_worker_state_def written_state_def del: json_norm.simps) simp
  then have "read_worker_state decode path (Contents (state_text s)) = Inr d"
    using assms(2,4) d(1) by (simp add: read_worker_state_def regular_file_bytes_def del: json_norm.simps)
  moreover have "oget ts' task = json_norm (PDict entry)"
    using oget_json_norm[of ts task] assms(1) ts ts' by (simp add: written_state_def del: json_norm.simps)
  ultimately show ?thesis using tasks ts' by (auto simp del: json_norm.simps)
qed

end
