(* ===== verification/Json_Size.thy ===== *)
theory Json_Size
  imports PyJson
begin

text \<open>A bound on the length of an indented JSON text that does not depend on the order of keys or on which
  characters are escaped.\<close>

fun jsize :: "nat \<Rightarrow> pyval \<Rightarrow> nat" where
  "jsize n (PList xs) = 2 * n + 8 + sum_list (map (\<lambda>v. jsize (n + 2) v + n + 6) xs)"
| "jsize n (PDict d) = 2 * n + 8 + sum_list (map (\<lambda>(k, v). 6 * length k + 4 + jsize (n + 2) v + n + 6) d)"
| "jsize n (PStr s) = 6 * length s + 2"
| "jsize n v = length (json_text True v)"

lemma json_escape_le: "length (json_escape a c) \<le> 6"
  by (simp add: json_escape_def Let_def hex2_def)

lemma json_string_le: "length (json_string a s) \<le> 6 * length s + 2"
proof -
  have "length (concat (map (json_escape a) s)) \<le> 6 * length s"
    using json_escape_le by (induction s) (auto intro: add_mono)
  then show ?thesis by (simp add: json_string_def)
qed

lemma length_join_le: "length (join sep xs) \<le> sum_list (map (\<lambda>x. length x + length sep) xs)"
  by (induction sep xs rule: join.induct) auto

lemma sum_list_insort: "sum_list (map f (insort_key g x xs)) = f x + sum_list (map f xs)" for f :: "'b \<Rightarrow> nat"
  by (induction xs) auto

lemma sum_list_sort_key: "sum_list (map f (sort_key g xs)) = sum_list (map f xs)" for f :: "'b \<Rightarrow> nat"
  by (induction xs) (simp_all add: sum_list_insort)

lemma length_items_le:
  "length (join (CHR '','' # indent_line (n + 2)) xs) \<le> sum_list (map (\<lambda>x. length x + (n + 4)) xs)"
proof -
  have "length (CHR '','' # indent_line (n + 2)) = n + 4" by (simp add: indent_line_def)
  then show ?thesis using length_join_le[of "CHR '','' # indent_line (n + 2)" xs] by (simp only:)
qed

lemma json_indented_le: "length (json_indented n v) \<le> jsize n v"
proof (induction n v rule: json_indented.induct)
  case (1 n xs)
  have "length (json_indented (n + 2) v) \<le> jsize (n + 2) v" if "v \<in> set xs" for v
    using that by (intro 1) auto
  then have "sum_list (map (\<lambda>x. length x + (n + 4)) (map (json_indented (n + 2)) xs)) \<le> sum_list (map (\<lambda>v. jsize (n + 2) v + n + 6) xs)"
    unfolding map_map comp_def by (intro sum_list_mono) fastforce
  from order_trans[OF length_items_le this] show ?case by (auto simp: indent_line_def simp del: map_map)
next
  case (2 n d)
  let ?g = "\<lambda>(k, v). 6 * length k + 4 + jsize (n + 2) v + n + 6"
  let ?f = "\<lambda>(k, v). (k, json_string True k @ '': '' @ json_indented (n + 2) v)"
  let ?xs = "sort_key fst (map ?f d)"
  have item: "length (json_string True k @ '': '' @ json_indented (n + 2) v) + (n + 4) \<le> ?g (k, v)" if "(k, v) \<in> set d" for k v
  proof -
    have "length (json_indented (n + 2) v) \<le> jsize (n + 2) v" using that by (intro 2) auto
    then show ?thesis using json_string_le[of True k] by simp
  qed
  have "sum_list (map (\<lambda>x. length x + (n + 4)) (map snd ?xs)) = sum_list (map (\<lambda>x. length (snd x) + (n + 4)) (map ?f d))"
    by (subst map_map, unfold comp_def, rule sum_list_sort_key)
  also have "\<dots> \<le> sum_list (map ?g d)"
    unfolding map_map comp_def by (intro sum_list_mono) (use item in auto)
  finally have "sum_list (map (\<lambda>x. length x + (n + 4)) (map snd ?xs)) \<le> sum_list (map ?g d)" .
  from order_trans[OF length_items_le this] show ?case by (auto simp: indent_line_def simp del: map_map)
qed (simp_all add: json_string_le[simplified])

end
