(* ===== verification/Worker_Theorems.thy ===== *)
theory Worker_Theorems
  imports Worker_Laws Json_Size
begin

text \<open>Properties of the unattended worker.\<close>

section \<open>Attempts\<close>


section \<open>Telemetry\<close>


text \<open>The status report tells whether the last run succeeded: read from the file a run left, while its success
  is recent enough, it exits with success exactly if the run succeeded.\<close>

theorem status_reports_the_last_run:
  assumes "run_body a w f = (f', Inr code)" "ra_task a \<in> set TASKS"
    and "flt (Fin 0) (rw_finished w)" "fle (rw_finished w) (fadd now FUTURE_CLOCK_TOLERANCE_SECONDS)"
    and "fle (fmax (Fin 0) (fsub now (rw_finished w))) max_age"
  shows "\<exists>s entry. f' = Contents (state_text s) \<and> oget (the_dict (oget s ''tasks'')) (ra_task a) = PDict entry
    \<and> (\<forall>decode. decode (state_text s) = Inr (json_norm (PDict s)) \<longrightarrow>
          ((\<exists>rows. run_status decode (ra_state_file a) [ra_task a] now max_age f' = Inr (rows, EXIT_OK))
            \<longleftrightarrow> oget entry ''last_outcome'' = PStr ''succeeded''))"
  using assms(1)
proof (rule run_body_Inr)
  fix s entry result
  assume run: "f' = Contents (state_text s)" "written_state (ra_task a) entry s" "length (state_text s) \<le> MAX_STATE_BYTES"
      "oget entry ''state'' = PStr (final_state result)" "oget entry ''last_outcome'' = PStr (ar_outcome result)"
    and success: "ar_outcome result = ''succeeded'' \<Longrightarrow> oget entry ''last_success_at_unix'' = PFloat (rw_finished w)"
      "ar_outcome result = ''succeeded'' \<Longrightarrow> counter entry ''consecutive_failures'' = Inr 0"
  let ?e = "the_dict (json_norm (PDict entry))"
  have state: "oget ?e ''state'' = PStr (final_state result)" unfolding oget_json_norm run(4) by simp
  have healthy: "\<exists>t. status_of_entry now max_age ?e = Inr t \<and> ts_healthy t" if "ar_outcome result = ''succeeded''"
  proof -
    have "number_or (oget ?e ''last_success_at_unix'') (Fin 0) = Inr (rw_finished w)"
      unfolding oget_json_norm success(1)[OF that] by (simp add: number_or_def)
    then show ?thesis using state success(2)[OF that] that assms(3-5)
      by (simp add: status_of_entry_def json_norm_counter final_state_def del: json_norm.simps)
  qed
  have unhealthy: "\<not> ts_healthy t" if "ar_outcome result \<noteq> ''succeeded''" "status_of_entry now max_age ?e = Inr t" for t
  proof -
    have "final_state result \<noteq> ''succeeded''" using that(1) by (simp add: final_state_def)
    then show ?thesis using that(2) state by (auto simp: status_of_entry_def rbind_eq_Inr Let_def simp del: json_norm.simps)
  qed
  have report: "(\<exists>rows. run_status decode (ra_state_file a) [ra_task a] now max_age f' = Inr (rows, EXIT_OK))
      \<longleftrightarrow> (\<exists>t. status_of_entry now max_age ?e = Inr t \<and> ts_healthy t)" if dec: "decode (state_text s) = Inr (json_norm (PDict s))" for decode
  proof -
    obtain d where d: "read_worker_state decode (ra_state_file a) f' = Inr d"
        "oget (the_dict (oget d ''tasks'')) (ra_task a) = json_norm (PDict entry)"
      using written_state_read[of "ra_task a" entry s decode, OF run(2,3) assms(2) dec] run(1) by blast
    obtain e where e: "json_norm (PDict entry) = PDict e" by simp
    have "task_status_of now max_age d (ra_task a) = status_of_entry now max_age ?e"
      by (simp only: task_status_of_def d(2) e pyval.case pyval.sel)
    then show ?thesis by (auto simp: run_status_def d(1) rbind_eq_Inr EXIT_OK_def simp del: json_norm.simps)
  qed
  show ?thesis
    using run healthy unhealthy report by (intro exI[of _ s] exI[of _ entry]) (auto simp: written_state_def simp del: json_norm.simps)
qed

section \<open>The alert task\<close>

text \<open>C32: An attempt of a task publishes a complete refresh or nothing. The configuration changes only in the
  alert task, from the file it loaded to the document of the refreshed configuration; a success or a
  partial success is reported only when that file is in place.\<close>

theorem attempt_publishes_a_whole_refresh:
  assumes "execute_task_once w task n f = (f', r)"
  shows "(f' = f \<and> (task = TASK_ALERTS \<longrightarrow> ar_outcome r \<notin> {''succeeded'', ''partial_feed_failure''}))
    \<or> (\<exists>s rs data. task = TASK_ALERTS \<and> load_config (tw_decode w) (tw_fresh w) (tw_path w) f = Inr s
         \<and> refresh_all_alert_prices (tw_alert_fresh w) (sc_config s) (tw_registry w) [] = Inr rs
         \<and> config_document (tw_fresh w) (rs_config rs) = Inr data \<and> f' = Contents data
         \<and> config_file_revision f = Inr (sc_revision s)
         \<and> (ar_outcome r = ''succeeded'' \<longrightarrow> rs_problems rs = [])
         \<and> ar_outcome r \<in> {''succeeded'', ''partial_feed_failure'', ''config_durability_uncertain''})"
proof (cases "load_config (tw_decode w) (tw_fresh w) (tw_path w) f")
  case (Inl e)
  then show ?thesis using assms by (auto simp: execute_task_once_def attempt_failure_def)
next
  case (Inr s)
  show ?thesis
  proof (cases "task = TASK_ALERTS")
    case True
    then have "alerts_attempt w f s = (f', r)" using assms Inr by (simp add: execute_task_once_def)
    then show ?thesis using True Inr
      by (cases rule: alerts_attempt_cases) (auto simp: finished_attempt_def split: if_splits)
  next
    case False
    then show ?thesis using assms Inr by (auto simp: execute_task_once_def split: if_splits)
  qed
qed

section \<open>A run\<close>

text \<open>A wallet poll whose first attempt times out and whose second one succeeds. The parser of the demonstration
  reads every text as one object that is a worker state and the reply of a successful child.\<close>

definition demo_reply :: obj where
  "demo_reply = [(''schema_version'', PInt 1), (''tasks'', PDict []), (''task'', PStr TASK_WALLETS), (''outcome'', PStr ''succeeded''),
     (''retryable'', PBool False), (''exit_code'', PInt 0)]"

definition demo_parser :: decoder where
  "demo_parser raw = Inr (PDict demo_reply)"

definition demo_args :: run_args where
  "demo_args = \<lparr> ra_task = TASK_WALLETS, ra_deadline_seconds = Fin 90, ra_attempt_timeout = Fin 40, ra_lock_timeout = Fin 5,
     ra_initial_backoff = Fin 2, ra_max_backoff = Fin 8, ra_max_attempts = 3, ra_wallet_limit = 25, ra_state_file = ''state'',
     ra_lock_file = ''lock'', ra_source_revision = replicate 40 (CHR ''a''), ra_service_unit = ''market-sentinel-wallets-poll.service'',
     ra_unit_contract = replicate 64 (CHR ''b'') \<rparr>"

definition demo_attempts :: "nat \<Rightarrow> attempt_world" where
  "demo_attempts n = \<lparr> aw_stop_before = False, aw_mono_before = (if n = 1 then Fin 0 else Fin 50),
     aw_process = (\<lambda>_. if n = 1 then TimedOut else Exited ''done'' 0), aw_finished = Fin 100, aw_stop_after = False,
     aw_mono_after = Fin 45, aw_write = NoFault, aw_stop_in_wait = False \<rparr>"

definition demo_context :: run_context where
  "demo_context = \<lparr> rc_args = demo_args, rc_decode = demo_parser, rc_deadline = Fin 90, rc_signal = 0 \<rparr>"

lemma demo_stamps: "utc_timestamp (Fin 100) = Inr ''1970-01-01T00:01:40Z''" "utc_timestamp (Fin 102) = Inr ''1970-01-01T00:01:42Z''"
  by code_simp+

lemma demo_lengths: "length (repr_pos 100) = 5" "length (repr_pos 102) = 5" "length (repr_pos 90) = 4" "length (nat_str 0) = 1"
  "length (nat_str 1) = 1" "length (nat_str 2) = 1" "length (nat_str 3) = 1" "length (nat_str 7) = 1"
  by code_simp+

lemma demo_valid: "validate_run_arguments demo_args = Inr ()"
  by (simp add: validate_run_arguments_def demo_args_def within_seconds_def SERVICE_UNIT_BY_TASK_def is_digest_def list_all_iff
    is_hex_lower_def is_digit_def TASK_WALLETS_def TASK_ALERTS_def)

lemma demo_write:
  assumes "f = Missing \<or> (\<exists>g. f = Contents g \<and> length g \<le> MAX_STATE_BYTES)" "jsize 4 (PDict entry) \<le> 60000" "json_finite (PDict entry)"
  shows "\<exists>g. update_task_state demo_parser path NoFault TASK_WALLETS entry (Fin 100) f = (Contents g, Inr ()) \<and> length g \<le> MAX_STATE_BYTES"
proof -
  obtain old where old: "read_worker_state demo_parser path f = Inr old" "old \<in> {empty_worker_state, demo_reply}"
    using assms(1)
    by (auto simp: read_worker_state_def regular_file_bytes_def demo_parser_def checked_worker_state_def demo_reply_def)
  obtain s where s: "updated_worker_state TASK_WALLETS entry (Fin 100) old = Inr s"
    by (simp add: updated_worker_state_def demo_stamps)
  have size: "jsize 0 (PDict s) < 65000" and finite: "json_finite (PDict s)"
    using s assms(2,3) old(2) demo_stamps(1)
    by (auto simp: updated_worker_state_def empty_worker_state_def demo_reply_def TASK_WALLETS_def int_str_def demo_lengths
        simp del: add_2_eq_Suc add_2_eq_Suc')
  have "length (state_text s) \<le> MAX_STATE_BYTES"
    using json_indented_le[of 0 "PDict s"] size by (simp add: state_text_def MAX_STATE_BYTES_def del: json_indented.simps jsize.simps)
  moreover have "\<exists>x. regular_file_bytes path f = Inr x" using assms(1) by (auto simp: regular_file_bytes_def)
  ultimately show ?thesis using old(1) s finite
    by (auto simp: update_task_state_def write_worker_state_def simp del: json_finite.simps)
qed

definition timed_out :: attempt_result where
  "timed_out = attempt_failure TASK_WALLETS ''attempt_timeout'' True EXIT_TEMPFAIL"

definition succeeded :: attempt_result where
  "succeeded = attempt_failure TASK_WALLETS ''succeeded'' False EXIT_OK"

lemma demo_child:
  "run_attempt_process demo_parser TASK_WALLETS 0 TimedOut = Inr timed_out"
  "run_attempt_process demo_parser TASK_WALLETS 0 (Exited ''done'' 0) = Inr succeeded"
  by (simp_all add: run_attempt_process_def timed_out_def succeeded_def decode_attempt_result_def demo_parser_def demo_reply_def
    MAX_CAPTURE_BYTES_def integer_or_def counter_def attempt_failure_def EXIT_OK_def)

lemma demo_sums: "fsub (Fin 90) (Fin 0) = Fin 90" "fsub (Fin 90) (Fin 50) = Fin 40" "fsub (Fin 90) (Fin 45) = Fin 45"
  "fsub (Fin 90) (Fin 6) = Fin 84" "fsub (Fin 40) (Fin 6) = Fin 34" "fadd (Fin 100) (Fin 2) = Fin 102" "fmul (Fin 2) (Fin 1) = Fin 2"
  "fadd (Fin 0) (Fin 90) = Fin 90"
  by (simp_all add: fsub_def to_float_numeral)

lemma demo_limits: "attempt_limit demo_context (Fin 90) = Fin 40" "attempt_limit demo_context (Fin 40) = Fin 34"
  by (simp_all add: attempt_limit_def demo_context_def demo_args_def ATTEMPT_SHUTDOWN_BUDGET_SECONDS_def demo_sums fmin_def)

lemma demo_retry: "flt (fadd (Fin 2) (flit (1 / 1000))) (Fin 45)"
proof -
  have "fl (1 / 1000) \<le> 1" by (rule fl_le) (use f64_of_int[of 1] in simp_all)
  moreover have "0 \<le> fl (1 / 1000)" by simp
  ultimately have "2 + fl (1 / 1000) \<le> 3" "0 \<le> 2 + fl (1 / 1000)" by simp_all
  moreover from this have "fl (2 + fl (1 / 1000)) \<le> 3" using f64_of_int[of 3] by (intro fl_le) simp_all
  ultimately show ?thesis
    using to_float_small[of "1 / 1000"] to_float_small[of "2 + fl (1 / 1000)"] by (simp add: flit_def)
qed

text \<open>A write of a small entry succeeds and the run goes on as decided.\<close>

lemma demo_record:
  assumes "attempt_state_entry (rn_running st) r n (Fin 100) (if retries demo_context (demo_attempts m) n r then Some (fadd (Fin 100) (backoff demo_args n)) else None)
      = Inr e"
    and "jsize 4 (PDict e) \<le> 60000" "json_finite (PDict e)" "rn_file st = Missing \<or> (\<exists>g. rn_file st = Contents g \<and> length g \<le> MAX_STATE_BYTES)"
  shows "\<exists>g. length g \<le> MAX_STATE_BYTES \<and> record_attempt demo_context (demo_attempts m) n r st
    = (st\<lparr> rn_file := Contents g, rn_last := r, rn_completed := n, rn_running := e \<rparr>,
       if ar_outcome r = ''succeeded'' \<or> \<not> retries demo_context (demo_attempts m) n r then Enough else Again)"
proof -
  have c: "rc_args demo_context = demo_args" "rc_decode demo_context = demo_parser" "aw_finished (demo_attempts m) = Fin 100"
    "aw_write (demo_attempts m) = NoFault" "ra_task demo_args = TASK_WALLETS" "\<not> aw_stop_in_wait (demo_attempts m)"
    by (simp_all add: demo_context_def demo_attempts_def demo_args_def)
  obtain g where g: "update_task_state demo_parser (ra_state_file demo_args) NoFault TASK_WALLETS e (Fin 100) (rn_file st) = (Contents g, Inr ())"
      "length g \<le> MAX_STATE_BYTES"
    using demo_write[OF assms(4,2,3)] by blast
  have "record_attempt demo_context (demo_attempts m) n r st
    = (st\<lparr> rn_file := Contents g, rn_last := r, rn_completed := n, rn_running := e \<rparr>,
       if ar_outcome r = ''succeeded'' \<or> \<not> retries demo_context (demo_attempts m) n r then Enough else Again)"
    unfolding record_attempt_def Let_def c assms(1) sum.case g(1) prod.case by (simp add: c)
  then show ?thesis using g(2) by blast
qed

lemma demo_first: "retries demo_context (demo_attempts 1) 1 timed_out" "backoff demo_args 1 = Fin 2"
proof -
  show b: "backoff demo_args 1 = Fin 2" by (simp add: backoff_def demo_args_def fmin_def to_float_numeral)
  show "retries demo_context (demo_attempts 1) 1 timed_out"
    using demo_retry b by (simp add: retries_def demo_context_def demo_attempts_def timed_out_def attempt_failure_def demo_sums)
      (simp add: demo_args_def)
qed

lemma demo_attempts_run:
  assumes "rn_running st = []" "rn_file st = Missing" "rn_limits st = []"
  shows "\<exists>st'. attempts demo_context demo_attempts 3 1 st = (st', None) \<and> rn_limits st' = [Fin 40, Fin 34]"
proof -
  have turn: "attempt_turn demo_context (demo_attempts n) n s = record_attempt demo_context (demo_attempts n) n (if n = 1 then timed_out else succeeded)
      (s\<lparr> rn_limits := rn_limits s @ [if n = 1 then Fin 40 else Fin 34] \<rparr>)" for n s
    using demo_child demo_limits
    by (simp add: attempt_turn_def Let_def demo_attempts_def demo_sums ATTEMPT_SHUTDOWN_BUDGET_SECONDS_def demo_context_def demo_args_def)
  let ?st1 = "st\<lparr> rn_limits := [Fin 40] \<rparr>"
  have "attempt_state_entry (rn_running ?st1) timed_out 1 (Fin 100) (if retries demo_context (demo_attempts 1) 1 timed_out
      then Some (fadd (Fin 100) (backoff demo_args 1)) else None)
    = Inr [(''state'', PStr ''retrying''), (''attempts_completed'', PInt 1), (''last_attempt_at'', PStr ''1970-01-01T00:01:40Z''),
        (''last_attempt_at_unix'', PFloat (Fin 100)), (''last_attempt_outcome'', PStr ''attempt_timeout''), (''last_attempt_processed'', PInt 0),
        (''last_attempt_problems'', PInt 0), (''last_attempt_emitted'', PInt 0), (''next_retry_at'', PStr ''1970-01-01T00:01:42Z''),
        (''next_retry_at_unix'', PFloat (Fin 102))]" (is "_ = Inr ?e1")
    using assms(1) demo_first by (simp add: attempt_state_entry_def next_retry_def to_float_numeral demo_stamps timed_out_def attempt_failure_def)
  from demo_record[of ?st1 timed_out 1 1, OF this] obtain g where g: "length g \<le> MAX_STATE_BYTES"
      "record_attempt demo_context (demo_attempts 1) 1 timed_out ?st1
        = (?st1\<lparr> rn_file := Contents g, rn_last := timed_out, rn_completed := 1, rn_running := ?e1 \<rparr>, Again)"
    using assms(2) demo_first(1) by (auto simp: int_str_def demo_lengths timed_out_def attempt_failure_def)
  let ?st2 = "st\<lparr> rn_file := Contents g, rn_last := timed_out, rn_completed := 1, rn_running := ?e1, rn_limits := [Fin 40, Fin 34] \<rparr>"
  have "\<not> retries demo_context (demo_attempts 2) 2 succeeded" by (simp add: retries_def succeeded_def attempt_failure_def)
  moreover have "\<exists>e. attempt_state_entry ?e1 succeeded 2 (Fin 100) None = Inr e \<and> jsize 4 (PDict e) \<le> 60000 \<and> json_finite (PDict e)"
    by (simp add: attempt_state_entry_def next_retry_def demo_stamps succeeded_def attempt_failure_def int_str_def demo_lengths)
  ultimately obtain e2 g2 where last: "record_attempt demo_context (demo_attempts 2) 2 succeeded ?st2
        = (?st2\<lparr> rn_file := Contents g2, rn_last := succeeded, rn_completed := 2, rn_running := e2 \<rparr>, Enough)"
    using demo_record[of ?st2 succeeded 2 2] g(1) by auto
  show ?thesis using g(2) last[unfolded numeral_2_eq_2] assms(3) by (simp add: numeral_3_eq_3 turn)
qed


definition demo_world :: run_world where
  "demo_world = \<lparr> rw_decode = demo_parser, rw_lock = Acquired, rw_run_id = ''run'', rw_pid = 7, rw_started = Fin 100, rw_started_mono = Fin 0,
     rw_first_write = NoFault, rw_attempts = (\<lambda>_. demo_attempts 2), rw_finished = Fin 100, rw_last_write = NoFault, rw_signal = 0 \<rparr>"

definition demo_entry :: "string \<Rightarrow> obj" where
  "demo_entry digest = [(''state'', PStr ''running''), (''run_id'', PStr ''run''), (''pid'', PInt 7),
     (''last_started_at'', PStr ''1970-01-01T00:01:40Z''), (''last_started_at_unix'', PFloat (Fin 100)), (''deadline_seconds'', PFloat (Fin 90)),
     (''max_attempts'', PInt 3), (''source_revision'', PStr (ra_source_revision demo_args)),
     (''service_unit'', PStr ''market-sentinel-wallets-poll.service''), (''unit_contract_sha256'', PStr (ra_unit_contract demo_args)),
     (''invocation_sha256'', PStr digest), (''attempts_completed'', PInt 0), (''consecutive_failures'', PInt 0), (''abandoned_runs'', PInt 0)]"

lemma demo_codes: "length (ra_source_revision demo_args) = 40" "length (ra_unit_contract demo_args) = 64"
  by (simp_all add: demo_args_def)

text \<open>The entry after the attempt and at the end; only the digest is not computed.\<close>

lemma demo_later:
  assumes "length digest = 64"
  shows "\<exists>e. attempt_state_entry (demo_entry digest) succeeded 1 (Fin 100) None = Inr e \<and> jsize 4 (PDict e) \<le> 60000 \<and> json_finite (PDict e)
    \<and> (\<exists>t. terminal_state_entry e succeeded 1 (Fin 100) (Fin 100) = Inr t \<and> jsize 4 (PDict t) \<le> 60000 \<and> json_finite (PDict t))"
proof -
  have zero: "round_even 0 = 0" using round_even_of_int[of 0] by simp
  show ?thesis
    using assms
    by (simp add: attempt_state_entry_def next_retry_def demo_stamps succeeded_def attempt_failure_def demo_entry_def terminal_state_entry_def
      counter_def integer_or_def final_state_def fsub_def fmax_def zero demo_codes int_str_def demo_lengths)
qed

lemma demo_run: "\<exists>g. run_body demo_args demo_world Missing = (Contents g, Inr 0)"
proof -
  define digest where "digest = worker_invocation_sha256 (identity_of demo_args demo_world)"
  have digest: "length digest = 64"
    using sha256_digest by (simp add: digest_def worker_invocation_sha256_def is_digest_def)
  have w: "rw_decode demo_world = demo_parser" "rw_started demo_world = Fin 100" "rw_finished demo_world = Fin 100"
    "rw_first_write demo_world = NoFault" "rw_last_write demo_world = NoFault" "ra_task demo_args = TASK_WALLETS"
    "rw_attempts demo_world n = demo_attempts 2" for n
    by (simp_all add: demo_world_def demo_args_def)
  have running: "initial_running_entry (identity_of demo_args demo_world) (Fin 100) [] = Inr (demo_entry digest)"
    by (simp add: initial_running_entry_def demo_entry_def digest_def demo_stamps counter_def integer_or_def abandoned_def kept_entries_def
      kept_fields_def List.map_filter_simps) (simp add: identity_of_def demo_args_def demo_world_def)
  have "jsize 4 (PDict (demo_entry digest)) \<le> 60000" "json_finite (PDict (demo_entry digest))"
    using digest by (simp_all add: demo_entry_def demo_codes int_str_def demo_lengths)
  then obtain g1 where "update_task_state demo_parser (ra_state_file demo_args) NoFault TASK_WALLETS (demo_entry digest) (Fin 100) Missing
      = (Contents g1, Inr ())" and g1: "length g1 \<le> MAX_STATE_BYTES"
    using demo_write by blast
  then have start: "run_start demo_args demo_world Missing = (Contents g1, Inr (demo_entry digest))"
    using running by (simp add: run_start_def w read_worker_state_def regular_file_bytes_def empty_worker_state_def)
  let ?st = "\<lparr> rn_file = Contents g1, rn_running = demo_entry digest, rn_last = attempt_failure TASK_WALLETS ''not_started'' True EXIT_TEMPFAIL,
    rn_completed = 0, rn_limits = [] \<rparr>"
  let ?st1 = "?st\<lparr> rn_limits := [Fin 34] \<rparr>"
  obtain e t where e: "attempt_state_entry (demo_entry digest) succeeded 1 (Fin 100) None = Inr e" "jsize 4 (PDict e) \<le> 60000" "json_finite (PDict e)"
      "terminal_state_entry e succeeded 1 (Fin 100) (Fin 100) = Inr t" "jsize 4 (PDict t) \<le> 60000" "json_finite (PDict t)"
    using demo_later[OF digest] by blast
  have no: "\<not> retries demo_context (demo_attempts 2) 1 succeeded" by (simp add: retries_def succeeded_def attempt_failure_def)
  then obtain g2 where g2: "length g2 \<le> MAX_STATE_BYTES" "record_attempt demo_context (demo_attempts 2) 1 succeeded ?st1
      = (?st1\<lparr> rn_file := Contents g2, rn_last := succeeded, rn_completed := 1, rn_running := e \<rparr>, Enough)"
    using demo_record[of ?st1 succeeded 1 2 e] e(1-3) g1 by auto
  let ?over = "?st1\<lparr> rn_file := Contents g2, rn_last := succeeded, rn_completed := 1, rn_running := e \<rparr>"
  have turn: "attempt_turn demo_context (demo_attempts 2) 1 ?st = record_attempt demo_context (demo_attempts 2) 1 succeeded ?st1"
    using demo_child demo_limits
    by (simp add: attempt_turn_def Let_def demo_attempts_def demo_sums ATTEMPT_SHUTDOWN_BUDGET_SECONDS_def demo_context_def demo_args_def)
  have same: "\<lparr> rc_args = demo_args, rc_decode = rw_decode demo_world, rc_deadline = fadd (rw_started_mono demo_world) (ra_deadline_seconds demo_args),
      rc_signal = rw_signal demo_world \<rparr> = demo_context"
    by (simp add: demo_context_def demo_world_def demo_args_def to_float_numeral)
  have "nat (ra_max_attempts demo_args) = Suc 2" by (simp add: demo_args_def)
  then have loop: "attempts demo_context (rw_attempts demo_world) (nat (ra_max_attempts demo_args)) 1 ?st = (?over, None)"
    unfolding attempts.simps w turn g2(2) \<open>nat _ = _\<close> by simp
  obtain g3 where "update_task_state demo_parser (ra_state_file demo_args) NoFault TASK_WALLETS t (Fin 100) (Contents g2) = (Contents g3, Inr ())"
    using demo_write[OF _ e(5,6), of "Contents g2"] g2(1) by blast
  then have "run_end demo_args demo_world ?over = (Contents g3, Inr 0)"
    using e(4) by (simp add: run_end_def w succeeded_def attempt_failure_def EXIT_OK_def)
  then show ?thesis
    unfolding run_body_def start prod.case sum.case same w(6) loop option.case by blast
qed


theorem status_reports_the_last_run_witness:
  "\<exists>f' decode. run_body demo_args demo_world Missing = (f', Inr 0)
    \<and> (\<exists>s. f' = Contents (state_text s) \<and> decode (state_text s) = Inr (json_norm (PDict s))
        \<and> ((\<exists>rows. run_status decode (ra_state_file demo_args) [TASK_WALLETS] (Fin 160) (Fin 60) f' = Inr (rows, EXIT_OK))
           \<longleftrightarrow> oget (the_dict (oget (the_dict (oget s ''tasks'')) TASK_WALLETS)) ''last_outcome'' = PStr ''succeeded''))"
proof -
  obtain g where g: "run_body demo_args demo_world Missing = (Contents g, Inr 0)" using demo_run by blast
  have t: "ra_task demo_args = TASK_WALLETS" "ra_task demo_args \<in> set TASKS" "rw_finished demo_world = Fin 100"
    by (simp_all add: demo_args_def demo_world_def TASKS_def)
  have n: "flt (Fin 0) (rw_finished demo_world)" "fle (rw_finished demo_world) (fadd (Fin 160) FUTURE_CLOCK_TOLERANCE_SECONDS)"
    "fle (fmax (Fin 0) (fsub (Fin 160) (rw_finished demo_world))) (Fin 60)"
    by (simp_all add: t(3) FUTURE_CLOCK_TOLERANCE_SECONDS_def fsub_def fmax_def to_float_numeral)
  obtain s entry where s: "Contents g = Contents (state_text s)" "oget (the_dict (oget s ''tasks'')) TASK_WALLETS = PDict entry"
    and report: "\<And>decode. decode (state_text s) = Inr (json_norm (PDict s)) \<Longrightarrow>
      (\<exists>rows. run_status decode (ra_state_file demo_args) [TASK_WALLETS] (Fin 160) (Fin 60) (Contents g) = Inr (rows, EXIT_OK))
        \<longleftrightarrow> oget entry ''last_outcome'' = PStr ''succeeded''"
    using status_reports_the_last_run[OF g t(2) n] unfolding t(1) by blast
  show ?thesis
    using g s report[of "\<lambda>_. Inr (json_norm (PDict s))"]
    by (intro exI[of _ "Contents g"] exI[of _ "\<lambda>_. Inr (json_norm (PDict s))"]) auto
qed

text \<open>An alert attempt that cannot take the lock of the configuration publishes nothing.\<close>

definition demo_task_world :: task_world where
  "demo_task_world = \<lparr> tw_decode = demo_parser, tw_fresh = (\<lambda>k i. ([], 0)), tw_path = ''config'',
     tw_faults = \<lparr> sf_no_lock = True, sf_not_replaced = None, sf_not_synced = None \<rparr>, tw_registry = (\<lambda>m s. value_error ''offline''),
     tw_alert_fresh = (\<lambda>i k. ([], 0)), tw_copy_registry = (\<lambda>m s. value_error ''offline''),
     tw_feeds = \<lparr> pf_recent = None, pf_cursors = (\<lambda>i l c. value_error ''offline''), pf_expired = (\<lambda>i n. False), pf_now = (\<lambda>i. 0), pf_control = (\<lambda>c. Inr ()) \<rparr>,
     tw_clock = (\<lambda>n. Fin 0) \<rparr>"

theorem attempt_publishes_a_whole_refresh_witness:
  "\<exists>r. execute_task_once demo_task_world TASK_ALERTS 25 Missing = (Missing, r) \<and> ar_outcome r \<notin> {''succeeded'', ''partial_feed_failure''}"
proof -
  obtain f' r where run: "execute_task_once demo_task_world TASK_ALERTS 25 Missing = (f', r)" by fastforce
  have "refresh_all_alert_prices fresh default_app_config registry [] = Inr \<lparr> rs_config = default_app_config, rs_prices = [],
      rs_refreshed = [], rs_problems = [], rs_seen = [] \<rparr>" for fresh registry
    by (simp add: refresh_all_alert_prices_def default_app_config_def)
  then have "f' = Missing"
    using run by (auto simp: execute_task_once_def load_config_def read_config_bytes_def alerts_attempt_def save_config_def demo_task_world_def
      split: sum.splits)
  then show ?thesis using attempt_publishes_a_whole_refresh[OF run] run by auto
qed

end
