(* ===== verification/Web_Admission.thy ===== *)
theory Web_Admission
  imports PyVal
begin

text \<open>
  Admission control of the HTTP server in \<open>web_api.py\<close>: the limiter of invalid API tokens, the request
  metrics, and the slots that bound workers and mutations until the server drains. The parts of an
  admission that other threads can interleave with are separate functions; the last section runs them
  for any number of threads. Clocks are arguments.
\<close>

section \<open>Invalid tokens\<close>

definition AUTH_FAILURE_MAX_ATTEMPTS :: nat where "AUTH_FAILURE_MAX_ATTEMPTS = 10"
definition AUTH_FAILURE_WINDOW_SECONDS :: pyfloat where "AUTH_FAILURE_WINDOW_SECONDS = Fin 60"
definition MAX_TRACKED_AUTH_FAILURE_CLIENTS :: nat where "MAX_TRACKED_AUTH_FAILURE_CLIENTS = 1024"

record auth_limiter =
  al_max_attempts :: nat
  al_window :: pyfloat
  al_max_clients :: nat
  al_attempts :: "(string, pyfloat list) dict"

definition auth_limiter_init :: "nat \<Rightarrow> pyfloat \<Rightarrow> nat \<Rightarrow> auth_limiter" where
  "auth_limiter_init max_attempts window max_clients = \<lparr> al_max_attempts = max 1 max_attempts, al_window = fmax (Fin 1) window,
     al_max_clients = max 1 max_clients, al_attempts = [] \<rparr>"

definition client_key :: "string \<Rightarrow> string" where
  "client_key client_id = take 256 (if client_id = [] then ''unknown'' else client_id)"

definition recent_at :: "auth_limiter \<Rightarrow> pyfloat \<Rightarrow> pyfloat \<Rightarrow> bool" where
  "recent_at l now t \<longleftrightarrow> flt (fsub now t) (al_window l)"

definition recent_attempts :: "auth_limiter \<Rightarrow> pyfloat \<Rightarrow> string \<Rightarrow> pyfloat list" where
  "recent_attempts l now key = filter (recent_at l now) (dget_or (al_attempts l) key [])"

text \<open>\<open>min(self._attempts, key=...)\<close>: the first client whose last attempt is the oldest.\<close>

definition last_attempt :: "pyfloat \<Rightarrow> pyfloat list \<Rightarrow> pyfloat" where
  "last_attempt now ts = (if ts = [] then now else last ts)"

fun oldest_from :: "pyfloat \<Rightarrow> string \<times> pyfloat list \<Rightarrow> (string, pyfloat list) dict \<Rightarrow> string" where
  "oldest_from now best [] = fst best"
| "oldest_from now best (c # cs) =
     oldest_from now (if flt (last_attempt now (snd c)) (last_attempt now (snd best)) then c else best) cs"

definition make_room :: "auth_limiter \<Rightarrow> pyfloat \<Rightarrow> string \<Rightarrow> (string, pyfloat list) dict" where
  "make_room l now key = (case al_attempts l of
       [] \<Rightarrow> []
     | c # cs \<Rightarrow> if \<not> has_key (al_attempts l) key \<and> al_max_clients l \<le> length (al_attempts l)
         then dpop (oldest_from now c cs) (al_attempts l) else al_attempts l)"

definition retry_delay :: "auth_limiter \<Rightarrow> pyfloat \<Rightarrow> pyfloat \<Rightarrow> int res" where
  "retry_delay l now first =
     rbind (int_of_float (fadd (fsub (al_window l) (fsub now first)) (flit (999 / 1000)))) (\<lambda>n. Inr (max 1 n))"

definition record_failure :: "pyfloat \<Rightarrow> string \<Rightarrow> auth_limiter \<Rightarrow> auth_limiter \<times> int option res" where
  "record_failure now client_id l =
     (let key = client_key client_id; recent = recent_attempts l now key in
      if al_max_attempts l \<le> length recent
      then (l\<lparr> al_attempts := dset key recent (al_attempts l) \<rparr>, rbind (retry_delay l now (hd recent)) (\<lambda>n. Inr (Some n)))
      else (l\<lparr> al_attempts := dset key (recent @ [now]) (make_room l now key) \<rparr>, Inr None))"

section \<open>Metrics\<close>

record http_metrics =
  hm_max_http_workers :: int
  hm_max_mutation_workers :: int
  hm_reserved_read_workers :: int
  hm_started_at :: pyfloat
  hm_requests :: "(string \<times> int, int) dict"
  hm_duration_seconds_total :: pyfloat
  hm_requests_in_flight :: int
  hm_overload_rejections :: int
  hm_response_too_large :: int
  hm_mutations_in_flight :: int
  hm_mutations_active :: int
  hm_mutation_admission_rejections :: int
  hm_mutation_lock_timeouts :: int

definition http_metrics_init :: "pyfloat \<Rightarrow> int \<Rightarrow> int \<Rightarrow> int \<Rightarrow> http_metrics" where
  "http_metrics_init now workers mutations reserved = \<lparr> hm_max_http_workers = max 1 workers, hm_max_mutation_workers = max 1 mutations,
     hm_reserved_read_workers = max 0 reserved, hm_started_at = now, hm_requests = [], hm_duration_seconds_total = Fin 0,
     hm_requests_in_flight = 0, hm_overload_rejections = 0, hm_response_too_large = 0, hm_mutations_in_flight = 0, hm_mutations_active = 0,
     hm_mutation_admission_rejections = 0, hm_mutation_lock_timeouts = 0 \<rparr>"

definition request_started :: "http_metrics \<Rightarrow> http_metrics" where
  "request_started m = m\<lparr> hm_requests_in_flight := hm_requests_in_flight m + 1 \<rparr>"

definition request_finished :: "http_metrics \<Rightarrow> http_metrics" where
  "request_finished m = m\<lparr> hm_requests_in_flight := max 0 (hm_requests_in_flight m - 1) \<rparr>"

definition record_overload_rejection :: "http_metrics \<Rightarrow> http_metrics" where
  "record_overload_rejection m = m\<lparr> hm_overload_rejections := hm_overload_rejections m + 1 \<rparr>"

definition record_response_too_large :: "http_metrics \<Rightarrow> http_metrics" where
  "record_response_too_large m = m\<lparr> hm_response_too_large := hm_response_too_large m + 1 \<rparr>"

definition mutation_admitted :: "http_metrics \<Rightarrow> http_metrics" where
  "mutation_admitted m = m\<lparr> hm_mutations_in_flight := hm_mutations_in_flight m + 1 \<rparr>"

definition mutation_finished :: "http_metrics \<Rightarrow> http_metrics" where
  "mutation_finished m = m\<lparr> hm_mutations_in_flight := max 0 (hm_mutations_in_flight m - 1) \<rparr>"

definition mutation_started :: "http_metrics \<Rightarrow> http_metrics" where
  "mutation_started m = m\<lparr> hm_mutations_active := hm_mutations_active m + 1 \<rparr>"

definition mutation_stopped :: "http_metrics \<Rightarrow> http_metrics" where
  "mutation_stopped m = m\<lparr> hm_mutations_active := max 0 (hm_mutations_active m - 1) \<rparr>"

definition record_mutation_admission_rejection :: "http_metrics \<Rightarrow> http_metrics" where
  "record_mutation_admission_rejection m = m\<lparr> hm_mutation_admission_rejections := hm_mutation_admission_rejections m + 1 \<rparr>"

definition record_mutation_lock_timeout :: "http_metrics \<Rightarrow> http_metrics" where
  "record_mutation_lock_timeout m = m\<lparr> hm_mutation_lock_timeouts := hm_mutation_lock_timeouts m + 1 \<rparr>"

definition METHODS :: "string list" where
  "METHODS = [''GET'', ''POST'', ''PATCH'', ''DELETE'', ''OPTIONS'']"

definition request_label :: "string \<Rightarrow> int \<Rightarrow> string \<times> int" where
  "request_label method status =
     (let m = upper (if method = [] then ''OTHER'' else method) in
      (if m \<in> set METHODS then m else ''OTHER'', if 100 \<le> status \<and> status \<le> 599 then status else 500))"

definition record_request :: "string \<Rightarrow> int \<Rightarrow> pyfloat \<Rightarrow> http_metrics \<Rightarrow> http_metrics" where
  "record_request method status duration m =
     (let key = request_label method status in
      m\<lparr> hm_requests := dset key (dget_or (hm_requests m) key 0 + 1) (hm_requests m),
         hm_duration_seconds_total := fadd (hm_duration_seconds_total m) (fmax (Fin 0) duration) \<rparr>)"

definition metrics_snapshot :: "http_metrics \<Rightarrow> obj" where
  "metrics_snapshot m = [(''started_at'', PFloat (hm_started_at m)), (''requests_in_flight'', PInt (hm_requests_in_flight m)),
     (''overload_rejections_total'', PInt (hm_overload_rejections m)), (''response_too_large_total'', PInt (hm_response_too_large m)),
     (''mutations_in_flight'', PInt (hm_mutations_in_flight m)), (''mutations_active'', PInt (hm_mutations_active m)),
     (''mutation_admission_rejections_total'', PInt (hm_mutation_admission_rejections m)),
     (''mutation_lock_timeouts_total'', PInt (hm_mutation_lock_timeouts m)), (''max_http_workers'', PInt (hm_max_http_workers m)),
     (''max_mutation_workers'', PInt (hm_max_mutation_workers m)), (''reserved_read_workers'', PInt (hm_reserved_read_workers m))]"

section \<open>Slots\<close>

text \<open>The two semaphores with their free slots, the count of admitted mutations and the drain flag.\<close>

record admission =
  ad_workers :: nat
  ad_slots :: nat
  ad_admitted :: nat
  ad_draining :: bool
  ad_metrics :: http_metrics

definition admission_limits :: "nat \<Rightarrow> nat \<Rightarrow> unit res" where
  "admission_limits workers mutations =
     rbind (require (1 \<le> workers) (Exc ValueError ''max_http_workers must be at least 1.'')) (\<lambda>_.
     rbind (require (1 \<le> mutations) (Exc ValueError ''max_mutation_workers must be at least 1.'')) (\<lambda>_.
     rbind (require (\<not> (1 < workers \<and> workers \<le> mutations)) (Exc ValueError ''max_mutation_workers must reserve at least one HTTP worker for reads.'')) (\<lambda>_.
     require (\<not> (workers = 1 \<and> mutations \<noteq> 1))
       (Exc ValueError ''A one-worker server supports exactly one mutation worker and cannot reserve read capacity.''))))"

definition MAX_HTTP_WORKERS :: nat where "MAX_HTTP_WORKERS = 32"
definition MAX_HTTP_MUTATION_WORKERS :: nat where "MAX_HTTP_MUTATION_WORKERS = 8"
definition HTTP_RESERVED_READ_WORKERS :: nat where "HTTP_RESERVED_READ_WORKERS = 4"

definition default_mutation_limit :: "nat \<Rightarrow> nat" where
  "default_mutation_limit workers = max 1 (min MAX_HTTP_MUTATION_WORKERS (workers - min HTTP_RESERVED_READ_WORKERS (max 1 (workers div 4))))"

definition admission_init :: "pyfloat \<Rightarrow> nat \<Rightarrow> nat \<Rightarrow> admission" where
  "admission_init now workers mutations = \<lparr> ad_workers = workers, ad_slots = mutations, ad_admitted = 0, ad_draining = False,
     ad_metrics = http_metrics_init now (int workers) (int mutations) (max 0 (int workers - int mutations)) \<rparr>"

definition on_metrics :: "(http_metrics \<Rightarrow> http_metrics) \<Rightarrow> admission \<Rightarrow> admission" where
  "on_metrics f a = a\<lparr> ad_metrics := f (ad_metrics a) \<rparr>"

text \<open>\<open>process_request\<close> and \<open>process_request_thread\<close>: a connection gets a worker or is rejected.\<close>

definition take_worker :: "admission \<Rightarrow> admission option" where
  "take_worker a = (if ad_workers a = 0 then None else Some (on_metrics request_started (a\<lparr> ad_workers := ad_workers a - 1 \<rparr>)))"

definition reject_overloaded :: "admission \<Rightarrow> admission" where
  "reject_overloaded = on_metrics record_overload_rejection"

definition return_worker :: "admission \<Rightarrow> admission" where
  "return_worker a = (on_metrics request_finished a)\<lparr> ad_workers := ad_workers a + 1 \<rparr>"

text \<open>\<open>try_admit_mutation\<close> in its three steps: look at the drain flag, take a slot, and look again and
  count under the lock. \<open>None\<close> refuses.\<close>

definition take_slot :: "admission \<Rightarrow> admission option" where
  "take_slot a = (if ad_slots a = 0 then None else Some (a\<lparr> ad_slots := ad_slots a - 1 \<rparr>))"

definition reject_saturated :: "admission \<Rightarrow> admission" where
  "reject_saturated = on_metrics record_mutation_admission_rejection"

definition release_slot :: "admission \<Rightarrow> admission" where
  "release_slot a = a\<lparr> ad_slots := ad_slots a + 1 \<rparr>"

definition count_admission :: "admission \<Rightarrow> admission option" where
  "count_admission a = (if ad_draining a then None else Some (on_metrics mutation_admitted (a\<lparr> ad_admitted := ad_admitted a + 1 \<rparr>)))"

text \<open>\<open>finish_mutation_admission\<close>: the count first, then the slot.\<close>

definition uncount_admission :: "admission \<Rightarrow> admission" where
  "uncount_admission a = (on_metrics mutation_finished a)\<lparr> ad_admitted := ad_admitted a - 1 \<rparr>"

definition begin_drain :: "admission \<Rightarrow> admission \<times> bool" where
  "begin_drain a = (a\<lparr> ad_draining := True \<rparr>, \<not> ad_draining a)"

text \<open>The condition \<open>wait_for_mutation_drain\<close> returns true on.\<close>

definition mutations_drained :: "admission \<Rightarrow> bool" where
  "mutations_drained a \<longleftrightarrow> ad_admitted a = 0"

section \<open>Threads\<close>

text \<open>A worker thread serves a connection; for a mutation it passes the admission, waits for the mutation
  lock, executes, and leaves in two steps.\<close>

datatype request_phase = Unused | Serving | Checked | Slotted | Admitted | Executing | Leaving | Releasing

record server_threads =
  st_admission :: admission
  st_phases :: "request_phase list"

definition goes :: "nat \<Rightarrow> request_phase \<Rightarrow> admission \<Rightarrow> server_threads \<Rightarrow> server_threads" where
  "goes p ph a s = s\<lparr> st_admission := a, st_phases := (st_phases s)[p := ph] \<rparr>"

definition at_phase :: "server_threads \<Rightarrow> nat \<Rightarrow> request_phase \<Rightarrow> bool" where
  "at_phase s p ph \<longleftrightarrow> p < length (st_phases s) \<and> st_phases s ! p = ph"

inductive thread_step :: "server_threads \<Rightarrow> server_threads \<Rightarrow> bool" where
  accept: "at_phase s p Unused \<Longrightarrow> take_worker (st_admission s) = Some a \<Longrightarrow> thread_step s (goes p Serving a s)"
| overload: "take_worker (st_admission s) = None \<Longrightarrow> thread_step s (s\<lparr> st_admission := reject_overloaded (st_admission s) \<rparr>)"
| served: "at_phase s p Serving \<Longrightarrow> thread_step s (goes p Unused (return_worker (st_admission s)) s)"
| check: "at_phase s p Serving \<Longrightarrow> \<not> ad_draining (st_admission s) \<Longrightarrow> thread_step s (goes p Checked (st_admission s) s)"
| slot: "at_phase s p Checked \<Longrightarrow> take_slot (st_admission s) = Some a \<Longrightarrow> thread_step s (goes p Slotted a s)"
| saturated: "at_phase s p Checked \<Longrightarrow> take_slot (st_admission s) = None
     \<Longrightarrow> thread_step s (goes p Serving (reject_saturated (st_admission s)) s)"
| admit: "at_phase s p Slotted \<Longrightarrow> count_admission (st_admission s) = Some a \<Longrightarrow> thread_step s (goes p Admitted a s)"
| too_late: "at_phase s p Slotted \<Longrightarrow> count_admission (st_admission s) = None
     \<Longrightarrow> thread_step s (goes p Serving (release_slot (st_admission s)) s)"
| execute: "at_phase s p Admitted \<Longrightarrow> \<forall>q < length (st_phases s). st_phases s ! q \<noteq> Executing
     \<Longrightarrow> thread_step s (goes p Executing (on_metrics mutation_started (st_admission s)) s)"
| executed: "at_phase s p Executing \<Longrightarrow> thread_step s (goes p Leaving (on_metrics mutation_stopped (st_admission s)) s)"
| lock_timeout: "at_phase s p Admitted \<Longrightarrow> thread_step s (goes p Leaving (on_metrics record_mutation_lock_timeout (st_admission s)) s)"
| refused: "at_phase s p Admitted \<Longrightarrow> thread_step s (goes p Leaving (st_admission s) s)"
| leave: "at_phase s p Leaving \<Longrightarrow> thread_step s (goes p Releasing (uncount_admission (st_admission s)) s)"
| released: "at_phase s p Releasing \<Longrightarrow> thread_step s (goes p Serving (release_slot (st_admission s)) s)"
| drain: "thread_step s (s\<lparr> st_admission := fst (begin_drain (st_admission s)) \<rparr>)"

inductive thread_reach :: "nat \<Rightarrow> nat \<Rightarrow> server_threads \<Rightarrow> bool" for workers mutations where
  start: "thread_reach workers mutations \<lparr> st_admission = admission_init now workers mutations, st_phases = replicate n Unused \<rparr>"
| step: "thread_reach workers mutations s \<Longrightarrow> thread_step s t \<Longrightarrow> thread_reach workers mutations t"

inductive thread_run :: "server_threads \<Rightarrow> server_threads \<Rightarrow> bool" where
  here: "thread_run s s"
| further: "thread_step s t \<Longrightarrow> thread_run t u \<Longrightarrow> thread_run s u"

inductive_cases thread_stepE: "thread_step s t"

end
