(* ===== verification/Web_Admission_Laws.thy ===== *)
theory Web_Admission_Laws
  imports Web_Admission Interleaving
begin

text \<open>The limiter stays within its memory and its rate; slots are conserved and a drained server is quiet.\<close>

section \<open>The limiter\<close>

definition limiter_ok :: "auth_limiter \<Rightarrow> bool" where
  "limiter_ok l \<longleftrightarrow> 1 \<le> al_max_attempts l \<and> 1 \<le> al_max_clients l \<and> dict_ok (al_attempts l)
     \<and> length (al_attempts l) \<le> al_max_clients l
     \<and> list_all (\<lambda>(k, ts). length k \<le> 256 \<and> length ts \<le> al_max_attempts l) (al_attempts l)"

lemma oldest_from_mem: "oldest_from now best cs \<in> fst ` set (best # cs)"
  by (induction now best cs rule: oldest_from.induct) (auto split: if_splits)

lemma length_dpop_key: "dict_ok d \<Longrightarrow> k \<in> fst ` set d \<Longrightarrow> Suc (length (dpop k d)) = length d"
  by (induction d) (auto simp: dict_ok_def)

lemma make_room_ok:
  assumes "limiter_ok l"
  shows "dict_ok (make_room l now key)" "list_all (\<lambda>(k, ts). length k \<le> 256 \<and> length ts \<le> al_max_attempts l) (make_room l now key)"
    and "\<not> has_key (al_attempts l) key \<Longrightarrow> length (make_room l now key) < al_max_clients l"
    and "has_key (al_attempts l) key \<Longrightarrow> make_room l now key = al_attempts l"
proof -
  have set: "set (make_room l now key) \<subseteq> set (al_attempts l)"
    by (auto simp: make_room_def AList.delete_eq split: list.splits if_splits)
  show "list_all (\<lambda>(k, ts). length k \<le> 256 \<and> length ts \<le> al_max_attempts l) (make_room l now key)"
    using assms set by (auto simp: limiter_ok_def list_all_iff)
  have "make_room l now key = [] \<or> make_room l now key = al_attempts l \<or> (\<exists>k. make_room l now key = dpop k (al_attempts l))"
    unfolding make_room_def by (simp split: list.split) blast
  then show "dict_ok (make_room l now key)" using assms by (auto simp: limiter_ok_def)
  show "has_key (al_attempts l) key \<Longrightarrow> make_room l now key = al_attempts l"
    by (auto simp: make_room_def split: list.splits)
  assume new: "\<not> has_key (al_attempts l) key"
  show "length (make_room l now key) < al_max_clients l"
  proof (cases "al_attempts l")
    case Nil
    then show ?thesis using assms by (simp add: make_room_def limiter_ok_def)
  next
    case (Cons c cs)
    then have "Suc (length (dpop (oldest_from now c cs) (al_attempts l))) = length (al_attempts l)"
      using assms oldest_from_mem[of now c cs] by (intro length_dpop_key) (auto simp: limiter_ok_def)
    then show ?thesis using assms new Cons by (auto simp: make_room_def limiter_ok_def)
  qed
qed

lemma list_all_dset_pair: "list_all P d \<Longrightarrow> P (k, v) \<Longrightarrow> list_all P (dset k v d)"
  by (induction d) auto

lemma recent_attempts_le: "limiter_ok l \<Longrightarrow> length (recent_attempts l now key) \<le> al_max_attempts l"
  by (auto simp: recent_attempts_def dget_or_def limiter_ok_def list_all_iff split: option.splits
      intro: le_trans[OF length_filter_le] dest!: map_of_SomeD)

lemma record_failure_ok:
  assumes "limiter_ok l" "record_failure now client l = (l', r)"
  shows "limiter_ok l'"
proof -
  let ?key = "client_key client" and ?recent = "recent_attempts l now (client_key client)"
  have key: "length ?key \<le> 256" by (simp add: client_key_def)
  show ?thesis
  proof (cases "al_max_attempts l \<le> length ?recent")
    case True
    then have "al_attempts l' = dset ?key ?recent (al_attempts l)" "has_key (al_attempts l) ?key"
      "al_max_attempts l' = al_max_attempts l" "al_max_clients l' = al_max_clients l"
      using assms by (auto simp: record_failure_def Let_def limiter_ok_def recent_attempts_def dget_or_def has_key_def split: option.splits)
    then show ?thesis using assms key recent_attempts_le[OF assms(1)]
      by (auto simp: limiter_ok_def has_key_iff length_dset intro!: list_all_dset_pair)
  next
    case False
    then have l': "al_attempts l' = dset ?key (?recent @ [now]) (make_room l now ?key)"
      "al_max_attempts l' = al_max_attempts l" "al_max_clients l' = al_max_clients l"
      using assms by (auto simp: record_failure_def Let_def)
    have "length (dset ?key (?recent @ [now]) (make_room l now ?key)) \<le> al_max_clients l"
    proof (cases "has_key (al_attempts l) ?key")
      case True
      then show ?thesis using make_room_ok(4)[OF assms(1) True, of now] assms(1) by (simp add: length_dset limiter_ok_def)
    next
      case False
      then show ?thesis using make_room_ok(3)[OF assms(1) False, of now] by (simp add: length_dset)
    qed
    then show ?thesis using l' assms(1) False key make_room_ok(1,2)[OF assms(1)]
      by (auto simp: limiter_ok_def intro!: list_all_dset_pair)
  qed
qed

text \<open>A run of failures, with the answers.\<close>

fun failures :: "(pyfloat \<times> string) list \<Rightarrow> auth_limiter \<Rightarrow> auth_limiter \<times> bool list" where
  "failures [] l = (l, [])"
| "failures ((now, client) # fs) l =
     (case record_failure now client l of (l', r) \<Rightarrow> (case failures fs l' of (l'', rs) \<Rightarrow> (l'', (r = Inr None) # rs)))"

text \<open>The failures of a client that were answered and not blocked.\<close>

definition admitted_times :: "string \<Rightarrow> (pyfloat \<times> string) list \<Rightarrow> bool list \<Rightarrow> pyfloat list" where
  "admitted_times key fs rs = map (fst \<circ> fst) (filter (\<lambda>((t, client), admitted). admitted \<and> client_key client = key) (zip fs rs))"

lemma failures_append:
  "failures (fs @ gs) l = (case failures fs l of (l', rs) \<Rightarrow> (case failures gs l' of (l'', rs') \<Rightarrow> (l'', rs @ rs')))"
  by (induction fs l rule: failures.induct) (auto split: prod.splits)

lemma failures_length: "failures fs l = (l', rs) \<Longrightarrow> length rs = length fs"
  by (induction fs l arbitrary: l' rs rule: failures.induct) (auto split: prod.splits)

lemma record_failure_fixed:
  "record_failure now client l = (l', r) \<Longrightarrow> al_window l' = al_window l \<and> al_max_attempts l' = al_max_attempts l \<and> al_max_clients l' = al_max_clients l"
  by (auto simp: record_failure_def Let_def split: if_splits)

lemma failures_ok: "failures fs l = (l', rs) \<Longrightarrow> limiter_ok l \<Longrightarrow> limiter_ok l' \<and> al_window l' = al_window l
    \<and> al_max_attempts l' = al_max_attempts l \<and> al_max_clients l' = al_max_clients l"
proof (induction fs l arbitrary: l' rs rule: failures.induct)
  case (2 now client fs l)
  obtain l1 r where r: "record_failure now client l = (l1, r)" by fastforce
  obtain l2 rs2 where rest: "failures fs l1 = (l2, rs2)" by fastforce
  have "limiter_ok l2 \<and> al_window l2 = al_window l1 \<and> al_max_attempts l2 = al_max_attempts l1 \<and> al_max_clients l2 = al_max_clients l1"
    using 2(1)[OF r[symmetric] rest] record_failure_ok[OF 2(3) r] by simp
  then show ?case using 2(2) r rest record_failure_fixed[OF r] by simp
qed simp

lemma limiter_init_ok: "limiter_ok (auth_limiter_init m w c)"
  by (simp add: limiter_ok_def auth_limiter_init_def)

text \<open>Time only takes attempts out of the window.\<close>

lemma fle_flt_trans: "fle a b \<Longrightarrow> flt b c \<Longrightarrow> flt a c"
  by (cases a; cases b; cases c) (auto simp: fle_def)

lemma recent_earlier:
  assumes "recent_at l now' x" "fle now now'" "isfinite now" "isfinite now'"
  shows "recent_at l now x"
proof -
  obtain a b where ab: "now = Fin a" "now' = Fin b" "a \<le> b" using assms(2-4) by (cases now; cases now') auto
  show ?thesis
  proof (cases x)
    case (Fin q)
    have "fle (to_float (a - q)) (to_float (b - q))" by (rule to_float_mono) (use ab(3) in simp)
    then show ?thesis using assms(1) ab Fin fle_flt_trans by (auto simp: recent_at_def fsub_def)
  qed (use assms(1) ab in \<open>auto simp: recent_at_def fsub_def\<close>)
qed

lemma filter_recent_earlier:
  "fle now now' \<Longrightarrow> isfinite now \<Longrightarrow> isfinite now' \<Longrightarrow> filter (recent_at l now') (filter (recent_at l now) xs) = filter (recent_at l now') xs"
  using recent_earlier[of l now'] by (auto intro!: filter_cong)

text \<open>While no client has to be evicted, the kept attempts of a client are its admitted failures, as far as any
  later instant can see them.\<close>

definition tracks :: "auth_limiter \<Rightarrow> (pyfloat \<times> string) list \<Rightarrow> bool list \<Rightarrow> bool" where
  "tracks l fs rs \<longleftrightarrow> set (keys (al_attempts l)) \<subseteq> client_key ` snd ` set fs
     \<and> (\<forall>key now. isfinite now \<longrightarrow> (\<forall>t \<in> fst ` set fs. fle t now) \<longrightarrow>
          filter (recent_at l now) (dget_or (al_attempts l) key []) = filter (recent_at l now) (admitted_times key fs rs))"

lemma admitted_times_snoc:
  "length rs = length fs \<Longrightarrow> admitted_times key (fs @ [(t, c)]) (rs @ [a])
     = admitted_times key fs rs @ (if a \<and> client_key c = key then [t] else [])"
  by (simp add: admitted_times_def)

lemma no_eviction:
  assumes "limiter_ok l" "set (keys (al_attempts l)) \<subseteq> K" "key \<in> K" "finite K" "card K \<le> al_max_clients l"
  shows "make_room l now key = al_attempts l"
proof (cases "has_key (al_attempts l) key")
  case False
  have "length (al_attempts l) = card (set (keys (al_attempts l)))"
    using assms(1) distinct_card[of "keys (al_attempts l)"] by (simp add: limiter_ok_def dict_ok_def del: set_map)
  also have "\<dots> \<le> card (K - {key})" using assms(2,4) False by (intro card_mono) (auto simp: has_key_iff)
  also have "\<dots> < card K" using assms(3,4) by (intro psubset_card_mono) auto
  finally show ?thesis using assms(5) by (auto simp: make_room_def split: list.splits)
qed (use make_room_ok(4)[OF assms(1)] in simp)

lemma tracks_step:
  assumes tr: "tracks l fs rs" and ok: "limiter_ok l" and len: "length rs = length fs"
    and fin: "isfinite now" and late: "\<forall>t \<in> fst ` set fs. fle t now"
    and room: "make_room l now (client_key c) = al_attempts l"
    and r: "record_failure now c l = (l', r)"
  shows "tracks l' (fs @ [(now, c)]) (rs @ [r = Inr None])"
proof -
  let ?key = "client_key c" and ?recent = "recent_attempts l now (client_key c)" and ?a = "r = Inr None"
  have l': "al_attempts l' = dset ?key (?recent @ (if ?a then [now] else [])) (al_attempts l)" and w: "recent_at l' = recent_at l"
    using r room by (auto simp: record_failure_def Let_def recent_at_def fun_eq_iff rbind_eq_Inr split: if_splits)
  have "filter (recent_at l t) (dget_or (al_attempts l') key []) = filter (recent_at l t) (admitted_times key (fs @ [(now, c)]) (rs @ [?a]))"
    if t: "isfinite t" "\<forall>u \<in> fst ` set (fs @ [(now, c)]). fle u t" for key t
  proof -
    have old: "filter (recent_at l t) (dget_or (al_attempts l) key []) = filter (recent_at l t) (admitted_times key fs rs)"
      using tr t by (simp add: tracks_def)
    have "filter (recent_at l t) ?recent = filter (recent_at l t) (dget_or (al_attempts l) ?key [])"
      unfolding recent_attempts_def using t fin by (intro filter_recent_earlier) simp_all
    then show ?thesis using old by (cases "key = ?key") (simp_all add: l' admitted_times_snoc[OF len] dget_or_def)
  qed
  moreover have "set (keys (al_attempts l')) \<subseteq> client_key ` snd ` set (fs @ [(now, c)])"
    using tr unfolding l' keys_dset by (auto simp: tracks_def simp del: set_map)
  ultimately show ?thesis unfolding tracks_def w by blast
qed

lemma failures_track:
  assumes "failures fs l0 = (l, rs)" "limiter_ok l0" "al_attempts l0 = []"
    and "\<forall>t \<in> fst ` set fs. isfinite t" "sorted_wrt fle (map fst fs)" "finite K" "client_key ` snd ` set fs \<subseteq> K" "card K \<le> al_max_clients l0"
  shows "tracks l fs rs"
  using assms(1,4,5,7)
proof (induction fs arbitrary: l rs rule: rev_induct)
  case Nil
  then show ?case using assms(3) by (simp add: tracks_def admitted_times_def dget_or_def)
next
  case (snoc f fs)
  obtain now c where f: "f = (now, c)" by fastforce
  obtain l1 rs1 where rest: "failures fs l0 = (l1, rs1)" by fastforce
  obtain l2 r where step: "record_failure now c l1 = (l2, r)" by fastforce
  have l: "l = l2" "rs = rs1 @ [r = Inr None]" using snoc(2) rest step by (simp_all add: failures_append f)
  have tr: "tracks l1 fs rs1" using snoc rest by (simp add: sorted_wrt_append)
  note ok = failures_ok[OF rest assms(2)]
  have "make_room l1 now (client_key c) = al_attempts l1"
  proof (rule no_eviction[where K = K])
    have "client_key ` snd ` set fs \<subseteq> K" using snoc(5) by auto
    then show "set (keys (al_attempts l1)) \<subseteq> K" using tr unfolding tracks_def by (metis subset_trans)
    show "client_key c \<in> K" using snoc(5) by (auto simp: f)
  qed (use ok assms(6,8) in simp_all)
  moreover have "isfinite now" "\<forall>t \<in> fst ` set fs. fle t now" using snoc(3,4) by (auto simp: f sorted_wrt_append)
  ultimately show ?case unfolding l f
    using tr ok failures_length[OF rest] step by (intro tracks_step) auto
qed

lemma admits_iff: "snd (record_failure now client l) = Inr None \<longleftrightarrow> length (recent_attempts l now (client_key client)) < al_max_attempts l"
  by (auto simp: record_failure_def Let_def rbind_eq_Inr)

lemma sliding_window:
  assumes run: "failures fs l0 = (l, rs)" and l0: "limiter_ok l0" "al_attempts l0 = []"
    and fin: "\<forall>t \<in> fst ` set fs. isfinite t" "isfinite now" and sorted: "sorted_wrt fle (map fst fs @ [now])"
    and K: "card (client_key ` (snd ` set fs \<union> {client})) \<le> al_max_clients l0"
  shows "snd (record_failure now client l) = Inr None
    \<longleftrightarrow> length (filter (\<lambda>t. flt (fsub now t) (al_window l0)) (admitted_times (client_key client) fs rs)) < al_max_attempts l0"
proof -
  have "tracks l fs rs"
    by (rule failures_track[OF run l0 fin(1), where K = "client_key ` (snd ` set fs \<union> {client})"])
      (use sorted K in \<open>auto simp: sorted_wrt_append\<close>)
  moreover have "\<forall>t \<in> fst ` set fs. fle t now" using sorted by (auto simp: sorted_wrt_append)
  ultimately have "recent_attempts l now (client_key client) = filter (recent_at l now) (admitted_times (client_key client) fs rs)"
    using fin(2) by (simp add: tracks_def recent_attempts_def)
  moreover have "recent_at l now = (\<lambda>t. flt (fsub now t) (al_window l0))" "al_max_attempts l = al_max_attempts l0"
    using failures_ok[OF run l0(1)] by (auto simp: recent_at_def)
  ultimately show ?thesis by (simp add: admits_iff)
qed

section \<open>Slots\<close>

definition holds_worker :: "request_phase \<Rightarrow> bool" where
  "holds_worker ph \<longleftrightarrow> ph \<noteq> Unused"

definition holds_slot :: "request_phase \<Rightarrow> bool" where
  "holds_slot ph \<longleftrightarrow> ph \<in> {Slotted, Admitted, Executing, Leaving, Releasing}"

definition in_mutation :: "request_phase \<Rightarrow> bool" where
  "in_mutation ph \<longleftrightarrow> ph \<in> {Admitted, Executing, Leaving}"

definition threads_in :: "(request_phase \<Rightarrow> bool) \<Rightarrow> server_threads \<Rightarrow> nat" where
  "threads_in P s = length (filter P (st_phases s))"

lemma count_update:
  "p < length xs \<Longrightarrow> length (filter P (xs[p := x])) + (if P (xs ! p) then 1 else 0) = length (filter P xs) + (if P x then 1 else 0)"
proof (induction xs arbitrary: p)
  case (Cons y ys)
  then show ?case by (cases p) auto
qed simp

lemma threads_in_goes:
  "at_phase s p ph \<Longrightarrow> threads_in P (goes p ph' a s) + (if P ph then 1 else 0) = threads_in P s + (if P ph' then 1 else 0)"
  using count_update[of p "st_phases s" P ph'] by (auto simp: at_phase_def threads_in_def goes_def)

lemma threads_in_same [simp]: "threads_in P (s\<lparr> st_admission := a \<rparr>) = threads_in P s"
  by (simp add: threads_in_def)

lemma goes_simps [simp]: "st_admission (goes p ph a s) = a" "length (st_phases (goes p ph a s)) = length (st_phases s)"
  by (simp_all add: goes_def)

definition slots_conserved :: "nat \<Rightarrow> nat \<Rightarrow> server_threads \<Rightarrow> bool" where
  "slots_conserved workers mutations s \<longleftrightarrow>
     ad_workers (st_admission s) + threads_in holds_worker s = workers \<and> ad_slots (st_admission s) + threads_in holds_slot s = mutations
     \<and> ad_admitted (st_admission s) = threads_in in_mutation s"

lemmas slot_operations = take_worker_def return_worker_def take_slot_def release_slot_def count_admission_def uncount_admission_def
  reject_overloaded_def reject_saturated_def on_metrics_def begin_drain_def

lemma slots_conserved_goes:
  assumes "slots_conserved w m s" "at_phase s p ph"
    and "ad_workers a + of_bool (holds_worker ph') = ad_workers (st_admission s) + of_bool (holds_worker ph)"
    and "ad_slots a + of_bool (holds_slot ph') = ad_slots (st_admission s) + of_bool (holds_slot ph)"
    and "ad_admitted a + of_bool (in_mutation ph) = ad_admitted (st_admission s) + of_bool (in_mutation ph')"
  shows "slots_conserved w m (goes p ph' a s)"
  using assms threads_in_goes[OF assms(2), of holds_worker ph' a] threads_in_goes[OF assms(2), of holds_slot ph' a]
    threads_in_goes[OF assms(2), of in_mutation ph' a]
  by (auto simp: slots_conserved_def of_bool_def split: if_splits)

lemmas phase_classes = holds_worker_def holds_slot_def in_mutation_def

lemma admitted_positive:
  assumes "slots_conserved w m s" "at_phase s p ph" "in_mutation ph"
  shows "0 < ad_admitted (st_admission s)"
proof -
  have "ph \<in> set (filter in_mutation (st_phases s))" using assms(2,3) by (auto simp: at_phase_def)
  then have "0 < length (filter in_mutation (st_phases s))" by (rule length_pos_if_in_set)
  then show ?thesis using assms(1) by (simp add: slots_conserved_def threads_in_def)
qed

lemma slots_conserved_step: "thread_step s t \<Longrightarrow> slots_conserved w m s \<Longrightarrow> slots_conserved w m t"
proof (induction rule: thread_step.induct)
  case (leave s p)
  then show ?case using admitted_positive[OF leave(2,1)]
    by (intro slots_conserved_goes[OF _ leave(1)]) (simp_all add: slot_operations phase_classes)
qed (auto intro!: slots_conserved_goes simp: slot_operations phase_classes split: if_splits,
  (auto simp: slots_conserved_def)?)

lemma filter_replicate_false: "\<not> P x \<Longrightarrow> filter P (replicate n x) = []"
  by (induction n) auto

lemma slots_conserved_reach: "thread_reach w m s \<Longrightarrow> slots_conserved w m s"
proof (induction rule: thread_reach.induct)
  case (start now n)
  then show ?case by (simp add: slots_conserved_def threads_in_def admission_init_def phase_classes filter_replicate_false)
qed (rule slots_conserved_step)

text \<open>The mutation lock excludes.\<close>

interpretation mutation_lock: exclusive st_phases "\<lambda>ph. ph = Executing" thread_step
proof
  fix s t assume "thread_step s t"
  then show "st_phases t = st_phases s \<or> (\<exists>p ph. p < length (st_phases s) \<and> st_phases t = (st_phases s)[p := ph]
      \<and> (ph = Executing \<longrightarrow> st_phases s ! p = Executing \<or> unheld (\<lambda>ph. ph = Executing) (st_phases s)))"
    by (induction rule: thread_step.induct) (force simp: goes_def at_phase_def unheld_def)+
qed

lemma executes_alone: "thread_reach w m s \<Longrightarrow> one_holder (\<lambda>ph. ph = Executing) (st_phases s)"
  by (induction rule: thread_reach.induct) (auto intro: mutation_lock.stays_exclusive unheld_one_holder unheld_replicate)

section \<open>The drain\<close>

lemma draining_step: "thread_step s t \<Longrightarrow> ad_draining (st_admission s) \<Longrightarrow>
    ad_draining (st_admission t) \<and> ad_admitted (st_admission t) \<le> ad_admitted (st_admission s)"
  by (induction rule: thread_step.induct) (auto simp: slot_operations split: if_splits)

lemma draining_run: "thread_run s t \<Longrightarrow> ad_draining (st_admission s) \<Longrightarrow>
    ad_draining (st_admission t) \<and> ad_admitted (st_admission t) \<le> ad_admitted (st_admission s)"
  by (induction rule: thread_run.induct) (use draining_step in \<open>force+\<close>)

lemma run_reach: "thread_run s t \<Longrightarrow> thread_reach w m s \<Longrightarrow> thread_reach w m t"
  by (induction rule: thread_run.induct) (auto intro: thread_reach.step)

lemma run_trans: "thread_run s t \<Longrightarrow> thread_run t u \<Longrightarrow> thread_run s u"
  by (induction rule: thread_run.induct) (auto intro: thread_run.further)

text \<open>Whatever a mutation is doing, its own next steps take it out.\<close>

lemma at_phase_goes: "at_phase s p ph \<Longrightarrow> at_phase (goes p ph' a s) p ph'"
  by (simp add: at_phase_def goes_def)

lemma mutation_leaves:
  assumes "at_phase s p ph" "in_mutation ph"
  shows "\<exists>t. thread_run s t \<and> ad_admitted (st_admission t) = ad_admitted (st_admission s) - 1
    \<and> ad_draining (st_admission t) = ad_draining (st_admission s)"
proof -
  have out: "\<exists>t. thread_run u t \<and> ad_admitted (st_admission t) = ad_admitted (st_admission u) - 1
      \<and> ad_draining (st_admission t) = ad_draining (st_admission u)" if "at_phase u p Leaving" for u
    using thread_run.further[OF thread_step.leave[OF that] thread_run.here]
    by (intro exI[of _ "goes p Releasing (uncount_admission (st_admission u)) u"]) (simp add: uncount_admission_def on_metrics_def)
  consider "ph = Leaving" | "ph = Admitted" | "ph = Executing" using assms(2) by (auto simp: in_mutation_def)
  then show ?thesis
  proof cases
    case 1
    then show ?thesis using out assms(1) by blast
  next
    case 2
    then have step: "thread_step s (goes p Leaving (st_admission s) s)" using assms(1) by (auto intro: thread_step.refused)
    show ?thesis using out[OF at_phase_goes[OF assms(1)], of "st_admission s"] thread_run.further[OF step] by auto
  next
    case 3
    let ?a = "on_metrics mutation_stopped (st_admission s)"
    have step: "thread_step s (goes p Leaving ?a s)" using assms(1) 3 by (auto intro: thread_step.executed)
    show ?thesis using out[OF at_phase_goes[OF assms(1)], of ?a] thread_run.further[OF step] by (auto simp: on_metrics_def)
  qed
qed

lemma drain_ends:
  assumes "thread_reach w m s" "ad_draining (st_admission s)"
  shows "\<exists>t. thread_run s t \<and> mutations_drained (st_admission t)"
  using assms
proof (induction "ad_admitted (st_admission s)" arbitrary: s)
  case 0
  then show ?case by (auto simp: mutations_drained_def intro: thread_run.here)
next
  case (Suc n)
  then have "threads_in in_mutation s \<noteq> 0" using slots_conserved_reach[OF Suc(3)] by (simp add: slots_conserved_def)
  then obtain p where "at_phase s p (st_phases s ! p)" "in_mutation (st_phases s ! p)"
    by (auto simp: threads_in_def filter_empty_conv in_set_conv_nth at_phase_def)
  from mutation_leaves[OF this] obtain t where t: "thread_run s t" "ad_admitted (st_admission t) = n" "ad_draining (st_admission t)"
    using Suc(2,4) by auto
  then show ?case using Suc(1)[of t] run_reach[OF t(1) Suc(3)] run_trans by blast
qed

end
