(* ===== verification/Admission_Theorems.thy ===== *)
theory Admission_Theorems
  imports Web_Admission_Laws
begin

text \<open>Properties of the admission control of the server.\<close>

section \<open>Invalid tokens\<close>

text \<open>C33: The limiter is an exact sliding window. While no more clients fail than it can track, a failure at any
  later time is answered without a delay exactly if fewer than the permitted number of failures of the
  same client were so answered within the window before it; blocked attempts do not extend the block.
  Whoever fails how often, it tracks a bounded number of clients with a bounded number of times each.\<close>

theorem limiter_is_a_sliding_window:
  assumes "failures fs (auth_limiter_init m w c) = (l, rs)"
    and "\<forall>t \<in> fst ` set fs. isfinite t" "isfinite now" "sorted_wrt fle (map fst fs @ [now])"
    and "card (client_key ` (snd ` set fs \<union> {client})) \<le> max 1 c"
  shows "(snd (record_failure now client l) = Inr None
      \<longleftrightarrow> length (filter (\<lambda>t. flt (fsub now t) (fmax (Fin 1) w)) (admitted_times (client_key client) fs rs)) < max 1 m)
    \<and> length (al_attempts l) \<le> max 1 c \<and> (\<forall>(k, ts) \<in> set (al_attempts l). length k \<le> 256 \<and> length ts \<le> max 1 m)"
proof -
  let ?l0 = "auth_limiter_init m w c"
  have l0: "al_window ?l0 = fmax (Fin 1) w" "al_max_attempts ?l0 = max 1 m" "al_max_clients ?l0 = max 1 c" "al_attempts ?l0 = []"
    by (simp_all add: auth_limiter_init_def)
  note ok = failures_ok[OF assms(1) limiter_init_ok]
  show ?thesis
    using sliding_window[OF assms(1) limiter_init_ok l0(4) assms(2-4)] assms(5) ok unfolding l0
    by (auto simp: limiter_ok_def list_all_iff)
qed

lemma demo_failures: "failures [(Fin 0, ''peer''), (Fin 10, ''peer''), (Fin 20, ''peer'')] (auth_limiter_init 2 (Fin 60) 4)
  = (\<lparr> al_max_attempts = 2, al_window = Fin 60, al_max_clients = 4, al_attempts = [(''peer'', [Fin 0, Fin 10])] \<rparr>, [True, True, False])"
proof -
  have "to_float 10 = Fin 10" "to_float 20 = Fin 20" by (simp_all add: to_float_numeral)
  then show ?thesis
    by (simp add: auth_limiter_init_def fmax_def record_failure_def client_key_def recent_attempts_def recent_at_def dget_or_def fsub_def
      make_room_def rbind_eq_Inr Let_def)
qed

theorem limiter_is_a_sliding_window_witness:
  "snd (record_failure (Fin 65) ''peer'' (fst (failures [(Fin 0, ''peer''), (Fin 10, ''peer''), (Fin 20, ''peer'')] (auth_limiter_init 2 (Fin 60) 4)))) = Inr None"
proof -
  have "to_float 65 = Fin 65" "to_float 55 = Fin 55" by (simp_all add: to_float_numeral)
  then show ?thesis
    using limiter_is_a_sliding_window[OF demo_failures, of "Fin 65" "''peer''"]
    by (simp add: demo_failures admitted_times_def client_key_def fsub_def fmax_def del: failures.simps)
qed

section \<open>Slots and the drain\<close>


text \<open>C35: A drain ends and holds. Once the server drains, the admitted mutations can always finish without any
  other thread, none is added, and from the moment the wait sees none left no thread is ever inside a
  mutation again.\<close>

theorem drain_ends_and_holds:
  assumes "thread_reach workers mutations s" "ad_draining (st_admission s)"
  shows "(\<exists>t. thread_run s t \<and> mutations_drained (st_admission t))
    \<and> (\<forall>t. thread_run s t \<longrightarrow> ad_admitted (st_admission t) \<le> ad_admitted (st_admission s)
          \<and> (mutations_drained (st_admission s) \<longrightarrow> (\<forall>ph \<in> set (st_phases t). \<not> in_mutation ph)))"
proof -
  have "\<forall>ph \<in> set (st_phases t). \<not> in_mutation ph" if t: "thread_run s t" "mutations_drained (st_admission s)" for t
  proof -
    have "ad_admitted (st_admission t) = 0" using draining_run[OF t(1) assms(2)] t(2) by (simp add: mutations_drained_def)
    then show ?thesis using slots_conserved_reach[OF run_reach[OF t(1) assms(1)]]
      by (simp add: slots_conserved_def threads_in_def filter_empty_conv)
  qed
  then show ?thesis using drain_ends[OF assms] draining_run[OF _ assms(2)] by blast
qed

text \<open>One mutation is admitted, then the drain begins.\<close>

definition busy_admission :: admission where
  "busy_admission = \<lparr> ad_workers = 1, ad_slots = 0, ad_admitted = 1, ad_draining = True,
     ad_metrics = mutation_admitted (request_started (http_metrics_init (Fin 0) 2 1 1)) \<rparr>"

lemma busy_reach: "thread_reach 2 1 \<lparr> st_admission = busy_admission, st_phases = [Admitted] \<rparr>"
proof -
  let ?m0 = "http_metrics_init (Fin 0) 2 1 1" and ?m1 = "request_started (http_metrics_init (Fin 0) 2 1 1)"
  have "thread_reach 2 1 \<lparr> st_admission = \<lparr> ad_workers = 2, ad_slots = 1, ad_admitted = 0, ad_draining = False, ad_metrics = ?m0 \<rparr>, st_phases = [Unused] \<rparr>"
    using thread_reach.start[of 2 1 "Fin 0" 1] by (simp add: admission_init_def)
  note thread_reach.step[OF this thread_step.accept[of _ 0]]
  then have "thread_reach 2 1 \<lparr> st_admission = \<lparr> ad_workers = 1, ad_slots = 1, ad_admitted = 0, ad_draining = False, ad_metrics = ?m1 \<rparr>, st_phases = [Serving] \<rparr>"
    by (simp add: slot_operations at_phase_def goes_def)
  note thread_reach.step[OF this thread_step.check[of _ 0]]
  then have "thread_reach 2 1 \<lparr> st_admission = \<lparr> ad_workers = 1, ad_slots = 1, ad_admitted = 0, ad_draining = False, ad_metrics = ?m1 \<rparr>, st_phases = [Checked] \<rparr>"
    by (simp add: at_phase_def goes_def)
  note thread_reach.step[OF this thread_step.slot[of _ 0]]
  then have "thread_reach 2 1 \<lparr> st_admission = \<lparr> ad_workers = 1, ad_slots = 0, ad_admitted = 0, ad_draining = False, ad_metrics = ?m1 \<rparr>, st_phases = [Slotted] \<rparr>"
    by (simp add: slot_operations at_phase_def goes_def)
  note thread_reach.step[OF this thread_step.admit[of _ 0]]
  then have "thread_reach 2 1 \<lparr> st_admission = \<lparr> ad_workers = 1, ad_slots = 0, ad_admitted = 1, ad_draining = False, ad_metrics = mutation_admitted ?m1 \<rparr>,
      st_phases = [Admitted] \<rparr>"
    by (simp add: slot_operations at_phase_def goes_def)
  note thread_reach.step[OF this thread_step.drain]
  then show ?thesis by (simp add: slot_operations busy_admission_def)
qed


theorem drain_ends_and_holds_witness:
  "\<exists>t. thread_run \<lparr> st_admission = busy_admission, st_phases = [Admitted] \<rparr> t \<and> mutations_drained (st_admission t)"
  using drain_ends_and_holds[OF busy_reach] by (simp add: busy_admission_def)

text \<open>The limit the server chooses by itself is always accepted.\<close>

lemma default_limit_accepted: "1 \<le> workers \<Longrightarrow> admission_limits workers (default_mutation_limit workers) = Inr ()"
  by (auto simp: admission_limits_def default_mutation_limit_def require_def MAX_HTTP_MUTATION_WORKERS_def HTTP_RESERVED_READ_WORKERS_def)

end
