(* ===== verification/Desktop_Copy.thy ===== *)
theory Desktop_Copy
  imports Web_Copy
begin

text \<open>
  Copy trading of the desktop (\<open>app.py\<close>): what \<open>_copy_trade_from_activity\<close> does with one activity whose
  replay state is durable. An exception is a value; the orders given to the simulation of the adapter and
  the conflict cache are returned with the outcome. The clock is read once. The log lines and the list of
  activities on the screen are left out.
\<close>

section \<open>Outcomes\<close>

record copy_outcome =
  oc_state :: journal_state
  oc_code :: string
  oc_message :: string
  oc_dispatch :: obj

definition outcome :: "journal_state \<Rightarrow> string \<Rightarrow> string \<Rightarrow> copy_outcome" where
  "outcome st code message = \<lparr> oc_state = st, oc_code = code, oc_message = message, oc_dispatch = [] \<rparr>"

definition COPY_ACTIVITY_MAX_REPLAY_AGE_SECONDS :: rat where
  "COPY_ACTIVITY_MAX_REPLAY_AGE_SECONDS = 300"

text \<open>\<open>safe_float\<close> of the desktop: every exception gives the default.\<close>

definition desktop_float :: "pyval \<Rightarrow> pyfloat option \<Rightarrow> pyfloat option" where
  "desktop_float v dflt = (case py_float v of Inl _ \<Rightarrow> dflt | Inr x \<Rightarrow> Some x)"

text \<open>The settings an activity is bound to when it is staged.\<close>

definition copy_execution_policy :: "copy_settings \<Rightarrow> obj" where
  "copy_execution_policy s = [
     (''allow_sells'', PBool (ct_allow_sells s)), (''conflict_guard'', PBool (ct_conflict_guard s)),
     (''conflict_window_seconds'', PInt (max 0 (ct_conflict_window_seconds s))), (''enabled'', PBool (ct_enabled s)),
     (''follow_wallets'', PList (map PStr (normalized_follow_wallets s))), (''live'', PBool (ct_live s)),
     (''max_usdc_per_trade'', PFloat (ct_max_usdc_per_trade s)), (''scale'', PFloat (ct_scale s)),
     (''slippage'', PFloat (ct_slippage s))]"

section \<open>The gates\<close>

text \<open>A check passes a value on or ends the handling with an outcome.\<close>

datatype 'a verdict = Stop copy_outcome | Go 'a

definition rejected :: "string \<Rightarrow> string \<Rightarrow> 'a verdict" where
  "rejected code message = Stop (outcome Rejected code message)"

definition retry_later :: "string \<Rightarrow> string \<Rightarrow> 'a verdict" where
  "retry_later code message = Stop (outcome Retryable code message)"

definition vbind :: "'a verdict res \<Rightarrow> ('a \<Rightarrow> 'b verdict res) \<Rightarrow> 'b verdict res" where
  "vbind r f = rbind r (\<lambda>v. case v of Stop out \<Rightarrow> Inr (Stop out) | Go x \<Rightarrow> f x)"

definition allow :: "bool \<Rightarrow> unit verdict \<Rightarrow> unit verdict res" where
  "allow b refusal = Inr (if b then Go () else refusal)"

text \<open>What the handling of an activity is given besides the configuration: the venue and the durable
  replay state.\<close>

record copy_task =
  ck_market_id :: string
  ck_policy :: obj
  ck_staged_at :: int
  ck_replay_authorized_at :: int
  ck_activity :: obj

definition replay_is_fresh :: "pyfloat \<Rightarrow> copy_task \<Rightarrow> unit verdict res" where
  "replay_is_fresh now t =
     (let origin = (if ck_replay_authorized_at t \<noteq> 0 then ck_replay_authorized_at t else ck_staged_at t) in
      if origin = 0 then Inr (Go ())
      else
        rbind (float_of_int origin) (\<lambda>x.
        let age = fsub now x in
        allow (\<not> (flt (Fin COPY_ACTIVITY_MAX_REPLAY_AGE_SECONDS) age \<or> flt age (Fin (- 60))))
          (rejected ''copy_activity_stale'' ''The copy signal exceeded the automatic replay age limit.'')))"

definition selected_market_of :: "app_config \<Rightarrow> string" where
  "selected_market_of cfg = lower (strip (if cf_selected_market_id cfg = [] then ''polymarket'' else cf_selected_market_id cfg))"

definition source_market_of :: "app_config \<Rightarrow> copy_task \<Rightarrow> string" where
  "source_market_of cfg t = lower (strip (if ck_market_id t = [] then selected_market_of cfg else ck_market_id t))"

text \<open>The policy the activity was staged under must still be the current one.\<close>

definition bound_settings :: "app_config \<Rightarrow> copy_task \<Rightarrow> copy_settings verdict res" where
  "bound_settings cfg t =
     (if ck_policy t = [] then Inr (Stop (outcome Ambiguous ''execution_policy_missing''
        ''Legacy replay state has no bound execution policy; manual reconciliation is required.''))
      else if \<not> py_eq (PDict (ck_policy t)) (PDict (copy_execution_policy (cf_copytrading cfg)))
      then Inr (retry_later ''execution_policy_changed''
        ''Copy settings changed after staging; restore the original policy or reconcile manually.'')
      else rbind (copy_settings_from_dict (ck_policy t)) (\<lambda>s. Inr (Go s)))"

definition live_timestamp_is_fresh :: "pyfloat \<Rightarrow> copy_task \<Rightarrow> unit verdict res" where
  "live_timestamp_is_fresh now t =
     (case desktop_float (oget (ck_activity t) ''timestamp'') None of
        None \<Rightarrow> Inr (rejected ''live_activity_timestamp_missing'' ''Live copy dispatch requires a source activity timestamp.'')
      | Some x \<Rightarrow>
        if fle x (Fin 0)
        then Inr (rejected ''live_activity_timestamp_missing'' ''Live copy dispatch requires a source activity timestamp.'')
        else
          rbind (if fle (Fin (10 ^ 12)) x then fdiv x (Fin 1000) else Inr x) (\<lambda>x.
          let age = fsub now x in
          allow (\<not> (flt age (Fin (- 60)) \<or> (flt (Fin COPY_ACTIVITY_MAX_REPLAY_AGE_SECONDS) age \<and> ck_replay_authorized_at t \<le> 0)))
            (rejected ''live_activity_timestamp_stale'' ''The source activity timestamp is outside the live-copy freshness window.'')))"

definition desktop_side :: "obj \<Rightarrow> string" where
  "desktop_side item = upper (text_or_empty item ''side'')"

definition desktop_token :: "obj \<Rightarrow> string" where
  "desktop_token item = strip (text_or item ''asset'' ''contract_id'')"

definition followed :: "copy_settings \<Rightarrow> string \<Rightarrow> obj \<Rightarrow> bool" where
  "followed s market_id item = (case normalize_activity_identity market_id (oget item ''proxyWallet'') of
     None \<Rightarrow> False | Some w \<Rightarrow> w \<in> set (normalized_follow_wallets s))"

text \<open>Everything that is decided before the venue is asked.\<close>

definition copy_gates :: "bool \<Rightarrow> pyfloat \<Rightarrow> app_config \<Rightarrow> copy_task \<Rightarrow> copy_settings verdict res" where
  "copy_gates paused now cfg t =
     (let item = ck_activity t; market_id = source_market_of cfg t in
      vbind (allow (\<not> paused) (retry_later ''config_persistence_paused''
        ''Copy execution is paused until restart after reconciling durable configuration.'')) (\<lambda>_.
      vbind (replay_is_fresh now t) (\<lambda>_.
      vbind (allow (market_id = selected_market_of cfg) (retry_later ''source_market_mismatch''
        ''Select the activity's durable source market before retrying it.'')) (\<lambda>_.
      vbind (bound_settings cfg t) (\<lambda>s.
      vbind (if ct_live s then live_timestamp_is_fresh now t else Inr (Go ())) (\<lambda>_.
      vbind (allow (ct_enabled s) (rejected ''copy_disabled'' ''Copy trading is disabled.'')) (\<lambda>_.
      vbind (allow (normalized_follow_wallets s \<noteq> []) (rejected ''no_follow_wallets'' ''No copy-trading wallets are configured.'')) (\<lambda>_.
      vbind (allow (followed s market_id item) (rejected ''wallet_not_followed'' ''Activity wallet is not followed.'')) (\<lambda>_.
      vbind (allow (desktop_side item \<in> {''BUY'', ''SELL''}) (rejected ''invalid_side'' ''Activity side is not copyable.'')) (\<lambda>_.
      vbind (allow (\<not> (desktop_side item = ''SELL'' \<and> \<not> ct_allow_sells s)) (rejected ''sells_disabled'' ''SELL copy trading is disabled.'')) (\<lambda>_.
      vbind (allow (desktop_token item \<noteq> []) (rejected ''missing_contract'' ''Activity has no contract identifier.'')) (\<lambda>_.
      Inr (Go s)))))))))))))"

section \<open>Terms\<close>

text \<open>Size and limit price of the copy from the quotes of the venue.\<close>

record desktop_terms =
  dt_size :: pyfloat
  dt_limit_price :: pyfloat

definition desktop_odds :: "pyval \<Rightarrow> pyfloat option \<Rightarrow> pyfloat option res" where
  "desktop_odds odds raw_price =
     (case (desktop_float odds None, raw_price) of
        (None, Some p) \<Rightarrow> if flt (Fin 0) p then rbind (fdiv (Fin 1) p) (\<lambda>x. Inr (Some x)) else Inr None
      | (raw_odds, _) \<Rightarrow> Inr raw_odds)"

definition desktop_limit_price ::
    "string \<Rightarrow> string \<Rightarrow> pyval \<Rightarrow> pyfloat option \<Rightarrow> pyfloat option \<times> pyfloat option \<Rightarrow> pyfloat \<Rightarrow> pyfloat verdict res" where
  "desktop_limit_price market_id side odds raw_price best slip =
     (if market_id = ''azuro'' then
        rbind (desktop_odds odds raw_price) (\<lambda>raw_odds. Inr (case raw_odds of
            None \<Rightarrow> rejected ''invalid_odds'' ''Activity has no valid decimal odds.''
          | Some x \<Rightarrow> if fle x (Fin 0) then rejected ''invalid_odds'' ''Activity has no valid decimal odds.''
              else Go (fmax (flit (1 / 10 ^ 12)) (fmul x (fsub (Fin 1) slip)))))
      else if side = ''BUY'' then
        Inr (Go (fmin (Fin 1) (fadd (some_or (flit (99 / 100)) (first_some (snd best) raw_price)) slip)))
      else Inr (Go (fmax (Fin 0) (fsub (some_or (flit (1 / 100)) (first_some (fst best) raw_price)) slip))))"

text \<open>\<open>safe_float(item.get("size"), 0.0) or 0.0\<close>, scaled; negative sizes count as zero.\<close>

definition scaled_size :: "copy_settings \<Rightarrow> obj \<Rightarrow> pyfloat" where
  "scaled_size s item = fmax (Fin 0) (fmul (some_or (Fin 0) (desktop_float (oget item ''size'') (Some (Fin 0)))) (ct_scale s))"

definition terms_for :: "copy_settings \<Rightarrow> copy_adapter \<Rightarrow> string \<Rightarrow> obj \<Rightarrow> desktop_terms verdict res" where
  "terms_for s adapter market_id item =
     (let side = desktop_side item; best = best_prices adapter market_id (desktop_token item);
          raw_price = desktop_float (oget item ''price'') None; slip = fmax (Fin 0) (fmin (ct_slippage s) (Fin 1)) in
      vbind (allow (cap_copy_trading (ad_capabilities adapter))
        (rejected ''copy_not_supported'' ''The selected market does not support copy trading.'')) (\<lambda>_.
      vbind (allow (\<not> (ct_live s \<and> market_id = ''polymarket'' \<and> (if side = ''BUY'' then snd best else fst best) = None))
        (retry_later ''live_quote_unavailable'' ''A fresh executable-side quote is required before live dispatch.'')) (\<lambda>_.
      vbind (desktop_limit_price market_id side (oget item ''odds'') raw_price best slip) (\<lambda>limit_price.
      rbind (capped_size (buy_budget_activity market_id side) limit_price
        (fmax (flit (1 / 100)) (ct_max_usdc_per_trade s)) (scaled_size s item)) (\<lambda>(sz, _).
      vbind (allow (\<not> fle sz (Fin 0)) (rejected ''zero_size'' ''Scaled copy order size is zero.'')) (\<lambda>_.
      Inr (Go \<lparr> dt_size = sz, dt_limit_price = limit_price \<rparr>)))))))"

section \<open>The conflict cache\<close>

text \<open>\<open>int(safe_float(item.get("timestamp"), now) or now)\<close>\<close>

definition cache_time :: "pyfloat \<Rightarrow> obj \<Rightarrow> int res" where
  "cache_time now item =
     (let t = some_or now (desktop_float (oget item ''timestamp'') (Some now)) in
      int_of_float (if feq t (Fin 0) then now else t))"

definition desktop_conflict :: "pyfloat \<Rightarrow> copy_settings \<Rightarrow> obj \<Rightarrow> guard_state \<Rightarrow> (bool \<times> guard_state) res" where
  "desktop_conflict now s item cache =
     (if \<not> ct_conflict_guard s \<or> copy_trade_guard_key item = [] then Inr (False, cache)
      else
        rbind (cache_time now item) (\<lambda>t.
        let cache = drop_stale (max 0 (ct_conflict_window_seconds s)) t cache in
        Inr (case dget cache (copy_trade_guard_key item) of
            None \<Rightarrow> (False, cache)
          | Some g \<Rightarrow> (gd_wallet g \<noteq> lowered_text item ''proxyWallet'', cache))))"

definition commit_conflict :: "pyfloat \<Rightarrow> copy_settings \<Rightarrow> obj \<Rightarrow> guard_state \<Rightarrow> guard_state res" where
  "commit_conflict now s item cache =
     (if \<not> ct_conflict_guard s \<or> copy_trade_guard_key item = [] then Inr cache
      else
        rbind (cache_time now item) (\<lambda>t.
        Inr (dset (copy_trade_guard_key item) \<lparr> gd_side = desktop_side item, gd_wallet = lowered_text item ''proxyWallet'',
          gd_activity_key = activity_key item, gd_timestamp = t \<rparr> cache)))"

section \<open>Execution\<close>

text \<open>What the handling of an activity did: the simulated orders, the conflict cache and the outcome.\<close>

record copy_effect =
  ce_orders :: "paper_order list"
  ce_cache :: guard_state
  ce_outcome :: "copy_outcome res"

definition no_order :: "guard_state \<Rightarrow> copy_outcome res \<Rightarrow> copy_effect" where
  "no_order cache r = \<lparr> ce_orders = [], ce_cache = cache, ce_outcome = r \<rparr>"

definition desktop_order :: "string \<Rightarrow> obj \<Rightarrow> desktop_terms \<Rightarrow> paper_order" where
  "desktop_order market_id item t = \<lparr> po_market_id = market_id, po_contract_id = desktop_token item, po_side = desktop_side item,
     po_size = dt_size t, po_limit_price = Some (dt_limit_price t),
     po_metadata = [(''source'', PStr ''copy_trading''), (''activity'', PDict item)]
       @ (if market_id \<in> {''manifold'', ''myriad_markets''} \<and> desktop_side item = ''SELL''
          then [(''shares'', py_or (oget item ''shares'') (PFloat (dt_size t)))] else []) \<rparr>"

text \<open>A simulated copy. An adapter without a paper ledger counts as a success.\<close>

definition simulate_copy :: "pyfloat \<Rightarrow> copy_settings \<Rightarrow> copy_adapter \<Rightarrow> string \<Rightarrow> obj \<Rightarrow> desktop_terms \<Rightarrow> guard_state \<Rightarrow> copy_effect" where
  "simulate_copy now s adapter market_id item t cache =
     (let order = desktop_order market_id item t;
          accepted = (case ad_place_paper_order adapter order of
              Inr px \<Rightarrow> Inr (px_accepted px)
            | Inl e \<Rightarrow> if exc_kind e \<in> {AttributeError, UnsupportedFeatureError} then Inr True else Inl e) in
      case accepted of
        Inl _ \<Rightarrow> \<lparr> ce_orders = [order], ce_cache = cache,
          ce_outcome = Inr (outcome Retryable ''paper_order_failure'' ''Paper-order handling failed and can be retried safely.'') \<rparr>
      | Inr False \<Rightarrow> \<lparr> ce_orders = [order], ce_cache = cache,
          ce_outcome = Inr (outcome Rejected ''paper_order_rejected'' ''The paper-order adapter rejected the simulated order.'') \<rparr>
      | Inr True \<Rightarrow>
        (case commit_conflict now s item cache of
           Inl e \<Rightarrow> \<lparr> ce_orders = [order], ce_cache = cache, ce_outcome = Inl e \<rparr>
         | Inr cache \<Rightarrow> \<lparr> ce_orders = [order], ce_cache = cache,
             ce_outcome = Inr (outcome Completed ''paper_order_completed'' ''Copy simulation completed without live dispatch.'') \<rparr>))"

text \<open>Live copying is refused in every case: before any venue is contacted.\<close>

definition refuse_live :: "string \<Rightarrow> string \<Rightarrow> copy_outcome" where
  "refuse_live blocker market_id =
     (if market_id \<noteq> ''polymarket''
      then outcome Rejected ''live_market_not_supported'' ''Live copy trading is not supported for the selected market.''
      else outcome Rejected ''polymarket_clob_v2_migration_required'' blocker)"

record desktop_world =
  dw_now :: pyfloat
  dw_registry :: copy_registry
  dw_blocker :: string
  dw_localtime :: "int \<Rightarrow> unit res"

definition copy_trade_from_activity :: "desktop_world \<Rightarrow> bool \<Rightarrow> app_config \<Rightarrow> guard_state \<Rightarrow> copy_task \<Rightarrow> copy_effect" where
  "copy_trade_from_activity w paused cfg cache t =
     (let item = ck_activity t; market_id = source_market_of cfg t in
      case vbind (copy_gates paused (dw_now w) cfg t) (\<lambda>s.
          rbind (copy_adapter_for_market cfg market_id (dw_registry w)) (\<lambda>adapter.
          vbind (terms_for s adapter market_id item) (\<lambda>terms. Inr (Go (s, adapter, terms))))) of
        Inl e \<Rightarrow> no_order cache (Inl e)
      | Inr (Stop out) \<Rightarrow> no_order cache (Inr out)
      | Inr (Go (s, adapter, terms)) \<Rightarrow>
        (case desktop_conflict (dw_now w) (cf_copytrading cfg) item cache of
           Inl e \<Rightarrow> no_order cache (Inl e)
         | Inr (True, cache) \<Rightarrow> no_order cache (Inr (outcome Rejected ''conflict_guard'' ''Copy conflict guard rejected this activity.''))
         | Inr (False, cache) \<Rightarrow>
           if ct_live s then no_order cache (Inr (refuse_live (dw_blocker w) market_id))
           else simulate_copy (dw_now w) (cf_copytrading cfg) adapter market_id item terms cache))"

text \<open>\<open>_handle_wallet_activity\<close>: the filter of the watch, the time shown, and the copy.\<close>

definition filtered_out :: "app_config \<Rightarrow> string \<Rightarrow> obj \<Rightarrow> bool" where
  "filtered_out cfg watch_id item = (case List.find (\<lambda>x. ww_id x = PStr watch_id) (cf_wallets cfg) of
     None \<Rightarrow> False
   | Some watch \<Rightarrow> truthy (ww_only_market_slug watch) \<and> PStr (text_or_empty item ''slug'') \<noteq> ww_only_market_slug watch)"

definition handle_wallet_activity ::
    "desktop_world \<Rightarrow> bool \<Rightarrow> app_config \<Rightarrow> guard_state \<Rightarrow> string \<Rightarrow> copy_task \<Rightarrow> copy_effect" where
  "handle_wallet_activity w paused cfg cache watch_id t =
     (if filtered_out cfg watch_id (ck_activity t)
      then no_order cache (Inr (outcome Completed ''market_filter_skipped'' ''Activity durably consumed outside the configured market filter.''))
      else
        (case rbind (py_int (py_or (oget (ck_activity t) ''timestamp'') (PInt 0))) (\<lambda>ts. if ts = 0 then Inr () else dw_localtime w ts) of
           Inl e \<Rightarrow> no_order cache (Inl e)
         | Inr _ \<Rightarrow> copy_trade_from_activity w paused cfg cache t))"

end
