(* ===== verification/Desktop_Outbox.thy ===== *)
theory Desktop_Outbox
  imports Desktop_Copy Storage
begin

text \<open>
  The copy outbox of the desktop (\<open>app.py\<close>): an activity is staged in the durable configuration, together
  with the cursor that consumes it, before it is handled; the outcome is saved afterwards. The worker
  thread hands its activities to the user-interface thread one by one, which is the only one to change
  the configuration, so that the handling of an activity is one function here.
\<close>

section \<open>The outbox\<close>

definition COPY_OUTBOX_HISTORY_LIMIT :: nat where "COPY_OUTBOX_HISTORY_LIMIT = 500"
definition COPY_OUTBOX_CONCLUSIVE_STATES :: "journal_state list" where "COPY_OUTBOX_CONCLUSIVE_STATES = [Completed, Rejected]"
definition COPY_OUTBOX_REPLAYABLE_STATES :: "journal_state list" where "COPY_OUTBOX_REPLAYABLE_STATES = [Pending, Retryable]"

definition COPY_ACTIVITY_FIELDS :: "string list" where
  "COPY_ACTIVITY_FIELDS = [''timestamp'', ''transactionHash'', ''transaction_hash'', ''logIndex'', ''log_index'', ''fillId'',
     ''trade_id'', ''activityId'', ''activity_id'', ''proxyWallet'', ''asset'', ''contract_id'', ''side'', ''price'', ''size'', ''slug'',
     ''outcome'', ''odds'', ''shares'', ''pseudonym'', ''name'']"

definition copy_activity_snapshot :: "obj \<Rightarrow> obj" where
  "copy_activity_snapshot activity =
     map (\<lambda>k. (k, oget activity k)) (filter (\<lambda>k. \<not> is_list (oget activity k) \<and> \<not> is_dict (oget activity k)) COPY_ACTIVITY_FIELDS)"

record activity_task =
  at_watch_id :: string
  at_activity :: obj
  at_key :: string
  at_market_id :: string

text \<open>The entry of an activity; an empty market matches every one.\<close>

definition entry_of_activity :: "string \<Rightarrow> string \<Rightarrow> string \<Rightarrow> outbox_entry \<Rightarrow> bool" where
  "entry_of_activity watch_id key market_id e \<longleftrightarrow> co_watch_id e = watch_id \<and> co_activity_key e = key
     \<and> (lower (strip market_id) = [] \<or> co_market_id e = lower (strip market_id))"

definition find_copy_activity_entry :: "app_config \<Rightarrow> string \<Rightarrow> string \<Rightarrow> string \<Rightarrow> outbox_entry option" where
  "find_copy_activity_entry cfg watch_id key market_id = List.find (entry_of_activity watch_id key market_id) (cf_copy_activity_outbox cfg)"

definition conclusive :: "outbox_entry \<Rightarrow> bool" where
  "conclusive e \<longleftrightarrow> co_state e \<in> set COPY_OUTBOX_CONCLUSIVE_STATES"

fun prune_from :: "nat \<Rightarrow> string list \<Rightarrow> outbox_entry list \<Rightarrow> outbox_entry list" where
  "prune_from overflow removable [] = []"
| "prune_from overflow removable (e # es) =
     (if 0 < overflow \<and> co_id e \<in> set removable then prune_from (overflow - 1) (removeAll (co_id e) removable) es
      else e # prune_from overflow removable es)"

definition prune_copy_activity_outbox :: "app_config \<Rightarrow> app_config" where
  "prune_copy_activity_outbox cfg =
     (let outbox = cf_copy_activity_outbox cfg; overflow = length outbox - COPY_OUTBOX_HISTORY_LIMIT in
      if overflow = 0 then cfg
      else cfg\<lparr> cf_copy_activity_outbox := prune_from overflow (map co_id (filter conclusive outbox)) outbox \<rparr>)"

section \<open>Staging\<close>

definition staged_entry :: "string \<Rightarrow> int \<Rightarrow> string \<Rightarrow> activity_task \<Rightarrow> copy_settings \<Rightarrow> outbox_entry" where
  "staged_entry uid now market_id t s = \<lparr> co_watch_id = at_watch_id t, co_activity_key = at_key t,
     co_activity = copy_activity_snapshot (at_activity t), co_market_id = market_id, co_execution_policy = copy_execution_policy s,
     co_state = Pending, co_attempts = 0, co_outcome_code = [], co_outcome_message = [], co_dispatch = [], co_id = uid,
     co_created_at = now, co_updated_at = now, co_replay_authorized_at = 0 \<rparr>"

text \<open>Room for one entry: the oldest conclusive ones go.\<close>

definition outbox_with_room :: "outbox_entry list \<Rightarrow> outbox_entry list res" where
  "outbox_with_room outbox =
     (if length outbox < COPY_OUTBOX_HISTORY_LIMIT then Inr outbox
      else
        let required = length outbox - COPY_OUTBOX_HISTORY_LIMIT + 1;
            oldest = sort_key (\<lambda>e. (co_updated_at e, co_created_at e, co_id e)) (filter conclusive outbox) in
        if length oldest < required
        then raise RuntimeErr ''Copy activity outbox is full of unresolved entries; reconcile them before polling.''
        else let removable = map co_id (take required oldest) in Inr (filter (\<lambda>e. co_id e \<notin> set removable) outbox))"

definition task_market :: "app_config \<Rightarrow> activity_task \<Rightarrow> string" where
  "task_market cfg t = lower (strip (if at_market_id t \<noteq> [] then at_market_id t
     else if cf_selected_market_id cfg \<noteq> [] then cf_selected_market_id cfg else ''polymarket''))"

text \<open>\<open>None\<close>: the activity was handled before. Otherwise the configuration to save and whether it changed.\<close>

definition apply_wallet_activity_checkpoint :: "string \<Rightarrow> int \<Rightarrow> activity_task \<Rightarrow> app_config \<Rightarrow> (app_config \<times> bool) option res" where
  "apply_wallet_activity_checkpoint uid now t cfg =
     (case List.find (\<lambda>x. ww_id x = PStr (at_watch_id t)) (cf_wallets cfg) of
        None \<Rightarrow> value_error ''Wallet watch no longer exists.''
      | Some watch \<Rightarrow>
        (let market_id = task_market cfg t in
         case find_copy_activity_entry cfg (at_watch_id t) (at_key t) market_id of
           Some e \<Rightarrow> Inr (if co_state e \<in> set COPY_OUTBOX_REPLAYABLE_STATES then Some (cfg, False) else None)
         | None \<Rightarrow>
           if find_copy_activity_entry cfg (at_watch_id t) (at_key t) [] = None
              \<and> at_key t \<in> set (cu_seen_activity_keys (cursor_for_market watch market_id))
           then Inr None
           else
             rbind (outbox_with_room (cf_copy_activity_outbox cfg)) (\<lambda>outbox.
             rbind (remember_activity watch (at_activity t) (at_key t) market_id) (\<lambda>watch'.
             Inr (Some (prune_copy_activity_outbox (cfg\<lparr>
               cf_copy_activity_outbox := outbox @ [staged_entry uid now market_id t (cf_copytrading cfg)],
               cf_wallets := update_first (\<lambda>x. ww_id x = PStr (at_watch_id t)) (\<lambda>_. watch') (cf_wallets cfg) \<rparr>), True))))))"

definition set_copy_activity_outcome :: "int \<Rightarrow> copy_outcome \<Rightarrow> outbox_entry \<Rightarrow> outbox_entry res" where
  "set_copy_activity_outcome now out e =
     (if oc_state out = Pending then value_error ''Unsupported copy activity outcome state: pending''
      else Inr (e\<lparr> co_state := oc_state out, co_outcome_code := oc_code out, co_outcome_message := oc_message out,
        co_dispatch := oc_dispatch out, co_updated_at := now \<rparr>))"

section \<open>The desktop process\<close>

text \<open>The file, the configuration in memory, whether writing is paused, and the conflict cache; the simulated
  orders are recorded.\<close>

record desktop =
  dk_file :: config_file
  dk_config :: stored_config
  dk_paused :: bool
  dk_cache :: guard_state
  dk_orders :: "paper_order list"

definition desktop_cfg :: "desktop \<Rightarrow> app_config" where
  "desktop_cfg d = sc_config (dk_config d)"

definition with_cfg :: "app_config \<Rightarrow> desktop \<Rightarrow> desktop" where
  "with_cfg cfg d = d\<lparr> dk_config := (dk_config d)\<lparr> sc_config := cfg \<rparr> \<rparr>"

record desktop_storage =
  ds_fresh :: defaults
  ds_path :: string

text \<open>Every failed save pauses the process: it writes nothing more before it is restarted.\<close>

definition save_runtime_config :: "desktop_storage \<Rightarrow> save_faults \<Rightarrow> desktop \<Rightarrow> desktop \<times> unit res" where
  "save_runtime_config ds faults d =
     (if dk_paused d then (d, raise ConfigConflictError ''Desktop persistence is paused; restart after reconciling durable state.'')
      else
        (case save_config (ds_fresh ds) (ds_path ds) faults (dk_file d) (dk_config d) of
           (f, s, r) \<Rightarrow> (d\<lparr> dk_file := f, dk_config := s, dk_paused := isl r \<rparr>, r)))"

definition commit_failed :: "exc \<Rightarrow> bool" where
  "commit_failed e \<longleftrightarrow> \<not> exc_isa (exc_kind e) ConfigCommitError"

text \<open>A change by the user: a detached candidate is saved and then becomes the configuration.\<close>

definition persist_config_changes :: "desktop_storage \<Rightarrow> save_faults \<Rightarrow> (app_config \<Rightarrow> app_config) \<Rightarrow> desktop \<Rightarrow> desktop \<times> bool" where
  "persist_config_changes ds faults change d =
     (if dk_paused d then (d, False)
      else
        (case save_runtime_config ds faults (with_cfg (change (desktop_cfg d)) d) of
           (d', Inr _) \<Rightarrow> (d', True)
         | (d', Inl e) \<Rightarrow> (if commit_failed e then d'\<lparr> dk_config := dk_config d \<rparr> else d', False)))"

section \<open>Handling an activity\<close>

datatype staging = Refused | Already | Staged

definition stage :: "string \<Rightarrow> int \<Rightarrow> desktop_storage \<Rightarrow> save_faults \<Rightarrow> activity_task \<Rightarrow> desktop \<Rightarrow> desktop \<times> staging" where
  "stage uid now ds faults t d =
     (case apply_wallet_activity_checkpoint uid now t (desktop_cfg d) of
        Inl e \<Rightarrow> (d, Refused)
      | Inr None \<Rightarrow> (d, Already)
      | Inr (Some (cfg, changed)) \<Rightarrow>
        if \<not> changed then (d, Staged)
        else
          (case save_runtime_config ds faults (with_cfg cfg d) of
             (d', Inr _) \<Rightarrow> (d', Staged)
           | (d', Inl e) \<Rightarrow> (if commit_failed e then with_cfg (desktop_cfg d) d' else d', Refused)))"

definition change_entry :: "(outbox_entry \<Rightarrow> bool) \<Rightarrow> (outbox_entry \<Rightarrow> outbox_entry) \<Rightarrow> desktop \<Rightarrow> desktop" where
  "change_entry P f d = with_cfg ((desktop_cfg d)\<lparr> cf_copy_activity_outbox := update_first P f (cf_copy_activity_outbox (desktop_cfg d)) \<rparr>) d"

definition attempted :: "int \<Rightarrow> outbox_entry \<Rightarrow> outbox_entry" where
  "attempted now e = e\<lparr> co_attempts := co_attempts e + 1, co_updated_at := now \<rparr>"

definition task_of_entry :: "outbox_entry \<Rightarrow> obj \<Rightarrow> copy_task" where
  "task_of_entry e item = \<lparr> ck_market_id = co_market_id e, ck_policy = co_execution_policy e, ck_staged_at = co_created_at e,
     ck_replay_authorized_at = co_replay_authorized_at e, ck_activity = item \<rparr>"

definition concluded :: "outbox_entry \<Rightarrow> copy_outcome res \<Rightarrow> copy_outcome" where
  "concluded e r = (case r of
       Inr out \<Rightarrow> out
     | Inl _ \<Rightarrow>
       if co_state e = Ambiguous
       then \<lparr> oc_state = Ambiguous,
         oc_code = (if co_outcome_code e = [] then ''live_dispatch_ambiguous'' else co_outcome_code e),
         oc_message = (if co_outcome_message e = []
           then ''A live dispatch may have occurred; manual reconciliation is required.'' else co_outcome_message e),
         oc_dispatch = co_dispatch e \<rparr>
       else outcome Retryable ''pre_dispatch_handler_failure'' ''Handling failed before a confirmed live dispatch and may be retried.'')"

text \<open>The times of the attempt and of its end, and the fate of the two saves.\<close>

record activity_world =
  av_uid :: string
  av_staged_at :: int
  av_attempted_at :: int
  av_concluded_at :: int
  av_stage_faults :: save_faults
  av_outcome_faults :: save_faults
  av_desktop :: desktop_world

text \<open>The second half: the entry is counted, handled, and its outcome saved if possible.\<close>

definition handle_staged :: "activity_world \<Rightarrow> desktop_storage \<Rightarrow> activity_task \<Rightarrow> outbox_entry \<Rightarrow> desktop \<Rightarrow> desktop \<times> bool option" where
  "handle_staged w ds t e d =
     (let this = entry_of_activity (at_watch_id t) (at_key t) (at_market_id t);
          d = change_entry this (attempted (av_attempted_at w)) d;
          e = attempted (av_attempted_at w) e;
          effect = handle_wallet_activity (av_desktop w) (dk_paused d) (desktop_cfg d) (dk_cache d) (at_watch_id t)
            (task_of_entry e (at_activity t));
          d = d\<lparr> dk_cache := ce_cache effect, dk_orders := dk_orders d @ ce_orders effect \<rparr> in
      case set_copy_activity_outcome (av_concluded_at w) (concluded e (ce_outcome effect)) e of
        Inl _ \<Rightarrow> (d, None)
      | Inr e' \<Rightarrow>
        let d = change_entry this (\<lambda>_. e') d; d = with_cfg (prune_copy_activity_outbox (desktop_cfg d)) d in
        (fst (save_runtime_config ds (av_outcome_faults w) d), Some True))"

text \<open>The acknowledgement tells the worker thread whether to go on; \<open>None\<close> when there is none.\<close>

definition process_wallet_activity :: "activity_world \<Rightarrow> desktop_storage \<Rightarrow> activity_task \<Rightarrow> desktop \<Rightarrow> desktop \<times> bool option" where
  "process_wallet_activity w ds t d =
     (if dk_paused d then (d, Some False)
      else
        (case stage (av_uid w) (av_staged_at w) ds (av_stage_faults w) t d of
           (d, Refused) \<Rightarrow> (d, Some False)
         | (d, Already) \<Rightarrow> (d, Some True)
         | (d, Staged) \<Rightarrow>
           (case find_copy_activity_entry (desktop_cfg d) (at_watch_id t) (at_key t) (at_market_id t) of
              None \<Rightarrow> (d, Some False)
            | Some e \<Rightarrow> handle_staged w ds t e d)))"

text \<open>The barrier a live dispatch would pass: its intent is durable before the venue is called. The handling
  above refuses live copies before it gets here.\<close>

definition before_live_dispatch :: "int \<Rightarrow> desktop_storage \<Rightarrow> save_faults \<Rightarrow> activity_task \<Rightarrow> outbox_entry \<Rightarrow> obj \<Rightarrow> desktop \<Rightarrow> desktop \<times> unit res" where
  "before_live_dispatch now ds faults t e dispatch d =
     (let this = entry_of_activity (at_watch_id t) (at_key t) (at_market_id t);
          started = e\<lparr> co_state := Ambiguous, co_outcome_code := ''live_dispatch_started'',
            co_outcome_message := ''A live dispatch was initiated; reconcile venue order history before retrying.'',
            co_dispatch := dispatch, co_updated_at := now \<rparr> in
      case save_runtime_config ds faults (change_entry this (\<lambda>_. started) d) of
        (d', Inr _) \<Rightarrow> (d', Inr ())
      | (d', Inl x) \<Rightarrow> (if commit_failed x then change_entry this (\<lambda>_. e) d' else d', Inl x))"

section \<open>The worker thread\<close>

text \<open>What it replays for a watch: what may be retried, and what was pending when the thread started.\<close>

definition replay_tasks :: "string list \<Rightarrow> string \<Rightarrow> app_config \<Rightarrow> activity_task list" where
  "replay_tasks startup_pending watch_id cfg =
     map (\<lambda>e. \<lparr> at_watch_id = watch_id, at_activity = co_activity e, at_key = co_activity_key e, at_market_id = co_market_id e \<rparr>)
       (sort_key (\<lambda>e. (co_created_at e, co_id e))
         (filter (\<lambda>e. co_watch_id e = watch_id \<and> (co_state e = Retryable \<or> (co_state e = Pending \<and> co_id e \<in> set startup_pending)))
           (cf_copy_activity_outbox cfg)))"

text \<open>The scan of a history, oldest first: the identities seen and the new activities.\<close>

definition scan_activity :: "app_config \<Rightarrow> string \<Rightarrow> string \<Rightarrow> int \<Rightarrow> obj \<Rightarrow> string list \<times> (string \<times> obj) list \<Rightarrow> (string list \<times> (string \<times> obj) list) res" where
  "scan_activity cfg watch_id market_id last_seen item st =
     (case st of (seen, new) \<Rightarrow>
        rbind (py_int (py_or (oget item ''timestamp'') (PInt 0))) (\<lambda>ts.
        let key = activity_key item; legacy = legacy_transaction_key item in
        if legacy \<noteq> [] \<and> legacy \<noteq> key \<and> legacy \<in> set seen then
          (case find_copy_activity_entry cfg watch_id legacy market_id of
             Some e \<Rightarrow> if activity_key (co_activity e) = key then Inr (seen, new)
               else raise RuntimeErr ''Legacy transaction checkpoint cannot distinguish these fills; reconcile before copying.''
           | None \<Rightarrow> raise RuntimeErr ''Legacy transaction checkpoint cannot distinguish these fills; reconcile before copying.'')
        else if key \<in> set seen then
          Inr (seen, if find_copy_activity_entry cfg watch_id key market_id \<noteq> None \<or> find_copy_activity_entry cfg watch_id key [] = None
            then new else new @ [(key, item)])
        else if last_seen \<le> ts then Inr (key # seen, new @ [(key, item)])
        else Inr (seen, new)))"

definition new_activities :: "app_config \<Rightarrow> wallet_watch \<Rightarrow> string \<Rightarrow> string \<Rightarrow> obj list \<Rightarrow> (string \<times> obj) list res" where
  "new_activities cfg w watch_id market_id items =
     (let c = cursor_for_market w market_id in
      rbind (rfold (scan_activity cfg watch_id market_id (cu_last_seen_ts c)) (rev items) (cu_seen_activity_keys c, [])) (\<lambda>st. Inr (snd st)))"

text \<open>Tasks are handled one by one until one is not acknowledged.\<close>

fun deliver_tasks :: "(nat \<Rightarrow> activity_world) \<Rightarrow> desktop_storage \<Rightarrow> nat \<Rightarrow> activity_task list \<Rightarrow> desktop \<Rightarrow> desktop" where
  "deliver_tasks world ds n [] d = d"
| "deliver_tasks world ds n (t # ts) d =
     (case process_wallet_activity (world n) ds t d of
        (d', Some True) \<Rightarrow> deliver_tasks world ds (Suc n) ts d'
      | (d', _) \<Rightarrow> d')"

end
