(* ===== verification/Desktop_Laws.thy ===== *)
theory Desktop_Laws
  imports Desktop_Outbox Web_Copy_Laws Storage_Laws
begin

text \<open>What a simulated order went through, and what staging and concluding an activity do to the outbox.\<close>

section \<open>Verdicts\<close>

lemma vbind_Go: "vbind r f = Inr (Go y) \<longleftrightarrow> (\<exists>x. r = Inr (Go x) \<and> f x = Inr (Go y))"
proof -
  have "(case v of Stop out \<Rightarrow> Inr (Stop out) | Go x \<Rightarrow> f x) = Inr (Go y) \<longleftrightarrow> (\<exists>x. v = Go x \<and> f x = Inr (Go y))" for v
    by (cases v) auto
  then show ?thesis by (auto simp: vbind_def rbind_eq_Inr)
qed

lemma refusals [simp]: "rejected code m \<noteq> Go x" "retry_later code m \<noteq> Go x"
  by (simp_all add: rejected_def retry_later_def)

lemma allow_Go: "allow b refusal = Inr (Go u) \<longleftrightarrow> b \<or> refusal = Go u"
  by (simp add: allow_def)

lemma bound_settings_Go:
  assumes "bound_settings cfg t = Inr (Go s)"
  shows "py_eq (PDict (ck_policy t)) (PDict (copy_execution_policy (cf_copytrading cfg))) \<and> copy_settings_from_dict (ck_policy t) = Inr s"
  using assms by (auto simp: bound_settings_def rbind_eq_Inr split: if_splits)

lemma copy_gates_Go:
  assumes "copy_gates paused now cfg t = Inr (Go s)"
  shows "\<not> paused \<and> replay_is_fresh now t = Inr (Go ()) \<and> source_market_of cfg t = selected_market_of cfg
    \<and> py_eq (PDict (ck_policy t)) (PDict (copy_execution_policy (cf_copytrading cfg))) \<and> copy_settings_from_dict (ck_policy t) = Inr s
    \<and> ct_enabled s \<and> followed s (selected_market_of cfg) (ck_activity t) \<and> desktop_side (ck_activity t) \<in> {''BUY'', ''SELL''}
    \<and> (desktop_side (ck_activity t) = ''SELL'' \<longrightarrow> ct_allow_sells s) \<and> desktop_token (ck_activity t) \<noteq> []"
  using assms unfolding copy_gates_def Let_def by (auto simp: vbind_Go allow_Go dest!: bound_settings_Go)

text \<open>The size and the price of a copy are within the settings.\<close>

definition order_within :: "copy_settings \<Rightarrow> obj \<Rightarrow> paper_order \<Rightarrow> bool" where
  "order_within s item po \<longleftrightarrow>
     (let maximum = fmax (flit (1 / 100)) (ct_max_usdc_per_trade s) in
      case po_limit_price po of None \<Rightarrow> False | Some price \<Rightarrow>
        \<not> fle (po_size po) (Fin 0) \<and> (po_size po = scaled_size s item \<or> flt (po_size po) (scaled_size s item))
        \<and> (if buy_budget_activity (po_market_id po) (po_side po) then \<not> flt maximum (po_size po)
           else flt (Fin 0) price \<longrightarrow> (\<exists>shares. fdiv maximum price = Inr shares \<and> \<not> flt shares (po_size po)))
        \<and> (po_market_id po \<noteq> ''azuro'' \<longrightarrow> (if po_side po = ''BUY'' then \<not> flt (Fin 1) price else \<not> flt price (Fin 0))))"

lemma desktop_limit_price_Go:
  assumes "desktop_limit_price m side odds raw best slip = Inr (Go price)" "m \<noteq> ''azuro''"
  shows "if side = ''BUY'' then \<not> flt (Fin 1) price else \<not> flt price (Fin 0)"
  using assms fmin_le_left fmax_ge_left by (auto simp: desktop_limit_price_def split: if_splits)

lemma terms_for_Go:
  assumes "terms_for s adapter m item = Inr (Go t)"
  shows "cap_copy_trading (ad_capabilities adapter) \<and> order_within s item (desktop_order m item t)"
proof -
  let ?side = "desktop_side item" and ?mx = "fmax (flit (1 / 100)) (ct_max_usdc_per_trade s)"
  obtain price sz capped where p: "desktop_limit_price m ?side (oget item ''odds'') (desktop_float (oget item ''price'') None)
        (best_prices adapter m (desktop_token item)) (fmax (Fin 0) (fmin (ct_slippage s) (Fin 1))) = Inr (Go price)"
    and c: "capped_size (buy_budget_activity m ?side) price ?mx (scaled_size s item) = Inr (sz, capped)"
    and t: "\<not> fle sz (Fin 0)" "t = \<lparr> dt_size = sz, dt_limit_price = price \<rparr>"
    and cap: "cap_copy_trading (ad_capabilities adapter)"
    using assms unfolding terms_for_def Let_def by (auto simp: vbind_Go allow_Go rbind_eq_Inr)
  show ?thesis
    using cap t(1) capped_size_Inr[OF c] desktop_limit_price_Go[OF p] by (simp add: order_within_def t(2) desktop_order_def Let_def)
qed

section \<open>Orders\<close>

lemma no_order_simps [simp]: "ce_orders (no_order cache r) = []" "ce_cache (no_order cache r) = cache" "ce_outcome (no_order cache r) = r"
  by (simp_all add: no_order_def)

lemma simulate_copy_orders [simp]: "ce_orders (simulate_copy now s adapter m item t cache) = [desktop_order m item t]"
  by (simp add: simulate_copy_def Let_def split: sum.split bool.split)

text \<open>Everything that let an order through.\<close>

definition order_allowed :: "desktop_world \<Rightarrow> bool \<Rightarrow> app_config \<Rightarrow> copy_task \<Rightarrow> paper_order \<Rightarrow> bool" where
  "order_allowed w paused cfg t po \<longleftrightarrow>
     (\<exists>s adapter. copy_gates paused (dw_now w) cfg t = Inr (Go s) \<and> \<not> ct_live s
       \<and> copy_adapter_for_market cfg (selected_market_of cfg) (dw_registry w) = Inr adapter \<and> cap_copy_trading (ad_capabilities adapter)
       \<and> po_market_id po = selected_market_of cfg \<and> po_contract_id po = desktop_token (ck_activity t)
       \<and> po_side po = desktop_side (ck_activity t) \<and> order_within s (ck_activity t) po)"

lemma copy_trade_orders:
  "ce_orders (copy_trade_from_activity w paused cfg cache t) = []
    \<or> (\<exists>po. ce_orders (copy_trade_from_activity w paused cfg cache t) = [po] \<and> order_allowed w paused cfg t po)"
proof (cases "ce_orders (copy_trade_from_activity w paused cfg cache t) = []")
  case False
  then obtain s adapter terms cache' where g: "vbind (copy_gates paused (dw_now w) cfg t) (\<lambda>s.
          rbind (copy_adapter_for_market cfg (source_market_of cfg t) (dw_registry w)) (\<lambda>adapter.
          vbind (terms_for s adapter (source_market_of cfg t) (ck_activity t)) (\<lambda>terms. Inr (Go (s, adapter, terms))))) = Inr (Go (s, adapter, terms))"
      "desktop_conflict (dw_now w) (cf_copytrading cfg) (ck_activity t) cache = Inr (False, cache')" "\<not> ct_live s"
    by (auto simp: copy_trade_from_activity_def Let_def split: sum.splits verdict.splits prod.splits bool.splits if_splits)
  then have o: "ce_orders (copy_trade_from_activity w paused cfg cache t) = [desktop_order (source_market_of cfg t) (ck_activity t) terms]"
    by (simp add: copy_trade_from_activity_def Let_def)
  have gates: "copy_gates paused (dw_now w) cfg t = Inr (Go s)"
      "copy_adapter_for_market cfg (source_market_of cfg t) (dw_registry w) = Inr adapter"
      "terms_for s adapter (source_market_of cfg t) (ck_activity t) = Inr (Go terms)"
    using g(1) by (auto simp: vbind_Go rbind_eq_Inr)
  have "source_market_of cfg t = selected_market_of cfg" using copy_gates_Go[OF gates(1)] by simp
  then have "order_allowed w paused cfg t (desktop_order (source_market_of cfg t) (ck_activity t) terms)"
    using gates g(3) terms_for_Go[OF gates(3)] by (auto simp: order_allowed_def desktop_order_def)
  then show ?thesis using o by blast
qed simp

lemma handle_orders:
  "ce_orders (handle_wallet_activity w paused cfg cache watch_id t) = []
    \<or> (\<exists>po. ce_orders (handle_wallet_activity w paused cfg cache watch_id t) = [po] \<and> order_allowed w paused cfg t po)"
  using copy_trade_orders by (auto simp: handle_wallet_activity_def split: sum.split)

text \<open>An order that was given is never followed by an exception of the handling.\<close>

lemma conflict_then_commit:
  "desktop_conflict now s item cache = Inr (b, cache') \<Longrightarrow> \<exists>c. commit_conflict now s item cache'' = Inr c"
  by (auto simp: desktop_conflict_def commit_conflict_def rbind_eq_Inr split: if_splits)

lemma ordered_outcome:
  assumes "ce_orders (handle_wallet_activity w paused cfg cache watch_id t) \<noteq> []"
  shows "\<exists>out. ce_outcome (handle_wallet_activity w paused cfg cache watch_id t) = Inr out \<and> oc_state out \<in> {Completed, Rejected, Retryable}"
proof -
  have c: "handle_wallet_activity w paused cfg cache watch_id t = copy_trade_from_activity w paused cfg cache t"
    using assms by (auto simp: handle_wallet_activity_def split: if_splits sum.splits)
  obtain adapter terms cache' where
      "desktop_conflict (dw_now w) (cf_copytrading cfg) (ck_activity t) cache = Inr (False, cache')"
      "copy_trade_from_activity w paused cfg cache t = simulate_copy (dw_now w) (cf_copytrading cfg) adapter (source_market_of cfg t) (ck_activity t) terms cache'"
    using assms unfolding c by (auto simp: copy_trade_from_activity_def Let_def split: sum.splits verdict.splits prod.splits bool.splits if_splits)
  then show ?thesis
    using conflict_then_commit[of "dw_now w" "cf_copytrading cfg" "ck_activity t" cache False cache' cache'] unfolding c
    by (auto simp: simulate_copy_def Let_def outcome_def split: sum.split bool.split)
qed

section \<open>Pruning\<close>

lemma prune_from_sub: "set (prune_from n ids es) \<subseteq> set es"
  by (induction n ids es rule: prune_from.induct) auto

lemma prune_from_length: "length (prune_from n ids es) \<le> length es"
  by (induction n ids es rule: prune_from.induct) auto

lemma prune_from_keeps: "e \<in> set es \<Longrightarrow> co_id e \<notin> set ids \<Longrightarrow> e \<in> set (prune_from n ids es)"
  by (induction n ids es rule: prune_from.induct) auto

lemma prune_short: "length (cf_copy_activity_outbox cfg) \<le> COPY_OUTBOX_HISTORY_LIMIT \<Longrightarrow> prune_copy_activity_outbox cfg = cfg"
  by (simp add: prune_copy_activity_outbox_def)

lemma conclusive_states: "conclusive e \<longleftrightarrow> co_state e \<in> {Completed, Rejected}"
  by (simp add: conclusive_def COPY_OUTBOX_CONCLUSIVE_STATES_def)

lemma unresolved_id:
  assumes "distinct (map co_id es)" "e \<in> set es" "\<not> conclusive e"
  shows "co_id e \<notin> set (map co_id (filter conclusive es))"
  using assms by (auto simp: distinct_map dest!: inj_onD)

lemma prune_keeps_unresolved:
  assumes "distinct (map co_id (cf_copy_activity_outbox cfg))" "e \<in> set (cf_copy_activity_outbox cfg)" "\<not> conclusive e"
  shows "e \<in> set (cf_copy_activity_outbox (prune_copy_activity_outbox cfg))"
  using assms unresolved_id[OF assms] by (auto simp: prune_copy_activity_outbox_def Let_def intro: prune_from_keeps)

lemma prune_length: "length (cf_copy_activity_outbox (prune_copy_activity_outbox cfg)) \<le> length (cf_copy_activity_outbox cfg)"
  by (simp add: prune_copy_activity_outbox_def Let_def prune_from_length)

lemma prune_simps [simp]:
  "cf_copytrading (prune_copy_activity_outbox cfg) = cf_copytrading cfg" "cf_wallets (prune_copy_activity_outbox cfg) = cf_wallets cfg"
  by (simp_all add: prune_copy_activity_outbox_def Let_def)

text \<open>Making room drops conclusive entries only, and enough of them.\<close>

lemma outbox_with_room_Inr:
  assumes "outbox_with_room es = Inr room" "distinct (map co_id es)"
  shows "length room < COPY_OUTBOX_HISTORY_LIMIT" "set room \<subseteq> set es" "distinct (map co_id room)"
    and "\<And>e. e \<in> set es \<Longrightarrow> \<not> conclusive e \<Longrightarrow> e \<in> set room"
proof -
  let ?n = "length es - COPY_OUTBOX_HISTORY_LIMIT + 1"
    and ?old = "sort_key (\<lambda>e. (co_updated_at e, co_created_at e, co_id e)) (filter conclusive es)"
  consider "length es < COPY_OUTBOX_HISTORY_LIMIT" "room = es"
    | "COPY_OUTBOX_HISTORY_LIMIT \<le> length es" "?n \<le> length ?old" "room = filter (\<lambda>e. co_id e \<notin> set (map co_id (take ?n ?old))) es"
    using assms(1) by (fastforce simp: outbox_with_room_def Let_def not_less split: if_splits)
  then have all: "length room < COPY_OUTBOX_HISTORY_LIMIT \<and> set room \<subseteq> set es \<and> distinct (map co_id room)
      \<and> (\<forall>e \<in> set es. \<not> conclusive e \<longrightarrow> e \<in> set room)"
  proof cases
    case 1
    then show ?thesis using assms(2) by simp
  next
    case 2
    have old: "set ?old \<subseteq> set es" by auto
    have "distinct ?old" using assms(2) by (simp add: distinct_map)
    then have card: "card (set (take ?n ?old)) = ?n" using 2(2) by (simp add: distinct_card)
    have inj: "inj_on co_id (set es)" using assms(2) by (simp add: distinct_map)
    have sub: "set (take ?n ?old) \<subseteq> set es" using set_take_subset[of ?n ?old] old by blast
    have same: "co_id e \<in> co_id ` set (take ?n ?old) \<longleftrightarrow> e \<in> set (take ?n ?old)" if "e \<in> set es" for e
      using inj_on_image_mem_iff[OF inj that sub] .
    have room: "set room = set es - set (take ?n ?old)" unfolding 2(3) using same by (auto simp: set_map)
    have "distinct room" unfolding 2(3) using assms(2) by (simp add: distinct_map)
    then have "length room = card (set es) - ?n"
      using card sub card_Diff_subset[OF finite_set sub] by (metis distinct_card room)
    moreover have "card (set es) = length es" using assms(2) by (simp add: distinct_card distinct_map)
    ultimately have "length room < COPY_OUTBOX_HISTORY_LIMIT"
      using 2(1) by (simp add: COPY_OUTBOX_HISTORY_LIMIT_def)
    moreover have "distinct (map co_id room)" unfolding 2(3) using assms(2) by (simp add: distinct_map_filter)
    moreover have "set (take ?n ?old) \<subseteq> set (filter conclusive es)" using set_take_subset[of ?n ?old] by simp
    ultimately show ?thesis unfolding room by auto
  qed
  then show "length room < COPY_OUTBOX_HISTORY_LIMIT" "set room \<subseteq> set es" "distinct (map co_id room)"
    "\<And>e. e \<in> set es \<Longrightarrow> \<not> conclusive e \<Longrightarrow> e \<in> set room" by auto
qed

section \<open>Staging\<close>

lemma cfg_simps [simp]:
  "desktop_cfg (with_cfg cfg d) = cfg" "dk_file (with_cfg cfg d) = dk_file d" "dk_paused (with_cfg cfg d) = dk_paused d"
  "dk_orders (with_cfg cfg d) = dk_orders d" "dk_cache (with_cfg cfg d) = dk_cache d"
  "sc_revision (dk_config (with_cfg cfg d)) = sc_revision (dk_config d)" "sc_config (dk_config (with_cfg cfg d)) = cfg"
  by (simp_all add: with_cfg_def desktop_cfg_def)

lemma with_cfg_same: "with_cfg (desktop_cfg d) (d\<lparr> dk_paused := b \<rparr>) = d\<lparr> dk_paused := b \<rparr>"
  by (simp add: with_cfg_def desktop_cfg_def)

lemma with_cfg_twice [simp]: "with_cfg a (with_cfg b d) = with_cfg a d"
  by (simp add: with_cfg_def)

text \<open>A save of the process: nothing but the pause, or the file of the configuration in memory.\<close>

lemma save_runtime_cases:
  assumes "save_runtime_config ds faults d = (d', r)" "\<not> dk_paused d"
  obtains (failed) e where "r = Inl e" "d' = d\<lparr> dk_paused := True \<rparr>"
  | (saved) data where "config_document (ds_fresh ds) (desktop_cfg d) = Inr data" "config_file_revision (dk_file d) = Inr (sc_revision (dk_config d))"
      "d' = d\<lparr> dk_file := Contents data, dk_config := (dk_config d)\<lparr> sc_revision := bytes_revision data \<rparr>, dk_paused := isl r \<rparr>"
      "r = Inr () \<or> (\<exists>m. r = raise ConfigCommitError m)"
proof -
  obtain f s where save: "save_config (ds_fresh ds) (ds_path ds) faults (dk_file d) (dk_config d) = (f, s, r)"
      and d': "d' = d\<lparr> dk_file := f, dk_config := s, dk_paused := isl r \<rparr>"
    using assms by (auto simp: save_runtime_config_def split: prod.splits)
  from save show thesis
  proof (cases rule: save_config_cases)
    case (1 e)
    then show thesis using failed[of e] d' by simp
  next
    case (2 data)
    then show thesis using saved[of data] d' by (simp add: desktop_cfg_def)
  qed
qed

lemma find_Some: "List.find P xs = Some x \<Longrightarrow> x \<in> set xs \<and> P x"
  by (induction xs) (auto split: if_splits)

lemma find_None: "List.find P xs = None \<longleftrightarrow> (\<forall>x \<in> set xs. \<not> P x)"
  by (induction xs) auto

lemma find_snoc: "List.find P (xs @ [x]) = (case List.find P xs of Some y \<Rightarrow> Some y | None \<Rightarrow> if P x then Some x else None)"
  by (induction xs) auto

text \<open>A task that names its market is about one entry.\<close>

definition names_market :: "activity_task \<Rightarrow> bool" where
  "names_market t \<longleftrightarrow> lower (strip (at_market_id t)) \<noteq> []"

lemma named_market: "names_market t \<Longrightarrow> task_market cfg t = lower (strip (at_market_id t))"
  by (auto simp: names_market_def task_market_def lower_def)

lemma named_entry:
  "names_market t \<Longrightarrow> entry_of_activity w k (task_market cfg t) = entry_of_activity w k (at_market_id t)"
  by (simp add: fun_eq_iff entry_of_activity_def named_market strip_lower)

abbreviation entry_for :: "activity_task \<Rightarrow> desktop \<Rightarrow> outbox_entry option" where
  "entry_for t d \<equiv> find_copy_activity_entry (desktop_cfg d) (at_watch_id t) (at_key t) (at_market_id t)"

text \<open>The configuration an activity is staged in.\<close>

definition staged_in :: "string \<Rightarrow> int \<Rightarrow> activity_task \<Rightarrow> app_config \<Rightarrow> app_config \<Rightarrow> bool" where
  "staged_in uid now t cfg cfg' \<longleftrightarrow>
     (\<exists>watch watch' room. List.find (\<lambda>x. ww_id x = PStr (at_watch_id t)) (cf_wallets cfg) = Some watch
        \<and> remember_activity watch (at_activity t) (at_key t) (task_market cfg t) = Inr watch'
        \<and> outbox_with_room (cf_copy_activity_outbox cfg) = Inr room
        \<and> cfg' = cfg\<lparr> cf_copy_activity_outbox := room @ [staged_entry uid now (task_market cfg t) t (cf_copytrading cfg)],
            cf_wallets := update_first (\<lambda>x. ww_id x = PStr (at_watch_id t)) (\<lambda>_. watch') (cf_wallets cfg) \<rparr>)"

lemma checkpoint_cases:
  assumes "apply_wallet_activity_checkpoint uid now t cfg = Inr (Some (cfg', changed))" "distinct (map co_id (cf_copy_activity_outbox cfg))"
  obtains (replay) e where "\<not> changed" "cfg' = cfg" "find_copy_activity_entry cfg (at_watch_id t) (at_key t) (task_market cfg t) = Some e"
      "co_state e \<in> {Pending, Retryable}"
  | (fresh) "changed" "find_copy_activity_entry cfg (at_watch_id t) (at_key t) (task_market cfg t) = None" "staged_in uid now t cfg cfg'"
proof -
  obtain watch where w: "List.find (\<lambda>x. ww_id x = PStr (at_watch_id t)) (cf_wallets cfg) = Some watch"
    using assms(1) by (auto simp: apply_wallet_activity_checkpoint_def split: option.splits)
  show thesis
  proof (cases "find_copy_activity_entry cfg (at_watch_id t) (at_key t) (task_market cfg t)")
    case (Some e)
    then show thesis
      using assms(1) w replay[of e]
      by (auto simp: apply_wallet_activity_checkpoint_def Let_def COPY_OUTBOX_REPLAYABLE_STATES_def split: if_splits)
  next
    case None
    obtain room watch' where r: "outbox_with_room (cf_copy_activity_outbox cfg) = Inr room"
        "remember_activity watch (at_activity t) (at_key t) (task_market cfg t) = Inr watch'" "changed"
        "cfg' = prune_copy_activity_outbox (cfg\<lparr>
               cf_copy_activity_outbox := room @ [staged_entry uid now (task_market cfg t) t (cf_copytrading cfg)],
               cf_wallets := update_first (\<lambda>x. ww_id x = PStr (at_watch_id t)) (\<lambda>_. watch') (cf_wallets cfg) \<rparr>)"
      using assms(1) w None by (auto simp: apply_wallet_activity_checkpoint_def Let_def rbind_eq_Inr split: if_splits)
    then have "cfg' = cfg\<lparr> cf_copy_activity_outbox := room @ [staged_entry uid now (task_market cfg t) t (cf_copytrading cfg)],
               cf_wallets := update_first (\<lambda>x. ww_id x = PStr (at_watch_id t)) (\<lambda>_. watch') (cf_wallets cfg) \<rparr>"
      using outbox_with_room_Inr(1)[OF r(1) assms(2)] by (simp add: prune_short)
    then show thesis using fresh None r w unfolding staged_in_def by blast
  qed
qed

text \<open>The entry that is handled: one that may be replayed, or the staged one, which is in the file.\<close>

lemma stage_Staged:
  assumes "stage uid now ds faults t d = (d1, Staged)" "\<not> dk_paused d" "names_market t"
    and "distinct (map co_id (cf_copy_activity_outbox (desktop_cfg d)))"
  obtains (replay) e where "d1 = d" "entry_for t d = Some e" "co_state e \<in> {Pending, Retryable}"
  | (fresh) e data where "entry_for t d = None" "entry_for t d1 = Some e"
      "e = staged_entry uid now (lower (strip (at_market_id t))) t (cf_copytrading (desktop_cfg d))"
      "staged_in uid now t (desktop_cfg d) (desktop_cfg d1)" "config_document (ds_fresh ds) (desktop_cfg d1) = Inr data"
      "config_file_revision (dk_file d) = Inr (sc_revision (dk_config d))" "dk_file d1 = Contents data" "\<not> dk_paused d1"
      "dk_orders d1 = dk_orders d" "dk_cache d1 = dk_cache d"
proof -
  obtain cfg' changed where cp: "apply_wallet_activity_checkpoint uid now t (desktop_cfg d) = Inr (Some (cfg', changed))"
    using assms(1) by (auto simp: stage_def split: sum.splits option.splits prod.splits)
  note named = named_entry[OF assms(3), of "at_watch_id t" "at_key t" "desktop_cfg d"]
  from cp assms(4) show thesis
  proof (cases rule: checkpoint_cases)
    case (replay e)
    then show thesis using that(1)[of e] assms(1) cp named by (simp add: stage_def find_copy_activity_entry_def)
  next
    case fresh
    obtain r where s: "save_runtime_config ds faults (with_cfg cfg' d) = (d1, Inr r)"
      using assms(1) cp fresh(1) by (auto simp: stage_def split: sum.splits prod.splits if_splits)
    then obtain data where d1: "config_document (ds_fresh ds) cfg' = Inr data" "config_file_revision (dk_file d) = Inr (sc_revision (dk_config d))"
        "dk_file d1 = Contents data" "\<not> dk_paused d1" "desktop_cfg d1 = cfg'" "dk_orders d1 = dk_orders d" "dk_cache d1 = dk_cache d"
      using assms(2) by (elim save_runtime_cases) (auto simp: desktop_cfg_def)
    let ?e = "staged_entry uid now (task_market (desktop_cfg d) t) t (cf_copytrading (desktop_cfg d))"
    obtain room where room: "outbox_with_room (cf_copy_activity_outbox (desktop_cfg d)) = Inr room"
        "cf_copy_activity_outbox cfg' = room @ [?e]"
      using fresh(3) by (auto simp: staged_in_def)
    have none: "entry_for t d = None" using fresh(2) named by (simp add: find_copy_activity_entry_def)
    then have "List.find (entry_of_activity (at_watch_id t) (at_key t) (at_market_id t)) room = None"
      using outbox_with_room_Inr(2)[OF room(1) assms(4)] by (auto simp: find_copy_activity_entry_def find_None)
    moreover have "entry_of_activity (at_watch_id t) (at_key t) (at_market_id t) ?e"
      using named_market[OF assms(3)] by (simp add: entry_of_activity_def staged_entry_def)
    ultimately have "entry_for t d1 = Some ?e" using d1(5) room(2) by (simp add: find_copy_activity_entry_def find_snoc)
    then show thesis using that(2)[OF none _ _ _ _ d1(2-4,6,7)] fresh(3) d1(1,5) named_market[OF assms(3), of "desktop_cfg d"] by simp
  qed
qed

section \<open>What a save and a change of an entry leave alone\<close>

lemma save_runtime_orders [simp]:
  "dk_orders (fst (save_runtime_config ds faults d)) = dk_orders d" "desktop_cfg (fst (save_runtime_config ds faults d)) = desktop_cfg d"
proof -
  obtain f s r where save: "save_config (ds_fresh ds) (ds_path ds) faults (dk_file d) (dk_config d) = (f, s, r)" by (metis prod_cases3)
  then have "sc_config s = sc_config (dk_config d)" by (rule save_config_cases) auto
  then show "dk_orders (fst (save_runtime_config ds faults d)) = dk_orders d"
    "desktop_cfg (fst (save_runtime_config ds faults d)) = desktop_cfg d"
    using save by (simp_all add: save_runtime_config_def desktop_cfg_def)
qed

lemma change_entry_simps [simp]:
  "dk_orders (change_entry P f d) = dk_orders d" "dk_cache (change_entry P f d) = dk_cache d" "dk_paused (change_entry P f d) = dk_paused d"
  "cf_copytrading (desktop_cfg (change_entry P f d)) = cf_copytrading (desktop_cfg d)"
  "cf_selected_market_id (desktop_cfg (change_entry P f d)) = cf_selected_market_id (desktop_cfg d)"
  "cf_copy_activity_outbox (desktop_cfg (change_entry P f d)) = update_first P f (cf_copy_activity_outbox (desktop_cfg d))"
  by (simp_all add: change_entry_def)

lemma staged_settings:
  assumes "staged_in uid now t cfg cfg'"
  shows "cf_copytrading cfg' = cf_copytrading cfg" "cf_selected_market_id cfg' = cf_selected_market_id cfg"
  using assms by (auto simp: staged_in_def)

lemma desktop_updates [simp]:
  "desktop_cfg (d\<lparr> dk_cache := c, dk_orders := os \<rparr>) = desktop_cfg d" "desktop_cfg (d\<lparr> dk_paused := b \<rparr>) = desktop_cfg d"
  by (simp_all add: desktop_cfg_def)

text \<open>The effect that the second half applies.\<close>

abbreviation effect_on :: "activity_world \<Rightarrow> activity_task \<Rightarrow> outbox_entry \<Rightarrow> desktop \<Rightarrow> copy_effect" where
  "effect_on w t e d \<equiv> handle_wallet_activity (av_desktop w) (dk_paused d)
     (desktop_cfg (change_entry (entry_of_activity (at_watch_id t) (at_key t) (at_market_id t)) (attempted (av_attempted_at w)) d))
     (dk_cache d) (at_watch_id t) (task_of_entry (attempted (av_attempted_at w) e) (at_activity t))"

lemma handle_staged_orders: "dk_orders (fst (handle_staged w ds t e d)) = dk_orders d @ ce_orders (effect_on w t e d)"
  by (simp add: handle_staged_def Let_def split: sum.split)

lemma attempted_task [simp]: "task_of_entry (attempted now e) item = task_of_entry e item"
  by (simp add: task_of_entry_def attempted_def)

lemma stage_orders: "dk_orders (fst (stage uid now ds faults t d)) = dk_orders d"
proof -
  have "dk_orders d' = dk_orders d" if "save_runtime_config ds faults (with_cfg cfg d) = (d', r)" for cfg d' r
    using save_runtime_orders(1)[of ds faults "with_cfg cfg d"] that by simp
  then show ?thesis by (auto simp: stage_def split: sum.split option.split prod.split)
qed

lemma process_orders:
  assumes "process_wallet_activity w ds t d = (d', ack)" "dk_orders d' \<noteq> dk_orders d"
  obtains d1 e where "\<not> dk_paused d" "stage (av_uid w) (av_staged_at w) ds (av_stage_faults w) t d = (d1, Staged)"
    "entry_for t d1 = Some e" "handle_staged w ds t e d1 = (d', ack)" "dk_orders d1 = dk_orders d"
    "dk_orders d' = dk_orders d @ ce_orders (effect_on w t e d1)" "ce_orders (effect_on w t e d1) \<noteq> []"
proof -
  obtain d1 s where st: "stage (av_uid w) (av_staged_at w) ds (av_stage_faults w) t d = (d1, s)" by fastforce
  have o: "dk_orders d1 = dk_orders d" using stage_orders[of "av_uid w" "av_staged_at w" ds "av_stage_faults w" t d] st by simp
  obtain e where e: "\<not> dk_paused d" "s = Staged" "entry_for t d1 = Some e" "handle_staged w ds t e d1 = (d', ack)"
    using assms st o by (auto simp: process_wallet_activity_def split: if_splits staging.splits option.splits)
  have "dk_orders d' = dk_orders d1 @ ce_orders (effect_on w t e d1)" using handle_staged_orders[of w ds t e d1] e(4) by simp
  then show thesis using that e st o assms(2) by simp
qed

lemma prune_selected [simp]: "cf_selected_market_id (prune_copy_activity_outbox cfg) = cf_selected_market_id cfg"
  by (simp add: prune_copy_activity_outbox_def Let_def)

lemma checkpoint_fields:
  assumes "apply_wallet_activity_checkpoint uid now t cfg = Inr (Some (cfg', changed))"
  shows "cf_copytrading cfg' = cf_copytrading cfg \<and> cf_selected_market_id cfg' = cf_selected_market_id cfg \<and> (changed \<or> cfg' = cfg)"
  using assms by (auto simp: apply_wallet_activity_checkpoint_def Let_def rbind_eq_Inr split: option.splits if_splits)

lemma checkpoint_settings:
  assumes "apply_wallet_activity_checkpoint uid now t cfg = Inr (Some (cfg', changed))"
  shows "cf_copytrading cfg' = cf_copytrading cfg" "selected_market_of cfg' = selected_market_of cfg"
    "source_market_of cfg' = source_market_of cfg" "\<not> changed \<Longrightarrow> cfg' = cfg"
  using checkpoint_fields[OF assms] by (simp_all add: selected_market_of_def source_market_of_def fun_eq_iff)

lemma found_entry:
  "find_copy_activity_entry cfg w k m = Some e \<Longrightarrow> e \<in> set (cf_copy_activity_outbox cfg) \<and> entry_of_activity w k m e"
  using find_Some by (simp add: find_copy_activity_entry_def)

lemma staged_config:
  assumes "stage uid now ds faults t d = (d1, Staged)"
  obtains changed where "apply_wallet_activity_checkpoint uid now t (desktop_cfg d) = Inr (Some (desktop_cfg d1, changed))"
proof -
  obtain cfg changed where cp: "apply_wallet_activity_checkpoint uid now t (desktop_cfg d) = Inr (Some (cfg, changed))"
    using assms by (auto simp: stage_def split: sum.splits option.splits prod.splits)
  have "desktop_cfg d1 = cfg"
  proof (cases changed)
    case True
    then obtain r where "save_runtime_config ds faults (with_cfg cfg d) = (d1, r)"
      using assms cp by (auto simp: stage_def split: sum.splits prod.splits if_splits)
    then show ?thesis using save_runtime_orders(2)[of ds faults "with_cfg cfg d"] by simp
  next
    case False
    then show ?thesis using assms cp checkpoint_settings(4)[OF cp] by (simp add: stage_def)
  qed
  then show thesis using cp that by blast
qed

lemma change_entry_settings [simp]:
  "selected_market_of (desktop_cfg (change_entry P f d)) = selected_market_of (desktop_cfg d)"
  "source_market_of (desktop_cfg (change_entry P f d)) = source_market_of (desktop_cfg d)"
  by (simp_all add: selected_market_of_def source_market_of_def fun_eq_iff)

lemma order_allowed_settings:
  assumes "order_allowed w paused cfg t po"
  obtains s where "\<not> ct_live s" "po_market_id po = selected_market_of cfg" "source_market_of cfg t = selected_market_of cfg"
    "po_contract_id po = desktop_token (ck_activity t)" "po_contract_id po \<noteq> []" "po_side po = desktop_side (ck_activity t)"
    "po_side po \<in> {''BUY'', ''SELL''}" "po_side po = ''SELL'' \<longrightarrow> ct_allow_sells s" "order_within s (ck_activity t) po" "ct_enabled s"
    "followed s (po_market_id po) (ck_activity t)" "copy_settings_from_dict (ck_policy t) = Inr s"
    "py_eq (PDict (ck_policy t)) (PDict (copy_execution_policy (cf_copytrading cfg)))"
proof -
  obtain s where s: "copy_gates paused (dw_now w) cfg t = Inr (Go s)" "\<not> ct_live s" "po_market_id po = selected_market_of cfg"
      "po_contract_id po = desktop_token (ck_activity t)" "po_side po = desktop_side (ck_activity t)" "order_within s (ck_activity t) po"
    using assms unfolding order_allowed_def by blast
  then show thesis using that[of s] copy_gates_Go[OF s(1)] by simp
qed

section \<open>The outbox after an activity\<close>

lemma map_update_found: "(\<And>x. List.find P xs = Some x \<Longrightarrow> g (f x) = g x) \<Longrightarrow> map g (update_first P f xs) = map g xs"
  by (induction xs) auto

lemma prune_from_ids: "distinct (map co_id es) \<Longrightarrow> distinct (map co_id (prune_from n ids es))"
  by (induction n ids es rule: prune_from.induct) (use prune_from_sub in auto, force+)

lemma prune_ids:
  "distinct (map co_id (cf_copy_activity_outbox cfg)) \<Longrightarrow> distinct (map co_id (cf_copy_activity_outbox (prune_copy_activity_outbox cfg)))"
  by (simp add: prune_copy_activity_outbox_def Let_def prune_from_ids)

lemma set_outcome_Inr:
  assumes "set_copy_activity_outcome now out e = Inr e'"
  shows "co_id e' = co_id e" "co_watch_id e' = co_watch_id e" "co_activity_key e' = co_activity_key e" "co_market_id e' = co_market_id e"
    "co_state e' = oc_state out"
  using assms by (auto simp: set_copy_activity_outcome_def split: if_splits)

lemma attempted_simps [simp]:
  "co_id (attempted now e) = co_id e" "co_watch_id (attempted now e) = co_watch_id e" "co_activity_key (attempted now e) = co_activity_key e"
  "co_market_id (attempted now e) = co_market_id e" "co_state (attempted now e) = co_state e"
  "entry_of_activity wid k m (attempted now e) = entry_of_activity wid k m e"
  by (simp_all add: attempted_def entry_of_activity_def)

lemma outbox_updated [simp]:
  "cf_copy_activity_outbox (cfg\<lparr> cf_copy_activity_outbox := es \<rparr>) = es"
  by simp

text \<open>Handling changes the entry of the activity and may prune conclusive ones.\<close>

lemma handled_outbox:
  assumes "entry_for t d = Some e" "distinct (map co_id (cf_copy_activity_outbox (desktop_cfg d)))"
    and "handle_staged w ds t e d = (d', ack)"
  obtains cfg f where "desktop_cfg d' = cfg \<or> desktop_cfg d' = prune_copy_activity_outbox cfg"
    "cf_copy_activity_outbox cfg = update_first (entry_of_activity (at_watch_id t) (at_key t) (at_market_id t)) f
       (cf_copy_activity_outbox (desktop_cfg d))"
    "\<And>x. x = e \<Longrightarrow> co_id (f x) = co_id x" "entry_of_activity (at_watch_id t) (at_key t) (at_market_id t) (f e)"
    "\<And>out. ce_outcome (effect_on w t e d) = Inr out \<Longrightarrow> oc_state out \<noteq> Pending \<Longrightarrow> co_state (f e) = oc_state out"
proof -
  let ?P = "entry_of_activity (at_watch_id t) (at_key t) (at_market_id t)" and ?e = "attempted (av_attempted_at w) e"
  let ?d = "change_entry ?P (attempted (av_attempted_at w)) d"
  let ?out = "set_copy_activity_outcome (av_concluded_at w) (concluded ?e (ce_outcome (effect_on w t e d))) ?e"
  have P: "?P e" using found_entry[OF assms(1)] by simp
  show thesis
  proof (cases ?out)
    case (Inl x)
    then have "desktop_cfg d' = desktop_cfg ?d"
      using assms(3) by (auto simp: handle_staged_def Let_def)
    moreover have "oc_state out = Pending" if "ce_outcome (effect_on w t e d) = Inr out" for out
      using Inl that by (auto simp: set_copy_activity_outcome_def concluded_def split: if_splits)
    ultimately show thesis using that[of "desktop_cfg ?d" "attempted (av_attempted_at w)"] P by auto
  next
    case (Inr e')
    note o = set_outcome_Inr[OF Inr]
    have twice: "update_first ?P (\<lambda>_. e') (update_first ?P (attempted now) xs) = update_first ?P (\<lambda>_. e') xs" for now xs
      by (induction xs) auto
    have "desktop_cfg d' = prune_copy_activity_outbox (desktop_cfg (change_entry ?P (\<lambda>_. e') ?d))"
      using assms(3) Inr by (auto simp: handle_staged_def Let_def change_entry_def dest!: arg_cong[of _ _ fst])
    then show thesis
      using that[of "desktop_cfg (change_entry ?P (\<lambda>_. e') ?d)" "\<lambda>_. e'"] o P
      by (auto simp: twice concluded_def entry_of_activity_def)
  qed
qed

section \<open>Staging and repetition\<close>

lemma stage_outbox:
  assumes "stage uid now ds faults t d = (d1, s)" "distinct (map co_id (cf_copy_activity_outbox (desktop_cfg d)))"
  shows "desktop_cfg d1 = desktop_cfg d \<or> staged_in uid now t (desktop_cfg d) (desktop_cfg d1)"
proof -
  have saved: "desktop_cfg d' = cfg" if "save_runtime_config ds faults (with_cfg cfg d) = (d', r)" for cfg d' r
    using save_runtime_orders(2)[of ds faults "with_cfg cfg d"] that by simp
  have "staged_in uid now t (desktop_cfg d) cfg"
    if "apply_wallet_activity_checkpoint uid now t (desktop_cfg d) = Inr (Some (cfg, True))" for cfg
    using that assms(2) by (cases rule: checkpoint_cases) auto
  then show ?thesis
    using assms(1) saved by (auto simp: stage_def split: sum.splits option.splits prod.splits if_splits)
qed

lemma staged_outbox:
  assumes "staged_in uid now t cfg cfg'" "distinct (map co_id (cf_copy_activity_outbox cfg))"
  obtains room where "cf_copy_activity_outbox cfg' = room @ [staged_entry uid now (task_market cfg t) t (cf_copytrading cfg)]"
    "length room < COPY_OUTBOX_HISTORY_LIMIT" "set room \<subseteq> set (cf_copy_activity_outbox cfg)" "distinct (map co_id room)"
    "\<And>e. e \<in> set (cf_copy_activity_outbox cfg) \<Longrightarrow> \<not> conclusive e \<Longrightarrow> e \<in> set room"
proof -
  obtain room where r: "outbox_with_room (cf_copy_activity_outbox cfg) = Inr room"
      "cf_copy_activity_outbox cfg' = room @ [staged_entry uid now (task_market cfg t) t (cf_copytrading cfg)]"
    using assms(1) by (auto simp: staged_in_def)
  show thesis using that[OF r(2)] outbox_with_room_Inr[OF r(1) assms(2)] by blast
qed

text \<open>What staging leaves of the outbox.\<close>

definition outbox_ok :: "app_config \<Rightarrow> bool" where
  "outbox_ok cfg \<longleftrightarrow> distinct (map co_id (cf_copy_activity_outbox cfg))"

lemma stage_keeps:
  assumes "stage uid now ds faults t d = (d1, s)" "outbox_ok (desktop_cfg d)" "uid \<notin> co_id ` set (cf_copy_activity_outbox (desktop_cfg d))"
  shows "outbox_ok (desktop_cfg d1)"
    and "length (cf_copy_activity_outbox (desktop_cfg d1)) \<le> max COPY_OUTBOX_HISTORY_LIMIT (length (cf_copy_activity_outbox (desktop_cfg d)))"
    and "\<And>e. e \<in> set (cf_copy_activity_outbox (desktop_cfg d)) \<Longrightarrow> \<not> conclusive e \<Longrightarrow> e \<in> set (cf_copy_activity_outbox (desktop_cfg d1))"
proof -
  let ?cfg = "desktop_cfg d" and ?new = "staged_entry uid now (task_market (desktop_cfg d) t) t (cf_copytrading (desktop_cfg d))"
  consider "desktop_cfg d1 = ?cfg" | room where "cf_copy_activity_outbox (desktop_cfg d1) = room @ [?new]"
      "length room < COPY_OUTBOX_HISTORY_LIMIT" "set room \<subseteq> set (cf_copy_activity_outbox ?cfg)" "distinct (map co_id room)"
      "\<And>e. e \<in> set (cf_copy_activity_outbox ?cfg) \<Longrightarrow> \<not> conclusive e \<Longrightarrow> e \<in> set room"
    using stage_outbox[OF assms(1)] staged_outbox assms(2) unfolding outbox_ok_def by metis
  then have "outbox_ok (desktop_cfg d1)
      \<and> length (cf_copy_activity_outbox (desktop_cfg d1)) \<le> max COPY_OUTBOX_HISTORY_LIMIT (length (cf_copy_activity_outbox ?cfg))
      \<and> (\<forall>e \<in> set (cf_copy_activity_outbox ?cfg). \<not> conclusive e \<longrightarrow> e \<in> set (cf_copy_activity_outbox (desktop_cfg d1)))"
  proof cases
    case 1
    then show ?thesis using assms(2) by simp
  next
    case 2
    have "co_id ?new = uid" by (simp add: staged_entry_def)
    then have "outbox_ok (desktop_cfg d1)" using 2(1,3,4) assms(3) by (auto simp: outbox_ok_def)
    then show ?thesis using 2 by auto
  qed
  then show "outbox_ok (desktop_cfg d1)"
    "length (cf_copy_activity_outbox (desktop_cfg d1)) \<le> max COPY_OUTBOX_HISTORY_LIMIT (length (cf_copy_activity_outbox ?cfg))"
    "\<And>e. e \<in> set (cf_copy_activity_outbox ?cfg) \<Longrightarrow> \<not> conclusive e \<Longrightarrow> e \<in> set (cf_copy_activity_outbox (desktop_cfg d1))" by auto
qed

text \<open>An entry whose state is conclusive or ambiguous is not handled again.\<close>

lemma settled_is_not_staged:
  assumes "entry_for t d = Some e" "co_state e \<notin> {Pending, Retryable}" "names_market t"
  shows "stage uid now ds faults t d \<noteq> (d1, Staged)"
proof
  assume "stage uid now ds faults t d = (d1, Staged)"
  then obtain cfg changed where "apply_wallet_activity_checkpoint uid now t (desktop_cfg d) = Inr (Some (cfg, changed))"
    by (auto simp: stage_def split: sum.splits option.splits prod.splits)
  then show False
    using assms named_entry[OF assms(3), of "at_watch_id t" "at_key t" "desktop_cfg d"]
    by (auto simp: apply_wallet_activity_checkpoint_def Let_def find_copy_activity_entry_def COPY_OUTBOX_REPLAYABLE_STATES_def
        split: option.splits if_splits)
qed

definition same_signal :: "activity_task \<Rightarrow> activity_task \<Rightarrow> bool" where
  "same_signal t t' \<longleftrightarrow> at_watch_id t' = at_watch_id t \<and> at_key t' = at_key t \<and> lower (strip (at_market_id t')) = lower (strip (at_market_id t))"

lemma same_entry:
  assumes "same_signal t t'"
  shows "entry_for t' d = entry_for t d"
proof -
  have "entry_of_activity (at_watch_id t') (at_key t') (at_market_id t') = entry_of_activity (at_watch_id t) (at_key t) (at_market_id t)"
    using assms by (simp add: same_signal_def entry_of_activity_def fun_eq_iff)
  then show ?thesis by (simp add: find_copy_activity_entry_def)
qed

text \<open>After its handling the entry of an activity records the outcome.\<close>

lemma handled_entry:
  assumes "entry_for t d = Some e" "outbox_ok (desktop_cfg d)" "length (cf_copy_activity_outbox (desktop_cfg d)) \<le> COPY_OUTBOX_HISTORY_LIMIT"
    and "handle_staged w ds t e d = (d', ack)" "ce_outcome (effect_on w t e d) = Inr out" "oc_state out \<noteq> Pending"
  shows "\<exists>e'. entry_for t d' = Some e' \<and> co_state e' = oc_state out"
proof -
  let ?P = "entry_of_activity (at_watch_id t) (at_key t) (at_market_id t)"
  have ids: "distinct (map co_id (cf_copy_activity_outbox (desktop_cfg d)))" using assms(2) by (simp add: outbox_ok_def)
  from handled_outbox[OF assms(1) ids assms(4)] obtain cfg f where f: "desktop_cfg d' = cfg \<or> desktop_cfg d' = prune_copy_activity_outbox cfg"
      "cf_copy_activity_outbox cfg = update_first ?P f (cf_copy_activity_outbox (desktop_cfg d))" "?P (f e)" "co_state (f e) = oc_state out"
    using assms(5,6) by metis
  have "desktop_cfg d' = cfg" using f(1,2) assms(3) by (auto simp: prune_short)
  moreover have "List.find ?P (update_first ?P f xs) = Some (f e)" if "List.find ?P xs = Some e" for xs
    using that f(3) by (induction xs) (auto split: if_splits)
  ultimately have "entry_for t d' = Some (f e)" using f(2) assms(1) by (simp add: find_copy_activity_entry_def)
  then show ?thesis using f(4) by simp
qed

lemma ordered_entry:
  assumes "process_wallet_activity w ds t d = (d', ack)" "dk_orders d' \<noteq> dk_orders d" "outbox_ok (desktop_cfg d)"
    and "av_uid w \<notin> co_id ` set (cf_copy_activity_outbox (desktop_cfg d))"
    and "length (cf_copy_activity_outbox (desktop_cfg d)) \<le> COPY_OUTBOX_HISTORY_LIMIT"
  shows "\<exists>e. entry_for t d' = Some e \<and> co_state e \<in> {Completed, Rejected, Retryable}"
proof -
  from assms(1,2) obtain d1 e where p: "stage (av_uid w) (av_staged_at w) ds (av_stage_faults w) t d = (d1, Staged)"
      "entry_for t d1 = Some e" "handle_staged w ds t e d1 = (d', ack)" "ce_orders (effect_on w t e d1) \<noteq> []"
    by (rule process_orders)
  have len: "length (cf_copy_activity_outbox (desktop_cfg d1)) \<le> COPY_OUTBOX_HISTORY_LIMIT"
    using stage_keeps(2)[OF p(1) assms(3,4)] assms(5) by simp
  obtain out where out: "ce_outcome (effect_on w t e d1) = Inr out" "oc_state out \<in> {Completed, Rejected, Retryable}"
    using ordered_outcome[OF p(4)] by blast
  then have "oc_state out \<noteq> Pending" by auto
  then show ?thesis using handled_entry[OF p(2) stage_keeps(1)[OF p(1) assms(3,4)] len p(3) out(1)] out(2) by auto
qed

end
