(* ===== verification/Desktop_Theorems.thy ===== *)
theory Desktop_Theorems
  imports Desktop_Laws Copy_Theorems Models_Copy_Laws
begin

text \<open>Properties of the copy outbox of the desktop.\<close>

section \<open>Orders\<close>


text \<open>C37: An activity is durable before it is handled. Whenever handling gives an order, the entry of the
  activity was already pending or retryable in the outbox, or it was staged for this handling: then the
  file holds the document of the configuration with the new pending entry, bound to the current
  settings, and with the cursor of the watch past the activity, and this replaced the revision that the
  process had loaded or saved last.\<close>

theorem activity_is_staged_before_it_is_handled:
  assumes "process_wallet_activity w ds t d = (d', ack)" "dk_orders d' \<noteq> dk_orders d" "names_market t"
    and "distinct (map co_id (cf_copy_activity_outbox (desktop_cfg d)))"
  shows "\<exists>d1 e. stage (av_uid w) (av_staged_at w) ds (av_stage_faults w) t d = (d1, Staged) \<and> entry_for t d1 = Some e
     \<and> handle_staged w ds t e d1 = (d', ack)
     \<and> ((d1 = d \<and> co_state e \<in> {Pending, Retryable})
       \<or> (entry_for t d = None \<and> co_state e = Pending \<and> co_execution_policy e = copy_execution_policy (cf_copytrading (desktop_cfg d))
          \<and> staged_in (av_uid w) (av_staged_at w) t (desktop_cfg d) (desktop_cfg d1)
          \<and> config_file_revision (dk_file d) = Inr (sc_revision (dk_config d))
          \<and> (\<exists>data. config_document (ds_fresh ds) (desktop_cfg d1) = Inr data \<and> dk_file d1 = Contents data)))"
proof -
  from assms(1,2) obtain d1 e where p: "\<not> dk_paused d" "stage (av_uid w) (av_staged_at w) ds (av_stage_faults w) t d = (d1, Staged)"
      "entry_for t d1 = Some e" "handle_staged w ds t e d1 = (d', ack)"
    by (rule process_orders)
  from p(2,1) assms(3,4) show ?thesis
  proof (cases rule: stage_Staged)
    case (replay e')
    then show ?thesis using p(2-4) by (intro exI[of _ d1] exI[of _ e]) simp
  next
    case (fresh e' data)
    then have "e = e'" using p(3) by simp
    then show ?thesis using p(2-4) fresh by (intro exI[of _ d1] exI[of _ e]) (auto simp: staged_entry_def)
  qed
qed

section \<open>Repetition\<close>


text \<open>C39: The outbox stays bounded and keeps what is unresolved. Handling an activity never makes the outbox longer
  than 500 entries or than it was, keeps its identifiers distinct, and keeps every other entry that is
  neither completed nor rejected as it is.\<close>

theorem outbox_keeps_unresolved:
  assumes "process_wallet_activity w ds t d = (d', ack)" "outbox_ok (desktop_cfg d)"
    and "av_uid w \<notin> co_id ` set (cf_copy_activity_outbox (desktop_cfg d))"
  shows "outbox_ok (desktop_cfg d')
     \<and> length (cf_copy_activity_outbox (desktop_cfg d')) \<le> max COPY_OUTBOX_HISTORY_LIMIT (length (cf_copy_activity_outbox (desktop_cfg d)))
     \<and> (\<forall>x \<in> set (cf_copy_activity_outbox (desktop_cfg d)). co_state x \<notin> {Completed, Rejected}
         \<and> \<not> entry_of_activity (at_watch_id t) (at_key t) (at_market_id t) x \<longrightarrow> x \<in> set (cf_copy_activity_outbox (desktop_cfg d')))"
proof -
  obtain d1 s where st: "stage (av_uid w) (av_staged_at w) ds (av_stage_faults w) t d = (d1, s)" by fastforce
  note k = stage_keeps[OF st assms(2,3)]
  consider "desktop_cfg d' = desktop_cfg d" | "desktop_cfg d' = desktop_cfg d1" | e where "entry_for t d1 = Some e" "handle_staged w ds t e d1 = (d', ack)"
    using assms(1) st by (auto simp: process_wallet_activity_def split: if_splits staging.splits option.splits)
  then show ?thesis
  proof cases
    case 1
    then show ?thesis using assms(2) by simp
  next
    case 2
    then show ?thesis using k by (simp add: conclusive_states)
  next
    case (3 e)
    let ?P = "entry_of_activity (at_watch_id t) (at_key t) (at_market_id t)" and ?es = "cf_copy_activity_outbox (desktop_cfg d1)"
    have ids: "distinct (map co_id ?es)" using k(1) by (simp add: outbox_ok_def)
    from handled_outbox[OF 3(1) ids 3(2)] obtain cfg f where f: "desktop_cfg d' = cfg \<or> desktop_cfg d' = prune_copy_activity_outbox cfg"
        "cf_copy_activity_outbox cfg = update_first ?P f ?es" "\<And>x. x = e \<Longrightarrow> co_id (f x) = co_id x" by metis
    have "map co_id (update_first ?P f ?es) = map co_id ?es"
      using 3(1) f(3) by (intro map_update_found) (simp add: find_copy_activity_entry_def)
    then have cfg: "distinct (map co_id (cf_copy_activity_outbox cfg))" "length (cf_copy_activity_outbox cfg) = length ?es"
      using ids f(2) by simp_all
    have "x \<in> set (cf_copy_activity_outbox (desktop_cfg d'))"
      if "x \<in> set (cf_copy_activity_outbox (desktop_cfg d))" "\<not> conclusive x" "\<not> ?P x" for x
      using update_first_other[where P = ?P and f = f, OF k(3)[OF that(1,2)] that(3)] f(1,2) prune_keeps_unresolved[OF cfg(1) _ that(2)]
      by auto
    then show ?thesis
      using f(1) cfg k(2) prune_ids[OF cfg(1)] prune_length[of cfg] by (auto simp: outbox_ok_def conclusive_states)
  qed
qed

section \<open>The bound policy\<close>

lemma policy_read:
  assumes ok: "copy_settings_ok s"
  shows "copy_settings_from_dict (copy_execution_policy s) = Inr s"
proof -
  let ?d = "copy_execution_policy s"
  note w = copy_settings_ok_wallets[OF ok]
  have n: "normalized_follow_wallets s = ct_follow_wallets s"
    unfolding normalized_follow_wallets_def using follow_wallets_same[OF w(3,2)] w(1,4,5) by simp
  have l: "oget_or ?d ''enabled'' v = PBool (ct_enabled s)" "oget_or ?d ''live'' v = PBool (ct_live s)"
    "oget_or ?d ''allow_sells'' v = PBool (ct_allow_sells s)" "oget_or ?d ''conflict_guard'' v = PBool (ct_conflict_guard s)"
    "oget_or ?d ''max_usdc_per_trade'' v = PFloat (ct_max_usdc_per_trade s)" "oget_or ?d ''slippage'' v = PFloat (ct_slippage s)"
    "oget_or ?d ''conflict_window_seconds'' v = PInt (ct_conflict_window_seconds s)" "oget_or ?d ''scale'' v = PFloat (ct_scale s)"
    "oget_or ?d ''follow_wallet'' v = v" "oget_or ?d ''follow_wallets'' v = PList (map PStr (ct_follow_wallets s))"
    "dget ?d ''copy_percentage'' = None" for v
    using ok by (simp_all add: copy_execution_policy_def n copy_settings_ok_def)
  have "validated_scale ?d = Inr (ct_scale s)"
    by (rule validated_scale_plain) (use ok in \<open>simp_all only: l copy_settings_ok_def\<close>)
  then have r: "validated_risk ?d = Inr (copy_risk_of s)"
    by (rule validated_risk_settings[OF ok]) (simp_all only: l)
  have ids: "rmap identity_value (PStr [] # map PStr (ct_follow_wallets s)) = Inr ([] # ct_follow_wallets s)"
    using identity_values[of "[] # ct_follow_wallets s"] w(1) by (simp add: stored_identity_def)
  have fold: "foldl add_wallet [] ([] # ct_follow_wallets s) = ct_follow_wallets s"
    using add_wallet_same[of "[]" "ct_follow_wallets s"] w(2,3) by (simp add: add_wallet_def)
  have args: "dataclass_args ''CopyTradeSettings'' copy_settings_fields [] (dpop ''copy_percentage'' ?d) = Inr ()"
    by (simp add: dataclass_args_Inr copy_execution_policy_def copy_settings_fields_def)
  show ?thesis
    unfolding copy_settings_from_dict_def r
    by (simp add: l raw_follow_wallets_def ids fold args copy_risk_of_def Let_def w(5)[symmetric] del: rmap.simps foldl_Cons)
qed

lemma py_eq_strings: "py_eq (PList (map PStr xs)) (PList (map PStr ys)) \<longleftrightarrow> xs = ys"
  by (auto simp: list_all2_conv_all_nth list_eq_iff_nth_eq)

lemma policy_determines:
  assumes "copy_settings_ok s" "copy_settings_ok s'" "py_eq (PDict (copy_execution_policy s)) (PDict (copy_execution_policy s'))"
  shows "s = s'"
proof -
  have n: "normalized_follow_wallets s = ct_follow_wallets s" if "copy_settings_ok s" for s
    unfolding normalized_follow_wallets_def
    using follow_wallets_same[OF copy_settings_ok_wallets(3,2)[OF that]] copy_settings_ok_wallets(1,4,5)[OF that] by simp
  have "ct_follow_wallets s = ct_follow_wallets s'"
    using assms(3) py_eq_strings[of "ct_follow_wallets s" "ct_follow_wallets s'"] n[OF assms(1)] n[OF assms(2)]
    by (simp add: copy_execution_policy_def del: py_eq.simps(3)) 
  moreover from this have "ct_follow_wallet s = ct_follow_wallet s'"
    using copy_settings_ok_wallets(5)[OF assms(1)] copy_settings_ok_wallets(5)[OF assms(2)] by simp
  ultimately show ?thesis
    using assms by (intro copy_settings.equality)
      (auto simp: copy_execution_policy_def copy_settings_ok_def probability_iff isfinite_iff split: if_splits)
qed

lemma policy_equal: "copy_settings_ok s \<Longrightarrow> py_eq (PDict (copy_execution_policy s)) (PDict (copy_execution_policy s))"
  using py_eq_strings[of "normalized_follow_wallets s" "normalized_follow_wallets s"]
  by (auto simp: copy_execution_policy_def copy_settings_ok_def probability_iff isfinite_iff simp del: py_eq.simps(3))

text \<open>C40: The policy an activity is bound to is the settings. The policy that is stored with an activity reads back
  as exactly the settings it was staged under, and it equals the policy of the current settings only if
  these are the same settings: no change of the settings goes unnoticed.\<close>

theorem policy_binds_the_settings:
  assumes "copy_settings_ok s" "copy_settings_ok s'"
  shows "copy_settings_from_dict (copy_execution_policy s) = Inr s
     \<and> (py_eq (PDict (copy_execution_policy s)) (PDict (copy_execution_policy s')) \<longleftrightarrow> s = s')"
  using policy_read[OF assms(1)] policy_determines[OF assms] policy_equal[OF assms(1)] by blast

section \<open>A demonstration\<close>

text \<open>An activity that was staged before a restart; it is handled now, while the configuration file cannot be locked.\<close>

definition desk_task :: activity_task where
  "desk_task = \<lparr> at_watch_id = ''w1'', at_activity = copy_demo_activity, at_key = ''k1'', at_market_id = ''manifold'' \<rparr>"

definition desk_entry :: outbox_entry where
  "desk_entry = staged_entry ''e1'' 0 ''manifold'' desk_task copy_demo_settings"

definition desk_start :: desktop where
  "desk_start = \<lparr> dk_file = Missing, dk_config = \<lparr> sc_config = copy_demo_config\<lparr> cf_copy_activity_outbox := [desk_entry] \<rparr>, sc_revision = [] \<rparr>,
     dk_paused = False, dk_cache = [], dk_orders = [] \<rparr>"

definition desk_adapter :: copy_adapter where
  "desk_adapter = copy_demo_adapter\<lparr> ad_place_paper_order := (\<lambda>_. raise UnsupportedFeatureError []) \<rparr>"

definition desk_world :: activity_world where
  "desk_world = \<lparr> av_uid = ''e2'', av_staged_at = 20, av_attempted_at = 20, av_concluded_at = 21,
     av_stage_faults = \<lparr> sf_no_lock = True, sf_not_replaced = None, sf_not_synced = None \<rparr>,
     av_outcome_faults = \<lparr> sf_no_lock = True, sf_not_replaced = None, sf_not_synced = None \<rparr>,
     av_desktop = \<lparr> dw_now = Fin 20, dw_registry = (\<lambda>_ _. Inr desk_adapter), dw_blocker = [], dw_localtime = (\<lambda>_. Inr ()) \<rparr> \<rparr>"

definition desk_terms :: desktop_terms where
  "desk_terms = \<lparr> dt_size = Fin 2, dt_limit_price = Fin 1 \<rparr>"

lemma demo_settings_ok: "copy_settings_ok copy_demo_settings"
  by (simp add: copy_settings_ok_def copy_demo_settings_def probability_def) code_simp

lemma desk_facts:
  "desktop_side copy_demo_activity = ''BUY''" "desktop_token copy_demo_activity = ''t1''" 
  "selected_market_of copy_demo_config = ''manifold''" "lower (strip ''manifold'') = ''manifold''"
  "followed copy_demo_settings ''manifold'' copy_demo_activity"
  by code_simp+

lemma desk_terms_for: "terms_for copy_demo_settings desk_adapter ''manifold'' copy_demo_activity = Inr (Go desk_terms)"
proof -
  have f: "float_of_int 2 = Inr (Fin 2)" "float_of_int 1 = Inr (Fin 1)" "to_float 2 = Fin 2"
    using float_of_int_small[of 2] float_of_int_small[of 1] to_float_numeral[of "num.Bit0 num.One"] by simp_all
  have "fl (1 / 100) \<le> 1" using fl_le[of "1 / 100" 1] f64_of_int[of 1] by simp
  then have mx: "fmax (flit (1 / 100)) (Fin 25) = Fin 25" by (simp add: fmax_def flit_def to_float_small)
  have a: "oget copy_demo_activity ''odds'' = PNone" "oget copy_demo_activity ''price'' = PInt 1" "oget copy_demo_activity ''size'' = PInt 2"
    "oget copy_demo_activity ''timestamp'' = PInt 10" "oget copy_demo_activity ''slug'' = PNone"
    by (simp_all add: copy_demo_activity_def oget_def)
  have b: "cap_copy_trading (ad_capabilities desk_adapter)" "best_prices desk_adapter ''manifold'' ''t1'' = (None, None)"
    by (simp_all add: desk_adapter_def copy_demo_adapter_def best_prices_def)
  have s: "ct_scale copy_demo_settings = Fin 1" "ct_max_usdc_per_trade copy_demo_settings = Fin 25" "ct_slippage copy_demo_settings = Fin 0"
    "\<not> ct_live copy_demo_settings"
    by (simp_all add: copy_demo_settings_def)
  show ?thesis
    by (simp add: terms_for_def desk_facts a b s desktop_float_def f desk_terms_def desktop_limit_price_def first_some_def some_or_def
      fmin_def fmax_def[of "Fin 0"] capped_size_def copy_demo_facts(5) mx Let_def vbind_def allow_def scaled_size_def)
qed

lemma desk_gates:
  assumes "cf_copytrading cfg = copy_demo_settings" "selected_market_of cfg = ''manifold''"
  shows "copy_gates False now cfg (task_of_entry desk_entry copy_demo_activity) = Inr (Go copy_demo_settings)"
proof -
  let ?t = "task_of_entry desk_entry copy_demo_activity"
  have t: "ck_market_id ?t = ''manifold''" "ck_policy ?t = copy_execution_policy copy_demo_settings" "ck_activity ?t = copy_demo_activity"
      "replay_is_fresh now ?t = Inr (Go ())"
    by (simp_all add: task_of_entry_def desk_entry_def staged_entry_def replay_is_fresh_def)
  have m: "source_market_of cfg ?t = ''manifold''" using desk_facts(4) by (simp add: source_market_of_def t)
  have p: "copy_execution_policy copy_demo_settings \<noteq> []" by (simp add: copy_execution_policy_def)
  have b: "bound_settings cfg ?t = Inr (Go copy_demo_settings)"
    using policy_equal[OF demo_settings_ok] by (simp add: bound_settings_def t p assms policy_read[OF demo_settings_ok] del: py_eq.simps)
  have s: "ct_enabled copy_demo_settings" "\<not> ct_live copy_demo_settings" by (simp_all add: copy_demo_settings_def)
  show ?thesis
    by (simp add: copy_gates_def vbind_def allow_def t m assms b s desk_facts copy_demo_facts(4))
qed

lemma desk_effect:
  assumes "cf_copytrading cfg = copy_demo_settings" "selected_market_of cfg = ''manifold''" "cf_wallets cfg = cf_wallets copy_demo_config"
  shows "ce_orders (handle_wallet_activity (av_desktop desk_world) False cfg [] ''w1'' (task_of_entry desk_entry copy_demo_activity)) \<noteq> []"
    and "\<exists>code m. ce_outcome (handle_wallet_activity (av_desktop desk_world) False cfg [] ''w1'' (task_of_entry desk_entry copy_demo_activity))
       = Inr (outcome Completed code m)"
proof -
  let ?t = "task_of_entry desk_entry copy_demo_activity" and ?w = "av_desktop desk_world"
  have t: "ck_market_id ?t = ''manifold''" "ck_activity ?t = copy_demo_activity"
    by (simp_all add: task_of_entry_def desk_entry_def staged_entry_def)
  have m: "source_market_of cfg ?t = ''manifold''" using desk_facts(4) by (simp add: source_market_of_def t)
  have f: "\<not> filtered_out cfg ''w1'' copy_demo_activity"
    by (simp add: filtered_out_def assms(3) copy_demo_config_def copy_wallet_def)
  have ts: "py_int (py_or (oget copy_demo_activity ''timestamp'') (PInt 0)) = Inr 10"
    by (simp add: copy_demo_activity_def oget_def py_or_def)
  have d: "dw_localtime ?w = (\<lambda>_. Inr ())" "copy_adapter_for_market cfg ''manifold'' (dw_registry ?w) = Inr desk_adapter"
    by (simp_all add: desk_world_def copy_adapter_for_market_def)
  have live: "\<not> ct_live copy_demo_settings" by (simp add: copy_demo_settings_def)
  obtain b cache where c: "desktop_conflict (dw_now ?w) copy_demo_settings copy_demo_activity [] = Inr (b, cache)" "\<not> b"
  proof -
    have k: "copy_trade_guard_key copy_demo_activity \<noteq> []" "ct_conflict_guard copy_demo_settings" by code_simp+
    have "desktop_float (oget copy_demo_activity ''timestamp'') (Some (Fin 20)) = Some (Fin 10)"
      using float_of_int_small[of 10] by (simp add: copy_demo_activity_def oget_def desktop_float_def)
    then have "cache_time (dw_now ?w) copy_demo_activity = Inr (rat_trunc 10)"
      by (simp add: cache_time_def desk_world_def some_or_def)
    then show thesis using that k by (simp add: desktop_conflict_def drop_stale_def Let_def)
  qed
  obtain c' where c': "commit_conflict (dw_now ?w) copy_demo_settings copy_demo_activity cache = Inr c'"
    using conflict_then_commit[OF c(1)] by blast
  have "handle_wallet_activity ?w False cfg [] ''w1'' ?t
      = simulate_copy (dw_now ?w) copy_demo_settings desk_adapter ''manifold'' copy_demo_activity desk_terms cache"
    using c by (simp add: handle_wallet_activity_def t f ts d copy_trade_from_activity_def m desk_gates[OF assms(1,2)] vbind_def desk_terms_for
      assms(1) live)
  then show "ce_orders (handle_wallet_activity ?w False cfg [] ''w1'' ?t) \<noteq> []"
    "\<exists>code m. ce_outcome (handle_wallet_activity ?w False cfg [] ''w1'' ?t) = Inr (outcome Completed code m)"
    using c' by (auto simp: simulate_copy_def Let_def desk_adapter_def)
qed

text \<open>The handling of the demonstration: nothing is staged, one order is given.\<close>

lemma desk_stage: "stage uid now ds faults desk_task desk_start = (desk_start, Staged)"
proof -
  have cfg: "desktop_cfg desk_start = copy_demo_config\<lparr> cf_copy_activity_outbox := [desk_entry] \<rparr>"
    by (simp add: desk_start_def desktop_cfg_def)
  have n: "names_market desk_task" by code_simp
  have e: "entry_for desk_task desk_start = Some desk_entry" "co_state desk_entry = Pending"
    using desk_facts(4) by (simp_all add: cfg find_copy_activity_entry_def entry_of_activity_def desk_entry_def staged_entry_def desk_task_def)
  have w: "List.find (\<lambda>x. ww_id x = PStr (at_watch_id desk_task)) (cf_wallets (desktop_cfg desk_start)) = Some (copy_wallet ''w1'' ''manifold:alice'')"
    by (simp add: cfg copy_demo_config_def copy_wallet_def desk_task_def)
  show ?thesis
    using named_entry[OF n, of "at_watch_id desk_task" "at_key desk_task" "desktop_cfg desk_start"] e
    by (simp add: stage_def apply_wallet_activity_checkpoint_def w Let_def find_copy_activity_entry_def COPY_OUTBOX_REPLAYABLE_STATES_def)
qed

lemma desk_entry_for: "entry_for desk_task desk_start = Some desk_entry"
  using desk_facts(4)
  by (simp add: desk_start_def desktop_cfg_def find_copy_activity_entry_def entry_of_activity_def desk_entry_def staged_entry_def desk_task_def)

definition desk_storage :: desktop_storage where
  "desk_storage = \<lparr> ds_fresh = (\<lambda>k i. ([], 0)), ds_path = ''config.json'' \<rparr>"

abbreviation desk_run :: "desktop \<Rightarrow> desktop \<times> bool option" where
  "desk_run d \<equiv> process_wallet_activity desk_world desk_storage desk_task d"

abbreviation desk_end :: desktop where
  "desk_end \<equiv> fst (desk_run desk_start)"

lemma desk_settings: "cf_copytrading (desktop_cfg desk_start) = copy_demo_settings" "selected_market_of (desktop_cfg desk_start) = ''manifold''"
  "cf_wallets (desktop_cfg desk_start) = cf_wallets copy_demo_config" "\<not> dk_paused desk_start" "dk_cache desk_start = []" "dk_orders desk_start = []"
  using desk_facts(3) by (simp_all add: desk_start_def desktop_cfg_def copy_demo_config_def selected_market_of_def)

lemma change_entry_wallets [simp]: "cf_wallets (desktop_cfg (change_entry P f d)) = cf_wallets (desktop_cfg d)"
  by (simp add: change_entry_def)

lemma desk_staged: "desk_run desk_start = handle_staged desk_world desk_storage desk_task desk_entry desk_start"
  by (simp add: process_wallet_activity_def desk_settings desk_stage desk_entry_for)

lemma desk_result:
  "ce_orders (effect_on desk_world desk_task desk_entry desk_start) \<noteq> []"
  "\<exists>code m. ce_outcome (effect_on desk_world desk_task desk_entry desk_start) = Inr (outcome Completed code m)"
proof -
  have t: "at_watch_id desk_task = ''w1''" "at_activity desk_task = copy_demo_activity" by (simp_all add: desk_task_def)
  show "ce_orders (effect_on desk_world desk_task desk_entry desk_start) \<noteq> []"
    "\<exists>code m. ce_outcome (effect_on desk_world desk_task desk_entry desk_start) = Inr (outcome Completed code m)"
    using desk_effect by (simp_all add: t desk_settings)
qed

lemma desk_order: "dk_orders desk_end \<noteq> dk_orders desk_start"
  using desk_result(1) handle_staged_orders[of desk_world desk_storage desk_task desk_entry desk_start] by (simp add: desk_staged)

lemma desk_ok: "outbox_ok (desktop_cfg desk_start)" "av_uid desk_world \<notin> co_id ` set (cf_copy_activity_outbox (desktop_cfg desk_start))"
  "length (cf_copy_activity_outbox (desktop_cfg desk_start)) \<le> COPY_OUTBOX_HISTORY_LIMIT" "names_market desk_task"
proof -
  show "names_market desk_task" by code_simp
qed (simp_all add: outbox_ok_def desk_start_def desktop_cfg_def desk_world_def desk_entry_def staged_entry_def COPY_OUTBOX_HISTORY_LIMIT_def)

lemma desk_completed: "\<exists>e. entry_for desk_task desk_end = Some e \<and> co_state e = Completed"
proof -
  obtain code m where o: "ce_outcome (effect_on desk_world desk_task desk_entry desk_start) = Inr (outcome Completed code m)"
    using desk_result(2) by blast
  have h: "handle_staged desk_world desk_storage desk_task desk_entry desk_start = (desk_end, snd (desk_run desk_start))"
    by (simp add: desk_staged)
  show ?thesis using handled_entry[OF desk_entry_for desk_ok(1,3) h o] by (simp add: outcome_def)
qed


theorem activity_is_staged_before_it_is_handled_witness:
  "handle_staged desk_world desk_storage desk_task desk_entry desk_start = desk_run desk_start"
  using activity_is_staged_before_it_is_handled[of desk_world desk_storage desk_task desk_start desk_end "snd (desk_run desk_start)"]
    desk_order desk_ok(1,4)
  by (auto simp: outbox_ok_def desk_stage desk_entry_for)


theorem outbox_keeps_unresolved_witness:
  "length (cf_copy_activity_outbox (desktop_cfg desk_end)) \<le> 500"
proof -
  have "length (cf_copy_activity_outbox (desktop_cfg desk_start)) = 1" by (simp add: desk_start_def desktop_cfg_def)
  then show ?thesis
    using outbox_keeps_unresolved[of desk_world desk_storage desk_task desk_start desk_end "snd (desk_run desk_start)"] desk_ok(1,2)
    by (simp add: COPY_OUTBOX_HISTORY_LIMIT_def)
qed

theorem policy_binds_the_settings_witness:
  "\<not> py_eq (PDict (copy_execution_policy copy_demo_settings)) (PDict (copy_execution_policy (copy_demo_settings\<lparr> ct_scale := Fin 0 \<rparr>)))"
proof -
  have "copy_settings_ok (copy_demo_settings\<lparr> ct_scale := Fin 0 \<rparr>)"
    using demo_settings_ok by (simp add: copy_settings_ok_def probability_def)
  moreover have "copy_demo_settings \<noteq> copy_demo_settings\<lparr> ct_scale := Fin 0 \<rparr>" by (simp add: copy_demo_settings_def)
  ultimately show ?thesis using policy_binds_the_settings[OF demo_settings_ok] by blast
qed

end
