(* ===== verification/Observations.thy ===== *)
theory Observations
  imports Config_Reading Storage_Laws Web_Alerts Web_Wallets
begin

text \<open>
  Behaviours at the edges of the components that their callers may not expect: configurations that load
  but cannot be saved or change on the way, an alert that no price reaches, and a cursor that outlives
  the wallet it was made for.
\<close>

section \<open>More venues than a configuration may name\<close>

text \<open>Reading adds the catalogue to the stored venues, so that a file within the capacity may load as a
  configuration beyond it. No save of that configuration succeeds.\<close>

lemma app_config_to_dict_markets:
  "app_config_to_dict cfg = Inr d \<Longrightarrow> \<exists>ms. oget_or d ''markets'' (PDict []) = PDict ms \<and> length ms = length (cf_markets cfg)"
  by (auto simp: app_config_to_dict_def rbind_eq_Inr named_configs_def dest: rmap_Inr_length)

lemma crowded_config_is_not_saved:
  assumes "MAX_MARKET_CONFIGS < length (cf_markets cfg)"
  shows "isl (config_document fresh cfg)"
proof (cases "config_document fresh cfg")
  case (Inr data)
  then obtain d cfg' where d: "app_config_to_dict cfg = Inr d" "app_config_from_dict fresh (PDict d) = Inr cfg'"
    by (auto simp: config_document_def rbind_eq_Inr)
  then have "\<exists>ms. read_markets d = Inr ms"
    unfolding app_config_from_dict_def pyval.case by (elim rbind_InrE) blast
  then show ?thesis using app_config_to_dict_markets[OF d(1)] assms by (auto simp: read_markets_def)
qed simp

definition extra_venues :: "nat \<Rightarrow> (string, market_config) dict" where
  "extra_venues n = map (\<lambda>i. let k = replicate (Suc i) (CHR ''~'') in
     (k, \<lparr> mc_market_id = k, mc_enabled = False, mc_settings = [] \<rparr>)) [0..<n]"

lemma catalogue_venue: "m \<in> set MARKET_IDS \<Longrightarrow> hd m \<noteq> CHR ''~''"
proof -
  have "list_all (\<lambda>m. hd m \<noteq> CHR ''~'') MARKET_IDS" unfolding MARKET_IDS_list by simp
  then show "m \<in> set MARKET_IDS \<Longrightarrow> hd m \<noteq> CHR ''~''" by (auto simp: list_all_iff)
qed

lemma crowded_file_is_read:
  assumes "n \<le> MAX_MARKET_CONFIGS"
  shows "read_markets [(''markets'', PDict (map market_entry (extra_venues n)))] = Inr (default_market_configs @ extra_venues n)"
proof -
  have keys: "keys (extra_venues n) = map (\<lambda>i. replicate (Suc i) (CHR ''~'')) [0..<n]"
    by (simp add: extra_venues_def Let_def comp_def)
  have "replicate (Suc i) (CHR ''~'') \<notin> set MARKET_IDS" for i using catalogue_venue[of "replicate (Suc i) (CHR ''~'')"] by auto
  then have apart: "set (keys default_market_configs) \<inter> set (keys (extra_venues n)) = {}"
    unfolding default_keys keys by (auto simp del: replicate_Suc)
  have "inj_on (\<lambda>i. replicate (Suc i) (CHR ''~'')) {0..<n}" by (intro inj_onI) (metis Suc_inject length_replicate)
  then have "distinct (keys (extra_venues n))" unfolding keys by (simp only: distinct_map distinct_upt set_upt simp_thms)
  moreover have "distinct (keys default_market_configs)" unfolding default_keys MARKET_IDS_list by simp
  moreover have "validated_settings (PDict []) = Inr []"
    by (simp add: validated_settings_def MARKET_SAFETY_BOOLEAN_FIELDS_def MARKET_SAFETY_LIMIT_FIELDS_def safety_boolean_def safety_limit_def has_key_def)
  ultimately have "rfold read_market (map market_entry (extra_venues n)) (default_market_configs @ []) = Inr (default_market_configs @ extra_venues n)"
    using apart by (intro rfold_read_market) (auto simp: extra_venues_def list_all_iff Let_def)
  moreover have "length (extra_venues n) = n" by (simp add: extra_venues_def)
  ultimately show ?thesis using assms by (simp add: read_markets_def)
qed

section \<open>A trade without a venue\<close>

text \<open>A stored venue of blanks is read as the empty venue, which the next read replaces by the default one.\<close>

lemma blank_venue_moves:
  assumes "paper_trade_from_dict uid now d = Inr t" "oget d ''market_id'' = PStr '' ''"
    and "paper_trade_from_dict uid' now' (paper_trade_to_dict t) = Inr t'"
  shows "pt_market_id t = [] \<and> pt_market_id t' = DEFAULT_MARKET_ID"
proof -
  have "market_id_text d = []" using assms(2) by (simp add: market_id_text_def py_or_def strip_def is_space_def lower_def)
  then have t: "pt_market_id t = []" using assms(1) by (auto simp: paper_trade_from_dict_def rbind_eq_Inr)
  have "market_id_text (paper_trade_to_dict t) = DEFAULT_MARKET_ID"
    by (simp add: market_id_text_def paper_trade_to_dict_def t py_or_def DEFAULT_MARKET_ID_def lower_def lower_char_def strip_def is_space_def)
  then show ?thesis using t assms(3) by (auto simp: paper_trade_from_dict_def rbind_eq_Inr)
qed

section \<open>An alert that no price reaches\<close>

text \<open>Prices are kept and evaluated under the stripped contract; the reader of alerts keeps the blanks
  around a token.\<close>

lemma padded_token_is_never_evaluated:
  assumes "strip (pa_token_id a) \<noteq> pa_token_id a"
  shows "evaluate_one (price_state_key market_id contract_id) vs uid now a = Inr (a, None)"
  using assms by (auto simp: evaluate_one_def watches_def price_state_key_def)

section \<open>A cursor that outlives its wallet\<close>

text \<open>An edit that replaces the address of a watch keeps everything that was consumed for the old one.\<close>

lemma edited_watch_keeps_cursor:
  assumes "update_wallet_watch cfg wallet_id payload = Inr (cfg', w')" "find_wallet cfg wallet_id = Inr w"
  shows "cursor_for_market w' m = cursor_for_market w m"
  using assms by (auto simp: update_wallet_watch_def rbind_eq_Inr Let_def edited_wallet_def cursor_for_market_def split: if_splits)

end
