(* ===== verification/Spec2Isabelle.thy ===== *)
theory Spec2Isabelle
  imports Web_Dispatch Models_Copy_Laws Config_Theorems Alert_Theorems Mutation_Theorems Paper_Theorems Durable_Theorems Activity_Theorems Copy_Theorems
    Analytics_Theorems Live_Theorems Storage_Theorems Worker_Theorems Admission_Theorems Desktop_Theorems Observations
begin

text \<open>
  \<^bold>\<open>MarketSentinel: a verification development of its core.\<close>

  \<^bold>\<open>The program.\<close> MarketSentinel watches prediction markets. One durable configuration file holds price
  alerts, notifications, paper trades, watched wallets, copy-trade settings, a copy outbox, a journal of
  mutations and the settings of every venue. A local HTTP server (\<open>web_api.py\<close>) and an unattended worker
  (\<open>core/unattended_worker.py\<close>) load it, change it and save it by compare and replace
  (\<open>core/storage.py\<close>). A request that creates or executes something carries an idempotency key; the
  server records the request in the journal before it acts, and answers a repetition from the journal.
  Venue adapters do the network work behind a guard they all share (\<open>market_adapters/base.py\<close>).

  \<^bold>\<open>Values and effects.\<close> A function that may raise returns \<open>'a res\<close>: \<open>Inl\<close> the exception with its kind and
  text, \<open>Inr\<close> the value (\<open>Prelude\<close>). State is passed explicitly. A dictionary is an association list in
  insertion order, since the program prints and evicts in that order. \<open>PyFloat\<close> is binary64 with rounding
  to nearest even, with both infinities and NaN but one zero; \<open>PyStr\<close>, \<open>PyVal\<close> and \<open>PyJson\<close> are the parts
  of \<open>str\<close>, of dynamic values and of the JSON writer that the code uses; \<open>Sha256\<close> is the digest itself.

  \<^bold>\<open>Theories and code.\<close>
  \<^item> \<open>Catalog\<close>: \<open>market_adapters/catalog.py\<close>, \<open>expanded_catalog.py\<close>, \<open>types.py\<close>, one definition per row.
  \<^item> \<open>Models_Validate\<close>, \<open>Models_Records\<close>, \<open>Models_Journal\<close>, \<open>Models_Config\<close>: \<open>core/models.py\<close>, from the
    field validators over the records with their \<open>from_dict\<close> and \<open>to_dict\<close> to \<open>AppConfig\<close>. \<open>Models_Laws\<close>,
    \<open>Models_Copy_Laws\<close>, \<open>Config_Roundtrip\<close> and \<open>Config_Reading\<close> prove the round trip of every record and of
    the whole, through the locales \<open>durable_record\<close> and \<open>checked_record\<close>; \<open>Models_Config_Laws\<close> treats both
    bounded histories as instances of the locale \<open>eviction\<close>. Properties: \<open>Config_Theorems\<close>, \<open>Durable_Theorems\<close>.
  \<^item> \<open>Config_Security\<close>: \<open>core/config_security.py\<close>, what may not be persisted. \<open>Web_Common\<close>: redaction.
  \<^item> \<open>Storage\<close>: \<open>load_config\<close> and \<open>save_config\<close> of \<open>core/storage.py\<close>, once as functions and once as a step
    relation of any number of processes. \<open>Storage_Laws\<close> interprets the locales \<open>revisioned_store\<close> (what a
    client relies on) and \<open>exclusive\<close> (\<open>Interleaving\<close>: one holder of a lock). Properties: \<open>Storage_Theorems\<close>.
  \<^item> \<open>Web_Idempotency\<close>, \<open>Web_Mutations\<close>, \<open>Web_Dispatch\<close>: key, request identity, preparation, barrier,
    execution, outcome and reconciliation of \<open>_handle_mutation\<close> and its helpers, and the system of handlers
    with crashes, failed saves and other writers. Properties: \<open>Mutation_Theorems\<close> and this theory.
  \<^item> \<open>Web_Alerts\<close> (\<open>_Laws\<close>, \<open>Alert_Theorems\<close>): alerts and their evaluation.
  \<^item> \<open>Paper_Accounting\<close>, \<open>Paper_Reports\<close>, \<open>Web_Paper\<close>: \<open>core/paper_accounting.py\<close> and the paper routes.
    \<open>Paper_Laws\<close> keeps the invariant of a row, \<open>Paper_Exact\<close> compares with exact integers. Properties:
    \<open>Paper_Theorems\<close>.
  \<^item> \<open>Activity_Identity\<close>, \<open>Activity_Feed\<close>, \<open>Activity_Cursor\<close>: \<open>core/wallet_activity.py\<close>. \<open>Web_Polling\<close> and
    \<open>Web_Poll_Route\<close>: the poll and the route that commits its cursors. \<open>Activity_Feed_Laws\<close> and
    \<open>Web_Polling_Laws\<close> follow a fill from the feed into the batch. Properties: \<open>Activity_Theorems\<close>.
  \<^item> \<open>Web_Wallets\<close>, \<open>Web_Copy\<close> with their laws: identities and watches, copy settings, conflict guard, previews.
    Properties: \<open>Copy_Theorems\<close>.
  \<^item> \<open>Live_Adapter\<close> (\<open>Live_Laws\<close>, \<open>Live_Theorems\<close>): the shared guard of a live order. \<open>Support_Matrix\<close> and
    \<open>Web_Live\<close>: \<open>support_matrix.py\<close>, \<open>capability_audit.py\<close> and the market and safety views.
  \<^item> \<open>Drawdown\<close> (\<open>Drawdown_Laws\<close>, \<open>Analytics_Theorems\<close>): \<open>polymarket/drawdown.py\<close>.
  \<^item> \<open>Worker_State\<close>, \<open>Worker_Run\<close> (\<open>Worker_Laws\<close>, \<open>Json_Size\<close>, \<open>Worker_Theorems\<close>): telemetry, attempts, retries and
    status of the worker, whose tasks are the alert refresh and the wallet poll above.
  \<^item> \<open>Web_Admission\<close> (\<open>Web_Admission_Laws\<close>, \<open>Admission_Theorems\<close>): \<open>AuthFailureLimiter\<close>, \<open>HttpRequestMetrics\<close>, the
    slots of \<open>ReactGuiServer\<close> and its drain, with the interleaving of the serving threads.
  \<^item> \<open>Desktop_Copy\<close>, \<open>Desktop_Outbox\<close> (\<open>Desktop_Laws\<close>, \<open>Desktop_Theorems\<close>): the copy outbox of \<open>app.py\<close>. An activity is
    staged in the saved configuration, handled by \<open>_copy_trade_from_activity\<close>, and its outcome saved; with the
    live barrier and what the worker thread replays, scans and delivers.
  \<^item> \<open>Observations\<close>: behaviours at the edges that a caller may not expect.

  \<^bold>\<open>How the parts meet.\<close> A handler of \<open>Web_Dispatch\<close> keeps the configuration it loaded or saved last, and its
  save is one step that requires the file to hold exactly that. \<open>Storage\<close> shows what stands behind this
  step: the code compares the SHA-256 of the bytes, under a lock, and the only outcomes are a refusal
  that changes nothing, the replacement, and the replacement reported as uncertain. So the step is the
  code's save up to collisions of the digest; the uncertain commit is the alternative phase of \<open>barrier\<close>.
  A handler runs its steps while \<open>Web_Admission\<close> has it in the phase \<open>Executing\<close>. \<open>Web_Poll_Route\<close> returns
  the configuration that is saved together with the receipt of the batch, and the worker's alert task
  ends in \<open>save_config\<close>.

  \<^bold>\<open>What is shown.\<close> No duplicate effect: an adapter is called for a key at most once, plus once per
  authorized retry and per eviction of a resolved entry; a copied activity is durable before it is
  ordered, and not ordered again. No loss: unresolved entries, unread
  notifications, fills and saves survive. Exact persistence: what is loaded is well formed, what is
  saved is restored. Guards: a live order, a copy preview, a stored result and a reconciliation pass only
  if every configured condition holds. References: float accounting against exact sums, the one-pass
  drawdown against all pairs, the limiter against the sliding window, windowed reading against the whole
  history. Progress: polls drain a history, readers end, a drain ends. Each property with hypotheses is
  followed by a witness, a concrete run of the model.

  \<^bold>\<open>Bounds and fuel.\<close> Capacities are the code's constants (10000 alerts, 1000 notifications, 256 journal
  entries, 512 venues, a 16 MiB configuration, 64 KiB of worker state, 256 KiB of a stored result).
  Recursions follow the data; the readers of activity recurse on the request budget the code itself
  counts (their termination property shows how many requests suffice), the worker on the attempts left.
  \<open>whole_share_positions_are_exact\<close> needs integers below \<open>2 ^ 53\<close>, hence a turnover of at most \<open>10 ^ 11\<close>
  with six decimals; \<open>drawdown_equals_reference\<close> needs samples below \<open>2 ^ 500\<close>, so that no sum overflows.

  \<^bold>\<open>Arguments of the model.\<close> Venue adapters and their registry, activity feeds, the JSON decoder, clocks,
  fresh identifiers, process outcomes and file-system faults are arguments of the definitions that use
  them; hypotheses about them appear in the statements. Strings have code points up to 255; a zero has
  no sign; dictionary keys that are not strings do not occur in JSON; \<open>str\<close> of an integer has no limit of
  4300 digits; an empty \<open>sum\<close> of floats is the integer zero of Python, printed as such where it is shown;
  a file is read at one instant. Prose that only documents a row or a report is left out or an argument.

  \<^bold>\<open>Not modelled.\<close> The Tk interface (\<open>app.py\<close>) beside its copy outbox, the command line (\<open>market_sentinel_cli.py\<close>), the repository
  verifier and the operational scripts drive the operations above or surround them; the venue and
  Polymarket clients translate to third-party protocols; the report store and its caches, TLS and the
  deployment identity are file, socket and certificate handling; static files, the Prometheus text and
  argument parsing of the server and the worker are presentation.
\<close>

section \<open>Live dispatch\<close>

text \<open>C1: At most once per authorization. In every state that the handlers, crashes, failed or
  uncertain saves, concurrent writers and the operator can reach, the venue adapter has been
  called for an idempotency key at most once, plus once for each retry the operator authorized
  for it, plus once for each time its resolved entry was evicted from the full journal.\<close>

theorem at_most_once_dispatch:
  "sys_reach ops views s \<Longrightarrow>
     count_list (sy_calls s) k \<le> 1 + count_list (sy_evicted s) k + count_list (sy_authorised s) k"
proof -
  assume "sys_reach ops views s"
  then have "dispatch_bound k s" using dispatch_inv_reach by (simp add: dispatch_inv_def)
  then show ?thesis by (simp add: dispatch_bound_def present_def split: if_splits)
qed

text \<open>C5: Write-ahead. A key for which the adapter was called is in the durable journal, or was
  there and has been evicted.\<close>

theorem dispatch_is_recorded:
  "sys_reach ops views s \<Longrightarrow> k \<in> set (sy_calls s)
     \<Longrightarrow> k \<in> mj_key_hash ` set (cf_mutation_journal (sy_disk s)) \<or> k \<in> set (sy_evicted s)"
  using traced_reach[of ops views s k] by (auto simp: concerned_def recorded_def present_def split: if_splits)

text \<open>C4: No step of the system loses an entry whose outcome is unresolved (pending, ambiguous or
  authorized for a retry).\<close>

theorem unresolved_entries_survive:
  "sys_reach ops views s \<Longrightarrow> sys_step ops views s t \<Longrightarrow> e \<in> set (cf_mutation_journal (sy_disk s))
     \<Longrightarrow> mj_state e \<notin> {Completed, Rejected}
     \<Longrightarrow> \<exists>e' \<in> set (cf_mutation_journal (sy_disk t)). mj_id e' = mj_id e \<and> mj_key_hash e' = mj_key_hash e"
  using unresolved_kept dispatch_inv_reach by blast

subsection \<open>A live cancellation, step by step\<close>

definition dispatched_system :: system where
  "dispatched_system = \<lparr> sy_disk = armed_config, sy_procs = [Called armed_config live_entry UnknownError],
     sy_calls = [mutation_key_hash ''key-1''], sy_authorised = [], sy_evicted = [] \<rparr>"

lemma dispatched_reach: "sys_reach sample_ops sample_views dispatched_system"
proof -
  let ?s0 = "\<lparr> sy_disk = sample_config, sy_procs = replicate 1 Idle, sy_calls = [], sy_authorised = [], sy_evicted = [] \<rparr>"
  have j: "cf_mutation_journal sample_config = []" by (simp add: sample_config_def default_app_config_def)
  have r0: "sys_reach sample_ops sample_views ?s0" by (rule sys_reach.start) (simp_all add: j)
  have "is_general_durable_mutation (rq_method sample_request) (rq_path sample_request)"
    using sample_live sample_route(2) by (simp add: is_general_durable_mutation_def sample_request_def)
  then have "sys_reach sample_ops sample_views (set_phase 0 (Loaded (sy_disk ?s0) sample_request) ?s0)"
    by (intro sys_reach.step[OF r0 sys_step.load]) simp_all
  then have r1: "sys_reach sample_ops sample_views (set_phase 0 (Loaded sample_config sample_request) ?s0)" by simp
  have r2: "sys_reach sample_ops sample_views (set_phase 0 (Armed armed_config live_entry)
      (commit armed_config (set_phase 0 (Loaded sample_config sample_request) ?s0)))"
    by (rule sys_reach.step[OF r1 sys_step.barrier[OF _ _ _ sample_prepare]]) (simp_all add: set_phase_def j)
  have r3: "sys_reach sample_ops sample_views (set_phase 0 (Called armed_config live_entry UnknownError)
     ((set_phase 0 (Armed armed_config live_entry)
      (commit armed_config (set_phase 0 (Loaded sample_config sample_request) ?s0)))
        \<lparr> sy_calls := [] @ [mj_key_hash live_entry] \<rparr>))"
    using sys_reach.step[OF r2 sys_step.call[of 0 _ armed_config live_entry]] by (simp add: set_phase_def commit_def)
  then show ?thesis
    by (simp add: set_phase_def commit_def dispatched_system_def dropped_keys_def j live_entry_def)
qed

theorem at_most_once_dispatch_witness:
  "count_list (sy_calls dispatched_system) (mutation_key_hash ''key-1'') = 1
     \<and> count_list (sy_calls dispatched_system) (mutation_key_hash ''key-1'') \<le> 1 + 0 + 0"
  using at_most_once_dispatch[OF dispatched_reach, of "mutation_key_hash ''key-1''"] by (simp add: dispatched_system_def)

theorem dispatch_is_recorded_witness:
  "mutation_key_hash ''key-1'' \<in> mj_key_hash ` set (cf_mutation_journal armed_config)"
  using dispatch_is_recorded[OF dispatched_reach, of "mutation_key_hash ''key-1''"] by (simp add: dispatched_system_def)

theorem unresolved_entries_survive_witness:
  "\<exists>e' \<in> set (cf_mutation_journal (finished_config UnknownError 6 armed_config live_entry)). mj_id e' = ''m1''"
proof -
  have st: "sys_step sample_ops sample_views dispatched_system
      (set_phase 0 Idle (commit (finished_config UnknownError 6 armed_config live_entry) dispatched_system))"
    by (rule sys_step.finish) (simp_all add: dispatched_system_def)
  have e: "live_entry \<in> set (cf_mutation_journal (sy_disk dispatched_system))"
    "mj_state live_entry \<notin> {Completed, Rejected}" "mj_id live_entry = ''m1''"
    by (simp_all add: dispatched_system_def armed_config_def) (simp_all add: live_entry_def)
  show ?thesis
    using unresolved_entries_survive[OF dispatched_reach st e(1,2)] e(3) by auto
qed

end
